(* ===== verification/Prelude.thy ===== *)
theory Prelude
  imports Complex_Main "HOL-Library.Sublist"
begin

text \<open>
  Shared vocabulary of the development: strings of the program (JavaScript strings whose code
  units are below 256, as HOL strings), decimal numerals, first-match search, the error monad the
  throwing functions use, and the collections of facts the component theories extend.
\<close>

section \<open>Fact collections\<close>

text \<open>
  \<open>rule_defs\<close>: the definitions of the guards and rules of the policy engine.
  \<open>decision_simps\<close>: the fields of the decisions they build.
  \<open>job_defs\<close>: the operations of the job queue.
\<close>

named_theorems rule_defs
named_theorems decision_simps
named_theorems job_defs

section \<open>Lists\<close>

text \<open>\<open>array.find(p)\<close> is \<^const>\<open>List.find\<close>; a list of guards that each may answer is run in
  order and the first answer wins.\<close>

fun first_some :: "('a \<Rightarrow> 'b option) list \<Rightarrow> 'a \<Rightarrow> 'b option" where
  "first_some [] x = None"
| "first_some (f # fs) x = (case f x of None \<Rightarrow> first_some fs x | Some y \<Rightarrow> Some y)"

lemma first_some_None_iff: "first_some fs x = None \<longleftrightarrow> (\<forall>f \<in> set fs. f x = None)"
  by (induction fs) (auto split: option.splits)

lemma first_some_SomeD: "first_some fs x = Some y \<Longrightarrow> \<exists>f \<in> set fs. f x = Some y"
  by (induction fs) (auto split: option.splits)

lemma first_some_append:
  "first_some (fs @ gs) x = (case first_some fs x of None \<Rightarrow> first_some gs x | Some y \<Rightarrow> Some y)"
  by (induction fs) (auto split: option.splits)

lemma first_some_split:
  "first_some fs x = Some y \<Longrightarrow>
     \<exists>as f bs. fs = as @ f # bs \<and> (\<forall>g \<in> set as. g x = None) \<and> f x = Some y"
proof (induction fs)
  case (Cons f fs)
  show ?case
  proof (cases "f x")
    case None
    with Cons obtain as g bs where
      "fs = as @ g # bs" and "\<forall>h \<in> set as. h x = None" and "g x = Some y" by auto
    with None show ?thesis by (intro exI [of _ "f # as"] exI [of _ g] exI [of _ bs]) auto
  next
    case (Some z)
    with Cons.prems have "f x = Some y" by simp
    then show ?thesis by (intro exI [of _ "[]"]) auto
  qed
qed simp

lemma find_Some_in: "List.find P xs = Some x \<Longrightarrow> x \<in> set xs \<and> P x"
  by (induction xs) (auto split: if_splits)

lemma find_None_all: "List.find P xs = None \<longleftrightarrow> (\<forall>x \<in> set xs. \<not> P x)"
  by (induction xs) auto

lemma map_of_Some_in: "map_of xs k = Some v \<Longrightarrow> (k, v) \<in> set xs"
  by (rule map_of_SomeD)

text \<open>A row is found by its unique key.\<close>

lemma filter_unique_key:
  "distinct (map k xs) \<Longrightarrow> x \<in> set xs \<Longrightarrow> filter (\<lambda>y. k y = k x) xs = [x]"
proof (induction xs)
  case (Cons y ys)
  show ?case
  proof (cases "x = y")
    case True
    with Cons.prems(1) have "k x \<notin> k ` set ys" by simp
    then have "filter (\<lambda>z. k z = k x) ys = []" unfolding filter_empty_conv by (metis imageI)
    with True show ?thesis by simp
  next
    case False
    with Cons.prems have "x \<in> set ys" "k y \<noteq> k x" by auto
    with Cons show ?thesis by simp
  qed
qed simp

lemma unique_key_eq: "distinct (map k xs) \<Longrightarrow> x \<in> set xs \<Longrightarrow> y \<in> set xs \<Longrightarrow> k x = k y \<Longrightarrow> x = y"
  by (auto simp: distinct_map inj_on_def)

lemma concat_map_if: "concat (map (\<lambda>x. if P x then f x else []) xs) = concat (map f (filter P xs))"
  by (induction xs) auto

text \<open>\<open>[...new Set(xs)]\<close>: the first occurrence of each element, in order.\<close>

fun nub_from :: "'a list \<Rightarrow> 'a list \<Rightarrow> 'a list" where
  "nub_from seen [] = []"
| "nub_from seen (x # xs) =
     (if x \<in> set seen then nub_from seen xs else x # nub_from (x # seen) xs)"

definition nub :: "'a list \<Rightarrow> 'a list" where
  "nub xs = nub_from [] xs"

lemma set_nub_from: "set (nub_from seen xs) = set xs - set seen"
  by (induction xs arbitrary: seen) auto

lemma set_nub [simp]: "set (nub xs) = set xs"
  by (simp add: nub_def set_nub_from)

lemma distinct_nub_from: "distinct (nub_from seen xs)"
  by (induction xs arbitrary: seen) (auto simp: set_nub_from)

lemma distinct_nub [simp]: "distinct (nub xs)"
  by (simp add: nub_def distinct_nub_from)

text \<open>The loops that keep the first element of each key, given the keys seen before.\<close>

fun nub_by :: "('a \<Rightarrow> 'k) \<Rightarrow> 'k list \<Rightarrow> 'a list \<Rightarrow> 'a list" where
  "nub_by k seen [] = []"
| "nub_by k seen (x # xs) =
     (if k x \<in> set seen then nub_by k seen xs else x # nub_by k (k x # seen) xs)"

lemma nub_by_subset: "set (nub_by k seen xs) \<subseteq> set xs"
  by (induction xs arbitrary: seen) (auto split: if_splits)

lemma nub_by_keys: "k ` set (nub_by k seen xs) = k ` set xs - set seen"
  by (induction xs arbitrary: seen) auto

lemma nub_by_distinct: "distinct (map k (nub_by k seen xs))"
proof (induction xs arbitrary: seen)
  case (Cons x xs)
  have "k x \<notin> k ` set (nub_by k (k x # seen) xs)" by (simp add: nub_by_keys)
  with Cons show ?case by simp
qed simp

section \<open>The error monad\<close>

text \<open>A function that may throw returns \<open>Inl\<close> of the error or \<open>Inr\<close> of its value.\<close>

definition bind_sum :: "'e + 'a \<Rightarrow> ('a \<Rightarrow> 'e + 'b) \<Rightarrow> 'e + 'b" where
  "bind_sum m f = (case m of Inl e \<Rightarrow> Inl e | Inr x \<Rightarrow> f x)"

lemma bind_sum_simps [simp]:
  "bind_sum (Inl e) f = Inl e"
  "bind_sum (Inr x) f = f x"
  by (simp_all add: bind_sum_def)

lemma bind_sum_Inr_iff: "bind_sum m f = Inr y \<longleftrightarrow> (\<exists>x. m = Inr x \<and> f x = Inr y)"
  by (cases m) auto

fun map_sum_list :: "('a \<Rightarrow> 'e + 'b) \<Rightarrow> 'a list \<Rightarrow> 'e + 'b list" where
  "map_sum_list f [] = Inr []"
| "map_sum_list f (x # xs) =
     bind_sum (f x) (\<lambda>y. bind_sum (map_sum_list f xs) (\<lambda>ys. Inr (y # ys)))"

text \<open>A loop whose body may throw.\<close>

fun fold_sum :: "('s \<Rightarrow> 'a \<Rightarrow> 'e + 's) \<Rightarrow> 's \<Rightarrow> 'a list \<Rightarrow> 'e + 's" where
  "fold_sum f s [] = Inr s"
| "fold_sum f s (x # xs) = bind_sum (f s x) (\<lambda>s'. fold_sum f s' xs)"

lemma fold_sum_append:
  "fold_sum f s (xs @ ys) = bind_sum (fold_sum f s xs) (\<lambda>s'. fold_sum f s' ys)"
  by (induction xs arbitrary: s) (auto simp: bind_sum_def split: sum.splits)

lemma fold_sum_snoc [simp]: "fold_sum f s (xs @ [x]) = bind_sum (fold_sum f s xs) (\<lambda>s'. f s' x)"
  by (auto simp: fold_sum_append bind_sum_def split: sum.splits)

section \<open>Characters and strings\<close>

text \<open>
  \<open>String.prototype.toLowerCase\<close> and \<open>trim\<close> on code units below 256: the upper case letters are
  A-Z and the Latin-1 block 192-222 without 215; the white space is TAB, LF, VT, FF, CR, SPACE
  and NBSP. \<open>\s\<close> of a regular expression is the same set.
\<close>

definition lower_char :: "char \<Rightarrow> char" where
  "lower_char c =
     (let n = (of_char c :: nat)
      in if 65 \<le> n \<and> n \<le> 90 \<or> 192 \<le> n \<and> n \<le> 222 \<and> n \<noteq> 215 then char_of (n + 32) else c)"

definition to_lower :: "string \<Rightarrow> string" where
  "to_lower s = map lower_char s"

definition is_space :: "char \<Rightarrow> bool" where
  "is_space c \<longleftrightarrow> (of_char c :: nat) \<in> {9, 10, 11, 12, 13, 32, 160}"

lemmas lower_eval = to_lower_def lower_char_def char_of_eq_iff

definition trim_left :: "string \<Rightarrow> string" where
  "trim_left s = dropWhile is_space s"

definition trim :: "string \<Rightarrow> string" where
  "trim s = rev (trim_left (rev (trim_left s)))"

fun contains :: "string \<Rightarrow> string \<Rightarrow> bool" where
  "contains s p = (prefix p s \<or> (case s of [] \<Rightarrow> False | _ # s' \<Rightarrow> contains s' p))"

declare contains.simps [simp del]

lemma contains_iff_sublist: "contains s p \<longleftrightarrow> sublist p s"
proof (induction s)
  case Nil
  show ?case by (subst contains.simps) auto
next
  case (Cons c s)
  then show ?case by (subst contains.simps) (auto simp: sublist_Cons_right)
qed

text \<open>\<open>s.split(c)\<close> for a one-character separator; \<open>parts.join(sep)\<close>.\<close>

fun split_on :: "char \<Rightarrow> string \<Rightarrow> string list" where
  "split_on c [] = [[]]"
| "split_on c (x # xs) =
     (if x = c then [] # split_on c xs
      else (case split_on c xs of [] \<Rightarrow> [[x]] | p # ps \<Rightarrow> (x # p) # ps))"

fun join :: "string \<Rightarrow> string list \<Rightarrow> string" where
  "join sep [] = []"
| "join sep [p] = p"
| "join sep (p # q # ps) = p @ sep @ join sep (q # ps)"

lemma split_on_nonempty [simp]: "split_on c s \<noteq> []"
  by (induction s) (auto split: list.splits)

lemma join_Cons: "ps \<noteq> [] \<Longrightarrow> join sep (p # ps) = p @ sep @ join sep ps"
  by (cases ps) auto

lemma join_split_on [simp]: "join [c] (split_on c s) = s"
proof (induction s)
  case (Cons x s)
  obtain p ps where "split_on c s = p # ps" by (cases "split_on c s") auto
  with Cons show ?case by (cases ps) (auto simp: join_Cons)
qed simp

lemma split_on_notin: "c \<notin> set s \<Longrightarrow> split_on c s = [s]"
  by (induction s) auto

lemma split_on_append: "c \<notin> set s \<Longrightarrow> split_on c (s @ c # t) = s # split_on c t"
  by (induction s) auto

lemma split_on_join:
  "ps \<noteq> [] \<Longrightarrow> (\<And>p. p \<in> set ps \<Longrightarrow> c \<notin> set p) \<Longrightarrow> split_on c (join [c] ps) = ps"
proof (induction ps rule: list_nonempty_induct)
  case (cons p ps)
  then show ?case by (simp add: join_Cons split_on_append)
qed (simp add: split_on_notin)

section \<open>Decimal numerals\<close>

text \<open>\<open>BigInt.prototype.toString\<close> of a natural number and \<open>BigInt(digits)\<close>.\<close>

definition digit_char :: "nat \<Rightarrow> char" where
  "digit_char d = char_of (48 + d)"

definition digit_val :: "char \<Rightarrow> nat" where
  "digit_val c = of_char c - 48"

definition is_digit :: "char \<Rightarrow> bool" where
  "is_digit c \<longleftrightarrow> 48 \<le> (of_char c :: nat) \<and> (of_char c :: nat) \<le> 57"

fun dec_of_nat :: "nat \<Rightarrow> string" where
  "dec_of_nat n = (if n < 10 then [digit_char n] else dec_of_nat (n div 10) @ [digit_char (n mod 10)])"

declare dec_of_nat.simps [simp del]

definition nat_of_dec :: "string \<Rightarrow> nat" where
  "nat_of_dec s = foldl (\<lambda>a c. 10 * a + digit_val c) 0 s"

lemma digit_val_char [simp]: "d < 10 \<Longrightarrow> digit_val (digit_char d) = d"
  by (simp add: digit_val_def digit_char_def of_char_of take_bit_eq_mod)

lemma is_digit_char [simp]: "d < 10 \<Longrightarrow> is_digit (digit_char d)"
  by (simp add: is_digit_def digit_char_def of_char_of take_bit_eq_mod)

lemma digit_char_val [simp]: "is_digit c \<Longrightarrow> digit_char (digit_val c) = c"
  by (simp add: is_digit_def digit_char_def digit_val_def)

lemma digit_val_less: "is_digit c \<Longrightarrow> digit_val c < 10"
  by (auto simp: is_digit_def digit_val_def)

lemma nat_of_dec_Nil [simp]: "nat_of_dec [] = 0"
  by (simp add: nat_of_dec_def)

lemma nat_of_dec_snoc [simp]: "nat_of_dec (s @ [c]) = 10 * nat_of_dec s + digit_val c"
  by (simp add: nat_of_dec_def)

lemma nat_of_dec_append: "nat_of_dec (s @ t) = nat_of_dec s * 10 ^ length t + nat_of_dec t"
proof (induction t rule: rev_induct)
  case (snoc c t)
  then show ?case
    by (simp add: nat_of_dec_def algebra_simps flip: append_assoc)
qed simp

lemma nat_of_dec_dec_of_nat [simp]: "nat_of_dec (dec_of_nat n) = n"
proof (induction n rule: dec_of_nat.induct)
  case (1 n)
  show ?case
  proof (cases "n < 10")
    case True
    then show ?thesis using nat_of_dec_snoc [of "[]" "digit_char n"]
      by (simp add: dec_of_nat.simps [of n])
  next
    case False
    with 1 show ?thesis by (simp add: dec_of_nat.simps [of n])
  qed
qed

lemma dec_of_nat_digits [simp]: "\<forall>c \<in> set (dec_of_nat n). is_digit c"
proof (induction n rule: dec_of_nat.induct)
  case (1 n)
  then show ?case by (cases "n < 10") (auto simp: dec_of_nat.simps [of n])
qed

lemma dec_of_nat_nonempty [simp]: "dec_of_nat n \<noteq> []"
  by (subst dec_of_nat.simps) simp

lemma dec_of_nat_inj: "dec_of_nat m = dec_of_nat n \<Longrightarrow> m = n"
  by (metis nat_of_dec_dec_of_nat)

lemma digit_not_space: "is_digit c \<Longrightarrow> \<not> is_space c"
  by (auto simp: is_digit_def is_space_def)

lemma trim_id:
  "s \<noteq> [] \<Longrightarrow> \<not> is_space (hd s) \<Longrightarrow> \<not> is_space (last s) \<Longrightarrow> trim s = s"
proof -
  assume s: "s \<noteq> []" "\<not> is_space (hd s)" "\<not> is_space (last s)"
  then have "dropWhile is_space s = s" by (simp add: dropWhile_eq_self_iff)
  moreover from s have "dropWhile is_space (rev s) = rev s" by (simp add: dropWhile_eq_self_iff hd_rev)
  ultimately show ?thesis by (simp add: trim_def trim_left_def)
qed

lemma dec_of_nat_trim [simp]: "trim (dec_of_nat n) = dec_of_nat n"
  using dec_of_nat_digits [of n] dec_of_nat_nonempty [of n]
  by (intro trim_id) (metis digit_not_space hd_in_set last_in_set)+

lemma dec_of_nat_notin: "\<not> is_digit c \<Longrightarrow> c \<notin> set (dec_of_nat n)"
  using dec_of_nat_digits [of n] by blast

text \<open>\<open>padStart(n, "0")\<close>.\<close>

definition pad_zeros :: "nat \<Rightarrow> string \<Rightarrow> string" where
  "pad_zeros n s = replicate (n - length s) (CHR ''0'') @ s"

lemma digit_val_zero [simp]: "digit_val (CHR ''0'') = 0"
  by (simp add: digit_val_def)

lemma is_digit_zero [simp]: "is_digit (CHR ''0'')"
  by (simp add: is_digit_def)

lemma nat_of_dec_replicate_zero [simp]: "nat_of_dec (replicate k (CHR ''0'')) = 0"
  by (induction k) (simp_all add: replicate_append_same [symmetric] del: replicate_Suc,
     simp add: nat_of_dec_def)

lemma nat_of_dec_zeros [simp]: "nat_of_dec (replicate k (CHR ''0'') @ s) = nat_of_dec s"
  by (simp add: nat_of_dec_append)

lemma nat_of_dec_pad_zeros [simp]: "nat_of_dec (pad_zeros n s) = nat_of_dec s"
  by (simp add: pad_zeros_def)

lemma length_pad_zeros [simp]: "length (pad_zeros n s) = max n (length s)"
  by (simp add: pad_zeros_def)

lemma pad_zeros_digits: "\<forall>c \<in> set s. is_digit c \<Longrightarrow> \<forall>c \<in> set (pad_zeros n s). is_digit c"
  by (auto simp: pad_zeros_def)

end
