(* ===== verification/FinDecimal.thy ===== *)
theory FinDecimal
  imports Prelude
begin

text \<open>
  Exact decimal arithmetic of the ledger plugin, \<open>finance_ledger/server/src/domain/decimal.ts\<close>. A
  value is a big integer coefficient and a scale; its field \<open>decimal\<close> is always the printed form of
  the two, so it is the function \<open>decimal_text\<close> here. The lemmas relate every operation to the
  rational number a value denotes and show that printing and parsing are inverse.
\<close>

section \<open>The operations\<close>

record decimal =
  dec_coefficient :: int
  dec_places :: nat

text \<open>A function that throws \<open>Error(message)\<close> returns \<open>Inl message\<close>.\<close>

type_synonym 'a res = "string + 'a"

text \<open>\<open>DECIMAL_RE\<close>: an optional sign, then digits with an optional fraction, or a fraction.\<close>

definition strip_sign :: "string \<Rightarrow> string" where
  "strip_sign s = (case s of c # cs \<Rightarrow> if c = CHR ''+'' \<or> c = CHR ''-'' then cs else s | [] \<Rightarrow> [])"

definition decimal_syntax :: "string \<Rightarrow> bool" where
  "decimal_syntax s \<longleftrightarrow>
     (let u = strip_sign s; whole = takeWhile is_digit u; rest = dropWhile is_digit u
      in (case rest of
            [] \<Rightarrow> whole \<noteq> []
          | c # ds \<Rightarrow> c = CHR ''.'' \<and> list_all is_digit ds \<and> (whole \<noteq> [] \<or> ds \<noteq> [])))"

text \<open>\<open>input.replace(/^0+(?=\d)/, "") || "0"\<close>.\<close>

fun strip_zeros :: "string \<Rightarrow> string" where
  "strip_zeros (c # d # cs) = (if c = CHR ''0'' \<and> is_digit d then strip_zeros (d # cs) else c # d # cs)"
| "strip_zeros s = s"

definition stripLeadingZeros :: "string \<Rightarrow> string" where
  "stripLeadingZeros s = (let stripped = strip_zeros s in if stripped = [] then ''0'' else stripped)"

definition formatCoefficient :: "int \<Rightarrow> nat \<Rightarrow> string" where
  "formatCoefficient coefficient scale =
     (let negative = coefficient < 0;
          absolute = nat \<bar>coefficient\<bar>;
          sign = (if negative \<and> absolute \<noteq> 0 then ''-'' else [])
      in if scale = 0 then sign @ dec_of_nat absolute
         else
           let padded = pad_zeros (scale + 1) (dec_of_nat absolute);
               whole = stripLeadingZeros (take (length padded - scale) padded);
               fractional = drop (length padded - scale) padded
           in sign @ whole @ ''.'' @ fractional)"

definition decimal_text :: "decimal \<Rightarrow> string" where
  "decimal_text d = formatCoefficient (dec_coefficient d) (dec_places d)"

definition decimalFromCoefficient :: "int \<Rightarrow> nat \<Rightarrow> decimal" where
  "decimalFromCoefficient coefficient scale = \<lparr>dec_coefficient = coefficient, dec_places = scale\<rparr>"

definition parseDecimal :: "string \<Rightarrow> decimal res" where
  "parseDecimal input =
     (let raw = trim input
      in if \<not> decimal_syntax raw then Inl (''Invalid decimal value: '' @ input)
         else
           let negative = (case raw of c # _ \<Rightarrow> c = CHR ''-'' | [] \<Rightarrow> False);
               unsigned = strip_sign raw;
               parts = split_on (CHR ''.'') unsigned;
               wholeRaw = (case parts of w # _ \<Rightarrow> w | [] \<Rightarrow> []);
               fractionalRaw = (case parts of _ # f # _ \<Rightarrow> f | _ \<Rightarrow> []);
               scale = length fractionalRaw;
               whole = stripLeadingZeros (if wholeRaw = [] then ''0'' else wholeRaw);
               joined = whole @ fractionalRaw;
               digits = (if joined = [] then ''0'' else joined);
               coefficient = int (nat_of_dec digits) * (if negative then - 1 else 1)
           in Inr (decimalFromCoefficient coefficient scale))"

definition scaleCoefficient :: "decimal \<Rightarrow> nat \<Rightarrow> int" where
  "scaleCoefficient v scale = dec_coefficient v * 10 ^ (scale - dec_places v)"

definition addDecimal :: "decimal \<Rightarrow> decimal \<Rightarrow> decimal" where
  "addDecimal l r =
     (let scale = max (dec_places l) (dec_places r)
      in decimalFromCoefficient (scaleCoefficient l scale + scaleCoefficient r scale) scale)"

definition negateDecimal :: "decimal \<Rightarrow> decimal" where
  "negateDecimal v = decimalFromCoefficient (- dec_coefficient v) (dec_places v)"

definition multiplyDecimal :: "decimal \<Rightarrow> decimal \<Rightarrow> decimal" where
  "multiplyDecimal l r =
     decimalFromCoefficient (dec_coefficient l * dec_coefficient r) (dec_places l + dec_places r)"

definition compareDecimal :: "decimal \<Rightarrow> decimal \<Rightarrow> int" where
  "compareDecimal l r =
     (let scale = max (dec_places l) (dec_places r);
          a = scaleCoefficient l scale;
          b = scaleCoefficient r scale
      in if a = b then 0 else if a < b then - 1 else 1)"

definition isZeroDecimal :: "decimal \<Rightarrow> bool" where
  "isZeroDecimal v \<longleftrightarrow> dec_coefficient v = 0"

definition decimalEquals :: "decimal \<Rightarrow> decimal \<Rightarrow> bool" where
  "decimalEquals l r \<longleftrightarrow> compareDecimal l r = 0"

section \<open>The number a value denotes\<close>

definition value_of :: "decimal \<Rightarrow> rat" where
  "value_of d = of_int (dec_coefficient d) / 10 ^ dec_places d"

lemma decimalFromCoefficient_simps [simp]:
  "dec_coefficient (decimalFromCoefficient c n) = c"
  "dec_places (decimalFromCoefficient c n) = n"
  by (simp_all add: decimalFromCoefficient_def)

lemma value_of_from [simp]: "value_of (decimalFromCoefficient c n) = of_int c / 10 ^ n"
  by (simp add: value_of_def)

lemma decimal_collapse [simp]: "decimalFromCoefficient (dec_coefficient d) (dec_places d) = d"
  by (simp add: decimalFromCoefficient_def)

lemma value_of_scaled:
  "dec_places v \<le> n \<Longrightarrow> of_int (scaleCoefficient v n) / 10 ^ n = value_of v"
proof -
  assume "dec_places v \<le> n"
  then obtain k where "n = dec_places v + k" using le_Suc_ex by blast
  then show ?thesis by (simp add: scaleCoefficient_def value_of_def power_add)
qed

lemma of_int_scaled:
  "dec_places v \<le> n \<Longrightarrow> (of_int (scaleCoefficient v n) :: rat) = value_of v * 10 ^ n"
  using value_of_scaled [of v n] by (simp add: field_simps)

lemma value_of_add [simp]: "value_of (addDecimal l r) = value_of l + value_of r"
  by (simp add: addDecimal_def Let_def of_int_scaled add_divide_distrib)

lemma value_of_negate [simp]: "value_of (negateDecimal v) = - value_of v"
  by (simp add: negateDecimal_def value_of_def)

lemma value_of_multiply [simp]: "value_of (multiplyDecimal l r) = value_of l * value_of r"
  by (simp add: multiplyDecimal_def value_of_def power_add)

lemma compareDecimal_eq:
  "compareDecimal l r = (if value_of l = value_of r then 0 else if value_of l < value_of r then - 1 else 1)"
proof -
  let ?n = "max (dec_places l) (dec_places r)"
  have "scaleCoefficient l ?n = scaleCoefficient r ?n \<longleftrightarrow> value_of l = value_of r"
    by (simp flip: of_int_eq_iff [where 'a = rat] add: of_int_scaled)
  moreover have "scaleCoefficient l ?n < scaleCoefficient r ?n \<longleftrightarrow> value_of l < value_of r"
    by (simp flip: of_int_less_iff [where 'a = rat] add: of_int_scaled)
  ultimately show ?thesis by (simp add: compareDecimal_def Let_def)
qed

lemma compareDecimal_le [simp]: "compareDecimal l r \<le> 0 \<longleftrightarrow> value_of l \<le> value_of r"
  by (auto simp: compareDecimal_eq)

lemma compareDecimal_less [simp]: "compareDecimal l r < 0 \<longleftrightarrow> value_of l < value_of r"
  by (auto simp: compareDecimal_eq)

lemma decimalEquals_iff [simp]: "decimalEquals l r \<longleftrightarrow> value_of l = value_of r"
  by (auto simp: decimalEquals_def compareDecimal_eq)

lemma isZeroDecimal_iff [simp]: "isZeroDecimal v \<longleftrightarrow> value_of v = 0"
  by (simp add: isZeroDecimal_def value_of_def)

section \<open>Printing and parsing\<close>

lemma nat_of_dec_Cons_zero [simp]: "nat_of_dec (CHR ''0'' # s) = nat_of_dec s"
  by (simp add: nat_of_dec_def)

lemma nat_of_dec_strip_zeros [simp]: "nat_of_dec (strip_zeros s) = nat_of_dec s"
  by (induction s rule: strip_zeros.induct) simp_all

lemma strip_zeros_eq_Nil [simp]: "strip_zeros s = [] \<longleftrightarrow> s = []"
  by (induction s rule: strip_zeros.induct) simp_all

lemma nat_of_dec_stripLeadingZeros [simp]: "nat_of_dec (stripLeadingZeros s) = nat_of_dec s"
  by (simp add: stripLeadingZeros_def Let_def)

lemma stripLeadingZeros_nonempty [simp]: "stripLeadingZeros s \<noteq> []"
  by (simp add: stripLeadingZeros_def Let_def)

lemma set_strip_zeros: "set (strip_zeros s) \<subseteq> set s"
  by (induction s rule: strip_zeros.induct) auto

lemma stripLeadingZeros_digits: "\<forall>c \<in> set s. is_digit c \<Longrightarrow> \<forall>c \<in> set (stripLeadingZeros s). is_digit c"
  using set_strip_zeros [of s] by (auto simp: stripLeadingZeros_def Let_def)

lemma strip_zeros_idem: "strip_zeros (strip_zeros s) = strip_zeros s"
  by (induction s rule: strip_zeros.induct) auto

lemma stripLeadingZeros_idem [simp]: "stripLeadingZeros (stripLeadingZeros s) = stripLeadingZeros s"
  by (auto simp: stripLeadingZeros_def Let_def strip_zeros_idem)

text \<open>The shape of a printed value: sign, whole digits, and the digits of the fraction if any.\<close>

definition sign_text :: "bool \<Rightarrow> string" where
  "sign_text neg = (if neg then ''-'' else [])"

definition fraction_text :: "string \<Rightarrow> string" where
  "fraction_text f = (if f = [] then [] else CHR ''.'' # f)"

lemma not_digit_point [simp]: "\<not> is_digit (CHR ''.'')" and not_digit_minus [simp]: "\<not> is_digit (CHR ''-'')"
  and not_digit_plus [simp]: "\<not> is_digit (CHR ''+'')"
  by (simp_all add: is_digit_def)

lemma digit_not_point: "is_digit c \<Longrightarrow> c \<noteq> CHR ''.'' \<and> c \<noteq> CHR ''-'' \<and> c \<noteq> CHR ''+''"
  by auto

lemma trim_layout:
  assumes "w \<noteq> []" and "\<forall>c \<in> set w. is_digit c" and "\<forall>c \<in> set f. is_digit c"
  shows "trim (sign_text neg @ w @ fraction_text f) = sign_text neg @ w @ fraction_text f"
proof (rule trim_id)
  show "sign_text neg @ w @ fraction_text f \<noteq> []" using assms(1) by simp
  show "\<not> is_space (hd (sign_text neg @ w @ fraction_text f))"
    using assms by (cases w) (auto simp: sign_text_def digit_not_space is_space_def [of "CHR ''-''"])
  show "\<not> is_space (last (sign_text neg @ w @ fraction_text f))"
    using assms last_in_set [of w] last_in_set [of f]
    by (auto simp: fraction_text_def digit_not_space)
qed

lemma strip_sign_layout:
  assumes "w \<noteq> []" and "\<forall>c \<in> set w. is_digit c"
  shows "strip_sign (sign_text neg @ w @ t) = w @ t"
  using assms by (cases w) (auto simp: sign_text_def strip_sign_def digit_not_point)

lemma takeWhile_digits: "\<forall>c \<in> set w. is_digit c \<Longrightarrow> takeWhile is_digit (w @ fraction_text f) = w"
  and dropWhile_digits: "\<forall>c \<in> set w. is_digit c \<Longrightarrow> dropWhile is_digit (w @ fraction_text f) = fraction_text f"
  by (auto simp: takeWhile_append dropWhile_append fraction_text_def takeWhile_eq_Nil_iff
      takeWhile_eq_all_conv)

lemma decimal_syntax_layout:
  assumes "w \<noteq> []" and "\<forall>c \<in> set w. is_digit c" and "\<forall>c \<in> set f. is_digit c"
  shows "decimal_syntax (sign_text neg @ w @ fraction_text f)"
  using assms
  unfolding decimal_syntax_def Let_def strip_sign_layout [OF assms(1,2)] takeWhile_digits [OF assms(2)]
    dropWhile_digits [OF assms(2)]
  by (simp add: fraction_text_def list_all_iff)

lemma split_layout:
  assumes "\<forall>c \<in> set w. is_digit c" and "\<forall>c \<in> set f. is_digit c"
  shows "split_on (CHR ''.'') (w @ fraction_text f) = (if f = [] then [w] else [w, f])"
proof -
  from assms have "CHR ''.'' \<notin> set w" and "CHR ''.'' \<notin> set f" by (auto dest: digit_not_point)
  then show ?thesis by (simp add: fraction_text_def split_on_notin split_on_append)
qed

lemma parse_layout:
  assumes "w \<noteq> []" and "\<forall>c \<in> set w. is_digit c" and "\<forall>c \<in> set f. is_digit c"
  shows "parseDecimal (sign_text neg @ w @ fraction_text f) =
    Inr (decimalFromCoefficient (int (nat_of_dec (w @ f)) * (if neg then - 1 else 1)) (length f))"
proof -
  have neg: "(case sign_text neg @ w @ fraction_text f of c # _ \<Rightarrow> c = CHR ''-'' | [] \<Rightarrow> False) = neg"
    using assms(1,2) by (cases w) (auto simp: sign_text_def)
  show ?thesis
    unfolding parseDecimal_def Let_def trim_layout [OF assms] neg
    using assms by (simp add: decimal_syntax_layout strip_sign_layout split_layout nat_of_dec_append)
qed

lemma format_layout:
  "\<exists>w f. decimal_text d = sign_text (dec_coefficient d < 0) @ w @ fraction_text f \<and> w \<noteq> [] \<and>
     (\<forall>c \<in> set w. is_digit c) \<and> (\<forall>c \<in> set f. is_digit c) \<and> length f = dec_places d \<and>
     nat_of_dec (w @ f) = nat \<bar>dec_coefficient d\<bar>"
proof (cases "dec_places d = 0")
  case True
  then show ?thesis
    by (intro exI [of _ "dec_of_nat (nat \<bar>dec_coefficient d\<bar>)"] exI [of _ "[]"])
      (auto simp: decimal_text_def formatCoefficient_def sign_text_def fraction_text_def Let_def)
next
  case False
  define p where "p = pad_zeros (dec_places d + 1) (dec_of_nat (nat \<bar>dec_coefficient d\<bar>))"
  define a where "a = take (length p - dec_places d) p"
  define b where "b = drop (length p - dec_places d) p"
  have digits: "\<forall>c \<in> set p. is_digit c" unfolding p_def by (rule pad_zeros_digits) simp
  have len: "dec_places d < length p" by (simp add: p_def)
  have "nat_of_dec p = nat \<bar>dec_coefficient d\<bar>" by (simp add: p_def)
  moreover have "p = a @ b" by (simp add: a_def b_def)
  ultimately have val: "nat_of_dec (a @ b) = nat \<bar>dec_coefficient d\<bar>" by simp
  have "\<forall>c \<in> set a. is_digit c" and b: "\<forall>c \<in> set b. is_digit c" and lb: "length b = dec_places d"
    using digits len by (auto simp: a_def b_def dest: in_set_takeD in_set_dropD)
  then have a: "\<forall>c \<in> set (stripLeadingZeros a). is_digit c" by (intro stripLeadingZeros_digits)
  have "decimal_text d = sign_text (dec_coefficient d < 0) @ stripLeadingZeros a @ fraction_text b"
  proof -
    have "b \<noteq> []" using False lb by auto
    then show ?thesis
      unfolding decimal_text_def formatCoefficient_def Let_def p_def [symmetric] a_def [symmetric]
        b_def [symmetric]
      using False by (simp add: sign_text_def fraction_text_def)
  qed
  moreover have "nat_of_dec (stripLeadingZeros a @ b) = nat \<bar>dec_coefficient d\<bar>"
    using val by (simp add: nat_of_dec_append)
  ultimately show ?thesis
    using a b lb by (intro exI [of _ "stripLeadingZeros a"] exI [of _ b]) simp
qed

lemma parse_decimal_text: "parseDecimal (decimal_text d) = Inr d"
proof -
  from format_layout [of d] obtain w f
    where t: "decimal_text d = sign_text (dec_coefficient d < 0) @ w @ fraction_text f"
      and w: "w \<noteq> []" "\<forall>c \<in> set w. is_digit c" and f: "\<forall>c \<in> set f. is_digit c"
      and n: "length f = dec_places d" "nat_of_dec (w @ f) = nat \<bar>dec_coefficient d\<bar>"
    by (elim exE conjE) (rule that)
  have "int (nat \<bar>dec_coefficient d\<bar>) * (if dec_coefficient d < 0 then - 1 else 1) = dec_coefficient d"
    by simp
  then show ?thesis
    unfolding t parse_layout [OF w f] n by (simp only: decimal_collapse)
qed

lemma decimal_text_inject: "decimal_text a = decimal_text b \<longleftrightarrow> a = b"
  by (metis parse_decimal_text sum.inject(2))

section \<open>Properties\<close>

text \<open>
  C7: the printed form of a value reads back as the same value, with the same scale, so no digit
  is lost or rounded between the text of a ledger and its arithmetic.
\<close>

theorem decimal_roundtrip: "parseDecimal (decimal_text d) = Inr d"
  by (rule parse_decimal_text)

text \<open>
  The operations are exact on the rationals the values denote: sum, negation and product
  without rounding, and a comparison by sign whatever the scales.
\<close>

theorem decimal_exact:
  "value_of (addDecimal l r) = value_of l + value_of r \<and>
   value_of (negateDecimal l) = - value_of l \<and>
   value_of (multiplyDecimal l r) = value_of l * value_of r \<and>
   compareDecimal l r = (if value_of l < value_of r then - 1 else if value_of l = value_of r then 0 else 1) \<and>
   (isZeroDecimal l \<longleftrightarrow> value_of l = 0)"
  by (auto simp: compareDecimal_eq)

end
