(* ===== verification/StableSort.thy ===== *)
theory StableSort
  imports Prelude "HOL-Library.Multiset" "HOL-Library.List_Lexorder" "HOL-Library.Char_ord"
begin

text \<open>
  \<open>Array.prototype.sort\<close> with a comparator, and the contract a comparator has to meet for it:
  shared by the ledger's entry order, the inventory, the claim order of the job queue and the router.
\<close>

section \<open>Sorting by a comparator\<close>

text \<open>\<open>Array.prototype.sort\<close> is stable: an element goes after its equals.\<close>

fun insort_by :: "('a \<Rightarrow> 'a \<Rightarrow> int) \<Rightarrow> 'a \<Rightarrow> 'a list \<Rightarrow> 'a list" where
  "insort_by cmp x [] = [x]"
| "insort_by cmp x (y # ys) = (if cmp x y \<le> 0 then x # y # ys else y # insort_by cmp x ys)"

definition sort_by :: "('a \<Rightarrow> 'a \<Rightarrow> int) \<Rightarrow> 'a list \<Rightarrow> 'a list" where
  "sort_by cmp xs = foldr (insort_by cmp) xs []"

lemma set_insort_by [simp]: "set (insort_by cmp x ys) = insert x (set ys)"
  by (induction ys) auto

lemma set_sort_by [simp]: "set (sort_by cmp xs) = set xs"
  by (induction xs) (simp_all add: sort_by_def)

lemma length_insort_by [simp]: "length (insort_by cmp x ys) = Suc (length ys)"
  by (induction ys) auto

lemma length_sort_by [simp]: "length (sort_by cmp xs) = length xs"
  by (induction xs) (simp_all add: sort_by_def)

section \<open>The contract of a comparator\<close>

text \<open>
  What \<open>Array.prototype.sort\<close> asks of its comparator, and what it then promises: an ordered
  permutation in which equal elements keep their order.
\<close>

locale comparator =
  fixes cmp :: "'a \<Rightarrow> 'a \<Rightarrow> int"
  assumes total: "cmp x y \<le> 0 \<or> cmp y x \<le> 0"
    and trans: "cmp x y \<le> 0 \<Longrightarrow> cmp y z \<le> 0 \<Longrightarrow> cmp x z \<le> 0"
begin

lemma mset_insort: "mset (insort_by cmp x ys) = add_mset x (mset ys)"
  by (induction ys) auto

lemma mset_sort: "mset (sort_by cmp xs) = mset xs"
  by (induction xs) (simp_all add: sort_by_def mset_insort)

lemma sorted_insort:
  "sorted_wrt (\<lambda>x y. cmp x y \<le> 0) ys \<Longrightarrow> sorted_wrt (\<lambda>x y. cmp x y \<le> 0) (insort_by cmp x ys)"
proof (induction ys)
  case (Cons y ys)
  then show ?case using total [of x y] trans [of x y] by auto
qed simp

lemma sorted_sort: "sorted_wrt (\<lambda>x y. cmp x y \<le> 0) (sort_by cmp xs)"
  by (induction xs) (simp_all add: sort_by_def sorted_insort)

lemma insort_first: "\<forall>y \<in> set ys. cmp x y \<le> 0 \<Longrightarrow> insort_by cmp x ys = x # ys"
  by (cases ys) auto

lemma sort_sorted: "sorted_wrt (\<lambda>x y. cmp x y \<le> 0) xs \<Longrightarrow> sort_by cmp xs = xs"
  by (induction xs) (simp_all add: sort_by_def insort_first)

lemma sort_idem: "sort_by cmp (sort_by cmp xs) = sort_by cmp xs"
  by (rule sort_sorted) (rule sorted_sort)

lemma filter_insort:
  "sorted_wrt (\<lambda>x y. cmp x y \<le> 0) ys \<Longrightarrow>
     filter P (insort_by cmp x ys) =
     (if P x then insort_by cmp x (filter P ys) else filter P ys)"
proof (induction ys)
  case (Cons y ys)
  then have "cmp x y \<le> 0 \<Longrightarrow> \<forall>z \<in> set (filter P ys). cmp x z \<le> 0" using trans by auto
  with Cons show ?case by (auto simp: insort_first)
qed simp

lemma sort_filter: "sort_by cmp (filter P xs) = filter P (sort_by cmp xs)"
  by (induction xs) (simp_all add: sort_by_def filter_insort sorted_sort [unfolded sort_by_def])

lemma distinct_sort: "distinct (sort_by cmp xs) = distinct xs"
  by (metis mset_sort mset_eq_imp_distinct_iff)

text \<open>Where no two different elements are equal for the comparator, the order of the input is irrelevant.\<close>

lemma sorted_unique:
  "sorted_wrt (\<lambda>x y. cmp x y \<le> 0) xs \<Longrightarrow> sorted_wrt (\<lambda>x y. cmp x y \<le> 0) ys \<Longrightarrow> mset xs = mset ys \<Longrightarrow>
   (\<And>x y. x \<in> set xs \<Longrightarrow> y \<in> set xs \<Longrightarrow> cmp x y \<le> 0 \<Longrightarrow> cmp y x \<le> 0 \<Longrightarrow> x = y) \<Longrightarrow> xs = ys"
proof (induction xs arbitrary: ys)
  case (Cons x xs)
  then obtain y zs where ys: "ys = y # zs" by (cases ys) auto
  have sets: "set (x # xs) = set ys" by (rule mset_eq_setD [OF Cons.prems(3)])
  have refl: "cmp z z \<le> 0" for z using total [of z z] by simp
  have y: "y \<in> set (x # xs)" unfolding sets ys by simp
  have x: "x \<in> set (y # zs)" unfolding ys [symmetric] sets [symmetric] by simp
  have "cmp x y \<le> 0" "cmp y x \<le> 0" using Cons.prems(1,2) refl x y ys by auto
  then have "x = y" using Cons.prems(4) [of x y] y by simp
  with Cons ys show ?case by auto
qed simp

lemma sort_permute:
  assumes "mset xs = mset ys"
    and "\<And>x y. x \<in> set xs \<Longrightarrow> y \<in> set xs \<Longrightarrow> cmp x y \<le> 0 \<Longrightarrow> cmp y x \<le> 0 \<Longrightarrow> x = y"
  shows "sort_by cmp xs = sort_by cmp ys"
  using assms by (intro sorted_unique) (auto simp: sorted_sort mset_sort)

definition same :: "'a \<Rightarrow> 'a \<Rightarrow> bool" where
  "same x y \<longleftrightarrow> cmp x y \<le> 0 \<and> cmp y x \<le> 0"

lemma filter_insort_other: "\<not> P x \<Longrightarrow> filter P (insort_by cmp x ys) = filter P ys"
  by (induction ys) auto

lemma filter_insort_same:
  assumes "\<And>y. P y \<Longrightarrow> same x y" and "P x"
  shows "filter P (insort_by cmp x ys) = x # filter P ys"
proof (induction ys)
  case (Cons y ys)
  then show ?case using assms by (auto simp: same_def)
qed (use assms in simp)

lemma stable_class:
  assumes "\<And>x y. P x \<Longrightarrow> P y \<Longrightarrow> same x y"
  shows "filter P (sort_by cmp xs) = filter P xs"
proof (induction xs)
  case (Cons x xs)
  then show ?case
    using filter_insort_same [of P x] filter_insort_other [of P x] assms
    by (cases "P x") (simp_all add: sort_by_def)
qed (simp add: sort_by_def)

lemma stable: "filter (same x) (sort_by cmp xs) = filter (same x) xs"
  by (rule stable_class) (auto simp: same_def intro: trans)

end

text \<open>Comparators built from comparators: on a component, and after a key in descending order.\<close>

lemma comparator_on: "comparator cmp \<Longrightarrow> comparator (\<lambda>x y. cmp (f x) (f y))"
  unfolding comparator_def by blast

lemma comparator_desc:
  fixes k :: "'a \<Rightarrow> 'b :: linorder"
  assumes "comparator cmp"
  shows "comparator (\<lambda>x y. if k x \<noteq> k y then (if k y < k x then -1 else 1) else cmp x y)"
proof -
  have le: "(if k x \<noteq> k y then (if k y < k x then -1 else 1) else cmp x y) \<le> 0 \<longleftrightarrow>
      k y < k x \<or> k x = k y \<and> cmp x y \<le> 0" for x y
    by auto
  show ?thesis
  proof (unfold_locales, goal_cases)
    case (1 x y)
    then show ?case unfolding le using comparator.total [OF assms, of x y] by auto
  next
    case (2 x y z)
    then show ?case unfolding le using comparator.trans [OF assms, of x y z] by auto
  qed
qed

text \<open>The comparison of two texts by their character codes, \<open>a < b ? -1 : a > b ? 1 : 0\<close>.\<close>

definition compare_text :: "string \<Rightarrow> string \<Rightarrow> int" where
  "compare_text a b = (if a = b then 0 else if a < b then - 1 else 1)"

lemma compare_text_le [simp]: "compare_text a b \<le> 0 \<longleftrightarrow> a \<le> b"
  by (auto simp: compare_text_def)

interpretation texts: comparator compare_text
  by unfold_locales auto

end
