(* ===== verification/FinPosition.thy ===== *)
theory FinPosition
  imports FinDecimal StableSort "HOL-Library.AList"
begin

text \<open>
  Amounts, costs, positions and inventories of the ledger plugin: \<open>domain/amount.ts\<close>,
  \<open>domain/position.ts\<close>, \<open>domain/booking.ts\<close>, \<open>domain/accountName.ts\<close> and \<open>domain/inventory.ts\<close>. A
  constructor that re-checks the symbol of an amount which has been checked cannot fail, so only
  the constructors that see a new symbol return a result.
\<close>

section \<open>Amounts\<close>

definition is_upper :: "char \<Rightarrow> bool" where
  "is_upper c \<longleftrightarrow> 65 \<le> (of_char c :: nat) \<and> (of_char c :: nat) \<le> 90"

definition isCommoditySymbol :: "string \<Rightarrow> bool" where
  "isCommoditySymbol s \<longleftrightarrow>
     (case s of [] \<Rightarrow> False
      | c # cs \<Rightarrow> is_upper c \<and>
          list_all (\<lambda>d. is_upper d \<or> is_digit d \<or> d = CHR ''_'' \<or> d = CHR ''-'') cs)"

definition assertCommoditySymbol :: "string \<Rightarrow> unit res" where
  "assertCommoditySymbol symbol =
     (if isCommoditySymbol symbol then Inr () else Inl (''Invalid commodity symbol: '' @ symbol))"

record amount =
  am_number :: decimal
  am_currency :: string

definition amount_of :: "decimal \<Rightarrow> string \<Rightarrow> amount" where
  "amount_of n c = \<lparr>am_number = n, am_currency = c\<rparr>"

text \<open>\<open>new Amount(text, currency)\<close>: the symbol is checked before the number.\<close>

definition parse_amount :: "string \<Rightarrow> string \<Rightarrow> amount res" where
  "parse_amount n c =
     bind_sum (assertCommoditySymbol c) (\<lambda>_. bind_sum (parseDecimal n) (\<lambda>d. Inr (amount_of d c)))"

definition assertSameCurrency :: "amount \<Rightarrow> amount \<Rightarrow> unit res" where
  "assertSameCurrency a b =
     (if am_currency a \<noteq> am_currency b
      then Inl (''Currency mismatch: '' @ am_currency a @ '' != '' @ am_currency b) else Inr ())"

definition amount_add :: "amount \<Rightarrow> amount \<Rightarrow> amount res" where
  "amount_add a b = bind_sum (assertSameCurrency a b)
     (\<lambda>_. Inr (amount_of (addDecimal (am_number a) (am_number b)) (am_currency a)))"

definition amount_negate :: "amount \<Rightarrow> amount" where
  "amount_negate a = amount_of (negateDecimal (am_number a)) (am_currency a)"

definition amount_isZero :: "amount \<Rightarrow> bool" where
  "amount_isZero a \<longleftrightarrow> isZeroDecimal (am_number a)"

definition amount_compare :: "amount \<Rightarrow> amount \<Rightarrow> int res" where
  "amount_compare a b = bind_sum (assertSameCurrency a b)
     (\<lambda>_. Inr (compareDecimal (am_number a) (am_number b)))"

definition amount_equals :: "amount \<Rightarrow> amount \<Rightarrow> bool" where
  "amount_equals a b \<longleftrightarrow> am_currency a = am_currency b \<and> decimalEquals (am_number a) (am_number b)"

definition amount_text :: "amount \<Rightarrow> string" where
  "amount_text a = decimal_text (am_number a) @ '' '' @ am_currency a"

definition amount_value :: "amount \<Rightarrow> rat" where
  "amount_value a = value_of (am_number a)"

lemma amount_of_simps [simp]:
  "am_number (amount_of n c) = n" "am_currency (amount_of n c) = c"
  "amount_value (amount_of n c) = value_of n"
  by (simp_all add: amount_of_def amount_value_def)

lemma amount_negate_simps [simp]:
  "am_currency (amount_negate a) = am_currency a" "amount_value (amount_negate a) = - amount_value a"
  by (simp_all add: amount_negate_def) (simp add: amount_value_def)

lemma amount_isZero_iff [simp]: "amount_isZero a \<longleftrightarrow> amount_value a = 0"
  by (simp add: amount_isZero_def amount_value_def)

lemma amount_add_same:
  "am_currency a = am_currency b \<Longrightarrow> \<exists>c. amount_add a b = Inr c \<and> am_currency c = am_currency a \<and>
     amount_value c = amount_value a + amount_value b"
  by (simp add: amount_add_def assertSameCurrency_def amount_value_def)

lemma amount_add_InrD:
  "amount_add a b = Inr c \<Longrightarrow>
     am_currency b = am_currency a \<and> am_currency c = am_currency a \<and>
     amount_value c = amount_value a + amount_value b"
  by (auto simp: amount_add_def assertSameCurrency_def amount_value_def split: if_splits)

lemma amount_equals_iff:
  "amount_equals a b \<longleftrightarrow> am_currency a = am_currency b \<and> amount_value a = amount_value b"
  by (simp add: amount_equals_def amount_value_def)

section \<open>Costs and positions\<close>

text \<open>\<open>ISO_DATE_RE\<close> (\<open>DATE_RE\<close> in the importer): \<open>^\d{4}-\d{2}-\d{2}$\<close>.\<close>

definition is_iso_date :: "string \<Rightarrow> bool" where
  "is_iso_date s \<longleftrightarrow>
     length s = 10 \<and> s ! 4 = CHR ''-'' \<and> s ! 7 = CHR ''-'' \<and>
     list_all (\<lambda>i. is_digit (s ! i)) [0, 1, 2, 3, 5, 6, 8, 9]"

definition assertIsoDate :: "string option \<Rightarrow> unit res" where
  "assertIsoDate v =
     (case v of None \<Rightarrow> Inr ()
      | Some s \<Rightarrow> if is_iso_date s then Inr () else Inl (''Invalid ISO date: '' @ s))"

record cost =
  co_number :: decimal
  co_currency :: string
  co_date :: "string option"
  co_label :: "string option"

record cost_spec =
  cs_numberPer :: "decimal option"
  cs_numberTotal :: "decimal option"
  cs_currency :: "string option"
  cs_date :: "string option"
  cs_label :: "string option"
  cs_merge :: "bool option"

fun parse_opt :: "string option \<Rightarrow> decimal option res" where
  "parse_opt None = Inr None"
| "parse_opt (Some s) = bind_sum (parseDecimal s) (\<lambda>d. Inr (Some d))"

definition new_Cost :: "string \<Rightarrow> string \<Rightarrow> string option \<Rightarrow> string option \<Rightarrow> cost res" where
  "new_Cost number currency date label =
     bind_sum (assertCommoditySymbol currency) (\<lambda>_. bind_sum (assertIsoDate date) (\<lambda>_.
     bind_sum (parseDecimal number) (\<lambda>n.
       Inr \<lparr>co_number = n, co_currency = currency, co_date = date, co_label = label\<rparr>)))"

definition new_CostSpec ::
  "string option \<Rightarrow> string option \<Rightarrow> string option \<Rightarrow> string option \<Rightarrow> string option \<Rightarrow>
     bool option \<Rightarrow> cost_spec res" where
  "new_CostSpec numberPer numberTotal currency date label merge =
     bind_sum (case currency of None \<Rightarrow> Inr () | Some c \<Rightarrow> assertCommoditySymbol c) (\<lambda>_.
     bind_sum (assertIsoDate date) (\<lambda>_. bind_sum (parse_opt numberPer) (\<lambda>per.
     bind_sum (parse_opt numberTotal) (\<lambda>total.
       Inr \<lparr>cs_numberPer = per, cs_numberTotal = total, cs_currency = currency, cs_date = date,
            cs_label = label, cs_merge = merge\<rparr>))))"

definition cost_equals :: "cost \<Rightarrow> cost \<Rightarrow> bool" where
  "cost_equals a b \<longleftrightarrow>
     co_currency a = co_currency b \<and> co_date a = co_date b \<and> co_label a = co_label b \<and>
     decimalEquals (co_number a) (co_number b)"

fun or_empty :: "string option \<Rightarrow> string" where
  "or_empty None = []"
| "or_empty (Some s) = s"

definition cost_key :: "cost \<Rightarrow> string" where
  "cost_key c =
     decimal_text (co_number c) @ ''|'' @ co_currency c @ ''|'' @ or_empty (co_date c) @ ''|'' @
     or_empty (co_label c)"

text \<open>A label or date in a list of parts: the code tests for truth, so an empty one is skipped.\<close>

fun quoted_part :: "string option \<Rightarrow> string list" where
  "quoted_part None = []"
| "quoted_part (Some s) = (if s = [] then [] else [[CHR 0x22] @ s @ [CHR 0x22]])"

fun plain_part :: "string option \<Rightarrow> string list" where
  "plain_part None = []"
| "plain_part (Some s) = (if s = [] then [] else [s])"

definition cost_text :: "cost \<Rightarrow> string" where
  "cost_text c =
     join '', '' ([decimal_text (co_number c) @ '' '' @ co_currency c] @ plain_part (co_date c) @
                  quoted_part (co_label c))"

definition cost_spec_text :: "cost_spec \<Rightarrow> string" where
  "cost_spec_text s =
     (let amountParts =
            (case cs_numberPer s of None \<Rightarrow> [] | Some d \<Rightarrow> [decimal_text d]) @
            (case cs_numberTotal s of None \<Rightarrow> [] | Some d \<Rightarrow> [''# '' @ decimal_text d]) @
            plain_part (cs_currency s)
      in join '', ''
           ((if amountParts = [] then [] else [join '' '' amountParts]) @ plain_part (cs_date s) @
            quoted_part (cs_label s) @ (if cs_merge s = Some True then [''*''] else [])))"

record position =
  po_units :: amount
  po_cost :: "cost option"

definition position_negate :: "position \<Rightarrow> position" where
  "position_negate p = \<lparr>po_units = amount_negate (po_units p), po_cost = po_cost p\<rparr>"

definition position_equals :: "position \<Rightarrow> position \<Rightarrow> bool" where
  "position_equals p q \<longleftrightarrow>
     amount_equals (po_units p) (po_units q) \<and>
     (case po_cost p of
        None \<Rightarrow> po_cost q = None
      | Some c \<Rightarrow> (case po_cost q of None \<Rightarrow> False | Some d \<Rightarrow> cost_equals c d))"

definition currencyPair :: "position \<Rightarrow> string \<times> string option" where
  "currencyPair p = (am_currency (po_units p), map_option co_currency (po_cost p))"

definition position_key :: "position \<Rightarrow> string" where
  "position_key p =
     am_currency (po_units p) @ ''|'' @ (case po_cost p of None \<Rightarrow> [] | Some c \<Rightarrow> cost_key c)"

definition position_text :: "position \<Rightarrow> string" where
  "position_text p =
     (case po_cost p of
        None \<Rightarrow> amount_text (po_units p)
      | Some c \<Rightarrow> amount_text (po_units p) @ '' {'' @ cost_text c @ ''}'')"

section \<open>Booking methods and account names\<close>

datatype booking = STRICT | STRICT_WITH_SIZE | NONE | AVERAGE | FIFO | LIFO | HIFO

definition booking_names :: "(string \<times> booking) list" where
  "booking_names =
     [(''STRICT'', STRICT), (''STRICT_WITH_SIZE'', STRICT_WITH_SIZE), (''NONE'', NONE),
      (''AVERAGE'', AVERAGE), (''FIFO'', FIFO), (''LIFO'', LIFO), (''HIFO'', HIFO)]"

fun booking_text :: "booking \<Rightarrow> string" where
  "booking_text STRICT = ''STRICT''"
| "booking_text STRICT_WITH_SIZE = ''STRICT_WITH_SIZE''"
| "booking_text NONE = ''NONE''"
| "booking_text AVERAGE = ''AVERAGE''"
| "booking_text FIFO = ''FIFO''"
| "booking_text LIFO = ''LIFO''"
| "booking_text HIFO = ''HIFO''"

definition parseBooking :: "string option \<Rightarrow> booking option res" where
  "parseBooking value =
     (case value of
        None \<Rightarrow> Inr None
      | Some s \<Rightarrow>
          if s = [] then Inr None
          else (case map_of booking_names s of
                  Some b \<Rightarrow> Inr (Some b)
                | None \<Rightarrow> Inl (''Invalid booking method: '' @ s)))"

lemma parseBooking_text [simp]: "parseBooking (Some (booking_text b)) = Inr (Some b)"
  by (cases b) (simp_all add: parseBooking_def booking_names_def)

datatype root_type = RootAssets | RootLiabilities | RootEquity | RootIncome | RootExpenses

definition ROOT_TYPES :: "(string \<times> root_type) list" where
  "ROOT_TYPES =
     [(''Assets'', RootAssets), (''Liabilities'', RootLiabilities), (''Equity'', RootEquity),
      (''Income'', RootIncome), (''Expenses'', RootExpenses)]"

definition rootTypeForAccountName :: "string \<Rightarrow> root_type res" where
  "rootTypeForAccountName accountName =
     (let parts = split_on (CHR '':'') accountName
      in if length parts < 2 \<or> list_ex (\<lambda>p. trim p = []) parts
         then Inl (''Invalid account name: '' @ accountName)
         else (case map_of ROOT_TYPES (hd parts) of
                 None \<Rightarrow> Inl (''Invalid account root: '' @ hd parts)
               | Some r \<Rightarrow> Inr r))"

section \<open>Inventories\<close>

text \<open>
  \<open>positionsByKey\<close> is a map in insertion order: setting a present key keeps its place, deleting it
  and setting it again moves it to the end.
\<close>

type_synonym inventory = "(string \<times> position) list"

definition addPosition :: "inventory \<Rightarrow> position \<Rightarrow> inventory res" where
  "addPosition lots p =
     (let key = position_key p
      in bind_sum (case map_of lots key of
                     None \<Rightarrow> Inr (po_units p)
                   | Some existing \<Rightarrow> amount_add (po_units existing) (po_units p))
           (\<lambda>nextUnits.
              Inr (if amount_isZero nextUnits then AList.delete key lots
                   else AList.update key \<lparr>po_units = nextUnits, po_cost = po_cost p\<rparr> lots)))"

fun addPositions :: "inventory \<Rightarrow> position list \<Rightarrow> inventory res" where
  "addPositions lots [] = Inr lots"
| "addPositions lots (p # ps) = bind_sum (addPosition lots p) (\<lambda>lots'. addPositions lots' ps)"

definition new_Inventory :: "position list \<Rightarrow> inventory res" where
  "new_Inventory ps = addPositions [] ps"

definition addAmount :: "inventory \<Rightarrow> amount \<Rightarrow> inventory res" where
  "addAmount lots a = addPosition lots \<lparr>po_units = a, po_cost = None\<rparr>"

definition inventory_isEmpty :: "inventory \<Rightarrow> bool" where
  "inventory_isEmpty lots \<longleftrightarrow> length lots = 0"

fun balance_step :: "(string \<times> amount) list res \<Rightarrow> position \<Rightarrow> (string \<times> amount) list res" where
  "balance_step (Inl e) p = Inl e"
| "balance_step (Inr balances) p =
     (let currency = am_currency (po_units p)
      in bind_sum (case map_of balances currency of
                     None \<Rightarrow> Inr (po_units p)
                   | Some existing \<Rightarrow> amount_add existing (po_units p))
           (\<lambda>a. Inr (AList.update currency a balances)))"

definition balanceByCurrency :: "inventory \<Rightarrow> (string \<times> amount) list res" where
  "balanceByCurrency lots = foldl balance_step (Inr []) (map snd lots)"

text \<open>
  \<open>positions()\<close> sorts by a fixed currency order, then by \<open>localeCompare\<close> of the keys, whose order
  is the host's collation: a parameter.
\<close>

definition CURRENCY_ORDER :: "(string \<times> int) list" where
  "CURRENCY_ORDER =
     [(''USD'', 0), (''EUR'', 1), (''JPY'', 2), (''CAD'', 3), (''GBP'', 4), (''AUD'', 5),
      (''NZD'', 6), (''CHF'', 7)]"

definition currencyOrder :: "string \<Rightarrow> int" where
  "currencyOrder currency =
     (case map_of CURRENCY_ORDER currency of
        Some n \<Rightarrow> n
      | None \<Rightarrow> int (length CURRENCY_ORDER) + int (length currency))"

definition comparePositions :: "(string \<Rightarrow> string \<Rightarrow> int) \<Rightarrow> position \<Rightarrow> position \<Rightarrow> int" where
  "comparePositions collate l r =
     (let lo = currencyOrder (am_currency (po_units l)); ro = currencyOrder (am_currency (po_units r))
      in if lo \<noteq> ro then lo - ro else collate (position_key l) (position_key r))"

definition inventory_positions :: "(string \<Rightarrow> string \<Rightarrow> int) \<Rightarrow> inventory \<Rightarrow> position list" where
  "inventory_positions collate lots = sort_by (comparePositions collate) (map snd lots)"

section \<open>What an inventory holds\<close>

definition valid_position :: "position \<Rightarrow> bool" where
  "valid_position p \<longleftrightarrow> isCommoditySymbol (am_currency (po_units p))"

definition position_value :: "position \<Rightarrow> rat" where
  "position_value p = amount_value (po_units p)"

definition inventory_ok :: "inventory \<Rightarrow> bool" where
  "inventory_ok lots \<longleftrightarrow>
     distinct (map fst lots) \<and>
     (\<forall>(k, p) \<in> set lots. k = position_key p \<and> valid_position p \<and> position_value p \<noteq> 0)"

definition held :: "inventory \<Rightarrow> string \<Rightarrow> rat" where
  "held lots k = (case map_of lots k of None \<Rightarrow> 0 | Some p \<Rightarrow> position_value p)"

lemma symbol_no_bar: "isCommoditySymbol s \<Longrightarrow> CHR ''|'' \<notin> set s"
  by (auto simp: isCommoditySymbol_def list_all_iff is_upper_def is_digit_def split: list.splits)

lemma position_key_currency:
  assumes "valid_position p" and "valid_position q" and "position_key p = position_key q"
  shows "am_currency (po_units p) = am_currency (po_units q)"
proof -
  have "hd (split_on (CHR ''|'') (position_key r)) = am_currency (po_units r)"
    if "valid_position r" for r
    using that symbol_no_bar [of "am_currency (po_units r)"]
    by (simp add: valid_position_def position_key_def split_on_append)
  with assms show ?thesis by metis
qed

lemma inventory_okD:
  "inventory_ok lots \<Longrightarrow> map_of lots k = Some p \<Longrightarrow>
     k = position_key p \<and> valid_position p \<and> position_value p \<noteq> 0"
  by (auto simp: inventory_ok_def dest: map_of_SomeD)

lemma held_delete:
  "held (AList.delete k lots) j = (if j = k then 0 else held lots j)"
  by (simp add: held_def delete_conv')

lemma held_update:
  "held (AList.update k p lots) j = (if j = k then position_value p else held lots j)"
  by (simp add: held_def update_conv')

lemma set_update_subset: "set (AList.update k v xs) \<subseteq> insert (k, v) (set xs)"
  by (induction xs) auto

lemma set_delete_subset: "set (AList.delete k xs) \<subseteq> set xs"
  by (auto simp: AList.delete_eq)

lemma inventory_ok_update:
  "inventory_ok lots \<Longrightarrow> k = position_key p \<Longrightarrow> valid_position p \<Longrightarrow> position_value p \<noteq> 0 \<Longrightarrow>
     inventory_ok (AList.update k p lots)"
  using set_update_subset [of k p lots]
  by (auto simp: inventory_ok_def distinct_update)

lemma inventory_ok_delete: "inventory_ok lots \<Longrightarrow> inventory_ok (AList.delete k lots)"
  using set_delete_subset [of k lots] by (auto simp: inventory_ok_def distinct_delete)

lemma addPosition_ok:
  assumes "inventory_ok lots" and "valid_position p"
  obtains lots' where "addPosition lots p = Inr lots'" and "inventory_ok lots'"
    and "\<And>k. held lots' k = held lots k + (if k = position_key p then position_value p else 0)"
proof -
  let ?k = "position_key p"
  obtain u where u: "(case map_of lots ?k of None \<Rightarrow> Inr (po_units p)
      | Some e \<Rightarrow> amount_add (po_units e) (po_units p)) = Inr u"
    and cur: "am_currency u = am_currency (po_units p)"
    and val: "amount_value u = held lots ?k + position_value p"
  proof (cases "map_of lots ?k")
    case None
    then show thesis by (intro that [of "po_units p"]) (simp_all add: held_def position_value_def)
  next
    case (Some e)
    with inventory_okD [OF assms(1) this] assms(2)
    have "am_currency (po_units e) = am_currency (po_units p)" by (intro position_key_currency) auto
    then obtain c where "amount_add (po_units e) (po_units p) = Inr c"
      and "am_currency c = am_currency (po_units e)"
      and "amount_value c = amount_value (po_units e) + amount_value (po_units p)"
      using amount_add_same by blast
    with Some \<open>am_currency (po_units e) = am_currency (po_units p)\<close> show thesis
      by (intro that [of c]) (simp_all add: held_def position_value_def)
  qed
  let ?q = "\<lparr>po_units = u, po_cost = po_cost p\<rparr>"
  have q: "position_key ?q = ?k" "valid_position ?q" "position_value ?q = amount_value u"
    using cur assms(2) by (simp_all add: position_key_def valid_position_def position_value_def)
  show thesis
  proof (cases "amount_value u = 0")
    case True
    then show thesis using u val assms(1)
      by (intro that [of "AList.delete ?k lots"])
        (auto simp: addPosition_def Let_def held_delete inventory_ok_delete)
  next
    case False
    then show thesis using u val assms(1) q
      by (intro that [of "AList.update ?k ?q lots"])
        (auto simp: addPosition_def Let_def held_update inventory_ok_update)
  qed
qed

lemma addPositions_ok:
  "inventory_ok lots \<Longrightarrow> list_all valid_position ps \<Longrightarrow>
     \<exists>lots'. addPositions lots ps = Inr lots' \<and> inventory_ok lots' \<and>
       (\<forall>k. held lots' k = held lots k + (\<Sum>p\<leftarrow>ps. if position_key p = k then position_value p else 0))"
proof (induction ps arbitrary: lots)
  case (Cons p ps)
  then obtain lots1 where "addPosition lots p = Inr lots1" and "inventory_ok lots1"
    and "\<And>k. held lots1 k = held lots k + (if k = position_key p then position_value p else 0)"
    by (auto elim: addPosition_ok)
  with Cons.IH [of lots1] Cons.prems(2) show ?case by force
qed simp

lemma inventory_ok_Nil [simp]: "inventory_ok []"
  by (simp add: inventory_ok_def)

lemma new_Inventory_ok:
  assumes "list_all valid_position ps"
  obtains lots where "new_Inventory ps = Inr lots" and "inventory_ok lots"
    and "\<And>k. held lots k = (\<Sum>p\<leftarrow>ps. if position_key p = k then position_value p else 0)"
  using addPositions_ok [OF inventory_ok_Nil assms] that by (auto simp: new_Inventory_def held_def)

section \<open>Properties\<close>

text \<open>
  C8: an inventory built from valid positions never fails, keeps one non-zero entry per lot key,
  and holds under every key exactly the sum of the units added under it: nothing is lost, and a lot
  that was sold out is gone.
\<close>

theorem inventory_exact:
  assumes "list_all valid_position ps"
  shows "\<exists>lots. new_Inventory ps = Inr lots \<and> inventory_ok lots \<and>
    (\<forall>k. held lots k = (\<Sum>p\<leftarrow>ps. if position_key p = k then position_value p else 0))"
  using assms by (rule new_Inventory_ok) blast

definition sample_lot :: "int \<Rightarrow> nat \<Rightarrow> int \<Rightarrow> position" where
  "sample_lot units scale price =
     \<lparr>po_units = amount_of (decimalFromCoefficient units 0) ''HOOL'',
      po_cost = Some \<lparr>co_number = decimalFromCoefficient price scale, co_currency = ''USD'',
                      co_date = None, co_label = None\<rparr>\<rparr>"

theorem inventory_exact_witness:
  "\<exists>lots. new_Inventory [sample_lot 10 0 5, sample_lot (- 10) 0 5] = Inr lots \<and> inventory_ok lots"
  using inventory_exact [of "[sample_lot 10 0 5, sample_lot (- 10) 0 5]"]
  by (auto simp: valid_position_def sample_lot_def isCommoditySymbol_def is_upper_def)

text \<open>
  Two lots whose costs are equal by \<open>Cost.equals\<close> but written with different scales are
  different keys: buying ten at 5 USD and selling ten at 5.0 USD leaves two entries.
\<close>

theorem inventory_splits_equal_costs:
  "cost_equals (the (po_cost (sample_lot 10 0 5))) (the (po_cost (sample_lot (- 10) 1 50))) \<and>
   (case new_Inventory [sample_lot 10 0 5, sample_lot (- 10) 1 50] of
      Inl _ \<Rightarrow> False
    | Inr lots \<Rightarrow> length lots = 2)"
  by code_simp

end
