(* ===== verification/JsValue.thy ===== *)
theory JsValue
  imports Prelude "HOL-Library.AList"
begin

text \<open>
  The untyped values the program passes around (\<open>unknown\<close>, \<open>Record<string, unknown>\<close>): the JSON
  values, \<open>undefined\<close> and the non-finite numbers. A finite number is the rational its shortest
  decimal text denotes, which keeps equality and order of the doubles and determines \<open>String(v)\<close>.
  An object is its list of own entries in \<open>Object.entries\<close> order; properties inherited from
  \<open>Object.prototype\<close> (and writes to \<open>__proto__\<close>) are outside the model. Two arrays or objects read
  from different places are different references, so \<open>===\<close> is false on them.
\<close>

section \<open>Values and their conversions\<close>

datatype jsval =
    JUndef
  | JNull
  | JBool bool
  | JNum rat
  | JNaN
  | JInf bool
  | JStr string
  | JArr "jsval list"
  | JObj "(string \<times> jsval) list"

type_synonym jsobj = "(string \<times> jsval) list"

fun truthy :: "jsval \<Rightarrow> bool" where
  "truthy JUndef = False"
| "truthy JNull = False"
| "truthy (JBool b) = b"
| "truthy (JNum q) = (q \<noteq> 0)"
| "truthy JNaN = False"
| "truthy (JInf _) = True"
| "truthy (JStr s) = (s \<noteq> [])"
| "truthy (JArr _) = True"
| "truthy (JObj _) = True"

text \<open>\<open>a ?? b\<close> and \<open>v === w\<close>.\<close>

fun nullish :: "jsval \<Rightarrow> bool" where
  "nullish JUndef = True"
| "nullish JNull = True"
| "nullish _ = False"

definition coalesce :: "jsval \<Rightarrow> jsval \<Rightarrow> jsval" where
  "coalesce a b = (if nullish a then b else a)"

fun strict_eq :: "jsval \<Rightarrow> jsval \<Rightarrow> bool" where
  "strict_eq JUndef JUndef = True"
| "strict_eq JNull JNull = True"
| "strict_eq (JBool a) (JBool b) = (a = b)"
| "strict_eq (JNum a) (JNum b) = (a = b)"
| "strict_eq (JInf a) (JInf b) = (a = b)"
| "strict_eq (JStr a) (JStr b) = (a = b)"
| "strict_eq _ _ = False"

lemma strict_eq_imp_eq: "strict_eq a b \<Longrightarrow> a = b"
  by (induction a b rule: strict_eq.induct) auto

lemma strict_eq_JStr [simp]: "strict_eq v (JStr s) \<longleftrightarrow> v = JStr s"
  by (cases v) auto

lemma strict_eq_JStr_left [simp]: "strict_eq (JStr s) v \<longleftrightarrow> v = JStr s"
  by (cases v) auto

lemma strict_eq_JBool [simp]: "strict_eq v (JBool b) \<longleftrightarrow> v = JBool b"
  by (cases v) auto

text \<open>
  \<open>Number.prototype.toString\<close>: with the digits \<open>s\<close> of the value (no trailing zero), their number
  \<open>k\<close> and the decimal exponent \<open>n\<close>, the five layouts of the language definition. \<open>dec_scale\<close> finds
  the number of decimal places; 400 places cover every double.
\<close>

fun dec_scale :: "nat \<Rightarrow> nat \<Rightarrow> nat \<Rightarrow> nat" where
  "dec_scale 0 m b = m"
| "dec_scale (Suc f) m b = (if b dvd 10 ^ m then m else dec_scale f (Suc m) b)"

definition strip_trailing_zeros :: "string \<Rightarrow> string" where
  "strip_trailing_zeros s = rev (dropWhile (\<lambda>c. c = CHR ''0'') (rev s))"

definition exponent_text :: "int \<Rightarrow> string" where
  "exponent_text e = ''e'' @ (if e < 0 then ''-'' else ''+'') @ dec_of_nat (nat \<bar>e\<bar>)"

definition layout_digits :: "string \<Rightarrow> int \<Rightarrow> string" where
  "layout_digits s n =
     (let k = int (length s)
      in if k \<le> n \<and> n \<le> 21 then s @ replicate (nat (n - k)) (CHR ''0'')
         else if 0 < n \<and> n \<le> 21 then take (nat n) s @ ''.'' @ drop (nat n) s
         else if - 6 < n \<and> n \<le> 0 then ''0.'' @ replicate (nat (- n)) (CHR ''0'') @ s
         else if k = 1 then s @ exponent_text (n - 1)
         else take 1 s @ ''.'' @ drop 1 s @ exponent_text (n - 1))"

definition num_to_string :: "rat \<Rightarrow> string" where
  "num_to_string q =
     (if q = 0 then ''0''
      else
        let (a, b) = quotient_of \<bar>q\<bar>;
            m = dec_scale 400 0 (nat b);
            ds = dec_of_nat (nat a * (10 ^ m div nat b));
            s = strip_trailing_zeros ds
        in (if q < 0 then ''-'' else []) @ layout_digits s (int (length ds) - int m))"

text \<open>\<open>String(v)\<close>, which template literals use too.\<close>

fun to_string :: "jsval \<Rightarrow> string" where
  "to_string JUndef = ''undefined''"
| "to_string JNull = ''null''"
| "to_string (JBool b) = (if b then ''true'' else ''false'')"
| "to_string (JNum q) = num_to_string q"
| "to_string JNaN = ''NaN''"
| "to_string (JInf pos) = (if pos then ''Infinity'' else ''-Infinity'')"
| "to_string (JStr s) = s"
| "to_string (JArr vs) = join '','' (map (\<lambda>v. if nullish v then [] else to_string v) vs)"
| "to_string (JObj _) = ''[object Object]''"

section \<open>Objects\<close>

definition get :: "jsobj \<Rightarrow> string \<Rightarrow> jsval" where
  "get ob k = (case map_of ob k of None \<Rightarrow> JUndef | Some v \<Rightarrow> v)"

definition has_key :: "jsobj \<Rightarrow> string \<Rightarrow> bool" where
  "has_key ob k \<longleftrightarrow> map_of ob k \<noteq> None"

definition put :: "string \<Rightarrow> jsval \<Rightarrow> jsobj \<Rightarrow> jsobj" where
  "put k v ob = AList.update k v ob"

text \<open>\<open>Object.assign(target, source)\<close> and \<open>{...target, ...source}\<close>.\<close>

definition assign :: "jsobj \<Rightarrow> jsobj \<Rightarrow> jsobj" where
  "assign target source = fold (\<lambda>(k, v). put k v) source target"

lemma map_of_put [simp]: "map_of (put k v ob) = (map_of ob)(k \<mapsto> v)"
  by (simp add: put_def update_conv')

lemma get_put [simp]: "get (put k v ob) k' = (if k' = k then v else get ob k')"
  by (simp add: get_def)

lemma has_key_put [simp]: "has_key (put k v ob) k' \<longleftrightarrow> k' = k \<or> has_key ob k'"
  by (simp add: has_key_def)

lemma get_Nil [simp]: "get [] k = JUndef"
  by (simp add: get_def)

lemma get_Cons [simp]: "get ((k, v) # ob) k' = (if k' = k then v else get ob k')"
  by (simp add: get_def)

lemma has_key_Nil [simp]: "\<not> has_key [] k"
  by (simp add: has_key_def)

lemma has_key_Cons [simp]: "has_key ((k, v) # ob) k' \<longleftrightarrow> k' = k \<or> has_key ob k'"
  by (simp add: has_key_def)

lemma get_not_has_key: "\<not> has_key ob k \<Longrightarrow> get ob k = JUndef"
  by (simp add: get_def has_key_def)

lemma map_of_assign: "map_of (assign target source) = map_of target ++ map_of (rev source)"
proof (induction source arbitrary: target)
  case (Cons e source)
  obtain k v where e: "e = (k, v)" by (cases e)
  have "assign target (e # source) = assign (put k v target) source"
    by (simp add: assign_def e)
  then have "map_of (assign target (e # source)) = map_of (put k v target) ++ map_of (rev source)"
    by (simp only: Cons.IH)
  also have "\<dots> = map_of target ++ map_of (rev (e # source))"
    by (auto simp: e map_add_def fun_eq_iff split: option.splits)
  finally show ?case .
qed (simp add: assign_def)

lemma map_of_rev_eq_None: "map_of (rev xs) k = None \<longleftrightarrow> map_of xs k = None"
  by (simp add: map_of_eq_None_iff)

lemma map_of_rev_distinct:
  assumes "distinct (map fst xs)"
  shows "map_of (rev xs) = map_of xs"
proof (rule ext)
  fix k
  from assms have "distinct (map fst (rev xs))" by (simp flip: rev_map)
  with assms show "map_of (rev xs) k = map_of xs k"
  proof (cases "map_of xs k")
    case None
    then show ?thesis by (simp add: map_of_rev_eq_None)
  next
    case (Some v)
    then have "(k, v) \<in> set (rev xs)" by (simp add: map_of_SomeD)
    with \<open>distinct (map fst (rev xs))\<close> Some show ?thesis by simp
  qed
qed

lemma has_key_assign [simp]: "has_key (assign target source) k \<longleftrightarrow> has_key target k \<or> has_key source k"
  using map_of_rev_eq_None [of source k]
  by (auto simp: has_key_def map_of_assign map_add_def split: option.splits)

lemma get_assign_absent: "\<not> has_key source k \<Longrightarrow> get (assign target source) k = get target k"
  using map_of_rev_eq_None [of source k]
  by (simp add: get_def has_key_def map_of_assign map_add_def)

lemma get_assign_present:
  assumes "distinct (map fst source)" and "has_key source k"
  shows "get (assign target source) k = get source k"
proof -
  have "map_of (rev source) = map_of source"
    using assms(1) by (rule map_of_rev_distinct)
  with assms(2) show ?thesis by (auto simp: get_def has_key_def map_of_assign map_add_def)
qed

section \<open>Narrowing helpers shared by the modules\<close>

text \<open>
  The helpers every module declares for itself: \<open>str\<close> (the string or the empty string), \<open>asRecord\<close>
  (a plain object), \<open>num\<close> (a finite number) and \<open>stringValue\<close> (a trimmed non-empty string).
\<close>

fun str :: "jsval \<Rightarrow> string" where
  "str (JStr s) = s"
| "str _ = []"

fun asRecord :: "jsval \<Rightarrow> jsobj option" where
  "asRecord (JObj ob) = Some ob"
| "asRecord _ = None"

fun num :: "jsval \<Rightarrow> rat option" where
  "num (JNum q) = Some q"
| "num _ = None"

fun is_string :: "jsval \<Rightarrow> bool" where
  "is_string (JStr _) = True"
| "is_string _ = False"

lemma str_nonempty_iff: "str v \<noteq> [] \<longleftrightarrow> (\<exists>s. v = JStr s \<and> s \<noteq> [])"
  by (cases v) auto

lemma str_eq_nonempty: "s \<noteq> [] \<Longrightarrow> str v = s \<longleftrightarrow> v = JStr s"
  by (cases v) auto

definition record_or_empty :: "jsval \<Rightarrow> jsobj" where
  "record_or_empty v = (case asRecord v of None \<Rightarrow> [] | Some ob \<Rightarrow> ob)"

text \<open>A nullable string field and its reading as a value.\<close>

fun opt_str :: "string option \<Rightarrow> jsval" where
  "opt_str None = JNull"
| "opt_str (Some s) = JStr s"

fun opt_obj :: "jsobj option \<Rightarrow> jsval" where
  "opt_obj None = JNull"
| "opt_obj (Some ob) = JObj ob"

section \<open>Shared helpers\<close>

text \<open>\<open>a ?? b\<close> on values that may be absent, and a text in single quotes, as messages have it.\<close>

definition or_else :: "'a option \<Rightarrow> 'a option \<Rightarrow> 'a option" where
  "or_else a b = (case a of None \<Rightarrow> b | Some x \<Rightarrow> Some x)"

lemma or_else_simps [simp]: "or_else None b = b" "or_else (Some x) b = Some x" "or_else a None = a"
  by (simp_all add: or_else_def split: option.split)

definition quoted :: "string \<Rightarrow> string" where
  "quoted s = [CHR 0x27] @ s @ [CHR 0x27]"

end
