(* ===== verification/FinEntries.thy ===== *)
theory FinEntries
  imports FinPosition JsValue
begin

text \<open>
  The entries of a Beancount ledger, \<open>beancount/entries.ts\<close>, and their order, \<open>beancount/sort.ts\<close>.
  Each entry type is a record and \<open>ledger_entry\<close> the tagged union; metadata is an object; a
  \<open>Set\<close> of tags or links is its list of elements in insertion order. \<open>localeCompare\<close> is used on ISO
  dates only, where it is the order of the character codes.
\<close>

section \<open>Entries\<close>

record source_location =
  sl_filename :: string
  sl_lineno :: nat

record base_entry =
  en_meta :: jsobj
  en_source :: "source_location option"

record dated_entry = base_entry +
  en_date :: string

record open_entry = dated_entry +
  oe_account :: string
  oe_currencies :: "string list"
  oe_booking :: "booking option"

record close_entry = dated_entry +
  ce_account :: string

record commodity_entry = dated_entry +
  me_currency :: string

record pad_entry = dated_entry +
  pe_account :: string
  pe_sourceAccount :: string

record balance_entry = dated_entry +
  be_account :: string
  be_amount :: amount
  be_tolerance :: "amount option"

datatype posting_cost = AtCost cost | AtSpec cost_spec

record posting_entry =
  ps_account :: string
  ps_units :: "amount option"
  ps_cost :: "posting_cost option"
  ps_price :: "amount option"
  ps_priceIsTotal :: bool
  ps_flag :: "string option"
  ps_meta :: jsobj

record transaction_entry = dated_entry +
  te_flag :: string
  te_payee :: "string option"
  te_narration :: "string option"
  te_tags :: "string list"
  te_links :: "string list"
  te_postings :: "posting_entry list"

record note_entry = dated_entry +
  ne_account :: string
  ne_comment :: string
  ne_tags :: "string list"
  ne_links :: "string list"

record event_entry = dated_entry +
  ee_eventType :: string
  ee_description :: string

record query_entry = dated_entry +
  qe_name :: string
  qe_queryString :: string

record price_entry = dated_entry +
  pr_currency :: string
  pr_amount :: amount

record document_entry = dated_entry +
  de_account :: string
  de_filename :: string
  de_tags :: "string list"
  de_links :: "string list"

record custom_entry = dated_entry +
  cu_customType :: string
  cu_values :: "string list"

record option_entry = base_entry +
  op_name :: string
  op_value :: string

record include_entry = base_entry +
  in_path :: string

record plugin_entry = base_entry +
  pl_module :: string
  pl_config :: "string option"

record tag_stack_entry = base_entry +
  ts_push :: bool
  ts_tag :: string

record meta_stack_entry = base_entry +
  ms_push :: bool
  ms_key :: string
  ms_value :: "string option"

datatype config_entry =
    COption option_entry
  | CInclude include_entry
  | CPlugin plugin_entry
  | CTag tag_stack_entry
  | CMeta meta_stack_entry

datatype ledger_entry =
    LOpen open_entry
  | LClose close_entry
  | LCommodity commodity_entry
  | LPad pad_entry
  | LBalance balance_entry
  | LTransaction transaction_entry
  | LNote note_entry
  | LEvent event_entry
  | LQuery query_entry
  | LPrice price_entry
  | LDocument document_entry
  | LCustom custom_entry
  | LConfig config_entry

record ledger_error =
  le_code :: string
  le_message :: string
  le_source :: "source_location option"

fun config_source :: "config_entry \<Rightarrow> source_location option" where
  "config_source (COption e) = en_source e"
| "config_source (CInclude e) = en_source e"
| "config_source (CPlugin e) = en_source e"
| "config_source (CTag e) = en_source e"
| "config_source (CMeta e) = en_source e"

fun entry_source :: "ledger_entry \<Rightarrow> source_location option" where
  "entry_source (LOpen e) = en_source e"
| "entry_source (LClose e) = en_source e"
| "entry_source (LCommodity e) = en_source e"
| "entry_source (LPad e) = en_source e"
| "entry_source (LBalance e) = en_source e"
| "entry_source (LTransaction e) = en_source e"
| "entry_source (LNote e) = en_source e"
| "entry_source (LEvent e) = en_source e"
| "entry_source (LQuery e) = en_source e"
| "entry_source (LPrice e) = en_source e"
| "entry_source (LDocument e) = en_source e"
| "entry_source (LCustom e) = en_source e"
| "entry_source (LConfig e) = config_source e"

fun entry_date :: "ledger_entry \<Rightarrow> string option" where
  "entry_date (LOpen e) = Some (en_date e)"
| "entry_date (LClose e) = Some (en_date e)"
| "entry_date (LCommodity e) = Some (en_date e)"
| "entry_date (LPad e) = Some (en_date e)"
| "entry_date (LBalance e) = Some (en_date e)"
| "entry_date (LTransaction e) = Some (en_date e)"
| "entry_date (LNote e) = Some (en_date e)"
| "entry_date (LEvent e) = Some (en_date e)"
| "entry_date (LQuery e) = Some (en_date e)"
| "entry_date (LPrice e) = Some (en_date e)"
| "entry_date (LDocument e) = Some (en_date e)"
| "entry_date (LCustom e) = Some (en_date e)"
| "entry_date (LConfig e) = None"

definition isDatedEntry :: "ledger_entry \<Rightarrow> bool" where
  "isDatedEntry e \<longleftrightarrow> entry_date e \<noteq> None"

section \<open>The order of entries\<close>

fun SORT_ORDER :: "ledger_entry \<Rightarrow> int" where
  "SORT_ORDER (LOpen _) = - 2"
| "SORT_ORDER (LBalance _) = - 1"
| "SORT_ORDER (LDocument _) = 1"
| "SORT_ORDER (LClose _) = 2"
| "SORT_ORDER _ = 0"

definition entrySortKey :: "ledger_entry \<Rightarrow> string \<times> int \<times> int" where
  "entrySortKey e =
     (case entry_date e of None \<Rightarrow> [] | Some d \<Rightarrow> d, SORT_ORDER e,
      (case entry_source e of None \<Rightarrow> 0 | Some s \<Rightarrow> int (sl_lineno s)))"

definition compareSortKey :: "string \<times> int \<times> int \<Rightarrow> string \<times> int \<times> int \<Rightarrow> int" where
  "compareSortKey l r =
     (case (l, r) of ((d, k, n), (d', k', n')) \<Rightarrow>
        if d \<noteq> d' then compare_text d d' else if k \<noteq> k' then k - k' else n - n')"

definition compareEntries :: "ledger_entry \<Rightarrow> ledger_entry \<Rightarrow> int" where
  "compareEntries l r = compareSortKey (entrySortKey l) (entrySortKey r)"

definition sortEntries :: "ledger_entry list \<Rightarrow> ledger_entry list" where
  "sortEntries entries =
     (let configEntries = filter (\<lambda>e. \<not> isDatedEntry e) entries;
          datedEntries = sort_by compareEntries (filter isDatedEntry entries)
      in configEntries @ datedEntries)"

section \<open>The comparator of entries\<close>

lemma compareSortKey_le:
  "compareSortKey (d, k, n) (d', k', n') \<le> 0 \<longleftrightarrow>
     d < d' \<or> d = d' \<and> (k < k' \<or> k = k' \<and> n \<le> n')"
  by (auto simp: compareSortKey_def)

interpretation entries: comparator compareEntries
proof
  fix x y z
  obtain dx kx nx dy ky ny dz kz nz
    where [simp]: "entrySortKey x = (dx, kx, nx)" "entrySortKey y = (dy, ky, ny)"
      "entrySortKey z = (dz, kz, nz)" by (metis prod.exhaust)
  show "compareEntries x y \<le> 0 \<or> compareEntries y x \<le> 0"
    by (auto simp: compareEntries_def compareSortKey_le)
  show "compareEntries x y \<le> 0 \<Longrightarrow> compareEntries y z \<le> 0 \<Longrightarrow> compareEntries x z \<le> 0"
    by (auto simp: compareEntries_def compareSortKey_le)
qed

section \<open>Sorted ledgers\<close>

lemma mset_sortEntries: "mset (sortEntries es) = mset es"
proof -
  have "mset (sortEntries es) = mset (filter (\<lambda>e. \<not> isDatedEntry e) es) + mset (filter isDatedEntry es)"
    by (simp add: sortEntries_def entries.mset_sort)
  also have "\<dots> = mset es" by (induction es) auto
  finally show ?thesis .
qed

lemma set_sortEntries [simp]: "set (sortEntries es) = set es"
  using mset_sortEntries [of es] by (metis set_mset_mset)

lemma filter_dated_sort:
  "filter isDatedEntry (sort_by compareEntries (filter isDatedEntry es)) =
     sort_by compareEntries (filter isDatedEntry es)"
  "filter (\<lambda>e. \<not> isDatedEntry e) (sort_by compareEntries (filter isDatedEntry es)) = []"
  by (simp_all add: filter_id_conv filter_empty_conv)

lemma sortEntries_idem [simp]: "sortEntries (sortEntries es) = sortEntries es"
  by (simp add: sortEntries_def Let_def filter_dated_sort entries.sort_idem)

section \<open>Properties\<close>

text \<open>
  Sorting a ledger loses and invents nothing, puts the undated entries first, orders the dated
  ones by date, then opens before balances before the rest before documents before closes, then by
  line, keeps the order of entries that are equal in all three, and changes nothing when repeated.
\<close>

theorem sort_entries_correct:
  "mset (sortEntries es) = mset es \<and>
   (\<exists>config dated. sortEntries es = config @ dated \<and> list_all (\<lambda>e. \<not> isDatedEntry e) config \<and>
      list_all isDatedEntry dated \<and> sorted_wrt (\<lambda>x y. compareEntries x y \<le> 0) dated \<and>
      filter (\<lambda>y. entrySortKey y = k) dated = filter (\<lambda>y. entrySortKey y = k) (filter isDatedEntry es)) \<and>
   sortEntries (sortEntries es) = sortEntries es"
proof -
  have "filter (\<lambda>y. entrySortKey y = k) (sort_by compareEntries (filter isDatedEntry es)) =
      filter (\<lambda>y. entrySortKey y = k) (filter isDatedEntry es)"
    by (rule entries.stable_class)
      (auto simp: entries.same_def compareEntries_def compareSortKey_def split: prod.splits)
  moreover have "list_all isDatedEntry (sort_by compareEntries (filter isDatedEntry es))"
    by (simp add: list_all_iff)
  moreover have "list_all (\<lambda>e. \<not> isDatedEntry e) (filter (\<lambda>e. \<not> isDatedEntry e) es)"
    by (simp add: list_all_iff)
  moreover have "sortEntries es = filter (\<lambda>e. \<not> isDatedEntry e) es @
      sort_by compareEntries (filter isDatedEntry es)"
    by (simp add: sortEntries_def)
  ultimately show ?thesis
    using entries.sorted_sort [of "filter isDatedEntry es"] mset_sortEntries [of es]
      sortEntries_idem [of es] by blast
qed

end
