(* ===== verification/FinTransaction.thy ===== *)
theory FinTransaction
  imports FinEntries
begin

text \<open>
  Weighing and balancing one transaction, from \<open>beancount/validation.ts\<close>: the weight of a posting,
  the tolerances, \<open>transactionBalanceErrors\<close>, \<open>validateTransaction\<close> and the interpolation of one
  missing amount. The lemmas show that a transaction passes exactly if every posting can be
  weighed and the weights of each currency cancel up to its tolerance.
\<close>

section \<open>Weights and tolerances\<close>

definition decimal_zero :: decimal where
  "decimal_zero = decimalFromCoefficient 0 0"

text \<open>
  \<open>a.add(b)\<close> where both amounts have the currency they are filed under, and so the same one.
\<close>

definition amount_plus :: "amount \<Rightarrow> amount \<Rightarrow> amount" where
  "amount_plus a b = amount_of (addDecimal (am_number a) (am_number b)) (am_currency a)"

lemma amount_plus_simps [simp]:
  "am_currency (amount_plus a b) = am_currency a"
  "amount_value (amount_plus a b) = amount_value a + amount_value b"
  by (simp_all add: amount_plus_def) (simp add: amount_value_def)

lemma amount_add_plus: "am_currency a = am_currency b \<Longrightarrow> amount_add a b = Inr (amount_plus a b)"
  by (simp add: amount_add_def assertSameCurrency_def amount_plus_def)

definition is_negative :: "amount \<Rightarrow> bool" where
  "is_negative a \<longleftrightarrow> dec_coefficient (am_number a) < 0"

text \<open>\<open>postingWeight\<close> of a posting whose units are present.\<close>

definition postingWeight :: "posting_entry \<Rightarrow> amount \<Rightarrow> (amount \<times> nat) option" where
  "postingWeight p units =
     (case ps_cost p of
        Some (AtCost c) \<Rightarrow>
          Some (amount_of (multiplyDecimal (am_number units) (co_number c)) (co_currency c),
                dec_places (co_number c))
      | Some (AtSpec s) \<Rightarrow>
          (case (plain_part (cs_currency s), cs_numberPer s, cs_numberTotal s) of
             ([cur], Some per, _) \<Rightarrow>
               Some (amount_of (multiplyDecimal (am_number units) per) cur, dec_places per)
           | ([cur], None, Some tot) \<Rightarrow>
               Some (amount_of (if is_negative units then negateDecimal tot else tot) cur,
                     dec_places tot)
           | _ \<Rightarrow> None)
      | None \<Rightarrow>
          (case ps_price p of
             Some price \<Rightarrow>
               if ps_priceIsTotal p
               then Some (amount_of (if is_negative units then negateDecimal (am_number price)
                                     else am_number price) (am_currency price),
                          dec_places (am_number price))
               else Some (amount_of (multiplyDecimal (am_number units) (am_number price))
                            (am_currency price), dec_places (am_number price))
           | None \<Rightarrow> Some (units, dec_places (am_number units))))"

text \<open>The tolerance texts are decimal numerals, so reading them cannot fail.\<close>

definition balancingTolerance :: "string \<Rightarrow> nat \<Rightarrow> amount option" where
  "balancingTolerance currency scale =
     (if scale \<le> 0 then None
      else Some (amount_of (projr (parseDecimal (''0.'' @ replicate scale (CHR ''0'') @ ''5''))) currency))"

definition inferredBalanceTolerance :: "amount \<Rightarrow> amount option" where
  "inferredBalanceTolerance a =
     (let scale = dec_places (am_number a)
      in if scale \<le> 0 then None
         else Some (amount_of (projr (parseDecimal (''0.'' @ replicate (scale - 1) (CHR ''0'') @ ''1'')))
                (am_currency a)))"

definition diffWithinTolerance :: "amount \<Rightarrow> amount option \<Rightarrow> bool" where
  "diffWithinTolerance diff tolerance \<longleftrightarrow>
     (if amount_isZero diff then True
      else (case tolerance of
              None \<Rightarrow> False
            | Some tol \<Rightarrow>
                let absolute = (if compareDecimal (am_number diff) decimal_zero < 0
                                then amount_negate diff else diff)
                in compareDecimal (am_number absolute) (am_number tol) \<le> 0))"

lemma decimal_zero_value [simp]: "value_of decimal_zero = 0"
  by (simp add: decimal_zero_def)

lemma parse_small:
  assumes "is_digit d"
  shows "parseDecimal (''0.'' @ replicate n (CHR ''0'') @ [d]) =
     Inr (decimalFromCoefficient (int (digit_val d)) (Suc n))"
proof -
  have "parseDecimal (sign_text False @ ''0'' @ fraction_text (replicate n (CHR ''0'') @ [d])) =
      Inr (decimalFromCoefficient (int (nat_of_dec (''0'' @ replicate n (CHR ''0'') @ [d])) * 1)
             (length (replicate n (CHR ''0'') @ [d])))"
    using assms by (subst parse_layout) auto
  moreover have "nat_of_dec (replicate n (CHR ''0'') @ [d]) = digit_val d"
    using nat_of_dec_snoc [of "[]" d] by simp
  ultimately show ?thesis by (simp add: sign_text_def fraction_text_def)
qed

definition tolerance_value :: "amount option \<Rightarrow> rat" where
  "tolerance_value t = (case t of None \<Rightarrow> 0 | Some a \<Rightarrow> amount_value a)"

lemma digit_val_5 [simp]: "digit_val (CHR ''5'') = 5" and digit_val_1 [simp]: "digit_val (CHR ''1'') = 1"
  and is_digit_5 [simp]: "is_digit (CHR ''5'')" and is_digit_1 [simp]: "is_digit (CHR ''1'')"
  by (simp_all add: digit_val_def is_digit_def)

lemma balancingTolerance_value:
  "tolerance_value (balancingTolerance c n) = (if n = 0 then 0 else 1 / (2 * 10 ^ n))"
  using parse_small [of "CHR ''5''" n]
  by (simp add: balancingTolerance_def tolerance_value_def field_simps)

lemma inferredBalanceTolerance_value:
  "tolerance_value (inferredBalanceTolerance a) =
     (if dec_places (am_number a) = 0 then 0 else 1 / 10 ^ dec_places (am_number a))"
  using parse_small [of "CHR ''1''" "dec_places (am_number a) - 1"]
  by (simp add: inferredBalanceTolerance_def tolerance_value_def Let_def)

lemma diffWithinTolerance_iff:
  "0 \<le> tolerance_value t \<Longrightarrow> diffWithinTolerance diff t \<longleftrightarrow> \<bar>amount_value diff\<bar> \<le> tolerance_value t"
  by (cases t) (auto simp: diffWithinTolerance_def tolerance_value_def Let_def amount_value_def
      amount_negate_def)

section \<open>Balancing\<close>

text \<open>
  The loop over the postings with its two early returns; the maps keep insertion order. A code
  and a message stand for a structured error.
\<close>

type_synonym balance_error = "string \<times> string"

fun weigh_postings ::
  "posting_entry list \<Rightarrow> (string \<times> amount) list \<Rightarrow> (string \<times> nat) list \<Rightarrow>
     balance_error + ((string \<times> amount) list \<times> (string \<times> nat) list)" where
  "weigh_postings [] residuals scales = Inr (residuals, scales)"
| "weigh_postings (p # ps) residuals scales =
     (case ps_units p of
        None \<Rightarrow> Inl (''transaction_incomplete'', ''Transaction contains an incomplete posting'')
      | Some units \<Rightarrow>
          (case postingWeight p units of
             None \<Rightarrow> Inl (''unsupported_cost_spec'',
                          ''Posting for '' @ ps_account p @
                          '' has a cost specification that cannot be weighed'')
           | Some (weight, scale) \<Rightarrow>
               let cur = am_currency weight;
                   residuals' = AList.update cur
                     (case map_of residuals cur of None \<Rightarrow> weight
                      | Some current \<Rightarrow> amount_plus current weight) residuals;
                   scales' =
                     (if scale > 0
                      then AList.update cur
                             (case map_of scales cur of None \<Rightarrow> scale
                              | Some known \<Rightarrow> min known scale) scales
                      else scales)
               in weigh_postings ps residuals' scales'))"

definition transactionBalanceErrors :: "posting_entry list \<Rightarrow> balance_error list" where
  "transactionBalanceErrors postings =
     (case weigh_postings postings [] [] of
        Inl e \<Rightarrow> [e]
      | Inr (residuals, scales) \<Rightarrow>
          map (\<lambda>(_, a). (''transaction_unbalanced'',
                  ''Transaction does not balance for '' @ am_currency a @ '': '' @ amount_text a))
            (filter (\<lambda>(currency, a). \<not> diffWithinTolerance a
                 (balancingTolerance currency
                    (case map_of scales currency of None \<Rightarrow> 0 | Some s \<Rightarrow> s)))
               residuals))"

text \<open>The specification: weights, their sum per currency, and the tolerance of a currency.\<close>

definition weight_of :: "posting_entry \<Rightarrow> (amount \<times> nat) option" where
  "weight_of p = (case ps_units p of None \<Rightarrow> None | Some u \<Rightarrow> postingWeight p u)"

definition weight_in :: "string \<Rightarrow> posting_entry \<Rightarrow> rat" where
  "weight_in c p = (case weight_of p of None \<Rightarrow> 0
     | Some (a, _) \<Rightarrow> if am_currency a = c then amount_value a else 0)"

definition residual :: "posting_entry list \<Rightarrow> string \<Rightarrow> rat" where
  "residual ps c = (\<Sum>p\<leftarrow>ps. weight_in c p)"

definition scales_of :: "posting_entry list \<Rightarrow> string \<Rightarrow> nat set" where
  "scales_of ps c = {s. \<exists>p \<in> set ps. \<exists>a. weight_of p = Some (a, s) \<and> am_currency a = c \<and> 0 < s}"

definition tolerance_of :: "posting_entry list \<Rightarrow> string \<Rightarrow> rat" where
  "tolerance_of ps c = (if scales_of ps c = {} then 0 else 1 / (2 * 10 ^ Min (scales_of ps c)))"

definition balanced :: "posting_entry list \<Rightarrow> bool" where
  "balanced ps \<longleftrightarrow>
     (\<forall>p \<in> set ps. weight_of p \<noteq> None) \<and> (\<forall>c. \<bar>residual ps c\<bar> \<le> tolerance_of ps c)"

text \<open>What the two maps hold after a prefix of the postings.\<close>

definition weighed :: "posting_entry list \<Rightarrow> (string \<times> amount) list \<Rightarrow> (string \<times> nat) list \<Rightarrow> bool" where
  "weighed ps residuals scales \<longleftrightarrow>
     distinct (map fst residuals) \<and>
     (\<forall>(c, a) \<in> set residuals. am_currency a = c) \<and>
     (\<forall>c. residual ps c = (case map_of residuals c of None \<Rightarrow> 0 | Some a \<Rightarrow> amount_value a)) \<and>
     (\<forall>c. map_of residuals c = None \<longrightarrow> scales_of ps c = {}) \<and>
     (\<forall>c. map_of scales c = (if scales_of ps c = {} then None else Some (Min (scales_of ps c))))"

lemma weight_of_Some: "ps_units p = Some u \<Longrightarrow> weight_of p = postingWeight p u"
  by (simp add: weight_of_def)

lemma finite_scales_of [simp]: "finite (scales_of ps c)"
proof -
  have "scales_of ps c \<subseteq> (\<lambda>p. snd (the (weight_of p))) ` set ps"
    by (force simp: scales_of_def)
  then show ?thesis by (rule finite_subset) simp
qed

lemma scales_of_snoc:
  "weight_of p = Some (a, s) \<Longrightarrow>
     scales_of (ps @ [p]) c = scales_of ps c \<union> (if am_currency a = c \<and> 0 < s then {s} else {})"
  by (auto simp: scales_of_def)

lemma residual_snoc: "residual (ps @ [p]) c = residual ps c + weight_in c p"
  by (simp add: residual_def)

lemma weighed_snoc:
  assumes ok: "weighed ps residuals scales" and w: "weight_of p = Some (weight, scale)"
  shows "weighed (ps @ [p])
    (AList.update (am_currency weight)
       (case map_of residuals (am_currency weight) of None \<Rightarrow> weight
        | Some current \<Rightarrow> amount_plus current weight) residuals)
    (if scale > 0
     then AList.update (am_currency weight)
            (case map_of scales (am_currency weight) of None \<Rightarrow> scale | Some known \<Rightarrow> min known scale) scales
     else scales)"
proof -
  let ?c = "am_currency weight"
  let ?new = "case map_of residuals ?c of None \<Rightarrow> weight | Some current \<Rightarrow> amount_plus current weight"
  let ?res = "AList.update ?c ?new residuals"
  note scales' = scales_of_snoc [OF w, of ps]
  have cur: "am_currency a = k" if "(k, a) \<in> set residuals" for k a
    using ok that by (auto simp: weighed_def)
  have new_cur: "am_currency ?new = ?c"
    using cur by (auto split: option.split dest: map_of_SomeD)
  have new_val: "amount_value ?new = residual ps ?c + amount_value weight"
    using ok by (auto simp: weighed_def split: option.split)
  have "distinct (map fst ?res)" using ok by (simp add: weighed_def distinct_update)
  moreover have "\<forall>(k, a) \<in> set ?res. am_currency a = k"
    using set_update_subset [of ?c ?new residuals] cur new_cur by auto
  moreover have "residual (ps @ [p]) k = (case map_of ?res k of None \<Rightarrow> 0 | Some a \<Rightarrow> amount_value a)" for k
    using ok new_val w by (auto simp: update_conv' residual_snoc weight_in_def weighed_def)
  moreover have "scales_of (ps @ [p]) k = {}" if "map_of ?res k = None" for k
    using that ok scales' [of k] by (auto simp: update_conv' weighed_def split: if_splits)
  moreover have "map_of (if scale > 0 then AList.update ?c
        (case map_of scales ?c of None \<Rightarrow> scale | Some known \<Rightarrow> min known scale) scales else scales) k =
      (if scales_of (ps @ [p]) k = {} then None else Some (Min (scales_of (ps @ [p]) k)))" for k
    using ok by (auto simp: update_conv' weighed_def scales' min.commute)
  ultimately show ?thesis unfolding weighed_def by blast
qed

lemma weigh_postings_weighed:
  "weighed ps residuals scales \<Longrightarrow>
   (case weigh_postings qs residuals scales of
      Inl _ \<Rightarrow> \<exists>q \<in> set qs. weight_of q = None
    | Inr (r, s) \<Rightarrow> (\<forall>q \<in> set qs. weight_of q \<noteq> None) \<and> weighed (ps @ qs) r s)"
proof (induction qs arbitrary: ps residuals scales)
  case (Cons q qs)
  show ?case
  proof (cases "weight_of q")
    case None
    then show ?thesis by (auto simp: weight_of_def split: option.splits)
  next
    case (Some ws)
    then obtain u w sc where u: "ps_units q = Some u" and w: "postingWeight q u = Some (w, sc)"
      and ws: "ws = (w, sc)" by (cases ws) (auto simp: weight_of_def split: option.splits)
    note step = Cons.IH [OF weighed_snoc [OF Cons.prems Some [unfolded ws]]]
    with u w Some show ?thesis by (auto simp: Let_def split: sum.splits prod.splits)
  qed
qed simp

lemma weighed_Nil [simp]: "weighed [] [] []"
  by (simp add: weighed_def residual_def scales_of_def)

lemma transactionBalanceErrors_iff: "transactionBalanceErrors ps = [] \<longleftrightarrow> balanced ps"
proof (cases "weigh_postings ps [] []")
  case (Inl e)
  with weigh_postings_weighed [OF weighed_Nil, of ps] show ?thesis
    by (auto simp: transactionBalanceErrors_def balanced_def simp del: not_None_eq split_paired_All)
next
  case (Inr rs)
  obtain r s where rs: "rs = (r, s)" by (cases rs)
  with Inr weigh_postings_weighed [OF weighed_Nil, of ps]
  have all: "\<forall>q \<in> set ps. weight_of q \<noteq> None" and ok: "weighed ps r s" by auto
  have tol: "tolerance_value (balancingTolerance c (case map_of s c of None \<Rightarrow> 0 | Some n \<Rightarrow> n)) =
      tolerance_of ps c" for c
  proof (cases "scales_of ps c = {}")
    case True
    with ok show ?thesis by (simp add: weighed_def tolerance_of_def balancingTolerance_value)
  next
    case False
    then have "Min (scales_of ps c) \<in> scales_of ps c" by (intro Min_in) auto
    then have "0 < Min (scales_of ps c)" by (auto simp: scales_of_def)
    with ok False show ?thesis by (simp add: weighed_def tolerance_of_def balancingTolerance_value)
  qed
  have nonneg: "0 \<le> tolerance_of ps c" for c by (simp add: tolerance_of_def)
  have "transactionBalanceErrors ps = [] \<longleftrightarrow>
      (\<forall>(c, a) \<in> set r. \<bar>amount_value a\<bar> \<le> tolerance_of ps c)"
    using nonneg
    by (auto simp: transactionBalanceErrors_def Inr rs filter_empty_conv diffWithinTolerance_iff tol)
  also have "\<dots> \<longleftrightarrow> (\<forall>c. \<bar>residual ps c\<bar> \<le> tolerance_of ps c)"
  proof
    assume small: "\<forall>(c, a) \<in> set r. \<bar>amount_value a\<bar> \<le> tolerance_of ps c"
    show "\<forall>c. \<bar>residual ps c\<bar> \<le> tolerance_of ps c"
      using small ok nonneg by (auto simp: weighed_def split: option.split dest: map_of_SomeD)
  next
    assume small: "\<forall>c. \<bar>residual ps c\<bar> \<le> tolerance_of ps c"
    show "\<forall>(c, a) \<in> set r. \<bar>amount_value a\<bar> \<le> tolerance_of ps c"
    proof (intro ballI, clarify)
      fix c a assume "(c, a) \<in> set r"
      with ok have "map_of r c = Some a" by (auto simp: weighed_def)
      with ok have "residual ps c = amount_value a" by (simp add: weighed_def)
      with small show "\<bar>amount_value a\<bar> \<le> tolerance_of ps c" by metis
    qed
  qed
  finally show ?thesis using all by (simp add: balanced_def)
qed

section \<open>Interpolation of a missing amount\<close>

text \<open>
  The amount that completes the postings, where the code does not return the entry as it is: one
  posting lacks its units and has no cost or price, and the others weigh in one currency.
\<close>

definition missing_amount :: "posting_entry list \<Rightarrow> amount option" where
  "missing_amount postings =
     (case filter (\<lambda>p. ps_units p = None) postings of
        [target] \<Rightarrow>
          if ps_cost target \<noteq> None \<or> ps_price target \<noteq> None then None
          else (case those (map weight_of (filter (\<lambda>p. ps_units p \<noteq> None) postings)) of
                  Some (w # ws) \<Rightarrow>
                    let weights = map fst (w # ws); currency = am_currency (fst w)
                    in if currency = [] \<or> list_ex (\<lambda>a. am_currency a \<noteq> currency) weights then None
                       else Some (amount_negate
                              (foldl amount_plus (amount_of decimal_zero currency) weights))
                | _ \<Rightarrow> None)
      | _ \<Rightarrow> None)"

definition fill_posting :: "amount \<Rightarrow> posting_entry \<Rightarrow> posting_entry" where
  "fill_posting replacement p =
     (if ps_units p = None
      then p\<lparr>ps_units := Some replacement, ps_meta := put ''interpolated'' (JBool True) (ps_meta p)\<rparr>
      else p)"

definition interpolateTransaction :: "transaction_entry \<Rightarrow> transaction_entry" where
  "interpolateTransaction entry =
     (case missing_amount (te_postings entry) of
        None \<Rightarrow> entry
      | Some replacement \<Rightarrow>
          entry\<lparr>te_postings := map (fill_posting replacement) (te_postings entry)\<rparr>)"

definition VALID_FLAGS :: "string list" where
  "VALID_FLAGS = [''*'', ''!'', ''&'', ''#'', ''?'', ''%'', ''P'', ''S'', ''T'', ''C'', ''U'', ''R'', ''M'']"

definition isValidFlag :: "string \<Rightarrow> bool" where
  "isValidFlag flag \<longleftrightarrow> flag \<in> set VALID_FLAGS"

section \<open>Validation of one transaction\<close>

definition error_at :: "string \<Rightarrow> string \<Rightarrow> source_location option \<Rightarrow> ledger_error" where
  "error_at code message source = \<lparr>le_code = code, le_message = message, le_source = source\<rparr>"

text \<open>The loop over the postings: the first invalid flag or currency ends it with one error.\<close>

definition posting_error ::
  "(string \<rightharpoonup> open_entry) \<Rightarrow> source_location option \<Rightarrow> posting_entry \<Rightarrow> ledger_error option" where
  "posting_error opens src p =
     (case ps_flag p of
        Some f \<Rightarrow>
          if \<not> isValidFlag f
          then Some (error_at ''invalid_flag'' (''Invalid posting flag: '' @ f) src)
          else None
      | None \<Rightarrow> None)"

definition posting_currency_error ::
  "(string \<rightharpoonup> open_entry) \<Rightarrow> source_location option \<Rightarrow> posting_entry \<Rightarrow> ledger_error option" where
  "posting_currency_error opens src p =
     (case (ps_units p, opens (ps_account p)) of
        (Some u, Some oe) \<Rightarrow>
          if oe_currencies oe \<noteq> [] \<and> am_currency u \<notin> set (oe_currencies oe)
          then Some (error_at ''currency_constraint''
                 (''Invalid currency '' @ am_currency u @ '' for account '' @ ps_account p) src)
          else None
      | _ \<Rightarrow> None)"

definition validateTransaction ::
  "transaction_entry \<Rightarrow> (string \<rightharpoonup> open_entry) \<Rightarrow> ledger_error list" where
  "validateTransaction entry opens =
     (let src = en_source entry
      in if length (te_postings entry) < 2
         then [error_at ''transaction_postings_min'' ''Transaction must have at least two postings'' src]
         else if \<not> isValidFlag (te_flag entry)
         then [error_at ''invalid_flag'' (''Invalid transaction flag: '' @ te_flag entry) src]
         else (case first_some
                  (map (\<lambda>p _. first_some [posting_error opens src, posting_currency_error opens src] p)
                     (te_postings entry)) () of
                 Some e \<Rightarrow> [e]
               | None \<Rightarrow>
                   map (\<lambda>(code, message). error_at code message src)
                     (transactionBalanceErrors (te_postings entry))))"

definition currency_admitted :: "(string \<rightharpoonup> open_entry) \<Rightarrow> posting_entry \<Rightarrow> bool" where
  "currency_admitted opens p \<longleftrightarrow>
     (case (ps_units p, opens (ps_account p)) of
        (Some u, Some oe) \<Rightarrow> oe_currencies oe = [] \<or> am_currency u \<in> set (oe_currencies oe)
      | _ \<Rightarrow> True)"

definition transaction_ok :: "transaction_entry \<Rightarrow> (string \<rightharpoonup> open_entry) \<Rightarrow> bool" where
  "transaction_ok entry opens \<longleftrightarrow>
     2 \<le> length (te_postings entry) \<and> isValidFlag (te_flag entry) \<and>
     (\<forall>p \<in> set (te_postings entry).
        (case ps_flag p of None \<Rightarrow> True | Some f \<Rightarrow> isValidFlag f) \<and> currency_admitted opens p) \<and>
     balanced (te_postings entry)"

lemma posting_error_None:
  "posting_error opens src p = None \<longleftrightarrow> (case ps_flag p of None \<Rightarrow> True | Some f \<Rightarrow> isValidFlag f)"
  by (auto simp: posting_error_def split: option.split)

lemma posting_currency_error_None:
  "posting_currency_error opens src p = None \<longleftrightarrow> currency_admitted opens p"
  by (auto simp: posting_currency_error_def currency_admitted_def split: option.split)

lemma first_posting_error_None:
  "first_some (map (\<lambda>p _. first_some [posting_error opens src, posting_currency_error opens src] p) ps) ()
     = None \<longleftrightarrow>
   (\<forall>p \<in> set ps. (case ps_flag p of None \<Rightarrow> True | Some f \<Rightarrow> isValidFlag f) \<and> currency_admitted opens p)"
  by (simp only: first_some_None_iff set_map ball_simps list.set posting_error_None
      posting_currency_error_None Set.ball_simps simp_thms)

lemma validateTransaction_iff: "validateTransaction entry opens = [] \<longleftrightarrow> transaction_ok entry opens"
proof -
  let ?F = "first_some (map (\<lambda>p _. first_some [posting_error opens (en_source entry),
    posting_currency_error opens (en_source entry)] p) (te_postings entry)) ()"
  have "validateTransaction entry opens = [] \<longleftrightarrow>
      2 \<le> length (te_postings entry) \<and> isValidFlag (te_flag entry) \<and> ?F = None \<and>
      transactionBalanceErrors (te_postings entry) = []"
    unfolding validateTransaction_def Let_def by (cases ?F) (simp_all only: option.case, auto)
  then show ?thesis
    unfolding first_posting_error_None transactionBalanceErrors_iff transaction_ok_def by blast
qed

section \<open>Interpolated transactions balance\<close>

lemma residual_fill:
  "residual (map (fill_posting r) ps) c =
     residual (filter (\<lambda>p. ps_units p \<noteq> None) ps) c +
     (\<Sum>p\<leftarrow>filter (\<lambda>p. ps_units p = None) ps. weight_in c (fill_posting r p))"
  by (induction ps) (auto simp: residual_def fill_posting_def)

lemma those_Some: "those xs = Some ys \<longleftrightarrow> xs = map Some ys"
  by (induction xs arbitrary: ys) (auto split: option.splits)

lemma foldl_amount_plus:
  "am_currency (foldl amount_plus a ws) = am_currency a"
  "amount_value (foldl amount_plus a ws) = amount_value a + (\<Sum>w\<leftarrow>ws. amount_value w)"
  by (induction ws arbitrary: a) simp_all

lemma residual_weights:
  "map weight_of ps = map Some ws \<Longrightarrow> \<forall>w \<in> set ws. am_currency (fst w) = cur \<Longrightarrow>
     residual ps c = (if c = cur then (\<Sum>w\<leftarrow>ws. amount_value (fst w)) else 0)"
proof (induction ps arbitrary: ws)
  case (Cons p ps)
  then show ?case
    by (cases ws) (auto simp: residual_def weight_in_def split: prod.split)
qed (simp add: residual_def)

lemma case_Cons_SomeD:
  "(case x of None \<Rightarrow> None | Some [] \<Rightarrow> None | Some (w # ws) \<Rightarrow> f w ws) = Some r \<Longrightarrow>
     \<exists>w ws. x = Some (w # ws) \<and> f w ws = Some r"
  by (auto split: option.splits list.splits)

lemma if_SomeD: "(if b then None else Some x) = Some r \<Longrightarrow> \<not> b \<and> r = x"
  by (cases b) auto

lemma missing_amount_SomeD:
  assumes "missing_amount ps = Some r"
  obtains target ws where "filter (\<lambda>p. ps_units p = None) ps = [target]"
    and "ps_cost target = None" and "ps_price target = None"
    and "map weight_of (filter (\<lambda>p. ps_units p \<noteq> None) ps) = map Some ws"
    and "\<forall>w \<in> set ws. am_currency (fst w) = am_currency r"
    and "amount_value r = - (\<Sum>w\<leftarrow>ws. amount_value (fst w))"
proof -
  obtain target where t: "filter (\<lambda>p. ps_units p = None) ps = [target]"
    using assms by (auto simp: missing_amount_def split: list.splits)
  note m = assms [unfolded missing_amount_def t list.case]
  from m have bare: "ps_cost target = None" "ps_price target = None" by (auto split: if_splits)
  note m = m [unfolded bare simp_thms if_False]
  obtain w ws where those: "those (map weight_of (filter (\<lambda>p. ps_units p \<noteq> None) ps)) = Some (w # ws)"
    and m: "\<not> (am_currency (fst w) = [] \<or>
        list_ex (\<lambda>a. am_currency a \<noteq> am_currency (fst w)) (map fst (w # ws))) \<and>
      r = amount_negate (foldl amount_plus (amount_of decimal_zero (am_currency (fst w))) (map fst (w # ws)))"
    using case_Cons_SomeD [OF m [unfolded Let_def]] by (elim exE conjE) (rule that, assumption, rule if_SomeD)
  from m have cur: "\<not> list_ex (\<lambda>a. am_currency a \<noteq> am_currency (fst w)) (map fst (w # ws))"
    and r: "r = amount_negate (foldl amount_plus (amount_of decimal_zero (am_currency (fst w)))
                 (map fst (w # ws)))" by blast+
  from those have ws: "map weight_of (filter (\<lambda>p. ps_units p \<noteq> None) ps) = map Some (w # ws)"
    by (simp only: those_Some)
  have "am_currency r = am_currency (fst w)"
    by (simp only: r amount_negate_simps foldl_amount_plus amount_of_simps)
  with cur have same: "\<forall>v \<in> set (w # ws). am_currency (fst v) = am_currency r"
    by (auto simp: list_ex_iff)
  have "amount_value r = - (\<Sum>v\<leftarrow>w # ws. amount_value (fst v))"
    by (simp add: r foldl_amount_plus comp_def)
  with t bare ws same show thesis by (rule that)
qed

lemma weight_of_filled:
  "ps_units p = None \<Longrightarrow> ps_cost p = None \<Longrightarrow> ps_price p = None \<Longrightarrow>
     weight_of (fill_posting r p) = Some (r, dec_places (am_number r))"
  by (simp add: weight_of_def fill_posting_def postingWeight_def)

lemma filled_postings:
  assumes "missing_amount ps = Some r"
  shows "(\<forall>p \<in> set ps. weight_of (fill_posting r p) \<noteq> None) \<and>
         (\<forall>c. residual (map (fill_posting r) ps) c = 0)"
proof -
  obtain target ws where t: "filter (\<lambda>p. ps_units p = None) ps = [target]"
    and bare: "ps_cost target = None" "ps_price target = None"
    and ws: "map weight_of (filter (\<lambda>p. ps_units p \<noteq> None) ps) = map Some ws"
    and cur: "\<forall>w \<in> set ws. am_currency (fst w) = am_currency r"
    and r: "amount_value r = - (\<Sum>w\<leftarrow>ws. amount_value (fst w))"
    using assms by (rule missing_amount_SomeD)
  have mem: "p \<in> set ps \<and> ps_units p = None \<longleftrightarrow> p = target" for p
    using arg_cong [OF t, of set] by auto
  then have tn: "ps_units target = None" by blast
  have "weight_of (fill_posting r p) \<noteq> None" if "p \<in> set ps" for p
  proof (cases "ps_units p = None")
    case True
    with that mem have "p = target" by blast
    with tn bare show ?thesis by (simp add: weight_of_filled)
  next
    case False
    with that have "weight_of p \<in> set (map weight_of (filter (\<lambda>p. ps_units p \<noteq> None) ps))" by simp
    with False show ?thesis unfolding ws by (auto simp: fill_posting_def)
  qed
  moreover have "residual (map (fill_posting r) ps) c = 0" for c
    unfolding residual_fill t residual_weights [OF ws cur]
    using tn bare r by (simp add: weight_in_def weight_of_filled)
  ultimately show ?thesis by blast
qed

lemma interpolate_balanced:
  assumes "missing_amount (te_postings e) \<noteq> None"
  shows "balanced (te_postings (interpolateTransaction e))"
proof -
  from assms obtain r where "missing_amount (te_postings e) = Some r" by auto
  with filled_postings [OF this] show ?thesis
    by (auto simp: balanced_def interpolateTransaction_def tolerance_of_def simp del: not_None_eq)
qed

lemma interpolate_accounts:
  "map ps_account (te_postings (interpolateTransaction e)) = map ps_account (te_postings e)"
  by (auto simp: interpolateTransaction_def fill_posting_def split: option.split)

section \<open>Properties\<close>

text \<open>
  C4: a transaction's postings pass the balance check exactly if every posting has units that can
  be weighed and, in each currency, the weights cancel up to half a unit of the coarsest scale seen,
  and exactly where only integers were seen.
\<close>

theorem balance_check_exact: "transactionBalanceErrors ps = [] \<longleftrightarrow> balanced ps"
  by (rule transactionBalanceErrors_iff)

text \<open>
  Interpolation completes a transaction so that it passes the balance check with every residual
  exactly zero, and does not touch the accounts; otherwise it returns the entry unchanged.
\<close>

theorem interpolation_balances:
  "if missing_amount (te_postings e) = None then interpolateTransaction e = e
   else transactionBalanceErrors (te_postings (interpolateTransaction e)) = [] \<and>
        (\<forall>c. residual (te_postings (interpolateTransaction e)) c = 0) \<and>
        map ps_account (te_postings (interpolateTransaction e)) = map ps_account (te_postings e)"
proof (cases "missing_amount (te_postings e)")
  case None
  then show ?thesis by (simp add: interpolateTransaction_def)
next
  case (Some r)
  with filled_postings [OF Some] interpolate_balanced [of e] interpolate_accounts [of e] show ?thesis
    by (simp add: transactionBalanceErrors_iff interpolateTransaction_def)
qed

end
