(* ===== verification/FinLedger.thy ===== *)
theory FinLedger
  imports FinTransaction
begin

text \<open>
  The ledger-wide part of \<open>beancount/validation.ts\<close>: running balances, the validation pass over a
  sorted ledger, and the padding transformation. \<open>ledger_ok\<close> is the specification: what must hold of
  every entry with respect to the entries before it. The main lemma says that the one-pass
  validation reports nothing exactly if it holds.
\<close>

section \<open>Running balances\<close>

type_synonym balances = "(string \<times> amount) list"

definition balanceKey :: "string \<Rightarrow> string \<Rightarrow> string" where
  "balanceKey account currency = account @ ''|'' @ currency"

definition apply_posting :: "balances \<Rightarrow> posting_entry \<Rightarrow> balances res" where
  "apply_posting m p =
     (case ps_units p of
        None \<Rightarrow> Inr m
      | Some units \<Rightarrow>
          let key = balanceKey (ps_account p) (am_currency units)
          in bind_sum (case map_of m key of None \<Rightarrow> Inr units | Some current \<Rightarrow> amount_add current units)
               (\<lambda>a. Inr (AList.update key a m)))"

definition applyTransactionToBalances :: "balances \<Rightarrow> transaction_entry \<Rightarrow> balances res" where
  "applyTransactionToBalances m entry = fold_sum apply_posting m (te_postings entry)"

definition in_subtree :: "string \<Rightarrow> string \<Rightarrow> bool" where
  "in_subtree account a \<longleftrightarrow> a = account \<or> prefix (account @ '':'') a"

definition subtree_step :: "string \<Rightarrow> string \<Rightarrow> amount \<Rightarrow> string \<times> amount \<Rightarrow> amount res" where
  "subtree_step account currency sum_so_far entry =
     (case split_on (CHR ''|'') (fst entry) of
        a # c # _ \<Rightarrow>
          if c \<noteq> currency then Inr sum_so_far
          else if in_subtree account a then amount_add sum_so_far (snd entry)
          else Inr sum_so_far
      | _ \<Rightarrow> Inr sum_so_far)"

definition subtreeBalance :: "balances \<Rightarrow> string \<Rightarrow> string \<Rightarrow> amount res" where
  "subtreeBalance m account currency =
     fold_sum (subtree_step account currency) (amount_of decimal_zero currency) m"

section \<open>Validation of a ledger\<close>

fun referencedAccounts :: "ledger_entry \<Rightarrow> string list" where
  "referencedAccounts (LTransaction t) = map ps_account (te_postings t)"
| "referencedAccounts (LBalance b) = [be_account b]"
| "referencedAccounts (LNote n) = [ne_account n]"
| "referencedAccounts (LDocument d) = [de_account d]"
| "referencedAccounts (LPad p) = [pe_account p, pe_sourceAccount p]"
| "referencedAccounts _ = []"

record vstate =
  vs_errors :: "ledger_error list"
  vs_open :: "string \<rightharpoonup> open_entry"
  vs_closed :: "string set"
  vs_active :: "string set"
  vs_commodities :: "string set"
  vs_balances :: "string \<rightharpoonup> balance_entry"
  vs_running :: balances

definition vstate_init :: vstate where
  "vstate_init =
     \<lparr>vs_errors = [], vs_open = Map.empty, vs_closed = {}, vs_active = {}, vs_commodities = {},
      vs_balances = Map.empty, vs_running = []\<rparr>"

definition push_errors :: "ledger_error list \<Rightarrow> vstate \<Rightarrow> vstate" where
  "push_errors es st = st\<lparr>vs_errors := vs_errors st @ es\<rparr>"

definition validate_open :: "vstate \<Rightarrow> open_entry \<Rightarrow> vstate" where
  "validate_open st e =
     (if vs_open st (oe_account e) \<noteq> None
      then push_errors [error_at ''duplicate_open''
             (''Duplicate open directive for '' @ oe_account e) (en_source e)] st
      else st\<lparr>vs_open := (vs_open st)(oe_account e \<mapsto> e),
              vs_active := insert (oe_account e) (vs_active st)\<rparr>)"

definition close_errors :: "vstate \<Rightarrow> close_entry \<Rightarrow> ledger_error list" where
  "close_errors st e =
     (case vs_open st (ce_account e) of
        None \<Rightarrow> [error_at ''close_unopened''
                 (''Unopened account '' @ ce_account e @ '' is being closed'') (en_source e)]
      | Some opened \<Rightarrow>
          if en_date e < en_date opened
          then [error_at ''close_before_open'' (''Close before open for '' @ ce_account e) (en_source e)]
          else []) @
     (if ce_account e \<in> vs_closed st
      then [error_at ''duplicate_close'' (''Duplicate close directive for '' @ ce_account e) (en_source e)]
      else [])"

definition validate_close :: "vstate \<Rightarrow> close_entry \<Rightarrow> vstate" where
  "validate_close st e =
     (push_errors (close_errors st e) st)
       \<lparr>vs_closed := insert (ce_account e) (vs_closed st),
        vs_active := vs_active st - {ce_account e}\<rparr>"

definition validate_commodity :: "vstate \<Rightarrow> commodity_entry \<Rightarrow> vstate" where
  "validate_commodity st e =
     (push_errors (if me_currency e \<in> vs_commodities st
                   then [error_at ''duplicate_commodity''
                           (''Duplicate commodity directive for '' @ me_currency e) (en_source e)]
                   else []) st)
       \<lparr>vs_commodities := insert (me_currency e) (vs_commodities st)\<rparr>"

definition reference_errors :: "vstate \<Rightarrow> ledger_entry \<Rightarrow> ledger_error list" where
  "reference_errors st entry =
     concat (map (\<lambda>account.
         if account \<in> vs_active st then []
         else let code = (if vs_open st account \<noteq> None then ''inactive_account'' else ''unknown_account'')
              in [error_at code
                    (''Invalid reference to '' @
                     (if code = ''inactive_account'' then ''inactive'' else ''unknown'') @
                     '' account '' @ account) (entry_source entry)])
       (referencedAccounts entry))"

definition validate_transaction_entry :: "vstate \<Rightarrow> transaction_entry \<Rightarrow> vstate res" where
  "validate_transaction_entry st e =
     bind_sum (applyTransactionToBalances (vs_running st) e)
       (\<lambda>m. Inr ((push_errors (validateTransaction e (vs_open st)) st)\<lparr>vs_running := m\<rparr>))"

definition validate_document :: "vstate \<Rightarrow> document_entry \<Rightarrow> vstate" where
  "validate_document st e =
     push_errors (if trim (de_filename e) = []
                  then [error_at ''invalid_document_path''
                          (''Document directive for '' @ de_account e @ '' has an empty path'')
                          (en_source e)]
                  else []) st"

definition assertion_key :: "balance_entry \<Rightarrow> string" where
  "assertion_key e = be_account e @ ''|'' @ am_currency (be_amount e) @ ''|'' @ en_date e"

definition assertion_tolerance :: "balance_entry \<Rightarrow> amount option" where
  "assertion_tolerance e =
     (case be_tolerance e of Some t \<Rightarrow> Some t | None \<Rightarrow> inferredBalanceTolerance (be_amount e))"

definition validate_balance :: "vstate \<Rightarrow> balance_entry \<Rightarrow> vstate res" where
  "validate_balance st e =
     (let key = assertion_key e;
          repeated = (case vs_balances st key of
                        None \<Rightarrow> []
                      | Some previous \<Rightarrow>
                          if \<not> amount_equals (be_amount previous) (be_amount e)
                          then [error_at ''duplicate_balance''
                                  ''Duplicate balance assertion with different amounts'' (en_source e)]
                          else [])
      in bind_sum (subtreeBalance (vs_running st) (be_account e) (am_currency (be_amount e))) (\<lambda>actual.
         bind_sum (amount_add actual (amount_negate (be_amount e))) (\<lambda>diff.
           let failed = (if \<not> diffWithinTolerance diff (assertion_tolerance e)
                         then [error_at ''balance_assertion_failed''
                                 (''Balance assertion failed for '' @ be_account e @ '': expected '' @
                                  amount_text (be_amount e) @ '', actual '' @ amount_text actual)
                                 (en_source e)]
                         else [])
           in Inr ((push_errors (repeated @ failed) st)
                     \<lparr>vs_balances := (vs_balances st)(key \<mapsto> e)\<rparr>))))"

text \<open>One iteration of the loop of \<open>validateEntries\<close>.\<close>

definition validate_entry :: "vstate \<Rightarrow> ledger_entry \<Rightarrow> vstate res" where
  "validate_entry st entry =
     (case entry of
        LConfig _ \<Rightarrow> Inr st
      | LOpen e \<Rightarrow> Inr (validate_open st e)
      | LClose e \<Rightarrow> Inr (validate_close st e)
      | LCommodity e \<Rightarrow> Inr (push_errors (reference_errors st entry) (validate_commodity st e))
      | LTransaction e \<Rightarrow> validate_transaction_entry (push_errors (reference_errors st entry) st) e
      | LDocument e \<Rightarrow> Inr (validate_document (push_errors (reference_errors st entry) st) e)
      | LBalance e \<Rightarrow> validate_balance (push_errors (reference_errors st entry) st) e
      | _ \<Rightarrow> Inr (push_errors (reference_errors st entry) st))"

definition validateEntries :: "ledger_entry list \<Rightarrow> ledger_error list res" where
  "validateEntries entries =
     bind_sum (fold_sum validate_entry vstate_init (sortEntries entries)) (\<lambda>st. Inr (vs_errors st))"

section \<open>Padding\<close>

definition bare_posting :: "string \<Rightarrow> amount \<Rightarrow> posting_entry" where
  "bare_posting account units =
     \<lparr>ps_account = account, ps_units = Some units, ps_cost = None, ps_price = None,
      ps_priceIsTotal = False, ps_flag = None, ps_meta = []\<rparr>"

definition pad_transaction :: "pad_entry \<Rightarrow> string \<Rightarrow> amount \<Rightarrow> transaction_entry" where
  "pad_transaction pad account diff =
     \<lparr>en_meta = [(''generated_by'', JStr ''finance_ledger_pad'')], en_source = en_source pad,
      en_date = en_date pad, te_flag = ''P'', te_payee = None,
      te_narration = Some (''Pad '' @ account), te_tags = [], te_links = [],
      te_postings = [bare_posting account diff,
                     bare_posting (pe_sourceAccount pad) (amount_negate diff)]\<rparr>"

record pad_state =
  pa_result :: "ledger_entry list"
  pa_running :: balances
  pa_pending :: "string \<rightharpoonup> pad_entry"

definition pad_push :: "ledger_entry \<Rightarrow> pad_state \<Rightarrow> pad_state" where
  "pad_push e st = st\<lparr>pa_result := pa_result st @ [e]\<rparr>"

definition pad_balance :: "pad_state \<Rightarrow> balance_entry \<Rightarrow> pad_state res" where
  "pad_balance st e =
     bind_sum (subtreeBalance (pa_running st) (be_account e) (am_currency (be_amount e))) (\<lambda>actual.
     bind_sum (amount_add (be_amount e) (amount_negate actual)) (\<lambda>diff.
       case pa_pending st (be_account e) of
         None \<Rightarrow> Inr (pad_push (LBalance e) st)
       | Some pad \<Rightarrow>
           if amount_isZero diff then Inr (pad_push (LBalance e) st)
           else
             let synthetic = pad_transaction pad (be_account e) diff
             in bind_sum (applyTransactionToBalances (pa_running st) synthetic) (\<lambda>m.
                  Inr (pad_push (LBalance e)
                    ((pad_push (LTransaction synthetic) st)
                       \<lparr>pa_running := m, pa_pending := (pa_pending st)(be_account e := None)\<rparr>)))))"

definition pad_step :: "pad_state \<Rightarrow> ledger_entry \<Rightarrow> pad_state res" where
  "pad_step st entry =
     (case entry of
        LPad e \<Rightarrow> Inr (pad_push entry (st\<lparr>pa_pending := (pa_pending st)(pe_account e \<mapsto> e)\<rparr>))
      | LBalance e \<Rightarrow> pad_balance st e
      | LTransaction e \<Rightarrow>
          bind_sum (applyTransactionToBalances (pa_running st) e)
            (\<lambda>m. Inr (pad_push entry (st\<lparr>pa_running := m\<rparr>)))
      | _ \<Rightarrow> Inr (pad_push entry st))"

definition pad_init :: pad_state where
  "pad_init = \<lparr>pa_result = [], pa_running = [], pa_pending = Map.empty\<rparr>"

definition applyPadDirectives :: "ledger_entry list \<Rightarrow> ledger_entry list res" where
  "applyPadDirectives entries =
     bind_sum (fold_sum pad_step pad_init (sortEntries entries)) (\<lambda>st. Inr (sortEntries (pa_result st)))"

definition interpolate_entry :: "ledger_entry \<Rightarrow> ledger_entry" where
  "interpolate_entry entry =
     (case entry of LTransaction t \<Rightarrow> LTransaction (interpolateTransaction t) | _ \<Rightarrow> entry)"

definition interpolateEntries :: "ledger_entry list \<Rightarrow> ledger_entry list" where
  "interpolateEntries entries = map interpolate_entry entries"

definition transformEntries :: "ledger_entry list \<Rightarrow> ledger_entry list res" where
  "transformEntries entries = applyPadDirectives (interpolateEntries entries)"

section \<open>What the running balances hold\<close>

definition contribution :: "string \<Rightarrow> string \<Rightarrow> posting_entry \<Rightarrow> rat" where
  "contribution account currency p =
     (case ps_units p of
        None \<Rightarrow> 0
      | Some u \<Rightarrow> if am_currency u = currency \<and> in_subtree account (ps_account p) then amount_value u else 0)"

definition entry_contribution :: "string \<Rightarrow> string \<Rightarrow> ledger_entry \<Rightarrow> rat" where
  "entry_contribution account currency e =
     (case e of LTransaction t \<Rightarrow> (\<Sum>p\<leftarrow>te_postings t. contribution account currency p) | _ \<Rightarrow> 0)"

definition subtotal :: "ledger_entry list \<Rightarrow> string \<Rightarrow> string \<Rightarrow> rat" where
  "subtotal es account currency = (\<Sum>e\<leftarrow>es. entry_contribution account currency e)"

text \<open>
  Account names are not checked for the separator of the balance keys. The accounts and symbols of
  a well-formed posting leave it free.
\<close>

definition posting_wf :: "posting_entry \<Rightarrow> bool" where
  "posting_wf p \<longleftrightarrow>
     CHR ''|'' \<notin> set (ps_account p) \<and>
     (case ps_units p of None \<Rightarrow> True | Some u \<Rightarrow> isCommoditySymbol (am_currency u))"

definition share :: "string \<Rightarrow> string \<Rightarrow> string \<times> amount \<Rightarrow> rat" where
  "share account currency = (\<lambda>(k, a).
     if split_on (CHR ''|'') k ! 1 = currency \<and> in_subtree account (split_on (CHR ''|'') k ! 0)
     then amount_value a else 0)"

definition balances_ok :: "balances \<Rightarrow> bool" where
  "balances_ok m \<longleftrightarrow>
     distinct (map fst m) \<and>
     (\<forall>(k, a) \<in> set m. \<exists>acct. k = balanceKey acct (am_currency a) \<and> CHR ''|'' \<notin> set acct \<and>
        CHR ''|'' \<notin> set (am_currency a))"

definition held_under :: "balances \<Rightarrow> string \<Rightarrow> string \<Rightarrow> rat" where
  "held_under m account currency = (\<Sum>e\<leftarrow>m. share account currency e)"

lemma split_balanceKey:
  "CHR ''|'' \<notin> set a \<Longrightarrow> CHR ''|'' \<notin> set c \<Longrightarrow> split_on (CHR ''|'') (balanceKey a c) = [a, c]"
  by (simp add: balanceKey_def split_on_append split_on_notin)

lemma sum_list_update:
  fixes f :: "'k \<times> 'v \<Rightarrow> rat"
  assumes "distinct (map fst xs)"
  shows "(\<Sum>e\<leftarrow>AList.update k v xs. f e) =
    (\<Sum>e\<leftarrow>xs. f e) + f (k, v) - (case map_of xs k of None \<Rightarrow> 0 | Some w \<Rightarrow> f (k, w))"
  using assms
proof (induction xs)
  case (Cons e xs)
  then show ?case by (cases e) (auto simp: map_of_eq_None_iff split: option.split)
qed simp

lemma balances_ok_key:
  assumes "balances_ok m" and "map_of m (balanceKey acct cur) = Some a"
    and "CHR ''|'' \<notin> set acct" and "CHR ''|'' \<notin> set cur"
  shows "am_currency a = cur"
proof -
  from assms(1,2) obtain acct' where k: "balanceKey acct cur = balanceKey acct' (am_currency a)"
    and "CHR ''|'' \<notin> set acct'" "CHR ''|'' \<notin> set (am_currency a)"
    by (auto simp: balances_ok_def dest: map_of_SomeD)
  then have "[acct, cur] = [acct', am_currency a]"
    using assms(3,4) by (metis split_balanceKey)
  then show ?thesis by simp
qed

lemma apply_posting_ok:
  assumes ok: "balances_ok m" and wf: "posting_wf p"
  obtains m' where "apply_posting m p = Inr m'" and "balances_ok m'"
    and "\<And>account currency. held_under m' account currency =
           held_under m account currency + contribution account currency p"
proof (cases "ps_units p")
  case None
  with ok show thesis by (intro that [of m]) (simp_all add: apply_posting_def contribution_def)
next
  case (Some u)
  let ?k = "balanceKey (ps_account p) (am_currency u)"
  from wf Some have nb: "CHR ''|'' \<notin> set (ps_account p)" "CHR ''|'' \<notin> set (am_currency u)"
    by (auto simp: posting_wf_def dest: symbol_no_bar)
  note split = split_balanceKey [OF nb]
  obtain a where a: "(case map_of m ?k of None \<Rightarrow> Inr u | Some c \<Rightarrow> amount_add c u) = Inr a"
    and cur: "am_currency a = am_currency u"
    and val: "amount_value a = amount_value u + (case map_of m ?k of None \<Rightarrow> 0 | Some c \<Rightarrow> amount_value c)"
  proof (cases "map_of m ?k")
    case None
    then show thesis by (intro that [of u]) simp_all
  next
    case (Some c)
    with balances_ok_key [OF ok Some nb] show thesis
      by (intro that [of "amount_plus c u"]) (simp_all add: amount_add_plus)
  qed
  have "balances_ok (AList.update ?k a m)"
    using ok nb cur set_update_subset [of ?k a m]
    by (fastforce simp: balances_ok_def distinct_update)
  moreover have "held_under (AList.update ?k a m) account currency =
      held_under m account currency + contribution account currency p" for account currency
    using ok Some val
    by (auto simp: held_under_def sum_list_update balances_ok_def share_def split contribution_def
        split: option.split)
  ultimately show thesis using a Some
    by (intro that [of "AList.update ?k a m"]) (simp_all add: apply_posting_def Let_def)
qed

lemma fold_postings_ok:
  "balances_ok m \<Longrightarrow> list_all posting_wf ps \<Longrightarrow>
   \<exists>m'. fold_sum apply_posting m ps = Inr m' \<and> balances_ok m' \<and>
     (\<forall>account currency. held_under m' account currency =
        held_under m account currency + (\<Sum>p\<leftarrow>ps. contribution account currency p))"
proof (induction ps arbitrary: m)
  case (Cons p ps)
  then obtain m1 where "apply_posting m p = Inr m1" and "balances_ok m1"
    and "\<And>account currency. held_under m1 account currency =
           held_under m account currency + contribution account currency p"
    by (auto elim: apply_posting_ok)
  with Cons.IH [of m1] Cons.prems(2) show ?case by (force simp: add.assoc)
qed simp

lemma applyTransactionToBalances_ok:
  assumes "balances_ok m" and "list_all posting_wf (te_postings t)"
  obtains m' where "applyTransactionToBalances m t = Inr m'" and "balances_ok m'"
    and "\<And>account currency. held_under m' account currency =
           held_under m account currency + entry_contribution account currency (LTransaction t)"
  using fold_postings_ok [OF assms] that
  by (auto simp: applyTransactionToBalances_def entry_contribution_def)

lemma fold_subtree_ok:
  "\<forall>(k, a) \<in> set m. \<exists>acct. k = balanceKey acct (am_currency a) \<and> CHR ''|'' \<notin> set acct \<and>
     CHR ''|'' \<notin> set (am_currency a) \<Longrightarrow> am_currency t = currency \<Longrightarrow>
   \<exists>r. fold_sum (subtree_step account currency) t m = Inr r \<and> am_currency r = currency \<and>
       amount_value r = amount_value t + held_under m account currency"
proof (induction m arbitrary: t)
  case (Cons e m)
  from Cons.prems(1) obtain acct a where e: "e = (balanceKey acct (am_currency a), a)"
    and nb: "CHR ''|'' \<notin> set acct" "CHR ''|'' \<notin> set (am_currency a)"
    by (cases e) auto
  note split = split_balanceKey [OF nb]
  obtain t' where t': "subtree_step account currency t e = Inr t'" and cur: "am_currency t' = currency"
    and val: "amount_value t' = amount_value t + share account currency e"
  proof -
    have "subtree_step account currency t e =
        (if am_currency a \<noteq> currency then Inr t
         else if in_subtree account acct then amount_add t a else Inr t)"
      by (simp add: subtree_step_def e split)
    moreover have "share account currency e =
        (if am_currency a = currency \<and> in_subtree account acct then amount_value a else 0)"
      by (simp add: share_def e split)
    ultimately show thesis
      using Cons.prems(2) that [of t] that [of "amount_plus t a"]
      by (cases "am_currency a = currency \<and> in_subtree account acct") (auto simp: amount_add_plus)
  qed
  from Cons.prems(1) have "\<forall>(k, a) \<in> set m. \<exists>acct. k = balanceKey acct (am_currency a) \<and>
      CHR ''|'' \<notin> set acct \<and> CHR ''|'' \<notin> set (am_currency a)" by simp
  from Cons.IH [OF this cur] t' val show ?case by (auto simp: held_under_def)
qed (simp add: held_under_def)

lemma subtreeBalance_ok:
  assumes "balances_ok m"
  obtains r where "subtreeBalance m account currency = Inr r" and "am_currency r = currency"
    and "amount_value r = held_under m account currency"
  using fold_subtree_ok [of m "amount_of decimal_zero currency" currency account] assms that
  by (auto simp: subtreeBalance_def balances_ok_def)

lemma balances_ok_Nil [simp]: "balances_ok []"
  by (simp add: balances_ok_def)

section \<open>The specification of a ledger\<close>

definition entry_wf :: "ledger_entry \<Rightarrow> bool" where
  "entry_wf e = (case e of LTransaction t \<Rightarrow> list_all posting_wf (te_postings t) | _ \<Rightarrow> True)"

text \<open>What the entries before a point have opened, closed, declared and asserted.\<close>

definition opens_of :: "ledger_entry list \<Rightarrow> (string \<times> open_entry) list" where
  "opens_of es = concat (map (\<lambda>e. case e of LOpen oe \<Rightarrow> [(oe_account oe, oe)] | _ \<Rightarrow> []) es)"

definition closed_of :: "ledger_entry list \<Rightarrow> string set" where
  "closed_of es = {ce_account c | c. LClose c \<in> set es}"

definition declared_of :: "ledger_entry list \<Rightarrow> string set" where
  "declared_of es = {me_currency c | c. LCommodity c \<in> set es}"

definition asserted_of :: "ledger_entry list \<Rightarrow> (string \<times> balance_entry) list" where
  "asserted_of es = concat (map (\<lambda>e. case e of LBalance b \<Rightarrow> [(assertion_key b, b)] | _ \<Rightarrow> []) es)"

text \<open>The open directive of an account is its first one, the standing assertion of a key its last.\<close>

definition open_at :: "ledger_entry list \<Rightarrow> string \<rightharpoonup> open_entry" where
  "open_at es = map_of (opens_of es)"

definition asserted_at :: "ledger_entry list \<Rightarrow> string \<rightharpoonup> balance_entry" where
  "asserted_at es = map_of (rev (asserted_of es))"

definition active_at :: "ledger_entry list \<Rightarrow> string set" where
  "active_at es = dom (open_at es) - closed_of es"

definition entry_ok :: "ledger_entry list \<Rightarrow> ledger_entry \<Rightarrow> bool" where
  "entry_ok before e \<longleftrightarrow>
     set (referencedAccounts e) \<subseteq> active_at before \<and>
     (case e of
        LOpen oe \<Rightarrow> open_at before (oe_account oe) = None
      | LClose ce \<Rightarrow>
          (\<exists>oe. open_at before (ce_account ce) = Some oe \<and> en_date oe \<le> en_date ce) \<and>
          ce_account ce \<notin> closed_of before
      | LCommodity me \<Rightarrow> me_currency me \<notin> declared_of before
      | LTransaction t \<Rightarrow> transaction_ok t (open_at before)
      | LDocument d \<Rightarrow> trim (de_filename d) \<noteq> []
      | LBalance b \<Rightarrow>
          (\<forall>b'. asserted_at before (assertion_key b) = Some b' \<longrightarrow>
                amount_equals (be_amount b') (be_amount b)) \<and>
          \<bar>subtotal before (be_account b) (am_currency (be_amount b)) - amount_value (be_amount b)\<bar>
            \<le> tolerance_value (assertion_tolerance b)
      | _ \<Rightarrow> True)"

definition ledger_ok :: "ledger_entry list \<Rightarrow> bool" where
  "ledger_ok es \<longleftrightarrow> (\<forall>before e after. es = before @ e # after \<longrightarrow> entry_ok before e)"

definition tolerance_wf :: "ledger_entry \<Rightarrow> bool" where
  "tolerance_wf e =
     (case e of LBalance b \<Rightarrow>
        (case be_tolerance b of None \<Rightarrow> True | Some t \<Rightarrow> 0 \<le> amount_value t) | _ \<Rightarrow> True)"

lemma ledger_ok_Nil [simp]: "ledger_ok []"
  by (simp add: ledger_ok_def)

lemma ledger_ok_snoc: "ledger_ok (es @ [e]) \<longleftrightarrow> ledger_ok es \<and> entry_ok es e"
proof
  assume ok: "ledger_ok (es @ [e])"
  have "entry_ok before d" if "es = before @ d # after" for before d after
    using ok that unfolding ledger_ok_def by (metis append_Cons append_assoc)
  with ok show "ledger_ok es \<and> entry_ok es e" by (auto simp: ledger_ok_def)
next
  assume ok: "ledger_ok es \<and> entry_ok es e"
  show "ledger_ok (es @ [e])"
    unfolding ledger_ok_def
  proof (intro allI impI)
    fix before d after assume split: "es @ [e] = before @ d # after"
    show "entry_ok before d"
    proof (cases after rule: rev_cases)
      case Nil
      with split ok show ?thesis by simp
    next
      case (snoc rest x)
      with split have "es = before @ d # rest" by simp
      with ok show ?thesis by (auto simp: ledger_ok_def)
    qed
  qed
qed

lemma opens_of_snoc [simp]:
  "opens_of (es @ [e]) = opens_of es @ (case e of LOpen oe \<Rightarrow> [(oe_account oe, oe)] | _ \<Rightarrow> [])"
  by (simp add: opens_of_def split: ledger_entry.split)

lemma asserted_of_snoc [simp]:
  "asserted_of (es @ [e]) = asserted_of es @ (case e of LBalance b \<Rightarrow> [(assertion_key b, b)] | _ \<Rightarrow> [])"
  by (simp add: asserted_of_def split: ledger_entry.split)

lemma closed_of_snoc [simp]:
  "closed_of (es @ [e]) = closed_of es \<union> (case e of LClose c \<Rightarrow> {ce_account c} | _ \<Rightarrow> {})"
  by (auto simp: closed_of_def split: ledger_entry.split)

lemma declared_of_snoc [simp]:
  "declared_of (es @ [e]) = declared_of es \<union> (case e of LCommodity c \<Rightarrow> {me_currency c} | _ \<Rightarrow> {})"
  by (auto simp: declared_of_def split: ledger_entry.split)

lemma open_at_snoc:
  "open_at (es @ [e]) =
     (case e of
        LOpen oe \<Rightarrow> if open_at es (oe_account oe) = None then (open_at es)(oe_account oe \<mapsto> oe) else open_at es
      | _ \<Rightarrow> open_at es)"
  by (auto simp: open_at_def map_add_def fun_eq_iff split: ledger_entry.split option.split)

lemma asserted_at_snoc:
  "asserted_at (es @ [e]) =
     (case e of LBalance b \<Rightarrow> (asserted_at es)(assertion_key b \<mapsto> b) | _ \<Rightarrow> asserted_at es)"
  by (auto simp: asserted_at_def split: ledger_entry.split)

lemma subtotal_snoc [simp]:
  "subtotal (es @ [e]) account currency = subtotal es account currency + entry_contribution account currency e"
  by (simp add: subtotal_def)

text \<open>What the validation state holds after a prefix of the ledger.\<close>

definition tracks :: "ledger_entry list \<Rightarrow> vstate \<Rightarrow> bool" where
  "tracks es st \<longleftrightarrow>
     vs_open st = open_at es \<and> vs_closed st = closed_of es \<and> vs_commodities st = declared_of es \<and>
     vs_balances st = asserted_at es \<and> balances_ok (vs_running st) \<and>
     (\<forall>account currency. held_under (vs_running st) account currency = subtotal es account currency) \<and>
     (vs_errors st = [] \<longleftrightarrow> ledger_ok es) \<and>
     (ledger_ok es \<longrightarrow> vs_active st = active_at es)"

lemma tracks_init: "tracks [] vstate_init"
  by (simp add: tracks_def vstate_init_def open_at_def opens_of_def closed_of_def declared_of_def
      asserted_at_def asserted_of_def held_under_def subtotal_def active_at_def)

lemma push_errors_simps [simp]:
  "vs_errors (push_errors es st) = vs_errors st @ es" "vs_open (push_errors es st) = vs_open st"
  "vs_closed (push_errors es st) = vs_closed st" "vs_active (push_errors es st) = vs_active st"
  "vs_commodities (push_errors es st) = vs_commodities st"
  "vs_balances (push_errors es st) = vs_balances st" "vs_running (push_errors es st) = vs_running st"
  by (simp_all add: push_errors_def)

lemma reference_errors_None:
  "reference_errors st e = [] \<longleftrightarrow> set (referencedAccounts e) \<subseteq> vs_active st"
  by (auto simp: reference_errors_def Let_def)

lemmas tracks_simps = tracks_def open_at_snoc asserted_at_snoc ledger_ok_snoc entry_ok_def active_at_def
  entry_contribution_def

lemma closed_opened: "ledger_ok es \<Longrightarrow> closed_of es \<subseteq> dom (open_at es)"
proof (induction es rule: rev_induct)
  case Nil
  show ?case by (simp add: closed_of_def)
next
  case (snoc e es)
  then show ?case
    by (cases e) (auto simp: ledger_ok_snoc entry_ok_def open_at_snoc)
qed

lemma tracks_open:
  assumes "tracks es st"
  shows "tracks (es @ [LOpen e]) (validate_open st e)"
  using assms closed_opened [of es] by (auto simp: tracks_simps validate_open_def)

lemma close_errors_None:
  "close_errors st c = [] \<longleftrightarrow>
     (\<exists>oe. vs_open st (ce_account c) = Some oe \<and> en_date oe \<le> en_date c) \<and>
     ce_account c \<notin> vs_closed st"
  by (auto simp: close_errors_def not_less split: option.splits if_splits)

lemma tracks_close: "tracks es st \<Longrightarrow> tracks (es @ [LClose c]) (validate_close st c)"
  by (auto simp: tracks_simps validate_close_def close_errors_None)

lemma tracks_commodity:
  "tracks es st \<Longrightarrow>
     tracks (es @ [LCommodity c]) (push_errors (reference_errors st (LCommodity c)) (validate_commodity st c))"
  by (auto simp: tracks_simps validate_commodity_def reference_errors_def)

text \<open>The reference check, which the other entry types start with.\<close>

lemma tracks_transaction:
  assumes t: "tracks es st" and wf: "entry_wf (LTransaction e)"
  obtains st' where "validate_transaction_entry (push_errors (reference_errors st (LTransaction e)) st) e = Inr st'"
    and "tracks (es @ [LTransaction e]) st'"
proof -
  from t have "balances_ok (vs_running st)" by (simp add: tracks_def)
  with wf obtain m where m: "applyTransactionToBalances (vs_running st) e = Inr m" "balances_ok m"
    and val: "\<And>account currency. held_under m account currency =
      held_under (vs_running st) account currency + entry_contribution account currency (LTransaction e)"
    by (auto simp: entry_wf_def elim: applyTransactionToBalances_ok)
  show thesis
  proof (rule that)
    show "validate_transaction_entry (push_errors (reference_errors st (LTransaction e)) st) e =
      Inr ((push_errors (validateTransaction e (vs_open st))
             (push_errors (reference_errors st (LTransaction e)) st))\<lparr>vs_running := m\<rparr>)"
      using m by (simp add: validate_transaction_entry_def)
    show "tracks (es @ [LTransaction e])
      ((push_errors (validateTransaction e (vs_open st))
             (push_errors (reference_errors st (LTransaction e)) st))\<lparr>vs_running := m\<rparr>)"
      using t m(2) val
      by (auto simp: tracks_simps reference_errors_None validateTransaction_iff
          simp del: referencedAccounts.simps)
  qed
qed

lemma assertion_tolerance_nonneg:
  "tolerance_wf (LBalance b) \<Longrightarrow> 0 \<le> tolerance_value (assertion_tolerance b)"
  by (cases "be_tolerance b")
    (simp_all add: tolerance_wf_def assertion_tolerance_def inferredBalanceTolerance_value,
     simp add: tolerance_value_def)

lemma tracks_balance:
  assumes t: "tracks es st" and wf: "tolerance_wf (LBalance b)"
  obtains st' where "validate_balance (push_errors (reference_errors st (LBalance b)) st) b = Inr st'"
    and "tracks (es @ [LBalance b]) st'"
proof -
  from t have "balances_ok (vs_running st)" by (simp add: tracks_def)
  then obtain r where r: "subtreeBalance (vs_running st) (be_account b) (am_currency (be_amount b)) = Inr r"
    and cur: "am_currency r = am_currency (be_amount b)"
    and val: "amount_value r = held_under (vs_running st) (be_account b) (am_currency (be_amount b))"
    by (rule subtreeBalance_ok)
  let ?diff = "amount_plus r (amount_negate (be_amount b))"
  have add: "amount_add r (amount_negate (be_amount b)) = Inr ?diff" by (simp add: amount_add_plus cur)
  have held: "held_under (vs_running st) account currency = subtotal es account currency"
    for account currency using t by (simp add: tracks_def)
  have within: "diffWithinTolerance ?diff (assertion_tolerance b) \<longleftrightarrow>
      \<bar>subtotal es (be_account b) (am_currency (be_amount b)) - amount_value (be_amount b)\<bar>
        \<le> tolerance_value (assertion_tolerance b)"
    using diffWithinTolerance_iff [OF assertion_tolerance_nonneg [OF wf], of ?diff] by (simp add: val held)
  let ?st = "push_errors (reference_errors st (LBalance b)) st"
  let ?repeated = "case asserted_at es (assertion_key b) of None \<Rightarrow> []
    | Some p \<Rightarrow> if \<not> amount_equals (be_amount p) (be_amount b)
        then [error_at ''duplicate_balance'' ''Duplicate balance assertion with different amounts''
                (en_source b)] else []"
  let ?failed = "if \<not> diffWithinTolerance ?diff (assertion_tolerance b)
     then [error_at ''balance_assertion_failed''
             (''Balance assertion failed for '' @ be_account b @ '': expected '' @
              amount_text (be_amount b) @ '', actual '' @ amount_text r) (en_source b)] else []"
  let ?st' = "(push_errors (?repeated @ ?failed) ?st)\<lparr>vs_balances := (asserted_at es)(assertion_key b \<mapsto> b)\<rparr>"
  have rep: "?repeated = [] \<longleftrightarrow> (\<forall>b'. asserted_at es (assertion_key b) = Some b' \<longrightarrow>
      amount_equals (be_amount b') (be_amount b))" by (auto split: option.split)
  have fail: "?failed = [] \<longleftrightarrow> diffWithinTolerance ?diff (assertion_tolerance b)" by simp
  show thesis
  proof (rule that)
    show "validate_balance ?st b = Inr ?st'"
      using t r add by (simp add: validate_balance_def Let_def tracks_def)
    have "vs_errors ?st' = [] \<longleftrightarrow> vs_errors st = [] \<and> reference_errors st (LBalance b) = [] \<and>
        ?repeated = [] \<and> ?failed = []" by simp
    then have "vs_errors ?st' = [] \<longleftrightarrow> ledger_ok (es @ [LBalance b])"
      using t unfolding rep fail within
      by (auto simp: tracks_def ledger_ok_snoc entry_ok_def reference_errors_None)
    moreover have "tracks es st" by (rule t)
    ultimately show "tracks (es @ [LBalance b]) ?st'"
      unfolding tracks_def
      by (simp add: open_at_snoc asserted_at_snoc active_at_def entry_contribution_def ledger_ok_snoc)
  qed
qed

lemma tracks_step:
  assumes "tracks es st" and "entry_wf e" and "tolerance_wf e"
  obtains st' where "validate_entry st e = Inr st'" and "tracks (es @ [e]) st'"
proof (cases e)
  case (LOpen x1)
  with assms(1) that show thesis by (auto simp: validate_entry_def intro: tracks_open)
next
  case (LClose x2)
  with assms(1) that show thesis by (auto simp: validate_entry_def intro: tracks_close)
next
  case (LCommodity x3)
  with assms(1) that show thesis by (auto simp: validate_entry_def intro: tracks_commodity)
next
  case (LTransaction x6)
  with assms that show thesis by (auto simp: validate_entry_def elim: tracks_transaction)
next
  case (LBalance x5)
  with assms that show thesis by (auto simp: validate_entry_def elim: tracks_balance)
qed (use assms(1) that in \<open>auto simp: validate_entry_def validate_document_def tracks_simps
       reference_errors_None split: if_splits\<close>)

lemma fold_tracks:
  "list_all entry_wf es \<Longrightarrow> list_all tolerance_wf es \<Longrightarrow>
     \<exists>st. fold_sum validate_entry vstate_init es = Inr st \<and> tracks es st"
proof (induction es rule: rev_induct)
  case Nil
  show ?case by (simp add: tracks_init)
next
  case (snoc e es)
  then obtain st where "fold_sum validate_entry vstate_init es = Inr st" and "tracks es st" by auto
  moreover from snoc.prems this(2) obtain st' where "validate_entry st e = Inr st'" "tracks (es @ [e]) st'"
    by (auto elim: tracks_step)
  ultimately show ?case by simp
qed

lemma validateEntries_iff:
  assumes "list_all entry_wf es" and "list_all tolerance_wf es"
  shows "\<exists>errs. validateEntries es = Inr errs \<and> (errs = [] \<longleftrightarrow> ledger_ok (sortEntries es))"
proof -
  from assms have "list_all entry_wf (sortEntries es)" "list_all tolerance_wf (sortEntries es)"
    by (simp_all add: list_all_iff)
  from fold_tracks [OF this] show ?thesis by (auto simp: validateEntries_def tracks_def)
qed

section \<open>What padding adds\<close>

definition pad_wf :: "ledger_entry \<Rightarrow> bool" where
  "pad_wf e =
     (case e of
        LTransaction t \<Rightarrow> list_all posting_wf (te_postings t)
      | LPad p \<Rightarrow> CHR ''|'' \<notin> set (pe_account p) \<and> CHR ''|'' \<notin> set (pe_sourceAccount p)
      | LBalance b \<Rightarrow> CHR ''|'' \<notin> set (be_account b) \<and> isCommoditySymbol (am_currency (be_amount b))
      | _ \<Rightarrow> True)"

definition padding :: "ledger_entry list \<Rightarrow> ledger_entry \<Rightarrow> bool" where
  "padding es g \<longleftrightarrow>
     (\<exists>pad diff. LPad pad \<in> set es \<and> amount_value diff \<noteq> 0 \<and>
        g = LTransaction (pad_transaction pad (pe_account pad) diff) \<and>
        balanced (te_postings (pad_transaction pad (pe_account pad) diff)))"

lemma bare_posting_simps [simp]:
  "ps_account (bare_posting a u) = a" "ps_units (bare_posting a u) = Some u"
  "weight_of (bare_posting a u) = Some (u, dec_places (am_number u))"
  by (simp_all add: bare_posting_def weight_of_def postingWeight_def)

lemma pad_transaction_simps [simp]:
  "te_postings (pad_transaction pad a diff) =
     [bare_posting a diff, bare_posting (pe_sourceAccount pad) (amount_negate diff)]"
  "en_date (pad_transaction pad a diff) = en_date pad"
  by (simp_all add: pad_transaction_def)

lemma pad_transaction_balanced: "balanced (te_postings (pad_transaction pad a diff))"
  by (auto simp: balanced_def residual_def weight_in_def tolerance_of_def)

lemma pad_push_simps [simp]:
  "pa_result (pad_push e st) = pa_result st @ [e]" "pa_running (pad_push e st) = pa_running st"
  "pa_pending (pad_push e st) = pa_pending st"
  by (simp_all add: pad_push_def)

text \<open>The running balances of the pass are those of the entries it has emitted.\<close>

definition pads_track :: "ledger_entry list \<Rightarrow> pad_state \<Rightarrow> bool" where
  "pads_track es st \<longleftrightarrow>
     balances_ok (pa_running st) \<and>
     (\<forall>account currency. held_under (pa_running st) account currency =
        subtotal (pa_result st) account currency) \<and>
     (\<forall>account pad. pa_pending st account = Some pad \<longrightarrow>
        LPad pad \<in> set es \<and> pe_account pad = account \<and> pad_wf (LPad pad)) \<and>
     (\<exists>gen. mset (pa_result st) = mset es + mset gen \<and> list_all (padding es) gen)"

lemma padding_mono: "padding es g \<Longrightarrow> set es \<subseteq> set es' \<Longrightarrow> padding es' g"
  by (auto simp: padding_def)

lemma pads_track_emit:
  assumes "pads_track es st" and "pa_result st' = pa_result st @ gs @ [e]"
    and "balances_ok (pa_running st')"
    and "\<And>account currency. held_under (pa_running st') account currency =
           held_under (pa_running st) account currency + subtotal gs account currency +
           entry_contribution account currency e"
    and "\<And>account pad. pa_pending st' account = Some pad \<Longrightarrow>
           LPad pad \<in> set (es @ [e]) \<and> pe_account pad = account \<and> pad_wf (LPad pad)"
    and "list_all (padding (es @ [e])) gs"
  shows "pads_track (es @ [e]) st'"
proof -
  from assms(1) obtain gen where gen: "mset (pa_result st) = mset es + mset gen" "list_all (padding es) gen"
    by (auto simp: pads_track_def)
  then have "mset (pa_result st') = mset (es @ [e]) + mset (gen @ gs)"
    by (simp add: assms(2))
  moreover from gen(2) assms(6) have "list_all (padding (es @ [e])) (gen @ gs)"
    by (auto simp: list_all_iff intro: padding_mono)
  ultimately have "\<exists>gen. mset (pa_result st') = mset (es @ [e]) + mset gen \<and>
      list_all (padding (es @ [e])) gen" by blast
  moreover have "held_under (pa_running st') account currency = subtotal (pa_result st') account currency"
    for account currency
    using assms(1,4) by (simp add: assms(2) pads_track_def subtotal_def)
  ultimately show ?thesis using assms(3,5) unfolding pads_track_def by blast
qed

lemma pads_track_pending:
  "pads_track es st \<Longrightarrow> pa_pending st account = Some pad \<Longrightarrow>
     LPad pad \<in> set (es @ [e]) \<and> pe_account pad = account \<and> pad_wf (LPad pad)"
  by (auto simp: pads_track_def)

lemma pads_track_running: "pads_track es st \<Longrightarrow> balances_ok (pa_running st)"
  by (simp add: pads_track_def)

lemma subtotal_Nil [simp]: "subtotal [] a c = 0"
  by (simp add: subtotal_def)

lemma subtotal_single [simp]: "subtotal [e] a c = entry_contribution a c e"
  by (simp add: subtotal_def)

text \<open>A step that only passes the entry on.\<close>

lemma pads_track_pass:
  assumes "pads_track es st" and "\<And>a c. entry_contribution a c e = 0"
  shows "pads_track (es @ [e]) (pad_push e st)"
  by (rule pads_track_emit [OF assms(1), of _ "[]"])
    (use assms pads_track_pending [OF assms(1), where e = e] pads_track_running in auto)

lemma pads_track_pad:
  assumes "pads_track es st" and "pad_wf (LPad p)"
  shows "pads_track (es @ [LPad p])
    (pad_push (LPad p) (st\<lparr>pa_pending := (pa_pending st)(pe_account p \<mapsto> p)\<rparr>))"
  by (rule pads_track_emit [OF assms(1), of _ "[]"])
    (use assms pads_track_pending [OF assms(1), where e = "LPad p"] pads_track_running
      in \<open>auto simp: entry_contribution_def split: if_splits\<close>)

lemma pads_track_transaction:
  assumes "pads_track es st" and "pad_wf (LTransaction t)"
  obtains m where "applyTransactionToBalances (pa_running st) t = Inr m"
    and "pads_track (es @ [LTransaction t]) (pad_push (LTransaction t) (st\<lparr>pa_running := m\<rparr>))"
proof -
  from assms(2) have "list_all posting_wf (te_postings t)" by (simp add: pad_wf_def)
  then obtain m where m: "applyTransactionToBalances (pa_running st) t = Inr m" "balances_ok m"
    "\<And>a c. held_under m a c = held_under (pa_running st) a c + entry_contribution a c (LTransaction t)"
    using applyTransactionToBalances_ok [OF pads_track_running [OF assms(1)]] by blast
  have "pads_track (es @ [LTransaction t]) (pad_push (LTransaction t) (st\<lparr>pa_running := m\<rparr>))"
    by (rule pads_track_emit [OF assms(1), of _ "[]"])
      (use m pads_track_pending [OF assms(1), where e = "LTransaction t"] in auto)
  with m(1) show thesis by (rule that)
qed

text \<open>
  A balance assertion with a pending pad: the synthetic transaction moves the difference from the
  source account, so that afterwards the subtree holds exactly the asserted amount, unless the
  source lies in the subtree itself.
\<close>

lemma pad_balance_cases:
  assumes t: "pads_track es st" and wf: "pad_wf (LBalance b)"
  obtains st' where "pad_balance st b = Inr st'" and "pads_track (es @ [LBalance b]) st'"
    and "\<And>pad. pa_pending st (be_account b) = Some pad \<Longrightarrow>
           \<not> in_subtree (be_account b) (pe_sourceAccount pad) \<Longrightarrow>
           held_under (pa_running st') (be_account b) (am_currency (be_amount b)) = amount_value (be_amount b)"
proof -
  let ?acct = "be_account b" and ?cur = "am_currency (be_amount b)"
  obtain r where r: "subtreeBalance (pa_running st) ?acct ?cur = Inr r" "am_currency r = ?cur"
    and val: "amount_value r = held_under (pa_running st) ?acct ?cur"
    by (rule subtreeBalance_ok [OF pads_track_running [OF t]])
  let ?diff = "amount_plus (be_amount b) (amount_negate r)"
  have add: "amount_add (be_amount b) (amount_negate r) = Inr ?diff"
    by (rule amount_add_plus) (simp add: r(2))
  have pass: "pads_track (es @ [LBalance b]) (pad_push (LBalance b) st)"
    by (rule pads_track_pass [OF t]) (simp add: entry_contribution_def)
  show thesis
  proof (cases "pa_pending st ?acct")
    case None
    with r add pass show thesis
      by (intro that [of "pad_push (LBalance b) st"]) (simp_all add: pad_balance_def)
  next
    case (Some pad)
    note pad = pads_track_pending [OF t Some, where e = "LBalance b"]
    show thesis
    proof (cases "amount_value ?diff = 0")
      case True
      with r add pass Some val show thesis
        by (intro that [of "pad_push (LBalance b) st"]) (simp_all add: pad_balance_def)
    next
      case False
      let ?syn = "pad_transaction pad ?acct ?diff"
      have "list_all posting_wf (te_postings ?syn)"
        using wf pad by (auto simp: posting_wf_def pad_wf_def)
      then obtain m where m: "applyTransactionToBalances (pa_running st) ?syn = Inr m" "balances_ok m"
        "\<And>a c. held_under m a c = held_under (pa_running st) a c + entry_contribution a c (LTransaction ?syn)"
        using applyTransactionToBalances_ok [OF pads_track_running [OF t]] by blast
      let ?st = "pad_push (LBalance b) ((pad_push (LTransaction ?syn) st)
        \<lparr>pa_running := m, pa_pending := (pa_pending st)(?acct := None)\<rparr>)"
      have "padding (es @ [LBalance b]) (LTransaction ?syn)"
        unfolding padding_def using pad False
        by (intro exI [of _ pad] exI [of _ ?diff]) (simp only: pad_transaction_balanced simp_thms)
      then have "pads_track (es @ [LBalance b]) ?st"
        using m pads_track_pending [OF t, where e = "LBalance b"]
        by (intro pads_track_emit [OF t, of _ "[LTransaction ?syn]"])
          (auto simp: entry_contribution_def [of _ _ "LBalance b"] split: if_splits)
      moreover have "pad_balance st b = Inr ?st"
        using r add Some False m(1) by (simp add: pad_balance_def Let_def)
      moreover have "held_under m ?acct ?cur = amount_value (be_amount b)"
        if "\<not> in_subtree ?acct (pe_sourceAccount pad)"
        using that val
        by (simp add: m(3) entry_contribution_def contribution_def in_subtree_def [of ?acct ?acct])
      ultimately show thesis using Some by (intro that [of ?st]) simp_all
    qed
  qed
qed

lemma pads_track_step:
  assumes "pads_track es st" and "pad_wf e"
  obtains st' where "pad_step st e = Inr st'" and "pads_track (es @ [e]) st'"
proof (cases e)
  case (LPad p)
  with assms that show thesis by (auto simp: pad_step_def intro: pads_track_pad)
next
  case (LBalance b)
  with assms that show thesis by (auto simp: pad_step_def elim: pad_balance_cases)
next
  case (LTransaction t)
  with assms that show thesis by (auto simp: pad_step_def elim: pads_track_transaction)
qed (rule that [of "pad_push e st"],
   use assms(1) in \<open>auto simp: pad_step_def entry_contribution_def intro: pads_track_pass\<close>)+

lemma fold_pads:
  "list_all pad_wf es \<Longrightarrow> \<exists>st. fold_sum pad_step pad_init es = Inr st \<and> pads_track es st"
proof (induction es rule: rev_induct)
  case Nil
  show ?case by (simp add: pads_track_def pad_init_def held_under_def)
next
  case (snoc e es)
  then obtain st where "fold_sum pad_step pad_init es = Inr st" and "pads_track es st" by auto
  moreover from snoc.prems this(2) obtain st' where "pad_step st e = Inr st'" "pads_track (es @ [e]) st'"
    by (auto elim: pads_track_step)
  ultimately show ?case by simp
qed

section \<open>Properties\<close>

text \<open>
  C5: validation never throws on a well-formed ledger, and reports nothing exactly if every entry
  is right with respect to the entries before it in ledger order: accounts are opened once, closed
  once and after their opening, and used only in between; commodities are declared once;
  transactions balance; documents have a path; and every balance assertion agrees, within its
  tolerance, with the sum of the postings to the account's subtree so far.
\<close>

theorem validation_exact:
  assumes "list_all entry_wf es" and "list_all tolerance_wf es"
  shows "\<exists>errs. validateEntries es = Inr errs \<and> (errs = [] \<longleftrightarrow> ledger_ok (sortEntries es))"
  using assms by (rule validateEntries_iff)

definition sample_amount :: "int \<Rightarrow> amount" where
  "sample_amount n = amount_of (decimalFromCoefficient n 0) ''USD''"

definition sample_open :: "string \<Rightarrow> ledger_entry" where
  "sample_open account =
     LOpen \<lparr>en_meta = [], en_source = None, en_date = ''2024-01-01'', oe_account = account,
            oe_currencies = [], oe_booking = None\<rparr>"

definition sample_transfer :: "string \<Rightarrow> string \<Rightarrow> int \<Rightarrow> ledger_entry" where
  "sample_transfer target origin n =
     LTransaction \<lparr>en_meta = [], en_source = None, en_date = ''2024-01-02'', te_flag = ''*'',
       te_payee = None, te_narration = None, te_tags = [], te_links = [],
       te_postings = [bare_posting target (sample_amount n), bare_posting origin (sample_amount (- n))]\<rparr>"

definition sample_assertion :: "string \<Rightarrow> int \<Rightarrow> ledger_entry" where
  "sample_assertion account n =
     LBalance \<lparr>en_meta = [], en_source = None, en_date = ''2024-01-03'', be_account = account,
               be_amount = sample_amount n, be_tolerance = None\<rparr>"

definition sample_ledger :: "ledger_entry list" where
  "sample_ledger =
     [sample_assertion ''Assets:Bank'' 7, sample_transfer ''Assets:Bank:Main'' ''Income:Pay'' 7,
      sample_open ''Assets:Bank'', sample_open ''Assets:Bank:Main'', sample_open ''Income:Pay'']"

theorem validation_exact_witness:
  "list_all entry_wf sample_ledger \<and> list_all tolerance_wf sample_ledger \<and>
   validateEntries sample_ledger = Inr [] \<and> ledger_ok (sortEntries sample_ledger)"
proof -
  have "list_all entry_wf sample_ledger" and "list_all tolerance_wf sample_ledger"
    by code_simp+
  moreover have "validateEntries sample_ledger = Inr []" by code_simp
  ultimately show ?thesis using validation_exact [of sample_ledger] by auto
qed

text \<open>
  Padding never throws on a ledger whose accounts leave the key separator free; it keeps every
  entry and only adds transactions that come from a pad directive, move a non-zero amount between
  the padded and the source account, and balance exactly.
\<close>

theorem padding_only_adds_balanced:
  assumes "list_all pad_wf es"
  shows "\<exists>padded gen. applyPadDirectives es = Inr padded \<and> mset padded = mset es + mset gen \<and>
           list_all (padding es) gen"
proof -
  from assms have "list_all pad_wf (sortEntries es)" by (simp add: list_all_iff)
  with fold_pads obtain st where st: "fold_sum pad_step pad_init (sortEntries es) = Inr st"
    and "pads_track (sortEntries es) st" by blast
  then obtain gen where "mset (pa_result st) = mset (sortEntries es) + mset gen"
    and "list_all (padding (sortEntries es)) gen" by (auto simp: pads_track_def)
  moreover from this(2) have "list_all (padding es) gen"
    by (auto simp: list_all_iff intro: padding_mono)
  ultimately show ?thesis using st
    by (intro exI [of _ "sortEntries (pa_result st)"] exI [of _ gen])
      (simp add: applyPadDirectives_def mset_sortEntries)
qed

theorem padding_only_adds_balanced_witness:
  "list_all pad_wf sample_ledger \<and> (\<exists>padded. applyPadDirectives sample_ledger = Inr padded)"
proof -
  have "list_all pad_wf sample_ledger" by code_simp
  with padding_only_adds_balanced [of sample_ledger] show ?thesis by blast
qed

text \<open>
  An account name that contains the separator of the balance keys is taken apart wrongly: a
  ledger that posts EUR to \<open>Assets:X|USD\<close> makes the validation of a USD assertion on \<open>Assets:X\<close>
  throw a currency mismatch instead of reporting an error entry.
\<close>

theorem separator_in_account_throws:
  "validateEntries
     [sample_open ''Assets:X|USD'', sample_open ''Assets:X'', sample_open ''Income:Pay'',
      LTransaction \<lparr>en_meta = [], en_source = None, en_date = ''2024-01-02'', te_flag = ''*'',
        te_payee = None, te_narration = None, te_tags = [], te_links = [],
        te_postings =
          [bare_posting ''Assets:X|USD'' (amount_of (decimalFromCoefficient 7 0) ''EUR''),
           bare_posting ''Income:Pay'' (amount_of (decimalFromCoefficient (- 7) 0) ''EUR'')]\<rparr>,
      sample_assertion ''Assets:X'' 0] =
   Inl ''Currency mismatch: USD != EUR''"
  by code_simp

end
