(* ===== verification/FinPadding.thy ===== *)
theory FinPadding
  imports FinLedger
begin

text \<open>
  What padding does to the ledger it returns: the transaction it adds is dated as its pad directive, so in the sorted
  ledger it stands before the assertion it serves, and the entries before that assertion add up to its amount.
\<close>

section \<open>Sums over a sorted ledger\<close>

text \<open>\<open>e\<close> stands strictly before the assertion \<open>b\<close> in the order of a ledger.\<close>

definition stands_before :: "balance_entry \<Rightarrow> ledger_entry \<Rightarrow> bool" where
  "stands_before b e \<longleftrightarrow> \<not> compareEntries (LBalance b) e \<le> 0"

lemma subtotal_append [simp]: "subtotal (xs @ ys) a c = subtotal xs a c + subtotal ys a c"
  by (simp add: subtotal_def)

lemma subtotal_mset: "mset xs = mset ys \<Longrightarrow> subtotal xs a c = subtotal ys a c"
  unfolding subtotal_def by (metis mset_map sum_mset_sum_list)

lemma subtotal_parts:
  assumes "mset xs = mset ys + mset zs"
  shows "subtotal (filter P xs) a c = subtotal (filter P ys) a c + subtotal (filter P zs) a c"
proof -
  have "mset (filter P xs) = mset (filter P ys @ filter P zs)" using assms by simp
  from subtotal_mset [OF this] show ?thesis by simp
qed

lemma subtotal_silent: "(\<And>e. e \<in> set es \<Longrightarrow> entry_contribution a c e = 0) \<Longrightarrow> subtotal es a c = 0"
  by (induction es) (simp_all add: subtotal_def)

lemma subtotal_filter: "(\<And>e. e \<in> set es \<Longrightarrow> \<not> P e \<Longrightarrow> entry_contribution a c e = 0) \<Longrightarrow>
    subtotal (filter P es) a c = subtotal es a c"
  by (induction es) (auto simp: subtotal_def)

lemma sorted_pair:
  assumes "sortEntries es = us @ x # vs @ y # ws" and "isDatedEntry x" and "isDatedEntry y"
  shows "compareEntries x y \<le> 0"
proof -
  have "filter isDatedEntry (sortEntries es) = sort_by compareEntries (filter isDatedEntry es)"
    by (simp add: sortEntries_def filter_dated_sort)
  then have "sorted_wrt (\<lambda>x y. compareEntries x y \<le> 0) (filter isDatedEntry (us @ x # vs @ y # ws))"
    using entries.sorted_sort [of "filter isDatedEntry es"] by (simp only: assms(1))
  then show ?thesis using assms(2,3) by (simp add: sorted_wrt_append)
qed

lemma transaction_sides:
  "compareEntries (LTransaction t) (LBalance b) \<le> 0 \<longleftrightarrow> stands_before b (LTransaction t)"
  "stands_before b (LTransaction t) \<longleftrightarrow> en_date t < en_date b"
  by (auto simp: stands_before_def compareEntries_def entrySortKey_def compareSortKey_le)

lemma dated_split:
  assumes "sortEntries es = xs @ LBalance b # ys"
  shows "subtotal xs a c = subtotal (filter (stands_before b) es) a c"
proof -
  have dated: "isDatedEntry (LBalance b)" "isDatedEntry (LTransaction t)" for t by (simp_all add: isDatedEntry_def)
  have before: "entry_contribution a c e = 0" if e: "e \<in> set xs" "\<not> stands_before b e" for e
  proof (cases e)
    case (LTransaction t)
    from e(1) obtain us vs where "xs = us @ e # vs" by (meson split_list)
    then have "compareEntries e (LBalance b) \<le> 0"
      using sorted_pair [of es us e vs "LBalance b" ys] assms dated LTransaction by simp
    with e(2) show ?thesis by (simp add: LTransaction transaction_sides)
  qed (simp_all add: entry_contribution_def)
  have after: "entry_contribution a c e = 0" if e: "e \<in> set (LBalance b # ys)" "stands_before b e" for e
  proof (cases e)
    case (LTransaction t)
    with e(1) obtain us vs where "ys = us @ e # vs" by (auto dest: split_list)
    then have "compareEntries (LBalance b) e \<le> 0"
      using sorted_pair [of es xs "LBalance b" us e vs] assms dated LTransaction by simp
    with e(2) show ?thesis by (simp add: stands_before_def)
  qed (simp_all add: entry_contribution_def)
  have "subtotal (filter (stands_before b) es) a c = subtotal (filter (stands_before b) (xs @ LBalance b # ys)) a c"
    by (rule subtotal_mset) (simp add: mset_sortEntries [of es, unfolded assms, symmetric])
  also have "\<dots> = subtotal (filter (stands_before b) xs) a c + subtotal (filter (stands_before b) (LBalance b # ys)) a c"
    by (simp only: filter_append subtotal_append)
  also have "subtotal (filter (stands_before b) (LBalance b # ys)) a c = 0"
    by (rule subtotal_silent, rule after) (simp_all only: set_filter mem_Collect_eq)
  also have "subtotal (filter (stands_before b) xs) a c = subtotal xs a c"
    by (rule subtotal_filter) (rule before)
  finally show ?thesis by simp
qed

section \<open>Pads that do not concern an account\<close>

definition clear_of :: "string \<Rightarrow> pad_entry \<Rightarrow> bool" where
  "clear_of acct q \<longleftrightarrow> \<not> in_subtree acct (pe_account q) \<and> \<not> in_subtree acct (pe_sourceAccount q)"

definition pads_clear :: "string \<Rightarrow> ledger_entry \<Rightarrow> bool" where
  "pads_clear acct e \<longleftrightarrow> (case e of LPad q \<Rightarrow> clear_of acct q | _ \<Rightarrow> True)"

definition asserts :: "string \<Rightarrow> ledger_entry \<Rightarrow> bool" where
  "asserts acct e \<longleftrightarrow> (case e of LBalance b \<Rightarrow> be_account b = acct | _ \<Rightarrow> False)"

definition quiet :: "string \<Rightarrow> pad_state \<Rightarrow> bool" where
  "quiet acct st \<longleftrightarrow> (\<forall>k q. pa_pending st k = Some q \<longrightarrow> k \<noteq> acct \<longrightarrow> clear_of acct q)"

lemma own_subtree [simp]: "in_subtree acct acct"
  by (simp add: in_subtree_def)

lemma clear_contribution:
  "clear_of acct q \<Longrightarrow> entry_contribution acct c (LTransaction (pad_transaction q (pe_account q) diff)) = 0"
  by (simp add: clear_of_def entry_contribution_def contribution_def)

lemma pad_balance_result:
  assumes t: "pads_track es st" and wf: "pad_wf (LBalance b)"
  obtains (passed) "pad_balance st b = Inr (pad_push (LBalance b) st)"
      and "pa_pending st (be_account b) = None \<or>
        subtotal (pa_result st) (be_account b) (am_currency (be_amount b)) = amount_value (be_amount b)"
    | (padded) pad diff m where "pa_pending st (be_account b) = Some pad"
      and "amount_value diff = amount_value (be_amount b) - subtotal (pa_result st) (be_account b) (am_currency (be_amount b))"
      and "amount_value diff \<noteq> 0" and "am_currency diff = am_currency (be_amount b)"
      and "pad_balance st b = Inr (pad_push (LBalance b)
        ((pad_push (LTransaction (pad_transaction pad (be_account b) diff)) st)
           \<lparr>pa_running := m, pa_pending := (pa_pending st)(be_account b := None)\<rparr>))"
proof -
  let ?acct = "be_account b" and ?cur = "am_currency (be_amount b)"
  obtain r where r: "subtreeBalance (pa_running st) ?acct ?cur = Inr r" "am_currency r = ?cur"
    and held: "amount_value r = held_under (pa_running st) ?acct ?cur"
    by (rule subtreeBalance_ok [OF pads_track_running [OF t]])
  have val: "amount_value r = subtotal (pa_result st) ?acct ?cur" using t held by (simp add: pads_track_def)
  let ?diff = "amount_plus (be_amount b) (amount_negate r)"
  have add: "amount_add (be_amount b) (amount_negate r) = Inr ?diff" by (rule amount_add_plus) (simp add: r(2))
  have diff: "amount_value ?diff = amount_value (be_amount b) - subtotal (pa_result st) ?acct ?cur" using val by simp
  show thesis
  proof (cases "pa_pending st ?acct")
    case None
    with r add show thesis by (intro passed) (simp_all add: pad_balance_def)
  next
    case (Some pad)
    note pad = pads_track_pending [OF t Some, where e = "LBalance b"]
    show thesis
    proof (cases "amount_value ?diff = 0")
      case True
      with r add Some diff show thesis by (intro passed) (simp_all add: pad_balance_def)
    next
      case False
      have "list_all posting_wf (te_postings (pad_transaction pad ?acct ?diff))"
        using wf pad by (auto simp: posting_wf_def pad_wf_def)
      then obtain m where "applyTransactionToBalances (pa_running st) (pad_transaction pad ?acct ?diff) = Inr m"
        using applyTransactionToBalances_ok [OF pads_track_running [OF t]] by blast
      with r add Some False diff show thesis
        by (intro padded [of pad ?diff m]) (simp_all add: pad_balance_def Let_def)
    qed
  qed
qed

text \<open>A step that leaves the pad of an account pending and adds nothing to its subtree but its entry.\<close>

definition undisturbed :: "string \<Rightarrow> string \<Rightarrow> ledger_entry list \<Rightarrow> pad_state \<Rightarrow> pad_state \<Rightarrow> bool" where
  "undisturbed acct cur es st st' \<longleftrightarrow>
     (\<exists>gen. mset (pa_result st') = mset (pa_result st) + mset es + mset gen \<and>
        (\<forall>g \<in> set gen. entry_contribution acct cur g = 0)) \<and>
     pa_pending st' acct = pa_pending st acct \<and> quiet acct st'"

lemma undisturbedI:
  assumes "pa_result st' = pa_result st @ gs @ es" and "\<And>g. g \<in> set gs \<Longrightarrow> entry_contribution acct cur g = 0"
    and "pa_pending st' acct = pa_pending st acct" and "quiet acct st'"
  shows "undisturbed acct cur es st st'"
  unfolding undisturbed_def using assms by (intro conjI exI [of _ gs]) simp_all

lemma undisturbed_trans:
  assumes "undisturbed acct cur es st st'" and "undisturbed acct cur es' st' st''"
  shows "undisturbed acct cur (es @ es') st st''"
proof -
  from assms obtain gen gen' where "mset (pa_result st') = mset (pa_result st) + mset es + mset gen"
    "mset (pa_result st'') = mset (pa_result st') + mset es' + mset gen'"
    "\<forall>g \<in> set gen. entry_contribution acct cur g = 0" "\<forall>g \<in> set gen'. entry_contribution acct cur g = 0"
    by (auto simp: undisturbed_def)
  then have "mset (pa_result st'') = mset (pa_result st) + mset (es @ es') + mset (gen @ gen')"
    "\<forall>g \<in> set (gen @ gen'). entry_contribution acct cur g = 0" by auto
  moreover have "pa_pending st'' acct = pa_pending st acct" "quiet acct st''"
    using assms by (simp_all add: undisturbed_def)
  ultimately show ?thesis unfolding undisturbed_def by blast
qed

lemma quiet_step:
  assumes t: "pads_track es st" and wf: "pad_wf e" and clear: "pads_clear acct e" and quiet: "quiet acct st"
    and free: "pa_pending st acct = None \<or> \<not> asserts acct e"
  obtains st' where "pad_step st e = Inr st'" and "pads_track (es @ [e]) st'" and "undisturbed acct cur [e] st st'"
proof -
  obtain st' where step: "pad_step st e = Inr st'" and track: "pads_track (es @ [e]) st'"
    by (rule pads_track_step [OF t wf])
  have "undisturbed acct cur [e] st st'"
  proof (cases e)
    case (LPad q)
    with step clear quiet show ?thesis
      by (intro undisturbedI [of _ _ "[]"])
        (auto simp: pad_step_def pads_clear_def quiet_def clear_of_def split: if_splits)
  next
    case (LTransaction t)
    with step quiet show ?thesis
      by (intro undisturbedI [of _ _ "[]"]) (auto simp: pad_step_def quiet_def bind_sum_Inr_iff)
  next
    case (LBalance b)
    have wf_b: "pad_wf (LBalance b)" using wf LBalance by simp
    from t wf_b show ?thesis
    proof (cases rule: pad_balance_result)
      case passed
      with step quiet show ?thesis
        by (intro undisturbedI [of _ _ "[]"]) (auto simp: LBalance pad_step_def quiet_def)
    next
      case (padded pad diff m)
      have other: "be_account b \<noteq> acct" using free padded(1) by (auto simp: LBalance asserts_def)
      have "pe_account pad = be_account b" using pads_track_pending [OF t padded(1)] by blast
      moreover have "clear_of acct pad" using quiet padded(1) other by (auto simp: quiet_def)
      ultimately have "entry_contribution acct cur (LTransaction (pad_transaction pad (be_account b) diff)) = 0"
        using clear_contribution [of acct pad cur diff] by simp
      with padded(5) step quiet other show ?thesis
        by (intro undisturbedI [of _ _ "[LTransaction (pad_transaction pad (be_account b) diff)]"])
          (auto simp: LBalance pad_step_def quiet_def split: if_splits)
    qed
  qed (use step quiet in \<open>auto simp: pad_step_def quiet_def intro!: undisturbedI [of _ _ "[]"]\<close>)
  with step track show thesis by (rule that)
qed

lemma quiet_fold:
  assumes "pads_track es st" and "list_all pad_wf xs" and "list_all (pads_clear acct) xs" and "quiet acct st"
    and "pa_pending st acct = None \<or> \<not> list_ex (asserts acct) xs"
  shows "\<exists>st'. fold_sum pad_step st xs = Inr st' \<and> pads_track (es @ xs) st' \<and> undisturbed acct cur xs st st'"
  using assms(2,3,5)
proof (induction xs rule: rev_induct)
  case Nil
  have "undisturbed acct cur [] st st" by (rule undisturbedI [of _ _ "[]"]) (use assms(4) in simp_all)
  with assms(1) show ?case by simp
next
  case (snoc x xs)
  from snoc.prems have "list_all pad_wf xs" "list_all (pads_clear acct) xs"
    "pa_pending st acct = None \<or> \<not> list_ex (asserts acct) xs" by auto
  with snoc.IH obtain st1 where st1: "fold_sum pad_step st xs = Inr st1" "pads_track (es @ xs) st1"
    "undisturbed acct cur xs st st1" by blast
  have x: "pad_wf x" "pads_clear acct x" "quiet acct st1" "pa_pending st1 acct = None \<or> \<not> asserts acct x"
    using snoc.prems st1(3) by (auto simp: undisturbed_def)
  obtain st2 where "pad_step st1 x = Inr st2" "pads_track ((es @ xs) @ [x]) st2" "undisturbed acct cur [x] st1 st2"
    by (rule quiet_step [OF st1(2) x])
  with st1 undisturbed_trans [OF st1(3)] show ?case by auto
qed

section \<open>The padded ledger\<close>

text \<open>The account of an assertion, its currency, and what the ledger holds of it up to some entries.\<close>

definition asserted_sum :: "balance_entry \<Rightarrow> ledger_entry list \<Rightarrow> rat" where
  "asserted_sum b es = subtotal es (be_account b) (am_currency (be_amount b))"

text \<open>
  The steps of the pass over a ledger in which \<open>p\<close> is the pad before the assertion \<open>b\<close>: before the pad, the pad, up
  to the assertion, the assertion, and the rest. \<open>own\<close> is what \<open>p\<close> adds.
\<close>

lemma padded_pass:
  assumes wf: "list_all pad_wf (pre @ LPad p # mid @ LBalance b # post)"
    and p: "pe_account p = be_account b" "\<not> in_subtree (be_account b) (pe_sourceAccount p)"
    and others: "list_all (pads_clear (be_account b)) (pre @ mid @ post)"
    and first: "\<not> list_ex (asserts (be_account b)) mid"
    and used: "asserted_sum b (pre @ LPad p # mid) \<noteq> amount_value (be_amount b) \<or>
      \<not> list_ex (asserts (be_account b)) post"
  shows "\<exists>st gen own diff. fold_sum pad_step pad_init (pre @ LPad p # mid @ LBalance b # post) = Inr st \<and>
    mset (pa_result st) = mset (pre @ LPad p # mid @ LBalance b # post) + mset (gen @ own) \<and>
    (\<forall>g \<in> set gen. entry_contribution (be_account b) (am_currency (be_amount b)) g = 0) \<and>
    amount_value diff = amount_value (be_amount b) - asserted_sum b (pre @ LPad p # mid) \<and>
    am_currency diff = am_currency (be_amount b) \<and>
    own = (if amount_value diff = 0 then [] else [LTransaction (pad_transaction p (be_account b) diff)])"
proof -
  let ?a = "be_account b" and ?c = "am_currency (be_amount b)"
  have wf': "list_all pad_wf pre" "pad_wf (LPad p)" "list_all pad_wf mid" "pad_wf (LBalance b)" "list_all pad_wf post"
    and clear: "list_all (pads_clear ?a) pre" "list_all (pads_clear ?a) mid" "list_all (pads_clear ?a) post"
    using wf others by simp_all
  have start: "pads_track [] pad_init" "quiet ?a pad_init" "pa_pending pad_init ?a = None" "pa_result pad_init = []"
    by (simp_all add: pads_track_def pad_init_def held_under_def quiet_def)
  obtain s1 where s1: "fold_sum pad_step pad_init pre = Inr s1" "pads_track ([] @ pre) s1" "undisturbed ?a ?c pre pad_init s1"
    using quiet_fold [OF start(1) wf'(1) clear(1) start(2)] start(3) by blast
  let ?s2 = "pad_push (LPad p) (s1\<lparr>pa_pending := (pa_pending s1)(pe_account p \<mapsto> p)\<rparr>)"
  have s2: "pad_step s1 (LPad p) = Inr ?s2" "pads_track (pre @ [LPad p]) ?s2"
    using pads_track_pad [OF s1(2) wf'(2)] by (simp_all add: pad_step_def)
  have quiet2: "quiet ?a ?s2" using s1(3) p(1) by (auto simp: undisturbed_def quiet_def)
  obtain s3 where s3: "fold_sum pad_step ?s2 mid = Inr s3" "pads_track ((pre @ [LPad p]) @ mid) s3" "undisturbed ?a ?c mid ?s2 s3"
    using quiet_fold [OF s2(2) wf'(3) clear(2) quiet2] first by blast
  have pending: "pa_pending s3 ?a = Some p" and quiet3: "quiet ?a s3" using s3(3) p(1) by (simp_all add: undisturbed_def)
  obtain g1 g2 where
    g1: "mset (pa_result s1) = mset pre + mset g1" "\<forall>g \<in> set g1. entry_contribution ?a ?c g = 0" and
    g2: "mset (pa_result s3) = mset (pre @ LPad p # mid) + mset (g1 @ g2)" "\<forall>g \<in> set g2. entry_contribution ?a ?c g = 0"
    using s1(3) s3(3) start(4) by (auto simp: undisturbed_def)
  have "subtotal (pa_result s3) ?a ?c = asserted_sum b (pre @ LPad p # mid)"
    using subtotal_parts [OF g2(1), of "\<lambda>_. True" ?a ?c] subtotal_silent [of "g1 @ g2" ?a ?c] g1(2) g2(2)
    by (auto simp: asserted_sum_def)
  note sum = this
  obtain s4 own diff where s4: "pad_step s3 (LBalance b) = Inr s4" "pads_track (((pre @ [LPad p]) @ mid) @ [LBalance b]) s4"
    and r4: "pa_result s4 = pa_result s3 @ own @ [LBalance b]"
    and diff: "amount_value diff = amount_value (be_amount b) - asserted_sum b (pre @ LPad p # mid)" "am_currency diff = ?c"
    and own: "own = (if amount_value diff = 0 then [] else [LTransaction (pad_transaction p ?a diff)])"
    and quiet4: "quiet ?a s4" and pending4: "amount_value diff \<noteq> 0 \<longrightarrow> pa_pending s4 ?a = None"
  proof -
    obtain s where s: "pad_step s3 (LBalance b) = Inr s" "pads_track (((pre @ [LPad p]) @ mid) @ [LBalance b]) s"
      by (rule pads_track_step [OF s3(2) wf'(4)])
    from s3(2) wf'(4) show thesis
    proof (cases rule: pad_balance_result)
      case passed
      then have "asserted_sum b (pre @ LPad p # mid) = amount_value (be_amount b)" using pending sum by simp
      moreover have "s = pad_push (LBalance b) s3" using s(1) passed(1) by (simp add: pad_step_def)
      ultimately show thesis
        using s quiet3 by (intro that [of s "[]" "amount_of decimal_zero ?c"]) (auto simp: quiet_def)
    next
      case (padded pad diff m)
      have "pad = p" using padded(1) pending by simp
      with padded s quiet3 sum show thesis
        by (intro that [of s "[LTransaction (pad_transaction p ?a diff)]" diff]) (auto simp: pad_step_def quiet_def split: if_splits)
    qed
  qed
  have "pa_pending s4 ?a = None \<or> \<not> list_ex (asserts ?a) post" using used diff(1) pending4 by auto
  then obtain s5 where s5: "fold_sum pad_step s4 post = Inr s5" "undisturbed ?a ?c post s4 s5"
    using quiet_fold [OF s4(2) wf'(5) clear(3) quiet4] by blast
  from s5(2) obtain g5 where g5: "mset (pa_result s5) = mset (pa_result s4) + mset post + mset g5"
    "\<forall>g \<in> set g5. entry_contribution ?a ?c g = 0" by (auto simp: undisturbed_def)
  have run: "fold_sum pad_step pad_init (pre @ LPad p # mid @ LBalance b # post) = Inr s5"
    using s1(1) s2(1) s3(1) s4(1) s5(1) by (simp add: fold_sum_append)
  have "mset (pa_result s5) = mset (pre @ LPad p # mid @ LBalance b # post) + mset ((g1 @ g2 @ g5) @ own)"
    using g5(1) g2(1) by (simp add: r4)
  moreover have "\<forall>g \<in> set (g1 @ g2 @ g5). entry_contribution ?a ?c g = 0" using g1(2) g2(2) g5(2) by auto
  ultimately show ?thesis using run diff own by blast
qed

text \<open>
  C6: padding meets assertions. Take a ledger whose accounts leave the key separator free. In its sorted order let
  \<open>p\<close> be a pad directive and \<open>b\<close> the first balance assertion of its account after it; let the source of \<open>p\<close> lie outside
  the subtree of the account, and no other pad of the ledger name an account of the subtree; and let \<open>p\<close> be needed at
  \<open>b\<close> (the entries before \<open>b\<close> do not add up to its amount), or no later assertion of the account be left to use it.
  Then padding returns a ledger, with \<open>b\<close> in it, in which the entries before \<open>b\<close> add up to exactly the amount of \<open>b\<close> in
  the subtree and currency of \<open>b\<close>; and where \<open>p\<close> was needed that ledger has a balanced transaction, dated as \<open>p\<close> and
  before \<open>b\<close>, which moves exactly the missing amount from the source to the account.
\<close>

theorem pad_meets_assertion:
  assumes wf: "list_all pad_wf es" and order: "sortEntries es = pre @ LPad p # mid @ LBalance b # post"
    and p: "pe_account p = be_account b" "\<not> in_subtree (be_account b) (pe_sourceAccount p)"
    and others: "list_all (pads_clear (be_account b)) (pre @ mid @ post)"
    and first: "\<not> list_ex (asserts (be_account b)) mid"
    and used: "asserted_sum b (pre @ LPad p # mid) \<noteq> amount_value (be_amount b) \<or>
      \<not> list_ex (asserts (be_account b)) post"
  shows "\<exists>out. applyPadDirectives es = Inr out \<and> LBalance b \<in> set out \<and>
    (\<forall>xs ys. out = xs @ LBalance b # ys \<longrightarrow> asserted_sum b xs = amount_value (be_amount b)) \<and>
    (asserted_sum b (pre @ LPad p # mid) \<noteq> amount_value (be_amount b) \<longrightarrow>
       (\<exists>t diff. LTransaction t \<in> set out \<and> en_date t = en_date p \<and> en_date t < en_date b \<and>
          te_postings t = [bare_posting (be_account b) diff, bare_posting (pe_sourceAccount p) (amount_negate diff)] \<and>
          am_currency diff = am_currency (be_amount b) \<and>
          amount_value diff = amount_value (be_amount b) - asserted_sum b (pre @ LPad p # mid)))"
proof -
  let ?a = "be_account b" and ?c = "am_currency (be_amount b)"
  have "list_all pad_wf (sortEntries es)" using wf by (simp add: list_all_iff)
  from padded_pass [OF this [unfolded order] p others first used] obtain st gen own diff where
    run: "fold_sum pad_step pad_init (sortEntries es) = Inr st"
    and rows: "mset (pa_result st) = mset (sortEntries es) + mset (gen @ own)"
    and gen: "\<forall>g \<in> set gen. entry_contribution ?a ?c g = 0"
    and diff: "amount_value diff = amount_value (be_amount b) - asserted_sum b (pre @ LPad p # mid)" "am_currency diff = ?c"
    and own: "own = (if amount_value diff = 0 then [] else [LTransaction (pad_transaction p ?a diff)])"
    unfolding order by blast
  let ?out = "sortEntries (pa_result st)"
  have "compareEntries (LPad p) (LBalance b) \<le> 0"
    by (rule sorted_pair [OF order]) (simp_all add: isDatedEntry_def)
  then have early: "en_date p < en_date b" by (auto simp: compareEntries_def entrySortKey_def compareSortKey_le)
  have own_before: "filter (stands_before b) own = own"
    using early by (auto simp: own transaction_sides)
  have own_sum: "subtotal own ?a ?c = amount_value diff"
    using p(2) diff(2) by (simp add: own entry_contribution_def contribution_def)
  have "subtotal (filter (stands_before b) gen) ?a ?c = 0" by (rule subtotal_silent) (use gen in auto)
  moreover have "subtotal (filter (stands_before b) (sortEntries es)) ?a ?c = asserted_sum b (pre @ LPad p # mid)"
  proof -
    have "sortEntries (sortEntries es) = (pre @ LPad p # mid) @ LBalance b # post" unfolding sortEntries_idem using order by simp
    from dated_split [OF this, of ?a ?c] show ?thesis by (simp only: asserted_sum_def)
  qed
  ultimately have total: "subtotal (filter (stands_before b) (pa_result st)) ?a ?c = amount_value (be_amount b)"
    using subtotal_parts [OF rows, of "stands_before b" ?a ?c] own_before own_sum diff(1) by simp
  have "asserted_sum b xs = amount_value (be_amount b)" if "?out = xs @ LBalance b # ys" for xs ys
    using dated_split [OF that, of ?a ?c] total by (simp add: asserted_sum_def)
  moreover have "LBalance b \<in> set ?out"
    using arg_cong [OF rows, of set_mset] order by simp
  moreover have "LTransaction (pad_transaction p ?a diff) \<in> set ?out" if "amount_value diff \<noteq> 0"
    using arg_cong [OF rows, of set_mset] that by (auto simp: own)
  moreover have "applyPadDirectives es = Inr ?out" using run by (simp add: applyPadDirectives_def)
  ultimately show ?thesis
    using diff early by (intro exI [of _ ?out] conjI impI) (auto intro!: exI [of _ "pad_transaction p ?a diff"] exI [of _ diff])
qed

definition sample_pad :: pad_entry where
  "sample_pad =
     \<lparr>en_meta = [], en_source = None, en_date = ''2024-01-01'', pe_account = ''Assets:Bank'',
      pe_sourceAccount = ''Equity:Opening''\<rparr>"

definition sample_balance :: balance_entry where
  "sample_balance =
     \<lparr>en_meta = [], en_source = None, en_date = ''2024-01-03'', be_account = ''Assets:Bank'',
      be_amount = sample_amount 7, be_tolerance = None\<rparr>"

text \<open>A pad, a transfer of 3 and an assertion of 7: the pad adds 4.\<close>

definition padded_ledger :: "ledger_entry list" where
  "padded_ledger = [LBalance sample_balance, sample_transfer ''Assets:Bank:Main'' ''Income:Pay'' 3, LPad sample_pad]"

theorem pad_meets_assertion_witness:
  "\<exists>out t. applyPadDirectives padded_ledger = Inr out \<and> LTransaction t \<in> set out \<and> en_date t = ''2024-01-01'' \<and>
     (\<forall>xs ys. out = xs @ LBalance sample_balance # ys \<longrightarrow> asserted_sum sample_balance xs = 7)"
proof -
  let ?mid = "[sample_transfer ''Assets:Bank:Main'' ''Income:Pay'' 3]"
  have "list_all pad_wf padded_ledger"
    and "sortEntries padded_ledger = [] @ LPad sample_pad # ?mid @ LBalance sample_balance # []"
    and "pe_account sample_pad = be_account sample_balance"
    and "\<not> in_subtree (be_account sample_balance) (pe_sourceAccount sample_pad)"
    and "list_all (pads_clear (be_account sample_balance)) ([] @ ?mid @ [])"
    and "\<not> list_ex (asserts (be_account sample_balance)) ?mid"
    and sum: "asserted_sum sample_balance ([] @ LPad sample_pad # ?mid) = 3"
    and amount: "amount_value (be_amount sample_balance) = 7" and date: "en_date sample_pad = ''2024-01-01''"
    by code_simp+
  from pad_meets_assertion [OF this(1-6)] show ?thesis unfolding sum amount date by force
qed

text \<open>
  A pad that an assertion does not need stays pending, also past that assertion. When a later one uses it, the
  transaction is dated at the pad and breaks the assertion in between, which held before.
\<close>

definition zero_then_seven :: "ledger_entry list" where
  "zero_then_seven = [sample_open ''Assets:Bank'', sample_open ''Equity:Opening'', LPad sample_pad,
     sample_assertion ''Assets:Bank'' 0, LBalance (sample_balance\<lparr>en_date := ''2024-01-05''\<rparr>)]"

lemma stale_pad_breaks_assertion:
  "bind_sum (applyPadDirectives zero_then_seven) validateEntries =
     Inr [error_at ''balance_assertion_failed''
       ''Balance assertion failed for Assets:Bank: expected 0 USD, actual 7 USD'' None]"
  by code_simp

end
