(* ===== verification/SqlTable.thy ===== *)
theory SqlTable
  imports Prelude
begin

text \<open>
  The SQL statements the repositories use, on tables that are lists of rows: \<open>UPDATE\<close> with its
  \<open>RETURNING\<close>, \<open>COALESCE\<close>, and \<open>INSERT ... ON CONFLICT (key) DO UPDATE\<close> with its contract.
\<close>

section \<open>Updates\<close>

text \<open>\<open>UPDATE t SET f WHERE P RETURNING *\<close> and \<open>COALESCE\<close>.\<close>

definition sql_update :: "('r \<Rightarrow> bool) \<Rightarrow> ('r \<Rightarrow> 'r) \<Rightarrow> 'r list \<Rightarrow> 'r list" where
  "sql_update P f rows = map (\<lambda>r. if P r then f r else r) rows"

definition sql_returning :: "('r \<Rightarrow> bool) \<Rightarrow> ('r \<Rightarrow> 'r) \<Rightarrow> 'r list \<Rightarrow> 'r list" where
  "sql_returning P f rows = map f (filter P rows)"

definition or_value :: "'a option \<Rightarrow> 'a \<Rightarrow> 'a" where
  "or_value x d = (case x of None \<Rightarrow> d | Some v \<Rightarrow> v)"

lemma in_sql_update: "x \<in> set (sql_update P f rows) \<longleftrightarrow> (\<exists>r \<in> set rows. x = (if P r then f r else r))"
  by (auto simp: sql_update_def)

lemma map_sql_update: "(\<And>r. k (f r) = k r) \<Longrightarrow> map k (sql_update P f rows) = map k rows"
  by (simp add: sql_update_def)

lemma filter_sql_update_other:
  "(\<And>r. Q r \<Longrightarrow> \<not> P r) \<Longrightarrow> (\<And>r. P r \<Longrightarrow> \<not> Q (f r)) \<Longrightarrow> filter Q (sql_update P f rows) = filter Q rows"
  by (induction rows) (auto simp: sql_update_def)

section \<open>Insert or update\<close>

definition upsert :: "('r \<Rightarrow> 'k) \<Rightarrow> ('r \<Rightarrow> 'r \<Rightarrow> 'r) \<Rightarrow> 'r \<Rightarrow> 'r list \<Rightarrow> 'r list" where
  "upsert key merge new rows =
     (if list_ex (\<lambda>r. key r = key new) rows then sql_update (\<lambda>r. key r = key new) (merge new) rows
      else rows @ [new])"

text \<open>
  A table with a unique key, whose conflict clause keeps the key. What a table then promises: the
  key stays unique, the conflicting row is merged or the new row is there, and other rows stay.
\<close>

locale keyed_table =
  fixes key :: "'r \<Rightarrow> 'k" and merge :: "'r \<Rightarrow> 'r \<Rightarrow> 'r"
  assumes merge_key: "key new = key old \<Longrightarrow> key (merge new old) = key old"
begin

lemma upsert_distinct:
  assumes "distinct (map key rows)"
  shows "distinct (map key (upsert key merge new rows))"
proof (cases "list_ex (\<lambda>r. key r = key new) rows")
  case True
  have "map key (sql_update (\<lambda>r. key r = key new) (merge new) rows) = map key rows"
    by (simp add: sql_update_def merge_key)
  with True assms show ?thesis by (simp add: upsert_def)
next
  case False
  then have "key new \<notin> key ` set rows" by (auto simp: list_ex_iff)
  with False assms show ?thesis by (simp add: upsert_def)
qed

lemma upsert_others:
  assumes "\<And>r. P r \<Longrightarrow> key r \<noteq> key new"
  shows "filter P (upsert key merge new rows) = filter P rows"
proof -
  have "\<And>r. key r = key new \<Longrightarrow> \<not> P (merge new r)" using assms merge_key by metis
  moreover have "\<not> P new" using assms by blast
  ultimately show ?thesis using assms by (auto simp: upsert_def filter_sql_update_other)
qed

lemma upsert_same:
  "r \<in> set (upsert key merge new rows) \<Longrightarrow> key r = key new \<Longrightarrow>
     r = new \<or> (\<exists>old \<in> set rows. key old = key new \<and> r = merge new old)"
  by (auto simp: upsert_def in_sql_update list_ex_iff split: if_splits)

lemma upsert_present: "\<exists>r \<in> set (upsert key merge new rows). key r = key new"
proof (cases "list_ex (\<lambda>r. key r = key new) rows")
  case True
  then obtain r where "r \<in> set rows" "key r = key new" by (auto simp: list_ex_iff)
  moreover from this have "merge new r \<in> set (upsert key merge new rows)"
    using True by (force simp: upsert_def in_sql_update)
  ultimately show ?thesis using merge_key by metis
qed (simp add: upsert_def)

lemma upsert_set:
  "r \<in> set (upsert key merge new rows) \<Longrightarrow>
     r \<in> set rows \<or> r = new \<or> (\<exists>old \<in> set rows. key old = key new \<and> r = merge new old)"
  by (auto simp: upsert_def in_sql_update split: if_splits)

end

end
