(* ===== verification/EvidenceRedaction.thy ===== *)
theory EvidenceRedaction
  imports JsValue
begin

text \<open>
  The redaction of persisted evidence, \<open>runs/evidenceRedaction.ts\<close>. The substitution of the three
  secret patterns, regular expressions run by the host, is the parameter \<open>patterns\<close>; the key
  filter, the recursion and the length bound are the code's.
\<close>

definition FORBIDDEN_EVIDENCE_KEYS :: "string list" where
  "FORBIDDEN_EVIDENCE_KEYS =
     [''api_key'', ''secret_ref'', ''encrypted_key'', ''credential_secret_ref'', ''authorization'',
      ''cookie'', ''access_token'', ''refresh_token'', ''id_token'', ''password'', ''private_key'',
      ''rendered_context'', ''context_text'', ''private_memory_text'', ''raw_private_memory'',
      ''raw_memory_text'', ''full_patch'', ''patch'', ''diff'', ''file_content'',
      ''raw_file_content'', ''stdout'', ''stderr'']"

abbreviation MAX_EVIDENCE_TEXT_CHARS :: int where "MAX_EVIDENCE_TEXT_CHARS \<equiv> 32000"

type_synonym patterns = "string \<Rightarrow> string"

definition redactEvidenceText :: "patterns \<Rightarrow> string \<Rightarrow> string" where
  "redactEvidenceText patterns value =
     (let out = patterns value
      in if MAX_EVIDENCE_TEXT_CHARS < int (length out)
         then take (nat MAX_EVIDENCE_TEXT_CHARS) out @ ''...[truncated]'' else out)"

fun sanitizeEvidenceJson :: "patterns \<Rightarrow> jsval \<Rightarrow> jsval" where
  "sanitizeEvidenceJson patterns (JStr s) = JStr (redactEvidenceText patterns s)"
| "sanitizeEvidenceJson patterns (JArr vs) = JArr (map (sanitizeEvidenceJson patterns) vs)"
| "sanitizeEvidenceJson patterns (JObj es) =
     JObj (map (\<lambda>(k, v).
         (k, if to_lower k \<in> set FORBIDDEN_EVIDENCE_KEYS then JStr ''[REDACTED_EVIDENCE_FIELD]''
             else sanitizeEvidenceJson patterns v)) es)"
| "sanitizeEvidenceJson patterns JUndef = JNull"
| "sanitizeEvidenceJson patterns v = v"

text \<open>No forbidden key keeps its value, and no text exceeds the bound by more than the marker.\<close>

fun evidence_clean :: "jsval \<Rightarrow> bool" where
  "evidence_clean (JStr s) \<longleftrightarrow> int (length s) \<le> MAX_EVIDENCE_TEXT_CHARS + 14"
| "evidence_clean (JArr vs) \<longleftrightarrow> (\<forall>v \<in> set vs. evidence_clean v)"
| "evidence_clean (JObj es) \<longleftrightarrow>
     (\<forall>(k, v) \<in> set es. evidence_clean v \<and>
        (to_lower k \<in> set FORBIDDEN_EVIDENCE_KEYS \<longrightarrow> v = JStr ''[REDACTED_EVIDENCE_FIELD]''))"
| "evidence_clean _ \<longleftrightarrow> True"

lemma sanitizeEvidenceJson_clean: "evidence_clean (sanitizeEvidenceJson patterns v)"
  by (induction patterns v rule: sanitizeEvidenceJson.induct)
    (auto simp: redactEvidenceText_def Let_def)

end
