(* ===== verification/JobQueue.thy ===== *)
theory JobQueue
  imports StableSort SqlTable EvidenceRedaction
begin

text \<open>
  The durable job queue, \<open>server/src/modules/jobs/repository.ts\<close>. The tables \<open>jobs\<close>, \<open>runs\<close>,
  \<open>run_execution_locks\<close> and \<open>job_events\<close> are lists of rows, each SQL statement is one atomic update of
  them, and time is the number of milliseconds since the epoch. \<open>SKIP LOCKED\<close> is the set of ids that
  other transactions hold when the statement runs.
\<close>

section \<open>Rows\<close>

datatype job_status = Pending | Claimed | Running | Completed | Failed | Cancelled

record job =
  jb_id :: string
  jb_space_id :: string
  jb_user_id :: "string option"
  jb_workspace_id :: "string option"
  jb_agent_id :: "string option"
  jb_job_type :: string
  jb_status :: job_status
  jb_priority :: int
  jb_payload :: jsval
  jb_result :: "jsval option"
  jb_error :: "string option"
  jb_attempts :: nat
  jb_max_attempts :: nat
  jb_scheduled_at :: int
  jb_claimed_by :: "string option"
  jb_claimed_at :: "int option"
  jb_started_at :: "int option"
  jb_completed_at :: "int option"
  jb_heartbeat_at :: "int option"
  jb_created_at :: int
  jb_updated_at :: int

record run_row =
  rr_id :: string
  rr_status :: string
  rr_ended_at :: "int option"
  rr_updated_at :: int
  rr_error_message :: "string option"
  rr_error_code :: "string option"

record run_lock =
  rl_run_id :: string
  rl_job_id :: "string option"

record job_event =
  ev_job_id :: string
  ev_event_type :: string
  ev_message :: string
  ev_data :: jsval
  ev_created_at :: int

record queue =
  qu_jobs :: "job list"
  qu_runs :: "run_row list"
  qu_locks :: "run_lock list"
  qu_events :: "job_event list"

record enqueue_input =
  ei_job_type :: string
  ei_payload :: jsval
  ei_space_id :: string
  ei_user_id :: "string option"
  ei_workspace_id :: "string option"
  ei_agent_id :: "string option"
  ei_priority :: "int option"
  ei_max_attempts :: "nat option"
  ei_scheduled_at :: "int option"

definition TERMINAL_RUN_STATES :: "string list" where
  "TERMINAL_RUN_STATES =
     [''succeeded'', ''failed'', ''degraded'', ''cancelled'', ''orphaned'', ''waiting_for_review'']"

section \<open>SQL\<close>

text \<open>\<open>payload_json->>'run_id'\<close>: the text of a scalar; the ids it is compared with are strings.\<close>

definition payload_run_id :: "jsval \<Rightarrow> string option" where
  "payload_run_id payload =
     (case get (record_or_empty payload) ''run_id'' of
        JStr s \<Rightarrow> Some s
      | JNum q \<Rightarrow> Some (num_to_string q)
      | JBool b \<Rightarrow> Some (if b then ''true'' else ''false'')
      | _ \<Rightarrow> None)"

definition is_active :: "job_status \<Rightarrow> bool" where
  "is_active s \<longleftrightarrow> s = Claimed \<or> s = Running"

definition is_terminal :: "job_status \<Rightarrow> bool" where
  "is_terminal s \<longleftrightarrow> s = Completed \<or> s = Failed \<or> s = Cancelled"

text \<open>\<open>CAST($n AS text) IS NULL OR claimed_by = $n\<close>.\<close>

definition owned_by :: "string option \<Rightarrow> job \<Rightarrow> bool" where
  "owned_by worker j \<longleftrightarrow> worker = None \<or> jb_claimed_by j = worker"

section \<open>The operations\<close>

definition enqueue :: "patterns \<Rightarrow> string \<Rightarrow> enqueue_input \<Rightarrow> int \<Rightarrow> queue \<Rightarrow> queue" where
  "enqueue patterns new_id input now q =
     q\<lparr>qu_jobs := qu_jobs q @
        [\<lparr>jb_id = new_id, jb_space_id = ei_space_id input, jb_user_id = ei_user_id input,
          jb_workspace_id = ei_workspace_id input, jb_agent_id = ei_agent_id input,
          jb_job_type = ei_job_type input, jb_status = Pending,
          jb_priority = or_value (ei_priority input) 0,
          jb_payload = sanitizeEvidenceJson patterns (ei_payload input), jb_result = None,
          jb_error = None, jb_attempts = 0, jb_max_attempts = or_value (ei_max_attempts input) 3,
          jb_scheduled_at = or_value (ei_scheduled_at input) now, jb_claimed_by = None,
          jb_claimed_at = None, jb_started_at = None, jb_completed_at = None,
          jb_heartbeat_at = None, jb_created_at = now, jb_updated_at = now\<rparr>]\<rparr>"

definition getJob :: "string \<Rightarrow> queue \<Rightarrow> job option" where
  "getJob job_id q = List.find (\<lambda>j. jb_id j = job_id) (qu_jobs q)"

text \<open>\<open>ORDER BY priority DESC, scheduled_at ASC\<close>.\<close>

definition claim_order :: "job \<Rightarrow> job \<Rightarrow> int" where
  "claim_order a b =
     (if jb_priority a \<noteq> jb_priority b then jb_priority b - jb_priority a
      else jb_scheduled_at a - jb_scheduled_at b)"

definition claimable :: "string list option \<Rightarrow> int \<Rightarrow> job \<Rightarrow> bool" where
  "claimable jobTypes now j \<longleftrightarrow>
     jb_status j = Pending \<and> jb_scheduled_at j \<le> now \<and> jb_attempts j < jb_max_attempts j \<and>
     (case jobTypes of None \<Rightarrow> True | Some ts \<Rightarrow> ts = [] \<or> jb_job_type j \<in> set ts)"

definition mark_claimed :: "string \<Rightarrow> int \<Rightarrow> job \<Rightarrow> job" where
  "mark_claimed worker now j =
     j\<lparr>jb_status := Claimed, jb_claimed_by := Some worker, jb_claimed_at := Some now,
       jb_heartbeat_at := None, jb_attempts := jb_attempts j + 1, jb_updated_at := now\<rparr>"

definition claim_candidate :: "string set \<Rightarrow> string list option \<Rightarrow> int \<Rightarrow> queue \<Rightarrow> job option" where
  "claim_candidate locked jobTypes now q =
     (case sort_by claim_order
             (filter (\<lambda>j. claimable jobTypes now j \<and> jb_id j \<notin> locked) (qu_jobs q)) of
        [] \<Rightarrow> None
      | j # _ \<Rightarrow> Some j)"

definition claimNext ::
  "string set \<Rightarrow> string \<Rightarrow> string list option \<Rightarrow> int \<Rightarrow> queue \<Rightarrow> job option \<times> queue" where
  "claimNext locked worker jobTypes now q =
     (case claim_candidate locked jobTypes now q of
        None \<Rightarrow> (None, q)
      | Some c \<Rightarrow>
          (Some (mark_claimed worker now c),
           q\<lparr>qu_jobs := sql_update (\<lambda>j. jb_id j = jb_id c) (mark_claimed worker now) (qu_jobs q)\<rparr>))"

definition claimNextAgentRun :: "string set \<Rightarrow> string \<Rightarrow> int \<Rightarrow> queue \<Rightarrow> job option \<times> queue" where
  "claimNextAgentRun locked worker now q = claimNext locked worker (Some [''agent_run'']) now q"

text \<open>The statements on one job: the selected row changes, and the row count says whether one was.\<close>

definition update_jobs :: "(job \<Rightarrow> bool) \<Rightarrow> (job \<Rightarrow> job) \<Rightarrow> queue \<Rightarrow> bool \<times> queue" where
  "update_jobs P f q =
     (sql_returning P f (qu_jobs q) \<noteq> [], q\<lparr>qu_jobs := sql_update P f (qu_jobs q)\<rparr>)"

definition startJob :: "string \<Rightarrow> string option \<Rightarrow> int \<Rightarrow> queue \<Rightarrow> bool \<times> queue" where
  "startJob job_id worker now =
     update_jobs (\<lambda>j. jb_id j = job_id \<and> jb_status j = Claimed \<and> owned_by worker j)
       (\<lambda>j. j\<lparr>jb_status := Running, jb_started_at := Some now, jb_heartbeat_at := Some now,
               jb_updated_at := now\<rparr>)"

definition completeJob ::
  "patterns \<Rightarrow> string \<Rightarrow> jsval \<Rightarrow> string option \<Rightarrow> int \<Rightarrow> queue \<Rightarrow> bool \<times> queue" where
  "completeJob patterns job_id result worker now =
     update_jobs (\<lambda>j. jb_id j = job_id \<and> is_active (jb_status j) \<and> owned_by worker j)
       (\<lambda>j. j\<lparr>jb_status := Completed,
               jb_result := Some (sanitizeEvidenceJson patterns (coalesce result (JObj []))),
               jb_completed_at := Some now, jb_heartbeat_at := None, jb_updated_at := now\<rparr>)"

definition mark_failed :: "patterns \<Rightarrow> string \<Rightarrow> int \<Rightarrow> job \<Rightarrow> job" where
  "mark_failed patterns error now j =
     (let retry = jb_attempts j < jb_max_attempts j
      in j\<lparr>jb_status := (if retry then Pending else Failed),
           jb_error := Some (redactEvidenceText patterns error), jb_heartbeat_at := None,
           jb_claimed_by := (if retry then None else jb_claimed_by j),
           jb_claimed_at := (if retry then None else jb_claimed_at j),
           jb_started_at := (if retry then None else jb_started_at j),
           jb_completed_at := (if retry then None else Some now), jb_updated_at := now\<rparr>)"

definition failable :: "string \<Rightarrow> string option \<Rightarrow> job \<Rightarrow> bool" where
  "failable job_id worker j \<longleftrightarrow> jb_id j = job_id \<and> is_active (jb_status j) \<and> owned_by worker j"

definition failJob ::
  "patterns \<Rightarrow> string \<Rightarrow> string \<Rightarrow> string option \<Rightarrow> int \<Rightarrow> queue \<Rightarrow> job_status option \<times> queue" where
  "failJob patterns job_id error worker now q =
     (case sql_returning (failable job_id worker) (mark_failed patterns error now) (qu_jobs q) of
        [] \<Rightarrow> None | j # _ \<Rightarrow> Some (jb_status j),
      q\<lparr>qu_jobs := sql_update (failable job_id worker) (mark_failed patterns error now) (qu_jobs q)\<rparr>)"

text \<open>\<open>runs.status <> ALL($4)\<close>: the run is ended unless it is in a terminal state.\<close>

definition end_runs :: "string set \<Rightarrow> string \<Rightarrow> string \<Rightarrow> string \<Rightarrow> int \<Rightarrow> run_row list \<Rightarrow> run_row list" where
  "end_runs ids status message code now =
     sql_update (\<lambda>r. rr_id r \<in> ids \<and> rr_status r \<notin> set TERMINAL_RUN_STATES)
       (\<lambda>r. r\<lparr>rr_status := status, rr_ended_at := Some now, rr_updated_at := now,
              rr_error_message := Some message, rr_error_code := Some code\<rparr>)"

definition run_ids_of :: "job list \<Rightarrow> string set" where
  "run_ids_of js = set (List.map_filter (\<lambda>j. payload_run_id (jb_payload j)) js)"

definition cancellable :: "string \<Rightarrow> string option \<Rightarrow> job \<Rightarrow> bool" where
  "cancellable job_id worker j \<longleftrightarrow>
     jb_id j = job_id \<and> (jb_status j = Pending \<or> is_active (jb_status j)) \<and> owned_by worker j"

definition cancelJob :: "string \<Rightarrow> string option \<Rightarrow> int \<Rightarrow> queue \<Rightarrow> bool \<times> queue" where
  "cancelJob job_id worker now q =
     (let mark = (\<lambda>j. j\<lparr>jb_status := Cancelled, jb_heartbeat_at := None,
                       jb_completed_at := Some now, jb_updated_at := now\<rparr>);
          cancelled = filter (cancellable job_id worker) (qu_jobs q);
          run_jobs = filter (\<lambda>j. jb_job_type j = ''agent_run'') cancelled
      in (cancelled \<noteq> [],
          q\<lparr>qu_jobs := sql_update (cancellable job_id worker) mark (qu_jobs q),
            qu_runs := end_runs (run_ids_of run_jobs) ''cancelled'' ''Run cancelled'' ''run_cancelled''
                         now (qu_runs q)\<rparr>))"

definition touchHeartbeat :: "string \<Rightarrow> string option \<Rightarrow> int \<Rightarrow> queue \<Rightarrow> bool \<times> queue" where
  "touchHeartbeat job_id worker now =
     update_jobs (\<lambda>j. jb_id j = job_id \<and> is_active (jb_status j) \<and> owned_by worker j)
       (\<lambda>j. j\<lparr>jb_heartbeat_at := Some now, jb_updated_at := now\<rparr>)"

definition appendJobEvent ::
  "patterns \<Rightarrow> string \<Rightarrow> string \<Rightarrow> string \<Rightarrow> jsval \<Rightarrow> int \<Rightarrow> queue \<Rightarrow> queue" where
  "appendJobEvent patterns job_id event_type message data now q =
     q\<lparr>qu_events := qu_events q @
        [\<lparr>ev_job_id = job_id, ev_event_type = event_type,
          ev_message = redactEvidenceText patterns message,
          ev_data = sanitizeEvidenceJson patterns (coalesce data (JObj [])),
          ev_created_at = now\<rparr>]\<rparr>"

text \<open>Reclaiming: the stuck jobs of a cutoff, the locks of their runs, and the two updates.\<close>

definition stuck :: "int \<Rightarrow> job \<Rightarrow> bool" where
  "stuck cutoff j \<longleftrightarrow>
     is_active (jb_status j) \<and> or_value (jb_heartbeat_at j) (jb_updated_at j) < cutoff"

definition deleteOrphanRunExecutionLocks :: "int \<Rightarrow> queue \<Rightarrow> queue" where
  "deleteOrphanRunExecutionLocks cutoff q =
     (let stuck_runs = filter (\<lambda>j. stuck cutoff j \<and> jb_job_type j = ''agent_run'' \<and>
                                  has_key (record_or_empty (jb_payload j)) ''run_id'') (qu_jobs q)
      in q\<lparr>qu_locks := filter (\<lambda>l. \<not> list_ex (\<lambda>j.
               payload_run_id (jb_payload j) = Some (rl_run_id l) \<and>
               (rl_job_id l = Some (jb_id j) \<or> rl_job_id l = None)) stuck_runs) (qu_locks q)\<rparr>)"

definition mark_retryable :: "int \<Rightarrow> job \<Rightarrow> job" where
  "mark_retryable now j =
     j\<lparr>jb_status := Pending, jb_claimed_by := None, jb_claimed_at := None, jb_started_at := None,
       jb_heartbeat_at := None, jb_updated_at := now\<rparr>"

definition mark_exhausted :: "int \<Rightarrow> job \<Rightarrow> job" where
  "mark_exhausted now j =
     j\<lparr>jb_status := Failed, jb_claimed_by := None, jb_claimed_at := None, jb_heartbeat_at := None,
       jb_completed_at := Some now, jb_error := Some ''job stuck and retry attempts exhausted'',
       jb_updated_at := now\<rparr>"

definition retryable :: "int \<Rightarrow> job \<Rightarrow> bool" where
  "retryable cutoff j \<longleftrightarrow> stuck cutoff j \<and> jb_attempts j < jb_max_attempts j"

definition exhausted :: "int \<Rightarrow> job \<Rightarrow> bool" where
  "exhausted cutoff j \<longleftrightarrow> stuck cutoff j \<and> jb_max_attempts j \<le> jb_attempts j"

record reclaim_result =
  rc_reclaimed_count :: nat
  rc_exhausted_jobs :: "job list"

definition reclaim_statement :: "int \<Rightarrow> int \<Rightarrow> queue \<Rightarrow> reclaim_result \<times> queue" where
  "reclaim_statement cutoff now q =
     (let jobs = qu_jobs q;
          abandoned = filter (\<lambda>j. exhausted cutoff j \<and> jb_job_type j = ''agent_run'' \<and>
                                 has_key (record_or_empty (jb_payload j)) ''run_id'') jobs;
          failed = sql_returning (exhausted cutoff) (mark_exhausted now) jobs
      in (\<lparr>rc_reclaimed_count = length (filter (retryable cutoff) jobs) + length failed,
           rc_exhausted_jobs = failed\<rparr>,
          q\<lparr>qu_jobs := map (\<lambda>j. if retryable cutoff j then mark_retryable now j
                               else if exhausted cutoff j then mark_exhausted now j else j) jobs,
            qu_runs := end_runs (run_ids_of abandoned) ''failed''
              ''run abandoned: backing job stuck and retry attempts exhausted'' ''run_abandoned''
              now (qu_runs q)\<rparr>))"

definition reclaimStuckJobs :: "int \<Rightarrow> int \<Rightarrow> queue \<Rightarrow> reclaim_result \<times> queue" where
  "reclaimStuckJobs stuckAfterSeconds now q =
     (let cutoff = now - stuckAfterSeconds * 1000
      in reclaim_statement cutoff now (deleteOrphanRunExecutionLocks cutoff q))"

lemmas [job_defs] =
  enqueue_def claimNext_def claimNextAgentRun_def startJob_def completeJob_def failJob_def
  cancelJob_def touchHeartbeat_def appendJobEvent_def reclaimStuckJobs_def
  reclaim_statement_def   deleteOrphanRunExecutionLocks_def update_jobs_def sql_update_def Let_def

lemma claim_candidate_SomeD:
  "claim_candidate locked types now q = Some c \<Longrightarrow>
     c \<in> set (qu_jobs q) \<and> claimable types now c \<and> jb_id c \<notin> locked"
proof -
  let ?el = "filter (\<lambda>j. claimable types now j \<and> jb_id j \<notin> locked) (qu_jobs q)"
  assume "claim_candidate locked types now q = Some c"
  then obtain js where "sort_by claim_order ?el = c # js"
    by (auto simp: claim_candidate_def split: list.splits)
  then have "c \<in> set (sort_by claim_order ?el)" by simp
  then show ?thesis by simp
qed

section \<open>The queue as a state machine\<close>

text \<open>
  Any worker or request may run any statement at any time (the two statements of
  \<open>reclaimStuckJobs\<close> are separate steps), with any arguments and any set of locked
  rows (which also covers the choices PostgreSQL has among jobs of equal priority and time); ids of
  new jobs are fresh (\<open>randomUUID\<close>). A step is labelled with the job row it grants to a worker, if
  it grants one, and a run collects the grants in order.
\<close>

inductive queue_step :: "queue \<Rightarrow> job option \<Rightarrow> queue \<Rightarrow> bool" where
  step_enqueue: "new_id \<notin> jb_id ` set (qu_jobs q) \<Longrightarrow>
     queue_step q None (enqueue patterns new_id input now q)"
| step_claim: "claimNext locked worker types now q = (granted, q') \<Longrightarrow> queue_step q granted q'"
| step_start: "queue_step q None (snd (startJob job_id worker now q))"
| step_complete: "queue_step q None (snd (completeJob patterns job_id result worker now q))"
| step_fail: "queue_step q None (snd (failJob patterns job_id error worker now q))"
| step_cancel: "queue_step q None (snd (cancelJob job_id worker now q))"
| step_heartbeat: "queue_step q None (snd (touchHeartbeat job_id worker now q))"
| step_event: "queue_step q None (appendJobEvent patterns job_id ty msg data now q)"
| step_locks: "queue_step q None (deleteOrphanRunExecutionLocks cutoff q)"
| step_reclaim: "queue_step q None (snd (reclaim_statement cutoff now q))"

inductive queue_run :: "queue \<Rightarrow> job list \<Rightarrow> queue \<Rightarrow> bool" where
  run_start: "queue_run q [] q"
| run_step: "queue_run q grants q1 \<Longrightarrow> queue_step q1 granted q2 \<Longrightarrow>
     queue_run q (grants @ (case granted of None \<Rightarrow> [] | Some j \<Rightarrow> [j])) q2"

definition empty_queue :: "run_row list \<Rightarrow> run_lock list \<Rightarrow> queue" where
  "empty_queue runs locks = \<lparr>qu_jobs = [], qu_runs = runs, qu_locks = locks, qu_events = []\<rparr>"

end
