(* ===== verification/JobInvariants.thy ===== *)
theory JobInvariants
  imports JobQueue
begin

text \<open>
  What the job queue guarantees under every interleaving of its statements: the lifecycle of a job
  row, the invariant of the table, the numbering of the grants, the order in which jobs are granted
  and the effect of reclaiming.
\<close>

section \<open>The lifecycle of a row\<close>

text \<open>
  The changes a single job row may undergo, as an abstract automaton over its status, its owner and
  its number of attempts.
\<close>

record job_view =
  jv_status :: job_status
  jv_owner :: "string option"
  jv_attempts :: nat
  jv_max :: nat

definition view_of :: "job \<Rightarrow> job_view" where
  "view_of j = \<lparr>jv_status = jb_status j, jv_owner = jb_claimed_by j, jv_attempts = jb_attempts j,
                jv_max = jb_max_attempts j\<rparr>"

lemma view_of_simps [simp]:
  "jv_status (view_of j) = jb_status j" "jv_owner (view_of j) = jb_claimed_by j"
  "jv_attempts (view_of j) = jb_attempts j" "jv_max (view_of j) = jb_max_attempts j"
  by (simp_all add: view_of_def)

inductive lifecycle :: "job_view \<Rightarrow> job_view \<Rightarrow> bool" where
  lc_claim: "jv_status v = Pending \<Longrightarrow> jv_attempts v < jv_max v \<Longrightarrow>
     lifecycle v (v\<lparr>jv_status := Claimed, jv_owner := Some w, jv_attempts := jv_attempts v + 1\<rparr>)"
| lc_start: "jv_status v = Claimed \<Longrightarrow> lifecycle v (v\<lparr>jv_status := Running\<rparr>)"
| lc_complete: "is_active (jv_status v) \<Longrightarrow> lifecycle v (v\<lparr>jv_status := Completed\<rparr>)"
| lc_retry: "is_active (jv_status v) \<Longrightarrow> jv_attempts v < jv_max v \<Longrightarrow>
     lifecycle v (v\<lparr>jv_status := Pending, jv_owner := None\<rparr>)"
| lc_fail: "is_active (jv_status v) \<Longrightarrow> jv_max v \<le> jv_attempts v \<Longrightarrow> w \<in> {jv_owner v, None} \<Longrightarrow>
     lifecycle v (v\<lparr>jv_status := Failed, jv_owner := w\<rparr>)"
| lc_cancel: "\<not> is_terminal (jv_status v) \<Longrightarrow> lifecycle v (v\<lparr>jv_status := Cancelled\<rparr>)"

section \<open>The row updates\<close>

text \<open>The update each statement makes to a row it selects, with the row's part of its condition.\<close>

inductive row_change :: "job \<Rightarrow> job \<Rightarrow> bool" where
  rc_none: "row_change j j"
| rc_claim: "claimable types now j \<Longrightarrow> row_change j (mark_claimed worker now j)"
| rc_start: "jb_status j = Claimed \<Longrightarrow>
     row_change j (j\<lparr>jb_status := Running, jb_started_at := Some now, jb_heartbeat_at := Some now,
                     jb_updated_at := now\<rparr>)"
| rc_complete: "is_active (jb_status j) \<Longrightarrow> evidence_clean r \<Longrightarrow>
     row_change j (j\<lparr>jb_status := Completed, jb_result := Some r, jb_completed_at := Some now,
                     jb_heartbeat_at := None, jb_updated_at := now\<rparr>)"
| rc_fail: "is_active (jb_status j) \<Longrightarrow> row_change j (mark_failed patterns error now j)"
| rc_cancel: "jb_status j = Pending \<or> is_active (jb_status j) \<Longrightarrow>
     row_change j (j\<lparr>jb_status := Cancelled, jb_heartbeat_at := None, jb_completed_at := Some now,
                     jb_updated_at := now\<rparr>)"
| rc_heartbeat: "is_active (jb_status j) \<Longrightarrow>
     row_change j (j\<lparr>jb_heartbeat_at := Some now, jb_updated_at := now\<rparr>)"
| rc_retry: "retryable cutoff j \<Longrightarrow> row_change j (mark_retryable now j)"
| rc_exhaust: "exhausted cutoff j \<Longrightarrow> row_change j (mark_exhausted now j)"

inductive_cases row_changeE: "row_change j j'"

lemmas row_marks = mark_claimed_def mark_failed_def mark_retryable_def mark_exhausted_def Let_def

lemmas row_conditions =
  claimable_def retryable_def exhausted_def stuck_def is_active_def is_terminal_def

lemma row_change_id: "row_change j j' \<Longrightarrow> jb_id j' = jb_id j"
  by (erule row_changeE) (simp_all add: row_marks)

lemma row_change_lifecycle: "row_change j j' \<Longrightarrow> view_of j' = view_of j \<or> lifecycle (view_of j) (view_of j')"
proof (erule row_changeE)
  fix types now worker
  assume "claimable types now j" and j': "j' = mark_claimed worker now j"
  then have "jv_status (view_of j) = Pending" "jv_attempts (view_of j) < jv_max (view_of j)"
    by (auto simp: claimable_def)
  from lc_claim [OF this, of worker] show ?thesis by (simp add: j' view_of_def row_marks)
next
  fix now assume "jb_status j = Claimed"
    and j': "j' = j\<lparr>jb_status := Running, jb_started_at := Some now, jb_heartbeat_at := Some now,
                     jb_updated_at := now\<rparr>"
  with lc_start [of "view_of j"] show ?thesis by (simp add: view_of_def)
next
  fix now r assume "is_active (jb_status j)"
    and j': "j' = j\<lparr>jb_status := Completed, jb_result := Some r, jb_completed_at := Some now,
                     jb_heartbeat_at := None, jb_updated_at := now\<rparr>"
  with lc_complete [of "view_of j"] show ?thesis by (simp add: view_of_def)
next
  fix patterns error now
  assume "is_active (jb_status j)" and "j' = mark_failed patterns error now j"
  with lc_retry [of "view_of j"] lc_fail [of "view_of j" "jb_claimed_by j"] show ?thesis
    by (cases "jb_attempts j < jb_max_attempts j") (simp_all add: view_of_def row_marks)
next
  fix now assume "jb_status j = Pending \<or> is_active (jb_status j)"
    and j': "j' = j\<lparr>jb_status := Cancelled, jb_heartbeat_at := None, jb_completed_at := Some now,
                     jb_updated_at := now\<rparr>"
  then have "\<not> is_terminal (jv_status (view_of j))" by (auto simp: row_conditions)
  from lc_cancel [OF this] j' show ?thesis by (simp add: view_of_def)
next
  fix cutoff now assume "retryable cutoff j" and "j' = mark_retryable now j"
  with lc_retry [of "view_of j"] show ?thesis
    by (simp add: view_of_def row_marks retryable_def stuck_def)
next
  fix cutoff now assume "exhausted cutoff j" and "j' = mark_exhausted now j"
  with lc_fail [of "view_of j" None] show ?thesis
    by (simp add: view_of_def row_marks exhausted_def stuck_def)
qed (simp_all add: view_of_def)

section \<open>The invariant of a row\<close>

text \<open>
  A pending job is free and untimed; an active job is owned, has used an attempt and has no outcome;
  a running job has a start time; a finished job has its end time and the outcome of its status, and
  a failed one has used every attempt. Texts that came from requests or handlers are redacted.
\<close>

definition job_ok :: "job \<Rightarrow> bool" where
  "job_ok j \<longleftrightarrow>
     jb_attempts j \<le> jb_max_attempts j \<and>
     (jb_status j = Pending \<longrightarrow>
        jb_claimed_by j = None \<and> jb_claimed_at j = None \<and> jb_started_at j = None) \<and>
     (is_active (jb_status j) \<longrightarrow>
        jb_claimed_by j \<noteq> None \<and> jb_claimed_at j \<noteq> None \<and> 0 < jb_attempts j) \<and>
     (jb_status j = Running \<longrightarrow> jb_started_at j \<noteq> None) \<and>
     (jb_completed_at j \<noteq> None \<longleftrightarrow> is_terminal (jb_status j)) \<and>
     (\<not> is_active (jb_status j) \<longrightarrow> jb_heartbeat_at j = None) \<and>
     (jb_result j \<noteq> None \<longleftrightarrow> jb_status j = Completed) \<and>
     (jb_status j = Failed \<longrightarrow> jb_error j \<noteq> None \<and> jb_attempts j = jb_max_attempts j) \<and>
     evidence_clean (jb_payload j) \<and> (\<forall>r. jb_result j = Some r \<longrightarrow> evidence_clean r)"

lemma row_change_ok: "row_change j j' \<Longrightarrow> job_ok j \<Longrightarrow> job_ok j'"
  by (erule row_changeE; simp add: row_marks; (cases "jb_status j")?)
    (auto simp: job_ok_def row_conditions split: if_splits)

lemma row_change_terminal: "row_change j j' \<Longrightarrow> is_terminal (jb_status j) \<Longrightarrow> j' = j"
  by (erule row_changeE) (auto simp: row_conditions)

lemma row_change_attempts: "row_change j j' \<Longrightarrow> jb_attempts j \<le> jb_attempts j' \<and> jb_max_attempts j' = jb_max_attempts j"
  by (erule row_changeE) (simp_all add: row_marks)

section \<open>Every statement updates rows by row changes\<close>

definition queue_ok :: "queue \<Rightarrow> bool" where
  "queue_ok q \<longleftrightarrow>
     distinct (map jb_id (qu_jobs q)) \<and> (\<forall>j \<in> set (qu_jobs q). job_ok j) \<and>
     (\<forall>e \<in> set (qu_events q). evidence_clean (ev_data e))"

lemma same_id_same_row:
  "distinct (map jb_id js) \<Longrightarrow> j \<in> set js \<Longrightarrow> c \<in> set js \<Longrightarrow> jb_id j = jb_id c \<Longrightarrow> j = c"
  by (metis distinct_map inj_onD)

text \<open>The rows after a step: one new pending row, or a row change on every row.\<close>

definition rows_change :: "job list \<Rightarrow> job list \<Rightarrow> bool" where
  "rows_change js js' \<longleftrightarrow> (\<exists>h. js' = map h js \<and> (\<forall>j \<in> set js. row_change j (h j)))"

lemma rows_change_refl [simp]: "rows_change js js"
  unfolding rows_change_def by (intro exI [of _ "\<lambda>j. j"]) (simp add: rc_none)

lemma rows_change_update:
  "(\<And>j. j \<in> set js \<Longrightarrow> P j \<Longrightarrow> row_change j (f j)) \<Longrightarrow> rows_change js (sql_update P f js)"
  unfolding rows_change_def sql_update_def
  by (intro exI [of _ "\<lambda>j. if P j then f j else j"]) (simp add: rc_none)

lemma claim_rows_change:
  assumes "distinct (map jb_id (qu_jobs q))"
  shows "rows_change (qu_jobs q) (qu_jobs (snd (claimNext locked worker types now q)))"
proof (cases "claim_candidate locked types now q")
  case (Some c)
  then have c: "c \<in> set (qu_jobs q)" "claimable types now c"
    using claim_candidate_SomeD by blast+
  then have "row_change j (mark_claimed worker now j)"
    if "j \<in> set (qu_jobs q)" and "jb_id j = jb_id c" for j
    using that assms same_id_same_row rc_claim by metis
  with Some show ?thesis by (simp add: claimNext_def rows_change_update)
qed (simp add: claimNext_def)

lemma orphan_locks_jobs [simp]:
  "qu_jobs (deleteOrphanRunExecutionLocks cutoff q) = qu_jobs q"
  "qu_runs (deleteOrphanRunExecutionLocks cutoff q) = qu_runs q"
  "qu_events (deleteOrphanRunExecutionLocks cutoff q) = qu_events q"
  by (simp_all add: deleteOrphanRunExecutionLocks_def Let_def)

lemma reclaim_rows_change:
  "rows_change (qu_jobs q) (qu_jobs (snd (reclaim_statement cutoff now q)))"
proof -
  let ?h = "\<lambda>j. if retryable cutoff j then mark_retryable now j
                else if exhausted cutoff j then mark_exhausted now j else j"
  have "qu_jobs (snd (reclaim_statement cutoff now q)) = map ?h (qu_jobs q)"
    by (simp add: reclaim_statement_def Let_def)
  moreover have "row_change j (?h j)" for j by (simp add: rc_none rc_retry rc_exhaust)
  ultimately show ?thesis unfolding rows_change_def by blast
qed

lemma queue_step_rows:
  assumes "queue_step q granted q'" and "distinct (map jb_id (qu_jobs q))"
  shows "rows_change (qu_jobs q) (qu_jobs q') \<or>
    (\<exists>j. qu_jobs q' = qu_jobs q @ [j] \<and> jb_id j \<notin> jb_id ` set (qu_jobs q) \<and>
         jb_status j = Pending \<and> jb_attempts j = 0 \<and> job_ok j)"
  using assms
proof (cases rule: queue_step.cases)
  case (step_enqueue new_id patterns input now)
  let ?q' = "enqueue patterns new_id input now q"
  let ?j = "last (qu_jobs ?q')"
  have "qu_jobs ?q' = qu_jobs q @ [?j]" "jb_id ?j = new_id" "jb_status ?j = Pending"
    "jb_attempts ?j = 0"
    by (simp_all add: enqueue_def)
  moreover have "job_ok ?j"
    by (simp add: enqueue_def job_ok_def row_conditions sanitizeEvidenceJson_clean)
  ultimately show ?thesis using step_enqueue by metis
next
  case (step_claim locked worker types now)
  with claim_rows_change [OF assms(2), of locked worker types now] show ?thesis by simp
next
  case (step_start job_id worker now)
  then show ?thesis
    by (auto simp: startJob_def update_jobs_def intro!: rows_change_update rc_start)
next
  case (step_complete patterns job_id result worker now)
  then show ?thesis
    by (auto simp: completeJob_def update_jobs_def sanitizeEvidenceJson_clean
        intro!: rows_change_update rc_complete)
next
  case (step_fail patterns job_id error worker now)
  then show ?thesis
    by (auto simp: failJob_def failable_def intro!: rows_change_update rc_fail)
next
  case (step_cancel job_id worker now)
  then show ?thesis
    by (auto simp: cancelJob_def Let_def cancellable_def intro!: rows_change_update rc_cancel)
next
  case (step_heartbeat job_id worker now)
  then show ?thesis
    by (auto simp: touchHeartbeat_def update_jobs_def intro!: rows_change_update rc_heartbeat)
next
  case step_event
  then show ?thesis by (simp add: appendJobEvent_def)
next
  case (step_locks cutoff)
  then show ?thesis by simp
next
  case (step_reclaim cutoff now)
  then show ?thesis by (simp add: reclaim_rows_change)
qed

section \<open>Steps and runs\<close>

lemma rows_change_ids: "rows_change js js' \<Longrightarrow> map jb_id js' = map jb_id js"
  by (auto simp: rows_change_def row_change_id)

lemma queue_step_events:
  "queue_step q granted q' \<Longrightarrow>
     \<forall>e \<in> set (qu_events q). evidence_clean (ev_data e) \<Longrightarrow>
     \<forall>e \<in> set (qu_events q'). evidence_clean (ev_data e)"
  by (erule queue_step.cases)
    (auto simp: job_defs failJob_def claimNext_def appendJobEvent_def sanitizeEvidenceJson_clean
      split: option.splits)

lemma queue_step_ok:
  assumes "queue_step q granted q'" and "queue_ok q"
  shows "queue_ok q'"
proof -
  have d: "distinct (map jb_id (qu_jobs q))" and ok: "\<forall>j \<in> set (qu_jobs q). job_ok j"
    using assms(2) by (simp_all add: queue_ok_def)
  have ev: "\<forall>e \<in> set (qu_events q'). evidence_clean (ev_data e)"
    using queue_step_events [OF assms(1)] assms(2) by (simp add: queue_ok_def)
  from queue_step_rows [OF assms(1) d] show ?thesis
  proof
    assume r: "rows_change (qu_jobs q) (qu_jobs q')"
    then have "\<forall>j \<in> set (qu_jobs q'). job_ok j"
      using ok by (fastforce simp: rows_change_def intro: row_change_ok)
    with d ev rows_change_ids [OF r] show ?thesis by (simp add: queue_ok_def)
  qed (use d ok ev in \<open>auto simp: queue_ok_def\<close>)
qed

lemma queue_run_ok: "queue_run q0 grants q \<Longrightarrow> queue_ok q0 \<Longrightarrow> queue_ok q"
  by (induction rule: queue_run.induct) (auto intro: queue_step_ok)

lemma empty_queue_ok [simp]: "queue_ok (empty_queue runs locks)"
  by (simp add: queue_ok_def empty_queue_def)

lemma queue_ok_distinct: "queue_ok q \<Longrightarrow> distinct (map jb_id (qu_jobs q))"
  by (simp add: queue_ok_def)

text \<open>Every row of the table has one successor after a step.\<close>

lemma queue_step_row:
  assumes "queue_step q granted q'" and "queue_ok q" and "j \<in> set (qu_jobs q)"
  obtains j' where "j' \<in> set (qu_jobs q')" and "row_change j j'"
  using queue_step_rows [OF assms(1) queue_ok_distinct [OF assms(2)]]
proof
  assume "rows_change (qu_jobs q) (qu_jobs q')"
  then obtain h where "qu_jobs q' = map h (qu_jobs q)" and "\<forall>j \<in> set (qu_jobs q). row_change j (h j)"
    by (auto simp: rows_change_def)
  with assms(3) show ?thesis by (intro that [of "h j"]) auto
next
  assume "\<exists>x. qu_jobs q' = qu_jobs q @ [x] \<and> jb_id x \<notin> jb_id ` set (qu_jobs q) \<and>
    jb_status x = Pending \<and> jb_attempts x = 0 \<and> job_ok x"
  with assms(3) show ?thesis by (auto intro: that [of j] rc_none)
qed

lemma queue_run_row:
  assumes "queue_run q grants q'" and "queue_ok q" and "j \<in> set (qu_jobs q)"
  shows "\<exists>j' \<in> set (qu_jobs q'). jb_id j' = jb_id j \<and> lifecycle\<^sup>*\<^sup>* (view_of j) (view_of j') \<and>
           (is_terminal (jb_status j) \<longrightarrow> j' = j)"
  using assms
proof (induction rule: queue_run.induct)
  case (run_step q grants q1 granted q2)
  then obtain j1 where j1: "j1 \<in> set (qu_jobs q1)" "jb_id j1 = jb_id j"
    "lifecycle\<^sup>*\<^sup>* (view_of j) (view_of j1)" "is_terminal (jb_status j) \<longrightarrow> j1 = j"
    by blast
  from queue_step_row [OF run_step.hyps(2) queue_run_ok [OF run_step.hyps(1) run_step.prems(1)] j1(1)]
  obtain j2 where j2: "j2 \<in> set (qu_jobs q2)" "row_change j1 j2" .
  have "lifecycle\<^sup>*\<^sup>* (view_of j) (view_of j2)"
    using row_change_lifecycle [OF j2(2)] j1(3) by (metis rtranclp.rtrancl_into_rtrancl)
  moreover have "is_terminal (jb_status j) \<longrightarrow> j2 = j"
    using row_change_terminal j2(2) j1(4) by metis
  ultimately show ?case using j2 j1(2) row_change_id by metis
qed auto

section \<open>Grants\<close>

definition grants_of :: "string \<Rightarrow> job list \<Rightarrow> nat list" where
  "grants_of job_id grants = map jb_attempts (filter (\<lambda>g. jb_id g = job_id) grants)"

lemma claimNext_grants:
  "claimNext locked worker types now q = (Some g, q') \<Longrightarrow>
     \<exists>c. claim_candidate locked types now q = Some c \<and> g = mark_claimed worker now c \<and>
         qu_jobs q' = sql_update (\<lambda>j. jb_id j = jb_id c) (mark_claimed worker now) (qu_jobs q)"
  by (auto simp: claimNext_def split: option.splits)

text \<open>A step that grants nothing keeps every attempt count; a grant raises that of its job by one.\<close>

definition attempts_kept :: "job list \<Rightarrow> job list \<Rightarrow> bool" where
  "attempts_kept js js' \<longleftrightarrow>
     jb_id ` set js \<subseteq> jb_id ` set js' \<and>
     (\<forall>j' \<in> set js'. (\<exists>j \<in> set js. jb_id j = jb_id j' \<and> jb_attempts j = jb_attempts j') \<or>
        jb_attempts j' = 0 \<and> jb_id j' \<notin> jb_id ` set js)"

lemma attempts_kept_refl [simp]: "attempts_kept js js"
  by (auto simp: attempts_kept_def)

lemma update_attempts_kept:
  "(\<And>j. jb_id (h j) = jb_id j \<and> jb_attempts (h j) = jb_attempts j) \<Longrightarrow> attempts_kept js (map h js)"
  unfolding attempts_kept_def by (auto simp: image_image)

lemma silent_step_attempts: "queue_step q None q' \<Longrightarrow> attempts_kept (qu_jobs q) (qu_jobs q')"
proof (erule queue_step.cases, goal_cases)
  case (1 new_id q patterns input now)
  then show ?case by (auto simp: attempts_kept_def enqueue_def)
next
  case (2 locked worker types now q granted q')
  then show ?case by (auto simp: claimNext_def split: option.splits)
qed (auto simp: job_defs failJob_def appendJobEvent_def row_marks intro!: update_attempts_kept)

definition numbered :: "queue \<Rightarrow> job list \<Rightarrow> bool" where
  "numbered q grants \<longleftrightarrow>
     (\<forall>j \<in> set (qu_jobs q). grants_of (jb_id j) grants = [1..<Suc (jb_attempts j)]) \<and>
     jb_id ` set grants \<subseteq> jb_id ` set (qu_jobs q)"

lemma grants_of_fresh: "job_id \<notin> jb_id ` set grants \<Longrightarrow> grants_of job_id grants = []"
  by (force simp: grants_of_def filter_empty_conv)

lemma numbered_silent:
  assumes "attempts_kept (qu_jobs q) (qu_jobs q')" and "numbered q grants"
  shows "numbered q' grants"
proof -
  have "grants_of (jb_id j') grants = [1..<Suc (jb_attempts j')]" if j': "j' \<in> set (qu_jobs q')" for j'
    using assms(1) j' unfolding attempts_kept_def
  proof (elim conjE ballE [of _ _ j'] disjE)
    assume "\<exists>j \<in> set (qu_jobs q). jb_id j = jb_id j' \<and> jb_attempts j = jb_attempts j'"
    with assms(2) show ?thesis by (metis numbered_def)
  next
    assume "jb_attempts j' = 0" and "jb_id j' \<notin> jb_id ` set (qu_jobs q)"
    then show ?thesis using assms(2) grants_of_fresh [of "jb_id j'" grants] by (auto simp: numbered_def)
  qed simp
  moreover have "jb_id ` set grants \<subseteq> jb_id ` set (qu_jobs q')"
    using assms unfolding numbered_def attempts_kept_def by (elim conjE) (rule order_trans)
  ultimately show ?thesis by (simp add: numbered_def)
qed

lemma numbered_grant:
  assumes d: "distinct (map jb_id (qu_jobs q))"
    and claim: "claimNext locked worker types now q = (Some g, q')" and n: "numbered q grants"
  shows "numbered q' (grants @ [g])"
proof -
  from claimNext_grants [OF claim] obtain c where
    c: "claim_candidate locked types now q = Some c" and g: "g = mark_claimed worker now c" and
    q': "qu_jobs q' = sql_update (\<lambda>j. jb_id j = jb_id c) (mark_claimed worker now) (qu_jobs q)"
    by blast
  have c_in: "c \<in> set (qu_jobs q)" using claim_candidate_SomeD [OF c] by simp
  have "grants_of (jb_id j') (grants @ [g]) = [1..<Suc (jb_attempts j')]"
    if j': "j' \<in> set (qu_jobs q')" for j'
  proof -
    from j' q' obtain j where j: "j \<in> set (qu_jobs q)"
      "j' = (if jb_id j = jb_id c then mark_claimed worker now j else j)"
      by (auto simp: sql_update_def)
    show ?thesis
    proof (cases "jb_id j = jb_id c")
      case True
      then have "j = c" using same_id_same_row [OF d j(1) c_in] by simp
      with j n g show ?thesis by (simp add: numbered_def grants_of_def mark_claimed_def)
    next
      case False
      with j n g show ?thesis by (simp add: numbered_def grants_of_def mark_claimed_def)
    qed
  qed
  moreover have "map jb_id (qu_jobs q') = map jb_id (qu_jobs q)"
    by (simp add: q' sql_update_def mark_claimed_def)
  then have "jb_id ` set (qu_jobs q') = jb_id ` set (qu_jobs q)" by (metis set_map)
  moreover have "jb_id g \<in> jb_id ` set (qu_jobs q)" using c_in g by (simp add: mark_claimed_def)
  ultimately show ?thesis using n by (auto simp: numbered_def)
qed

lemma queue_run_numbered:
  "queue_run q0 grants q \<Longrightarrow> queue_ok q0 \<Longrightarrow> numbered q0 [] \<Longrightarrow> numbered q grants"
proof (induction rule: queue_run.induct)
  case (run_step q0 grants q1 granted q2)
  then have n: "numbered q1 grants" and ok: "queue_ok q1" using queue_run_ok by blast+
  show ?case
  proof (cases granted)
    case None
    with run_step.hyps(2) have "attempts_kept (qu_jobs q1) (qu_jobs q2)" by (simp add: silent_step_attempts)
    from numbered_silent [OF this n] None show ?thesis by simp
  next
    case (Some g)
    from run_step.hyps(2) obtain locked worker types now where
      "claimNext locked worker types now q1 = (Some g, q2)"
      by (cases rule: queue_step.cases) (auto simp: Some)
    from numbered_grant [OF queue_ok_distinct [OF ok] this n] Some show ?thesis by simp
  qed
qed simp

section \<open>The order of claiming\<close>

interpretation claims: comparator claim_order
  by unfold_locales (auto simp: claim_order_def split: if_splits)

definition eligible :: "string set \<Rightarrow> string list option \<Rightarrow> int \<Rightarrow> queue \<Rightarrow> job list" where
  "eligible locked types now q =
     filter (\<lambda>j. claimable types now j \<and> jb_id j \<notin> locked) (qu_jobs q)"

fun claim_times ::
  "nat \<Rightarrow> string set \<Rightarrow> string \<Rightarrow> string list option \<Rightarrow> int \<Rightarrow> queue \<Rightarrow> job list \<times> queue" where
  "claim_times 0 locked worker types now q = ([], q)"
| "claim_times (Suc n) locked worker types now q =
     (case claimNext locked worker types now q of
        (None, q1) \<Rightarrow> ([], q1)
      | (Some j, q1) \<Rightarrow>
          (case claim_times n locked worker types now q1 of (js, q2) \<Rightarrow> (j # js, q2)))"

lemma eligible_after_claim:
  assumes d: "distinct (map jb_id (qu_jobs q))" and "c \<in> set (qu_jobs q)"
  shows "eligible locked types now
           (q\<lparr>qu_jobs := sql_update (\<lambda>j. jb_id j = jb_id c) (mark_claimed worker now) (qu_jobs q)\<rparr>) =
         filter (\<lambda>j. j \<noteq> c) (eligible locked types now q)"
proof -
  have same: "jb_id j = jb_id c \<longleftrightarrow> j = c" if "j \<in> set (qu_jobs q)" for j
    using same_id_same_row [OF d that assms(2)] by blast
  have "filter (\<lambda>j. claimable types now j \<and> jb_id j \<notin> locked)
          (map (\<lambda>j. if jb_id j = jb_id c then mark_claimed worker now j else j) js) =
        filter (\<lambda>j. j \<noteq> c) (filter (\<lambda>j. claimable types now j \<and> jb_id j \<notin> locked) js)"
    if "set js \<subseteq> set (qu_jobs q)" for js
    using that same by (induction js) (auto simp: claimable_def mark_claimed_def)
  then show ?thesis by (simp add: eligible_def sql_update_def)
qed

lemma claim_times_serves:
  "distinct (map jb_id (qu_jobs q)) \<Longrightarrow>
     fst (claim_times n locked worker types now q) =
     map (mark_claimed worker now) (take n (sort_by claim_order (eligible locked types now q)))"
proof (induction n arbitrary: q)
  case (Suc n)
  show ?case
  proof (cases "sort_by claim_order (eligible locked types now q)")
    case Nil
    then show ?thesis by (simp add: claimNext_def claim_candidate_def eligible_def)
  next
    case (Cons c js)
    let ?q1 = "q\<lparr>qu_jobs := sql_update (\<lambda>j. jb_id j = jb_id c) (mark_claimed worker now) (qu_jobs q)\<rparr>"
    from Cons have cand: "claim_candidate locked types now q = Some c"
      by (simp add: claim_candidate_def eligible_def)
    then have c: "c \<in> set (qu_jobs q)" using claim_candidate_SomeD by blast
    have d1: "distinct (map jb_id (qu_jobs ?q1))"
      using Suc.prems by (simp add: sql_update_def mark_claimed_def comp_def if_distrib cong: if_cong)
    have "distinct (eligible locked types now q)"
      using Suc.prems by (simp add: eligible_def distinct_map)
    then have "distinct (c # js)" using Cons claims.distinct_sort by metis
    then have "filter (\<lambda>j. j \<noteq> c) (c # js) = js" by (auto simp: filter_id_conv)
    then have "sort_by claim_order (eligible locked types now ?q1) = js"
      by (simp only: eligible_after_claim [OF Suc.prems c] claims.sort_filter Cons)
    with Suc.IH [OF d1] Cons cand show ?thesis
      by (auto simp: claimNext_def split: prod.splits)
  qed
qed simp

section \<open>Reclaiming\<close>

lemma stuck_split: "stuck cutoff j \<longleftrightarrow> retryable cutoff j \<or> exhausted cutoff j"
  by (auto simp: retryable_def exhausted_def)

lemma reclaimed_not_active:
  "\<not> is_active (jb_status (mark_retryable now j))" "\<not> is_active (jb_status (mark_exhausted now j))"
  by (simp_all add: row_marks is_active_def)

lemma reclaimed_rows:
  "qu_jobs (snd (reclaimStuckJobs seconds now q)) =
     map (\<lambda>j. if \<not> stuck (now - seconds * 1000) j then j
              else if jb_attempts j < jb_max_attempts j then mark_retryable now j
              else mark_exhausted now j) (qu_jobs q)"
  by (auto simp: reclaimStuckJobs_def reclaim_statement_def Let_def retryable_def exhausted_def)

lemma reclaimed_none_stuck:
  "filter (stuck (now - seconds * 1000)) (qu_jobs (snd (reclaimStuckJobs seconds now q))) = []"
  by (auto simp: reclaimed_rows filter_empty_conv stuck_def reclaimed_not_active)

lemma reclaimed_count:
  "rc_reclaimed_count (fst (reclaimStuckJobs seconds now q)) =
     length (filter (stuck (now - seconds * 1000)) (qu_jobs q))"
proof -
  let ?c = "now - seconds * 1000"
  have "length (filter (retryable ?c) js) + length (filter (exhausted ?c) js) =
        length (filter (stuck ?c) js)" for js
    by (induction js) (auto simp: retryable_def exhausted_def)
  then show ?thesis by (simp add: reclaimStuckJobs_def reclaim_statement_def Let_def sql_returning_def)
qed

definition abandoned_runs :: "int \<Rightarrow> queue \<Rightarrow> string set" where
  "abandoned_runs cutoff q =
     run_ids_of (filter (\<lambda>j. exhausted cutoff j \<and> jb_job_type j = ''agent_run'' \<and>
                            has_key (record_or_empty (jb_payload j)) ''run_id'') (qu_jobs q))"

lemma ended_runs_terminal:
  "status \<in> set TERMINAL_RUN_STATES \<Longrightarrow>
     filter (\<lambda>r. rr_id r \<in> ids \<and> rr_status r \<notin> set TERMINAL_RUN_STATES)
       (end_runs ids status msg code now runs) = []"
  by (auto simp: end_runs_def sql_update_def filter_empty_conv)

lemma ended_runs_others:
  "filter (\<lambda>r. rr_id r \<notin> ids) (end_runs ids status msg code now runs) =
   filter (\<lambda>r. rr_id r \<notin> ids) runs"
  by (induction runs) (auto simp: end_runs_def sql_update_def)

lemma reclaimed_runs:
  "qu_runs (snd (reclaimStuckJobs seconds now q)) =
     end_runs (abandoned_runs (now - seconds * 1000) q) ''failed''
       ''run abandoned: backing job stuck and retry attempts exhausted'' ''run_abandoned'' now
       (qu_runs q)"
  by (simp add: reclaimStuckJobs_def reclaim_statement_def abandoned_runs_def Let_def)

lemma reclaimed_exhausted:
  "map jb_id (rc_exhausted_jobs (fst (reclaimStuckJobs seconds now q))) =
     map jb_id (filter (exhausted (now - seconds * 1000)) (qu_jobs q))"
  by (simp add: reclaimStuckJobs_def reclaim_statement_def Let_def sql_returning_def mark_exhausted_def)

lemma reclaimed_keeps:
  "set (filter (\<lambda>j. \<not> stuck (now - seconds * 1000) j) (qu_jobs q)) \<subseteq>
     set (qu_jobs (snd (reclaimStuckJobs seconds now q)))"
  by (auto simp: reclaimed_rows image_iff)

lemma queue_run_empty_ok: "queue_run (empty_queue runs locks) grants q \<Longrightarrow> queue_ok q"
  using queue_run_ok [OF _ empty_queue_ok] .

lemma claimable_eligible:
  assumes "queue_ok q" and "j \<in> set (qu_jobs q)" and "retryable (now - seconds * 1000) j"
    and "jb_scheduled_at j \<le> now" and "jb_job_type j \<in> set types"
  shows "mark_retryable now j \<in>
    set (eligible {} (Some types) now (snd (reclaimStuckJobs seconds now q)))"
proof -
  have "mark_retryable now j \<in> set (qu_jobs (snd (reclaimStuckJobs seconds now q)))"
    using assms(2,3) by (auto simp: reclaimed_rows retryable_def intro!: image_eqI [of _ _ j])
  moreover have "claimable (Some types) now (mark_retryable now j)"
    using assms(3-5) by (auto simp: claimable_def mark_retryable_def retryable_def)
  ultimately show ?thesis by (simp add: eligible_def)
qed

section \<open>A concrete history\<close>

text \<open>
  A job with two attempts is enqueued, claimed by a worker and started; then its heartbeat expires.
\<close>

definition sample_input :: enqueue_input where
  "sample_input = \<lparr>ei_job_type = ''agent_run'', ei_payload = JObj [(''run_id'', JStr ''r1'')],
     ei_space_id = ''s'', ei_user_id = None, ei_workspace_id = None, ei_agent_id = None,
     ei_priority = None, ei_max_attempts = Some 2, ei_scheduled_at = None\<rparr>"

definition sample_q1 :: queue where
  "sample_q1 = enqueue id ''j1'' sample_input 1000 (empty_queue [] [])"

definition sample_q2 :: queue where
  "sample_q2 = snd (claimNext {} ''w1'' (Some [''agent_run'']) 2000 sample_q1)"

definition sample_q3 :: queue where
  "sample_q3 = snd (startJob ''j1'' (Some ''w1'') 3000 sample_q2)"

definition sample_q4 :: queue where
  "sample_q4 = snd (completeJob id ''j1'' JNull (Some ''w1'') 4000 sample_q3)"

lemmas sample_defs = sample_q1_def sample_q2_def sample_q3_def sample_q4_def sample_input_def

definition sample_grants :: "job list" where
  "sample_grants =
     (case fst (claimNext {} ''w1'' (Some [''agent_run'']) 2000 sample_q1) of
        None \<Rightarrow> [] | Some j \<Rightarrow> [j])"

lemma sample_run: "queue_run (empty_queue [] []) sample_grants sample_q3"
proof -
  have "queue_run (empty_queue [] []) [] sample_q1"
    using run_step [OF run_start step_enqueue, of "''j1''" "empty_queue [] []" id sample_input 1000]
    by (simp add: sample_q1_def empty_queue_def)
  from run_step [OF this step_claim [OF prod.collapse [symmetric]]]
  have "queue_run (empty_queue [] []) sample_grants sample_q2"
    unfolding sample_grants_def sample_q2_def by (metis append_Nil)
  from run_step [OF this step_start, of "''j1''" "Some ''w1''" 3000] show ?thesis
    by (simp add: sample_q3_def)
qed

lemma sample_finish: "queue_run sample_q3 [] sample_q4"
  using run_step [OF run_start step_complete, of sample_q3 id "''j1''" JNull "Some ''w1''" 4000]
  by (simp add: sample_q4_def)

lemmas sample_eval =
  sample_q3_def sample_q2_def sample_q1_def sample_input_def empty_queue_def enqueue_def
  claimNext_def claim_candidate_def claimable_def sort_by_def startJob_def update_jobs_def
  sql_update_def mark_claimed_def owned_by_def or_value_def

lemma sample_job: "\<exists>j. qu_jobs sample_q3 = [j] \<and> jb_id j = ''j1'' \<and> jb_status j = Running \<and>
    jb_attempts j = 1 \<and> jb_job_type j = ''agent_run'' \<and> jb_scheduled_at j = 1000 \<and>
    retryable 100000 j"
  by (simp add: sample_eval row_conditions)

section \<open>Properties\<close>

text \<open>
  C10: whatever statements workers, requests and the scheduler interleave, from an empty table on:
  job ids stay distinct, every row satisfies the row invariant (\<^const>\<open>job_ok\<close>) and every stored
  event is redacted.
\<close>

theorem job_table_invariant:
  assumes "queue_run (empty_queue runs locks) grants q"
  shows "distinct (map jb_id (qu_jobs q)) \<and> (\<forall>j \<in> set (qu_jobs q). job_ok j) \<and>
         (\<forall>e \<in> set (qu_events q). evidence_clean (ev_data e))"
  using queue_run_empty_ok [OF assms] by (simp add: queue_ok_def)

theorem job_table_invariant_witness:
  "distinct (map jb_id (qu_jobs sample_q3)) \<and> list_all job_ok (qu_jobs sample_q3)"
  using job_table_invariant [OF sample_run] by (simp add: list_all_iff)

text \<open>
  C9: the attempts of a job are granted to workers one by one, numbered from 1 to its current
  attempt count, which never exceeds its maximum: no attempt is handed out twice and no job runs more
  often than allowed.
\<close>

theorem attempts_granted_once:
  assumes "queue_run (empty_queue runs locks) grants q" and "j \<in> set (qu_jobs q)"
  shows "grants_of (jb_id j) grants = [1..<Suc (jb_attempts j)] \<and> jb_attempts j \<le> jb_max_attempts j"
proof -
  have "numbered (empty_queue runs locks) []" by (simp add: numbered_def empty_queue_def)
  with assms have "numbered q grants" using queue_run_numbered by simp
  moreover have "job_ok j" using queue_run_empty_ok [OF assms(1)] assms(2) by (simp add: queue_ok_def)
  ultimately show ?thesis using assms(2) by (simp add: numbered_def job_ok_def)
qed

theorem attempts_granted_once_witness: "grants_of ''j1'' sample_grants = [1..<Suc 1]"
  using sample_job attempts_granted_once [OF sample_run] by fastforce

text \<open>
  C11: between any two reachable tables a job row only follows the lifecycle automaton, it is never
  deleted, and a finished row is never touched again.
\<close>

theorem rows_follow_lifecycle:
  assumes "queue_run (empty_queue runs locks) grants0 q" and "queue_run q grants q'"
    and "j \<in> set (qu_jobs q)"
  shows "\<exists>j' \<in> set (qu_jobs q'). jb_id j' = jb_id j \<and> lifecycle\<^sup>*\<^sup>* (view_of j) (view_of j') \<and>
           (is_terminal (jb_status j) \<longrightarrow> j' = j)"
  by (rule queue_run_row [OF assms(2) queue_run_empty_ok [OF assms(1)] assms(3)])

theorem rows_follow_lifecycle_witness:
  "\<exists>j \<in> set (qu_jobs sample_q3). \<exists>j' \<in> set (qu_jobs sample_q4).
     lifecycle\<^sup>*\<^sup>* (view_of j) (view_of j')"
  using sample_job rows_follow_lifecycle [OF sample_run sample_finish] by fastforce

text \<open>
  Repeated claims grant the eligible jobs that no transaction has locked, each once, in the
  order of priority and then schedule time, until none is left.
\<close>

theorem claims_in_priority_order:
  assumes "distinct (map jb_id (qu_jobs q))"
  shows "\<exists>order. mset order = mset (eligible locked types now q) \<and>
           sorted_wrt (\<lambda>a b. claim_order a b \<le> 0) order \<and>
           fst (claim_times n locked worker types now q) =
             map (mark_claimed worker now) (take n order)"
  using claim_times_serves [OF assms] claims.sorted_sort claims.mset_sort by blast

theorem claims_in_priority_order_witness:
  "\<exists>order. mset order = mset (eligible {} None 5000 sample_q1) \<and>
     fst (claim_times 2 {} ''w'' None 5000 sample_q1) = map (mark_claimed ''w'' 5000) (take 2 order)"
  using claims_in_priority_order [of sample_q1 "{}" None 5000 2 "''w''"]
  by (auto simp: sample_q1_def enqueue_def empty_queue_def)

text \<open>
  Reclaiming deals with every stuck job at once: none is stuck afterwards, the count it returns
  is their number, the exhausted jobs are those it reports, the unfinished runs of the exhausted
  agent runs are ended, and all other runs stay as they were.
\<close>

theorem reclaim_complete:
  "let cutoff = now - seconds * 1000;
       (r, q') = reclaimStuckJobs seconds now q
   in filter (stuck cutoff) (qu_jobs q') = [] \<and>
      rc_reclaimed_count r = length (filter (stuck cutoff) (qu_jobs q)) \<and>
      map jb_id (rc_exhausted_jobs r) = map jb_id (filter (exhausted cutoff) (qu_jobs q)) \<and>
      set (filter (\<lambda>j. \<not> stuck cutoff j) (qu_jobs q)) \<subseteq> set (qu_jobs q') \<and>
      filter (\<lambda>x. rr_id x \<in> abandoned_runs cutoff q \<and> rr_status x \<notin> set TERMINAL_RUN_STATES)
        (qu_runs q') = [] \<and>
      filter (\<lambda>x. rr_id x \<notin> abandoned_runs cutoff q) (qu_runs q') =
        filter (\<lambda>x. rr_id x \<notin> abandoned_runs cutoff q) (qu_runs q)"
  unfolding Let_def case_prod_beta reclaimed_runs
  by (intro conjI reclaimed_none_stuck reclaimed_count reclaimed_exhausted reclaimed_keeps
      ended_runs_terminal ended_runs_others) (simp_all add: TERMINAL_RUN_STATES_def)

text \<open>
  C13: a job whose worker died is not lost: once its heartbeat is older than the limit and attempts
  remain, reclaiming and claiming hand it to a worker again.
\<close>

theorem crashed_job_recovers:
  assumes "queue_ok q" and "j \<in> set (qu_jobs q)" and "retryable (now - seconds * 1000) j"
    and "jb_scheduled_at j \<le> now" and "jb_job_type j \<in> set types"
  shows "\<exists>n. jb_id j \<in> jb_id ` set (fst (claim_times n {} worker (Some types) now
                                  (snd (reclaimStuckJobs seconds now q))))"
proof -
  let ?q = "snd (reclaimStuckJobs seconds now q)"
  let ?el = "eligible {} (Some types) now ?q"
  have d: "distinct (map jb_id (qu_jobs ?q))"
    by (simp add: reclaimStuckJobs_def Let_def queue_ok_distinct
        queue_step_ok [OF step_reclaim queue_step_ok [OF step_locks assms(1)]])
  have "set (fst (claim_times (length ?el) {} worker (Some types) now ?q)) =
        mark_claimed worker now ` set ?el"
    by (simp add: claim_times_serves [OF d])
  moreover have "jb_id j = jb_id (mark_claimed worker now (mark_retryable now j))"
    by (simp add: row_marks)
  ultimately show ?thesis using claimable_eligible [OF assms] by blast
qed

theorem crashed_job_recovers_witness:
  "\<exists>n. ''j1'' \<in> jb_id ` set (fst (claim_times n {} ''w2'' (Some [''agent_run'']) 700000
                           (snd (reclaimStuckJobs 600 700000 sample_q3))))"
proof -
  obtain j where j: "qu_jobs sample_q3 = [j]" "jb_id j = ''j1''" "jb_job_type j = ''agent_run''"
    "jb_scheduled_at j = 1000" "retryable 100000 j"
    using sample_job by blast
  from crashed_job_recovers [OF queue_run_empty_ok [OF sample_run], of j 700000 600] j
  show ?thesis by simp
qed

end
