(* ===== verification/AsyncIo.thy ===== *)
theory AsyncIo
  imports Main
begin

text \<open>
  Asynchronous functions as state transformers: an \<open>async\<close> function reads and writes the state it runs
  on, and resolves to a value or rejects with an error. What other processes do between two awaited
  calls is part of the effect of those calls.
\<close>

section \<open>Asynchronous functions\<close>

datatype js_error = ErrorObject string | ThrownString string | ThrownOther

type_synonym ('e, 's, 'a) async = "'s \<Rightarrow> ('e + 'a) \<times> 's"

type_synonym ('s, 'a) io = "(js_error, 's, 'a) async"

definition io_return :: "'a \<Rightarrow> ('e, 's, 'a) async" where
  "io_return x s = (Inr x, s)"

definition io_bind :: "('e, 's, 'a) async \<Rightarrow> ('a \<Rightarrow> ('e, 's, 'b) async) \<Rightarrow> ('e, 's, 'b) async" where
  "io_bind m f s = (case m s of (Inl e, s1) \<Rightarrow> (Inl e, s1) | (Inr x, s1) \<Rightarrow> f x s1)"

definition io_catch :: "('e, 's, 'a) async \<Rightarrow> ('e \<Rightarrow> ('e, 's, 'a) async) \<Rightarrow> ('e, 's, 'a) async" where
  "io_catch m h s = (case m s of (Inl e, s1) \<Rightarrow> h e s1 | (Inr x, s1) \<Rightarrow> (Inr x, s1))"

definition io_throw :: "'e \<Rightarrow> ('e, 's, 'a) async" where
  "io_throw e s = (Inl e, s)"

text \<open>A promise that fails with an error of its own kind, awaited in code with other errors.\<close>

definition io_lift :: "('e \<Rightarrow> 'f) \<Rightarrow> ('e, 's, 'a) async \<Rightarrow> ('f, 's, 'a) async" where
  "io_lift inject m s = (case m s of (Inl e, s1) \<Rightarrow> (Inl (inject e), s1) | (Inr x, s1) \<Rightarrow> (Inr x, s1))"

text \<open>\<open>try { await m } catch { }\<close>.\<close>

definition io_ignore :: "('e, 's, 'a) async \<Rightarrow> ('e, 's, unit) async" where
  "io_ignore m s = (Inr (), snd (m s))"

fun io_each :: "('a \<Rightarrow> ('e, 's, unit) async) \<Rightarrow> 'a list \<Rightarrow> ('e, 's, unit) async" where
  "io_each f [] = io_return ()"
| "io_each f (x # xs) = io_bind (f x) (\<lambda>_. io_each f xs)"

lemma io_simps [simp]:
  "io_return x s = (Inr x, s)"
  "io_throw e s = (Inl e, s)"
  "m s = (Inl e, s1) \<Longrightarrow> io_bind m f s = (Inl e, s1)"
  "m s = (Inr y, s1) \<Longrightarrow> io_bind m f s = f y s1"
  "m s = (Inl e, s1) \<Longrightarrow> io_catch m h s = h e s1"
  "m s = (Inr y, s1) \<Longrightarrow> io_catch m h s = (Inr y, s1)"
  by (simp_all add: io_return_def io_throw_def io_bind_def io_catch_def)

lemma io_bind_cases:
  assumes "io_bind m f s = (r, s')"
  obtains (rejected) e where "m s = (Inl e, s')" and "r = Inl e"
    | (resolved) x s1 where "m s = (Inr x, s1)" and "f x s1 = (r, s')"
  using assms by (auto simp: io_bind_def split: prod.splits sum.splits)

lemma io_catch_cases:
  assumes "io_catch m h s = (r, s')"
  obtains (caught) e s1 where "m s = (Inl e, s1)" and "h e s1 = (r, s')"
    | (passed) x where "m s = (Inr x, s')" and "r = Inr x"
  using assms by (auto simp: io_catch_def split: prod.splits sum.splits)

end
