(* ===== verification/JobWorker.thy ===== *)
theory JobWorker
  imports JobQueue AsyncIo
begin

text \<open>
  The job worker: \<open>jobs/handlerRegistry.ts\<close>, \<open>jobs/queuePort.ts\<close> and \<open>jobs/worker.ts\<close>. An
  asynchronous function is a state transformer that may reject. The handler a job type is bound to is
  any such transformer: what other processes, requests and the heartbeat timer do to the tables while
  the handler runs is part of its effect. The repository of \<open>JobQueue\<close> implements the port.
\<close>

section \<open>Handlers\<close>

record envelope =
  en_job_id :: string
  en_space_id :: string
  en_user_id :: "string option"
  en_job_type :: string
  en_attempts :: nat
  en_max_attempts :: nat
  en_worker_id :: string
  en_payload :: jsval

type_synonym 's handler = "envelope \<Rightarrow> ('s, jsval) io"

datatype registry_error = EmptyJobType | DuplicateJobHandlerError string | UnknownJobTypeError string

text \<open>A \<open>Map\<close> keeps its keys in insertion order.\<close>

definition register :: "string \<Rightarrow> 's handler \<Rightarrow> (string \<times> 's handler) list \<Rightarrow>
    registry_error + (string \<times> 's handler) list" where
  "register jobType handler handlers =
     (if jobType = [] then Inl EmptyJobType
      else if map_of handlers jobType \<noteq> None then Inl (DuplicateJobHandlerError jobType)
      else Inr (handlers @ [(jobType, handler)]))"

definition get_handler :: "(string \<times> 's handler) list \<Rightarrow> string \<Rightarrow> 's handler option" where
  "get_handler handlers jobType = map_of handlers jobType"

definition registeredJobTypes :: "(string \<times> 's handler) list \<Rightarrow> string list" where
  "registeredJobTypes handlers = sort (map fst handlers)"

definition dispatch ::
  "(string \<times> 's handler) list \<Rightarrow> envelope \<Rightarrow> registry_error + ('s, jsval) io" where
  "dispatch handlers job =
     (case map_of handlers (en_job_type job) of
        None \<Rightarrow> Inl (UnknownJobTypeError (en_job_type job))
      | Some handler \<Rightarrow> Inr (handler job))"

lemma register_laws:
  "(case register ty h hs of
      Inl e \<Rightarrow> (ty = [] \<and> e = EmptyJobType) \<or>
               (get_handler hs ty \<noteq> None \<and> e = DuplicateJobHandlerError ty)
    | Inr hs' \<Rightarrow> get_handler hs ty = None \<and>
                get_handler hs' = (get_handler hs)(ty \<mapsto> h) \<and>
                set (registeredJobTypes hs') = insert ty (set (registeredJobTypes hs)))"
  by (auto simp: register_def get_handler_def registeredJobTypes_def map_add_def fun_eq_iff
      split: option.splits)

section \<open>The queue port\<close>

record 's queue_port =
  qp_claimNext :: "string \<Rightarrow> string list option \<Rightarrow> ('s, job option) io"
  qp_startJob :: "string \<Rightarrow> string option \<Rightarrow> ('s, bool) io"
  qp_completeJob :: "string \<Rightarrow> jsval \<Rightarrow> string option \<Rightarrow> ('s, bool) io"
  qp_failJob :: "string \<Rightarrow> string \<Rightarrow> string option \<Rightarrow> ('s, job_status option) io"
  qp_cancelJob :: "string \<Rightarrow> string option \<Rightarrow> ('s, bool) io"
  qp_touchHeartbeat :: "string \<Rightarrow> string option \<Rightarrow> ('s, bool) io"
  qp_appendJobEvent :: "string \<Rightarrow> string \<Rightarrow> string \<Rightarrow> jsval \<Rightarrow> ('s, unit) io"
  qp_reclaimStuckJobs :: "int \<Rightarrow> ('s, reclaim_result) io"

record alert =
  al_kind :: string
  al_title :: string
  al_message :: string
  al_dedupeKey :: string
  al_spaceId :: string
  al_userId :: "string option"
  al_payload :: jsval

type_synonym 's alert_port = "alert \<Rightarrow> ('s, unit) io"

section \<open>The worker\<close>

datatype process_result = Idle | Done string | JobFailed string string

fun processed_job :: "process_result \<Rightarrow> string option" where
  "processed_job Idle = None"
| "processed_job (Done job_id) = Some job_id"
| "processed_job (JobFailed job_id _) = Some job_id"

fun errorMessage :: "js_error \<Rightarrow> string" where
  "errorMessage (ErrorObject message) = message"
| "errorMessage (ThrownString s) = s"
| "errorMessage ThrownOther = ''unknown job failure''"

definition toHandlerEnvelope :: "job \<Rightarrow> string \<Rightarrow> envelope" where
  "toHandlerEnvelope j workerId =
     \<lparr>en_job_id = jb_id j, en_space_id = jb_space_id j, en_user_id = jb_user_id j,
      en_job_type = jb_job_type j, en_attempts = jb_attempts j, en_max_attempts = jb_max_attempts j,
      en_worker_id = workerId, en_payload = coalesce (jb_payload j) (JObj [])\<rparr>"

definition safelyEmitOperationalAlert :: "'s alert_port option \<Rightarrow> alert \<Rightarrow> ('s, unit) io" where
  "safelyEmitOperationalAlert alerts input =
     (case alerts of None \<Rightarrow> io_return () | Some emit \<Rightarrow> io_ignore (emit input))"

definition exhausted_alert :: "job \<Rightarrow> string \<Rightarrow> alert" where
  "exhausted_alert j message =
     \<lparr>al_kind = ''job_exhausted'', al_title = ''Job failed permanently: '' @ jb_job_type j,
      al_message = ''Job '' @ jb_id j @ '' reached max_attempts ('' @
        dec_of_nat (jb_max_attempts j) @ ''): '' @ message,
      al_dedupeKey = ''job_exhausted:'' @ jb_id j, al_spaceId = jb_space_id j,
      al_userId = jb_user_id j,
      al_payload = JObj [(''job_id'', JStr (jb_id j)), (''job_type'', JStr (jb_job_type j)),
        (''attempts'', JNum (of_nat (jb_attempts j))),
        (''max_attempts'', JNum (of_nat (jb_max_attempts j)))]\<rparr>"

definition alertExhausted :: "'s alert_port option \<Rightarrow> job \<Rightarrow> string \<Rightarrow> ('s, unit) io" where
  "alertExhausted alerts j message = safelyEmitOperationalAlert alerts (exhausted_alert j message)"

definition safeAppendEvent ::
  "'s queue_port \<Rightarrow> string \<Rightarrow> string \<Rightarrow> string \<Rightarrow> jsval \<Rightarrow> ('s, unit) io" where
  "safeAppendEvent port job_id eventType message data =
     io_ignore (qp_appendJobEvent port job_id eventType message data)"

definition worker_data :: "string \<Rightarrow> job \<Rightarrow> jsval" where
  "worker_data workerId j =
     JObj [(''worker_id'', JStr workerId), (''job_type'', JStr (jb_job_type j))]"

text \<open>The failure path of the missing handler and of the \<open>catch\<close> clause.\<close>

definition give_up :: "'s queue_port \<Rightarrow> 's alert_port option \<Rightarrow> string \<Rightarrow> job \<Rightarrow> string \<Rightarrow> string \<Rightarrow>
    ('s, process_result) io" where
  "give_up port alerts workerId j message event =
     io_bind (qp_failJob port (jb_id j) message (Some workerId)) (\<lambda>status.
     io_bind (safeAppendEvent port (jb_id j) ''error'' event JUndef) (\<lambda>_.
     io_bind (if status = Some Failed then alertExhausted alerts j message else io_return ()) (\<lambda>_.
     io_return (JobFailed (jb_id j) message))))"

text \<open>An event is logged and the job is left to whoever owns it now.\<close>

definition step_aside :: "'s queue_port \<Rightarrow> string \<Rightarrow> job \<Rightarrow> string \<Rightarrow> ('s, process_result) io" where
  "step_aside port workerId j message =
     io_bind (safeAppendEvent port (jb_id j) ''warning'' message (worker_data workerId j)) (\<lambda>_.
     io_return (JobFailed (jb_id j) message))"

definition run_claimed :: "'s queue_port \<Rightarrow> string \<Rightarrow> 's handler \<Rightarrow> job \<Rightarrow> ('s, process_result) io" where
  "run_claimed port workerId handler j =
     io_bind (qp_startJob port (jb_id j) (Some workerId)) (\<lambda>started.
     if \<not> started then
       step_aside port workerId j ''Job start skipped because ownership or status changed''
     else
       io_bind (safeAppendEvent port (jb_id j) ''status_change'' ''Job started by server worker''
         (JObj [(''attempts'', JNum (of_nat (jb_attempts j))),
                (''max_attempts'', JNum (of_nat (jb_max_attempts j))),
                (''worker_id'', JStr workerId), (''job_type'', JStr (jb_job_type j))])) (\<lambda>_.
       io_bind (handler (toHandlerEnvelope j workerId)) (\<lambda>result.
       io_bind (qp_completeJob port (jb_id j) (coalesce result JNull) (Some workerId)) (\<lambda>completed.
       if \<not> completed then
         step_aside port workerId j ''Job completion skipped because ownership or status changed''
       else
         io_bind (safeAppendEvent port (jb_id j) ''status_change'' ''Job completed successfully''
           JUndef) (\<lambda>_.
         io_return (Done (jb_id j)))))))"

definition processOne :: "'s queue_port \<Rightarrow> (string \<times> 's handler) list \<Rightarrow> string \<Rightarrow> string list \<Rightarrow>
    's alert_port option \<Rightarrow> ('s, process_result) io" where
  "processOne port handlers workerId claimableJobTypes alerts =
     io_bind (qp_claimNext port workerId
       (if claimableJobTypes \<noteq> [] then Some claimableJobTypes else None)) (\<lambda>claimed.
     case claimed of
       None \<Rightarrow> io_return Idle
     | Some j \<Rightarrow>
         (case get_handler handlers (jb_job_type j) of
            None \<Rightarrow>
              (let message = ''No handler for job type: '' @ jb_job_type j
               in give_up port alerts workerId j message message)
          | Some handler \<Rightarrow>
              io_catch (run_claimed port workerId handler j) (\<lambda>error.
                give_up port alerts workerId j (errorMessage error)
                  (''Job failed: '' @ errorMessage error))))"

definition worker_reclaimStuckJobs :: "'s queue_port \<Rightarrow> 's alert_port option \<Rightarrow> int \<Rightarrow> ('s, nat) io" where
  "worker_reclaimStuckJobs port alerts stuckAfterSeconds =
     io_bind (qp_reclaimStuckJobs port stuckAfterSeconds) (\<lambda>result.
     io_bind (io_each (\<lambda>j. alertExhausted alerts j ''job stuck and retry attempts exhausted'')
       (rc_exhausted_jobs result)) (\<lambda>_.
     io_return (rc_reclaimed_count result)))"

text \<open>One tick of the timer that runs while the handler does.\<close>

definition heartbeat_tick :: "'s queue_port \<Rightarrow> string \<Rightarrow> string \<Rightarrow> ('s, unit) io" where
  "heartbeat_tick port job_id workerId = io_ignore (qp_touchHeartbeat port job_id (Some workerId))"

section \<open>What the worker needs of the port\<close>

text \<open>
  \<open>held w id s\<close>: in state \<open>s\<close> the job is active and owned by worker \<open>w\<close>. A job just claimed can be
  started; completing and failing leave the job not held by the caller, whatever they answer; events
  and alerts do not touch jobs.
\<close>

locale job_queue_port =
  fixes port :: "'s queue_port"
    and alerts :: "'s alert_port option"
    and held :: "string \<Rightarrow> string \<Rightarrow> 's \<Rightarrow> bool"
  assumes start_claimed: "qp_claimNext port w ts s = (Inr (Some j), s1) \<Longrightarrow>
      fst (qp_startJob port (jb_id j) (Some w) s1) \<noteq> Inr False"
    and complete_releases: "qp_completeJob port i x (Some w) s = (Inr b, s1) \<Longrightarrow> \<not> held w i s1"
    and fail_releases: "qp_failJob port i msg (Some w) s = (Inr st, s1) \<Longrightarrow> \<not> held w i s1"
    and event_keeps: "held w i (snd (qp_appendJobEvent port k ty msg d s)) \<Longrightarrow> held w i s"
    and alert_keeps: "alerts = Some emit \<Longrightarrow> held w i (snd (emit a s)) \<Longrightarrow> held w i s"
begin

lemma safe_event: "safeAppendEvent port k ty msg d s = (r, s1) \<Longrightarrow> held w i s1 \<Longrightarrow> held w i s"
  using event_keeps [of w i k ty msg d s] by (auto simp: safeAppendEvent_def io_ignore_def)

lemma safe_alert: "alertExhausted alerts j msg s = (r, s1) \<Longrightarrow> held w i s1 \<Longrightarrow> held w i s"
  by (auto simp: alertExhausted_def safelyEmitOperationalAlert_def io_ignore_def
      dest: alert_keeps split: option.splits)

lemma give_up_releases:
  assumes "give_up port alerts w j msg event s = (Inr r, s1)"
  shows "r = JobFailed (jb_id j) msg \<and> \<not> held w (jb_id j) s1"
  using assms unfolding give_up_def
  by (auto elim!: io_bind_cases split: if_splits dest!: fail_releases safe_event safe_alert)

lemma step_aside_keeps:
  "step_aside port w j msg s = (Inr r, s1) \<Longrightarrow>
     r = JobFailed (jb_id j) msg \<and> (held u i s1 \<longrightarrow> held u i s)"
  unfolding step_aside_def by (auto elim!: io_bind_cases dest: safe_event)

lemma completed_releases:
  assumes "io_bind (qp_completeJob port (jb_id j) x (Some w)) (\<lambda>completed.
       if \<not> completed then step_aside port w j msg
       else io_bind (safeAppendEvent port (jb_id j) ty text d) (\<lambda>_. io_return (Done (jb_id j)))) s =
     (Inr r, s1)"
  shows "processed_job r = Some (jb_id j) \<and> \<not> held w (jb_id j) s1"
  using assms
proof (cases rule: io_bind_cases)
  case (resolved b s2)
  have "\<not> held w (jb_id j) s2" using complete_releases [OF resolved(1)] .
  with resolved(2) show ?thesis
    by (auto split: if_splits elim!: io_bind_cases
        dest: safe_event step_aside_keeps [of w j msg s2 r s1 w "jb_id j"])
qed simp

lemma run_claimed_releases:
  assumes "run_claimed port w h j s = (Inr r, s1)"
    and "fst (qp_startJob port (jb_id j) (Some w) s) \<noteq> Inr False"
  shows "processed_job r = Some (jb_id j) \<and> \<not> held w (jb_id j) s1"
  using assms(1) unfolding run_claimed_def
proof (cases rule: io_bind_cases)
  case (resolved started s2)
  with assms(2) have "started" by simp
  with resolved(2) show ?thesis
    by (simp, elim io_bind_cases [of "safeAppendEvent port k ty t d" for k ty t d]
        io_bind_cases [of "h e" for e]) (auto dest: completed_releases)
qed simp

text \<open>When the worker returns, it holds nothing of the job it processed.\<close>

lemma process_releases:
  assumes "processOne port handlers w types alerts s = (Inr r, s1)" and "processed_job r = Some i"
  shows "\<not> held w i s1"
  using assms(1) unfolding processOne_def
proof (cases rule: io_bind_cases)
  case (resolved claimed s2)
  show ?thesis
  proof (cases claimed)
    case None
    with resolved assms(2) show ?thesis by auto
  next
    case (Some j)
    note start = start_claimed [OF resolved(1) [unfolded Some]]
    show ?thesis
    proof (cases "get_handler handlers (jb_job_type j)")
      case None
      with Some resolved(2) assms(2) show ?thesis
        using give_up_releases by (fastforce simp: Let_def)
    next
      case (Some h)
      with \<open>claimed = Some j\<close> resolved(2) assms(2) start show ?thesis
        by (auto elim!: io_catch_cases dest!: give_up_releases run_claimed_releases)
    qed
  qed
qed simp

text \<open>It throws only when claiming or recording the failure throws.\<close>

lemma process_throws:
  assumes "processOne port handlers w types alerts s = (Inl e, s1)"
  shows "(\<exists>ts. qp_claimNext port w ts s = (Inl e, s1)) \<or>
         (\<exists>i msg s2. qp_failJob port i msg (Some w) s2 = (Inl e, s1))"
proof -
  have *: "\<exists>i msg s2. qp_failJob port i msg (Some w) s2 = (Inl e, s1)"
    if "give_up port alerts w j msg event s2 = (Inl e, s1)" for j msg event s2
    using that unfolding give_up_def
    by (auto elim!: io_bind_cases split: if_splits option.splits
        simp: safeAppendEvent_def io_ignore_def alertExhausted_def safelyEmitOperationalAlert_def)
  show ?thesis
    using assms unfolding processOne_def
    by (elim io_bind_cases)
      (auto simp: Let_def split: option.splits elim!: io_catch_cases dest!: *)
qed

end

section \<open>The repository implements the port\<close>

text \<open>
  The tables, the alerts that were emitted, and the number of statements run so far: the \<open>k\<close>-th
  statement reads the time \<open>clock k\<close> and finds the rows \<open>locked k\<close> locked.
\<close>

record world =
  wd_queue :: queue
  wd_alerts :: "alert list"
  wd_time :: nat

definition on_queue :: "(nat \<Rightarrow> int) \<Rightarrow> (int \<Rightarrow> queue \<Rightarrow> 'a \<times> queue) \<Rightarrow> (world, 'a) io" where
  "on_queue clock f s =
     (case f (clock (wd_time s)) (wd_queue s) of
        (x, q) \<Rightarrow> (Inr x, s\<lparr>wd_queue := q, wd_time := wd_time s + 1\<rparr>))"

definition repository_port ::
  "patterns \<Rightarrow> (nat \<Rightarrow> int) \<Rightarrow> (nat \<Rightarrow> string set) \<Rightarrow> world queue_port" where
  "repository_port patterns clock locked =
     \<lparr>qp_claimNext = (\<lambda>w ts s. on_queue clock (claimNext (locked (wd_time s)) w ts) s),
      qp_startJob = (\<lambda>i w. on_queue clock (startJob i w)),
      qp_completeJob = (\<lambda>i x w. on_queue clock (completeJob patterns i x w)),
      qp_failJob = (\<lambda>i msg w. on_queue clock (failJob patterns i msg w)),
      qp_cancelJob = (\<lambda>i w. on_queue clock (cancelJob i w)),
      qp_touchHeartbeat = (\<lambda>i w. on_queue clock (touchHeartbeat i w)),
      qp_appendJobEvent = (\<lambda>i ty msg d.
        on_queue clock (\<lambda>now q. ((), appendJobEvent patterns i ty msg d now q))),
      qp_reclaimStuckJobs = (\<lambda>secs. on_queue clock (reclaimStuckJobs secs))\<rparr>"

definition record_alert :: "world alert_port" where
  "record_alert a s = (Inr (), s\<lparr>wd_alerts := wd_alerts s @ [a]\<rparr>)"

definition held_by :: "string \<Rightarrow> string \<Rightarrow> world \<Rightarrow> bool" where
  "held_by w i s \<longleftrightarrow>
     list_ex (\<lambda>j. jb_id j = i \<and> is_active (jb_status j) \<and> jb_claimed_by j = Some w)
       (qu_jobs (wd_queue s))"

lemma port_simps [simp]:
  "qp_claimNext (repository_port patterns clock locked) w ts s =
     on_queue clock (claimNext (locked (wd_time s)) w ts) s"
  "qp_startJob (repository_port patterns clock locked) i ow = on_queue clock (startJob i ow)"
  "qp_completeJob (repository_port patterns clock locked) i x ow =
     on_queue clock (completeJob patterns i x ow)"
  "qp_failJob (repository_port patterns clock locked) i msg ow =
     on_queue clock (failJob patterns i msg ow)"
  "qp_appendJobEvent (repository_port patterns clock locked) i ty msg d =
     on_queue clock (\<lambda>now q. ((), appendJobEvent patterns i ty msg d now q))"
  "qp_reclaimStuckJobs (repository_port patterns clock locked) secs =
     on_queue clock (reclaimStuckJobs secs)"
  by (simp_all add: repository_port_def)

lemma claim_then_start:
  assumes "claimNext locked w ts now q = (Some j, q1)"
  shows "fst (startJob (jb_id j) (Some w) now' q1)"
proof -
  from assms obtain c where c: "claim_candidate locked ts now q = Some c"
    and j: "j = mark_claimed w now c"
    and q1: "qu_jobs q1 = sql_update (\<lambda>j. jb_id j = jb_id c) (mark_claimed w now) (qu_jobs q)"
    by (auto simp: claimNext_def split: option.splits)
  from claim_candidate_SomeD [OF c] have "c \<in> set (qu_jobs q)" by simp
  then have "j \<in> set (qu_jobs q1)" by (auto simp: q1 j sql_update_def)
  then show ?thesis
    unfolding startJob_def update_jobs_def sql_returning_def fst_conv map_is_Nil_conv
      filter_empty_conv not_not
    by (intro notI, elim ballE [of _ _ j]) (simp_all add: owned_by_def j mark_claimed_def)
qed

lemma none_held:
  "(\<And>j. jb_id (f j) = i \<Longrightarrow> is_active (jb_status (f j)) \<Longrightarrow> jb_claimed_by (f j) \<noteq> Some w) \<Longrightarrow>
     \<not> held_by w i (s\<lparr>wd_queue := q\<lparr>qu_jobs := map f js\<rparr>, wd_time := t\<rparr>)"
  by (auto simp: held_by_def list_ex_iff)

lemma complete_not_held:
  "completeJob patterns i x (Some w) now q = (b, q') \<Longrightarrow>
     \<not> held_by w i (s\<lparr>wd_queue := q', wd_time := t\<rparr>)"
  unfolding completeJob_def update_jobs_def sql_update_def prod.inject
  by (elim conjE, hypsubst, rule none_held) (auto simp: owned_by_def is_active_def split: if_splits)

lemma fail_not_held:
  "failJob patterns i msg (Some w) now q = (st, q') \<Longrightarrow>
     \<not> held_by w i (s\<lparr>wd_queue := q', wd_time := t\<rparr>)"
  unfolding failJob_def sql_update_def prod.inject
  by (elim conjE, hypsubst, rule none_held)
    (auto simp: failable_def mark_failed_def owned_by_def is_active_def Let_def split: if_splits)

interpretation repository: job_queue_port "repository_port patterns clock locked"
  "Some record_alert" held_by
proof (unfold_locales, goal_cases)
  case (1 w ts s j s1)
  then show ?case
    using claim_then_start [of "locked (wd_time s)" w ts "clock (wd_time s)" "wd_queue s" j
        "wd_queue s1" "clock (wd_time s1)"]
    by (auto simp: on_queue_def split: prod.splits)
next
  case (2 i x w s b s1)
  then show ?case by (auto simp: on_queue_def dest: complete_not_held split: prod.splits)
next
  case (3 i msg w s st s1)
  then show ?case by (auto simp: on_queue_def dest: fail_not_held split: prod.splits)
next
  case (4 w i k ty msg d s)
  then show ?case by (simp add: on_queue_def appendJobEvent_def held_by_def)
next
  case (5 emit w i a s)
  then show ?case by (auto simp: record_alert_def held_by_def)
qed

section \<open>A job whose handler always throws\<close>

fun process_times :: "nat \<Rightarrow> 's queue_port \<Rightarrow> (string \<times> 's handler) list \<Rightarrow> string \<Rightarrow> string list \<Rightarrow>
    's alert_port option \<Rightarrow> 's \<Rightarrow> 's" where
  "process_times 0 port handlers w types alerts s = s"
| "process_times (Suc n) port handlers w types alerts s =
     process_times n port handlers w types alerts
       (snd (processOne port handlers w types alerts s))"

definition single_job :: "job \<Rightarrow> world \<Rightarrow> bool" where
  "single_job j s \<longleftrightarrow> qu_jobs (wd_queue s) = [j]"

definition retry_pending :: "(nat \<Rightarrow> int) \<Rightarrow> string list \<Rightarrow> job \<Rightarrow> bool" where
  "retry_pending clock types j \<longleftrightarrow>
     jb_status j = Pending \<and> jb_attempts j < jb_max_attempts j \<and> jb_job_type j \<in> set types \<and>
     (\<forall>k. jb_scheduled_at j \<le> clock k)"

lemma retry_pending_claimable:
  "retry_pending clock types j \<Longrightarrow> claimable (Some types) (clock k) j \<and> types \<noteq> []"
  by (auto simp: retry_pending_def claimable_def)

text \<open>One call of the worker: the attempt is used up, and the job is pending again or failed.\<close>

lemma process_throwing:
  fixes patterns clock handlers w types s j e
  defines "port \<equiv> repository_port patterns clock (\<lambda>_. {})"
  defines "s' \<equiv> snd (processOne port handlers w types (Some record_alert) s)"
  assumes j: "single_job j s" and p: "retry_pending clock types j"
    and h: "get_handler handlers (jb_job_type j) = Some (\<lambda>en s. (Inl e, s))"
  shows "\<exists>j'. single_job j' s' \<and> jb_id j' = jb_id j \<and> jb_job_type j' = jb_job_type j \<and>
      jb_attempts j' = Suc (jb_attempts j) \<and> jb_max_attempts j' = jb_max_attempts j \<and>
      jb_scheduled_at j' = jb_scheduled_at j \<and>
      jb_status j' = (if Suc (jb_attempts j) < jb_max_attempts j then Pending else Failed) \<and>
      map al_dedupeKey (wd_alerts s') = map al_dedupeKey (wd_alerts s) @
        (if Suc (jb_attempts j) < jb_max_attempts j then [] else [''job_exhausted:'' @ jb_id j])"
proof -
  let ?c = "mark_claimed w (clock (wd_time s)) j"
  have "types \<noteq> []" and "\<And>k. claimable (Some types) (clock k) j"
    using retry_pending_claimable [OF p] by auto
  with j h show ?thesis
    unfolding s'_def port_def processOne_def run_claimed_def give_up_def single_job_def
    by (simp add: io_bind_def io_catch_def io_return_def io_ignore_def on_queue_def Let_def
        claimNext_def claim_candidate_def sort_by_def mark_claimed_def sql_update_def
        startJob_def update_jobs_def sql_returning_def owned_by_def safeAppendEvent_def
        appendJobEvent_def failJob_def failable_def mark_failed_def is_active_def
        alertExhausted_def safelyEmitOperationalAlert_def record_alert_def exhausted_alert_def)
qed

lemma throwing_retries:
  assumes "single_job j s" and "retry_pending clock types j"
    and "get_handler handlers (jb_job_type j) = Some (\<lambda>en s. (Inl e, s))"
    and "n = jb_max_attempts j - jb_attempts j"
  shows "\<exists>j'. single_job j' (process_times n (repository_port patterns clock (\<lambda>_. {})) handlers w types
                              (Some record_alert) s) \<and>
      jb_id j' = jb_id j \<and> jb_status j' = Failed \<and> jb_attempts j' = jb_max_attempts j \<and>
      map al_dedupeKey (wd_alerts (process_times n (repository_port patterns clock (\<lambda>_. {})) handlers
                                     w types (Some record_alert) s)) =
        map al_dedupeKey (wd_alerts s) @ [''job_exhausted:'' @ jb_id j]"
  using assms
proof (induction n arbitrary: s j)
  case 0
  then show ?case by (simp add: retry_pending_def)
next
  case (Suc n)
  let ?s = "snd (processOne (repository_port patterns clock (\<lambda>_. {})) handlers w types
                  (Some record_alert) s)"
  from process_throwing [OF Suc.prems(1-3), where patterns = patterns and w = w] obtain j1 where
    j1: "single_job j1 ?s" "jb_id j1 = jb_id j" "jb_job_type j1 = jb_job_type j"
      "jb_attempts j1 = Suc (jb_attempts j)" "jb_max_attempts j1 = jb_max_attempts j"
      "jb_scheduled_at j1 = jb_scheduled_at j"
    and st: "jb_status j1 = (if Suc (jb_attempts j) < jb_max_attempts j then Pending else Failed)"
    and al: "map al_dedupeKey (wd_alerts ?s) = map al_dedupeKey (wd_alerts s) @
        (if Suc (jb_attempts j) < jb_max_attempts j then [] else [''job_exhausted:'' @ jb_id j])"
    by blast
  show ?case
  proof (cases "Suc (jb_attempts j) < jb_max_attempts j")
    case True
    have "retry_pending clock types j1"
      using Suc.prems(2) j1 st True by (simp add: retry_pending_def)
    moreover have "n = jb_max_attempts j1 - jb_attempts j1" using Suc.prems(4) j1 by simp
    moreover have "get_handler handlers (jb_job_type j1) = Some (\<lambda>en s. (Inl e, s))"
      using Suc.prems(3) j1 by simp
    ultimately show ?thesis using Suc.IH [OF j1(1)] j1 al True by simp
  next
    case False
    with Suc.prems(2,4) have "n = 0" by (simp add: retry_pending_def)
    with False j1 st al Suc.prems(2) show ?thesis by (auto simp: retry_pending_def)
  qed
qed

lemma alerts_of_each:
  "wd_alerts (snd (io_each (\<lambda>j. alertExhausted (Some record_alert) j msg) js s)) =
     wd_alerts s @ map (\<lambda>j. exhausted_alert j msg) js"
proof (induction js arbitrary: s)
  case (Cons j js)
  let ?s = "snd (alertExhausted (Some record_alert) j msg s)"
  have "alertExhausted (Some record_alert) j msg s = (Inr (), ?s)"
    "wd_alerts ?s = wd_alerts s @ [exhausted_alert j msg]"
    by (simp_all add: alertExhausted_def safelyEmitOperationalAlert_def io_ignore_def record_alert_def)
  with Cons.IH [of ?s] show ?case by simp
qed simp

section \<open>Properties\<close>

text \<open>
  C12: on the repository the worker always returns a result, whatever the handler does, and when it
  returns for a job, the job is no longer active under this worker: no path, error paths included,
  leaves a claimed job behind.
\<close>

theorem worker_releases_job:
  assumes "processed_job r = Some i"
    and "processOne (repository_port patterns clock locked) handlers w types (Some record_alert) s =
           (Inr r, s')"
  shows "\<not> held_by w i s'"
  by (rule repository.process_releases [OF assms(2,1)])

definition sample_world :: world where
  "sample_world =
     \<lparr>wd_queue = enqueue id ''j1''
        \<lparr>ei_job_type = ''sync'', ei_payload = JObj [], ei_space_id = ''s'', ei_user_id = None,
         ei_workspace_id = None, ei_agent_id = None, ei_priority = None, ei_max_attempts = Some 2,
         ei_scheduled_at = None\<rparr> 0 (empty_queue [] []),
      wd_alerts = [], wd_time = 0\<rparr>"

definition quiet_handlers :: "(string \<times> world handler) list" where
  "quiet_handlers = [(''sync'', \<lambda>en s. (Inr JNull, s))]"

definition throwing_handlers :: "(string \<times> world handler) list" where
  "throwing_handlers = [(''sync'', \<lambda>en s. (Inl (ErrorObject ''boom''), s))]"

lemma sample_done:
  "fst (processOne (repository_port id int (\<lambda>_. {})) quiet_handlers ''w'' [''sync'']
     (Some record_alert) sample_world) = Inr (Done ''j1'')"
  by code_simp

theorem worker_releases_job_witness:
  "\<not> held_by ''w'' ''j1''
     (snd (processOne (repository_port id int (\<lambda>_. {})) quiet_handlers ''w'' [''sync'']
        (Some record_alert) sample_world))"
  using sample_done
  by (intro worker_releases_job [OF processed_job.simps(2)]) (rule prod_eqI, simp_all)

text \<open>On the repository, no failure of a handler makes the worker itself reject.\<close>

theorem worker_never_rejects:
  "\<exists>r s'. processOne (repository_port patterns clock locked) handlers w types (Some record_alert) s =
     (Inr r, s')"
proof (cases "processOne (repository_port patterns clock locked) handlers w types (Some record_alert) s")
  case (Pair x s1)
  show ?thesis
  proof (cases x)
    case (Inl e)
    from repository.process_throws [OF Pair [unfolded Inl]] show ?thesis
      by (auto simp: on_queue_def split: prod.splits)
  qed (use Pair in auto)
qed

text \<open>
  A job whose handler always throws is tried exactly as often as it has attempts left; then it
  has failed for good and exactly one alert was raised, on the last attempt.
\<close>

theorem throwing_job_ends:
  assumes "single_job j s" and "retry_pending clock types j"
    and "get_handler handlers (jb_job_type j) = Some (\<lambda>en s. (Inl e, s))"
  shows "\<exists>j' s'. s' = process_times (jb_max_attempts j - jb_attempts j)
                       (repository_port patterns clock (\<lambda>_. {})) handlers w types (Some record_alert) s \<and>
      single_job j' s' \<and> jb_id j' = jb_id j \<and> jb_status j' = Failed \<and>
      jb_attempts j' = jb_max_attempts j \<and>
      map al_dedupeKey (wd_alerts s') =
        map al_dedupeKey (wd_alerts s) @ [''job_exhausted:'' @ jb_id j]"
  using throwing_retries [OF assms refl] by blast

theorem throwing_job_ends_witness:
  "\<exists>j'. single_job j' (process_times 2 (repository_port id int (\<lambda>_. {})) throwing_handlers ''w''
                         [''sync''] (Some record_alert) sample_world) \<and>
     jb_status j' = Failed"
proof -
  let ?j = "hd (qu_jobs (wd_queue sample_world))"
  have "single_job ?j sample_world" "retry_pending int [''sync''] ?j"
    "get_handler throwing_handlers (jb_job_type ?j) = Some (\<lambda>en s. (Inl (ErrorObject ''boom''), s))"
    "jb_max_attempts ?j - jb_attempts ?j = 2"
    by (simp_all add: sample_world_def enqueue_def empty_queue_def single_job_def or_value_def
        retry_pending_def get_handler_def throwing_handlers_def)
  with throwing_job_ends [of ?j sample_world int "[''sync'']" throwing_handlers
      "ErrorObject ''boom''" id "''w''"]
  show ?thesis by auto
qed

text \<open>
  When the worker reclaims, it raises one alert for each job that was given up, in order, and
  returns the number of reclaimed jobs.
\<close>

theorem reclaim_alerts:
  "let out = reclaimStuckJobs seconds (clock (wd_time s)) (wd_queue s);
       (result, s') = worker_reclaimStuckJobs (repository_port patterns clock locked)
                        (Some record_alert) seconds s
   in result = Inr (rc_reclaimed_count (fst out)) \<and>
      map al_dedupeKey (wd_alerts s') = map al_dedupeKey (wd_alerts s) @
        map (\<lambda>j. ''job_exhausted:'' @ jb_id j) (rc_exhausted_jobs (fst out))"
proof -
  let ?out = "reclaimStuckJobs seconds (clock (wd_time s)) (wd_queue s)"
  let ?s1 = "s\<lparr>wd_queue := snd ?out, wd_time := wd_time s + 1\<rparr>"
  let ?msg = "''job stuck and retry attempts exhausted''"
  have each: "fst (io_each (\<lambda>j. alertExhausted (Some record_alert) j ?msg) js s2) = Inr ()" for js s2
    by (induction js arbitrary: s2)
      (simp_all add: io_bind_def alertExhausted_def safelyEmitOperationalAlert_def io_ignore_def)
  have "worker_reclaimStuckJobs (repository_port patterns clock locked) (Some record_alert) seconds s =
      (Inr (rc_reclaimed_count (fst ?out)),
       snd (io_each (\<lambda>j. alertExhausted (Some record_alert) j ?msg) (rc_exhausted_jobs (fst ?out)) ?s1))"
    using each by (simp add: worker_reclaimStuckJobs_def io_bind_def on_queue_def
        split: prod.splits sum.splits)
      (metis fst_conv sum.distinct(1))
  then show ?thesis by (simp add: alerts_of_each exhausted_alert_def comp_def)
qed

end
