(* ===== verification/PlanGraph.thy ===== *)
theory PlanGraph
  imports JsValue
begin

text \<open>
  The plan graph: the workflow definition with its schema refinement
  (\<open>packages/protocol/src/workflows.ts\<close>) and \<open>materializePlanGraph\<close> (\<open>plans/graph.ts\<close>), which turns a
  definition into the nodes that are executed. The shape check of the schema is a library's; it is
  the parameter \<open>parse\<close>, which returns the typed definition it accepts. The node count bounds and the
  refinement over the whole definition are the code's own and modelled here.
\<close>

section \<open>Data\<close>

datatype binding_source = OutputText | OutputJson | ArtifactSource

record input_binding =
  ib_name :: string
  ib_from_node :: string
  ib_source :: binding_source
  ib_json_pointer :: "string option"
  ib_artifact_type :: "string option"
  ib_required :: bool

text \<open>\<open>wn_passthrough\<close> holds the fields of a node that the schema does not name and keeps.\<close>

record workflow_node =
  wn_id :: string
  wn_title :: string
  wn_depends_on :: "string list"
  wn_input_bindings :: "input_binding list"
  wn_capability_id :: "string option"
  wn_prompt_asset_key :: "string option"
  wn_agent_id :: "string option"
  wn_runtime_profile_id :: "string option"
  wn_verification_recipe_refs :: "string list"
  wn_checkpoint_required :: bool
  wn_checkpoint_proposal_type :: "string option"
  wn_contract_json :: jsobj
  wn_metadata_json :: jsobj
  wn_passthrough :: jsobj

record workflow_definition =
  wd_workflow_id :: string
  wd_name :: string
  wd_description :: string
  wd_input_schema_json :: jsobj
  wd_output_artifact_types :: "string list"
  wd_nodes :: "workflow_node list"
  wd_metadata_json :: jsobj

section \<open>The refinement of the schema\<close>

text \<open>\<open>!value\<close> of an optional string: it is absent or empty.\<close>

definition no_text :: "string option \<Rightarrow> bool" where
  "no_text s \<longleftrightarrow> s = None \<or> s = Some []"

definition binding_issues :: "input_binding \<Rightarrow> string list" where
  "binding_issues b =
     (if ib_source b = OutputJson \<and> no_text (ib_json_pointer b)
      then [''output_json bindings require json_pointer''] else []) @
     (if ib_source b \<noteq> OutputJson \<and> ib_json_pointer b \<noteq> None
      then [''json_pointer is only valid for output_json bindings''] else []) @
     (if ib_source b = ArtifactSource \<and> no_text (ib_artifact_type b)
      then [''artifact bindings require artifact_type''] else []) @
     (if ib_source b \<noteq> ArtifactSource \<and> ib_artifact_type b \<noteq> None
      then [''artifact_type is only valid for artifact bindings''] else [])"

fun duplicate_issues :: "string list \<Rightarrow> workflow_node list \<Rightarrow> string list" where
  "duplicate_issues ids [] = []"
| "duplicate_issues ids (n # ns) =
     (if wn_id n \<in> set ids then [''duplicate workflow node id '' @ quoted (wn_id n)] else []) @
     duplicate_issues (wn_id n # ids) ns"

fun input_issues :: "workflow_node \<Rightarrow> string list \<Rightarrow> input_binding list \<Rightarrow> string list" where
  "input_issues n names [] = []"
| "input_issues n names (b # bs) =
     (if ib_from_node b \<notin> set (wn_depends_on n)
      then [''workflow node '' @ quoted (wn_id n) @ '' input '' @ quoted (ib_name b) @
            '' must reference a direct dependency''] else []) @
     (if ib_name b \<in> set names
      then [''duplicate input binding '' @ quoted (ib_name b) @ '' on node '' @ quoted (wn_id n)] else []) @
     input_issues n (ib_name b # names) bs"

definition node_issues :: "workflow_node list \<Rightarrow> workflow_node \<Rightarrow> string list" where
  "node_issues nodes n =
     concat (map (\<lambda>d. if d = wn_id n \<or> d \<notin> wn_id ` set nodes
                      then [''workflow node '' @ quoted (wn_id n) @ '' depends on unknown or itself: '' @ quoted d]
                      else []) (wn_depends_on n)) @
     input_issues n [] (wn_input_bindings n)"

text \<open>\<open>new Map(nodes.map((node) => [node.id, node]))\<close>: a later node replaces an earlier one.\<close>

definition by_id :: "workflow_node list \<Rightarrow> string \<Rightarrow> workflow_node option" where
  "by_id nodes i = List.find (\<lambda>n. wn_id n = i) (rev nodes)"

definition deps :: "workflow_node list \<Rightarrow> string \<Rightarrow> string list" where
  "deps nodes i = (case by_id nodes i of None \<Rightarrow> [] | Some n \<Rightarrow> wn_depends_on n)"

text \<open>
  The depth-first walk. Its state is the set being visited, the set visited and the issues; the
  order in a set is not observable, the newest element comes first. The first argument bounds the
  depth of the recursion, \<open>None\<close> means that the bound was reached; \<open>walk_bound\<close> is always enough.
\<close>

fun fold_opt :: "('a \<Rightarrow> 's \<Rightarrow> 's option) \<Rightarrow> 'a list \<Rightarrow> 's \<Rightarrow> 's option" where
  "fold_opt f [] s = Some s"
| "fold_opt f (x # xs) s = Option.bind (f x s) (fold_opt f xs)"

record visit_state =
  vs_visiting :: "string list"
  vs_visited :: "string list"
  vs_issues :: "string list"

primrec visit :: "nat \<Rightarrow> workflow_node list \<Rightarrow> string \<Rightarrow> visit_state \<Rightarrow> visit_state option" where
  "visit 0 nodes i s = None"
| "visit (Suc bound) nodes i s =
     (if i \<in> set (vs_visited s) then Some s
      else if i \<in> set (vs_visiting s)
      then Some (s\<lparr>vs_issues := vs_issues s @ [''workflow definition contains a dependency cycle at '' @ quoted i]\<rparr>)
      else map_option
             (\<lambda>s. s\<lparr>vs_visiting := removeAll i (vs_visiting s), vs_visited := i # vs_visited s\<rparr>)
             (fold_opt (visit bound nodes) (deps nodes i) (s\<lparr>vs_visiting := i # vs_visiting s\<rparr>)))"

definition walk_bound :: "workflow_node list \<Rightarrow> nat" where
  "walk_bound nodes = Suc (length nodes + length (concat (map wn_depends_on nodes)))"

definition definition_issues :: "workflow_definition \<Rightarrow> string list option" where
  "definition_issues d =
     map_option vs_issues
       (fold_opt (visit (walk_bound (wd_nodes d)) (wd_nodes d)) (map wn_id (wd_nodes d))
         \<lparr>vs_visiting = [], vs_visited = [],
          vs_issues = concat (map binding_issues (concat (map wn_input_bindings (wd_nodes d)))) @
                      duplicate_issues [] (wd_nodes d) @
                      concat (map (node_issues (wd_nodes d)) (wd_nodes d))\<rparr>)"

section \<open>Materialization\<close>

definition maxNodes :: nat where "maxNodes = 30"
definition maxAutoApproveNodes :: nat where "maxAutoApproveNodes = 8"
definition maxDepth :: nat where "maxDepth = 3"

definition PLAN_GRAPH_VERSION :: string where
  "PLAN_GRAPH_VERSION = ''plan_graph.v1''"

datatype plan_node_kind = Leaf | Integration | ApprovalCheckpoint | Exploratory

definition plan_node_kind_text :: "plan_node_kind \<Rightarrow> string" where
  "plan_node_kind_text k = (case k of
     Leaf \<Rightarrow> ''leaf'' | Integration \<Rightarrow> ''integration''
   | ApprovalCheckpoint \<Rightarrow> ''approval_checkpoint'' | Exploratory \<Rightarrow> ''exploratory'')"

definition isNodeKind :: "string option \<Rightarrow> plan_node_kind option" where
  "isNodeKind v = List.find (\<lambda>k. v = Some (plan_node_kind_text k))
     [Leaf, Integration, ApprovalCheckpoint, Exploratory]"

record plan_node =
  pn_key :: string
  pn_title :: string
  pn_description :: "string option"
  pn_dependsOn :: "string list"
  pn_inputBindings :: "input_binding list"
  pn_kind :: plan_node_kind
  pn_agentId :: "string option"
  pn_runtimeProfileId :: "string option"
  pn_capabilityId :: "string option"
  pn_promptAssetKey :: "string option"
  pn_verificationRecipeRefs :: "string list"
  pn_approvalRequired :: bool
  pn_approvalProposalType :: "string option"
  pn_contractJson :: jsobj
  pn_metadataJson :: jsobj

record plan_graph =
  pg_graphVersion :: string
  pg_definition :: workflow_definition
  pg_nodes :: "plan_node list"
  pg_depth :: nat
  pg_roots :: "string list"
  pg_leaves :: "string list"

text \<open>The errors: the schema's rejection, and the module's own with its reason and code.\<close>

datatype plan_error = SchemaRejected | PlanGraphError string string

definition stringValue :: "jsval \<Rightarrow> string option" where
  "stringValue v = (case v of JStr s \<Rightarrow> if trim s \<noteq> [] then Some (trim s) else None | _ \<Rightarrow> None)"

text \<open>The contract of a node: \<open>contract_json\<close> wins over the same field on the node.\<close>

definition CONTRACT_FIELDS :: "string list" where
  "CONTRACT_FIELDS =
     [''acceptance_criteria_json'', ''definition_of_done'', ''required_outputs_json'', ''risk_level'',
      ''max_runs'', ''max_attempts'', ''max_cost'', ''max_duration_seconds'', ''budget_precedence'',
      ''route_hints_json'', ''budget_sources'']"

definition nodeContract :: "workflow_node \<Rightarrow> jsobj" where
  "nodeContract n =
     (let contract = fold (\<lambda>key contract.
            if get contract key = JUndef \<and> get (wn_passthrough n) key \<noteq> JUndef
            then put key (get (wn_passthrough n) key) contract else contract)
          CONTRACT_FIELDS (wn_contract_json n)
      in if get contract ''route_hints_json'' = JUndef \<and> get (wn_metadata_json n) ''route_hints_json'' \<noteq> JUndef
         then put ''route_hints_json'' (get (wn_metadata_json n) ''route_hints_json'') contract
         else contract)"

definition toPlanNode :: "workflow_node \<Rightarrow> plan_node" where
  "toPlanNode n =
     \<lparr>pn_key = wn_id n,
      pn_title = wn_title n,
      pn_description = stringValue (get (wn_metadata_json n) ''description''),
      pn_dependsOn = wn_depends_on n,
      pn_inputBindings = wn_input_bindings n,
      pn_kind = (if wn_checkpoint_required n then ApprovalCheckpoint
                 else case isNodeKind (stringValue (get (wn_metadata_json n) ''node_kind'')) of
                        Some k \<Rightarrow> k | None \<Rightarrow> Leaf),
      pn_agentId = wn_agent_id n,
      pn_runtimeProfileId = wn_runtime_profile_id n,
      pn_capabilityId = wn_capability_id n,
      pn_promptAssetKey = wn_prompt_asset_key n,
      pn_verificationRecipeRefs = wn_verification_recipe_refs n,
      pn_approvalRequired = wn_checkpoint_required n,
      pn_approvalProposalType = wn_checkpoint_proposal_type n,
      pn_contractJson = nodeContract n,
      pn_metadataJson = wn_metadata_json n\<rparr>"

definition unwrapStoredGraph :: "jsval \<Rightarrow> jsval" where
  "unwrapStoredGraph input =
     (case asRecord input of
        None \<Rightarrow> input
      | Some value \<Rightarrow>
          if strict_eq (get value ''graphVersion'') (JStr PLAN_GRAPH_VERSION) \<and> get value ''definition'' \<noteq> JUndef
          then get value ''definition'' else input)"

text \<open>\<open>WorkflowDefinitionSchema.parse\<close>: the shape, one to thirty nodes, and no issue.\<close>

definition parse_definition ::
    "(jsval \<Rightarrow> workflow_definition option) \<Rightarrow> jsval \<Rightarrow> (plan_error + workflow_definition) option" where
  "parse_definition parse v =
     (case parse v of
        None \<Rightarrow> Some (Inl SchemaRejected)
      | Some d \<Rightarrow>
          if length (wd_nodes d) < 1 \<or> 30 < length (wd_nodes d) then Some (Inl SchemaRejected)
          else map_option (\<lambda>issues. if issues = [] then Inr d else Inl SchemaRejected) (definition_issues d))"

text \<open>
  \<open>depthOf\<close> memoizes the depth of a node in \<open>depthById\<close> and throws on a cycle. The recursion is
  bounded like the walk above.
\<close>

record depth_state =
  ds_depthById :: "(string \<times> nat) list"
  ds_visiting :: "string list"

fun traverse :: "('a \<Rightarrow> 's \<Rightarrow> ('e + 'b \<times> 's) option) \<Rightarrow> 'a list \<Rightarrow> 's \<Rightarrow> ('e + 'b list \<times> 's) option" where
  "traverse f [] s = Some (Inr ([], s))"
| "traverse f (x # xs) s =
     (case f x s of
        None \<Rightarrow> None
      | Some (Inl e) \<Rightarrow> Some (Inl e)
      | Some (Inr (y, s)) \<Rightarrow>
          (case traverse f xs s of
             None \<Rightarrow> None
           | Some (Inl e) \<Rightarrow> Some (Inl e)
           | Some (Inr (ys, s)) \<Rightarrow> Some (Inr (y # ys, s))))"

primrec depthOf :: "nat \<Rightarrow> workflow_node list \<Rightarrow> string \<Rightarrow> depth_state \<Rightarrow> (plan_error + nat \<times> depth_state) option" where
  "depthOf 0 nodes i s = None"
| "depthOf (Suc bound) nodes i s =
     (case map_of (ds_depthById s) i of
        Some depth \<Rightarrow> Some (Inr (depth, s))
      | None \<Rightarrow>
          if i \<in> set (ds_visiting s)
          then Some (Inl (PlanGraphError ''Plan graph contains a dependency cycle'' ''plan_cycle''))
          else
            (case traverse (depthOf bound nodes) (deps nodes i) (s\<lparr>ds_visiting := i # ds_visiting s\<rparr>) of
               None \<Rightarrow> None
             | Some (Inl e) \<Rightarrow> Some (Inl e)
             | Some (Inr (depths, s)) \<Rightarrow>
                 let depth = (if depths \<noteq> [] then Max (set depths) + 1 else 1)
                 in Some (Inr (depth, s\<lparr>ds_visiting := removeAll i (ds_visiting s),
                                         ds_depthById := (i, depth) # ds_depthById s\<rparr>))))"

definition plan_leaves :: "plan_node list \<Rightarrow> string list" where
  "plan_leaves nodes =
     map pn_key (filter (\<lambda>n. pn_key n \<notin> set (concat (map pn_dependsOn nodes))) nodes)"

definition node_error :: "plan_node \<Rightarrow> plan_error option" where
  "node_error n =
     (if pn_kind n \<in> {Integration, ApprovalCheckpoint} \<and> pn_dependsOn n = [] then
        Some (PlanGraphError
          (''Plan node '' @ quoted (pn_key n) @ '' of kind '' @ quoted (plan_node_kind_text (pn_kind n)) @
           '' must depend on at least one node'') ''invalid_node_atomicity'')
      else if pn_kind n \<in> {Leaf, Exploratory} \<and> no_text (pn_capabilityId n) \<and>
              no_text (pn_promptAssetKey n) \<and> no_text (pn_agentId n) then
        Some (PlanGraphError
          (''Plan leaf '' @ quoted (pn_key n) @ '' has no capability, prompt asset, or agent binding'')
          ''leaf_not_executable'')
      else None)"

definition materialize_definition :: "workflow_definition \<Rightarrow> (plan_error + plan_graph) option" where
  "materialize_definition d =
     (if maxNodes < length (wd_nodes d) then
        Some (Inl (PlanGraphError (''Plan contains more than 30 nodes'') ''plan_size_exceeded''))
      else
        case traverse (depthOf (walk_bound (wd_nodes d)) (wd_nodes d)) (map wn_id (wd_nodes d))
               \<lparr>ds_depthById = [], ds_visiting = []\<rparr> of
          None \<Rightarrow> None
        | Some (Inl e) \<Rightarrow> Some (Inl e)
        | Some (Inr (_, s)) \<Rightarrow>
            let depth = Max (snd ` set (ds_depthById s)); nodes = map toPlanNode (wd_nodes d)
            in if maxDepth < depth then
                 Some (Inl (PlanGraphError (''Plan depth exceeds 3'') ''plan_depth_exceeded''))
               else
                 (case List.map_filter node_error nodes of
                    e # _ \<Rightarrow> Some (Inl e)
                  | [] \<Rightarrow>
                      Some (Inr \<lparr>pg_graphVersion = PLAN_GRAPH_VERSION, pg_definition = d, pg_nodes = nodes,
                        pg_depth = depth,
                        pg_roots = map pn_key (filter (\<lambda>n. pn_dependsOn n = []) nodes),
                        pg_leaves = plan_leaves nodes\<rparr>)))"

definition materializePlanGraph ::
    "(jsval \<Rightarrow> workflow_definition option) \<Rightarrow> jsval \<Rightarrow> (plan_error + plan_graph) option" where
  "materializePlanGraph parse input =
     (case parse_definition parse (unwrapStoredGraph input) of
        None \<Rightarrow> None
      | Some (Inl e) \<Rightarrow> Some (Inl e)
      | Some (Inr d) \<Rightarrow> materialize_definition d)"

end
