(* ===== verification/PlanWalk.thy ===== *)
theory PlanWalk
  imports PlanGraph
begin

text \<open>
  The two walks over a plan graph are right: the schema's walk finds no issue exactly on acyclic
  dependencies, and the memoized depth of a node is the length of its longest dependency chain.
  With them: which inputs \<open>materializePlanGraph\<close> accepts, and what an accepted graph is.
\<close>

section \<open>Dependency chains\<close>

text \<open>
  The edges from a node to what it depends on, over the lookup the code uses; a chain lists nodes,
  each depending on the next one; \<open>chain_length\<close> is the longest chain from a node.
\<close>

definition depends :: "workflow_node list \<Rightarrow> string \<Rightarrow> string \<Rightarrow> bool" where
  "depends nodes a b \<longleftrightarrow> b \<in> set (deps nodes a)"

definition acyclic_deps :: "workflow_node list \<Rightarrow> bool" where
  "acyclic_deps nodes \<longleftrightarrow> (\<nexists>i. (depends nodes)\<^sup>+\<^sup>+ i i)"

fun chain :: "workflow_node list \<Rightarrow> string list \<Rightarrow> bool" where
  "chain nodes [] = True"
| "chain nodes [x] = True"
| "chain nodes (x # y # zs) = (depends nodes x y \<and> chain nodes (y # zs))"

definition chain_length :: "workflow_node list \<Rightarrow> string \<Rightarrow> nat \<Rightarrow> bool" where
  "chain_length nodes i k \<longleftrightarrow>
     (\<exists>p. chain nodes (i # p) \<and> length (i # p) = k) \<and> (\<forall>p. chain nodes (i # p) \<longrightarrow> length (i # p) \<le> k)"

lemma chain_length_unique: "chain_length nodes i k \<Longrightarrow> chain_length nodes i l \<Longrightarrow> k = l"
  unfolding chain_length_def by (meson antisym)

lemma chain_length_no_deps:
  assumes "deps nodes i = []"
  shows "chain_length nodes i 1"
proof -
  have "p = []" if "chain nodes (i # p)" for p
    using that assms by (cases p) (auto simp: depends_def)
  then show ?thesis by (auto simp: chain_length_def intro: exI [of _ "[]"])
qed

lemma chain_length_step:
  assumes "deps nodes i \<noteq> []" and "\<And>b. b \<in> set (deps nodes i) \<Longrightarrow> chain_length nodes b (f b)"
  shows "chain_length nodes i (Suc (Max (f ` set (deps nodes i))))"
proof -
  let ?M = "Max (f ` set (deps nodes i))"
  have "?M \<in> f ` set (deps nodes i)" using assms(1) by simp
  then obtain b where b: "b \<in> set (deps nodes i)" "f b = ?M" by auto
  with assms(2) obtain p where "chain nodes (b # p)" "length (b # p) = ?M"
    unfolding chain_length_def by metis
  with b have "chain nodes (i # b # p) \<and> length (i # b # p) = Suc ?M" by (simp add: depends_def)
  moreover have "length (i # p) \<le> Suc ?M" if "chain nodes (i # p)" for p
  proof (cases p)
    case (Cons c q)
    with that have "c \<in> set (deps nodes i)" "chain nodes (c # q)" by (auto simp: depends_def)
    moreover from this assms(2) have "length (c # q) \<le> f c" unfolding chain_length_def by blast
    moreover have "f c \<le> ?M" using \<open>c \<in> set (deps nodes i)\<close> by simp
    ultimately have "length (c # q) \<le> ?M" by (meson le_trans)
    with Cons show ?thesis by simp
  qed simp
  ultimately show ?thesis unfolding chain_length_def by blast
qed

section \<open>Orders of a walk\<close>

text \<open>
  A list is closed when every node in it depends only on nodes behind it; the visited nodes of a walk
  without issues are such a list. Nodes of a closed list are on no cycle.
\<close>

fun closed_order :: "workflow_node list \<Rightarrow> string list \<Rightarrow> bool" where
  "closed_order nodes [] = True"
| "closed_order nodes (v # vs) = (set (deps nodes v) \<subseteq> set vs \<and> closed_order nodes vs)"

lemma closed_order_reach:
  assumes "(depends nodes)\<^sup>*\<^sup>* a b" and "closed_order nodes vs" and "a \<in> set vs"
  shows "b \<in> set vs"
proof -
  have "c \<in> set vs" if "x \<in> set vs" "depends nodes x c" "closed_order nodes vs" for x c vs
    using that by (induction vs) (auto simp: depends_def)
  with assms show ?thesis by (induction rule: rtranclp_induct) auto
qed

lemma closed_order_acyclic: "closed_order nodes vs \<Longrightarrow> a \<in> set vs \<Longrightarrow> \<not> (depends nodes)\<^sup>+\<^sup>+ a a"
proof (induction vs)
  case (Cons v vs)
  show ?case
  proof
    assume cycle: "(depends nodes)\<^sup>+\<^sup>+ a a"
    with Cons have "a = v" "v \<notin> set vs" by auto
    from cycle obtain c where "depends nodes a c" "(depends nodes)\<^sup>*\<^sup>* c a" by (meson tranclpD)
    moreover from this(1) Cons.prems \<open>a = v\<close> have "c \<in> set vs" by (auto simp: depends_def)
    ultimately have "a \<in> set vs" using Cons.prems(1) closed_order_reach by force
    with \<open>a = v\<close> \<open>v \<notin> set vs\<close> show False by simp
  qed
qed simp

lemma closed_order_remdups: "closed_order nodes vs \<Longrightarrow> closed_order nodes (remdups vs)"
  by (induction vs) auto

text \<open>The nodes being visited are a chain from the newest back to the first.\<close>

fun stack_chain :: "workflow_node list \<Rightarrow> string list \<Rightarrow> bool" where
  "stack_chain nodes [] = True"
| "stack_chain nodes [x] = True"
| "stack_chain nodes (x # y # zs) = (depends nodes y x \<and> stack_chain nodes (y # zs))"

lemma stack_chain_reach: "stack_chain nodes (x # zs) \<Longrightarrow> y \<in> set zs \<Longrightarrow> (depends nodes)\<^sup>+\<^sup>+ y x"
proof (induction zs arbitrary: x)
  case (Cons z zs)
  then have "depends nodes z x" by simp
  show ?case
  proof (cases "y = z")
    case True
    with \<open>depends nodes z x\<close> show ?thesis by auto
  next
    case False
    with Cons have "(depends nodes)\<^sup>+\<^sup>+ y z" by auto
    with \<open>depends nodes z x\<close> show ?thesis by simp
  qed
qed simp

section \<open>The schema's walk\<close>

text \<open>A sequence of calls that each keep a property keep it.\<close>

lemma fold_opt_invariant:
  assumes "fold_opt f xs s = Some t" and "I s"
    and "\<And>x s t. x \<in> set xs \<Longrightarrow> f x s = Some t \<Longrightarrow> I s \<Longrightarrow> I t"
  shows "I t"
  using assms by (induction xs arbitrary: s) (auto simp: bind_eq_Some_conv)

lemma fold_opt_total:
  assumes "I s" and "\<And>x s. x \<in> set xs \<Longrightarrow> I s \<Longrightarrow> \<exists>t. f x s = Some t \<and> I t"
  shows "\<exists>t. fold_opt f xs s = Some t \<and> I t"
  using assms
proof (induction xs arbitrary: s)
  case (Cons x xs)
  then obtain t where "f x s = Some t" "I t" by (meson list.set_intros(1))
  with Cons.IH [of t] Cons.prems(2) show ?case by auto
qed simp

text \<open>A call leaves the nodes being visited as they were.\<close>

lemma visit_visiting:
  "visit bound nodes i s = Some t \<Longrightarrow> vs_visiting t = vs_visiting s"
proof (induction bound arbitrary: i s t)
  case (Suc bound)
  show ?case
  proof (cases "i \<in> set (vs_visited s) \<or> i \<in> set (vs_visiting s)")
    case False
    with Suc.prems obtain u where
      u: "fold_opt (visit bound nodes) (deps nodes i) (s\<lparr>vs_visiting := i # vs_visiting s\<rparr>) = Some u"
      and t: "t = u\<lparr>vs_visiting := removeAll i (vs_visiting u), vs_visited := i # vs_visited u\<rparr>"
      by auto
    have "vs_visiting u = i # vs_visiting s"
      by (rule fold_opt_invariant [OF u]) (auto dest: Suc.IH)
    with t False show ?thesis by simp
  qed (use Suc.prems in \<open>auto split: if_splits\<close>)
qed simp

text \<open>Without a new issue, a call extends the closed order of visited nodes by the node it visits.\<close>

definition extends :: "workflow_node list \<Rightarrow> visit_state \<Rightarrow> visit_state \<Rightarrow> bool" where
  "extends nodes s t \<longleftrightarrow>
     prefix (vs_issues s) (vs_issues t) \<and> set (vs_visited s) \<subseteq> set (vs_visited t) \<and>
     (vs_issues t = vs_issues s \<longrightarrow> closed_order nodes (vs_visited s) \<longrightarrow> closed_order nodes (vs_visited t))"

lemma extends_refl [simp]: "extends nodes s s"
  by (simp add: extends_def)

lemma extends_trans: "extends nodes s t \<Longrightarrow> extends nodes t u \<Longrightarrow> extends nodes s u"
  unfolding extends_def by (metis prefix_order.antisym prefix_order.trans subset_trans)

lemma fold_visit_extends:
  assumes "\<And>x s t. f x s = Some t \<Longrightarrow> extends nodes s t \<and> (vs_issues t = vs_issues s \<longrightarrow> x \<in> set (vs_visited t))"
  shows "fold_opt f xs s = Some t \<Longrightarrow>
    extends nodes s t \<and> (vs_issues t = vs_issues s \<longrightarrow> set xs \<subseteq> set (vs_visited t))"
proof (induction xs arbitrary: s)
  case (Cons x xs)
  then obtain u where u: "f x s = Some u" "fold_opt f xs u = Some t" by (auto simp: bind_eq_Some_conv)
  from assms [OF u(1)] have su: "extends nodes s u" "vs_issues u = vs_issues s \<longrightarrow> x \<in> set (vs_visited u)" by auto
  from Cons.IH [OF u(2)] have ut: "extends nodes u t" "vs_issues t = vs_issues u \<longrightarrow> set xs \<subseteq> set (vs_visited t)" by auto
  have "vs_issues u = vs_issues s \<and> vs_issues t = vs_issues u" if "vs_issues t = vs_issues s"
    using su(1) ut(1) that unfolding extends_def by (metis prefix_order.antisym)
  moreover have "set (vs_visited u) \<subseteq> set (vs_visited t)" using ut(1) by (simp add: extends_def)
  ultimately show ?case using su ut extends_trans [OF su(1) ut(1)] by auto
qed simp

lemma visit_extends:
  "visit bound nodes i s = Some t \<Longrightarrow>
     extends nodes s t \<and> (vs_issues t = vs_issues s \<longrightarrow> i \<in> set (vs_visited t))"
proof (induction bound arbitrary: i s t)
  case (Suc bound)
  show ?case
  proof (cases "i \<in> set (vs_visited s) \<or> i \<in> set (vs_visiting s)")
    case False
    with Suc.prems obtain u where
      u: "fold_opt (visit bound nodes) (deps nodes i) (s\<lparr>vs_visiting := i # vs_visiting s\<rparr>) = Some u"
      and t: "t = u\<lparr>vs_visiting := removeAll i (vs_visiting u), vs_visited := i # vs_visited u\<rparr>"
      by auto
    from fold_visit_extends [OF Suc.IH u] t show ?thesis by (auto simp: extends_def)
  qed (use Suc.prems in \<open>auto simp: extends_def split: if_splits\<close>)
qed simp

text \<open>A new issue comes from a cycle.\<close>

lemma visit_issue:
  "visit bound nodes i s = Some t \<Longrightarrow> stack_chain nodes (i # vs_visiting s) \<Longrightarrow> acyclic_deps nodes \<Longrightarrow>
     vs_issues t = vs_issues s"
proof (induction bound arbitrary: i s t)
  case (Suc bound)
  show ?case
  proof (cases "i \<in> set (vs_visited s)")
    case True
    with Suc.prems show ?thesis by simp
  next
    case False
    have "i \<notin> set (vs_visiting s)"
      using stack_chain_reach [OF Suc.prems(2)] Suc.prems(3) by (auto simp: acyclic_deps_def)
    with False Suc.prems obtain u where
      u: "fold_opt (visit bound nodes) (deps nodes i) (s\<lparr>vs_visiting := i # vs_visiting s\<rparr>) = Some u"
      and t: "t = u\<lparr>vs_visiting := removeAll i (vs_visiting u), vs_visited := i # vs_visited u\<rparr>"
      by auto
    have "vs_visiting u = i # vs_visiting s \<and> vs_issues u = vs_issues s"
    proof (rule fold_opt_invariant [OF u])
      fix x r r'
      assume "x \<in> set (deps nodes i)" "visit bound nodes x r = Some r'"
        "vs_visiting r = i # vs_visiting s \<and> vs_issues r = vs_issues s"
      then show "vs_visiting r' = i # vs_visiting s \<and> vs_issues r' = vs_issues s"
        using Suc.IH [of x r r'] Suc.prems(2,3) by (auto simp: depends_def dest: visit_visiting)
    qed simp
    with t show ?thesis by simp
  qed
qed simp

text \<open>
  The bound: each nested call adds a node to those being visited, and they all come from the finite
  set of the ids and the dependencies.
\<close>

definition universe :: "workflow_node list \<Rightarrow> string set" where
  "universe nodes = wn_id ` set nodes \<union> set (concat (map wn_depends_on nodes))"

lemma finite_universe [simp]: "finite (universe nodes)"
  by (simp add: universe_def)

lemma card_universe: "card (universe nodes) < walk_bound nodes"
proof -
  have "card (universe nodes) \<le> card (wn_id ` set nodes) + card (set (concat (map wn_depends_on nodes)))"
    unfolding universe_def by (rule card_Un_le)
  also have "\<dots> \<le> length nodes + length (concat (map wn_depends_on nodes))"
    using card_length [of "map wn_id nodes"] card_length [of "concat (map wn_depends_on nodes)"] by simp
  finally show ?thesis by (simp add: walk_bound_def)
qed

lemma by_id_Some: "by_id nodes i = Some n \<Longrightarrow> n \<in> set nodes \<and> wn_id n = i"
  unfolding by_id_def by (drule find_Some_in) simp

lemma deps_universe: "set (deps nodes i) \<subseteq> universe nodes"
proof (cases "by_id nodes i")
  case (Some n)
  with by_id_Some [OF this] show ?thesis by (auto simp: deps_def universe_def)
qed (simp add: deps_def)

lemma deps_known: "deps nodes i \<noteq> [] \<Longrightarrow> i \<in> wn_id ` set nodes"
proof (cases "by_id nodes i")
  case (Some n)
  with by_id_Some [OF this] show ?thesis by auto
qed (simp add: deps_def)

lemma universe_less:
  assumes "i \<in> universe nodes" and "i \<notin> set path"
  shows "card (universe nodes - set (i # path)) < card (universe nodes - set path)"
  using assms by (intro psubset_card_mono) auto

lemma visit_total:
  "i \<in> universe nodes \<Longrightarrow> card (universe nodes - set (vs_visiting s)) < bound \<Longrightarrow>
     \<exists>t. visit bound nodes i s = Some t"
proof (induction bound arbitrary: i s)
  case (Suc bound)
  show ?case
  proof (cases "i \<in> set (vs_visited s) \<or> i \<in> set (vs_visiting s)")
    case False
    let ?s = "s\<lparr>vs_visiting := i # vs_visiting s\<rparr>"
    have less: "card (universe nodes - set (i # vs_visiting s)) < bound"
      using universe_less [of i nodes "vs_visiting s"] False Suc.prems by simp
    have "\<exists>t. fold_opt (visit bound nodes) (deps nodes i) ?s = Some t \<and> vs_visiting t = i # vs_visiting s"
    proof (rule fold_opt_total)
      fix x and r :: visit_state
      assume x: "x \<in> set (deps nodes i)" "vs_visiting r = i # vs_visiting s"
      then obtain t where "visit bound nodes x r = Some t"
        using Suc.IH [of x r] less deps_universe [of nodes i] by auto
      with x visit_visiting show "\<exists>t. visit bound nodes x r = Some t \<and> vs_visiting t = i # vs_visiting s"
        by fastforce
    qed simp
    with False show ?thesis by auto
  qed auto
qed simp

text \<open>The whole walk, from every node.\<close>

definition static_issues :: "workflow_definition \<Rightarrow> string list" where
  "static_issues d =
     concat (map binding_issues (concat (map wn_input_bindings (wd_nodes d)))) @
     duplicate_issues [] (wd_nodes d) @ concat (map (node_issues (wd_nodes d)) (wd_nodes d))"

lemma walk_all_total:
  fixes nodes and found
  defines "s \<equiv> \<lparr>vs_visiting = [], vs_visited = [], vs_issues = found\<rparr>"
  shows "\<exists>t. fold_opt (visit (walk_bound nodes) nodes) (map wn_id nodes) s = Some t \<and> vs_visiting t = []"
proof (rule fold_opt_total)
  fix x and r :: visit_state
  assume x: "x \<in> set (map wn_id nodes)" "vs_visiting r = []"
  then obtain t where "visit (walk_bound nodes) nodes x r = Some t"
    using visit_total [of x nodes r] card_universe [of nodes] by (auto simp: universe_def)
  with x visit_visiting show "\<exists>t. visit (walk_bound nodes) nodes x r = Some t \<and> vs_visiting t = []"
    by fastforce
qed (simp add: s_def)

lemma walk_all:
  fixes nodes and found
  defines "s \<equiv> \<lparr>vs_visiting = [], vs_visited = [], vs_issues = found\<rparr>"
  obtains t where "fold_opt (visit (walk_bound nodes) nodes) (map wn_id nodes) s = Some t"
    and "prefix found (vs_issues t)" and "vs_issues t = found \<longleftrightarrow> acyclic_deps nodes"
    and "acyclic_deps nodes \<Longrightarrow> closed_order nodes (vs_visited t) \<and> wn_id ` set nodes \<subseteq> set (vs_visited t)"
proof -
  obtain t where t: "fold_opt (visit (walk_bound nodes) nodes) (map wn_id nodes) s = Some t"
    using walk_all_total unfolding s_def by blast
  from fold_visit_extends [OF visit_extends t]
  have ext: "extends nodes s t" "vs_issues t = found \<longrightarrow> wn_id ` set nodes \<subseteq> set (vs_visited t)"
    by (auto simp: s_def)
  have closed: "closed_order nodes (vs_visited t)" if "vs_issues t = found"
    using ext(1) that by (simp add: extends_def s_def)
  have "acyclic_deps nodes" if "vs_issues t = found"
    unfolding acyclic_deps_def
  proof
    assume "\<exists>i. (depends nodes)\<^sup>+\<^sup>+ i i"
    then obtain i where i: "(depends nodes)\<^sup>+\<^sup>+ i i" by blast
    then have "deps nodes i \<noteq> []" by (auto simp: depends_def dest: tranclpD)
    with deps_known ext(2) that have "i \<in> set (vs_visited t)" by blast
    with closed_order_acyclic [OF closed [OF that]] i show False by blast
  qed
  moreover have "vs_issues t = found" if "acyclic_deps nodes"
  proof -
    have "vs_visiting t = [] \<and> vs_issues t = found"
      by (rule fold_opt_invariant [OF t])
         (auto simp: s_def dest: visit_visiting visit_issue [OF _ _ that])
    then show ?thesis ..
  qed
  moreover have "prefix found (vs_issues t)" using ext(1) by (simp add: extends_def s_def)
  ultimately show ?thesis using that [OF t] closed ext(2) by blast
qed

lemma definition_issues_total: "\<exists>found. definition_issues d = Some found"
  by (rule walk_all [of "wd_nodes d" "static_issues d"]) (simp add: definition_issues_def static_issues_def)

lemma definition_issues_empty:
  "definition_issues d = Some [] \<longleftrightarrow> static_issues d = [] \<and> acyclic_deps (wd_nodes d)"
proof (rule walk_all [of "wd_nodes d" "static_issues d"])
  fix t
  assume t: "fold_opt (visit (walk_bound (wd_nodes d)) (wd_nodes d)) (map wn_id (wd_nodes d))
      \<lparr>vs_visiting = [], vs_visited = [], vs_issues = static_issues d\<rparr> = Some t"
    and "prefix (static_issues d) (vs_issues t)"
    and "(vs_issues t = static_issues d) = acyclic_deps (wd_nodes d)"
  moreover from t have "definition_issues d = Some (vs_issues t)"
    by (simp add: definition_issues_def static_issues_def)
  ultimately show ?thesis by auto
qed

section \<open>The memoized depth\<close>

lemma traverse_ok:
  assumes "I s" and "\<And>x s. x \<in> set xs \<Longrightarrow> I s \<Longrightarrow>
    \<exists>y t. f x s = Some (Inr (y, t)) \<and> I t \<and> Q x y \<and> keys s \<subseteq> keys t \<and> x \<in> keys t"
  shows "\<exists>ys t. traverse f xs s = Some (Inr (ys, t)) \<and> I t \<and> list_all2 Q xs ys \<and>
    keys s \<subseteq> keys t \<and> set xs \<subseteq> keys t"
  using assms
proof (induction xs arbitrary: s)
  case (Cons x xs)
  then obtain y t where t: "f x s = Some (Inr (y, t))" "I t" "Q x y" "keys s \<subseteq> keys t" "x \<in> keys t"
    by (meson list.set_intros(1))
  with Cons.IH [of t] Cons.prems(2) obtain ys u where
    "traverse f xs t = Some (Inr (ys, u))" "I u" "list_all2 Q xs ys" "keys t \<subseteq> keys u" "set xs \<subseteq> keys u"
    by (meson list.set_intros(2))
  with t show ?case by auto
qed auto

text \<open>What is in the memo is right.\<close>

definition memo_sound :: "workflow_node list \<Rightarrow> depth_state \<Rightarrow> bool" where
  "memo_sound nodes s \<longleftrightarrow> (\<forall>(i, k) \<in> set (ds_depthById s). chain_length nodes i k)"

definition memo_keys :: "depth_state \<Rightarrow> string set" where
  "memo_keys s = fst ` set (ds_depthById s)"

lemma memo_lookup:
  "memo_sound nodes s \<Longrightarrow> map_of (ds_depthById s) i = Some k \<Longrightarrow> chain_length nodes i k \<and> i \<in> memo_keys s"
  by (force simp: memo_sound_def memo_keys_def dest: map_of_SomeD)

lemma depth_of_deps:
  assumes "list_all2 (chain_length nodes) (deps nodes i) depths"
  shows "chain_length nodes i (if depths \<noteq> [] then Max (set depths) + 1 else 1)"
proof (cases "deps nodes i = []")
  case True
  with assms chain_length_no_deps show ?thesis by simp
next
  case False
  define f where "f b = (THE k. chain_length nodes b k)" for b
  have f: "chain_length nodes b k \<Longrightarrow> k = f b" for b k
    unfolding f_def by (rule the_equality [symmetric]) (auto intro: chain_length_unique)
  from assms have "depths = map f (deps nodes i)"
    by (induction rule: list_all2_induct) (auto dest: f)
  moreover from assms have "chain_length nodes b (f b)" if "b \<in> set (deps nodes i)" for b
    using that by (induction rule: list_all2_induct) (auto dest: f)
  ultimately show ?thesis using chain_length_step [OF False] False by simp
qed

text \<open>
  On a node of a closed order, with no ancestor below it, the recursion ends within the length of the
  order, throws nothing and returns the longest chain.
\<close>

lemma depthOf_ok:
  assumes "closed_order nodes vs" and "i \<in> set vs" and "length vs < bound" and "memo_sound nodes s"
    and "\<forall>x \<in> set (ds_visiting s). \<not> (depends nodes)\<^sup>*\<^sup>* i x"
  shows "\<exists>k t. depthOf bound nodes i s = Some (Inr (k, t)) \<and>
           (memo_sound nodes t \<and> ds_visiting t = ds_visiting s) \<and> chain_length nodes i k \<and>
           memo_keys s \<subseteq> memo_keys t \<and> i \<in> memo_keys t"
  using assms
proof (induction vs arbitrary: i bound s)
  case (Cons v vs)
  show ?case
  proof (cases "i \<in> set vs")
    case True
    with Cons show ?thesis by simp
  next
    case False
    with Cons.prems have "i = v" by simp
    from Cons.prems(3) obtain b where b: "bound = Suc b" "length vs < b" by (cases bound) auto
    show ?thesis
    proof (cases "map_of (ds_depthById s) i")
      case (Some k)
      with memo_lookup [OF Cons.prems(4)] b show ?thesis using Cons.prems(4) by simp
    next
      case None
      let ?s = "s\<lparr>ds_visiting := i # ds_visiting s\<rparr>"
      have "\<exists>ys t. traverse (depthOf b nodes) (deps nodes i) ?s = Some (Inr (ys, t)) \<and>
          (memo_sound nodes t \<and> ds_visiting t = i # ds_visiting s) \<and>
          list_all2 (chain_length nodes) (deps nodes i) ys \<and> memo_keys ?s \<subseteq> memo_keys t \<and>
          set (deps nodes i) \<subseteq> memo_keys t"
      proof (rule traverse_ok)
        fix x and r :: depth_state
        assume x: "x \<in> set (deps nodes i)" and r: "memo_sound nodes r \<and> ds_visiting r = i # ds_visiting s"
        from x Cons.prems(1) \<open>i = v\<close> have "x \<in> set vs" "closed_order nodes vs" by auto
        moreover have "(depends nodes)\<^sup>*\<^sup>* i y" if "(depends nodes)\<^sup>*\<^sup>* x y" for y
          using x that by (meson converse_rtranclp_into_rtranclp depends_def)
        moreover have "\<not> (depends nodes)\<^sup>*\<^sup>* x i"
          using closed_order_reach \<open>x \<in> set vs\<close> \<open>closed_order nodes vs\<close> False by blast
        ultimately show "\<exists>y t. depthOf b nodes x r = Some (Inr (y, t)) \<and>
            (memo_sound nodes t \<and> ds_visiting t = i # ds_visiting s) \<and> chain_length nodes x y \<and>
            memo_keys r \<subseteq> memo_keys t \<and> x \<in> memo_keys t"
          using Cons.IH [of x b r] b r Cons.prems(5) by auto
      qed (use Cons.prems(4) in \<open>simp add: memo_sound_def\<close>)
      then obtain ys t where t: "traverse (depthOf b nodes) (deps nodes i) ?s = Some (Inr (ys, t))"
        "memo_sound nodes t" "ds_visiting t = i # ds_visiting s" "memo_keys s \<subseteq> memo_keys t"
        and "list_all2 (chain_length nodes) (deps nodes i) ys"
        by (auto simp: memo_keys_def)
      from depth_of_deps [OF this(5)]
      have "chain_length nodes i (if ys \<noteq> [] then Max (set ys) + 1 else 1)" .
      moreover have "i \<notin> set (ds_visiting s)" using Cons.prems(5) by auto
      ultimately show ?thesis
        using t None b by (auto simp: Let_def memo_sound_def memo_keys_def)
    qed
  qed
qed simp

lemma closed_order_filter: "closed_order nodes vs \<Longrightarrow> closed_order nodes (filter (\<lambda>x. x \<in> universe nodes) vs)"
  using deps_universe by (induction vs) fastforce+

text \<open>On acyclic dependencies the depths are all computed and right.\<close>

lemma depths_ok:
  assumes "acyclic_deps nodes"
  obtains ks t where "traverse (depthOf (walk_bound nodes) nodes) (map wn_id nodes)
      \<lparr>ds_depthById = [], ds_visiting = []\<rparr> = Some (Inr (ks, t))"
    and "memo_sound nodes t" and "wn_id ` set nodes \<subseteq> memo_keys t"
proof -
  obtain u where u: "closed_order nodes u" "wn_id ` set nodes \<subseteq> set u"
    by (rule walk_all [of nodes "[]"]) (use assms in blast)
  define vs where "vs = remdups (filter (\<lambda>x. x \<in> universe nodes) u)"
  have vs: "closed_order nodes vs"
    unfolding vs_def by (intro closed_order_remdups closed_order_filter u)
  have ids: "wn_id ` set nodes \<subseteq> set vs" using u(2) by (auto simp: vs_def universe_def)
  have "length vs = card (set vs)" by (simp add: vs_def length_remdups_card_conv)
  also have "\<dots> \<le> card (universe nodes)" by (rule card_mono) (auto simp: vs_def)
  finally have len: "length vs < walk_bound nodes" using card_universe [of nodes] by simp
  have "\<exists>ks t. traverse (depthOf (walk_bound nodes) nodes) (map wn_id nodes)
      \<lparr>ds_depthById = [], ds_visiting = []\<rparr> = Some (Inr (ks, t)) \<and>
      (memo_sound nodes t \<and> ds_visiting t = []) \<and> list_all2 (chain_length nodes) (map wn_id nodes) ks \<and>
      memo_keys \<lparr>ds_depthById = [], ds_visiting = []\<rparr> \<subseteq> memo_keys t \<and> set (map wn_id nodes) \<subseteq> memo_keys t"
  proof (rule traverse_ok)
    fix x and r :: depth_state
    assume "x \<in> set (map wn_id nodes)" and r: "memo_sound nodes r \<and> ds_visiting r = []"
    with ids have "x \<in> set vs" by auto
    with depthOf_ok [OF vs this len, of r] r
    show "\<exists>y t. depthOf (walk_bound nodes) nodes x r = Some (Inr (y, t)) \<and>
        (memo_sound nodes t \<and> ds_visiting t = []) \<and> chain_length nodes x y \<and>
        memo_keys r \<subseteq> memo_keys t \<and> x \<in> memo_keys t" by auto
  qed (simp add: memo_sound_def)
  with that show ?thesis by auto
qed

section \<open>Valid plans\<close>

text \<open>
  What a plan has to be, in terms of the plan alone: binding fields that fit their source, inputs
  that name a direct dependency once each, known dependencies, no cycle, chains of at most three
  nodes, and nodes that can be executed.
\<close>

fun binding_fits :: "binding_source \<Rightarrow> string option \<Rightarrow> string option \<Rightarrow> bool" where
  "binding_fits OutputText pointer artifact = (pointer = None \<and> artifact = None)"
| "binding_fits OutputJson pointer artifact = (\<not> no_text pointer \<and> artifact = None)"
| "binding_fits ArtifactSource pointer artifact = (pointer = None \<and> \<not> no_text artifact)"

definition inputs_valid :: "workflow_node \<Rightarrow> bool" where
  "inputs_valid n \<longleftrightarrow>
     distinct (map ib_name (wn_input_bindings n)) \<and>
     (\<forall>b \<in> set (wn_input_bindings n). ib_from_node b \<in> set (wn_depends_on n) \<and>
        binding_fits (ib_source b) (ib_json_pointer b) (ib_artifact_type b))"

definition well_formed_plan :: "workflow_definition \<Rightarrow> bool" where
  "well_formed_plan d \<longleftrightarrow>
     wd_nodes d \<noteq> [] \<and> length (wd_nodes d) \<le> 30 \<and> distinct (map wn_id (wd_nodes d)) \<and>
     (\<forall>n \<in> set (wd_nodes d). set (wn_depends_on n) \<subseteq> wn_id ` set (wd_nodes d) \<and> inputs_valid n) \<and>
     acyclic_deps (wd_nodes d)"

definition executable_node :: "plan_node \<Rightarrow> bool" where
  "executable_node n = (case pn_kind n of
     Integration \<Rightarrow> pn_dependsOn n \<noteq> []
   | ApprovalCheckpoint \<Rightarrow> pn_dependsOn n \<noteq> []
   | _ \<Rightarrow> \<not> (no_text (pn_capabilityId n) \<and> no_text (pn_promptAssetKey n) \<and> no_text (pn_agentId n)))"

definition valid_plan :: "workflow_definition \<Rightarrow> bool" where
  "valid_plan d \<longleftrightarrow> well_formed_plan d \<and> (\<forall>p. chain (wd_nodes d) p \<longrightarrow> length p \<le> maxDepth) \<and>
     (\<forall>n \<in> set (wd_nodes d). executable_node (toPlanNode n))"

lemma executable_iff: "node_error n = None \<longleftrightarrow> executable_node n"
  by (cases "pn_kind n") (auto simp: node_error_def executable_node_def)

lemma binding_issues_iff:
  "binding_issues b = [] \<longleftrightarrow> binding_fits (ib_source b) (ib_json_pointer b) (ib_artifact_type b)"
  by (cases "ib_source b") (auto simp: binding_issues_def no_text_def)

lemma duplicate_issues_iff:
  "duplicate_issues seen ns = [] \<longleftrightarrow> distinct (map wn_id ns) \<and> set seen \<inter> wn_id ` set ns = {}"
  by (induction ns arbitrary: seen) auto

lemma input_issues_iff:
  "input_issues n seen bs = [] \<longleftrightarrow>
     distinct (map ib_name bs) \<and> set seen \<inter> ib_name ` set bs = {} \<and>
     (\<forall>b \<in> set bs. ib_from_node b \<in> set (wn_depends_on n))"
  by (induction bs arbitrary: seen) auto

lemma node_issues_iff:
  "node_issues nodes n = [] \<longleftrightarrow>
     set (wn_depends_on n) \<subseteq> wn_id ` set nodes - {wn_id n} \<and> input_issues n [] (wn_input_bindings n) = []"
  by (auto simp: node_issues_def)

lemma deps_of_node:
  assumes "distinct (map wn_id nodes)" and "n \<in> set nodes"
  shows "deps nodes (wn_id n) = wn_depends_on n"
proof -
  from assms(2) have "by_id nodes (wn_id n) \<noteq> None" by (auto simp: by_id_def find_None_all)
  then obtain m where m: "by_id nodes (wn_id n) = Some m" by auto
  from by_id_Some [OF this] have "m \<in> set nodes" "wn_id m = wn_id n" by auto
  with assms have "m = n" by (metis unique_key_eq)
  with m show ?thesis by (simp add: deps_def)
qed

lemma static_issues_iff:
  assumes "acyclic_deps (wd_nodes d)"
  shows "static_issues d = [] \<longleftrightarrow> distinct (map wn_id (wd_nodes d)) \<and>
     (\<forall>n \<in> set (wd_nodes d). set (wn_depends_on n) \<subseteq> wn_id ` set (wd_nodes d) \<and> inputs_valid n)"
proof -
  have "wn_id n \<notin> set (wn_depends_on n)" if "distinct (map wn_id (wd_nodes d))" "n \<in> set (wd_nodes d)" for n
  proof
    assume "wn_id n \<in> set (wn_depends_on n)"
    then have "depends (wd_nodes d) (wn_id n) (wn_id n)" by (simp add: depends_def deps_of_node [OF that])
    with assms show False by (auto simp: acyclic_deps_def)
  qed
  then show ?thesis
    unfolding static_issues_def
    by (auto simp: binding_issues_iff duplicate_issues_iff node_issues_iff input_issues_iff inputs_valid_def)
qed

lemma parse_definition_iff:
  "parse_definition parse v = Some (Inr d) \<longleftrightarrow> parse v = Some d \<and> well_formed_plan d"
  "\<exists>r. parse_definition parse v = Some r"
  "parse_definition parse v = Some (Inl e) \<Longrightarrow> e = SchemaRejected"
proof -
  have empty: "definition_issues d = Some [] \<longleftrightarrow> distinct (map wn_id (wd_nodes d)) \<and>
     (\<forall>n \<in> set (wd_nodes d). set (wn_depends_on n) \<subseteq> wn_id ` set (wd_nodes d) \<and> inputs_valid n) \<and>
     acyclic_deps (wd_nodes d)" for d
    using static_issues_iff [of d] definition_issues_empty [of d] by blast
  show "parse_definition parse v = Some (Inr d) \<longleftrightarrow> parse v = Some d \<and> well_formed_plan d"
    using definition_issues_total [of d] empty [of d]
    by (auto simp: parse_definition_def well_formed_plan_def not_less Suc_le_eq split: option.splits if_splits)
  show "\<exists>r. parse_definition parse v = Some r"
    using definition_issues_total by (auto simp: parse_definition_def split: option.splits)
  show "parse_definition parse v = Some (Inl e) \<Longrightarrow> e = SchemaRejected"
    by (auto simp: parse_definition_def split: option.splits if_splits)
qed

section \<open>Accepted plans\<close>

definition longest_chain :: "workflow_node list \<Rightarrow> nat \<Rightarrow> bool" where
  "longest_chain nodes k \<longleftrightarrow>
     (\<exists>p. chain nodes p \<and> length p = k) \<and> (\<forall>p. chain nodes p \<longrightarrow> length p \<le> k)"

lemma depth_is_longest:
  assumes "memo_sound nodes t" and "wn_id ` set nodes \<subseteq> memo_keys t" and "nodes \<noteq> []"
  shows "longest_chain nodes (Max (snd ` set (ds_depthById t)))"
proof -
  let ?M = "Max (snd ` set (ds_depthById t))"
  have ne: "ds_depthById t \<noteq> []" using assms(2,3) by (auto simp: memo_keys_def)
  have le: "length (i # p) \<le> ?M" if "(i, k) \<in> set (ds_depthById t)" "chain nodes (i # p)" for i k p
  proof -
    have "length (i # p) \<le> k" using assms(1) that by (auto simp: memo_sound_def chain_length_def)
    also have "k \<le> ?M" using that(1) by (force intro: Max_ge)
    finally show ?thesis .
  qed
  have "?M \<in> snd ` set (ds_depthById t)" using ne by (intro Max_in) auto
  then obtain i where "(i, ?M) \<in> set (ds_depthById t)" by auto
  with assms(1) obtain q where "chain nodes (i # q)" "length (i # q) = ?M"
    by (force simp: memo_sound_def chain_length_def)
  then have pos: "1 \<le> ?M" by (metis One_nat_def Suc_le_eq length_greater_0_conv list.distinct(1))
  have "length p \<le> ?M" if "chain nodes p" for p
  proof (cases "length p \<le> 1")
    case False
    then obtain i j q where p: "p = i # j # q" by (cases p; cases "tl p") auto
    with that have "deps nodes i \<noteq> []" by (auto simp: depends_def)
    with deps_known assms(2) have "i \<in> memo_keys t" by blast
    then obtain k where "(i, k) \<in> set (ds_depthById t)" by (auto simp: memo_keys_def)
    with le that p show ?thesis by blast
  qed (use pos in simp)
  with \<open>chain nodes (i # q)\<close> \<open>length (i # q) = ?M\<close> show ?thesis unfolding longest_chain_def by blast
qed

definition graph_of :: "workflow_definition \<Rightarrow> nat \<Rightarrow> plan_graph" where
  "graph_of d k =
     \<lparr>pg_graphVersion = PLAN_GRAPH_VERSION, pg_definition = d, pg_nodes = map toPlanNode (wd_nodes d),
      pg_depth = k,
      pg_roots = map pn_key (filter (\<lambda>n. pn_dependsOn n = []) (map toPlanNode (wd_nodes d))),
      pg_leaves = plan_leaves (map toPlanNode (wd_nodes d))\<rparr>"

text \<open>On a well-formed plan the size and cycle checks pass; the rest decides.\<close>

lemma materialize_well_formed:
  assumes "well_formed_plan d"
  obtains k where "longest_chain (wd_nodes d) k"
    and "materialize_definition d =
      (if maxDepth < k then Some (Inl (PlanGraphError ''Plan depth exceeds 3'' ''plan_depth_exceeded''))
       else case List.map_filter node_error (map toPlanNode (wd_nodes d)) of
              e # _ \<Rightarrow> Some (Inl e) | [] \<Rightarrow> Some (Inr (graph_of d k)))"
proof -
  from assms have "acyclic_deps (wd_nodes d)" "wd_nodes d \<noteq> []" "\<not> maxNodes < length (wd_nodes d)"
    by (auto simp: well_formed_plan_def maxNodes_def)
  from depths_ok [OF this(1)] obtain ks t where
    t: "traverse (depthOf (walk_bound (wd_nodes d)) (wd_nodes d)) (map wn_id (wd_nodes d))
          \<lparr>ds_depthById = [], ds_visiting = []\<rparr> = Some (Inr (ks, t))"
    "memo_sound (wd_nodes d) t" "wn_id ` set (wd_nodes d) \<subseteq> memo_keys t" by blast
  show ?thesis
  proof (rule that)
    show "longest_chain (wd_nodes d) (Max (snd ` set (ds_depthById t)))"
      by (rule depth_is_longest [OF t(2,3) \<open>wd_nodes d \<noteq> []\<close>])
  qed (use t(1) \<open>\<not> maxNodes < _\<close> in \<open>simp add: materialize_definition_def graph_of_def Let_def split: list.splits\<close>)
qed

lemma map_filter_Nil: "List.map_filter f xs = [] \<longleftrightarrow> (\<forall>x \<in> set xs. f x = None)"
  by (induction xs) (auto simp: List.map_filter_simps split: option.splits)

lemma map_filter_hd: "List.map_filter f xs = y # ys \<Longrightarrow> \<exists>x \<in> set xs. f x = Some y"
  by (induction xs) (auto simp: List.map_filter_simps split: option.splits)

lemma longest_chain_unique: "longest_chain nodes k \<Longrightarrow> longest_chain nodes l \<Longrightarrow> k = l"
  unfolding longest_chain_def by (meson antisym)

lemma longest_chain_le: "longest_chain nodes k \<Longrightarrow> k \<le> m \<longleftrightarrow> (\<forall>p. chain nodes p \<longrightarrow> length p \<le> m)"
  unfolding longest_chain_def by (meson le_trans)

text \<open>The codes of the errors that can occur.\<close>

definition reachable_error :: "plan_error \<Rightarrow> bool" where
  "reachable_error e = (case e of
     SchemaRejected \<Rightarrow> True
   | PlanGraphError _ code \<Rightarrow>
       code \<in> {''plan_depth_exceeded'', ''invalid_node_atomicity'', ''leaf_not_executable''})"

lemma node_error_reachable: "node_error n = Some e \<Longrightarrow> reachable_error e"
  by (auto simp: node_error_def reachable_error_def split: if_splits)

lemma materialize_definition_outcome:
  assumes "well_formed_plan d"
  shows "(\<exists>e. materialize_definition d = Some (Inl e) \<and> reachable_error e \<and> \<not> valid_plan d) \<or>
         (\<exists>k. materialize_definition d = Some (Inr (graph_of d k)) \<and> longest_chain (wd_nodes d) k \<and>
              k \<le> maxDepth \<and> valid_plan d)"
proof (rule materialize_well_formed [OF assms])
  fix k
  assume k: "longest_chain (wd_nodes d) k"
    and m: "materialize_definition d =
      (if maxDepth < k then Some (Inl (PlanGraphError ''Plan depth exceeds 3'' ''plan_depth_exceeded''))
       else case List.map_filter node_error (map toPlanNode (wd_nodes d)) of
              e # _ \<Rightarrow> Some (Inl e) | [] \<Rightarrow> Some (Inr (graph_of d k)))"
  have chains: "k \<le> maxDepth \<longleftrightarrow> (\<forall>p. chain (wd_nodes d) p \<longrightarrow> length p \<le> maxDepth)"
    by (rule longest_chain_le [OF k])
  show ?thesis
  proof (cases "maxDepth < k")
    case True
    with m chains show ?thesis by (auto simp: reachable_error_def valid_plan_def)
  next
    case False
    show ?thesis
    proof (cases "List.map_filter node_error (map toPlanNode (wd_nodes d))")
      case Nil
      then have "\<forall>n \<in> set (wd_nodes d). executable_node (toPlanNode n)"
        by (simp add: map_filter_Nil executable_iff)
      with False Nil m k chains assms show ?thesis by (auto simp: valid_plan_def)
    next
      case (Cons e es)
      from map_filter_hd [OF this] obtain n where n: "n \<in> set (wd_nodes d)" "node_error (toPlanNode n) = Some e"
        by auto
      then have "\<not> executable_node (toPlanNode n)" by (simp flip: executable_iff)
      with n have "\<not> valid_plan d" by (auto simp: valid_plan_def)
      with False Cons m node_error_reachable [OF n(2)] show ?thesis by auto
    qed
  qed
qed

lemma materialize_outcome:
  "(\<exists>e. materializePlanGraph parse input = Some (Inl e) \<and> reachable_error e \<and>
        (case parse (unwrapStoredGraph input) of None \<Rightarrow> True | Some d \<Rightarrow> \<not> valid_plan d)) \<or>
   (\<exists>d k. materializePlanGraph parse input = Some (Inr (graph_of d k)) \<and>
        parse (unwrapStoredGraph input) = Some d \<and> longest_chain (wd_nodes d) k \<and> k \<le> maxDepth \<and> valid_plan d)"
proof -
  obtain r where r: "parse_definition parse (unwrapStoredGraph input) = Some r"
    using parse_definition_iff(2) by blast
  show ?thesis
  proof (cases r)
    case (Inl e)
    with r have "e = SchemaRejected" using parse_definition_iff(3) by blast
    moreover have "\<not> well_formed_plan d" if "parse (unwrapStoredGraph input) = Some d" for d
      using that r Inl parse_definition_iff(1) [of parse "unwrapStoredGraph input" d] by simp
    ultimately show ?thesis using r Inl
      by (auto simp: materializePlanGraph_def reachable_error_def valid_plan_def split: option.splits)
  next
    case (Inr d)
    with r have "parse (unwrapStoredGraph input) = Some d" "well_formed_plan d"
      by (simp_all add: parse_definition_iff(1))
    with materialize_definition_outcome [of d] r Inr show ?thesis
      by (auto simp: materializePlanGraph_def)
  qed
qed

text \<open>On acyclic dependencies every node depends on a root and is needed by a leaf, possibly itself.\<close>

lemma finite_depends: "finite {(a, b). depends nodes a b}"
proof (rule finite_subset)
  show "{(a, b). depends nodes a b} \<subseteq> universe nodes \<times> universe nodes"
  proof clarify
    fix a b
    assume "depends nodes a b"
    then have "b \<in> set (deps nodes a)" by (simp add: depends_def)
    moreover from this have "a \<in> wn_id ` set nodes" by (intro deps_known) auto
    ultimately show "a \<in> universe nodes \<and> b \<in> universe nodes"
      using deps_universe [of nodes a] by (auto simp: universe_def)
  qed
qed simp

lemma acyclic_depends: "acyclic_deps nodes \<longleftrightarrow> acyclic {(a, b). depends nodes a b}"
  by (simp add: acyclic_deps_def acyclic_def tranclp_unfold)

lemma reaches_root:
  assumes "acyclic_deps nodes" and "i \<in> wn_id ` set nodes"
    and "\<And>a b. depends nodes a b \<Longrightarrow> b \<in> wn_id ` set nodes"
  shows "\<exists>r \<in> wn_id ` set nodes. deps nodes r = [] \<and> (depends nodes)\<^sup>*\<^sup>* i r"
proof -
  have "wf ({(a, b). depends nodes a b}\<inverse>)"
    using assms(1) finite_depends by (simp add: acyclic_depends finite_acyclic_wf_converse)
  then show ?thesis using assms(2)
  proof (induction i rule: wf_induct_rule)
    case (less i)
    show ?case
    proof (cases "deps nodes i")
      case (Cons b bs)
      then have b: "depends nodes i b" by (simp add: depends_def)
      from b less.IH [of b] assms(3) [OF b] obtain r where "r \<in> wn_id ` set nodes" "deps nodes r = []"
        "(depends nodes)\<^sup>*\<^sup>* b r" by (simp, blast)
      with b show ?thesis by (meson converse_rtranclp_into_rtranclp)
    qed (use less in auto)
  qed
qed

lemma reached_from_leaf:
  assumes "acyclic_deps nodes" and "i \<in> wn_id ` set nodes"
  shows "\<exists>l \<in> wn_id ` set nodes. (\<nexists>a. depends nodes a l) \<and> (depends nodes)\<^sup>*\<^sup>* l i"
proof -
  have "wf {(a, b). depends nodes a b}"
    using assms(1) finite_depends by (simp add: acyclic_depends finite_acyclic_wf)
  then show ?thesis using assms(2)
  proof (induction i rule: wf_induct_rule)
    case (less i)
    show ?case
    proof (cases "\<exists>a. depends nodes a i")
      case True
      then obtain a where a: "depends nodes a i" ..
      then have "a \<in> wn_id ` set nodes" by (intro deps_known) (auto simp: depends_def)
      with a less.IH [of a] obtain l where "l \<in> wn_id ` set nodes" "\<nexists>a. depends nodes a l"
        "(depends nodes)\<^sup>*\<^sup>* l a" by auto
      with a show ?thesis by (meson rtranclp.rtrancl_into_rtrancl)
    qed (use less in auto)
  qed
qed

lemma valid_planD:
  assumes "valid_plan d"
  shows "acyclic_deps (wd_nodes d)" and "distinct (map wn_id (wd_nodes d))"
    and "depends (wd_nodes d) a b \<Longrightarrow> b \<in> wn_id ` set (wd_nodes d)"
proof -
  from assms have wf: "well_formed_plan d" by (simp add: valid_plan_def)
  then show "acyclic_deps (wd_nodes d)" "distinct (map wn_id (wd_nodes d))"
    by (simp_all add: well_formed_plan_def)
  assume "depends (wd_nodes d) a b"
  then have b: "b \<in> set (deps (wd_nodes d) a)" by (simp add: depends_def)
  then have "a \<in> wn_id ` set (wd_nodes d)" by (intro deps_known) auto
  then obtain n where n: "n \<in> set (wd_nodes d)" "a = wn_id n" by auto
  with b have "b \<in> set (wn_depends_on n)" using deps_of_node [OF \<open>distinct _\<close> n(1)] by simp
  with wf n(1) show "b \<in> wn_id ` set (wd_nodes d)" by (auto simp: well_formed_plan_def)
qed

lemma key_toPlanNode [simp]: "pn_key (toPlanNode n) = wn_id n" "pn_dependsOn (toPlanNode n) = wn_depends_on n"
  by (simp_all add: toPlanNode_def)

lemma graph_of_simps [simp]:
  "pg_definition (graph_of d k) = d" "pg_depth (graph_of d k) = k"
  "pg_nodes (graph_of d k) = map toPlanNode (wd_nodes d)"
  by (simp_all add: graph_of_def)

lemma roots_of_graph:
  "set (pg_roots (graph_of d k)) = {wn_id n | n. n \<in> set (wd_nodes d) \<and> wn_depends_on n = []}"
  by (auto simp: graph_of_def filter_map o_def)

lemma leaves_of_graph:
  "set (pg_leaves (graph_of d k)) =
     {wn_id n | n. n \<in> set (wd_nodes d) \<and> (\<forall>m \<in> set (wd_nodes d). wn_id n \<notin> set (wn_depends_on m))}"
  by (auto simp: graph_of_def plan_leaves_def filter_map o_def)

lemma graph_covers:
  assumes "valid_plan d" and "n \<in> set (wd_nodes d)"
  shows "\<exists>r \<in> set (pg_roots (graph_of d k)). (depends (wd_nodes d))\<^sup>*\<^sup>* (wn_id n) r"
    and "\<exists>l \<in> set (pg_leaves (graph_of d k)). (depends (wd_nodes d))\<^sup>*\<^sup>* l (wn_id n)"
proof -
  note d = valid_planD [OF assms(1)]
  have i: "wn_id n \<in> wn_id ` set (wd_nodes d)" using assms(2) by simp
  have "wn_id m \<in> set (pg_roots (graph_of d k))"
    if "m \<in> set (wd_nodes d)" "deps (wd_nodes d) (wn_id m) = []" for m
    using that deps_of_node [OF d(2) that(1)] by (auto simp: roots_of_graph)
  moreover have "\<exists>r \<in> wn_id ` set (wd_nodes d). deps (wd_nodes d) r = [] \<and>
      (depends (wd_nodes d))\<^sup>*\<^sup>* (wn_id n) r"
    by (rule reaches_root [OF d(1) i]) (rule d(3))
  then obtain m where "m \<in> set (wd_nodes d)"
    "deps (wd_nodes d) (wn_id m) = []" "(depends (wd_nodes d))\<^sup>*\<^sup>* (wn_id n) (wn_id m)" by auto
  ultimately show "\<exists>r \<in> set (pg_roots (graph_of d k)). (depends (wd_nodes d))\<^sup>*\<^sup>* (wn_id n) r" by blast
  have "wn_id m \<in> set (pg_leaves (graph_of d k))"
    if "m \<in> set (wd_nodes d)" "\<nexists>a. depends (wd_nodes d) a (wn_id m)" for m
  proof -
    have "wn_id m \<notin> set (wn_depends_on a)" if a: "a \<in> set (wd_nodes d)" for a
      using \<open>\<nexists>a. depends (wd_nodes d) a (wn_id m)\<close> deps_of_node [OF d(2) a]
      by (metis depends_def)
    with that(1) show ?thesis by (auto simp: leaves_of_graph)
  qed
  moreover from reached_from_leaf [OF d(1) i] obtain m where "m \<in> set (wd_nodes d)"
    "\<nexists>a. depends (wd_nodes d) a (wn_id m)" "(depends (wd_nodes d))\<^sup>*\<^sup>* (wn_id m) (wn_id n)" by auto
  ultimately show "\<exists>l \<in> set (pg_leaves (graph_of d k)). (depends (wd_nodes d))\<^sup>*\<^sup>* l (wn_id n)" by blast
qed

section \<open>Properties\<close>

text \<open>
  Whatever the library's shape check accepts, \<open>materializePlanGraph\<close> returns a graph exactly for
  the valid plans: unique ids, known dependencies, well-formed inputs, no cycle, chains of at most
  three nodes, every node executable.
\<close>

theorem plan_graph_accepts:
  "(\<exists>g. materializePlanGraph parse input = Some (Inr g)) \<longleftrightarrow>
     (case parse (unwrapStoredGraph input) of None \<Rightarrow> False | Some d \<Rightarrow> valid_plan d)"
  using materialize_outcome [of parse input] by (auto split: option.splits)

text \<open>
  C16: the walks always end; the errors for a cycle and for too many nodes never occur, since the
  schema rejects both first; and a graph that is returned records the length of its longest
  dependency chain as its depth, every node depends on a root and is needed by a leaf.
\<close>

theorem plan_graph_structure:
  "case materializePlanGraph parse input of
     None \<Rightarrow> False
   | Some (Inl e) \<Rightarrow> \<nexists>reason. e \<in> {PlanGraphError reason ''plan_cycle'', PlanGraphError reason ''plan_size_exceeded''}
   | Some (Inr g) \<Rightarrow>
       let nodes = wd_nodes (pg_definition g); keys = map pn_key (pg_nodes g)
       in keys = map wn_id nodes \<and> distinct keys \<and> acyclic_deps nodes \<and>
          longest_chain nodes (pg_depth g) \<and> pg_depth g \<le> 3 \<and>
          list_all (\<lambda>i. list_ex (\<lambda>r. (depends nodes)\<^sup>*\<^sup>* i r) (pg_roots g) \<and>
                        list_ex (\<lambda>l. (depends nodes)\<^sup>*\<^sup>* l i) (pg_leaves g)) keys"
  using materialize_outcome [of parse input]
proof (elim disjE exE conjE)
  fix e
  assume "materializePlanGraph parse input = Some (Inl e)" "reachable_error e"
  then show ?thesis by (auto simp: reachable_error_def)
next
  fix d k
  assume g: "materializePlanGraph parse input = Some (Inr (graph_of d k))"
    and k: "longest_chain (wd_nodes d) k" "k \<le> maxDepth" and d: "valid_plan d"
  from valid_planD [OF d] graph_covers [OF d] g k show ?thesis
    by (simp add: list_all_iff list_ex_iff Let_def maxDepth_def o_def)
qed

end
