(* ===== verification/RunBudget.thy ===== *)
theory RunBudget
  imports JsValue
begin

text \<open>
  The budget part of a run contract (\<open>runs/contractSnapshot.ts\<close>): several carriers (the task, the
  automation, the workflow, ...) may each cap runs, attempts, cost and duration, and the contract
  freezes one effective cap per dimension together with the carrier it comes from. The last part is
  the snapshot itself with its JSON copies.
\<close>

section \<open>Sources\<close>

datatype source_kind = Direct | Task | Automation | Workflow | Delegation | Plan

definition source_kind_text :: "source_kind \<Rightarrow> string" where
  "source_kind_text k = (case k of
     Direct \<Rightarrow> ''direct'' | Task \<Rightarrow> ''task'' | Automation \<Rightarrow> ''automation''
   | Workflow \<Rightarrow> ''workflow'' | Delegation \<Rightarrow> ''delegation'' | Plan \<Rightarrow> ''plan'')"

definition isSourceKind :: "jsval \<Rightarrow> source_kind option" where
  "isSourceKind v =
     List.find (\<lambda>k. strict_eq v (JStr (source_kind_text k)))
       [Direct, Task, Automation, Workflow, Delegation, Plan]"

text \<open>A source names its carrier: the kind and the id (any value, \<open>null\<close> when there is none).\<close>

record contract_source =
  cs_kind :: source_kind
  cs_id :: jsval

datatype budget_dimension = MaxRuns | MaxAttempts | MaxCost | MaxDuration

definition BUDGET_DIMENSIONS :: "budget_dimension list" where
  "BUDGET_DIMENSIONS = [MaxRuns, MaxAttempts, MaxCost, MaxDuration]"

record budget_source =
  bs_source :: contract_source
  bs_precedence :: "rat option"
  bs_max_runs :: "rat option"
  bs_max_attempts :: "rat option"
  bs_max_cost :: "rat option"
  bs_max_duration_seconds :: "rat option"

fun cap_of :: "budget_dimension \<Rightarrow> budget_source \<Rightarrow> rat option" where
  "cap_of MaxRuns s = bs_max_runs s"
| "cap_of MaxAttempts s = bs_max_attempts s"
| "cap_of MaxCost s = bs_max_cost s"
| "cap_of MaxDuration s = bs_max_duration_seconds s"

section \<open>Reading the numbers\<close>

text \<open>\<open>typeof value === "number"\<close> with \<open>isFinite\<close> is \<^const>\<open>num\<close>.\<close>

definition finiteNumberOrNull :: "jsval \<Rightarrow> rat option" where
  "finiteNumberOrNull v = num v"

definition positiveIntegerOrNull :: "jsval \<Rightarrow> rat option" where
  "positiveIntegerOrNull v =
     (case num v of None \<Rightarrow> None | Some q \<Rightarrow> if of_int \<lfloor>q\<rfloor> = q \<and> 0 < q then Some q else None)"

definition nonNegativeNumberOrNull :: "jsval \<Rightarrow> rat option" where
  "nonNegativeNumberOrNull v =
     (case num v of None \<Rightarrow> None | Some q \<Rightarrow> if 0 \<le> q then Some q else None)"

definition positiveNumberOrNull :: "jsval \<Rightarrow> rat option" where
  "positiveNumberOrNull v =
     (case num v of None \<Rightarrow> None | Some q \<Rightarrow> if 0 < q then Some q else None)"

text \<open>
  A declared source is dropped when it is falsy or names no known carrier. Reading a property of a
  primitive gives \<open>undefined\<close>.
\<close>

definition prop_of :: "jsval \<Rightarrow> string \<Rightarrow> jsval" where
  "prop_of v k = get (record_or_empty v) k"

definition normalizeBudgetSource :: "jsval \<Rightarrow> budget_source option" where
  "normalizeBudgetSource input =
     (if \<not> truthy input \<or> \<not> truthy (prop_of input ''source'') then None
      else
        case isSourceKind (prop_of (prop_of input ''source'') ''kind'') of
          None \<Rightarrow> None
        | Some kind \<Rightarrow>
            Some \<lparr>bs_source = \<lparr>cs_kind = kind, cs_id = coalesce (prop_of (prop_of input ''source'') ''id'') JNull\<rparr>,
                  bs_precedence =
                    map_option (\<lambda>p. max 0 (of_int \<lfloor>p\<rfloor>)) (finiteNumberOrNull (prop_of input ''precedence'')),
                  bs_max_runs = positiveIntegerOrNull (prop_of input ''max_runs''),
                  bs_max_attempts = positiveIntegerOrNull (prop_of input ''max_attempts''),
                  bs_max_cost = nonNegativeNumberOrNull (prop_of input ''max_cost''),
                  bs_max_duration_seconds = positiveNumberOrNull (prop_of input ''max_duration_seconds'')\<rparr>)"

section \<open>Resolution\<close>

record effective_budget =
  eb_max_runs :: "rat option"
  eb_max_attempts :: "rat option"
  eb_max_cost :: "rat option"
  eb_max_duration_seconds :: "rat option"

fun effective_cap :: "budget_dimension \<Rightarrow> effective_budget \<Rightarrow> rat option" where
  "effective_cap MaxRuns e = eb_max_runs e"
| "effective_cap MaxAttempts e = eb_max_attempts e"
| "effective_cap MaxCost e = eb_max_cost e"
| "effective_cap MaxDuration e = eb_max_duration_seconds e"

datatype resolution_mode = ExplicitPrecedence | StrictestOfAll | NoSources

record budget_resolution =
  br_mode :: resolution_mode
  br_selected :: "budget_dimension \<Rightarrow> contract_source option"
  br_declared_precedence :: "(contract_source \<times> rat) list"

record resolved_budget =
  rb_sources :: "budget_source list"
  rb_effective :: effective_budget
  rb_resolution :: budget_resolution

text \<open>
  The sources that may bind a dimension: those that cap it, and among them only the highest
  declared precedence when any is declared.
\<close>

definition precedences :: "budget_source list \<Rightarrow> rat list" where
  "precedences ss = List.map_filter bs_precedence ss"

definition eligible_sources :: "budget_dimension \<Rightarrow> budget_source list \<Rightarrow> budget_source list" where
  "eligible_sources d sources =
     (let candidates = filter (\<lambda>s. cap_of d s \<noteq> None) sources;
          explicit = filter (\<lambda>s. bs_precedence s \<noteq> None) candidates
      in if explicit \<noteq> [] then filter (\<lambda>s. bs_precedence s = Some (Max (set (precedences explicit)))) explicit
         else candidates)"

text \<open>\<open>eligible.reduce(...)\<close>: the first source with the smallest cap.\<close>

definition stricter :: "budget_dimension \<Rightarrow> budget_source \<Rightarrow> budget_source \<Rightarrow> budget_source" where
  "stricter d current candidate =
     (if the (cap_of d candidate) < the (cap_of d current) then candidate else current)"

definition winning_source :: "budget_dimension \<Rightarrow> budget_source list \<Rightarrow> budget_source option" where
  "winning_source d sources =
     (case eligible_sources d sources of
        [] \<Rightarrow> None
      | s # ss \<Rightarrow> Some (foldl (stricter d) s ss))"

definition winning_cap :: "budget_dimension \<Rightarrow> budget_source list \<Rightarrow> rat option" where
  "winning_cap d sources = Option.bind (winning_source d sources) (cap_of d)"

definition resolveBudget :: "budget_source list \<Rightarrow> resolved_budget" where
  "resolveBudget sources =
     (let declared = List.map_filter (\<lambda>s. map_option (Pair (bs_source s)) (bs_precedence s)) sources
      in \<lparr>rb_sources = sources,
          rb_effective = \<lparr>eb_max_runs = winning_cap MaxRuns sources,
                          eb_max_attempts = winning_cap MaxAttempts sources,
                          eb_max_cost = winning_cap MaxCost sources,
                          eb_max_duration_seconds = winning_cap MaxDuration sources\<rparr>,
          rb_resolution =
            \<lparr>br_mode = (if sources = [] then NoSources
                       else if declared \<noteq> [] then ExplicitPrecedence else StrictestOfAll),
             br_selected = (\<lambda>d. map_option bs_source (winning_source d sources)),
             br_declared_precedence = declared\<rparr>\<rparr>)"

definition resolveBudgetSources :: "jsval list \<Rightarrow> resolved_budget" where
  "resolveBudgetSources sources = resolveBudget (List.map_filter normalizeBudgetSource sources)"

section \<open>The contract snapshot\<close>

text \<open>
  \<open>JSON.parse(JSON.stringify(v))\<close>: an undefined member of an object is dropped, an undefined element
  of an array and a number that is not finite become \<open>null\<close>; \<open>cloneJson\<close> maps \<open>undefined\<close> to \<open>null\<close>.
\<close>

fun json_copy :: "jsval \<Rightarrow> jsval" where
  "json_copy JUndef = JNull"
| "json_copy JNaN = JNull"
| "json_copy (JInf _) = JNull"
| "json_copy (JArr vs) = JArr (map json_copy vs)"
| "json_copy (JObj ob) = JObj (map (\<lambda>(k, v). (k, json_copy v)) (filter (\<lambda>e. snd e \<noteq> JUndef) ob))"
| "json_copy JNull = JNull"
| "json_copy (JBool b) = JBool b"
| "json_copy (JNum q) = JNum q"
| "json_copy (JStr s) = JStr s"

definition cloneJson :: "jsval \<Rightarrow> jsval" where
  "cloneJson v = (if v = JUndef then JNull else json_copy v)"

record contract_input =
  ci_source :: contract_source
  ci_project_id :: "string option"
  ci_workspace_id :: "string option"
  ci_acceptance_criteria_json :: jsval
  ci_definition_of_done :: "string option"
  ci_required_outputs_json :: jsval
  ci_structured_output_json :: jsval
  ci_risk_level :: "string option"
  ci_max_runs :: jsval
  ci_max_attempts :: jsval
  ci_max_cost :: jsval
  ci_max_duration_seconds :: jsval
  ci_budget_precedence :: jsval
  ci_budget_sources :: jsval
  ci_workflow_input_json :: jsval
  ci_upstream_inputs_json :: jsval
  ci_route_hints_json :: jsval
  ci_policy_context_json :: jsval

record contract_snapshot =
  ct_contract_version :: string
  ct_source :: contract_source
  ct_project_id :: "string option"
  ct_workspace_id :: "string option"
  ct_acceptance_criteria_json :: jsval
  ct_definition_of_done :: "string option"
  ct_required_outputs_json :: jsval
  ct_structured_output_json :: jsval
  ct_risk_level :: "string option"
  ct_max_runs :: "rat option"
  ct_max_attempts :: "rat option"
  ct_max_cost :: "rat option"
  ct_max_duration_seconds :: "rat option"
  ct_budget_sources :: "budget_source list"
  ct_effective_budget :: effective_budget
  ct_budget_resolution :: budget_resolution
  ct_workflow_input_json :: jsval
  ct_upstream_inputs_json :: jsval
  ct_route_hints_json :: jsval
  ct_policy_context_json :: jsval
  ct_created_at :: string

definition RUN_CONTRACT_VERSION :: string where
  "RUN_CONTRACT_VERSION = ''run_contract.v1''"

text \<open>
  The flat fields of older callers count as one more source, in front of the declared ones. Its
  precedence is taken as it is, without the rounding of a declared source.
\<close>

definition legacy_source :: "contract_input \<Rightarrow> budget_source" where
  "legacy_source i =
     \<lparr>bs_source = \<lparr>cs_kind = cs_kind (ci_source i), cs_id = coalesce (cs_id (ci_source i)) JNull\<rparr>,
      bs_precedence = finiteNumberOrNull (ci_budget_precedence i),
      bs_max_runs = positiveIntegerOrNull (ci_max_runs i),
      bs_max_attempts = positiveIntegerOrNull (ci_max_attempts i),
      bs_max_cost = nonNegativeNumberOrNull (ci_max_cost i),
      bs_max_duration_seconds = positiveNumberOrNull (ci_max_duration_seconds i)\<rparr>"

definition normalizeBudgetSources :: "contract_input \<Rightarrow> budget_source list" where
  "normalizeBudgetSources i =
     (let explicit = (case ci_budget_sources i of
                        JArr vs \<Rightarrow> List.map_filter normalizeBudgetSource vs | _ \<Rightarrow> []);
          legacy = legacy_source i;
          hasLegacyValue = list_ex (\<lambda>d. cap_of d legacy \<noteq> None) BUDGET_DIMENSIONS
      in if explicit = [] then (if hasLegacyValue then [legacy] else [])
         else if \<not> hasLegacyValue then explicit else legacy # explicit)"

text \<open>An absent input is the input with no field set, of kind \<open>direct\<close>.\<close>

definition empty_contract_input :: contract_input where
  "empty_contract_input =
     \<lparr>ci_source = \<lparr>cs_kind = Direct, cs_id = JNull\<rparr>, ci_project_id = None, ci_workspace_id = None,
      ci_acceptance_criteria_json = JUndef, ci_definition_of_done = None,
      ci_required_outputs_json = JUndef, ci_structured_output_json = JUndef, ci_risk_level = None,
      ci_max_runs = JUndef, ci_max_attempts = JUndef, ci_max_cost = JUndef,
      ci_max_duration_seconds = JUndef, ci_budget_precedence = JUndef, ci_budget_sources = JUndef,
      ci_workflow_input_json = JUndef, ci_upstream_inputs_json = JUndef,
      ci_route_hints_json = JUndef, ci_policy_context_json = JUndef\<rparr>"

definition createRunContractSnapshot :: "contract_input option \<Rightarrow> string \<Rightarrow> contract_snapshot" where
  "createRunContractSnapshot input createdAt =
     (let i = (case input of None \<Rightarrow> empty_contract_input | Some i \<Rightarrow> i);
          budget = resolveBudget (normalizeBudgetSources i);
          eff = rb_effective budget
      in \<lparr>ct_contract_version = RUN_CONTRACT_VERSION,
          ct_source = \<lparr>cs_kind = cs_kind (ci_source i), cs_id = coalesce (cs_id (ci_source i)) JNull\<rparr>,
          ct_project_id = ci_project_id i,
          ct_workspace_id = ci_workspace_id i,
          ct_acceptance_criteria_json = cloneJson (ci_acceptance_criteria_json i),
          ct_definition_of_done = ci_definition_of_done i,
          ct_required_outputs_json = cloneJson (ci_required_outputs_json i),
          ct_structured_output_json = cloneJson (ci_structured_output_json i),
          ct_risk_level = ci_risk_level i,
          ct_max_runs = eb_max_runs eff,
          ct_max_attempts = eb_max_attempts eff,
          ct_max_cost = eb_max_cost eff,
          ct_max_duration_seconds = eb_max_duration_seconds eff,
          ct_budget_sources = rb_sources budget,
          ct_effective_budget = eff,
          ct_budget_resolution = rb_resolution budget,
          ct_workflow_input_json = cloneJson (ci_workflow_input_json i),
          ct_upstream_inputs_json = cloneJson (ci_upstream_inputs_json i),
          ct_route_hints_json = cloneJson (ci_route_hints_json i),
          ct_policy_context_json = cloneJson (ci_policy_context_json i),
          ct_created_at = createdAt\<rparr>)"

text \<open>How other modules read a stored contract back.\<close>

definition contractRecord :: "jsval \<Rightarrow> jsobj" where
  "contractRecord v = record_or_empty v"

definition contractRouteHints :: "jsval \<Rightarrow> jsval" where
  "contractRouteHints v = (case asRecord v of
     None \<Rightarrow> JNull
   | Some r \<Rightarrow> coalesce (coalesce (get r ''route_hints_json'') (get r ''route_hints'')) JNull)"

section \<open>What binds a dimension\<close>

text \<open>
  The contract of the resolution: a source binds a dimension when it caps it and no other source
  that caps it outranks it. A declared precedence outranks an undeclared one and any smaller one.
\<close>

fun outranks :: "rat option \<Rightarrow> rat option \<Rightarrow> bool" where
  "outranks None _ = False"
| "outranks (Some p) None = True"
| "outranks (Some p) (Some q) = (q < p)"

definition binds :: "budget_dimension \<Rightarrow> budget_source list \<Rightarrow> budget_source \<Rightarrow> bool" where
  "binds d sources s \<longleftrightarrow> s \<in> set sources \<and> cap_of d s \<noteq> None \<and>
     (\<forall>t \<in> set sources. cap_of d t \<noteq> None \<longrightarrow> \<not> outranks (bs_precedence t) (bs_precedence s))"

lemma precedences_set: "set (precedences ss) = {p. \<exists>s \<in> set ss. bs_precedence s = Some p}"
  by (force simp: precedences_def List.map_filter_def)

lemma eligible_explicit:
  assumes "t \<in> set sources" and "cap_of d t \<noteq> None" and "bs_precedence t = Some p"
  shows "s \<in> set (eligible_sources d sources) \<longleftrightarrow> s \<in> set sources \<and> cap_of d s \<noteq> None \<and>
           (\<exists>q. bs_precedence s = Some q \<and>
             (\<forall>u \<in> set sources. \<forall>r. cap_of d u \<noteq> None \<longrightarrow> bs_precedence u = Some r \<longrightarrow> r \<le> q))"
proof -
  define E where "E = filter (\<lambda>s. bs_precedence s \<noteq> None) (filter (\<lambda>s. cap_of d s \<noteq> None) sources)"
  define P where "P = set (precedences E)"
  have E: "u \<in> set E \<longleftrightarrow> u \<in> set sources \<and> cap_of d u \<noteq> None \<and> bs_precedence u \<noteq> None" for u
    by (auto simp: E_def)
  have P: "q \<in> P \<longleftrightarrow> (\<exists>u \<in> set E. bs_precedence u = Some q)" for q
    by (simp add: P_def precedences_set)
  have "t \<in> set E" using assms E by simp
  then have "E \<noteq> []" by auto
  then have el: "eligible_sources d sources = filter (\<lambda>s. bs_precedence s = Some (Max P)) E"
    unfolding eligible_sources_def Let_def P_def E_def by (rule if_P)
  have "finite P" by (simp add: P_def)
  moreover have "p \<in> P" using P \<open>t \<in> set E\<close> assms(3) by auto
  ultimately have max: "q = Max P \<longleftrightarrow> q \<in> P \<and> (\<forall>r \<in> P. r \<le> q)" for q
    by (metis Max_ge Max_in antisym empty_iff)
  show ?thesis
  proof (cases "bs_precedence s")
    case (Some q)
    have "s \<in> set (eligible_sources d sources) \<longleftrightarrow> s \<in> set E \<and> q = Max P"
      by (auto simp: el Some)
    also have "\<dots> \<longleftrightarrow> s \<in> set E \<and> (\<forall>r \<in> P. r \<le> q)"
      unfolding max using P Some by blast
    also have "\<dots> \<longleftrightarrow> s \<in> set E \<and> (\<forall>u \<in> set E. \<forall>r. bs_precedence u = Some r \<longrightarrow> r \<le> q)"
      using P by blast
    finally show ?thesis using E Some by auto
  qed (simp add: el)
qed

lemma eligible_implicit:
  assumes "\<And>t. t \<in> set sources \<Longrightarrow> cap_of d t \<noteq> None \<Longrightarrow> bs_precedence t = None"
  shows "eligible_sources d sources = filter (\<lambda>s. cap_of d s \<noteq> None) sources"
proof -
  have "filter (\<lambda>s. bs_precedence s \<noteq> None) (filter (\<lambda>s. cap_of d s \<noteq> None) sources) = []"
    using assms unfolding filter_empty_conv by simp
  then show ?thesis by (simp add: eligible_sources_def Let_def)
qed

lemma outranks_iff: "outranks a b \<longleftrightarrow> (\<exists>p. a = Some p \<and> (b = None \<or> (\<exists>q. b = Some q \<and> q < p)))"
  by (cases a; cases b) auto

lemma eligible_binds: "s \<in> set (eligible_sources d sources) \<longleftrightarrow> binds d sources s"
proof (cases "\<exists>t \<in> set sources. cap_of d t \<noteq> None \<and> bs_precedence t \<noteq> None")
  case True
  then obtain t p where t: "t \<in> set sources" "cap_of d t \<noteq> None" "bs_precedence t = Some p" by auto
  show ?thesis
    unfolding eligible_explicit [OF t] binds_def outranks_iff using t
    by (cases "bs_precedence s") (auto simp: not_less)
next
  case False
  then have "eligible_sources d sources = filter (\<lambda>s. cap_of d s \<noteq> None) sources"
    by (intro eligible_implicit) auto
  with False show ?thesis unfolding binds_def outranks_iff by fastforce
qed

lemma binds_exists:
  assumes "s \<in> set sources" and "cap_of d s \<noteq> None"
  shows "\<exists>t. binds d sources t"
proof (cases "\<exists>t \<in> set sources. cap_of d t \<noteq> None \<and> bs_precedence t \<noteq> None")
  case True
  define P where "P = set (precedences (filter (\<lambda>s. cap_of d s \<noteq> None) sources))"
  have P: "p \<in> P \<longleftrightarrow> (\<exists>t \<in> set sources. cap_of d t \<noteq> None \<and> bs_precedence t = Some p)" for p
    by (auto simp: P_def precedences_set)
  have "finite P" by (simp add: P_def)
  moreover have "P \<noteq> {}" using True P by auto
  ultimately have "Max P \<in> P" "\<And>p. p \<in> P \<Longrightarrow> p \<le> Max P" by auto
  then obtain t where "t \<in> set sources" "cap_of d t \<noteq> None" "bs_precedence t = Some (Max P)"
    using P by blast
  moreover have "q \<le> Max P" if "u \<in> set sources" "cap_of d u \<noteq> None" "bs_precedence u = Some q" for u q
    using \<open>\<And>p. p \<in> P \<Longrightarrow> p \<le> Max P\<close> P that by blast
  ultimately have "binds d sources t" unfolding binds_def outranks_iff by (auto simp: not_less)
  then show ?thesis ..
next
  case False
  with assms show ?thesis by (force simp: binds_def outranks_iff)
qed

lemma foldl_stricter:
  "foldl (stricter d) s ss \<in> set (s # ss) \<and>
   (\<forall>t \<in> set (s # ss). the (cap_of d (foldl (stricter d) s ss)) \<le> the (cap_of d t))"
proof (induction ss arbitrary: s)
  case (Cons t ss)
  have "stricter d s t \<in> {s, t}" "the (cap_of d (stricter d s t)) \<le> the (cap_of d s)"
    "the (cap_of d (stricter d s t)) \<le> the (cap_of d t)"
    by (auto simp: stricter_def)
  moreover have "the (cap_of d (foldl (stricter d) (stricter d s t) ss)) \<le> the (cap_of d (stricter d s t))"
    using Cons.IH [of "stricter d s t"] by simp
  ultimately show ?case using Cons.IH [of "stricter d s t"] by auto
qed simp

text \<open>The winner binds, and no binding cap is smaller than its own.\<close>

lemma winning_source_None: "winning_source d sources = None \<longleftrightarrow> (\<forall>s \<in> set sources. cap_of d s = None)"
proof -
  have "winning_source d sources = None \<longleftrightarrow> (\<forall>s. \<not> binds d sources s)"
    by (cases "eligible_sources d sources") (auto simp: winning_source_def simp flip: eligible_binds)
  then show ?thesis using binds_exists by (meson binds_def)
qed

lemma winning_source_Some:
  assumes "winning_source d sources = Some w"
  shows "binds d sources w" and "binds d sources t \<Longrightarrow> the (cap_of d w) \<le> the (cap_of d t)"
proof -
  from assms obtain s ss where e: "eligible_sources d sources = s # ss" and w: "w = foldl (stricter d) s ss"
    by (auto simp: winning_source_def split: list.splits)
  show "binds d sources w" using foldl_stricter [of d s ss] e w by (simp flip: eligible_binds)
  assume "binds d sources t"
  then show "the (cap_of d w) \<le> the (cap_of d t)"
    using foldl_stricter [of d s ss] e w by (auto simp flip: eligible_binds)
qed

lemma winning_cap_Some_iff:
  "winning_cap d sources = Some c \<longleftrightarrow>
     (\<exists>w. winning_source d sources = Some w \<and> cap_of d w = Some c)"
  by (auto simp: winning_cap_def bind_eq_Some_conv)

lemma winning_cap_None: "winning_cap d sources = None \<longleftrightarrow> (\<forall>s \<in> set sources. cap_of d s = None)"
  using winning_source_Some(1) [of d sources] winning_source_None [of d sources]
  by (auto simp: winning_cap_def binds_def bind_eq_None_conv)

lemma winning_cap_least:
  assumes "winning_cap d sources = Some c" and "binds d sources s" and "cap_of d s = Some c'"
  shows "c \<le> c'"
  using assms winning_source_Some(2) [of d sources _ s] by (auto simp: winning_cap_Some_iff)

lemma effective_cap_resolve [simp]:
  "effective_cap d (rb_effective (resolveBudget sources)) = winning_cap d sources"
  by (cases d) (simp_all add: resolveBudget_def Let_def)

lemma selected_resolve [simp]:
  "br_selected (rb_resolution (resolveBudget sources)) d = map_option bs_source (winning_source d sources)"
  by (simp add: resolveBudget_def Let_def)

lemma cap_of_precedence [simp]: "cap_of d (s\<lparr>bs_precedence := p\<rparr>) = cap_of d s"
  by (cases d) simp_all

text \<open>A binding source stays binding when a source without precedence joins.\<close>

lemma binds_join:
  assumes "binds d (as @ bs) s" and "bs_precedence n = None"
  shows "binds d (as @ n # bs) s"
  using assms by (auto simp: binds_def)

section \<open>Properties\<close>

text \<open>
  C18: the effective cap of a dimension is undeclared exactly when no source caps it; otherwise it is
  the least cap among the sources that bind the dimension, and the recorded carrier is such a source
  with that very cap.
\<close>

theorem budget_strictest_binding:
  "case effective_cap d (rb_effective (resolveBudget sources)) of
     None \<Rightarrow> list_all (\<lambda>s. cap_of d s = None) sources \<and>
             br_selected (rb_resolution (resolveBudget sources)) d = None
   | Some c \<Rightarrow>
       Least (\<lambda>x. \<exists>s. binds d sources s \<and> cap_of d s = Some x) = c \<and>
       (\<exists>s. binds d sources s \<and> cap_of d s = Some c \<and>
            br_selected (rb_resolution (resolveBudget sources)) d = Some (bs_source s))"
proof (cases "winning_cap d sources")
  case None
  then have "\<forall>s \<in> set sources. cap_of d s = None" by (simp only: winning_cap_None)
  then have "winning_source d sources = None" "list_all (\<lambda>s. cap_of d s = None) sources"
    by (auto simp: winning_source_None list_all_iff)
  with None show ?thesis by simp
next
  case (Some c)
  then obtain w where w: "winning_source d sources = Some w" "cap_of d w = Some c"
    by (auto simp: winning_cap_Some_iff)
  have "binds d sources w" by (rule winning_source_Some(1) [OF w(1)])
  moreover from this w(2) have "Least (\<lambda>x. \<exists>s. binds d sources s \<and> cap_of d s = Some x) = c"
    using winning_cap_least [OF Some] by (intro Least_equality) auto
  ultimately show ?thesis using Some w by auto
qed

text \<open>
  A carrier that declares no precedence never widens an effective cap, wherever it stands in the
  list: a dimension that was capped stays capped, at the same value or a smaller one.
\<close>

theorem budget_never_widened:
  "case effective_cap d (rb_effective (resolveBudget (as @ bs))) of
     None \<Rightarrow> True
   | Some c \<Rightarrow>
       (case effective_cap d (rb_effective (resolveBudget (as @ n\<lparr>bs_precedence := None\<rparr> # bs))) of
          None \<Rightarrow> False
        | Some c' \<Rightarrow> c' \<le> c)"
proof (cases "winning_cap d (as @ bs)")
  case (Some c)
  let ?joined = "as @ n\<lparr>bs_precedence := None\<rparr> # bs"
  from Some obtain w where w: "winning_source d (as @ bs) = Some w" "cap_of d w = Some c"
    by (auto simp: winning_cap_Some_iff)
  have b: "binds d ?joined w" by (rule binds_join [OF winning_source_Some(1) [OF w(1)]]) simp
  with w(2) obtain c' where "winning_cap d ?joined = Some c'"
    by (cases "winning_cap d ?joined") (auto simp: winning_cap_None binds_def)
  with winning_cap_least [OF this b w(2)] Some show ?thesis by simp
qed simp

end
