(* ===== verification/PlanApproval.thy ===== *)
theory PlanApproval
  imports PlanWalk RunBudget
begin

text \<open>
  When a plan may start without a human review (\<open>plans/graph.ts\<close>): \<open>evaluatePlanAtomicity\<close>,
  \<open>aggregatePlanCost\<close> and \<open>decidePlanApproval\<close>. The sum of two costs is the addition of doubles, which
  rounds; it is the parameter \<open>add\<close>.
\<close>

section \<open>Reading a node\<close>

definition riskForNode :: "plan_node \<Rightarrow> string option" where
  "riskForNode n = or_else (stringValue (get (pn_contractJson n) ''risk_level''))
                               (stringValue (get (pn_metadataJson n) ''risk_level''))"

definition hasPermissionBypass :: "plan_node \<Rightarrow> bool" where
  "hasPermissionBypass n \<longleftrightarrow>
     strict_eq (get (pn_metadataJson n) ''permission_bypass'') (JBool True) \<or>
     strict_eq (get (pn_contractJson n) ''permission_bypass'') (JBool True) \<or>
     strict_eq (get (pn_metadataJson n) ''permission_bypass_requested'') (JBool True)"

definition capabilityRisk :: "plan_node \<Rightarrow> string option" where
  "capabilityRisk n = or_else (stringValue (get (pn_metadataJson n) ''capability_risk''))
                                  (stringValue (get (pn_metadataJson n) ''required_capability_risk''))"

definition hasChecks :: "jsobj \<Rightarrow> bool" where
  "hasChecks value = (case get value ''checks'' of
     JArr vs \<Rightarrow> vs \<noteq> []
   | _ \<Rightarrow> truthy (get value ''type'') \<or> truthy (get value ''verifier_type'') \<or> truthy (get value ''validation''))"

definition hasIndependentVerification :: "plan_node \<Rightarrow> bool" where
  "hasIndependentVerification n \<longleftrightarrow>
     pn_verificationRecipeRefs n \<noteq> [] \<or>
     (let acceptance = record_or_empty (get (pn_contractJson n) ''acceptance_criteria_json'');
          required = get (pn_contractJson n) ''required_outputs_json''
      in hasChecks acceptance \<or> (case required of JArr vs \<Rightarrow> vs \<noteq> [] | _ \<Rightarrow> False) \<or>
         record_or_empty required \<noteq> [] \<or> hasChecks (record_or_empty required))"

definition runtimeDelegationRequested :: "plan_node \<Rightarrow> bool" where
  "runtimeDelegationRequested n \<longleftrightarrow>
     (let routeHints = record_or_empty (get (pn_contractJson n) ''route_hints_json'')
      in list_ex (\<lambda>v. strict_eq v (JBool True))
           [get (pn_metadataJson n) ''runtime_delegation'',
            get (pn_metadataJson n) ''allow_runtime_delegation'',
            get (pn_metadataJson n) ''delegation_required'',
            get (pn_contractJson n) ''runtime_delegation'',
            get (pn_contractJson n) ''allow_runtime_delegation'',
            get (pn_contractJson n) ''delegation_required'',
            get routeHints ''runtime_delegation'',
            get routeHints ''allow_runtime_delegation''])"

definition hasNonEmptyScope :: "jsval \<Rightarrow> bool" where
  "hasNonEmptyScope v = (case v of
     JStr s \<Rightarrow> trim s \<noteq> [] | JArr vs \<Rightarrow> vs \<noteq> [] | _ \<Rightarrow> record_or_empty v \<noteq> [])"

definition positiveInteger :: "jsval \<Rightarrow> bool" where
  "positiveInteger v = (case v of JNum q \<Rightarrow> of_int \<lfloor>q\<rfloor> = q \<and> 0 < q | _ \<Rightarrow> False)"

section \<open>Atomicity\<close>

definition node_reason :: "plan_node \<Rightarrow> string \<Rightarrow> string" where
  "node_reason n s = ''node_'' @ pn_key n @ s"

definition atomicity_node_reasons :: "plan_node \<Rightarrow> string list" where
  "atomicity_node_reasons n =
     (if pn_kind n = Integration \<or> pn_kind n = ApprovalCheckpoint then []
      else
        (if \<not> hasIndependentVerification n then [node_reason n ''_not_independently_verifiable''] else []) @
        (if \<not> positiveInteger (get (pn_contractJson n) ''max_attempts'')
         then [node_reason n ''_retry_policy_not_declared''] else []) @
        (if \<not> strict_eq (get (pn_metadataJson n) ''runtime_delegation_allowed'') (JBool False)
         then [node_reason n ''_runtime_delegation_policy_not_explicit''] else []) @
        (if runtimeDelegationRequested n then [node_reason n ''_runtime_delegation_not_allowed''] else []))"

definition objective_declared :: "jsobj \<Rightarrow> bool" where
  "objective_declared metadata \<longleftrightarrow>
     or_else (stringValue (get metadata ''primary_objective'')) (stringValue (get metadata ''objective'')) \<noteq> None \<and>
     (case get metadata ''objectives'' of JArr vs \<Rightarrow> length vs = 1 | _ \<Rightarrow> True)"

definition execution_scope :: "jsobj \<Rightarrow> jsval" where
  "execution_scope metadata =
     coalesce (coalesce (get metadata ''scope_json'') (get metadata ''input_scope_json'')) (get metadata ''file_scope'')"

definition runtimeProfiles :: "plan_node list \<Rightarrow> string list" where
  "runtimeProfiles nodes = nub (filter (\<lambda>s. s \<noteq> []) (List.map_filter pn_runtimeProfileId nodes))"

definition modelProviders :: "plan_node list \<Rightarrow> string list" where
  "modelProviders nodes =
     nub (List.map_filter (\<lambda>n. or_else (stringValue (get (pn_metadataJson n) ''model_provider_id''))
                                          (stringValue (get (pn_contractJson n) ''model_provider_id''))) nodes)"

record atomicity_evaluation =
  ae_valid :: bool
  ae_reasons :: "string list"

definition evaluatePlanAtomicity :: "plan_graph \<Rightarrow> atomicity_evaluation" where
  "evaluatePlanAtomicity g =
     (let metadata = wd_metadata_json (pg_definition g);
          reasons =
            (if \<not> objective_declared metadata then [''primary_objective_not_declared''] else []) @
            (if \<not> hasNonEmptyScope (execution_scope metadata) then [''execution_scope_not_declared''] else []) @
            (if 1 < length (runtimeProfiles (pg_nodes g)) \<or> 1 < length (modelProviders (pg_nodes g))
             then [''single_runtime_model_budget_required''] else []) @
            concat (map atomicity_node_reasons (pg_nodes g))
      in \<lparr>ae_valid = (reasons = []), ae_reasons = nub reasons\<rparr>)"

section \<open>Cost\<close>

text \<open>\<open>budgetSourcesFromNode\<close> keeps the declared sources whose kind, as a string, is a known one.\<close>

definition budgetSourcesFromNode :: "plan_node \<Rightarrow> jsval list" where
  "budgetSourcesFromNode n = (case get (pn_contractJson n) ''budget_sources'' of
     JArr vs \<Rightarrow> filter (\<lambda>v. to_string (prop_of (prop_of v ''source'') ''kind'') \<in>
                   set [''direct'', ''task'', ''automation'', ''workflow'', ''delegation'', ''plan'']) vs
   | _ \<Rightarrow> [])"

definition is_task_source :: "jsval \<Rightarrow> bool" where
  "is_task_source v \<longleftrightarrow> strict_eq (prop_of (prop_of v ''source'') ''kind'') (JStr ''task'')"

definition direct_source :: "plan_node \<Rightarrow> jsval list" where
  "direct_source n = (case nonNegativeNumberOrNull (get (pn_contractJson n) ''max_cost'') of
     None \<Rightarrow> []
   | Some cost \<Rightarrow> [JObj [(''source'', JObj [(''kind'', JStr ''task''), (''id'', JStr (pn_key n))]),
                        (''max_cost'', JNum cost)]])"

definition localCost :: "plan_node \<Rightarrow> rat option" where
  "localCost n = eb_max_cost (rb_effective (resolveBudgetSources
     (direct_source n @ filter is_task_source (budgetSourcesFromNode n))))"

definition globalCost :: "plan_graph \<Rightarrow> jsval list \<Rightarrow> rat option" where
  "globalCost g inherited = eb_max_cost (rb_effective (resolveBudgetSources
     (inherited @ filter (\<lambda>v. \<not> is_task_source v) (concat (map budgetSourcesFromNode (pg_nodes g))))))"

definition sumFinite :: "(rat \<Rightarrow> rat \<Rightarrow> rat) \<Rightarrow> rat option list \<Rightarrow> rat option" where
  "sumFinite add values =
     (let finites = List.map_filter id values in if finites \<noteq> [] then Some (foldl add 0 finites) else None)"

definition aggregatePlanCost :: "(rat \<Rightarrow> rat \<Rightarrow> rat) \<Rightarrow> plan_graph \<Rightarrow> jsval list \<Rightarrow> rat option" where
  "aggregatePlanCost add g inherited =
     (case sumFinite add (map localCost (pg_nodes g)) of
        None \<Rightarrow> globalCost g inherited
      | Some localTotal \<Rightarrow>
          (case globalCost g inherited of None \<Rightarrow> Some localTotal | Some global \<Rightarrow> Some (max localTotal global)))"

section \<open>The decision\<close>

datatype approval_mode = AutoApproved | ProposalRequired

record approval_decision =
  pa_mode :: approval_mode
  pa_reasons :: "string list"
  pa_aggregateMaxCost :: "rat option"

record approval_input =
  ai_budgetCap :: "rat option"
  ai_budgetSources :: "jsval list"
  ai_nodeLimit :: "rat option"

definition node_limit :: "approval_input \<Rightarrow> rat" where
  "node_limit input = (case ai_nodeLimit input of None \<Rightarrow> of_nat maxAutoApproveNodes | Some q \<Rightarrow> q)"

definition approval_node_reasons :: "plan_node \<Rightarrow> string list" where
  "approval_node_reasons n =
     (case riskForNode n of
        None \<Rightarrow> [node_reason n ''_risk_not_declared'']
      | Some risk \<Rightarrow> if risk \<noteq> ''low'' then [node_reason n (''_risk_is_'' @ risk)] else []) @
     (if hasPermissionBypass n then [node_reason n ''_requests_permission_bypass''] else []) @
     (case capabilityRisk n of
        None \<Rightarrow> []
      | Some risk \<Rightarrow>
          if risk = ''high'' \<or> risk = ''critical'' then [node_reason n (''_capability_risk_is_'' @ risk)] else []) @
     (if pn_kind n = Exploratory then [node_reason n ''_is_exploratory''] else [])"

definition budget_reasons :: "rat option \<Rightarrow> rat option \<Rightarrow> string list" where
  "budget_reasons cap aggregate =
     (if cap = None then [''budget_cap_not_declared''] else []) @
     (case (aggregate, cap) of
        (Some cost, Some c) \<Rightarrow> if c < cost then [''aggregate_budget_exceeds_cap''] else []
      | _ \<Rightarrow> [])"

definition decidePlanApproval ::
    "(rat \<Rightarrow> rat \<Rightarrow> rat) \<Rightarrow> plan_graph \<Rightarrow> approval_input \<Rightarrow> approval_decision" where
  "decidePlanApproval add g input =
     (let aggregate = aggregatePlanCost add g (ai_budgetSources input);
          reasons =
            ae_reasons (evaluatePlanAtomicity g) @
            (if node_limit input < of_nat (length (pg_nodes g)) then [''node_count_exceeds_cap''] else []) @
            budget_reasons (ai_budgetCap input) aggregate @
            concat (map approval_node_reasons (pg_nodes g))
      in \<lparr>pa_mode = (if reasons = [] then AutoApproved else ProposalRequired),
          pa_reasons = nub reasons,
          pa_aggregateMaxCost = aggregate\<rparr>)"

section \<open>What an automatic approval guarantees\<close>

lemma nub_Nil_iff [simp]: "nub xs = [] \<longleftrightarrow> xs = []"
  using set_nub [of xs] by (metis empty_iff empty_set list.set_cases neq_Nil_conv set_empty)

text \<open>The conditions on a node, and the decision as their conjunction.\<close>

definition unattended_node :: "plan_node \<Rightarrow> bool" where
  "unattended_node n \<longleftrightarrow>
     riskForNode n = Some ''low'' \<and> \<not> hasPermissionBypass n \<and> pn_kind n \<noteq> Exploratory \<and>
     capabilityRisk n \<notin> {Some ''high'', Some ''critical''} \<and>
     (pn_kind n = Leaf \<longrightarrow>
        hasIndependentVerification n \<and> positiveInteger (get (pn_contractJson n) ''max_attempts'') \<and>
        get (pn_metadataJson n) ''runtime_delegation_allowed'' = JBool False \<and> \<not> runtimeDelegationRequested n)"

lemma unattended_iff:
  "unattended_node n \<longleftrightarrow> approval_node_reasons n = [] \<and> atomicity_node_reasons n = []"
  by (cases "pn_kind n")
     (auto simp: unattended_node_def approval_node_reasons_def atomicity_node_reasons_def
           split: option.splits if_splits)

lemma auto_approved_iff:
  "pa_mode (decidePlanApproval add g input) = AutoApproved \<longleftrightarrow>
     objective_declared (wd_metadata_json (pg_definition g)) \<and>
     hasNonEmptyScope (execution_scope (wd_metadata_json (pg_definition g))) \<and>
     length (runtimeProfiles (pg_nodes g)) \<le> 1 \<and> length (modelProviders (pg_nodes g)) \<le> 1 \<and>
     of_nat (length (pg_nodes g)) \<le> node_limit input \<and>
     (\<exists>cap. ai_budgetCap input = Some cap \<and>
        (\<forall>cost. aggregatePlanCost add g (ai_budgetSources input) = Some cost \<longrightarrow> cost \<le> cap)) \<and>
     (\<forall>n \<in> set (pg_nodes g). unattended_node n)"
  by (auto simp: decidePlanApproval_def evaluatePlanAtomicity_def budget_reasons_def Let_def unattended_iff
        not_less split: option.splits if_splits)

text \<open>The parts of a sum of costs are at most the sum, when rounding never goes below a summand.\<close>

lemma foldl_add_bounds:
  assumes "\<And>x y. 0 \<le> x \<Longrightarrow> 0 \<le> y \<Longrightarrow> x \<le> add x y \<and> y \<le> add x (y :: rat)"
    and "0 \<le> a" and "\<And>c. c \<in> set cs \<Longrightarrow> 0 \<le> c"
  shows "a \<le> foldl add a cs" and "c \<in> set cs \<Longrightarrow> c \<le> foldl add a cs"
proof -
  have "a \<le> foldl add a cs \<and> (c \<in> set cs \<longrightarrow> c \<le> foldl add a cs)"
    using assms(2,3)
  proof (induction cs arbitrary: a)
    case (Cons b cs)
    then have b: "a \<le> add a b" "b \<le> add a b" "0 \<le> add a b" using assms(1) [of a b] by auto
    with Cons.IH [of "add a b"] Cons.prems have "add a b \<le> foldl add (add a b) cs"
      "c \<in> set cs \<longrightarrow> c \<le> foldl add (add a b) cs" by auto
    with b show ?case by auto
  qed simp
  then show "a \<le> foldl add a cs" and "c \<in> set cs \<Longrightarrow> c \<le> foldl add a cs" by auto
qed

lemma normalized_cost_nonneg:
  "normalizeBudgetSource v = Some s \<Longrightarrow> bs_max_cost s = Some c \<Longrightarrow> 0 \<le> c"
  by (auto simp: normalizeBudgetSource_def nonNegativeNumberOrNull_def split: if_splits option.splits)

lemma set_map_filter: "set (List.map_filter f xs) = {y. \<exists>x \<in> set xs. f x = Some y}"
  by (force simp: List.map_filter_def)

lemma resolved_cost_nonneg:
  assumes "eb_max_cost (rb_effective (resolveBudgetSources vs)) = Some c"
  shows "0 \<le> c"
proof -
  let ?ss = "List.map_filter normalizeBudgetSource vs"
  from assms have "winning_cap MaxCost ?ss = Some c"
    by (simp add: resolveBudgetSources_def flip: effective_cap_resolve)
  then obtain w where w: "winning_source MaxCost ?ss = Some w" "bs_max_cost w = Some c"
    by (auto simp: winning_cap_Some_iff)
  from winning_source_Some(1) [OF w(1)] obtain v where "normalizeBudgetSource v = Some w"
    by (auto simp: binds_def set_map_filter)
  with w(2) show ?thesis by (intro normalized_cost_nonneg)
qed

lemma localCost_le_aggregate:
  assumes "\<And>x y. 0 \<le> x \<Longrightarrow> 0 \<le> y \<Longrightarrow> x \<le> add x y \<and> y \<le> add x (y :: rat)"
    and "n \<in> set (pg_nodes g)" and "localCost n = Some c"
  shows "\<exists>cost. aggregatePlanCost add g inherited = Some cost \<and> c \<le> cost"
proof -
  let ?costs = "List.map_filter id (map localCost (pg_nodes g))"
  have c: "c \<in> set ?costs" using assms(2,3) by (force simp: set_map_filter)
  have "0 \<le> x" if "x \<in> set ?costs" for x
    using that resolved_cost_nonneg by (auto simp: set_map_filter localCost_def)
  with foldl_add_bounds(2) [of add 0 ?costs c] assms(1) c have "c \<le> foldl add 0 ?costs" by blast
  moreover have "sumFinite add (map localCost (pg_nodes g)) = Some (foldl add 0 ?costs)"
    using c by (auto simp: sumFinite_def Let_def)
  ultimately show ?thesis
    by (cases "globalCost g inherited") (auto simp: aggregatePlanCost_def max_def)
qed

section \<open>Properties\<close>

text \<open>A plan of one node and its integration, as the planner writes it.\<close>

definition sample_node :: "string \<Rightarrow> string list \<Rightarrow> jsobj \<Rightarrow> jsobj \<Rightarrow> workflow_node" where
  "sample_node i ds contract metadata =
     \<lparr>wn_id = i, wn_title = i, wn_depends_on = ds, wn_input_bindings = [], wn_capability_id = Some i,
      wn_prompt_asset_key = None, wn_agent_id = None, wn_runtime_profile_id = None,
      wn_verification_recipe_refs = [''output-check''], wn_checkpoint_required = False,
      wn_checkpoint_proposal_type = None, wn_contract_json = contract, wn_metadata_json = metadata,
      wn_passthrough = []\<rparr>"

definition sample_plan :: workflow_definition where
  "sample_plan =
     \<lparr>wd_workflow_id = ''plan'', wd_name = ''plan'', wd_description = [], wd_input_schema_json = [],
      wd_output_artifact_types = [],
      wd_nodes =
        [sample_node ''work'' [] [(''risk_level'', JStr ''low''), (''max_attempts'', JNum 1), (''max_cost'', JNum 2)]
           [(''runtime_delegation_allowed'', JBool False)],
         sample_node ''integrate'' [''work''] [(''risk_level'', JStr ''low'')] [(''node_kind'', JStr ''integration'')]],
      wd_metadata_json = [(''primary_objective'', JStr ''work''), (''scope_json'', JStr ''task'')]\<rparr>"

definition sample_graph :: plan_graph where
  "sample_graph = graph_of sample_plan 2"

definition sample_approval :: approval_input where
  "sample_approval = \<lparr>ai_budgetCap = Some 5, ai_budgetSources = [], ai_nodeLimit = None\<rparr>"

lemma sample_materialized:
  "materializePlanGraph (\<lambda>_. Some sample_plan) JNull = Some (Inr sample_graph)"
  by code_simp

lemma sample_auto_approved:
  "pa_mode (decidePlanApproval (+) sample_graph sample_approval) = AutoApproved"
  by code_simp

text \<open>
  C17: a plan approved without a review declares its objective, its scope and a budget cap, has at
  most the allowed number of nodes, and every node in it is of low risk, asks for no permission
  bypass, and has its own cost cap within the plan's; the addition of costs may round, as long as the
  sum of two costs is never below one of them.
\<close>

theorem auto_approval_safe:
  assumes "\<And>x y. 0 \<le> x \<Longrightarrow> 0 \<le> y \<Longrightarrow> x \<le> add x y \<and> y \<le> add x y"
    and "pa_mode (decidePlanApproval add g input) = AutoApproved"
  shows "objective_declared (wd_metadata_json (pg_definition g)) \<and>
    hasNonEmptyScope (execution_scope (wd_metadata_json (pg_definition g))) \<and>
    of_nat (length (pg_nodes g)) \<le> node_limit input \<and>
    (\<exists>cap. ai_budgetCap input = Some cap \<and>
       list_all (\<lambda>n. unattended_node n \<and> (case localCost n of None \<Rightarrow> True | Some c \<Rightarrow> c \<le> cap)) (pg_nodes g))"
proof -
  from assms(2) obtain cap where cap: "ai_budgetCap input = Some cap"
    "\<And>cost. aggregatePlanCost add g (ai_budgetSources input) = Some cost \<Longrightarrow> cost \<le> cap"
    unfolding auto_approved_iff by blast
  have "c \<le> cap" if "n \<in> set (pg_nodes g)" "localCost n = Some c" for n c
    using localCost_le_aggregate [OF assms(1) that, of "ai_budgetSources input"] cap(2) by force
  with assms(2) cap(1) show ?thesis
    unfolding auto_approved_iff by (auto simp: list_all_iff split: option.splits)
qed

theorem auto_approval_safe_witness:
  "\<exists>cap. ai_budgetCap sample_approval = Some cap \<and>
     list_all (\<lambda>n. unattended_node n \<and> (case localCost n of None \<Rightarrow> True | Some c \<Rightarrow> c \<le> cap)) (pg_nodes sample_graph)"
  using auto_approval_safe [of "(+)" sample_graph sample_approval] sample_auto_approved by simp

end
