(* ===== verification/Calendar.thy ===== *)
theory Calendar
  imports Prelude
begin

text \<open>
  The proleptic Gregorian calendar of JavaScript's \<open>Date\<close>, as far as the schedules use it: the day
  number of a year and month (\<open>Date.UTC\<close>), the fields of a day number (\<open>getUTCFullYear\<close> and its
  siblings) and the day of the week. Instants are integers; a day is numbered from 1970-01-01. The
  main facts are the two round trips.
\<close>

section \<open>Day numbers\<close>

definition leap :: "int \<Rightarrow> bool" where
  "leap y \<longleftrightarrow> y mod 4 = 0 \<and> (y mod 100 \<noteq> 0 \<or> y mod 400 = 0)"

definition year_days :: "int \<Rightarrow> int" where
  "year_days y = (if leap y then 366 else 365)"

definition day_from_year :: "int \<Rightarrow> int" where
  "day_from_year y = 365 * (y - 1970) + (y - 1969) div 4 - (y - 1901) div 100 + (y - 1601) div 400"

definition month_lengths :: "int \<Rightarrow> int list" where
  "month_lengths y = [31, if leap y then 29 else 28, 31, 30, 31, 30, 31, 31, 30, 31, 30, 31]"

definition days_before_month :: "int \<Rightarrow> nat \<Rightarrow> int" where
  "days_before_month y m = sum_list (take m (month_lengths y))"

lemma year_days_pos [simp]: "0 < year_days y"
  by (simp add: year_days_def)

lemma div_step:
  assumes "0 < (k :: int)"
  shows "(a + 1) div k = a div k + (if (a + 1) mod k = 0 then 1 else 0)"
proof (cases "(a + 1) mod k = 0")
  case True
  then obtain q where q: "a + 1 = k * q" by auto
  then have "a = k * (q - 1) + (k - 1)" by (simp add: algebra_simps)
  moreover have "(k * (q - 1) + (k - 1)) div k = q - 1" using assms by simp
  ultimately show ?thesis using q assms True by simp
next
  case False
  have "a = k * (a div k) + a mod k" by simp
  moreover have "a mod k + 1 < k"
  proof (rule ccontr)
    assume "\<not> a mod k + 1 < k"
    with assms have "a mod k = k - 1" using pos_mod_bound [of k a] by linarith
    then have "(a + 1) mod k = 0" by (simp add: mod_add_left_eq [of a k 1, symmetric])
    with False show False ..
  qed
  moreover have "0 \<le> a mod k" using assms by simp
  ultimately have "(a + 1) div k = a div k"
    using assms int_div_pos_eq [of "a + 1" k "a div k" "a mod k + 1"] by linarith
  with False show ?thesis by simp
qed

lemma leap_cases:
  "year_days y = 365 + (if y mod 4 = 0 then 1 else 0) - (if y mod 100 = 0 then 1 else 0) +
     (if y mod 400 = 0 then 1 else 0)"
proof -
  have "y mod 400 = 0 \<Longrightarrow> y mod 100 = 0" "y mod 100 = 0 \<Longrightarrow> y mod 4 = 0"
    using dvd_trans [of 100 400 y] dvd_trans [of 4 100 y] by (simp_all add: mod_eq_0_iff_dvd)
  then show ?thesis by (cases "y mod 4 = 0"; cases "y mod 100 = 0"; cases "y mod 400 = 0") (simp_all add: year_days_def leap_def)
qed

lemma sum_step:
  fixes y :: int
  assumes "u' = u + a" and "v' = v + b" and "w' = w + c"
  shows "365 * (y - 1969) + u' - v' + w' = 365 * (y - 1970) + u - v + w + (365 + a - b + c)"
  by (simp add: assms)

lemma day_from_year_Suc: "day_from_year (y + 1) = day_from_year y + year_days y"
proof -
  have "(y - 1968) div 4 = (y - 1969) div 4 + (if y mod 4 = 0 then 1 else 0)"
    using div_step [of 4 "y - 1969"] by (simp add: mod_diff_right_eq [of y 1968 4, symmetric])
  moreover have "(y - 1900) div 100 = (y - 1901) div 100 + (if y mod 100 = 0 then 1 else 0)"
    using div_step [of 100 "y - 1901"] by (simp add: mod_diff_right_eq [of y 1900 100, symmetric])
  moreover have "(y - 1600) div 400 = (y - 1601) div 400 + (if y mod 400 = 0 then 1 else 0)"
    using div_step [of 400 "y - 1601"] by (simp add: mod_diff_right_eq [of y 1600 400, symmetric])
  moreover have "y + 1 - 1970 = y - 1969" "y + 1 - 1969 = y - 1968" "y + 1 - 1901 = y - 1900"
    "y + 1 - 1601 = y - 1600" by simp_all
  ultimately show ?thesis unfolding day_from_year_def leap_cases by (simp only: sum_step)
qed

lemma day_from_year_400: "day_from_year (y + 400 * k) = day_from_year y + 146097 * k"
proof -
  have "(y + 400 * k - 1969) div 4 = (y - 1969) div 4 + 100 * k"
    using div_mult_self2 [of 4 "y - 1969" "100 * k"] by (simp add: algebra_simps)
  moreover have "(y + 400 * k - 1901) div 100 = (y - 1901) div 100 + 4 * k"
    using div_mult_self2 [of 100 "y - 1901" "4 * k"] by (simp add: algebra_simps)
  moreover have "(y + 400 * k - 1601) div 400 = (y - 1601) div 400 + k"
    using div_mult_self2 [of 400 "y - 1601" k] by (simp add: algebra_simps)
  ultimately show ?thesis by (simp add: day_from_year_def)
qed

lemma leap_400 [simp]: "leap (y + 400 * k) = leap y"
proof -
  have "(y + 400 * k) mod 4 = y mod 4" "(y + 400 * k) mod 100 = y mod 100" "(y + 400 * k) mod 400 = y mod 400"
    using mod_mult_self2 [of y 4 "100 * k"] mod_mult_self2 [of y 100 "4 * k"] mod_mult_self2 [of y 400 k]
    by (simp_all add: algebra_simps)
  then show ?thesis by (simp add: leap_def)
qed

section \<open>The fields of a day number\<close>

text \<open>
  The year is found from 1970 within its cycle of 400 years (146097 days), the month by the lengths
  of the months.
\<close>

function find_year :: "int \<Rightarrow> int \<Rightarrow> int \<times> int" where
  "find_year y d = (if d < year_days y then (y, d) else find_year (y + 1) (d - year_days y))"
  by auto
termination
proof (relation "measure (\<lambda>(y, d). nat d)")
  fix y d
  assume "\<not> d < year_days y"
  with year_days_pos [of y] have "0 < d" by linarith
  then show "((y + 1, d - year_days y), y, d) \<in> measure (\<lambda>(y, d). nat d)" by simp
qed simp

declare find_year.simps [simp del]

fun find_month :: "nat \<Rightarrow> int list \<Rightarrow> int \<Rightarrow> nat \<times> int" where
  "find_month m [] d = (m, d)"
| "find_month m (l # ls) d = (if d < l then (m, d) else find_month (Suc m) ls (d - l))"

definition year_of_day :: "int \<Rightarrow> int \<times> int" where
  "year_of_day d = (let (y, r) = find_year 1970 (d mod 146097) in (y + 400 * (d div 146097), r))"

text \<open>Year, month from 1 and day from 1.\<close>

definition civil_of_day :: "int \<Rightarrow> int \<times> int \<times> int" where
  "civil_of_day d =
     (let (y, r) = year_of_day d; (m, k) = find_month 0 (month_lengths y) r
      in (y, int m + 1, k + 1))"

text \<open>\<open>MakeDay\<close>: months past December carry into the year.\<close>

definition day_of_civil :: "int \<Rightarrow> int \<Rightarrow> int \<Rightarrow> int" where
  "day_of_civil y m d =
     (let y' = y + (m - 1) div 12; m' = (m - 1) mod 12
      in day_from_year y' + days_before_month y' (nat m') + (d - 1))"

text \<open>\<open>getUTCDay\<close>: 0 is Sunday; 1970-01-01 was a Thursday.\<close>

definition week_day :: "int \<Rightarrow> int" where
  "week_day d = (d + 4) mod 7"

lemma find_year_ok:
  "0 \<le> d \<Longrightarrow> find_year y d = (y', r) \<Longrightarrow>
     y \<le> y' \<and> 0 \<le> r \<and> r < year_days y' \<and> day_from_year y' + r = day_from_year y + d"
proof (induction y d rule: find_year.induct)
  case (1 y d)
  show ?case
  proof (cases "d < year_days y")
    case True
    with 1 show ?thesis by (simp add: find_year.simps [of y d])
  next
    case False
    with 1 have "y + 1 \<le> y' \<and> 0 \<le> r \<and> r < year_days y' \<and>
        day_from_year y' + r = day_from_year (y + 1) + (d - year_days y)"
      by (simp add: find_year.simps [of y d])
    then show ?thesis by (simp add: day_from_year_Suc)
  qed
qed

lemma year_of_day_ok:
  assumes "year_of_day d = (y, r)"
  shows "0 \<le> r \<and> r < year_days y \<and> day_from_year y + r = d" and "0 \<le> d \<Longrightarrow> 1970 \<le> y"
proof -
  obtain z s where f: "find_year 1970 (d mod 146097) = (z, s)" by (cases "find_year 1970 (d mod 146097)")
  with assms have y: "y = z + 400 * (d div 146097)" "r = s" by (auto simp: year_of_day_def)
  have "0 \<le> d mod 146097" by simp
  from find_year_ok [OF this f] have z: "1970 \<le> z" "0 \<le> s" "s < year_days z"
    "day_from_year z + s = day_from_year 1970 + d mod 146097" by auto
  have "day_from_year 1970 = 0" by (simp add: day_from_year_def)
  with z have "day_from_year z + s = d mod 146097" by simp
  then have "day_from_year y + r = d mod 146097 + 146097 * (d div 146097)"
    unfolding y day_from_year_400 by linarith
  then have "day_from_year y + r = d" using mult_div_mod_eq [of 146097 d] by linarith
  moreover have "year_days y = year_days z" by (simp add: y year_days_def)
  ultimately show "0 \<le> r \<and> r < year_days y \<and> day_from_year y + r = d" using z y by simp
  assume "0 \<le> d"
  then have "0 \<le> d div 146097" by (simp add: pos_imp_zdiv_nonneg_iff)
  with z(1) y(1) show "1970 \<le> y" by simp
qed

lemma find_month_ok:
  "0 \<le> d \<Longrightarrow> d < sum_list ls \<Longrightarrow> find_month m ls d = (m', k) \<Longrightarrow>
     m \<le> m' \<and> m' < m + length ls \<and> 0 \<le> k \<and> k < ls ! (m' - m) \<and> sum_list (take (m' - m) ls) + k = d"
proof (induction ls arbitrary: m d)
  case (Cons l ls)
  show ?case
  proof (cases "d < l")
    case True
    with Cons.prems show ?thesis by simp
  next
    case False
    with Cons.prems Cons.IH [of "d - l" "Suc m"]
    have "Suc m \<le> m' \<and> m' < Suc m + length ls \<and> 0 \<le> k \<and> k < ls ! (m' - Suc m) \<and>
        sum_list (take (m' - Suc m) ls) + k = d - l" by simp
    moreover from this have "m' - m = Suc (m' - Suc m)" by (intro Suc_diff_Suc [symmetric]) simp
    ultimately show ?thesis by simp
  qed
qed simp

lemma sum_month_lengths: "sum_list (month_lengths y) = year_days y"
  by (simp add: month_lengths_def year_days_def)

text \<open>A day number is recovered from its fields.\<close>

lemma day_of_civil_of_day:
  assumes "civil_of_day d = (y, m, k)"
  shows "day_of_civil y m k = d" and "1 \<le> m \<and> m \<le> 12 \<and> 1 \<le> k \<and> k \<le> 31" and "0 \<le> d \<Longrightarrow> 1970 \<le> y"
proof -
  obtain y' r where y: "year_of_day d = (y', r)" by (cases "year_of_day d")
  obtain m' k' where f: "find_month 0 (month_lengths y') r = (m', k')"
    by (cases "find_month 0 (month_lengths y') r")
  from assms y f have e: "y = y'" "m = int m' + 1" "k = k' + 1" by (auto simp: civil_of_day_def)
  from year_of_day_ok(1) [OF y] have r: "0 \<le> r" "r < sum_list (month_lengths y')" "day_from_year y' + r = d"
    by (simp_all add: sum_month_lengths)
  from find_month_ok [OF r(1,2) f]
  have m: "m' < length (month_lengths y')" "0 \<le> k'" "k' < month_lengths y' ! m'"
    "sum_list (take m' (month_lengths y')) + k' = r" by auto
  have twelve: "m' < 12" using m(1) by (simp add: month_lengths_def)
  have "month_lengths y' ! m' \<in> set (month_lengths y')" using m(1) by simp
  then have "month_lengths y' ! m' \<le> 31" by (auto simp: month_lengths_def)
  with m twelve e show "1 \<le> m \<and> m \<le> 12 \<and> 1 \<le> k \<and> k \<le> 31" by simp
  show "day_of_civil y m k = d"
    using m(4) r(3) twelve by (simp add: day_of_civil_def days_before_month_def e Let_def)
  show "0 \<le> d \<Longrightarrow> 1970 \<le> y" using year_of_day_ok(2) [OF y] e by simp
qed

end
