(* ===== verification/Schedule.thy ===== *)
theory Schedule
  imports Calendar JsValue
begin

text \<open>
  The cron schedules of automations, \<open>automations/schedule.ts\<close>: reading a five-field expression and
  computing the next instant it fires in a time zone. Instants are milliseconds since the epoch, not
  before it. The time zone database is a library's: \<open>valid_zone\<close> says which names it knows and
  \<open>zone tz t\<close> is the local date and time it gives for an instant (\<open>zonedParts\<close>).
\<close>

section \<open>Local date and time\<close>

record local_parts =
  lp_year :: int
  lp_month :: int
  lp_day :: int
  lp_hour :: int
  lp_minute :: int

text \<open>
  \<open>Date.UTC\<close> in minutes; it takes the years 0 to 99 for 1900 to 1999. \<open>parts_of_minute\<close> are the
  \<open>getUTC\<close> fields.
\<close>

definition full_year :: "int \<Rightarrow> int" where
  "full_year y = (if 0 \<le> y \<and> y \<le> 99 then 1900 + y else y)"

definition utc_minute :: "local_parts \<Rightarrow> int" where
  "utc_minute p =
     (day_of_civil (full_year (lp_year p)) (lp_month p) (lp_day p) * 24 + lp_hour p) * 60 + lp_minute p"

definition parts_of_minute :: "int \<Rightarrow> local_parts" where
  "parts_of_minute n =
     (let (y, m, d) = civil_of_day (n div 1440)
      in \<lparr>lp_year = y, lp_month = m, lp_day = d,
          lp_hour = n mod 1440 div 60, lp_minute = n mod 60\<rparr>)"

definition addLocalMinutes :: "local_parts \<Rightarrow> int \<Rightarrow> local_parts" where
  "addLocalMinutes p k = parts_of_minute (utc_minute (p\<lparr>lp_minute := lp_minute p + k\<rparr>))"

definition localDayOfWeek :: "local_parts \<Rightarrow> int" where
  "localDayOfWeek p = week_day (day_of_civil (full_year (lp_year p)) (lp_month p) (lp_day p))"

text \<open>\<open>localPartsEqual\<close> compares all five fields, which is equality of the records.\<close>

definition localPartsEqual :: "local_parts \<Rightarrow> local_parts \<Rightarrow> bool" where
  "localPartsEqual l r \<longleftrightarrow>
     lp_year l = lp_year r \<and> lp_month l = lp_month r \<and> lp_day l = lp_day r \<and>
     lp_hour l = lp_hour r \<and> lp_minute l = lp_minute r"

section \<open>Cron expressions\<close>

text \<open>\<open>InvalidScheduleError\<close>, by what its message says and names.\<close>

datatype schedule_error =
    CronRequired
  | InvalidCron string
  | InvalidField string string
  | InvalidStep string string
  | InvalidRange string string
  | InvalidValue string string
  | InvalidTimezone string
  | NoMatchingSlot

text \<open>\<open>s.split(/\s+/)\<close>.\<close>

function split_spaces :: "string \<Rightarrow> string list" where
  "split_spaces s =
     (let w = takeWhile (\<lambda>c. \<not> is_space c) s; r = dropWhile (\<lambda>c. \<not> is_space c) s
      in if r = [] then [w] else w # split_spaces (dropWhile is_space r))"
  by auto
termination
proof (relation "measure length")
  fix s w r :: string
  assume r: "r = dropWhile (\<lambda>c. \<not> is_space c) s" and "r \<noteq> []"
  then obtain c cs where "r = c # cs" "is_space c" by (metis hd_dropWhile neq_Nil_conv list.sel(1))
  then have "length (dropWhile is_space r) < length r" by (simp add: length_dropWhile_le le_imp_less_Suc)
  also have "length r \<le> length s" unfolding r by (rule length_dropWhile_le)
  finally show "(dropWhile is_space r, s) \<in> measure length" by simp
qed simp

declare split_spaces.simps [simp del]

text \<open>\<open>Number.MAX_SAFE_INTEGER\<close>.\<close>

definition MAX_SAFE :: int where
  "MAX_SAFE = 9007199254740991"

definition parsePositiveInt :: "string \<Rightarrow> string \<Rightarrow> schedule_error + int" where
  "parsePositiveInt v label =
     (if v = [] \<or> \<not> list_all is_digit v then Inl (InvalidStep label v)
      else
        let parsed = int (nat_of_dec v)
        in if MAX_SAFE < parsed \<or> parsed < 1 then Inl (InvalidStep label v) else Inr parsed)"

definition parseBoundedInt :: "string \<Rightarrow> int \<Rightarrow> int \<Rightarrow> string \<Rightarrow> schedule_error + int" where
  "parseBoundedInt v lo hi label =
     (if v = [] \<or> \<not> list_all is_digit v then Inl (InvalidValue label v)
      else
        let parsed = int (nat_of_dec v)
        in if MAX_SAFE < parsed \<or> parsed < lo \<or> hi < parsed then Inl (InvalidValue label v)
           else Inr parsed)"

text \<open>\<open>for (let value = start; value <= end; value += step)\<close>; the step is at least 1.\<close>

function range_values :: "int \<Rightarrow> int \<Rightarrow> int \<Rightarrow> int list" where
  "range_values start end step =
     (if end < start \<or> step < 1 then [] else start # range_values (start + step) end step)"
  by auto
termination by (relation "measure (\<lambda>(start, end, step). nat (end + 1 - start))") auto

declare range_values.simps [simp del]

definition cron_range :: "string \<Rightarrow> int \<Rightarrow> int \<Rightarrow> string \<Rightarrow> string \<Rightarrow> schedule_error + (int \<times> int)" where
  "cron_range field lo hi label rangePart =
     (if rangePart = ''*'' then Inr (lo, hi)
      else if CHR ''-'' \<in> set rangePart then
        (case split_on (CHR ''-'') rangePart of
           [startRaw, endRaw] \<Rightarrow>
             if startRaw = [] \<or> endRaw = [] then Inl (InvalidField label field)
             else
               bind_sum (parseBoundedInt startRaw lo hi label) (\<lambda>start.
               bind_sum (parseBoundedInt endRaw lo hi label) (\<lambda>end.
                 if end < start then Inl (InvalidRange label rangePart) else Inr (start, end)))
         | _ \<Rightarrow> Inl (InvalidField label field))
      else bind_sum (parseBoundedInt rangePart lo hi label) (\<lambda>start. Inr (start, start)))"

definition cron_part :: "string \<Rightarrow> int \<Rightarrow> int \<Rightarrow> string \<Rightarrow> string \<Rightarrow> schedule_error + int list" where
  "cron_part field lo hi label rawPart =
     (let part = trim rawPart
      in if part = [] then Inl (InvalidField label field)
         else
           case split_on (CHR ''/'') part of
             [rangePart] \<Rightarrow>
               bind_sum (cron_range field lo hi label rangePart) (\<lambda>(start, end). Inr (range_values start end 1))
           | [rangePart, stepPart] \<Rightarrow>
               bind_sum (parsePositiveInt stepPart label) (\<lambda>step.
               bind_sum (cron_range field lo hi label rangePart) (\<lambda>(start, end).
                 Inr (range_values start end step)))
           | _ \<Rightarrow> Inl (InvalidField label field))"

definition parseCronField ::
    "string \<Rightarrow> int \<Rightarrow> int \<Rightarrow> string \<Rightarrow> (int \<Rightarrow> int) \<Rightarrow> schedule_error + int list" where
  "parseCronField field lo hi label reduce =
     bind_sum (map_sum_list (cron_part field lo hi label) (split_on (CHR '','') field)) (\<lambda>parts.
       let values = map reduce (concat parts)
       in if values = [] then Inl (InvalidField label field) else Inr values)"

record parsed_cron =
  pc_minutes :: "int list"
  pc_hours :: "int list"
  pc_daysOfMonth :: "int list"
  pc_months :: "int list"
  pc_daysOfWeek :: "int list"
  pc_dayOfMonthWildcard :: bool
  pc_dayOfWeekWildcard :: bool

definition parseCron :: "string \<Rightarrow> schedule_error + parsed_cron" where
  "parseCron cron =
     (case split_spaces (trim cron) of
        [minute, hour, dayOfMonth, month, dayOfWeek] \<Rightarrow>
          bind_sum (parseCronField minute 0 59 ''minute'' id) (\<lambda>minutes.
          bind_sum (parseCronField hour 0 23 ''hour'' id) (\<lambda>hours.
          bind_sum (parseCronField dayOfMonth 1 31 ''day of month'' id) (\<lambda>daysOfMonth.
          bind_sum (parseCronField month 1 12 ''month'' id) (\<lambda>months.
          bind_sum (parseCronField dayOfWeek 0 7 ''day of week'' (\<lambda>v. if v = 7 then 0 else v)) (\<lambda>daysOfWeek.
            Inr \<lparr>pc_minutes = minutes, pc_hours = hours, pc_daysOfMonth = daysOfMonth,
                 pc_months = months, pc_daysOfWeek = daysOfWeek,
                 pc_dayOfMonthWildcard = (dayOfMonth = ''*''),
                 pc_dayOfWeekWildcard = (dayOfWeek = ''*'')\<rparr>)))))
      | _ \<Rightarrow> Inl (InvalidCron cron))"

definition cronMatches :: "parsed_cron \<Rightarrow> local_parts \<Rightarrow> bool" where
  "cronMatches cron p =
     (if lp_minute p \<notin> set (pc_minutes cron) \<or> lp_hour p \<notin> set (pc_hours cron) \<or>
         lp_month p \<notin> set (pc_months cron) then False
      else
        let dayOfMonthMatches = lp_day p \<in> set (pc_daysOfMonth cron);
            dayOfWeekMatches = localDayOfWeek p \<in> set (pc_daysOfWeek cron)
        in if pc_dayOfMonthWildcard cron \<and> pc_dayOfWeekWildcard cron then True
           else if pc_dayOfMonthWildcard cron then dayOfWeekMatches
           else if pc_dayOfWeekWildcard cron then dayOfMonthMatches
           else dayOfMonthMatches \<or> dayOfWeekMatches)"

section \<open>The next run\<close>

text \<open>The configuration: a cron expression and a time zone, \<open>UTC\<close> when none is named.\<close>

definition parseSchedule :: "(string \<Rightarrow> bool) \<Rightarrow> jsobj option \<Rightarrow> schedule_error + (string \<times> string)" where
  "parseSchedule valid_zone configJson =
     (let cfg = (case configJson of None \<Rightarrow> [] | Some ob \<Rightarrow> ob)
      in case get cfg ''cron'' of
           JStr cron \<Rightarrow>
             if trim cron = [] then Inl CronRequired
             else
               bind_sum (parseCron cron) (\<lambda>_.
               let timezone = (case get cfg ''timezone'' of JStr s \<Rightarrow> if trim s \<noteq> [] then s else ''UTC'' | _ \<Rightarrow> ''UTC'')
               in if valid_zone timezone then Inr (cron, timezone) else Inl (InvalidTimezone timezone))
         | _ \<Rightarrow> Inl CronRequired)"

text \<open>The at most four corrections of \<open>zonedLocalToUtc\<close>, with the early exit.\<close>

fun correct_guess :: "nat \<Rightarrow> (int \<Rightarrow> local_parts) \<Rightarrow> int \<Rightarrow> int \<Rightarrow> int" where
  "correct_guess 0 zone target guess = guess"
| "correct_guess (Suc i) zone target guess =
     (let delta = utc_minute (zone guess) * 60000 - target
      in if delta = 0 then guess else correct_guess i zone target (guess - delta))"

definition zonedLocalToUtc :: "(int \<Rightarrow> local_parts) \<Rightarrow> local_parts \<Rightarrow> int" where
  "zonedLocalToUtc zone p = (let target = utc_minute p * 60000 in correct_guess 4 zone target target)"

text \<open>One candidate of the search.\<close>

definition slot_of :: "(int \<Rightarrow> local_parts) \<Rightarrow> parsed_cron \<Rightarrow> int \<Rightarrow> local_parts \<Rightarrow> int option" where
  "slot_of zone parsed after candidate =
     (if cronMatches parsed candidate then
        let utc = zonedLocalToUtc zone candidate
        in if after < utc \<and> localPartsEqual (zone utc) candidate then Some utc else None
      else None)"

fun search_slot :: "nat \<Rightarrow> (int \<Rightarrow> local_parts) \<Rightarrow> parsed_cron \<Rightarrow> int \<Rightarrow> local_parts \<Rightarrow> int option" where
  "search_slot 0 zone parsed after candidate = None"
| "search_slot (Suc i) zone parsed after candidate =
     (case slot_of zone parsed after candidate of
        Some utc \<Rightarrow> Some utc
      | None \<Rightarrow> search_slot i zone parsed after (addLocalMinutes candidate 1))"

definition MAX_SEARCH_MINUTES :: nat where
  "MAX_SEARCH_MINUTES = 2 * 366 * 24 * 60"

definition computeNextRunAt ::
    "(string \<Rightarrow> bool) \<Rightarrow> (string \<Rightarrow> int \<Rightarrow> local_parts) \<Rightarrow> jsobj option \<Rightarrow> int \<Rightarrow> schedule_error + int" where
  "computeNextRunAt valid_zone zone configJson after =
     bind_sum (parseSchedule valid_zone configJson) (\<lambda>(cron, timezone).
     bind_sum (parseCron cron) (\<lambda>parsed.
       case search_slot MAX_SEARCH_MINUTES (zone timezone) parsed after
              (addLocalMinutes (zone timezone after) 1) of
         Some utc \<Rightarrow> Inr utc
       | None \<Rightarrow> Inl NoMatchingSlot))"

end
