(* ===== verification/ScheduleProofs.thy ===== *)
theory ScheduleProofs
  imports Schedule
begin

text \<open>
  Correctness of the schedules: the local clock and its inverse, the search for the next slot, that
  the instant computed is the earliest one the expression fires at, and the reading of expressions
  that list their values.
\<close>

section \<open>The local clock\<close>

lemma minute_split: "((n div 1440 * 24 + n mod 1440 div 60) * 60 + n mod 60 :: int) = n"
proof -
  have regroup: "(a * 24 + b) * 60 + c = a * 1440 + (b * 60 + c)" for a b c :: int by simp
  have "n mod 1440 mod 60 = n mod 60" by (rule mod_mod_cancel) simp
  then have "n mod 1440 div 60 * 60 + n mod 60 = n mod 1440"
    using div_mult_mod_eq [of "n mod 1440" 60] by simp
  then show ?thesis unfolding regroup by simp
qed

lemma minute_bounds: "t div 60000 * 60000 \<le> t" "(t :: int) < (t div 60000 + 1) * 60000"
proof -
  obtain q r where q: "t div 60000 = q" and r: "t mod 60000 = r" by blast
  then have "t = q * 60000 + r" "0 \<le> r" "r < 60000"
    using div_mult_mod_eq [of t 60000] pos_mod_sign [of 60000 t] pos_mod_bound [of 60000 t] by simp_all
  then show "t div 60000 * 60000 \<le> t" "t < (t div 60000 + 1) * 60000" unfolding q by simp_all
qed

lemma utc_parts [simp]:
  assumes "0 \<le> n"
  shows "utc_minute (parts_of_minute n) = n"
proof -
  obtain y m d where c: "civil_of_day (n div 1440) = (y, m, d)" by (cases "civil_of_day (n div 1440)") auto
  have "0 \<le> n div 1440" using assms by (simp add: pos_imp_zdiv_nonneg_iff)
  from day_of_civil_of_day [OF c] this have "1970 \<le> y" "day_of_civil y m d = n div 1440" by auto
  then show ?thesis using minute_split [of n]
    by (simp add: utc_minute_def parts_of_minute_def c full_year_def)
qed

lemma utc_minute_add: "utc_minute (p\<lparr>lp_minute := lp_minute p + k\<rparr>) = utc_minute p + k"
  by (simp add: utc_minute_def)

lemma addLocalMinutes_parts [simp]:
  "0 \<le> n \<Longrightarrow> addLocalMinutes (parts_of_minute n) k = parts_of_minute (n + k)"
  by (simp add: addLocalMinutes_def utc_minute_add)

lemma parts_of_minute_inject: "0 \<le> m \<Longrightarrow> 0 \<le> n \<Longrightarrow> parts_of_minute m = parts_of_minute n \<longleftrightarrow> m = n"
  by (metis utc_parts)

lemma localPartsEqual_iff: "localPartsEqual l r \<longleftrightarrow> l = r"
  by (cases l; cases r) (auto simp: localPartsEqual_def)

section \<open>The search\<close>

lemma search_slot_None:
  "0 \<le> n \<Longrightarrow> search_slot k zone parsed after (parts_of_minute n) = None \<longleftrightarrow>
     (\<forall>m. n \<le> m \<longrightarrow> m < n + int k \<longrightarrow> slot_of zone parsed after (parts_of_minute m) = None)"
proof (induction k arbitrary: n)
  case (Suc k)
  have "(\<forall>m. n \<le> m \<longrightarrow> m < n + int (Suc k) \<longrightarrow> P m) \<longleftrightarrow> P n \<and> (\<forall>m. n + 1 \<le> m \<longrightarrow> m < n + 1 + int k \<longrightarrow> P m)" for P
  proof safe
    fix m
    assume "P n" "\<forall>m. n + 1 \<le> m \<longrightarrow> m < n + 1 + int k \<longrightarrow> P m" "n \<le> m" "m < n + int (Suc k)"
    then show "P m" by (cases "m = n") auto
  qed auto
  with Suc show ?case by (simp split: option.splits)
qed simp

lemma search_slot_Some:
  "0 \<le> n \<Longrightarrow> search_slot k zone parsed after (parts_of_minute n) = Some u \<Longrightarrow>
     \<exists>m. n \<le> m \<and> m < n + int k \<and> slot_of zone parsed after (parts_of_minute m) = Some u \<and>
         (\<forall>l. n \<le> l \<longrightarrow> l < m \<longrightarrow> slot_of zone parsed after (parts_of_minute l) = None)"
proof (induction k arbitrary: n)
  case (Suc k)
  show ?case
  proof (cases "slot_of zone parsed after (parts_of_minute n)")
    case None
    with Suc.prems Suc.IH [of "n + 1"] obtain m where
      m: "n + 1 \<le> m" "m < n + 1 + int k" "slot_of zone parsed after (parts_of_minute m) = Some u"
        "\<And>l. n + 1 \<le> l \<Longrightarrow> l < m \<Longrightarrow> slot_of zone parsed after (parts_of_minute l) = None" by auto
    have "slot_of zone parsed after (parts_of_minute l) = None" if "n \<le> l" "l < m" for l
      using None m(4) [of l] that by (cases "l = n") auto
    with m show ?thesis by (intro exI [of _ m]) auto
  next
    case (Some v)
    with Suc.prems show ?thesis by (intro exI [of _ n]) auto
  qed
qed simp

text \<open>In any zone: a slot lies ahead, and its local time is the candidate that matched.\<close>

lemma slot_of_SomeD:
  "slot_of zone parsed after p = Some u \<Longrightarrow> after < u \<and> zone u = p \<and> cronMatches parsed p"
  by (auto simp: slot_of_def localPartsEqual_iff Let_def split: if_splits)

lemma search_slot_ahead:
  "search_slot k zone parsed after p = Some u \<Longrightarrow> after < u \<and> cronMatches parsed (zone u)"
  by (induction k arbitrary: p) (auto split: option.splits dest: slot_of_SomeD)

section \<open>Zones of a fixed offset\<close>

text \<open>A zone that is always \<open>off\<close> minutes ahead of UTC.\<close>

definition fixed_zone :: "int \<Rightarrow> int \<Rightarrow> local_parts" where
  "fixed_zone off t = parts_of_minute (t div 60000 + off)"

lemma fixed_zone_minute [simp]: "fixed_zone off (m * 60000) = parts_of_minute (m + off)"
  by (simp add: fixed_zone_def)

lemma zonedLocalToUtc_fixed:
  assumes "1440 \<le> n" and "\<bar>off\<bar> \<le> 1440"
  shows "zonedLocalToUtc (fixed_zone off) (parts_of_minute n) = (n - off) * 60000"
proof -
  have e: "(4 :: nat) = Suc (Suc 2)" by simp
  have "n * 60000 - (utc_minute (fixed_zone off (n * 60000)) * 60000 - n * 60000) = (n - off) * 60000"
    using assms by (simp add: algebra_simps)
  moreover have "utc_minute (fixed_zone off ((n - off) * 60000)) = n"
    unfolding fixed_zone_minute using assms by simp
  moreover have "utc_minute (fixed_zone off (n * 60000)) = n + off" using assms by simp
  ultimately show ?thesis
    using assms unfolding zonedLocalToUtc_def e correct_guess.simps Let_def by (cases "off = 0") simp_all
qed

lemma slot_of_fixed:
  assumes "1440 \<le> n" and "\<bar>off\<bar> \<le> 1440" and "after div 60000 + off < n"
  shows "slot_of (fixed_zone off) parsed after (parts_of_minute n) =
    (if cronMatches parsed (parts_of_minute n) then Some ((n - off) * 60000) else None)"
proof -
  have "after div 60000 + 1 \<le> n - off" using assms(3) by simp
  then have "(after div 60000 + 1) * 60000 \<le> (n - off) * 60000" by (rule mult_right_mono) simp
  with minute_bounds(2) [of after] have "after < (n - off) * 60000" by (rule less_le_trans)
  moreover have "fixed_zone off ((n - off) * 60000) = parts_of_minute n"
    unfolding fixed_zone_minute by simp
  ultimately show ?thesis
    by (simp add: slot_of_def zonedLocalToUtc_fixed [OF assms(1,2)] localPartsEqual_iff)
qed

text \<open>When the expression fires after an instant: at full minutes whose local time it matches.\<close>

definition fires :: "(int \<Rightarrow> local_parts) \<Rightarrow> parsed_cron \<Rightarrow> int \<Rightarrow> int \<Rightarrow> bool" where
  "fires zone parsed after t \<longleftrightarrow> after < t \<and> t mod 60000 = 0 \<and> cronMatches parsed (zone t)"

lemma fires_fixed:
  assumes "2880 * 60000 \<le> after" and "\<bar>off\<bar> \<le> 1440"
  shows "fires (fixed_zone off) parsed after t \<longleftrightarrow>
    (\<exists>n > after div 60000 + off. t = (n - off) * 60000 \<and> slot_of (fixed_zone off) parsed after (parts_of_minute n) = Some t)"
    (is "?l \<longleftrightarrow> ?r")
proof
  have base: "2880 \<le> after div 60000" using zdiv_mono1 [OF assms(1), of 60000] by simp
  assume ?l
  then have t: "after < t" "t = t div 60000 * 60000" "cronMatches parsed (fixed_zone off t)"
    using div_mult_mod_eq [of t 60000] by (auto simp: fires_def)
  define n where "n = t div 60000 + off"
  have "after div 60000 < t div 60000"
  proof (rule ccontr)
    assume "\<not> after div 60000 < t div 60000"
    then have "t div 60000 * 60000 \<le> after div 60000 * 60000" by simp
    also have "\<dots> \<le> after" by (rule minute_bounds)
    finally show False using t(1,2) by simp
  qed
  then have n: "after div 60000 + off < n" "1440 \<le> n" using base assms(2) by (auto simp: n_def)
  moreover have "t = (n - off) * 60000" using t(2) by (simp add: n_def)
  moreover from t(3) have "cronMatches parsed (parts_of_minute n)" by (simp add: fixed_zone_def n_def)
  ultimately show ?r using slot_of_fixed [OF n(2) assms(2) n(1), of parsed] by auto
next
  assume ?r
  then obtain n where "t = (n - off) * 60000" and
    s: "slot_of (fixed_zone off) parsed after (parts_of_minute n) = Some t" by auto
  moreover from slot_of_SomeD [OF s] have "after < t" "cronMatches parsed (fixed_zone off t)" by auto
  ultimately show ?l by (simp add: fires_def)
qed

text \<open>The search returns the first minute that fires, if there is one within its bound.\<close>

lemma search_fixed:
  assumes "2880 * 60000 \<le> after" and "\<bar>off\<bar> \<le> 1440"
  shows "case search_slot k (fixed_zone off) parsed after (addLocalMinutes (fixed_zone off after) 1) of
     Some u \<Rightarrow> fires (fixed_zone off) parsed after u \<and> u \<le> after + int k * 60000 \<and>
       (\<nexists>v. fires (fixed_zone off) parsed after v \<and> v < u)
   | None \<Rightarrow> \<nexists>v. fires (fixed_zone off) parsed after v \<and> v \<le> after + int k * 60000"
proof -
  define n where "n = after div 60000 + off + 1"
  have "2880 \<le> after div 60000" using zdiv_mono1 [OF assms(1), of 60000] by simp
  then have n: "0 \<le> n" "addLocalMinutes (fixed_zone off after) 1 = parts_of_minute n"
    using assms(2) by (simp_all add: n_def fixed_zone_def)
  note fires = fires_fixed [OF assms]
  show ?thesis
  proof (cases "search_slot k (fixed_zone off) parsed after (parts_of_minute n)")
    case None
    have "\<not> v \<le> after + int k * 60000" if "fires (fixed_zone off) parsed after v" for v
    proof -
      from that fires obtain m where m: "n \<le> m" "v = (m - off) * 60000"
        "slot_of (fixed_zone off) parsed after (parts_of_minute m) = Some v" by (auto simp: n_def)
      with None search_slot_None [OF n(1)] have "n + int k \<le> m" by fastforce
      then have "(after div 60000 + 1 + int k) * 60000 \<le> v" by (simp add: m(2) n_def)
      with minute_bounds(2) [of after] show ?thesis by (simp add: algebra_simps)
    qed
    with None n(2) show ?thesis by auto
  next
    case (Some u)
    from search_slot_Some [OF n(1) this] obtain m where
      m: "n \<le> m" "slot_of (fixed_zone off) parsed after (parts_of_minute m) = Some u" "m < n + int k"
        "\<And>l. n \<le> l \<Longrightarrow> l < m \<Longrightarrow> slot_of (fixed_zone off) parsed after (parts_of_minute l) = None" by auto
    have "1440 \<le> m" "after div 60000 + off < m"
      using m(1) \<open>2880 \<le> after div 60000\<close> assms(2) by (auto simp: n_def)
    from slot_of_fixed [OF this(1) assms(2) this(2)] m(2) have u: "u = (m - off) * 60000"
      by (auto split: if_splits)
    have "u \<le> v" if "fires (fixed_zone off) parsed after v" for v
    proof -
      from that fires obtain l where l: "n \<le> l" "v = (l - off) * 60000"
        "slot_of (fixed_zone off) parsed after (parts_of_minute l) = Some v" by (auto simp: n_def)
      then have "m \<le> l" using m(4) [of l] by (cases "l < m") auto
      with l(2) u show ?thesis by simp
    qed
    moreover have "fires (fixed_zone off) parsed after u"
      using fires m(1,2) u by (auto simp: n_def)
    moreover have "u \<le> (after div 60000 + int k) * 60000" using m(3) by (simp add: u n_def)
    then have "u \<le> after + int k * 60000" using minute_bounds(1) [of after] by (simp add: algebra_simps)
    ultimately show ?thesis using Some n(2) by (auto simp: not_less)
  qed
qed

lemma max_search [simp]: "int MAX_SEARCH_MINUTES = 1054080"
  by (simp add: MAX_SEARCH_MINUTES_def)

section \<open>Expressions that list their values\<close>

text \<open>A field as the comma-separated values, and an expression of five fields.\<close>

definition field_text :: "nat list \<Rightarrow> string" where
  "field_text vs = join '','' (map dec_of_nat vs)"

definition cron_text :: "nat list list \<Rightarrow> string" where
  "cron_text fs = join '' '' (map field_text fs)"

lemma parse_number:
  assumes "lo \<le> int v" and "int v \<le> hi" and "hi \<le> MAX_SAFE"
  shows "parseBoundedInt (dec_of_nat v) lo hi label = Inr (int v)"
  using assms dec_of_nat_digits [of v] by (simp add: parseBoundedInt_def list_all_iff)

lemma no_separators [simp]:
  "CHR '','' \<notin> set (dec_of_nat v)" "CHR ''/'' \<notin> set (dec_of_nat v)" "CHR ''-'' \<notin> set (dec_of_nat v)"
  "dec_of_nat v \<noteq> ''*''"
proof -
  show "CHR '','' \<notin> set (dec_of_nat v)" "CHR ''/'' \<notin> set (dec_of_nat v)" "CHR ''-'' \<notin> set (dec_of_nat v)"
    by (simp_all add: dec_of_nat_notin is_digit_def)
  have "CHR ''*'' \<notin> set (dec_of_nat v)" by (simp add: dec_of_nat_notin is_digit_def)
  then show "dec_of_nat v \<noteq> ''*''" by auto
qed

lemma range_single [simp]: "range_values v v 1 = [v]"
  by (simp add: range_values.simps [of v v] range_values.simps [of "v + 1" v])

lemma cron_part_number:
  assumes "lo \<le> int v" and "int v \<le> hi" and "hi \<le> MAX_SAFE"
  shows "cron_part field lo hi label (dec_of_nat v) = Inr [int v]"
  by (simp add: cron_part_def cron_range_def split_on_notin parse_number [OF assms])

lemma map_sum_list_Inr: "(\<And>x. x \<in> set xs \<Longrightarrow> f x = Inr (g x)) \<Longrightarrow> map_sum_list f xs = Inr (map g xs)"
  by (induction xs) auto

lemma parse_field:
  assumes "vs \<noteq> []" and "\<forall>v \<in> set vs. lo \<le> int v \<and> int v \<le> hi" and "hi \<le> MAX_SAFE"
  shows "parseCronField (field_text vs) lo hi label reduce = Inr (map (\<lambda>v. reduce (int v)) vs)"
proof -
  have "split_on (CHR '','') (field_text vs) = map dec_of_nat vs"
    unfolding field_text_def using assms(1) by (intro split_on_join) auto
  moreover have "map_sum_list (cron_part (field_text vs) lo hi label) (map dec_of_nat vs) =
      Inr (map (\<lambda>p. [int (nat_of_dec p)]) (map dec_of_nat vs))"
    using assms cron_part_number by (intro map_sum_list_Inr) auto
  moreover have "concat (map (\<lambda>v. [int v]) vs) = map int vs" by (induction vs) auto
  ultimately show ?thesis using assms(1) by (simp add: parseCronField_def o_def)
qed

text \<open>A field has no blank, and the expression is split into its fields.\<close>

lemma join_chars: "c \<in> set (join sep ps) \<Longrightarrow> c \<in> set sep \<or> (\<exists>p \<in> set ps. c \<in> set p)"
  by (induction sep ps rule: join.induct) auto

lemma join_nonempty: "ps \<noteq> [] \<Longrightarrow> hd ps \<noteq> [] \<Longrightarrow> join sep ps \<noteq> []"
  by (cases ps; cases "tl ps") auto

lemma field_text_word:
  assumes "vs \<noteq> []"
  shows "field_text vs \<noteq> []" and "\<forall>c \<in> set (field_text vs). \<not> is_space c" and "field_text vs \<noteq> ''*''"
proof -
  show "field_text vs \<noteq> []"
    unfolding field_text_def using assms by (intro join_nonempty) (auto simp: hd_map)
  have comma: "\<not> is_space (CHR '','')" by (simp add: is_space_def)
  have c: "is_digit c \<or> c = CHR '',''" if "c \<in> set (field_text vs)" for c
    using join_chars [OF that [unfolded field_text_def]] by auto
  then show "\<forall>c \<in> set (field_text vs). \<not> is_space c"
    using digit_not_space comma by metis
  have "\<not> is_digit (CHR ''*'')" by (simp add: is_digit_def)
  with c [of "CHR ''*''"] have "CHR ''*'' \<notin> set (field_text vs)" by auto
  then show "field_text vs \<noteq> ''*''" by auto
qed

lemma split_spaces_word: "\<forall>c \<in> set w. \<not> is_space c \<Longrightarrow> split_spaces w = [w]"
  by (subst split_spaces.simps) (simp add: Let_def takeWhile_eq_all_conv dropWhile_eq_Nil_conv)

lemma split_spaces_join:
  "ws \<noteq> [] \<Longrightarrow> \<forall>w \<in> set ws. w \<noteq> [] \<and> (\<forall>c \<in> set w. \<not> is_space c) \<Longrightarrow>
     split_spaces (join '' '' ws) = ws"
proof (induction ws rule: list_nonempty_induct)
  case (cons w ws)
  let ?s = "w @ '' '' @ join '' '' ws"
  have blank: "is_space (CHR '' '')" by (simp add: is_space_def)
  have "takeWhile (\<lambda>c. \<not> is_space c) ?s = w" "dropWhile (\<lambda>c. \<not> is_space c) ?s = '' '' @ join '' '' ws"
    using cons.prems blank by (simp_all add: takeWhile_append2 dropWhile_append2)
  moreover have "dropWhile is_space ('' '' @ join '' '' ws) = join '' '' ws"
  proof -
    obtain v vs where v: "ws = v # vs" using cons.hyps by (cases ws) auto
    then obtain c cs where "v = c # cs" "\<not> is_space c" using cons.prems by (cases v) auto
    with v blank show ?thesis by (cases vs) (auto simp: join_Cons)
  qed
  ultimately have "split_spaces ?s = w # split_spaces (join '' '' ws)"
    by (subst split_spaces.simps) (simp add: Let_def)
  with cons show ?case by (simp add: join_Cons)
qed (simp add: split_spaces_word)

lemma trim_words:
  assumes "ws \<noteq> []" and "\<forall>w \<in> set ws. w \<noteq> [] \<and> (\<forall>c \<in> set w. \<not> is_space c)"
  shows "trim (join '' '' ws) = join '' '' ws"
proof (rule trim_id)
  show "join '' '' ws \<noteq> []" using assms by (intro join_nonempty) auto
  show "\<not> is_space (hd (join '' '' ws))" using assms
    by (cases ws; cases "tl ws") (auto simp: hd_append join_Cons)
  show "\<not> is_space (last (join '' '' ws))" using assms
  proof (induction ws rule: list_nonempty_induct)
    case (cons w ws)
    then have "join '' '' ws \<noteq> []" by (intro join_nonempty) auto
    with cons show ?case by (simp add: join_Cons)
  qed auto
qed

section \<open>Properties\<close>

text \<open>
  C19: in a zone of fixed offset (UTC is one) the computed run is the earliest full minute after the
  given instant whose local time the expression matches, and the call fails only if there is none in
  the 732 days that follow.
\<close>

theorem next_run_exact:
  assumes "2880 * 60000 \<le> after" and "\<bar>off\<bar> \<le> 1440" and "zone tz = fixed_zone off"
    and "parseSchedule valid_zone cfg = Inr (cron, tz)" and "parseCron cron = Inr parsed"
  shows "case computeNextRunAt valid_zone zone cfg after of
      Inr u \<Rightarrow> fires (fixed_zone off) parsed after u \<and> u \<le> after + 732 * 24 * 60 * 60000 \<and>
        (\<nexists>v. fires (fixed_zone off) parsed after v \<and> v < u)
    | Inl e \<Rightarrow> e = NoMatchingSlot \<and>
        (\<nexists>v. fires (fixed_zone off) parsed after v \<and> v \<le> after + 732 * 24 * 60 * 60000)"
  using search_fixed [OF assms(1,2), of parsed MAX_SEARCH_MINUTES] assms(3-5)
  by (auto simp: computeNextRunAt_def split: option.splits)

text \<open>Every minute in UTC, two days after the epoch.\<close>

definition every_minute :: jsobj where
  "every_minute = [(''cron'', JStr ''* * * * *'')]"

lemma every_minute_parses:
  "parseSchedule (\<lambda>_. True) (Some every_minute) = Inr (''* * * * *'', ''UTC'')"
  "case parseCron ''* * * * *'' of Inl _ \<Rightarrow> False | Inr p \<Rightarrow> fires (fixed_zone 0) p (2880 * 60000) (2881 * 60000)"
  by code_simp+

theorem next_run_exact_witness:
  "computeNextRunAt (\<lambda>_. True) (\<lambda>_. fixed_zone 0) (Some every_minute) (2880 * 60000) = Inr (2881 * 60000)"
proof -
  obtain p where p: "parseCron ''* * * * *'' = Inr p" "fires (fixed_zone 0) p (2880 * 60000) (2881 * 60000)"
    using every_minute_parses(2) by (auto split: sum.splits)
  note exact = next_run_exact [of "2880 * 60000" 0 "\<lambda>_. fixed_zone 0" "''UTC''" "\<lambda>_. True" "Some every_minute"
      "''* * * * *''" p, OF _ _ refl every_minute_parses(1) p(1)]
  show ?thesis
  proof (cases "computeNextRunAt (\<lambda>_. True) (\<lambda>_. fixed_zone 0) (Some every_minute) (2880 * 60000)")
    case (Inl e)
    with exact p(2) show ?thesis by auto
  next
    case (Inr u)
    with exact p(2) have u: "u \<le> 2881 * 60000" "fires (fixed_zone 0) p (2880 * 60000) u" by force+
    then have "2880 * 60000 < u" "u = u div 60000 * 60000"
      using div_mult_mod_eq [of u 60000] by (auto simp: fires_def)
    with u(1) have "u div 60000 = 2881" by linarith
    with \<open>u = _\<close> Inr show ?thesis by simp
  qed
qed

text \<open>
  An expression that lists the values of its five fields, in any order and with repetitions, is
  read as exactly these values, with Sunday as 0 and no field a wildcard.
\<close>

theorem cron_lists_roundtrip:
  assumes "list_all (\<lambda>vs. vs \<noteq> []) [ms, hs, ds, mos, ws]"
    and "list_all (\<lambda>v. v \<le> 59) ms" and "list_all (\<lambda>v. v \<le> 23) hs"
    and "list_all (\<lambda>v. 1 \<le> v \<and> v \<le> 31) ds" and "list_all (\<lambda>v. 1 \<le> v \<and> v \<le> 12) mos"
    and "list_all (\<lambda>v. v \<le> 7) ws"
  shows "parseCron (cron_text [ms, hs, ds, mos, ws]) =
    Inr \<lparr>pc_minutes = map int ms, pc_hours = map int hs, pc_daysOfMonth = map int ds,
         pc_months = map int mos, pc_daysOfWeek = map (\<lambda>v. if v = 7 then 0 else int v) ws,
         pc_dayOfMonthWildcard = False, pc_dayOfWeekWildcard = False\<rparr>"
proof -
  have ne: "ms \<noteq> []" "hs \<noteq> []" "ds \<noteq> []" "mos \<noteq> []" "ws \<noteq> []" using assms(1) by simp_all
  note words = field_text_word [OF ne(1)] field_text_word [OF ne(2)] field_text_word [OF ne(3)]
    field_text_word [OF ne(4)] field_text_word [OF ne(5)]
  let ?ts = "[field_text ms, field_text hs, field_text ds, field_text mos, field_text ws]"
  have t: "cron_text [ms, hs, ds, mos, ws] = join '' '' ?ts" by (simp add: cron_text_def)
  have "split_spaces (trim (join '' '' ?ts)) = ?ts"
    using words by (simp add: trim_words split_spaces_join del: join.simps)
  moreover have "int v = 7 \<longleftrightarrow> v = 7" for v by presburger
  ultimately show ?thesis
    using assms ne words(9,15)
    by (simp add: t parseCron_def parse_field list_all_iff MAX_SAFE_def cong: map_cong)
qed

theorem cron_lists_roundtrip_witness:
  "parseCron (cron_text [[0, 30], [9], [1, 15], [1], [1, 7]]) =
    Inr \<lparr>pc_minutes = [0, 30], pc_hours = [9], pc_daysOfMonth = [1, 15], pc_months = [1],
         pc_daysOfWeek = [1, 0], pc_dayOfMonthWildcard = False, pc_dayOfWeekWildcard = False\<rparr>"
  using cron_lists_roundtrip [of "[0, 30]" "[9]" "[1, 15]" "[1]" "[1, 7]"] by simp

section \<open>The bound of the search\<close>

text \<open>
  The two years the search covers are not enough for a schedule on 29 February: from March of a leap
  year the next one is almost four years away and the call fails.
\<close>

lemma leap_day_year:
  assumes "civil_of_day d = (y, 2, 29)"
  shows "leap y" and "d = day_from_year y + 59"
proof -
  obtain y' r where y: "year_of_day d = (y', r)" by (cases "year_of_day d")
  obtain m' k' where f: "find_month 0 (month_lengths y') r = (m', k')"
    by (cases "find_month 0 (month_lengths y') r")
  from assms y f have e: "y = y'" "m' = 1" "k' = 28" by (auto simp: civil_of_day_def)
  from year_of_day_ok(1) [OF y] have r: "0 \<le> r" "r < sum_list (month_lengths y')" "day_from_year y' + r = d"
    by (simp_all add: sum_month_lengths)
  from find_month_ok [OF r(1,2) f] e have "28 < month_lengths y ! 1" "sum_list (take 1 (month_lengths y)) + 28 = r"
    by auto
  with r(3) e show "leap y" "d = day_from_year y + 59"
    by (auto simp: month_lengths_def split: if_splits)
qed

lemma day_from_year_mono: "y \<le> z \<Longrightarrow> day_from_year y \<le> day_from_year z"
proof (induction z rule: int_ge_induct)
  case (step z)
  then show ?case using year_days_pos [of z] by (simp add: day_from_year_Suc del: year_days_pos)
qed simp

lemma no_leap_day:
  assumes "19783 \<le> d" and "d \<le> 20515"
  shows "civil_of_day d \<noteq> (y, 2, 29)"
proof
  assume c: "civil_of_day d = (y, 2, 29)"
  note y = leap_day_year [OF c]
  have "\<not> y \<le> 2023" using day_from_year_mono [of y 2023] assms(1) y(2) by (auto simp: day_from_year_def)
  moreover have "\<not> 2027 \<le> y" using day_from_year_mono [of 2027 y] assms(2) y(2) by (auto simp: day_from_year_def)
  ultimately have "y = 2024 \<or> y = 2025 \<or> y = 2026" by linarith
  with y assms show False by (auto simp: leap_def day_from_year_def)
qed

definition leap_day :: jsobj where
  "leap_day = [(''cron'', JStr ''0 0 29 2 *'')]"

lemma leap_day_not_found:
  "computeNextRunAt (\<lambda>_. True) (\<lambda>_. fixed_zone 0) (Some leap_day) (19783 * 1440 * 60000) = Inl NoMatchingSlot"
proof -
  define p where "p = \<lparr>pc_minutes = [0], pc_hours = [0], pc_daysOfMonth = [29], pc_months = [2],
    pc_daysOfWeek = [0, 1, 2, 3, 4, 5, 6, 0], pc_dayOfMonthWildcard = False, pc_dayOfWeekWildcard = True\<rparr>"
  have parse: "parseSchedule (\<lambda>_. True) (Some leap_day) = Inr (''0 0 29 2 *'', ''UTC'')"
    "parseCron ''0 0 29 2 *'' = Inr p" unfolding p_def by code_simp+
  have no: "\<not> (fires (fixed_zone 0) p (19783 * 1440 * 60000) v \<and> v \<le> 19783 * 1440 * 60000 + 1054080 * 60000)" for v
  proof
    assume v: "fires (fixed_zone 0) p (19783 * 1440 * 60000) v \<and> v \<le> 19783 * 1440 * 60000 + 1054080 * 60000"
    let ?d = "v div 60000 div 1440"
    obtain y m k where c: "civil_of_day ?d = (y, m, k)" by (cases "civil_of_day ?d") auto
    with v have "m = 2" "k = 29"
      by (auto simp: fires_def fixed_zone_def parts_of_minute_def cronMatches_def p_def split: if_splits)
    moreover have "19783 * 1440 \<le> v div 60000" using v zdiv_mono1 [of "19783 * 1440 * 60000" v 60000]
      by (simp add: fires_def)
    then have "19783 \<le> ?d" using zdiv_mono1 [of "19783 * 1440" "v div 60000" 1440] by simp
    moreover have "v div 60000 \<le> 19783 * 1440 + 1054080"
      using v zdiv_mono1 [of v "19783 * 1440 * 60000 + 1054080 * 60000" 60000] by simp
    then have "?d \<le> 20515" using zdiv_mono1 [of "v div 60000" "19783 * 1440 + 1054080" 1440] by simp
    ultimately show False using no_leap_day [of ?d y] c by simp
  qed
  show ?thesis
    using search_fixed [of "19783 * 1440 * 60000" 0 p MAX_SEARCH_MINUTES] no
    by (auto simp: computeNextRunAt_def parse split: option.splits)
qed

end
