(* ===== verification/RunTables.thy ===== *)
theory RunTables
  imports SqlTable EvidenceRedaction
begin

text \<open>
  The rows of the run tables, \<open>runs/runRepositoryTypes.ts\<close> and \<open>db/schema/runs.ts\<close>: the columns of
  \<open>runs\<close> and \<open>run_attempts\<close> that the state machine of a run, its routing and its supervision read or
  write. Times are milliseconds since the epoch. SQL \<open>NULL\<close> is \<open>None\<close>, so a nullable \<open>jsonb\<close> column
  distinguishes it from JSON \<open>null\<close>.
\<close>

section \<open>Rows\<close>

datatype run_status =
    RunQueued
  | RunRunning
  | RunCancelling
  | RunSucceeded
  | RunDegraded
  | RunFailed
  | RunCancelled
  | RunOrphaned
  | RunWaitingForReview
  | RunWaitingForDependency

fun run_status_text :: "run_status \<Rightarrow> string" where
  "run_status_text RunQueued = ''queued''"
| "run_status_text RunRunning = ''running''"
| "run_status_text RunCancelling = ''cancelling''"
| "run_status_text RunSucceeded = ''succeeded''"
| "run_status_text RunDegraded = ''degraded''"
| "run_status_text RunFailed = ''failed''"
| "run_status_text RunCancelled = ''cancelled''"
| "run_status_text RunOrphaned = ''orphaned''"
| "run_status_text RunWaitingForReview = ''waiting_for_review''"
| "run_status_text RunWaitingForDependency = ''waiting_for_dependency''"

lemma run_status_text_inject [simp]: "run_status_text a = run_status_text b \<longleftrightarrow> a = b"
  by (cases a; cases b) simp_all

text \<open>\<open>status IN ('succeeded', 'failed', 'degraded', 'cancelled', 'orphaned')\<close>.\<close>

definition ended :: "run_status \<Rightarrow> bool" where
  "ended s \<longleftrightarrow> s = RunSucceeded \<or> s = RunFailed \<or> s = RunDegraded \<or> s = RunCancelled \<or> s = RunOrphaned"

datatype run_role = Execution | Coordinator

record run =
  rn_id :: string
  rn_space_id :: string
  rn_agent_id :: string
  rn_run_role :: run_role
  rn_run_type :: string
  rn_trigger_origin :: string
  rn_status :: run_status
  rn_mode :: string
  rn_prompt :: "string option"
  rn_workspace_id :: "string option"
  rn_root_run_id :: "string option"
  rn_run_group_id :: "string option"
  rn_owner_user_id :: "string option"
  rn_instructed_by_user_id :: "string option"
  rn_contract_snapshot_json :: jsval
  rn_permission_snapshot_json :: "jsobj option"
  rn_capabilities_json :: jsval
  rn_requested_runtime_profile_id :: "string option"
  rn_runtime_profile_selection_source :: "string option"
  rn_route_decision_id :: "string option"
  rn_runtime_profile_id :: "string option"
  rn_adapter_type :: "string option"
  rn_model_provider_id :: "string option"
  rn_model_override_json :: jsval
  rn_runtime_profile_snapshot_json :: jsval
  rn_required_sandbox_level :: string
  rn_output_json :: "jsval option"
  rn_error_json :: "jsval option"
  rn_error_message :: "string option"
  rn_exit_code :: "int option"
  rn_started_at :: "int option"
  rn_ended_at :: "int option"
  rn_updated_at :: int

record run_attempt =
  at_id :: string
  at_space_id :: string
  at_run_id :: string
  at_number :: nat
  at_status :: run_status
  at_started_at :: "int option"
  at_ended_at :: "int option"
  at_last_activity_at :: "int option"
  at_cancel_requested_at :: "int option"
  at_cancel_confirmed_at :: "int option"
  at_exit_code :: "int option"
  at_error_code :: "string option"
  at_error_json :: "jsval option"
  at_updated_at :: int

record run_db =
  db_runs :: "run list"
  db_attempts :: "run_attempt list"

section \<open>SQL on JSON columns\<close>

text \<open>\<open>a || b\<close> on \<open>jsonb\<close>: objects are merged, anything else is concatenated as arrays.\<close>

fun jsonb_items :: "jsval \<Rightarrow> jsval list" where
  "jsonb_items (JArr vs) = vs"
| "jsonb_items v = [v]"

definition jsonb_concat :: "jsval \<Rightarrow> jsval \<Rightarrow> jsval" where
  "jsonb_concat a b = (case (a, b) of
     (JObj x, JObj y) \<Rightarrow> JObj (assign x y) | _ \<Rightarrow> JArr (jsonb_items a @ jsonb_items b))"

text \<open>\<open>column->>'key'\<close> for keys whose values are scalars.\<close>

definition json_text :: "jsval option \<Rightarrow> string \<Rightarrow> string option" where
  "json_text column key = (case column of
     Some (JObj ob) \<Rightarrow>
       (case get ob key of
          JStr s \<Rightarrow> Some s
        | JNum q \<Rightarrow> Some (num_to_string q)
        | JBool b \<Rightarrow> Some (if b then ''true'' else ''false'')
        | _ \<Rightarrow> None)
   | _ \<Rightarrow> None)"

section \<open>The attempts of a run\<close>

definition of_run :: "string \<Rightarrow> string \<Rightarrow> run_attempt \<Rightarrow> bool" where
  "of_run space run a \<longleftrightarrow> at_space_id a = space \<and> at_run_id a = run"

definition attempts_of :: "string \<Rightarrow> string \<Rightarrow> run_attempt list \<Rightarrow> run_attempt list" where
  "attempts_of space run atts = filter (of_run space run) atts"

definition max_number :: "run_attempt list \<Rightarrow> nat option" where
  "max_number atts = (if atts = [] then None else Some (Max (set (map at_number atts))))"

definition is_latest :: "run_attempt list \<Rightarrow> run_attempt \<Rightarrow> bool" where
  "is_latest atts a \<longleftrightarrow> max_number (attempts_of (at_space_id a) (at_run_id a) atts) = Some (at_number a)"

text \<open>\<open>UPDATE run_attempts ... WHERE a.attempt_number = (SELECT max(...))\<close>.\<close>

definition update_latest ::
    "string \<Rightarrow> string \<Rightarrow> (run_attempt \<Rightarrow> bool) \<Rightarrow> (run_attempt \<Rightarrow> run_attempt) \<Rightarrow>
     run_attempt list \<Rightarrow> run_attempt list" where
  "update_latest space run guard f atts =
     sql_update (\<lambda>a. of_run space run a \<and> is_latest atts a \<and> guard a) f atts"

text \<open>\<open>COALESCE(max(attempt_number), 0) + 1\<close>.\<close>

definition next_number :: "string \<Rightarrow> string \<Rightarrow> run_attempt list \<Rightarrow> nat" where
  "next_number space run atts = or_value (max_number (attempts_of space run atts)) 0 + 1"

text \<open>\<open>INSERT ... ON CONFLICT (space_id, run_id, attempt_number) DO NOTHING\<close>.\<close>

definition insert_attempt :: "run_attempt \<Rightarrow> run_attempt list \<Rightarrow> run_attempt list" where
  "insert_attempt a atts =
     (if list_ex (\<lambda>b. of_run (at_space_id a) (at_run_id a) b \<and> at_number b = at_number a) atts then atts
      else atts @ [a])"

definition new_attempt :: "string \<Rightarrow> string \<Rightarrow> string \<Rightarrow> nat \<Rightarrow> run_status \<Rightarrow> int \<Rightarrow> run_attempt" where
  "new_attempt i space run n status now =
     \<lparr>at_id = i, at_space_id = space, at_run_id = run, at_number = n, at_status = status,
      at_started_at = None, at_ended_at = None, at_last_activity_at = None, at_cancel_requested_at = None,
      at_cancel_confirmed_at = None, at_exit_code = None, at_error_code = None, at_error_json = None,
      at_updated_at = now\<rparr>"

lemma new_attempt_simps [simp]:
  "at_id (new_attempt i space run n status now) = i"
  "at_space_id (new_attempt i space run n status now) = space"
  "at_run_id (new_attempt i space run n status now) = run"
  "at_number (new_attempt i space run n status now) = n"
  "at_status (new_attempt i space run n status now) = status"
  by (simp_all add: new_attempt_def)

text \<open>\<open>UPDATE runs ... WHERE space_id = $1 AND id = $2 AND guard RETURNING *\<close> with its attempts clause.\<close>

definition is_run :: "string \<Rightarrow> string \<Rightarrow> run \<Rightarrow> bool" where
  "is_run space i r \<longleftrightarrow> rn_space_id r = space \<and> rn_id r = i"

definition transition ::
    "string \<Rightarrow> string \<Rightarrow> (run \<Rightarrow> bool) \<Rightarrow> (run \<Rightarrow> run) \<Rightarrow> (run_attempt list \<Rightarrow> run_attempt list) \<Rightarrow>
     run_db \<Rightarrow> run option \<times> run_db" where
  "transition space i guard change attempts db =
     (let hit = (\<lambda>r. is_run space i r \<and> guard r) in
      case sql_returning hit change (db_runs db) of
        [] \<Rightarrow> (None, db)
      | r # _ \<Rightarrow> (Some r, db\<lparr>db_runs := sql_update hit change (db_runs db),
                            db_attempts := attempts (db_attempts db)\<rparr>))"

definition find_run :: "string \<Rightarrow> string \<Rightarrow> run_db \<Rightarrow> run option" where
  "find_run space i db = List.find (is_run space i) (db_runs db)"

definition getLatestRunAttempt :: "string \<Rightarrow> string \<Rightarrow> run_db \<Rightarrow> run_attempt option" where
  "getLatestRunAttempt space run db = List.find (\<lambda>a. of_run space run a \<and> is_latest (db_attempts db) a) (db_attempts db)"

end
