(* ===== verification/RunCreate.thy ===== *)
theory RunCreate
  imports RunTables RunBudget StableSort
begin

text \<open>
  The creation of a run, \<open>createQueuedRun\<close> and its helpers in \<open>runs/repository.ts\<close> and
  \<open>runs/runRepositoryHelpers.ts\<close>: validation, the references that must exist, the immutable contract
  and the first attempt. The lookups in other tables (agents, versions, workspaces, ...) are answers
  given to the model; the context snapshot written next to the run is left out.
\<close>

section \<open>The contract as it is stored\<close>

definition opt_num :: "rat option \<Rightarrow> jsval" where
  "opt_num x = (case x of None \<Rightarrow> JNull | Some q \<Rightarrow> JNum q)"

definition source_json :: "contract_source \<Rightarrow> jsval" where
  "source_json s = JObj [(''kind'', JStr (source_kind_text (cs_kind s))), (''id'', cs_id s)]"

definition budget_source_json :: "budget_source \<Rightarrow> jsval" where
  "budget_source_json s = JObj
     [(''source'', source_json (bs_source s)), (''precedence'', opt_num (bs_precedence s)),
      (''max_runs'', opt_num (bs_max_runs s)), (''max_attempts'', opt_num (bs_max_attempts s)),
      (''max_cost'', opt_num (bs_max_cost s)), (''max_duration_seconds'', opt_num (bs_max_duration_seconds s))]"

definition caps_json :: "effective_budget \<Rightarrow> jsobj" where
  "caps_json e =
     [(''max_runs'', opt_num (eb_max_runs e)), (''max_attempts'', opt_num (eb_max_attempts e)),
      (''max_cost'', opt_num (eb_max_cost e)), (''max_duration_seconds'', opt_num (eb_max_duration_seconds e))]"

text \<open>The record of how the budget was resolved is no input of the modelled readers and is left out.\<close>

definition contract_json :: "contract_snapshot \<Rightarrow> jsval" where
  "contract_json c = JObj
     [(''contract_version'', JStr (ct_contract_version c)), (''source'', source_json (ct_source c)),
      (''project_id'', opt_str (ct_project_id c)), (''workspace_id'', opt_str (ct_workspace_id c)),
      (''acceptance_criteria_json'', ct_acceptance_criteria_json c),
      (''definition_of_done'', opt_str (ct_definition_of_done c)),
      (''required_outputs_json'', ct_required_outputs_json c),
      (''structured_output_json'', ct_structured_output_json c), (''risk_level'', opt_str (ct_risk_level c)),
      (''max_runs'', opt_num (ct_max_runs c)), (''max_attempts'', opt_num (ct_max_attempts c)),
      (''max_cost'', opt_num (ct_max_cost c)), (''max_duration_seconds'', opt_num (ct_max_duration_seconds c)),
      (''budget_sources'', JArr (map budget_source_json (ct_budget_sources c))),
      (''effective_budget'', JObj (caps_json (ct_effective_budget c))),
      (''workflow_input_json'', ct_workflow_input_json c), (''upstream_inputs_json'', ct_upstream_inputs_json c),
      (''route_hints_json'', ct_route_hints_json c), (''policy_context_json'', ct_policy_context_json c),
      (''created_at'', JStr (ct_created_at c))]"

section \<open>Validation\<close>

datatype run_create_error = RunCreateValidationError string nat

record run_create_input =
  rci_agent_id :: string
  rci_space_id :: string
  rci_user_id :: string
  rci_mode :: string
  rci_run_type :: string
  rci_trigger_origin :: string
  rci_session_id :: "string option"
  rci_workspace_id :: "string option"
  rci_project_id :: "string option"
  rci_prompt :: "string option"
  rci_parent_run_id :: "string option"
  rci_root_run_id :: "string option"
  rci_runtime_profile_id :: "string option"
  rci_runtime_profile_selection_source :: "string option"
  rci_capabilities_json :: "jsval list option"
  rci_model_override_json :: jsobj
  rci_contract_snapshot :: "contract_input option"

definition assertOneOf :: "string \<Rightarrow> string list \<Rightarrow> string \<Rightarrow> run_create_error option" where
  "assertOneOf value allowed name =
     (if value \<in> set allowed then None
      else Some (RunCreateValidationError
        (''Invalid '' @ name @ '' '' @ quoted value @ ''. Must be one of: '' @
           join '', '' (sort_by compare_text allowed)) 422))"

definition RUN_TYPES :: "string list" where
  "RUN_TYPES = [''agent'', ''planning'', ''system'', ''workflow'', ''validation'', ''reflection'', ''export'', ''evolution'']"

definition TRIGGER_ORIGINS :: "string list" where
  "TRIGGER_ORIGINS = [''manual'', ''automation'', ''job'', ''system'']"

text \<open>The first failing check of a list of checks.\<close>

fun first_failure :: "'e option list \<Rightarrow> 'e option" where
  "first_failure [] = None"
| "first_failure (None # cs) = first_failure cs"
| "first_failure (Some e # cs) = Some e"

definition validateRunCreateInput :: "run_create_input \<Rightarrow> run_create_error option" where
  "validateRunCreateInput i = first_failure
     [assertOneOf (rci_mode i) [''live'', ''dry_run''] ''mode'',
      assertOneOf (rci_run_type i) RUN_TYPES ''run_type'',
      assertOneOf (rci_trigger_origin i) TRIGGER_ORIGINS ''trigger_origin'']"

definition normalizeRunCapabilitiesJson :: "jsval list option \<Rightarrow> run_create_error + string list" where
  "normalizeRunCapabilitiesJson value =
     (case value of
        None \<Rightarrow> Inr []
      | Some vs \<Rightarrow>
          let result = filter (\<lambda>s. s \<noteq> []) (map (\<lambda>v. case v of JStr s \<Rightarrow> trim s | _ \<Rightarrow> []) vs)
          in if length result \<noteq> length vs
             then Inl (RunCreateValidationError ''capabilities_json must contain non-empty strings'' 422)
             else Inr (nub result))"

section \<open>References\<close>

record agent_ref =
  ar_status :: string
  ar_current_version_id :: "string option"

record run_refs =
  rf_agent :: "string \<Rightarrow> string \<Rightarrow> agent_ref option"
  rf_version_belongs :: "string \<Rightarrow> string \<Rightarrow> string \<Rightarrow> bool"
  rf_workspace :: "string \<Rightarrow> string \<Rightarrow> bool"
  rf_session :: "string \<Rightarrow> string \<Rightarrow> bool"
  rf_project :: "string \<Rightarrow> string \<Rightarrow> bool"
  rf_profile_enabled :: "string \<Rightarrow> string \<Rightarrow> string \<Rightarrow> bool option"

definition assertOptionalSpaceRef ::
    "(string \<Rightarrow> string \<Rightarrow> bool) \<Rightarrow> string option \<Rightarrow> string \<Rightarrow> string \<Rightarrow> run_create_error option" where
  "assertOptionalSpaceRef exists i space label = (case i of
     None \<Rightarrow> None
   | Some x \<Rightarrow> if x = [] \<or> exists space x then None
              else Some (RunCreateValidationError (label @ '' '' @ quoted x @ '' not found in this space'') 400))"

definition check_agent :: "run_refs \<Rightarrow> run_create_input \<Rightarrow> run_create_error option" where
  "check_agent refs i =
     (let agent = rci_agent_id i; space = rci_space_id i in
      case rf_agent refs space agent of
        None \<Rightarrow> Some (RunCreateValidationError (''Agent '' @ quoted agent @ '' not found in this space'') 404)
      | Some a \<Rightarrow>
          if ar_status a \<noteq> ''active''
          then Some (RunCreateValidationError (''Agent '' @ quoted agent @ '' is not active'') 409)
          else (case ar_current_version_id a of
             None \<Rightarrow> Some (RunCreateValidationError (''Agent '' @ quoted agent @
                 '' has no current version. Create an AgentVersion first.'') 400)
           | Some v \<Rightarrow>
               if v = [] then Some (RunCreateValidationError (''Agent '' @ quoted agent @
                 '' has no current version. Create an AgentVersion first.'') 400)
               else if rf_version_belongs refs space agent v then None
               else Some (RunCreateValidationError (''AgentVersion '' @ quoted v @
                 '' does not belong to Agent '' @ quoted agent) 400)))"

definition check_parent :: "run_create_input \<Rightarrow> run_db \<Rightarrow> run_create_error option" where
  "check_parent i db = (case rci_parent_run_id i of
     None \<Rightarrow> None
   | Some p \<Rightarrow> if p = [] \<or> find_run (rci_space_id i) p db \<noteq> None then None
              else Some (RunCreateValidationError (''Parent run '' @ quoted p @ '' not found'') 404))"

definition requireRuntimeProfileForRun :: "run_refs \<Rightarrow> run_create_input \<Rightarrow> run_create_error option" where
  "requireRuntimeProfileForRun refs i = (case rci_runtime_profile_id i of
     None \<Rightarrow> None
   | Some p \<Rightarrow>
       if p = [] then None
       else (case rf_profile_enabled refs (rci_space_id i) (rci_agent_id i) p of
          None \<Rightarrow> Some (RunCreateValidationError (''Runtime profile '' @ quoted p @ '' not found for Agent '' @
              quoted (rci_agent_id i) @ '' in this space'') 404)
        | Some enabled \<Rightarrow> if enabled then None
            else Some (RunCreateValidationError (''Runtime profile '' @ quoted p @ '' is disabled'') 409)))"

section \<open>The new run\<close>

record run_links =
  ln_root_run_id :: "string option"
  ln_run_group_id :: "string option"
  ln_run_role :: run_role

definition no_links :: run_links where
  "no_links = \<lparr>ln_root_run_id = None, ln_run_group_id = None, ln_run_role = Execution\<rparr>"

definition selection_source :: "run_create_input \<Rightarrow> string" where
  "selection_source i = (case rci_runtime_profile_selection_source i of
     Some s \<Rightarrow> s
   | None \<Rightarrow> (case rci_runtime_profile_id i of
       Some p \<Rightarrow> if p = [] then ''default'' else ''explicit'' | None \<Rightarrow> ''default''))"

definition new_run :: "run_create_input \<Rightarrow> run_links \<Rightarrow> string list \<Rightarrow> string \<Rightarrow> int \<Rightarrow> string \<Rightarrow> run" where
  "new_run i links capabilities run_id now created_at =
     \<lparr>rn_id = run_id, rn_space_id = rci_space_id i, rn_agent_id = rci_agent_id i, rn_run_role = ln_run_role links,
      rn_run_type = rci_run_type i, rn_trigger_origin = rci_trigger_origin i, rn_status = RunQueued,
      rn_mode = rci_mode i, rn_prompt = rci_prompt i, rn_workspace_id = rci_workspace_id i,
      rn_root_run_id = (case ln_root_run_id links of None \<Rightarrow> rci_root_run_id i | Some x \<Rightarrow> Some x),
      rn_run_group_id = ln_run_group_id links,
      rn_owner_user_id = Some (rci_user_id i), rn_instructed_by_user_id = Some (rci_user_id i),
      rn_contract_snapshot_json = contract_json (createRunContractSnapshot (rci_contract_snapshot i) created_at),
      rn_permission_snapshot_json = None, rn_capabilities_json = JArr (map JStr capabilities),
      rn_requested_runtime_profile_id = rci_runtime_profile_id i,
      rn_runtime_profile_selection_source = Some (selection_source i), rn_route_decision_id = None,
      rn_runtime_profile_id = None, rn_adapter_type = None, rn_model_provider_id = None,
      rn_model_override_json = (if rci_model_override_json i = [] then JNull else JObj (rci_model_override_json i)),
      rn_runtime_profile_snapshot_json = JNull, rn_required_sandbox_level = ''none'', rn_output_json = None,
      rn_error_json = None, rn_error_message = None, rn_exit_code = None, rn_started_at = None,
      rn_ended_at = None, rn_updated_at = now\<rparr>"

record create_env =
  ce_run_id :: string
  ce_attempt_id :: string
  ce_now :: int
  ce_created_at :: string

definition createQueuedRunInternal ::
    "run_refs \<Rightarrow> create_env \<Rightarrow> run_create_input \<Rightarrow> run_links \<Rightarrow> run_db \<Rightarrow> (run_create_error + run) \<times> run_db" where
  "createQueuedRunInternal refs env i links db =
     (case first_failure
        [check_agent refs i,
         assertOptionalSpaceRef (rf_workspace refs) (rci_workspace_id i) (rci_space_id i) ''Workspace'',
         assertOptionalSpaceRef (rf_session refs) (rci_session_id i) (rci_space_id i) ''Session'',
         assertOptionalSpaceRef (rf_project refs) (rci_project_id i) (rci_space_id i) ''Project'',
         check_parent i db, requireRuntimeProfileForRun refs i] of
        Some e \<Rightarrow> (Inl e, db)
      | None \<Rightarrow>
          (case normalizeRunCapabilitiesJson (rci_capabilities_json i) of
             Inl e \<Rightarrow> (Inl e, db)
           | Inr capabilities \<Rightarrow>
               let r = new_run i links capabilities (ce_run_id env) (ce_now env) (ce_created_at env)
               in (Inr r, db\<lparr>db_runs := db_runs db @ [r],
                     db_attempts := (if ln_run_role links = Coordinator then db_attempts db
                       else insert_attempt (new_attempt (ce_attempt_id env) (rci_space_id i) (ce_run_id env) 1
                              RunQueued (ce_now env)) (db_attempts db))\<rparr>)))"

definition createQueuedRun ::
    "run_refs \<Rightarrow> create_env \<Rightarrow> run_create_input \<Rightarrow> run_db \<Rightarrow> (run_create_error + run) \<times> run_db" where
  "createQueuedRun refs env i db =
     (case validateRunCreateInput i of
        Some e \<Rightarrow> (Inl e, db) | None \<Rightarrow> createQueuedRunInternal refs env i no_links db)"

definition createCoordinatorRun ::
    "run_refs \<Rightarrow> create_env \<Rightarrow> run_create_input \<Rightarrow> run_db \<Rightarrow> (run_create_error + run) \<times> run_db" where
  "createCoordinatorRun refs env i db =
     (case validateRunCreateInput i of
        Some e \<Rightarrow> (Inl e, db)
      | None \<Rightarrow> createQueuedRunInternal refs env i (no_links\<lparr>ln_run_role := Coordinator\<rparr>) db)"

end
