(* ===== verification/RunWriters.thy ===== *)
theory RunWriters
  imports RunCreate
begin

text \<open>
  The other writers of the table of runs: \<open>createRunningSystemRun\<close> (\<open>runs/repository.ts\<close>), the start of the
  coordinator of a plan or of a workflow execution (\<open>plans/repository.ts\<close>, \<open>automations/workflowExecutionService.ts\<close>),
  the runs of daily reports (\<open>dailyReports/service.ts\<close>), and the statements that set other columns. Personal grant
  contexts, paths of sandboxes and the context snapshot of a run are no columns of the model.
\<close>

section \<open>System runs\<close>

definition system_input :: "run_create_input \<Rightarrow> run_create_input" where
  "system_input i = i\<lparr>rci_mode := ''live'', rci_run_type := ''system''\<rparr>"

definition system_run :: "run_create_input \<Rightarrow> string list \<Rightarrow> string \<Rightarrow> int \<Rightarrow> string \<Rightarrow> run" where
  "system_run i capabilities run_id now created_at =
     \<lparr>rn_id = run_id, rn_space_id = rci_space_id i, rn_agent_id = rci_agent_id i, rn_run_role = Execution,
      rn_run_type = ''system'', rn_trigger_origin = rci_trigger_origin i, rn_status = RunRunning,
      rn_mode = ''live'', rn_prompt = rci_prompt i, rn_workspace_id = rci_workspace_id i,
      rn_root_run_id = None, rn_run_group_id = None,
      rn_owner_user_id = Some (rci_user_id i), rn_instructed_by_user_id = Some (rci_user_id i),
      rn_contract_snapshot_json = contract_json (createRunContractSnapshot (rci_contract_snapshot i) created_at),
      rn_permission_snapshot_json = None, rn_capabilities_json = JArr (map JStr capabilities),
      rn_requested_runtime_profile_id = None, rn_runtime_profile_selection_source = None,
      rn_route_decision_id = None, rn_runtime_profile_id = None, rn_adapter_type = None, rn_model_provider_id = None,
      rn_model_override_json =
        JObj [(''source'', JStr ''system_run''), (''native_capability_executor'', JBool False)],
      rn_runtime_profile_snapshot_json = JNull, rn_required_sandbox_level = ''none'', rn_output_json = None,
      rn_error_json = None, rn_error_message = None, rn_exit_code = None, rn_started_at = Some now,
      rn_ended_at = None, rn_updated_at = now\<rparr>"

definition system_attempt :: "create_env \<Rightarrow> run_create_input \<Rightarrow> run_attempt" where
  "system_attempt env i =
     (new_attempt (ce_attempt_id env) (rci_space_id i) (ce_run_id env) 1 RunRunning (ce_now env))
       \<lparr>at_started_at := Some (ce_now env), at_last_activity_at := Some (ce_now env)\<rparr>"

definition createRunningSystemRun ::
    "run_refs \<Rightarrow> create_env \<Rightarrow> run_create_input \<Rightarrow> run_db \<Rightarrow> (run_create_error + run) \<times> run_db" where
  "createRunningSystemRun refs env i db =
     (case first_failure
        [validateRunCreateInput (system_input i), check_agent refs i,
         assertOptionalSpaceRef (rf_workspace refs) (rci_workspace_id i) (rci_space_id i) ''Workspace'',
         assertOptionalSpaceRef (rf_project refs) (rci_project_id i) (rci_space_id i) ''Project''] of
        Some e \<Rightarrow> (Inl e, db)
      | None \<Rightarrow>
          (case normalizeRunCapabilitiesJson (rci_capabilities_json i) of
             Inl e \<Rightarrow> (Inl e, db)
           | Inr capabilities \<Rightarrow>
               let r = system_run i capabilities (ce_run_id env) (ce_now env) (ce_created_at env)
               in (Inr r, db\<lparr>db_runs := db_runs db @ [r],
                     db_attempts := insert_attempt (system_attempt env i) (db_attempts db)\<rparr>)))"

section \<open>Coordinators of plans and workflow executions\<close>

text \<open>The statement has no guard on the status; it runs in the transaction that inserts the run.\<close>

definition wait_for_nodes :: "string \<Rightarrow> string \<Rightarrow> int \<Rightarrow> run_db \<Rightarrow> run_db" where
  "wait_for_nodes space i now db =
     db\<lparr>db_runs := sql_update (is_run space i) (\<lambda>r. r\<lparr>rn_status := RunWaitingForDependency, rn_updated_at := now\<rparr>)
          (db_runs db)\<rparr>"

definition startCoordinator ::
    "run_refs \<Rightarrow> create_env \<Rightarrow> run_create_input \<Rightarrow> int \<Rightarrow> run_db \<Rightarrow> (run_create_error + run) \<times> run_db" where
  "startCoordinator refs env i now db =
     (case createCoordinatorRun refs env i db of
        (Inl e, _) \<Rightarrow> (Inl e, db)
      | (Inr top_run, db') \<Rightarrow> (Inr top_run, wait_for_nodes (rn_space_id top_run) (rn_id top_run) now db'))"

section \<open>Daily reports\<close>

text \<open>Columns the insertion does not name have their defaults: an empty contract, no capabilities.\<close>

definition report_row :: "string \<Rightarrow> string \<Rightarrow> string \<Rightarrow> string \<Rightarrow> string \<Rightarrow> string \<Rightarrow> int \<Rightarrow> run" where
  "report_row run_id space agent user trigger_origin prompt now =
     \<lparr>rn_id = run_id, rn_space_id = space, rn_agent_id = agent, rn_run_role = Execution,
      rn_run_type = ''reflection'', rn_trigger_origin = trigger_origin, rn_status = RunRunning,
      rn_mode = ''live'', rn_prompt = Some prompt, rn_workspace_id = None, rn_root_run_id = None, rn_run_group_id = None,
      rn_owner_user_id = Some user, rn_instructed_by_user_id = Some user,
      rn_contract_snapshot_json = JObj [], rn_permission_snapshot_json = None, rn_capabilities_json = JArr [],
      rn_requested_runtime_profile_id = None, rn_runtime_profile_selection_source = None,
      rn_route_decision_id = None, rn_runtime_profile_id = None, rn_adapter_type = None, rn_model_provider_id = None,
      rn_model_override_json = JNull, rn_runtime_profile_snapshot_json = JNull, rn_required_sandbox_level = ''none'',
      rn_output_json = None, rn_error_json = None, rn_error_message = None, rn_exit_code = None,
      rn_started_at = Some now, rn_ended_at = None, rn_updated_at = now\<rparr>"

definition report_started :: "string \<Rightarrow> string \<Rightarrow> string \<Rightarrow> string \<Rightarrow> string \<Rightarrow> string \<Rightarrow> int \<Rightarrow> run_db \<Rightarrow> run_db" where
  "report_started run_id space agent user trigger_origin prompt now db =
     db\<lparr>db_runs := db_runs db @ [report_row run_id space agent user trigger_origin prompt now]\<rparr>"

definition report_succeeded :: "string \<Rightarrow> int \<Rightarrow> run_db \<Rightarrow> run_db" where
  "report_succeeded run_id now db =
     db\<lparr>db_runs := sql_update (\<lambda>r. rn_id r = run_id)
          (\<lambda>r. r\<lparr>rn_status := RunSucceeded, rn_ended_at := Some now, rn_updated_at := now\<rparr>) (db_runs db)\<rparr>"

definition report_failed :: "string \<Rightarrow> string \<Rightarrow> int \<Rightarrow> run_db \<Rightarrow> run_db" where
  "report_failed run_id message now db =
     db\<lparr>db_runs := sql_update (\<lambda>r. rn_id r = run_id)
          (\<lambda>r. r\<lparr>rn_status := RunFailed, rn_error_message := Some (take 1000 message), rn_ended_at := Some now,
                 rn_updated_at := now\<rparr>) (db_runs db)\<rparr>"

text \<open>No other insertion leaves the contract empty, and no statement changes a contract.\<close>

definition report_run :: "run \<Rightarrow> bool" where
  "report_run r \<longleftrightarrow> rn_contract_snapshot_json r = JObj []"

lemma contract_not_empty [simp]: "contract_json c \<noteq> JObj []"
  by (simp add: contract_json_def)

lemma report_rows:
  "report_run (report_row run_id space agent user trigger_origin prompt now)"
  "\<not> report_run (system_run i capabilities run_id now created_at)"
  "\<not> report_run (new_run i links capabilities run_id now created_at)"
  by (simp_all add: report_run_def report_row_def system_run_def new_run_def)

section \<open>Other columns\<close>

text \<open>
  The statement of \<open>linkRunToGroupRoot\<close> does not parse, so it changes nothing. The paths of sandboxes, personal grant
  contexts and the update of a run's readers leave a new time stamp.
\<close>

definition updateRunPrompt :: "string \<Rightarrow> string \<Rightarrow> string \<Rightarrow> int \<Rightarrow> run_db \<Rightarrow> run_db" where
  "updateRunPrompt space i prompt now db =
     db\<lparr>db_runs := sql_update (is_run space i) (\<lambda>r. r\<lparr>rn_prompt := Some prompt, rn_updated_at := now\<rparr>) (db_runs db)\<rparr>"

definition touch_run :: "string \<Rightarrow> string \<Rightarrow> int \<Rightarrow> run_db \<Rightarrow> run_db" where
  "touch_run space i now db =
     db\<lparr>db_runs := sql_update (is_run space i) (\<lambda>r. r\<lparr>rn_updated_at := now\<rparr>) (db_runs db)\<rparr>"

end
