(* ===== verification/RunLifecycle.thy ===== *)
theory RunLifecycle
  imports RunTables
begin

text \<open>
  The state machine of a run, \<open>runs/repository.ts\<close>: each operation is one SQL statement on \<open>runs\<close> and
  \<open>run_attempts\<close> that reads its snapshot and writes both tables, or neither. A statement returns the
  updated row, or nothing when its guard on the status fails.
\<close>

section \<open>Starting and ending an attempt\<close>

definition recordValue :: "jsval \<Rightarrow> jsobj" where
  "recordValue v = record_or_empty v"

definition sanitizeErrorJson :: "patterns \<Rightarrow> jsval \<Rightarrow> jsval" where
  "sanitizeErrorJson patterns v = sanitizeEvidenceJson patterns (coalesce v (JObj []))"

definition extractErrorMessage :: "jsval \<Rightarrow> string option" where
  "extractErrorMessage v =
     (let ob = record_or_empty v;
          message = coalesce (coalesce (get ob ''error_message'') (get ob ''error_text'')) (get ob ''message'')
      in case message of JStr s \<Rightarrow> Some s | _ \<Rightarrow> None)"

definition markRunRunning ::
    "string \<Rightarrow> string \<Rightarrow> int \<Rightarrow> string option \<Rightarrow> string \<Rightarrow> run_db \<Rightarrow> run option \<times> run_db" where
  "markRunRunning space i now level attempt_id =
     transition space i (\<lambda>r. rn_status r = RunQueued)
       (\<lambda>r. r\<lparr>rn_status := RunRunning, rn_started_at := Some now, rn_updated_at := now,
              rn_required_sandbox_level := or_value level (rn_required_sandbox_level r)\<rparr>)
       (\<lambda>atts.
          if list_ex (\<lambda>a. of_run space i a \<and> is_latest atts a \<and> at_status a = RunQueued) atts
          then update_latest space i (\<lambda>a. at_status a = RunQueued)
                 (\<lambda>a. a\<lparr>at_status := RunRunning, at_started_at := Some now, at_last_activity_at := Some now,
                        at_updated_at := now\<rparr>) atts
          else insert_attempt
                 ((new_attempt attempt_id space i (next_number space i atts) RunRunning now)
                    \<lparr>at_started_at := Some now, at_last_activity_at := Some now,
                     at_error_json := Some (JObj [(''error_code'', JStr ''attempt_backfilled_on_dispatch'')])\<rparr>) atts)"

definition updateRunSandboxLevel :: "string \<Rightarrow> string \<Rightarrow> string \<Rightarrow> int \<Rightarrow> run_db \<Rightarrow> run_db" where
  "updateRunSandboxLevel space i level now db =
     db\<lparr>db_runs := sql_update (\<lambda>r. is_run space i r \<and> rn_status r = RunRunning)
          (\<lambda>r. r\<lparr>rn_required_sandbox_level := level, rn_updated_at := now\<rparr>) (db_runs db)\<rparr>"

record terminal_update =
  tu_space_id :: string
  tu_run_id :: string
  tu_status :: run_status
  tu_output_text :: "string option"
  tu_output_json :: jsval
  tu_error_json :: jsval
  tu_exit_code :: "int option"
  tu_completed_at :: int

text \<open>The text of an error code column: \<open>NULLIF($9, '')\<close> of the code the JSON carries.\<close>

definition error_code_of :: "jsval \<Rightarrow> string option" where
  "error_code_of v = (case get (recordValue v) ''error_code'' of
     JStr s \<Rightarrow> if s = [] then None else Some s | _ \<Rightarrow> None)"

definition terminal_output :: "patterns \<Rightarrow> terminal_update \<Rightarrow> jsval" where
  "terminal_output patterns u =
     JObj (assign (recordValue (sanitizeEvidenceJson patterns (JObj (recordValue (tu_output_json u)))))
       (case tu_output_text u of
          None \<Rightarrow> [] | Some t \<Rightarrow> if t = [] then [] else [(''output_text'', JStr (patterns t))]))"

definition markRunTerminal :: "patterns \<Rightarrow> terminal_update \<Rightarrow> run_db \<Rightarrow> run option \<times> run_db" where
  "markRunTerminal patterns u =
     (let space = tu_space_id u; i = tu_run_id u; now = tu_completed_at u;
          error = sanitizeErrorJson patterns (tu_error_json u)
      in transition space i (\<lambda>r. \<not> ended (rn_status r))
           (\<lambda>r. r\<lparr>rn_status := tu_status u, rn_output_json := Some (terminal_output patterns u),
                  rn_error_json := Some error, rn_exit_code := tu_exit_code u, rn_ended_at := Some now,
                  rn_updated_at := now,
                  rn_error_message := map_option (redactEvidenceText patterns) (extractErrorMessage error)\<rparr>)
           (update_latest space i (\<lambda>a. True)
             (\<lambda>a. a\<lparr>at_status := tu_status u, at_error_code := error_code_of error, at_error_json := Some error,
                    at_exit_code := tu_exit_code u, at_ended_at := Some now, at_last_activity_at := Some now,
                    at_cancel_confirmed_at :=
                      (if tu_status u = RunCancelled then Some now else at_cancel_confirmed_at a),
                    at_updated_at := now\<rparr>)))"

definition markRunDegraded ::
    "patterns \<Rightarrow> string \<Rightarrow> string \<Rightarrow> int \<Rightarrow> string \<Rightarrow> string \<Rightarrow> jsval \<Rightarrow> run_db \<Rightarrow> run option \<times> run_db" where
  "markRunDegraded patterns space i now code message diagnostics =
     (let error = sanitizeErrorJson patterns
            (JObj ([(''error_code'', JStr code), (''error_text'', JStr message)] @
              (if truthy diagnostics then [(''diagnostics'', diagnostics)] else [])))
      in transition space i (\<lambda>r. rn_status r = RunSucceeded)
           (\<lambda>r. r\<lparr>rn_status := RunDegraded,
                  rn_error_json := Some (jsonb_concat (or_value (rn_error_json r) (JObj [])) error),
                  rn_updated_at := now, rn_error_message := Some (redactEvidenceText patterns message)\<rparr>)
           id)"

text \<open>Runs the server lost: running or cancelling, and started before the cutoff.\<close>

definition lost :: "int \<Rightarrow> run \<Rightarrow> bool" where
  "lost cutoff r \<longleftrightarrow> (rn_status r = RunRunning \<or> rn_status r = RunCancelling) \<and>
     (case rn_started_at r of None \<Rightarrow> False | Some t \<Rightarrow> t < cutoff)"

definition recoverStaleRuns :: "patterns \<Rightarrow> int \<Rightarrow> int \<Rightarrow> run_db \<Rightarrow> nat \<times> run_db" where
  "recoverStaleRuns patterns stale_seconds now db =
     (let cutoff = now - max 1 stale_seconds * 1000;
          message = ''Run became orphaned after the server lost its execution registry'';
          error = sanitizeErrorJson patterns (JObj
            [(''error_code'', JStr ''orphaned''),
             (''error_text'', JStr ''Run was still running after the server lost its execution registry'')]);
          hits = filter (lost cutoff) (db_runs db)
      in (length hits,
          db\<lparr>db_runs := sql_update (lost cutoff)
                (\<lambda>r. r\<lparr>rn_status := RunOrphaned, rn_error_message := Some (redactEvidenceText patterns message),
                       rn_error_json := Some error, rn_ended_at := Some now, rn_updated_at := now\<rparr>) (db_runs db),
             db_attempts := sql_update
                (\<lambda>a. list_ex (\<lambda>r. of_run (rn_space_id r) (rn_id r) a) hits \<and> is_latest (db_attempts db) a)
                (\<lambda>a. a\<lparr>at_status := RunOrphaned, at_error_code := Some ''orphaned'', at_error_json := Some error,
                       at_ended_at := Some now, at_last_activity_at := Some now, at_updated_at := now\<rparr>)
                (db_attempts db)\<rparr>))"

section \<open>Cancellation and pauses\<close>

definition cancel_text :: "string option \<Rightarrow> string" where
  "cancel_text reason = or_value reason ''Run cancellation requested.''"

definition markRunCancelling ::
    "patterns \<Rightarrow> string \<Rightarrow> string \<Rightarrow> int \<Rightarrow> string option \<Rightarrow> string option \<Rightarrow> run_db \<Rightarrow> run option \<times> run_db" where
  "markRunCancelling patterns space i now reason user =
     (let error = sanitizeErrorJson patterns (JObj
            [(''error_code'', JStr ''run_cancel_requested''), (''error_text'', JStr (cancel_text reason)),
             (''requested_by_user_id'', opt_str user)])
      in transition space i
           (\<lambda>r. rn_status r \<in> {RunQueued, RunRunning, RunWaitingForReview, RunWaitingForDependency, RunCancelling})
           (\<lambda>r. r\<lparr>rn_status := RunCancelling, rn_error_json := Some error,
                  rn_error_message := Some (redactEvidenceText patterns (cancel_text reason)),
                  rn_updated_at := now\<rparr>)
           (update_latest space i (\<lambda>a. True)
             (\<lambda>a. a\<lparr>at_status := RunCancelling, at_cancel_requested_at := Some now,
                    at_error_code := Some ''run_cancel_requested'', at_error_json := Some error,
                    at_updated_at := now\<rparr>)))"

text \<open>The two ways into a review, for an approval and by the supervisor, share their effect.\<close>

definition review_pause ::
    "patterns \<Rightarrow> (run \<Rightarrow> bool) \<Rightarrow> jsval \<Rightarrow> string \<Rightarrow> string \<Rightarrow> string \<Rightarrow> string \<Rightarrow> int \<Rightarrow> run_db \<Rightarrow> run option \<times> run_db" where
  "review_pause patterns guard error space i code message now =
     transition space i guard
       (\<lambda>r. r\<lparr>rn_status := RunWaitingForReview, rn_error_json := Some error,
              rn_error_message := Some (redactEvidenceText patterns message), rn_updated_at := now\<rparr>)
       (update_latest space i (\<lambda>a. True)
         (\<lambda>a. a\<lparr>at_status := RunWaitingForReview, at_error_code := Some code, at_error_json := Some error,
                at_last_activity_at := Some now, at_updated_at := now\<rparr>))"

definition markRunWaitingForReview ::
    "patterns \<Rightarrow> string \<Rightarrow> string \<Rightarrow> string \<Rightarrow> string \<Rightarrow> int \<Rightarrow> run_db \<Rightarrow> run option \<times> run_db" where
  "markRunWaitingForReview patterns space i code message now =
     review_pause patterns (\<lambda>r. rn_status r = RunRunning)
       (sanitizeErrorJson patterns (JObj [(''error_code'', JStr code), (''error_text'', JStr message)]))
       space i code message now"

definition supervisable :: "run_status \<Rightarrow> bool" where
  "supervisable s \<longleftrightarrow> s = RunFailed \<or> s = RunDegraded \<or> s = RunOrphaned"

definition holdRunForSupervisorReview ::
    "patterns \<Rightarrow> string \<Rightarrow> string \<Rightarrow> string \<Rightarrow> string \<Rightarrow> int \<Rightarrow> run_db \<Rightarrow> run option \<times> run_db" where
  "holdRunForSupervisorReview patterns space i code message now =
     review_pause patterns (\<lambda>r. supervisable (rn_status r))
       (sanitizeErrorJson patterns (JObj
          [(''error_code'', JStr code), (''error_text'', JStr message), (''supervisor_review'', JBool True)]))
       space i code message now"

definition markRunWaitingForDependency ::
    "patterns \<Rightarrow> string \<Rightarrow> string \<Rightarrow> jsval \<Rightarrow> int \<Rightarrow> run_db \<Rightarrow> run option \<times> run_db" where
  "markRunWaitingForDependency patterns space i output now =
     transition space i (\<lambda>r. rn_status r = RunRunning)
       (\<lambda>r. r\<lparr>rn_status := RunWaitingForDependency,
              rn_output_json := Some (sanitizeEvidenceJson patterns (coalesce output (JObj []))),
              rn_error_json := Some (JObj []), rn_error_message := None, rn_updated_at := now\<rparr>)
       id"

section \<open>Back to the queue\<close>

definition requeueRunForRetry ::
    "string \<Rightarrow> string \<Rightarrow> int \<Rightarrow> string \<Rightarrow> nat \<Rightarrow> string \<Rightarrow> run_db \<Rightarrow> run option \<times> run_db" where
  "requeueRunForRetry space i now reason number attempt_id =
     transition space i (\<lambda>r. supervisable (rn_status r))
       (\<lambda>r. r\<lparr>rn_status := RunQueued, rn_started_at := None, rn_ended_at := None,
              rn_error_json := Some (JObj
                [(''error_code'', JStr ''supervisor_retry_scheduled''), (''reason_code'', JStr reason),
                 (''attempt_number'', JNum (of_nat number))]),
              rn_error_message := Some reason, rn_updated_at := now\<rparr>)
       (insert_attempt (new_attempt attempt_id space i number RunQueued now))"

definition requeueWaitingDependencyRun ::
    "patterns \<Rightarrow> string \<Rightarrow> string \<Rightarrow> string \<Rightarrow> string \<Rightarrow> int \<Rightarrow> run_db \<Rightarrow> run option \<times> run_db" where
  "requeueWaitingDependencyRun patterns space i prompt resumed_at now =
     (let resume = sanitizeEvidenceJson patterns (JObj
            [(''waiting_for_results_resume'', JObj [(''resumed_at'', JStr resumed_at)])])
      in transition space i (\<lambda>r. rn_status r = RunWaitingForDependency)
           (\<lambda>r. r\<lparr>rn_status := RunQueued, rn_prompt := Some prompt,
                  rn_output_json := Some (jsonb_concat (or_value (rn_output_json r) (JObj [])) resume),
                  rn_error_json := Some (or_value (rn_error_json r) (JObj [])), rn_error_message := None,
                  rn_updated_at := now\<rparr>)
           id)"

definition policy_grants :: "jsobj option \<Rightarrow> jsval" where
  "policy_grants snapshot = (case snapshot of
     None \<Rightarrow> JArr []
   | Some ob \<Rightarrow> (if has_key ob ''policy_grants'' then get ob ''policy_grants'' else JArr []))"

definition grantRunApprovalAndRequeue ::
    "string \<Rightarrow> string \<Rightarrow> string \<Rightarrow> string \<Rightarrow> int \<Rightarrow> run_db \<Rightarrow> run option \<times> run_db" where
  "grantRunApprovalAndRequeue space i user granted_at now =
     transition space i (\<lambda>r. rn_status r = RunWaitingForReview)
       (\<lambda>r. r\<lparr>rn_status := RunQueued,
              rn_permission_snapshot_json := Some (put ''policy_grants''
                (jsonb_concat (policy_grants (rn_permission_snapshot_json r)) (JArr [JObj
                   [(''approval_code'', opt_str (json_text (rn_error_json r) ''error_code'')),
                    (''granted_by_user_id'', JStr user), (''granted_at'', JStr granted_at)]]))
                (or_value (rn_permission_snapshot_json r) [])),
              rn_error_json := None, rn_error_message := None, rn_updated_at := now\<rparr>)
       (update_latest space i (\<lambda>a. at_status a = RunWaitingForReview)
         (\<lambda>a. a\<lparr>at_status := RunQueued,
                at_error_json := Some (jsonb_concat (or_value (at_error_json a) (JObj [])) (JObj
                  [(''approval_granted_by_user_id'', JStr user), (''approval_granted_at'', JStr granted_at)])),
                at_updated_at := now\<rparr>))"

definition held_by_supervisor :: "run \<Rightarrow> bool" where
  "held_by_supervisor r \<longleftrightarrow> or_value (json_text (rn_error_json r) ''supervisor_review'') ''false'' = ''true''"

definition resumeRunAfterSupervisorReview ::
    "string \<Rightarrow> string \<Rightarrow> string \<Rightarrow> string \<Rightarrow> int \<Rightarrow> string \<Rightarrow> run_db \<Rightarrow> run option \<times> run_db" where
  "resumeRunAfterSupervisorReview space i user resumed_at now attempt_id =
     transition space i (\<lambda>r. rn_status r = RunWaitingForReview \<and> held_by_supervisor r)
       (\<lambda>r. r\<lparr>rn_status := RunQueued, rn_error_json := None, rn_error_message := None, rn_updated_at := now\<rparr>)
       (\<lambda>atts. atts @ [(new_attempt attempt_id space i (next_number space i atts) RunQueued now)
          \<lparr>at_error_json := Some (JObj
             [(''error_code'', JStr ''supervisor_review_resumed''), (''resumed_by_user_id'', JStr user),
              (''resumed_at'', JStr resumed_at)])\<rparr>])"

end
