(* ===== verification/AdapterSpecs.thy ===== *)
theory AdapterSpecs
  imports Prelude
begin

text \<open>
  The built-in runtime adapters, \<open>runtimeAdapters/specs.ts\<close>: the fields of a specification that
  routing reads, the table of the eight adapters and its lookups. The levels of trust and of sandboxing
  are ordered by the ranks of \<open>routing/router.ts\<close>.
\<close>

section \<open>Levels\<close>

datatype trust_level = TrustLow | TrustMedium | TrustHigh

datatype sandbox_level = NoSandbox | DryRunSandbox | Ephemeral | Worktree | OneShotDocker

fun TRUST_RANK :: "trust_level \<Rightarrow> nat" where
  "TRUST_RANK TrustLow = 1"
| "TRUST_RANK TrustMedium = 2"
| "TRUST_RANK TrustHigh = 3"

fun SANDBOX_RANK :: "sandbox_level \<Rightarrow> nat" where
  "SANDBOX_RANK NoSandbox = 0"
| "SANDBOX_RANK DryRunSandbox = 1"
| "SANDBOX_RANK Ephemeral = 2"
| "SANDBOX_RANK Worktree = 3"
| "SANDBOX_RANK OneShotDocker = 4"

lemma TRUST_RANK_inject [simp]: "TRUST_RANK a = TRUST_RANK b \<longleftrightarrow> a = b"
  by (cases a; cases b) simp_all

lemma SANDBOX_RANK_inject [simp]: "SANDBOX_RANK a = SANDBOX_RANK b \<longleftrightarrow> a = b"
  by (cases a; cases b) simp_all

text \<open>The ranks are the orders of the two types.\<close>

instantiation trust_level :: linorder
begin
definition less_eq_trust_level :: "trust_level \<Rightarrow> trust_level \<Rightarrow> bool" where
  "less_eq_trust_level a b \<longleftrightarrow> TRUST_RANK a \<le> TRUST_RANK b"
definition less_trust_level :: "trust_level \<Rightarrow> trust_level \<Rightarrow> bool" where
  "less_trust_level a b \<longleftrightarrow> TRUST_RANK a < TRUST_RANK b"
instance
  by standard (auto simp: less_eq_trust_level_def less_trust_level_def)
end

instantiation sandbox_level :: linorder
begin
definition less_eq_sandbox_level :: "sandbox_level \<Rightarrow> sandbox_level \<Rightarrow> bool" where
  "less_eq_sandbox_level a b \<longleftrightarrow> SANDBOX_RANK a \<le> SANDBOX_RANK b"
definition less_sandbox_level :: "sandbox_level \<Rightarrow> sandbox_level \<Rightarrow> bool" where
  "less_sandbox_level a b \<longleftrightarrow> SANDBOX_RANK a < SANDBOX_RANK b"
instance
  by standard (auto simp: less_eq_sandbox_level_def less_sandbox_level_def)
end

lemmas level_order = less_eq_trust_level_def less_trust_level_def less_eq_sandbox_level_def less_sandbox_level_def

section \<open>Specifications\<close>

datatype runtime_kind = NativeRuntime | LocalCli | ManagedApi | CustomRuntime

datatype implementation_status = Implemented | Planned | DisabledAdapter

datatype disable_mechanism = NotApplicable | RuntimeConfig | Unsupported | UnknownMechanism

datatype credential_mode = NoCredential | CliProfile | CliProfileOrModelProvider | ModelProviderApiKey

record sandbox_spec =
  requires_file_access :: bool
  minimum_sandbox_level :: sandbox_level
  supports_worktree :: bool
  supports_one_shot_docker :: bool
  requires_workspace_for_execution :: bool

record adapter_spec =
  as_adapter_type :: string
  as_runtime_kind :: runtime_kind
  as_implementation_status :: implementation_status
  as_subagent_disable_mechanism :: disable_mechanism
  as_baseline_trust_level :: trust_level
  as_credential_mode :: credential_mode
  as_sandbox :: sandbox_spec

definition noFiles :: sandbox_spec where
  "noFiles = \<lparr>requires_file_access = False, minimum_sandbox_level = NoSandbox, supports_worktree = False,
              supports_one_shot_docker = False, requires_workspace_for_execution = False\<rparr>"

definition worktreeCli :: sandbox_spec where
  "worktreeCli = \<lparr>requires_file_access = True, minimum_sandbox_level = Worktree, supports_worktree = True,
                  supports_one_shot_docker = True, requires_workspace_for_execution = False\<rparr>"

definition BUILTIN_RUNTIME_ADAPTER_SPECS :: "adapter_spec list" where
  "BUILTIN_RUNTIME_ADAPTER_SPECS =
    [\<lparr>as_adapter_type = ''capability'', as_runtime_kind = NativeRuntime, as_implementation_status = Planned,
      as_subagent_disable_mechanism = NotApplicable, as_baseline_trust_level = TrustLow,
      as_credential_mode = NoCredential, as_sandbox = noFiles\<rparr>,
     \<lparr>as_adapter_type = ''model_api'', as_runtime_kind = ManagedApi, as_implementation_status = Implemented,
      as_subagent_disable_mechanism = NotApplicable, as_baseline_trust_level = TrustHigh,
      as_credential_mode = ModelProviderApiKey, as_sandbox = noFiles\<rparr>,
     \<lparr>as_adapter_type = ''ts_agent_host'', as_runtime_kind = ManagedApi, as_implementation_status = Implemented,
      as_subagent_disable_mechanism = NotApplicable, as_baseline_trust_level = TrustHigh,
      as_credential_mode = ModelProviderApiKey, as_sandbox = noFiles\<rparr>,
     \<lparr>as_adapter_type = ''claude_code'', as_runtime_kind = LocalCli, as_implementation_status = Implemented,
      as_subagent_disable_mechanism = RuntimeConfig, as_baseline_trust_level = TrustLow,
      as_credential_mode = CliProfile, as_sandbox = worktreeCli\<rparr>,
     \<lparr>as_adapter_type = ''codex_cli'', as_runtime_kind = LocalCli, as_implementation_status = Implemented,
      as_subagent_disable_mechanism = UnknownMechanism, as_baseline_trust_level = TrustLow,
      as_credential_mode = CliProfile, as_sandbox = worktreeCli\<rparr>,
     \<lparr>as_adapter_type = ''opencode'', as_runtime_kind = LocalCli, as_implementation_status = Implemented,
      as_subagent_disable_mechanism = RuntimeConfig, as_baseline_trust_level = TrustLow,
      as_credential_mode = CliProfileOrModelProvider, as_sandbox = worktreeCli\<rparr>,
     \<lparr>as_adapter_type = ''gemini_cli'', as_runtime_kind = LocalCli, as_implementation_status = Planned,
      as_subagent_disable_mechanism = Unsupported, as_baseline_trust_level = TrustLow,
      as_credential_mode = CliProfile, as_sandbox = worktreeCli\<rparr>,
     \<lparr>as_adapter_type = ''custom'', as_runtime_kind = CustomRuntime, as_implementation_status = Planned,
      as_subagent_disable_mechanism = UnknownMechanism, as_baseline_trust_level = TrustLow,
      as_credential_mode = NoCredential, as_sandbox = \<lparr>requires_file_access = True, minimum_sandbox_level = Worktree, supports_worktree = True,
                    supports_one_shot_docker = False, requires_workspace_for_execution = True\<rparr>\<rparr>]"

text \<open>The table is keyed by the adapter type.\<close>

definition getRuntimeAdapterSpec :: "string \<Rightarrow> adapter_spec option" where
  "getRuntimeAdapterSpec t =
     (if t = [] then None
      else map_of (map (\<lambda>s. (as_adapter_type s, s)) BUILTIN_RUNTIME_ADAPTER_SPECS) t)"

definition isLocalCliRuntimeAdapter :: "string \<Rightarrow> bool" where
  "isLocalCliRuntimeAdapter t =
     (case getRuntimeAdapterSpec t of None \<Rightarrow> False | Some s \<Rightarrow> as_runtime_kind s = LocalCli)"

definition isImplementedRuntimeAdapter :: "string \<Rightarrow> bool" where
  "isImplementedRuntimeAdapter t =
     (case getRuntimeAdapterSpec t of None \<Rightarrow> False | Some s \<Rightarrow> as_implementation_status s = Implemented)"

definition isVendorCliAdapter :: "string \<Rightarrow> bool" where
  "isVendorCliAdapter t =
     (case getRuntimeAdapterSpec t of None \<Rightarrow> False
      | Some s \<Rightarrow> as_runtime_kind s = LocalCli \<and> as_implementation_status s = Implemented)"

lemma spec_in_table: "getRuntimeAdapterSpec t = Some s \<Longrightarrow> s \<in> set BUILTIN_RUNTIME_ADAPTER_SPECS \<and> as_adapter_type s = t"
  by (auto simp: getRuntimeAdapterSpec_def split: if_splits dest!: map_of_SomeD)

lemma local_cli_names:
  "isLocalCliRuntimeAdapter t \<longleftrightarrow> t \<in> {''claude_code'', ''codex_cli'', ''opencode'', ''gemini_cli''}"
  by (auto simp: isLocalCliRuntimeAdapter_def getRuntimeAdapterSpec_def BUILTIN_RUNTIME_ADAPTER_SPECS_def
      split: if_splits)

text \<open>Every local command line runs in a worktree or in a container, and none is trusted by itself.\<close>

lemma local_cli_confined:
  assumes "getRuntimeAdapterSpec t = Some s" and "as_runtime_kind s = LocalCli"
  shows "as_sandbox s = worktreeCli \<and> as_baseline_trust_level s = TrustLow"
  using spec_in_table [OF assms(1)] assms(2) by (auto simp: BUILTIN_RUNTIME_ADAPTER_SPECS_def)

end
