(* ===== verification/Router.thy ===== *)
theory Router
  imports JsValue StableSort AdapterSpecs
begin

text \<open>
  The deterministic choice of a runtime for a run, \<open>routing/router.ts\<close> and \<open>routing/types.ts\<close>: the
  hard filters, the score and the fallback chain, and the merge of hints from several sources.
  Arithmetic on doubles rounds the exact result: \<open>fl\<close> is that rounding. \<open>localeCompare\<close> is the
  parameter \<open>collate\<close>.
\<close>

section \<open>Modes and risks\<close>

datatype execution_mode = Live | DryRunMode

datatype route_risk = RouteLow | RouteMedium | RouteHigh | RouteCritical

section \<open>Requests and candidates\<close>

record route_hints =
  rh_preferred_adapter_types :: "string list"
  rh_preferred_runtime_profile_id :: "string option"
  rh_required_capabilities :: "string list"
  rh_required_tools :: "string list"
  rh_required_sandbox_level :: "sandbox_level option"
  rh_execution_mode :: "execution_mode option"
  rh_minimum_trust_level :: "trust_level option"
  rh_latency_budget_ms :: "rat option"
  rh_cost_budget_usd :: "rat option"
  rh_sources :: "string list"

definition EMPTY_ROUTE_HINTS :: route_hints where
  "EMPTY_ROUTE_HINTS =
     \<lparr>rh_preferred_adapter_types = [], rh_preferred_runtime_profile_id = None, rh_required_capabilities = [],
      rh_required_tools = [], rh_required_sandbox_level = None, rh_execution_mode = None,
      rh_minimum_trust_level = None, rh_latency_budget_ms = None, rh_cost_budget_usd = None, rh_sources = []\<rparr>"

text \<open>An absent list and an empty one are treated alike by the code, an absent flag as false.\<close>

record route_request =
  rq_adapter_types :: "string list"
  rq_runtime_profile_id :: "string option"
  rq_runtime_profile_is_explicit :: bool
  rq_excluded_runtime_profile_ids :: "string list"
  rq_fallback_runtime_profile_ids :: "string list"
  rq_required_capabilities :: "string list"
  rq_required_tools :: "string list"
  rq_required_sandbox_level :: sandbox_level
  rq_execution_mode :: execution_mode
  rq_risk_level :: route_risk
  rq_workspace_available :: bool
  rq_hints :: "route_hints option"

datatype conformance = ConformancePassed | ConformanceFailed | ConformancePartial

record route_candidate =
  rc_runtime_profile_id :: string
  rc_profile_name :: string
  rc_adapter_type :: string
  rc_model_provider_id :: "string option"
  rc_model_name :: "string option"
  rc_credential_profile_id :: "string option"
  rc_runtime_config_json :: jsobj
  rc_runtime_policy_json :: jsobj
  rc_enabled :: bool
  rc_is_default :: bool
  rc_credential_available :: bool
  rc_capabilities :: "string list"
  rc_tools :: "string list"
  rc_minimum_sandbox_level :: sandbox_level
  rc_requires_workspace_for_execution :: bool
  rc_supports_workspace :: bool
  rc_supports_one_shot_docker :: bool
  rc_supports_live :: bool
  rc_supports_dry_run :: bool
  rc_baseline_trust_level :: trust_level
  rc_effective_trust_level :: trust_level
  rc_conformance_status :: "conformance option"
  rc_conformance_suite_version :: "string option"
  rc_subagent_disable_mechanism :: disable_mechanism
  rc_estimated_cost_usd :: "rat option"
  rc_estimated_latency_ms :: "rat option"
  rc_historical_verification_pass_rate :: "rat option"

record route_rejection =
  rr_runtime_profile_id :: string
  rr_adapter_type :: string
  rr_reasons :: "string list"

record scored_candidate =
  sc_candidate :: route_candidate
  sc_score :: rat
  sc_score_trace :: "(string \<times> rat) list"

record route_decision =
  rd_selected :: "scored_candidate option"
  rd_candidates :: "scored_candidate list"
  rd_fallback_chain :: "string list"
  rd_rejected :: "route_rejection list"
  rd_hints :: route_hints
  rd_reason :: string

section \<open>Hard filters\<close>

definition stricterSandbox :: "sandbox_level \<Rightarrow> sandbox_level option \<Rightarrow> sandbox_level" where
  "stricterSandbox base hint = (case hint of
     None \<Rightarrow> base | Some h \<Rightarrow> if SANDBOX_RANK base < SANDBOX_RANK h then h else base)"

definition stricterTrust :: "trust_level \<Rightarrow> trust_level option \<Rightarrow> trust_level" where
  "stricterTrust base hint = (case hint of
     None \<Rightarrow> base | Some h \<Rightarrow> if TRUST_RANK base < TRUST_RANK h then h else base)"

fun trustRequiredForRisk :: "route_risk \<Rightarrow> trust_level" where
  "trustRequiredForRisk RouteCritical = TrustHigh"
| "trustRequiredForRisk RouteHigh = TrustHigh"
| "trustRequiredForRisk RouteMedium = TrustMedium"
| "trustRequiredForRisk RouteLow = TrustLow"

definition requiresPersistentWorkspace :: "route_request \<Rightarrow> sandbox_level \<Rightarrow> route_candidate \<Rightarrow> bool" where
  "requiresPersistentWorkspace request requiredSandbox candidate =
     (if rq_workspace_available request then False
      else if rc_requires_workspace_for_execution candidate then True
      else if requiredSandbox = Worktree then True
      else rq_risk_level request = RouteHigh \<and> rc_minimum_sandbox_level candidate \<noteq> NoSandbox)"

definition reason_if :: "bool \<Rightarrow> string \<Rightarrow> string list" where
  "reason_if b s = (if b then [s] else [])"

definition hardFilterReasons :: "route_request \<Rightarrow> route_hints \<Rightarrow> route_candidate \<Rightarrow> string list" where
  "hardFilterReasons request hints c =
     (let requiredCapabilities = nub (rq_required_capabilities request @ rh_required_capabilities hints);
          requiredTools = nub (rq_required_tools request @ rh_required_tools hints);
          localCli = isLocalCliRuntimeAdapter (rc_adapter_type c);
          requiredSandbox = stricterSandbox (rq_required_sandbox_level request) (rh_required_sandbox_level hints);
          candidateSandbox =
            (if rq_risk_level request = RouteCritical \<and> isLocalCliRuntimeAdapter (rc_adapter_type c)
             then OneShotDocker else requiredSandbox);
          sandboxSupported =
            (if candidateSandbox = OneShotDocker then rc_supports_one_shot_docker c
             else SANDBOX_RANK candidateSandbox \<le> SANDBOX_RANK (rc_minimum_sandbox_level c));
          minimumTrust = stricterTrust (trustRequiredForRisk (rq_risk_level request)) (rh_minimum_trust_level hints);
          mode = (case rh_execution_mode hints of None \<Rightarrow> rq_execution_mode request | Some m \<Rightarrow> m)
      in reason_if (\<not> rc_enabled c) ''candidate_disabled'' @
         reason_if (\<not> rc_credential_available c) ''credential_unavailable'' @
         reason_if (rc_conformance_status c = Some ConformanceFailed \<and> localCli) ''runtime_conformance_failed'' @
         reason_if (localCli \<and> rq_risk_level request \<noteq> RouteLow \<and> rc_conformance_status c \<noteq> Some ConformancePassed)
           ''runtime_conformance_required'' @
         reason_if (rc_runtime_profile_id c \<in> set (rq_excluded_runtime_profile_ids request))
           ''runtime_profile_excluded_for_retry'' @
         reason_if (rq_fallback_runtime_profile_ids request \<noteq> [] \<and>
             rc_runtime_profile_id c \<notin> set (rq_fallback_runtime_profile_ids request))
           ''runtime_profile_not_in_fallback_chain'' @
         reason_if (rq_adapter_types request \<noteq> [] \<and> rc_adapter_type c \<notin> set (rq_adapter_types request))
           ''adapter_not_requested'' @
         reason_if (rq_runtime_profile_is_explicit request \<and>
             rq_runtime_profile_id request \<noteq> Some (rc_runtime_profile_id c))
           ''explicit_profile_not_selected'' @
         reason_if (\<not> list_all (\<lambda>x. x \<in> set (rc_capabilities c)) requiredCapabilities) ''required_capability_missing'' @
         reason_if (\<not> list_all (\<lambda>x. x \<in> set (rc_tools c)) requiredTools) ''required_tool_missing'' @
         reason_if (\<not> sandboxSupported) ''sandbox_requirement_not_supported'' @
         reason_if (requiresPersistentWorkspace request requiredSandbox c) ''workspace_or_file_access_unavailable'' @
         reason_if (TRUST_RANK (rc_effective_trust_level c) < TRUST_RANK minimumTrust) ''trust_level_too_low'' @
         reason_if (mode = DryRunMode \<and> \<not> rc_supports_dry_run c) ''dry_run_unsupported'' @
         reason_if (mode = Live \<and> \<not> rc_supports_live c) ''live_execution_unsupported'')"

section \<open>Scores and selection\<close>

definition scoreCandidate ::
    "(rat \<Rightarrow> rat) \<Rightarrow> route_request \<Rightarrow> route_hints \<Rightarrow> route_candidate \<Rightarrow> (string \<times> rat) list" where
  "scoreCandidate fl request hints c =
     [(''preference'',
        if rc_adapter_type c \<in> set (rq_adapter_types request @ rh_preferred_adapter_types hints) then 20 else 0),
      (''profile_preference'',
        if rh_preferred_runtime_profile_id hints = Some (rc_runtime_profile_id c) \<or>
           rq_runtime_profile_id request = Some (rc_runtime_profile_id c) then 25 else 0),
      (''default_profile'', if rc_is_default c then 3 else 0),
      (''verification_pass_rate'',
        fl ((case rc_historical_verification_pass_rate c of None \<Rightarrow> 1 / 2 | Some r \<Rightarrow> r) * 20)),
      (''cost'', case rc_estimated_cost_usd c of None \<Rightarrow> 0 | Some usd \<Rightarrow> max (- 10) (fl (5 - usd))),
      (''latency'', case rc_estimated_latency_ms c of None \<Rightarrow> 0 | Some ms \<Rightarrow> max (- 10) (fl (5 - fl (ms / 1000)))),
      (''latency_budget'',
        case (rh_latency_budget_ms hints, rc_estimated_latency_ms c) of
          (Some budget, Some ms) \<Rightarrow> if ms \<le> budget then 4 else 0 | _ \<Rightarrow> 0),
      (''cost_budget'',
        case (rh_cost_budget_usd hints, rc_estimated_cost_usd c) of
          (Some budget, Some usd) \<Rightarrow> if usd \<le> budget then 4 else 0 | _ \<Rightarrow> 0)]"

definition total_score :: "(rat \<Rightarrow> rat) \<Rightarrow> (string \<times> rat) list \<Rightarrow> rat" where
  "total_score fl trace = foldl (\<lambda>s v. fl (s + snd v)) 0 trace"

definition pass_rate :: "scored_candidate \<Rightarrow> rat" where
  "pass_rate s = (case rc_historical_verification_pass_rate (sc_candidate s) of None \<Rightarrow> 1 / 2 | Some r \<Rightarrow> r)"

text \<open>\<open>right.score - left.score || ... || left.id.localeCompare(right.id)\<close>, by sign.\<close>

definition scored_order :: "(string \<Rightarrow> string \<Rightarrow> int) \<Rightarrow> scored_candidate \<Rightarrow> scored_candidate \<Rightarrow> int" where
  "scored_order collate l r =
     (if sc_score l \<noteq> sc_score r then (if sc_score r < sc_score l then -1 else 1)
      else if pass_rate l \<noteq> pass_rate r then (if pass_rate r < pass_rate l then -1 else 1)
      else collate (rc_runtime_profile_id (sc_candidate l)) (rc_runtime_profile_id (sc_candidate r)))"

definition scored_of :: "(rat \<Rightarrow> rat) \<Rightarrow> route_request \<Rightarrow> route_hints \<Rightarrow> route_candidate \<Rightarrow> scored_candidate" where
  "scored_of fl request hints c =
     (let trace = scoreCandidate fl request hints c
      in \<lparr>sc_candidate = c, sc_score = total_score fl trace, sc_score_trace = trace\<rparr>)"

definition hints_of :: "route_request \<Rightarrow> route_hints" where
  "hints_of request = (case rq_hints request of None \<Rightarrow> EMPTY_ROUTE_HINTS | Some h \<Rightarrow> h)"

definition select_route ::
    "(rat \<Rightarrow> rat) \<Rightarrow> (string \<Rightarrow> string \<Rightarrow> int) \<Rightarrow> route_request \<Rightarrow> route_candidate list \<Rightarrow> route_decision" where
  "select_route fl collate request candidates =
     (let hints = hints_of request;
          rejected = concat (map (\<lambda>c. let reasons = hardFilterReasons request hints c
            in if reasons \<noteq> [] then [\<lparr>rr_runtime_profile_id = rc_runtime_profile_id c,
                                       rr_adapter_type = rc_adapter_type c, rr_reasons = reasons\<rparr>] else []) candidates);
          scored = sort_by (scored_order collate)
            (map (scored_of fl request hints) (filter (\<lambda>c. hardFilterReasons request hints c = []) candidates))
      in \<lparr>rd_selected = (case scored of [] \<Rightarrow> None | s # _ \<Rightarrow> Some s),
          rd_candidates = scored,
          rd_fallback_chain = map (\<lambda>s. rc_runtime_profile_id (sc_candidate s)) scored,
          rd_rejected = rejected,
          rd_hints = hints,
          rd_reason = (case scored of
             s # _ \<Rightarrow> ''Selected '' @ rc_profile_name (sc_candidate s) @ '' using deterministic policy scoring.''
           | [] \<Rightarrow> ''No runtime candidate passed routing hard filters.'')\<rparr>)"

section \<open>Merging hints\<close>

definition hint_strings :: "jsval \<Rightarrow> string list" where
  "hint_strings v = (case v of
     JArr vs \<Rightarrow> List.map_filter (\<lambda>w. case w of JStr s \<Rightarrow> if trim s \<noteq> [] then Some s else None | _ \<Rightarrow> None) vs
   | _ \<Rightarrow> [])"

definition hint_text :: "jsval \<Rightarrow> string option" where
  "hint_text v = (case v of JStr s \<Rightarrow> if trim s \<noteq> [] then Some (trim s) else None | _ \<Rightarrow> None)"

definition sandboxValue :: "jsval \<Rightarrow> sandbox_level option" where
  "sandboxValue v = map_of
     [(JStr ''none'', NoSandbox), (JStr ''dry_run'', DryRunSandbox), (JStr ''ephemeral'', Ephemeral),
      (JStr ''worktree'', Worktree), (JStr ''one_shot_docker'', OneShotDocker)] v"

definition executionModeValue :: "jsval \<Rightarrow> execution_mode option" where
  "executionModeValue v = map_of [(JStr ''live'', Live), (JStr ''dry_run'', DryRunMode)] v"

definition trustValue :: "jsval \<Rightarrow> trust_level option" where
  "trustValue v = map_of [(JStr ''low'', TrustLow), (JStr ''medium'', TrustMedium), (JStr ''high'', TrustHigh)] v"

definition replace_opt :: "'a option \<Rightarrow> 'a option \<Rightarrow> 'a option" where
  "replace_opt new old = (case new of None \<Rightarrow> old | Some x \<Rightarrow> Some x)"

definition merge_hint :: "route_hints \<Rightarrow> string \<times> jsval \<Rightarrow> route_hints" where
  "merge_hint h s =
     (let value = record_or_empty (snd s);
          preferred = coalesce (coalesce (get value ''preferred_adapter_types'') (get value ''preferred_adapters''))
                        (get value ''recommended_runtime_adapters'')
      in \<lparr>rh_preferred_adapter_types = nub (rh_preferred_adapter_types h @ hint_strings preferred),
          rh_preferred_runtime_profile_id =
            replace_opt (hint_text (get value ''preferred_runtime_profile_id'')) (rh_preferred_runtime_profile_id h),
          rh_required_capabilities = nub (rh_required_capabilities h @ hint_strings (get value ''required_capabilities'')),
          rh_required_tools = nub (rh_required_tools h @ hint_strings (get value ''required_tools'')),
          rh_required_sandbox_level =
            replace_opt (sandboxValue (get value ''required_sandbox_level'')) (rh_required_sandbox_level h),
          rh_execution_mode = replace_opt (executionModeValue (get value ''execution_mode'')) (rh_execution_mode h),
          rh_minimum_trust_level =
            replace_opt (trustValue (get value ''minimum_trust_level'')) (rh_minimum_trust_level h),
          rh_latency_budget_ms = replace_opt (num (get value ''latency_budget_ms'')) (rh_latency_budget_ms h),
          rh_cost_budget_usd = replace_opt (num (get value ''cost_budget_usd'')) (rh_cost_budget_usd h),
          rh_sources = rh_sources h @ [fst s]\<rparr>)"

definition mergeRouteHints :: "(string \<times> jsval) list \<Rightarrow> route_hints" where
  "mergeRouteHints sources = foldl merge_hint EMPTY_ROUTE_HINTS sources"

section \<open>What a decision guarantees\<close>

definition admissible :: "route_request \<Rightarrow> route_candidate \<Rightarrow> bool" where
  "admissible request c \<longleftrightarrow> hardFilterReasons request (hints_of request) c = []"

lemma reason_if_nil [simp]: "reason_if b s = [] \<longleftrightarrow> \<not> b"
  by (simp add: reason_if_def)

lemma stricterSandbox_max: "stricterSandbox base hint = (case hint of None \<Rightarrow> base | Some h \<Rightarrow> max base h)"
  by (auto simp: stricterSandbox_def max_def level_order split: option.splits)

lemma stricterTrust_max: "stricterTrust base hint = (case hint of None \<Rightarrow> base | Some h \<Rightarrow> max base h)"
  by (auto simp: stricterTrust_def max_def level_order split: option.splits)

lemma trust_rank_le: "TRUST_RANK a < TRUST_RANK b \<longleftrightarrow> \<not> b \<le> a"
  by (auto simp: level_order)

lemma sandbox_rank_le: "SANDBOX_RANK a \<le> SANDBOX_RANK b \<longleftrightarrow> a \<le> b"
  by (simp add: level_order)

lemma list_all_subset: "list_all (\<lambda>x. x \<in> S) xs \<longleftrightarrow> set xs \<subseteq> S"
  by (auto simp: list_all_iff)

text \<open>The requirements a runtime has to meet, independent of the reasons recorded when it does not.\<close>

definition required_sandbox :: "route_request \<Rightarrow> sandbox_level" where
  "required_sandbox request = (case rh_required_sandbox_level (hints_of request) of
     None \<Rightarrow> rq_required_sandbox_level request | Some h \<Rightarrow> max (rq_required_sandbox_level request) h)"

definition required_trust :: "route_request \<Rightarrow> trust_level" where
  "required_trust request = (case rh_minimum_trust_level (hints_of request) of
     None \<Rightarrow> trustRequiredForRisk (rq_risk_level request)
   | Some h \<Rightarrow> max (trustRequiredForRisk (rq_risk_level request)) h)"

definition confines :: "route_candidate \<Rightarrow> sandbox_level \<Rightarrow> bool" where
  "confines c level \<longleftrightarrow> (if level = OneShotDocker then rc_supports_one_shot_docker c else level \<le> rc_minimum_sandbox_level c)"

definition meets_requirements :: "route_request \<Rightarrow> route_candidate \<Rightarrow> bool" where
  "meets_requirements request c \<longleftrightarrow>
     rc_enabled c \<and> rc_credential_available c \<and>
     set (rq_required_capabilities request) \<union> set (rh_required_capabilities (hints_of request)) \<subseteq> set (rc_capabilities c) \<and>
     set (rq_required_tools request) \<union> set (rh_required_tools (hints_of request)) \<subseteq> set (rc_tools c) \<and>
     required_trust request \<le> rc_effective_trust_level c \<and>
     confines c (if rq_risk_level request = RouteCritical \<and> isLocalCliRuntimeAdapter (rc_adapter_type c)
                 then OneShotDocker else required_sandbox request)"

lemma admissible_iff:
  "admissible request c \<longleftrightarrow>
     rc_enabled c \<and> rc_credential_available c \<and>
     \<not> (rc_conformance_status c = Some ConformanceFailed \<and> isLocalCliRuntimeAdapter (rc_adapter_type c)) \<and>
     \<not> (isLocalCliRuntimeAdapter (rc_adapter_type c) \<and> rq_risk_level request \<noteq> RouteLow \<and>
        rc_conformance_status c \<noteq> Some ConformancePassed) \<and>
     rc_runtime_profile_id c \<notin> set (rq_excluded_runtime_profile_ids request) \<and>
     \<not> (rq_fallback_runtime_profile_ids request \<noteq> [] \<and>
        rc_runtime_profile_id c \<notin> set (rq_fallback_runtime_profile_ids request)) \<and>
     \<not> (rq_adapter_types request \<noteq> [] \<and> rc_adapter_type c \<notin> set (rq_adapter_types request)) \<and>
     \<not> (rq_runtime_profile_is_explicit request \<and> rq_runtime_profile_id request \<noteq> Some (rc_runtime_profile_id c)) \<and>
     set (rq_required_capabilities request) \<union> set (rh_required_capabilities (hints_of request)) \<subseteq> set (rc_capabilities c) \<and>
     set (rq_required_tools request) \<union> set (rh_required_tools (hints_of request)) \<subseteq> set (rc_tools c) \<and>
     confines c (if rq_risk_level request = RouteCritical \<and> isLocalCliRuntimeAdapter (rc_adapter_type c)
                 then OneShotDocker else required_sandbox request) \<and>
     \<not> requiresPersistentWorkspace request (required_sandbox request) c \<and>
     required_trust request \<le> rc_effective_trust_level c \<and>
     (let mode = (case rh_execution_mode (hints_of request) of None \<Rightarrow> rq_execution_mode request | Some m \<Rightarrow> m)
      in \<not> (mode = DryRunMode \<and> \<not> rc_supports_dry_run c) \<and> \<not> (mode = Live \<and> \<not> rc_supports_live c))"
  unfolding admissible_def hardFilterReasons_def Let_def append_is_Nil_conv reason_if_nil not_not confines_def
    stricterSandbox_max stricterTrust_max trust_rank_le sandbox_rank_le list_all_subset required_sandbox_def
    required_trust_def set_nub set_append
  by (rule refl)

lemma admissible_meets: "admissible request c \<Longrightarrow> meets_requirements request c"
  unfolding admissible_iff meets_requirements_def by (elim conjE) (intro conjI)

text \<open>The comparison of scored candidates meets the contract of a comparator as soon as the collation does.\<close>

lemma scored_comparator:
  assumes "comparator collate"
  shows "comparator (scored_order collate)"
  unfolding scored_order_def
  by (intro comparator_desc comparator_on [where f = "\<lambda>s. rc_runtime_profile_id (sc_candidate s)"] assms)

lemma scored_order_score: "scored_order collate l r \<le> 0 \<Longrightarrow> sc_score r \<le> sc_score l"
  by (auto simp: scored_order_def split: if_splits)

lemma candidates_eq:
  "rd_candidates (select_route fl collate request cs) =
     sort_by (scored_order collate) (map (scored_of fl request (hints_of request)) (filter (admissible request) cs))"
  by (simp add: select_route_def Let_def admissible_def [abs_def])

lemma selected_eq:
  "rd_selected (select_route fl collate request cs) =
     (case rd_candidates (select_route fl collate request cs) of [] \<Rightarrow> None | s # _ \<Rightarrow> Some s)"
  by (simp add: select_route_def Let_def)

lemma scored_of_simps [simp]:
  "sc_candidate (scored_of fl request hints c) = c"
  "sc_score (scored_of fl request hints c) = total_score fl (scoreCandidate fl request hints c)"
  by (simp_all add: scored_of_def Let_def)

lemma selected_admissible:
  assumes "rd_selected (select_route fl collate request cs) = Some s"
  shows "sc_candidate s \<in> set cs \<and> admissible request (sc_candidate s)"
proof -
  have "s \<in> set (rd_candidates (select_route fl collate request cs))"
    using assms by (simp add: selected_eq split: list.splits)
  then show ?thesis by (auto simp: candidates_eq)
qed

text \<open>
  C20: the selected runtime meets every requirement of the request and of its hints (it is enabled and
  credentialed, has the capabilities and tools, is trusted enough for the risk and confined enough for
  the sandbox), and no candidate that passes the filters scores higher; there is no selection exactly
  if no candidate passes them.
\<close>

theorem route_selection_optimal:
  assumes "comparator collate"
  shows "case rd_selected (select_route fl collate request cs) of
      None \<Rightarrow> list_all (\<lambda>c. hardFilterReasons request (hints_of request) c \<noteq> []) cs
    | Some s \<Rightarrow>
        sc_candidate s \<in> set cs \<and>
        hardFilterReasons request (hints_of request) (sc_candidate s) = [] \<and>
        meets_requirements request (sc_candidate s) \<and>
        sc_score s = total_score fl (scoreCandidate fl request (hints_of request) (sc_candidate s)) \<and>
        list_all (\<lambda>c. total_score fl (scoreCandidate fl request (hints_of request) c) \<le> sc_score s)
          (filter (\<lambda>c. hardFilterReasons request (hints_of request) c = []) cs)"
proof -
  let ?scored = "map (scored_of fl request (hints_of request)) (filter (admissible request) cs)"
  note sorted = comparator.sorted_sort [OF scored_comparator [OF assms], of ?scored]
  show ?thesis
  proof (cases "sort_by (scored_order collate) ?scored")
    case Nil
    then have "?scored = []" by (metis set_sort_by set_empty)
    with Nil show ?thesis by (simp add: selected_eq candidates_eq filter_empty_conv admissible_def list_all_iff)
  next
    case (Cons s rest)
    then have "s \<in> set ?scored" by (metis set_sort_by list.set_intros(1))
    moreover have "\<forall>t \<in> set (s # rest). sc_score t \<le> sc_score s"
      using sorted Cons by (auto dest: scored_order_score)
    then have "\<forall>t \<in> set ?scored. sc_score t \<le> sc_score s"
      by (metis Cons set_sort_by)
    ultimately show ?thesis
      using Cons by (auto simp: selected_eq candidates_eq list_all_iff admissible_def intro: admissible_meets)
  qed
qed

lemma rejected_eq:
  "rd_rejected (select_route fl collate request cs) =
     map (\<lambda>c. \<lparr>rr_runtime_profile_id = rc_runtime_profile_id c, rr_adapter_type = rc_adapter_type c,
               rr_reasons = hardFilterReasons request (hints_of request) c\<rparr>)
       (filter (\<lambda>c. \<not> admissible request c) cs)"
  by (induction cs) (simp_all add: select_route_def Let_def admissible_def)

lemma decision_of_candidates:
  "rd_fallback_chain (select_route fl collate request cs) =
     map (\<lambda>s. rc_runtime_profile_id (sc_candidate s)) (rd_candidates (select_route fl collate request cs))"
  "rd_reason (select_route fl collate request cs) =
     (case rd_candidates (select_route fl collate request cs) of
        s # _ \<Rightarrow> ''Selected '' @ rc_profile_name (sc_candidate s) @ '' using deterministic policy scoring.''
      | [] \<Rightarrow> ''No runtime candidate passed routing hard filters.'')"
  by (simp_all add: select_route_def Let_def)

lemma mset_partition: "mset (map f (filter P xs)) + mset (map f (filter (\<lambda>x. \<not> P x) xs)) = mset (map f xs)"
  by (induction xs) simp_all

text \<open>
  Routing is deterministic and loses no candidate. With a collation that separates distinct ids and
  candidates of distinct ids, the order in which the store lists the candidates changes neither the
  scored candidates nor the selection, the fallback chain or the reason; and each candidate is either in
  the fallback chain or among the rejected ones.
\<close>

theorem route_order_irrelevant:
  assumes "comparator collate"
    and "\<And>a b. collate a b \<le> 0 \<Longrightarrow> collate b a \<le> 0 \<Longrightarrow> a = b"
    and "distinct (map rc_runtime_profile_id cs)" and "mset ds = mset cs"
  shows "rd_candidates (select_route fl collate request ds) = rd_candidates (select_route fl collate request cs) \<and>
         rd_selected (select_route fl collate request ds) = rd_selected (select_route fl collate request cs) \<and>
         rd_fallback_chain (select_route fl collate request ds) = rd_fallback_chain (select_route fl collate request cs) \<and>
         rd_reason (select_route fl collate request ds) = rd_reason (select_route fl collate request cs) \<and>
         mset (rd_fallback_chain (select_route fl collate request ds)) +
           mset (map rr_runtime_profile_id (rd_rejected (select_route fl collate request ds))) =
         mset (map rc_runtime_profile_id cs)"
proof -
  note order = scored_comparator [OF assms(1)]
  let ?scored = "\<lambda>cs. map (scored_of fl request (hints_of request)) (filter (admissible request) cs)"
  have same: "mset (?scored ds) = mset (?scored cs)" by (simp add: assms(4))
  have ids: "inj_on rc_runtime_profile_id (set ds)"
    using assms(3) unfolding distinct_map mset_eq_setD [OF assms(4)] by (rule conjunct2)
  have "rd_candidates (select_route fl collate request ds) = rd_candidates (select_route fl collate request cs)"
    unfolding candidates_eq
  proof (rule comparator.sort_permute [OF order same])
    fix x y
    assume "x \<in> set (?scored ds)" "y \<in> set (?scored ds)"
    then obtain c d where xy: "x = scored_of fl request (hints_of request) c" "c \<in> set ds"
        "y = scored_of fl request (hints_of request) d" "d \<in> set ds" by auto
    assume "scored_order collate x y \<le> 0" "scored_order collate y x \<le> 0"
    then have "rc_runtime_profile_id c = rc_runtime_profile_id d"
      using assms(2) by (auto simp: scored_order_def xy split: if_splits)
    then show "x = y" using ids xy by (auto dest: inj_onD)
  qed
  moreover have "mset (rd_fallback_chain (select_route fl collate request ds)) =
      mset (map rc_runtime_profile_id (filter (admissible request) ds))"
    by (simp add: decision_of_candidates candidates_eq comparator.mset_sort [OF order]
        image_mset.compositionality comp_def)
  moreover have "mset (map rr_runtime_profile_id (rd_rejected (select_route fl collate request ds))) =
      mset (map rc_runtime_profile_id (filter (\<lambda>c. \<not> admissible request c) ds))"
    by (simp add: rejected_eq comp_def)
  moreover have "mset (map rc_runtime_profile_id ds) = mset (map rc_runtime_profile_id cs)"
    by (simp add: assms(4))
  ultimately show ?thesis
    using mset_partition [of rc_runtime_profile_id "admissible request" ds]
    by (simp add: selected_eq decision_of_candidates)
qed

section \<open>Merged hints\<close>

text \<open>The sources are recorded in order, and what a source requires of capabilities and tools is kept.\<close>

lemma merge_hint_requirements:
  "set (rh_required_capabilities (merge_hint h s)) =
     set (rh_required_capabilities h) \<union> set (hint_strings (get (record_or_empty (snd s)) ''required_capabilities''))"
  "set (rh_required_tools (merge_hint h s)) =
     set (rh_required_tools h) \<union> set (hint_strings (get (record_or_empty (snd s)) ''required_tools''))"
  "rh_sources (merge_hint h s) = rh_sources h @ [fst s]"
  by (simp_all add: merge_hint_def Let_def)

lemma merged_requirements:
  "set (rh_required_capabilities (foldl merge_hint h sources)) =
     set (rh_required_capabilities h) \<union>
     (\<Union>s \<in> set sources. set (hint_strings (get (record_or_empty (snd s)) ''required_capabilities'')))"
  "set (rh_required_tools (foldl merge_hint h sources)) =
     set (rh_required_tools h) \<union>
     (\<Union>s \<in> set sources. set (hint_strings (get (record_or_empty (snd s)) ''required_tools'')))"
  "rh_sources (foldl merge_hint h sources) = rh_sources h @ map fst sources"
  by (induction sources arbitrary: h) (simp_all add: merge_hint_requirements Un_assoc)

text \<open>The sandbox and trust minima are not merged to the stricter one: a later source replaces them.\<close>

lemma later_source_weakens_minima:
  "let hints = mergeRouteHints
     [(''task_contract'', JObj [(''required_sandbox_level'', JStr ''one_shot_docker''), (''minimum_trust_level'', JStr ''high'')]),
      (''workflow_node'', JObj [(''required_sandbox_level'', JStr ''none''), (''minimum_trust_level'', JStr ''low'')])]
   in rh_required_sandbox_level hints = Some NoSandbox \<and> rh_minimum_trust_level hints = Some TrustLow"
  by code_simp

section \<open>A concrete selection\<close>

text \<open>The candidates a witness selects from: two model providers and a command line.\<close>

definition example_candidate :: "string \<Rightarrow> string \<Rightarrow> trust_level \<Rightarrow> rat option \<Rightarrow> route_candidate" where
  "example_candidate i adapter trust rate =
     \<lparr>rc_runtime_profile_id = i, rc_profile_name = i, rc_adapter_type = adapter, rc_model_provider_id = None,
      rc_model_name = None, rc_credential_profile_id = None, rc_runtime_config_json = [],
      rc_runtime_policy_json = [], rc_enabled = True, rc_is_default = False, rc_credential_available = True,
      rc_capabilities = [''code''], rc_tools = [], rc_minimum_sandbox_level = NoSandbox,
      rc_requires_workspace_for_execution = False, rc_supports_workspace = False,
      rc_supports_one_shot_docker = False, rc_supports_live = True, rc_supports_dry_run = True,
      rc_baseline_trust_level = trust, rc_effective_trust_level = trust,
      rc_conformance_status = None, rc_conformance_suite_version = None,
      rc_subagent_disable_mechanism = NotApplicable, rc_estimated_cost_usd = Some 1,
      rc_estimated_latency_ms = None, rc_historical_verification_pass_rate = rate\<rparr>"

definition example_candidates :: "route_candidate list" where
  "example_candidates =
     [example_candidate ''p1'' ''model_api'' TrustHigh (Some (1 / 4)),
      example_candidate ''p2'' ''claude_code'' TrustLow (Some 1),
      example_candidate ''p3'' ''ts_agent_host'' TrustHigh (Some (3 / 4))]"

definition example_request :: route_request where
  "example_request =
     \<lparr>rq_adapter_types = [], rq_runtime_profile_id = None, rq_runtime_profile_is_explicit = False,
      rq_excluded_runtime_profile_ids = [], rq_fallback_runtime_profile_ids = [],
      rq_required_capabilities = [''code''], rq_required_tools = [], rq_required_sandbox_level = NoSandbox,
      rq_execution_mode = Live, rq_risk_level = RouteHigh, rq_workspace_available = False, rq_hints = None\<rparr>"

lemma example_selection:
  "map_option (\<lambda>s. rc_runtime_profile_id (sc_candidate s))
     (rd_selected (select_route id compare_text example_request example_candidates)) = Some ''p3''"
  by code_simp

lemma route_selection_optimal_witness:
  "(case rd_selected (select_route id compare_text example_request example_candidates) of
      None \<Rightarrow> False
    | Some s \<Rightarrow> meets_requirements example_request (sc_candidate s))"
  using route_selection_optimal [OF texts.comparator_axioms, where fl = id and request = example_request and cs = example_candidates]
    example_selection by (auto split: option.splits)

lemma route_order_irrelevant_witness:
  "rd_selected (select_route id compare_text example_request (rev example_candidates)) =
   rd_selected (select_route id compare_text example_request example_candidates)"
proof -
  have "distinct (map rc_runtime_profile_id example_candidates)" by code_simp
  then show ?thesis
    using route_order_irrelevant [OF texts.comparator_axioms, where fl = id and request = example_request and
        cs = example_candidates and ds = "rev example_candidates"] by simp
qed

end
