(* ===== verification/RouteRuns.thy ===== *)
theory RouteRuns
  imports Router RunBudget RunTables
begin

text \<open>
  Routing a run, \<open>routing/repository.ts\<close>: the candidates of an agent read from their rows, the hints of
  the run's contract, the route a retry may take, and the decision that is persisted per attempt and
  stamped on the run. \<open>to_number\<close> is the conversion of a numeric text, which the driver may return for
  a number.
\<close>

section \<open>Candidates\<close>

record candidate_row =
  cr_runtime_profile_id :: string
  cr_profile_name :: string
  cr_adapter_type :: string
  cr_model_provider_id :: "string option"
  cr_model_name :: "string option"
  cr_credential_profile_id :: "string option"
  cr_credential_profile_owner_id :: "string option"
  cr_provider_enabled :: "bool option"
  cr_provider_credential_id :: "string option"
  cr_provider_has_healthy_credential :: bool
  cr_enabled :: bool
  cr_is_default :: bool
  cr_runtime_config_json :: jsval
  cr_runtime_policy_json :: jsval
  cr_capabilities_json :: jsval
  cr_estimated_cost_usd :: jsval
  cr_estimated_latency_ms :: jsval
  cr_historical_verification_pass_rate :: jsval
  cr_conformance_status :: "conformance option"
  cr_conformance_suite_version :: "string option"

definition non_empty :: "string option \<Rightarrow> bool" where
  "non_empty s \<longleftrightarrow> s \<noteq> None \<and> s \<noteq> Some []"

definition provider_usable :: "candidate_row \<Rightarrow> bool" where
  "provider_usable row \<longleftrightarrow>
     cr_provider_enabled row = Some True \<and>
     (non_empty (cr_provider_credential_id row) \<or> cr_provider_has_healthy_credential row)"

definition profile_usable :: "candidate_row \<Rightarrow> bool" where
  "profile_usable row \<longleftrightarrow> non_empty (cr_credential_profile_id row) \<and> non_empty (cr_credential_profile_owner_id row)"

definition credentialAvailable :: "candidate_row \<Rightarrow> bool" where
  "credentialAvailable row =
     (let mode = map_option as_credential_mode (getRuntimeAdapterSpec (cr_adapter_type row)) in
      if mode = Some NoCredential then True
      else if isLocalCliRuntimeAdapter (cr_adapter_type row) then
        (if mode = Some CliProfileOrModelProvider
         then profile_usable row \<or> non_empty (cr_model_provider_id row) \<and> provider_usable row
         else profile_usable row)
      else provider_usable row)"

definition baselineTrust :: "adapter_spec option \<Rightarrow> trust_level" where
  "baselineTrust spec = (case spec of None \<Rightarrow> TrustLow | Some s \<Rightarrow> as_baseline_trust_level s)"

definition effectiveTrustLevel :: "adapter_spec option \<Rightarrow> conformance option \<Rightarrow> trust_level" where
  "effectiveTrustLevel spec conformance =
     (case spec of
        None \<Rightarrow> baselineTrust spec
      | Some s \<Rightarrow>
          if \<not> isLocalCliRuntimeAdapter (as_adapter_type s) then baselineTrust spec
          else if conformance = Some ConformancePassed \<and> as_subagent_disable_mechanism s = RuntimeConfig
          then TrustMedium else TrustLow)"

definition numberOrNull :: "(string \<Rightarrow> jsval) \<Rightarrow> jsval \<Rightarrow> rat option" where
  "numberOrNull to_number v = (case v of JStr s \<Rightarrow> num (to_number s) | _ \<Rightarrow> num v)"

definition candidateFromRow :: "(string \<Rightarrow> jsval) \<Rightarrow> candidate_row \<Rightarrow> route_candidate" where
  "candidateFromRow to_number row =
     (let spec = getRuntimeAdapterSpec (cr_adapter_type row);
          config = record_or_empty (cr_runtime_config_json row);
          policy = record_or_empty (cr_runtime_policy_json row);
          sandbox = map_option as_sandbox spec
      in \<lparr>rc_runtime_profile_id = cr_runtime_profile_id row, rc_profile_name = cr_profile_name row,
          rc_adapter_type = cr_adapter_type row, rc_model_provider_id = cr_model_provider_id row,
          rc_model_name = cr_model_name row, rc_credential_profile_id = cr_credential_profile_id row,
          rc_runtime_config_json = config, rc_runtime_policy_json = policy,
          rc_enabled = (cr_enabled row \<and> map_option as_implementation_status spec = Some Implemented),
          rc_is_default = cr_is_default row, rc_credential_available = credentialAvailable row,
          rc_capabilities = hint_strings (cr_capabilities_json row),
          rc_tools = hint_strings (coalesce (coalesce (get config ''tools'') (get config ''tool_ids'')) (get policy ''tools'')),
          rc_minimum_sandbox_level = (case sandbox of None \<Rightarrow> NoSandbox | Some s \<Rightarrow> minimum_sandbox_level s),
          rc_requires_workspace_for_execution =
            (case sandbox of None \<Rightarrow> False | Some s \<Rightarrow> requires_workspace_for_execution s),
          rc_supports_workspace = (case sandbox of None \<Rightarrow> False | Some s \<Rightarrow> supports_worktree s),
          rc_supports_one_shot_docker = (case sandbox of None \<Rightarrow> False | Some s \<Rightarrow> supports_one_shot_docker s),
          rc_supports_live = (get config ''supports_live'' \<noteq> JBool False),
          rc_supports_dry_run = (get config ''supports_dry_run'' \<noteq> JBool False),
          rc_baseline_trust_level = baselineTrust spec,
          rc_effective_trust_level = effectiveTrustLevel spec (cr_conformance_status row),
          rc_conformance_status = cr_conformance_status row,
          rc_conformance_suite_version = cr_conformance_suite_version row,
          rc_subagent_disable_mechanism =
            (case spec of None \<Rightarrow> UnknownMechanism | Some s \<Rightarrow> as_subagent_disable_mechanism s),
          rc_estimated_cost_usd = numberOrNull to_number (cr_estimated_cost_usd row),
          rc_estimated_latency_ms = numberOrNull to_number (cr_estimated_latency_ms row),
          rc_historical_verification_pass_rate =
            numberOrNull to_number (cr_historical_verification_pass_rate row)\<rparr>)"

section \<open>The hints of a run\<close>

definition sandboxLevel :: "jsval \<Rightarrow> sandbox_level" where
  "sandboxLevel v = (case sandboxValue v of None \<Rightarrow> NoSandbox | Some l \<Rightarrow> l)"

definition riskLevel :: "jsval \<Rightarrow> route_risk" where
  "riskLevel v = (case map_of
     [(JStr ''medium'', RouteMedium), (JStr ''high'', RouteHigh), (JStr ''critical'', RouteCritical)] v of
       None \<Rightarrow> RouteLow | Some r \<Rightarrow> r)"

definition hint_sources :: "jsobj \<Rightarrow> (string \<times> jsval) list" where
  "hint_sources raw =
     filter (\<lambda>s. snd s \<noteq> JUndef)
       (map (\<lambda>k. (k, get raw k)) [''task_contract'', ''workflow_node'', ''evolution_strategy'']) @
     [(''contract'', JObj raw)]"

definition routeHintsForRun :: "run \<Rightarrow> route_hints" where
  "routeHintsForRun r =
     (let raw = record_or_empty (get (contractRecord (rn_contract_snapshot_json r)) ''route_hints_json'');
          result = mergeRouteHints (hint_sources raw)
      in if non_empty (rn_runtime_profile_id r) \<and> \<not> non_empty (rh_preferred_runtime_profile_id result)
         then result\<lparr>rh_preferred_runtime_profile_id := rn_runtime_profile_id r\<rparr> else result)"

section \<open>Persisted decisions\<close>

text \<open>A row of \<open>route_decisions\<close>; the scores and rejections it records are kept as computed.\<close>

record route_row =
  rt_id :: string
  rt_space_id :: string
  rt_run_id :: string
  rt_attempt_number :: nat
  rt_is_selected :: bool
  rt_selected_runtime_profile_id :: "string option"
  rt_selected_adapter_type :: "string option"
  rt_selected_model_provider_id :: "string option"
  rt_reason :: string
  rt_hints :: route_hints
  rt_candidates :: "scored_candidate list"
  rt_rejected :: "route_rejection list"
  rt_fallback_chain :: "string list"
  rt_created_at :: int

definition routes_of :: "string \<Rightarrow> string \<Rightarrow> route_row list \<Rightarrow> route_row list" where
  "routes_of space run rows = filter (\<lambda>d. rt_space_id d = space \<and> rt_run_id d = run) rows"

text \<open>\<open>ORDER BY attempt_number DESC LIMIT 1\<close>: the attempt number is unique per run.\<close>

definition latest_route :: "route_row list \<Rightarrow> route_row option" where
  "latest_route rows =
     List.find (\<lambda>d. list_all (\<lambda>e. rt_attempt_number e \<le> rt_attempt_number d) rows) rows"

text \<open>\<open>stringArray\<close> of the stored chain drops blank entries.\<close>

definition chain_of :: "route_row \<Rightarrow> string list" where
  "chain_of d = filter (\<lambda>s. trim s \<noteq> []) (rt_fallback_chain d)"

definition hasFallbackRoute :: "string \<Rightarrow> string \<Rightarrow> route_row list \<Rightarrow> bool" where
  "hasFallbackRoute space run rows =
     (case latest_route (routes_of space run rows) of
        None \<Rightarrow> False
      | Some d \<Rightarrow> (case rt_selected_runtime_profile_id d of
           None \<Rightarrow> False
         | Some selected \<Rightarrow> selected \<noteq> [] \<and> list_ex (\<lambda>p. p \<noteq> selected) (chain_of d)))"

definition currentAttemptNumber :: "string \<Rightarrow> string \<Rightarrow> run_db \<Rightarrow> nat" where
  "currentAttemptNumber space run db =
     (let n = or_value (max_number (attempts_of space run (db_attempts db))) 1 in if 0 < n then n else 1)"

text \<open>The profiles a retry excludes and those it is confined to.\<close>

definition attempted_profiles :: "string \<Rightarrow> string \<Rightarrow> nat \<Rightarrow> route_row list \<Rightarrow> string list" where
  "attempted_profiles space run n rows =
     nub (filter (\<lambda>p. p \<noteq> []) (List.map_filter rt_selected_runtime_profile_id
       (filter (\<lambda>d. rt_attempt_number d < n) (routes_of space run rows))))"

definition retryRouteContext :: "string \<Rightarrow> string \<Rightarrow> nat \<Rightarrow> route_row list \<Rightarrow> string list \<times> string list" where
  "retryRouteContext space run n rows =
     (case latest_route (filter (\<lambda>d. rt_attempt_number d < n) (routes_of space run rows)) of
        None \<Rightarrow> ([], [])
      | Some previous \<Rightarrow>
          let excluded = attempted_profiles space run n rows;
              fallback = filter (\<lambda>p. p \<notin> set excluded) (nub (chain_of previous))
          in (if fallback \<noteq> [] then excluded else [], fallback))"

section \<open>Routing a run\<close>

datatype route_error =
    RouteNoCandidate string
  | RouteSelectedProfileUnavailable
  | RouteRunUpdateFailed

definition route_request_for :: "run \<Rightarrow> string list \<Rightarrow> string list \<Rightarrow> route_request" where
  "route_request_for r excluded fallback =
     \<lparr>rq_adapter_types = [], rq_runtime_profile_id = rn_requested_runtime_profile_id r,
      rq_runtime_profile_is_explicit = (rn_runtime_profile_selection_source r = Some ''explicit''),
      rq_excluded_runtime_profile_ids = excluded, rq_fallback_runtime_profile_ids = fallback,
      rq_required_capabilities = hint_strings (rn_capabilities_json r), rq_required_tools = [],
      rq_required_sandbox_level = sandboxLevel (JStr (rn_required_sandbox_level r)),
      rq_execution_mode = (if rn_mode r = ''dry_run'' then DryRunMode else Live),
      rq_risk_level = riskLevel (get (contractRecord (rn_contract_snapshot_json r)) ''risk_level''),
      rq_workspace_available = non_empty (rn_workspace_id r), rq_hints = Some (routeHintsForRun r)\<rparr>"

text \<open>The answers of the environment: rounding, collation, numeric texts, the candidate rows, id, time.\<close>

record route_env =
  re_fl :: "rat \<Rightarrow> rat"
  re_collate :: "string \<Rightarrow> string \<Rightarrow> int"
  re_to_number :: "string \<Rightarrow> jsval"
  re_rows :: "candidate_row list"
  re_decision_id :: string
  re_now :: int

definition decide_route :: "route_env \<Rightarrow> run \<Rightarrow> nat \<Rightarrow> route_row list \<Rightarrow> route_decision" where
  "decide_route env r n rows =
     (let (excluded, fallback) =
            (if 1 < n then retryRouteContext (rn_space_id r) (rn_id r) n rows else ([], []))
      in select_route (re_fl env) (re_collate env) (route_request_for r excluded fallback)
           (map (candidateFromRow (re_to_number env)) (re_rows env)))"

definition decision_row :: "route_env \<Rightarrow> run \<Rightarrow> nat \<Rightarrow> route_decision \<Rightarrow> route_row" where
  "decision_row env r n d =
     (let selected = map_option sc_candidate (rd_selected d) in
      \<lparr>rt_id = re_decision_id env, rt_space_id = rn_space_id r, rt_run_id = rn_id r, rt_attempt_number = n,
       rt_is_selected = (selected \<noteq> None),
       rt_selected_runtime_profile_id = map_option rc_runtime_profile_id selected,
       rt_selected_adapter_type = map_option rc_adapter_type selected,
       rt_selected_model_provider_id = (case selected of None \<Rightarrow> None | Some c \<Rightarrow> rc_model_provider_id c),
       rt_reason = rd_reason d, rt_hints = rd_hints d, rt_candidates = rd_candidates d,
       rt_rejected = rd_rejected d, rt_fallback_chain = rd_fallback_chain d, rt_created_at = re_now env\<rparr>)"

definition profile_snapshot :: "route_candidate \<Rightarrow> jsval" where
  "profile_snapshot c = JObj
     [(''id'', JStr (rc_runtime_profile_id c)), (''name'', JStr (rc_profile_name c)),
      (''adapter_type'', JStr (rc_adapter_type c)), (''model_provider_id'', opt_str (rc_model_provider_id c)),
      (''model_name'', opt_str (rc_model_name c)), (''credential_profile_id'', opt_str (rc_credential_profile_id c)),
      (''runtime_config_json'', JObj (rc_runtime_config_json c)),
      (''runtime_policy_json'', JObj (rc_runtime_policy_json c)), (''is_default'', JBool (rc_is_default c))]"

definition stamp_route :: "route_env \<Rightarrow> string \<Rightarrow> route_candidate \<Rightarrow> jsval \<Rightarrow> run \<Rightarrow> run" where
  "stamp_route env decision_id c override r =
     r\<lparr>rn_route_decision_id := Some decision_id, rn_runtime_profile_id := Some (rc_runtime_profile_id c),
       rn_adapter_type := Some (rc_adapter_type c), rn_model_provider_id := rc_model_provider_id c,
       rn_model_override_json := override, rn_runtime_profile_snapshot_json := profile_snapshot c,
       rn_updated_at := re_now env\<rparr>"

definition model_override :: "run \<Rightarrow> route_candidate \<Rightarrow> string \<Rightarrow> jsval" where
  "model_override r c decision_id = JObj (assign (record_or_empty (rn_model_override_json r))
     ((case rc_model_name c of None \<Rightarrow> [] | Some m \<Rightarrow> if m = [] then [] else [(''model'', JStr m)]) @
      [(''route_decision_id'', JStr decision_id), (''route_source'', JStr ''deterministic_policy'')]))"

definition stamp_run ::
    "route_env \<Rightarrow> run \<Rightarrow> string \<Rightarrow> route_candidate \<Rightarrow> run_db \<Rightarrow> (route_error + run) \<times> run_db" where
  "stamp_run env r decision_id c db =
     (let update = transition (rn_space_id r) (rn_id r) (\<lambda>x. True)
            (stamp_route env decision_id c (model_override r c decision_id)) id db
      in case update of
           (None, db') \<Rightarrow> (Inl RouteRunUpdateFailed, db')
         | (Some x, db') \<Rightarrow> (Inr x, db'))"

definition routeRun ::
    "route_env \<Rightarrow> run \<Rightarrow> run_db \<Rightarrow> route_row list \<Rightarrow> (route_error + run) \<times> run_db \<times> route_row list" where
  "routeRun env r db rows =
     (if rn_run_type r = ''system'' \<or> rn_run_type r = ''validation'' then (Inr r, db, rows)
      else
        let n = currentAttemptNumber (rn_space_id r) (rn_id r) db;
            candidates = map (candidateFromRow (re_to_number env)) (re_rows env);
            decision = decide_route env r n rows
        in case List.find (\<lambda>d. rt_attempt_number d = n) (routes_of (rn_space_id r) (rn_id r) rows) of
             Some existing \<Rightarrow>
               if \<not> rt_is_selected existing
               then (Inl (RouteNoCandidate ''The persisted route decision has no eligible candidate.''), db, rows)
               else (case List.find (\<lambda>c. Some (rc_runtime_profile_id c) = rt_selected_runtime_profile_id existing)
                            candidates of
                       None \<Rightarrow> (Inl RouteSelectedProfileUnavailable, db, rows)
                     | Some c \<Rightarrow> (let (result, db') = stamp_run env r (rt_id existing) c db in (result, db', rows)))
           | None \<Rightarrow>
               let rows' = rows @ [decision_row env r n decision] in
               (case rd_selected decision of
                  None \<Rightarrow> (Inl (RouteNoCandidate (rd_reason decision)), db, rows')
                | Some s \<Rightarrow> (let (result, db') = stamp_run env r (re_decision_id env) (sc_candidate s) db
                            in (result, db', rows'))))"

section \<open>What routing guarantees\<close>

lemma effective_trust_high:
  "effectiveTrustLevel (getRuntimeAdapterSpec t) conformance = TrustHigh \<Longrightarrow> t = ''model_api'' \<or> t = ''ts_agent_host''"
  using spec_in_table [of t]
  by (auto simp: effectiveTrustLevel_def baselineTrust_def BUILTIN_RUNTIME_ADAPTER_SPECS_def
      split: option.splits if_splits)

lemma trust_high_top: "TrustHigh \<le> l \<longleftrightarrow> l = TrustHigh"
  by (cases l) (simp_all add: level_order)

lemma required_trust_ge: "trustRequiredForRisk (rq_risk_level request) \<le> required_trust request"
  by (simp add: required_trust_def split: option.splits)

lemma high_risk_candidate:
  assumes "admissible request (candidateFromRow to_number row)"
    and "rq_risk_level request = RouteHigh \<or> rq_risk_level request = RouteCritical"
  shows "cr_adapter_type row = ''model_api'' \<or> cr_adapter_type row = ''ts_agent_host''"
proof -
  have "TrustHigh \<le> required_trust request"
    using required_trust_ge [of request] assms(2) by auto
  also have "\<dots> \<le> rc_effective_trust_level (candidateFromRow to_number row)"
    using admissible_meets [OF assms(1)] by (simp add: meets_requirements_def)
  finally show ?thesis
    by (intro effective_trust_high) (simp add: trust_high_top candidateFromRow_def Let_def)
qed

lemma stamp_run_result:
  "stamp_run env r decision_id c db = (Inr x, db') \<Longrightarrow>
     rn_runtime_profile_id x = Some (rc_runtime_profile_id c) \<and> rn_adapter_type x = Some (rc_adapter_type c) \<and>
     rn_route_decision_id x = Some decision_id"
  by (auto simp: stamp_run_def transition_def sql_returning_def stamp_route_def Let_def split: list.splits)

lemma stamp_run_failure: "stamp_run env r decision_id c db = (Inl e, db') \<Longrightarrow> db' = db"
  by (auto simp: stamp_run_def transition_def Let_def split: list.splits)

definition routed :: "run \<Rightarrow> bool" where
  "routed r \<longleftrightarrow> rn_run_type r \<noteq> ''system'' \<and> rn_run_type r \<noteq> ''validation''"

definition route_of_attempt :: "run \<Rightarrow> run_db \<Rightarrow> route_row list \<Rightarrow> route_row option" where
  "route_of_attempt r db rows =
     List.find (\<lambda>d. rt_attempt_number d = currentAttemptNumber (rn_space_id r) (rn_id r) db)
       (routes_of (rn_space_id r) (rn_id r) rows)"

lemma routeRun_fresh:
  assumes "routed r" and "route_of_attempt r db rows = None" and "routeRun env r db rows = (Inr x, db', rows')"
  obtains s where
    "rd_selected (decide_route env r (currentAttemptNumber (rn_space_id r) (rn_id r) db) rows) = Some s"
    "rows' = rows @ [decision_row env r (currentAttemptNumber (rn_space_id r) (rn_id r) db)
       (decide_route env r (currentAttemptNumber (rn_space_id r) (rn_id r) db) rows)]"
    "rn_runtime_profile_id x = Some (rc_runtime_profile_id (sc_candidate s))"
    "rn_adapter_type x = Some (rc_adapter_type (sc_candidate s))"
  using assms
  by (auto simp: routed_def route_of_attempt_def routeRun_def Let_def dest: stamp_run_result
      split: option.splits prod.splits if_splits)

lemma decided_candidate:
  assumes "rd_selected (decide_route env r n rows) = Some s"
  obtains row excluded fallback where
    "sc_candidate s = candidateFromRow (re_to_number env) row" "row \<in> set (re_rows env)"
    "(excluded, fallback) = (if 1 < n then retryRouteContext (rn_space_id r) (rn_id r) n rows else ([], []))"
    "admissible (route_request_for r excluded fallback) (sc_candidate s)"
proof -
  obtain excluded fallback where c:
      "(if 1 < n then retryRouteContext (rn_space_id r) (rn_id r) n rows else ([], [])) = (excluded, fallback)"
    by fastforce
  from assms have "rd_selected (select_route (re_fl env) (re_collate env) (route_request_for r excluded fallback)
      (map (candidateFromRow (re_to_number env)) (re_rows env))) = Some s"
    by (simp only: decide_route_def c prod.case Let_def)
  from selected_admissible [OF this] show thesis using that c by auto
qed

lemma candidate_adapter [simp]: "rc_adapter_type (candidateFromRow to_number row) = cr_adapter_type row"
  by (simp add: candidateFromRow_def Let_def)

text \<open>
  A run whose contract declares a high or critical risk is only ever routed to one of the two
  managed model runtimes, never to a local command line: the trust such a run requires is out of reach
  for a command line, conformance passed or not.
\<close>

theorem high_risk_never_local_cli:
  assumes "routed r" and "route_of_attempt r db rows = None"
    and "riskLevel (get (contractRecord (rn_contract_snapshot_json r)) ''risk_level'') \<in> {RouteHigh, RouteCritical}"
    and "routeRun env r db rows = (Inr x, db', rows')"
  shows "rn_adapter_type x = Some ''model_api'' \<or> rn_adapter_type x = Some ''ts_agent_host''"
proof -
  from routeRun_fresh [OF assms(1,2,4)] obtain s where
    s: "rd_selected (decide_route env r (currentAttemptNumber (rn_space_id r) (rn_id r) db) rows) = Some s"
      "rn_adapter_type x = Some (rc_adapter_type (sc_candidate s))" by metis
  from decided_candidate [OF s(1)] obtain row excluded fallback where
    row: "sc_candidate s = candidateFromRow (re_to_number env) row"
      "admissible (route_request_for r excluded fallback) (sc_candidate s)" by metis
  then show ?thesis
    using high_risk_candidate [of "route_request_for r excluded fallback" "re_to_number env" row] assms(3) s(2)
    by (auto simp: route_request_for_def)
qed

lemma retry_context_sound:
  assumes "retryRouteContext space run n rows = (excluded, fallback)" and "fallback \<noteq> []" and "p \<in> set fallback"
  shows "excluded = attempted_profiles space run n rows \<and> p \<notin> set excluded \<and> p \<noteq> []"
  using assms
  by (auto simp: retryRouteContext_def Let_def chain_of_def trim_def trim_left_def split: option.splits if_splits)

lemma set_map_filter_eq: "set (List.map_filter f xs) = {y. \<exists>x \<in> set xs. f x = Some y}"
  by (force simp: List.map_filter_def)

lemma attempted_profiles_iff:
  "p \<in> set (attempted_profiles space run n rows) \<longleftrightarrow>
     p \<noteq> [] \<and> (\<exists>d \<in> set (routes_of space run rows). rt_attempt_number d < n \<and> rt_selected_runtime_profile_id d = Some p)"
  by (auto simp: attempted_profiles_def set_map_filter_eq)

text \<open>
  A retry takes a route that was not tried. While the chain of the previous decision holds a profile
  no earlier attempt of the run was given, the profile of the next attempt is one of those, and differs
  from the profile of every earlier attempt.
\<close>

theorem retry_takes_untried_profile:
  assumes "routed r" and "route_of_attempt r db rows = None"
    and "currentAttemptNumber (rn_space_id r) (rn_id r) db = Suc (Suc n)"
    and "retryRouteContext (rn_space_id r) (rn_id r) (Suc (Suc n)) rows = (excluded, p # ps)"
    and "routeRun env r db rows = (Inr x, db', rows')"
  shows "case rn_runtime_profile_id x of
      None \<Rightarrow> False
    | Some q \<Rightarrow> q \<in> set (p # ps) \<and>
        list_all (\<lambda>d. rt_selected_runtime_profile_id d \<noteq> Some q)
          (filter (\<lambda>d. rt_attempt_number d < Suc (Suc n)) (routes_of (rn_space_id r) (rn_id r) rows))"
proof -
  from routeRun_fresh [OF assms(1,2,5)] assms(3) obtain s where
    s: "rd_selected (decide_route env r (Suc (Suc n)) rows) = Some s"
      "rn_runtime_profile_id x = Some (rc_runtime_profile_id (sc_candidate s))" by metis
  from decided_candidate [OF s(1)] assms(4) have
    "admissible (route_request_for r excluded (p # ps)) (sc_candidate s)"
    by (metis (no_types) Pair_inject Suc_less_eq zero_less_Suc One_nat_def)
  then have q: "rc_runtime_profile_id (sc_candidate s) \<in> set (p # ps)"
      "rc_runtime_profile_id (sc_candidate s) \<notin> set excluded"
    by (simp_all add: admissible_iff route_request_for_def)
  with retry_context_sound [OF assms(4) _ q(1)] show ?thesis
    by (auto simp: s list_all_iff attempted_profiles_iff)
qed

text \<open>
  The decision of an attempt is final. Once it is recorded, routing the run again during the attempt,
  with whatever candidates and settings, records nothing, and either fails without an effect or stamps the
  recorded profile and decision on the run.
\<close>

theorem recorded_route_is_final:
  assumes "routed r" and "route_of_attempt r db rows = Some d"
  shows "case routeRun env r db rows of (result, db', rows') \<Rightarrow>
      rows' = rows \<and>
      (case result of
         Inl e \<Rightarrow> db' = db
       | Inr x \<Rightarrow> rt_is_selected d \<and> rn_runtime_profile_id x = rt_selected_runtime_profile_id d \<and>
           rn_route_decision_id x = Some (rt_id d))"
proof -
  let ?cs = "map (candidateFromRow (re_to_number env)) (re_rows env)"
  have run: "routeRun env r db rows =
      (if \<not> rt_is_selected d
       then (Inl (RouteNoCandidate ''The persisted route decision has no eligible candidate.''), db, rows)
       else case List.find (\<lambda>c. Some (rc_runtime_profile_id c) = rt_selected_runtime_profile_id d) ?cs of
              None \<Rightarrow> (Inl RouteSelectedProfileUnavailable, db, rows)
            | Some c \<Rightarrow> (let (result, db') = stamp_run env r (rt_id d) c db in (result, db', rows)))"
    using assms by (simp add: routed_def route_of_attempt_def routeRun_def)
  show ?thesis
  proof (cases "List.find (\<lambda>c. Some (rc_runtime_profile_id c) = rt_selected_runtime_profile_id d) ?cs")
    case None
    then show ?thesis by (simp add: run)
  next
    case (Some c)
    then have "Some (rc_runtime_profile_id c) = rt_selected_runtime_profile_id d"
      unfolding find_Some_iff by blast
    moreover obtain result db' where "stamp_run env r (rt_id d) c db = (result, db')" by fastforce
    ultimately show ?thesis
      using Some by (auto simp: run split: sum.splits dest: stamp_run_result stamp_run_failure)
  qed
qed

section \<open>Concrete runs\<close>

definition sample_row :: "string \<Rightarrow> string \<Rightarrow> candidate_row" where
  "sample_row i adapter =
     \<lparr>cr_runtime_profile_id = i, cr_profile_name = i, cr_adapter_type = adapter,
      cr_model_provider_id = Some ''openai'', cr_model_name = Some ''m'', cr_credential_profile_id = Some ''c'',
      cr_credential_profile_owner_id = Some ''u'', cr_provider_enabled = Some True,
      cr_provider_credential_id = Some ''k'', cr_provider_has_healthy_credential = True, cr_enabled = True,
      cr_is_default = False, cr_runtime_config_json = JObj [], cr_runtime_policy_json = JObj [],
      cr_capabilities_json = JArr [], cr_estimated_cost_usd = JNull, cr_estimated_latency_ms = JNull,
      cr_historical_verification_pass_rate = JNull, cr_conformance_status = Some ConformancePassed,
      cr_conformance_suite_version = None\<rparr>"

definition sample_env :: route_env where
  "sample_env = \<lparr>re_fl = id, re_collate = compare_text, re_to_number = (\<lambda>_. JNaN),
     re_rows = [sample_row ''p1'' ''model_api'', sample_row ''p2'' ''ts_agent_host'', sample_row ''p3'' ''claude_code''],
     re_decision_id = ''d1'', re_now = 5\<rparr>"

definition sample_agent_run :: "string \<Rightarrow> run" where
  "sample_agent_run risk =
     \<lparr>rn_id = ''r'', rn_space_id = ''s'', rn_agent_id = ''a'', rn_run_role = Execution, rn_run_type = ''agent'',
      rn_trigger_origin = ''manual'', rn_status = RunRunning, rn_mode = ''live'', rn_prompt = None,
      rn_workspace_id = None, rn_root_run_id = None, rn_run_group_id = None, rn_owner_user_id = Some ''u'',
      rn_instructed_by_user_id = Some ''u'', rn_contract_snapshot_json = JObj [(''risk_level'', JStr risk)],
      rn_permission_snapshot_json = None, rn_capabilities_json = JArr [],
      rn_requested_runtime_profile_id = None, rn_runtime_profile_selection_source = None,
      rn_route_decision_id = None, rn_runtime_profile_id = None, rn_adapter_type = None,
      rn_model_provider_id = None, rn_model_override_json = JNull, rn_runtime_profile_snapshot_json = JNull,
      rn_required_sandbox_level = ''none'', rn_output_json = None, rn_error_json = None,
      rn_error_message = None, rn_exit_code = None, rn_started_at = None, rn_ended_at = None, rn_updated_at = 0\<rparr>"

definition sample_db :: "string \<Rightarrow> nat list \<Rightarrow> run_db" where
  "sample_db risk ns = \<lparr>db_runs = [sample_agent_run risk],
     db_attempts = map (\<lambda>n. new_attempt (replicate n (CHR ''x'')) ''s'' ''r'' n RunRunning 0) ns\<rparr>"

definition first_routes :: "route_row list" where
  "first_routes = snd (snd (routeRun sample_env (sample_agent_run ''high'') (sample_db ''high'' [1]) []))"

lemma high_risk_never_local_cli_witness:
  "case fst (routeRun sample_env (sample_agent_run ''high'') (sample_db ''high'' [1]) []) of
     Inl e \<Rightarrow> False
   | Inr x \<Rightarrow> rn_adapter_type x = Some ''model_api'' \<or> rn_adapter_type x = Some ''ts_agent_host''"
proof -
  let ?run = "routeRun sample_env (sample_agent_run ''high'') (sample_db ''high'' [1]) []"
  have ok: "case fst ?run of Inl e \<Rightarrow> False | Inr x \<Rightarrow> True" by code_simp
  then obtain x db' rows' where "?run = (Inr x, db', rows')"
    by (cases ?run) (auto split: sum.splits)
  moreover have "routed (sample_agent_run ''high'')" by code_simp
  moreover have "route_of_attempt (sample_agent_run ''high'') (sample_db ''high'' [1]) [] = None" by code_simp
  moreover have "riskLevel (get (contractRecord (rn_contract_snapshot_json (sample_agent_run ''high''))) ''risk_level'') =
      RouteHigh" by code_simp
  ultimately show ?thesis
    using high_risk_never_local_cli [of "sample_agent_run ''high''" "sample_db ''high'' [1]" "[]" sample_env] by simp
qed

lemma retry_takes_untried_profile_witness:
  "case fst (routeRun sample_env (sample_agent_run ''high'') (sample_db ''high'' [1, 2]) first_routes) of
     Inl e \<Rightarrow> False | Inr x \<Rightarrow> rn_runtime_profile_id x = Some ''p2''"
proof -
  let ?run = "routeRun sample_env (sample_agent_run ''high'') (sample_db ''high'' [1, 2]) first_routes"
  have ok: "case fst ?run of Inl e \<Rightarrow> False | Inr x \<Rightarrow> True" by code_simp
  then obtain x db' rows' where run: "?run = (Inr x, db', rows')"
    by (cases ?run) (auto split: sum.splits)
  have 1: "routed (sample_agent_run ''high'')" by code_simp
  have 2: "route_of_attempt (sample_agent_run ''high'') (sample_db ''high'' [1, 2]) first_routes = None"
    by code_simp
  have 3: "currentAttemptNumber (rn_space_id (sample_agent_run ''high'')) (rn_id (sample_agent_run ''high''))
      (sample_db ''high'' [1, 2]) = Suc (Suc 0)" by code_simp
  have 4: "retryRouteContext (rn_space_id (sample_agent_run ''high'')) (rn_id (sample_agent_run ''high''))
      (Suc (Suc 0)) first_routes = ([''p1''], [''p2''])" by code_simp
  from retry_takes_untried_profile [OF 1 2 3 4 run] show ?thesis
    unfolding run by (simp split: option.splits)
qed

lemma recorded_route_is_final_witness:
  "snd (snd (routeRun sample_env (sample_agent_run ''high'') (sample_db ''high'' [1]) first_routes)) = first_routes"
proof -
  have "routed (sample_agent_run ''high'')" by code_simp
  moreover have "case route_of_attempt (sample_agent_run ''high'') (sample_db ''high'' [1]) first_routes of
      None \<Rightarrow> False | Some d \<Rightarrow> True" by code_simp
  ultimately show ?thesis
    using recorded_route_is_final [of "sample_agent_run ''high''" "sample_db ''high'' [1]" first_routes _ sample_env]
    by (auto split: option.splits)
qed

end
