(* ===== verification/PolicyTypes.thy ===== *)
theory PolicyTypes
  imports JsValue
begin

text \<open>
  The value types of the policy module: decisions and risk levels (\<open>policy/decisions.ts\<close>), the wire
  schemas of \<open>packages/protocol/src/policy.ts\<close> (action definitions, check requests, audit
  envelopes), and the facts about server-managed executions (\<open>policy/managedExecutionPolicy.ts\<close>).
  A nullish string field is a \<open>string option\<close>; a decision field that the code fills by an unchecked
  cast from the untyped context keeps the type \<^typ>\<open>jsval\<close>.
\<close>

section \<open>Enumerations\<close>

datatype decision_value = Allow | Deny | RequireApproval

datatype risk_level = Low | Medium | High | Critical

datatype lifecycle = WiredDirect | WiredViaProposal | Reserved

datatype failure_mode = BestEffort | FailClosed

fun decision_text :: "decision_value \<Rightarrow> string" where
  "decision_text Allow = ''allow''"
| "decision_text Deny = ''deny''"
| "decision_text RequireApproval = ''require_approval''"

fun risk_text :: "risk_level \<Rightarrow> string" where
  "risk_text Low = ''low''"
| "risk_text Medium = ''medium''"
| "risk_text High = ''high''"
| "risk_text Critical = ''critical''"

fun risk_rank :: "risk_level \<Rightarrow> nat" where
  "risk_rank Low = 0"
| "risk_rank Medium = 1"
| "risk_rank High = 2"
| "risk_rank Critical = 3"

text \<open>\<open>VALID_RISK_LEVELS.has(raw)\<close> followed by the cast \<open>raw as RiskLevel\<close>.\<close>

definition parse_risk :: "string \<Rightarrow> risk_level option" where
  "parse_risk s =
     (if s = ''low'' then Some Low
      else if s = ''medium'' then Some Medium
      else if s = ''high'' then Some High
      else if s = ''critical'' then Some Critical
      else None)"

lemma parse_risk_text [simp]: "parse_risk (risk_text r) = Some r"
  by (cases r) (simp_all add: parse_risk_def)

lemma parse_risk_SomeD: "parse_risk s = Some r \<Longrightarrow> s = risk_text r"
  by (auto simp: parse_risk_def split: if_splits)

lemma risk_rank_inj: "risk_rank r = risk_rank s \<Longrightarrow> r = s"
  by (cases r; cases s) simp_all

text \<open>The rank makes the risk levels a linear order, which the approval matrix compares in.\<close>

instantiation risk_level :: linorder
begin

definition less_eq_risk_level :: "risk_level \<Rightarrow> risk_level \<Rightarrow> bool" where
  "less_eq_risk_level r s \<longleftrightarrow> risk_rank r \<le> risk_rank s"

definition less_risk_level :: "risk_level \<Rightarrow> risk_level \<Rightarrow> bool" where
  "less_risk_level r s \<longleftrightarrow> risk_rank r < risk_rank s"

instance
  by standard (auto simp: less_eq_risk_level_def less_risk_level_def intro: risk_rank_inj)

end

lemma risk_order_simps [simp]:
  "Low \<le> r" "r \<le> Critical" "\<not> Medium \<le> Low" "\<not> High \<le> Low" "\<not> Critical \<le> Low"
  "Medium \<le> High" "\<not> High \<le> Medium" "\<not> Critical \<le> Medium" "\<not> Critical \<le> High"
  by (cases r; simp add: less_eq_risk_level_def)+

section \<open>Decisions\<close>

record policy_decision =
  pd_decision :: decision_value
  pd_message :: string
  pd_risk_level :: risk_level
  pd_reason_code :: "string option"
  pd_required_approver_role :: "string option"
  pd_policy_rule_id :: "string option"
  pd_policy_source :: string
  pd_policy_id :: "string option"
  pd_actor_type :: "string option"
  pd_actor_id :: jsval
  pd_actor_ref :: "jsobj option"
  pd_space_id :: jsval
  pd_action :: jsval
  pd_resource_type :: jsval
  pd_resource_id :: "string option"
  pd_audit_code :: "string option"
  pd_approval_capability :: "string option"
  pd_proposal_type :: "string option"
  pd_metadata_json :: "jsobj option"
  pd_created_at :: "string option"

text \<open>\<open>makeDecision\<close> with its defaults; the fields a call sets are record updates of it.\<close>

definition makeDecision :: "decision_value \<Rightarrow> string \<Rightarrow> policy_decision" where
  "makeDecision d msg =
     \<lparr>pd_decision = d, pd_message = msg, pd_risk_level = Low, pd_reason_code = None,
      pd_required_approver_role = None, pd_policy_rule_id = None, pd_policy_source = ''builtin'',
      pd_policy_id = None, pd_actor_type = None, pd_actor_id = JUndef, pd_actor_ref = None,
      pd_space_id = JUndef, pd_action = JUndef, pd_resource_type = JUndef, pd_resource_id = None,
      pd_audit_code = None, pd_approval_capability = None, pd_proposal_type = None,
      pd_metadata_json = None, pd_created_at = None\<rparr>"

lemma makeDecision_simps [simp, decision_simps]:
  "pd_decision (makeDecision d m) = d"
  "pd_message (makeDecision d m) = m"
  "pd_risk_level (makeDecision d m) = Low"
  "pd_required_approver_role (makeDecision d m) = None"
  "pd_policy_source (makeDecision d m) = ''builtin''"
  "pd_actor_id (makeDecision d m) = JUndef"
  "pd_space_id (makeDecision d m) = JUndef"
  "pd_action (makeDecision d m) = JUndef"
  by (simp_all add: makeDecision_def)

definition isAllowed :: "policy_decision \<Rightarrow> bool" where
  "isAllowed d \<longleftrightarrow> pd_decision d = Allow"

definition isDenied :: "policy_decision \<Rightarrow> bool" where
  "isDenied d \<longleftrightarrow> pd_decision d = Deny"

definition requiresApproval :: "policy_decision \<Rightarrow> bool" where
  "requiresApproval d \<longleftrightarrow> pd_decision d = RequireApproval"

text \<open>\<open>pyRepr\<close>: the quoting of policy messages.\<close>

definition pyRepr :: "string \<Rightarrow> string" where
  "pyRepr v =
     (let quote = (if CHR 0x27 \<in> set v \<and> CHR 0x22 \<notin> set v then CHR 0x22 else CHR 0x27);
          escaped = concat (map (\<lambda>c. if c = CHR 0x5C then [CHR 0x5C, CHR 0x5C] else [c]) v);
          body = join [CHR 0x5C, quote] (split_on quote escaped)
      in quote # body @ [quote])"

section \<open>Wire shapes\<close>

text \<open>
  The definition's \<open>description\<close> is left out: the source keeps it out of the enforcement contract
  ("human documentation, not a decision input").
\<close>

record action_definition =
  ad_action :: string
  ad_resource_type :: string
  ad_default_risk_level :: risk_level
  ad_default_decision :: decision_value
  ad_audit_required :: bool
  ad_approval_capability :: "string option"
  ad_default_required_approver_role :: "string option"
  ad_current_enforcement_point :: string
  ad_lifecycle_status :: lifecycle
  ad_record_failure_mode :: failure_mode

record check_request =
  rq_action :: string
  rq_actor_type :: "string option"
  rq_actor_id :: "string option"
  rq_actor_ref :: "jsobj option"
  rq_space_id :: "string option"
  rq_resource_type :: "string option"
  rq_resource_id :: "string option"
  rq_resource_space_id :: "string option"
  rq_run_id :: "string option"
  rq_proposal_id :: "string option"
  rq_context :: "jsobj option"
  rq_payload :: "jsobj option"
  rq_metadata_json :: "jsobj option"
  rq_force_record :: bool

record audit_envelope =
  ae_space_id :: jsval
  ae_actor_type :: "string option"
  ae_actor_id :: jsval
  ae_actor_ref_json :: "jsobj option"
  ae_action :: string
  ae_resource_type :: jsval
  ae_resource_id :: "string option"
  ae_decision :: decision_value
  ae_risk_level :: risk_level
  ae_required_approver_role :: "string option"
  ae_approval_capability :: "string option"
  ae_policy_rule_id :: "string option"
  ae_policy_source :: "string option"
  ae_policy_id :: "string option"
  ae_audit_code :: "string option"
  ae_run_id :: "string option"
  ae_proposal_id :: "string option"
  ae_metadata_json :: "jsobj option"
  ae_created_at :: string

section \<open>Server-managed executions\<close>

datatype managed_kind = SourcePostProcessing | ProjectResearch

fun managed_kind_text :: "managed_kind \<Rightarrow> string" where
  "managed_kind_text SourcePostProcessing = ''source_post_processing''"
| "managed_kind_text ProjectResearch = ''project_research''"

record managed_policy =
  mp_managed_execution :: managed_kind
  mp_credential_pre_authorized :: bool

text \<open>The field \<open>failure_policy\<close> has the single value \<open>fail_fast\<close>, so the record omits it.\<close>

definition createManagedExecutionPolicy :: "managed_kind \<Rightarrow> bool \<Rightarrow> managed_policy" where
  "createManagedExecutionPolicy k pre =
     \<lparr>mp_managed_execution = k, mp_credential_pre_authorized = pre\<rparr>"

definition isManagedExecutionKind :: "jsval \<Rightarrow> managed_kind option" where
  "isManagedExecutionKind v =
     (if v = JStr ''source_post_processing'' then Some SourcePostProcessing
      else if v = JStr ''project_research'' then Some ProjectResearch
      else None)"

definition readManagedExecutionPolicy :: "jsval \<Rightarrow> managed_policy option" where
  "readManagedExecutionPolicy value =
     (case asRecord value of
        None \<Rightarrow> None
      | Some ob \<Rightarrow>
          (case isManagedExecutionKind (get ob ''managed_execution'') of
             None \<Rightarrow> None
           | Some k \<Rightarrow>
               if get ob ''failure_policy'' \<noteq> JStr ''fail_fast'' then None
               else Some \<lparr>mp_managed_execution = k,
                          mp_credential_pre_authorized =
                            (get ob ''credential_pre_authorized'' = JBool True)\<rparr>))"

definition managedExecutionPolicyFromContract :: "jsval \<Rightarrow> managed_policy option" where
  "managedExecutionPolicyFromContract snapshot =
     (case asRecord snapshot of
        None \<Rightarrow> None
      | Some ob \<Rightarrow> readManagedExecutionPolicy (get ob ''policy_context_json''))"

definition origin_matches_kind :: "string \<Rightarrow> managed_kind \<Rightarrow> bool" where
  "origin_matches_kind origin k \<longleftrightarrow>
     origin = ''job'' \<and> k = SourcePostProcessing \<or> origin = ''system'' \<and> k = ProjectResearch"

definition allowsManagedCredentialUse :: "string \<Rightarrow> jsval \<Rightarrow> bool" where
  "allowsManagedCredentialUse triggerOrigin context =
     (case readManagedExecutionPolicy context of
        None \<Rightarrow> False
      | Some p \<Rightarrow> mp_credential_pre_authorized p
                 \<and> origin_matches_kind triggerOrigin (mp_managed_execution p))"

definition isManagedFailFastRun :: "string \<Rightarrow> jsval \<Rightarrow> bool" where
  "isManagedFailFastRun triggerOrigin snapshot =
     (case managedExecutionPolicyFromContract snapshot of
        None \<Rightarrow> False
      | Some p \<Rightarrow> origin_matches_kind triggerOrigin (mp_managed_execution p))"

definition credentialPolicyMetadata :: "managed_policy option \<Rightarrow> jsobj" where
  "credentialPolicyMetadata context =
     (case context of
        None \<Rightarrow> []
      | Some p \<Rightarrow>
          [(''managed_execution'', JStr (managed_kind_text (mp_managed_execution p))),
           (''credential_pre_authorized'', JBool (mp_credential_pre_authorized p)),
           (''failure_policy'', JStr ''fail_fast'')])"

text \<open>The metadata a run creator records is read back unchanged.\<close>

lemma read_credentialPolicyMetadata:
  "readManagedExecutionPolicy (JObj (credentialPolicyMetadata (Some p))) = Some p"
  by (cases "mp_managed_execution p")
    (simp_all add: readManagedExecutionPolicy_def credentialPolicyMetadata_def
      isManagedExecutionKind_def)

end
