(* ===== verification/RunSupervisor.thy ===== *)
theory RunSupervisor
  imports RunLifecycle RouteRuns JobQueue PolicyTypes
begin

text \<open>
  The supervisor of failed runs, \<open>runs/supervisor.ts\<close>: whether a failed attempt is retried on the same
  or on a fallback route, held for a human, or stopped by the budget. It composes the run tables, the
  route decisions and the job queue, in one transaction.
\<close>

section \<open>State\<close>

datatype supervisor_choice = RetrySameRoute | RetryFallbackRoute | HumanReview | BudgetExceeded

record supervisor_decision =
  sd_decision :: supervisor_choice
  sd_reason_code :: string
  sd_attempt_number :: nat
  sd_total_cost :: "rat option"
  sd_max_cost :: "rat option"

text \<open>A row of \<open>run_supervisor_decisions\<close>.\<close>

record supervisor_row =
  sr_id :: string
  sr_space_id :: string
  sr_run_id :: string
  sr_attempt_id :: string
  sr_decision :: supervisor_choice
  sr_reason_code :: string
  sr_next_attempt_number :: "nat option"
  sr_total_cost :: "rat option"
  sr_max_cost :: "rat option"
  sr_metadata_json :: jsval
  sr_created_at :: int

record run_state =
  st_db :: run_db
  st_routes :: "route_row list"
  st_decisions :: "supervisor_row list"
  st_queue :: queue

record evaluation =
  ev_failure_reason_code :: "string option"
  ev_outcome_status :: string

text \<open>What the environment answers: the cost of the run, numeric texts, the clock and fresh ids.\<close>

record supervisor_env =
  se_patterns :: patterns
  se_cost :: jsval
  se_to_number :: "string \<Rightarrow> jsval"
  se_now :: int
  se_first_attempt_id :: string
  se_decision_id :: string
  se_attempt_id :: string
  se_job_id :: string

section \<open>The decision\<close>

definition DEFAULT_MAX_RUN_ATTEMPTS :: nat where
  "DEFAULT_MAX_RUN_ATTEMPTS = 2"

definition RETRYABLE_ERROR_CODES :: "string list" where
  "RETRYABLE_ERROR_CODES =
     [''adapter_timeout'', ''cli_adapter_timeout'', ''cli_stall_timeout'', ''adapter_runtime_error'',
      ''cli_runtime_provider_config_failed'', ''runtime_tool_version_unavailable'',
      ''provider_network_error'', ''provider_rate_limit'', ''orphaned'']"

definition attemptStatusForRun :: "run_status \<Rightarrow> run_status" where
  "attemptStatusForRun s = (if s = RunOrphaned then RunOrphaned else if s = RunDegraded then RunDegraded else RunFailed)"

definition maxAttemptsForRun :: "run \<Rightarrow> nat" where
  "maxAttemptsForRun r =
     (case num (get (contractRecord (rn_contract_snapshot_json r)) ''max_attempts'') of
        None \<Rightarrow> DEFAULT_MAX_RUN_ATTEMPTS
      | Some q \<Rightarrow> nat (max 1 (min 10 \<lfloor>q\<rfloor>)))"

definition maxCostForRun :: "run \<Rightarrow> rat option" where
  "maxCostForRun r =
     (case num (get (contractRecord (rn_contract_snapshot_json r)) ''max_cost'') of
        None \<Rightarrow> None | Some q \<Rightarrow> if 0 \<le> q then Some q else None)"

definition errorCodeFromRun :: "run \<Rightarrow> string option" where
  "errorCodeFromRun r = (case rn_error_json r of
     Some (JObj ob) \<Rightarrow> (case get ob ''error_code'' of JStr s \<Rightarrow> if s = [] then None else Some s | _ \<Rightarrow> None)
   | _ \<Rightarrow> None)"

definition costOrNull :: "(string \<Rightarrow> jsval) \<Rightarrow> jsval \<Rightarrow> rat option" where
  "costOrNull to_number v = (case v of
     JNum q \<Rightarrow> Some q
   | JStr s \<Rightarrow> if trim s \<noteq> [] then num (to_number s) else None
   | _ \<Rightarrow> None)"

definition supervisor_user :: "run \<Rightarrow> string option" where
  "supervisor_user r = or_else (rn_owner_user_id r) (rn_instructed_by_user_id r)"

definition reason_code_of :: "run \<Rightarrow> evaluation \<Rightarrow> string" where
  "reason_code_of r e = or_value (or_else (ev_failure_reason_code e) (errorCodeFromRun r)) ''run_failed''"

definition budget_exceeded :: "rat option \<Rightarrow> rat option \<Rightarrow> bool" where
  "budget_exceeded spent cap = (case (spent, cap) of (Some t, Some c) \<Rightarrow> c \<le> t | _ \<Rightarrow> False)"

definition decide_supervision ::
    "supervisor_env \<Rightarrow> run \<Rightarrow> evaluation \<Rightarrow> nat \<Rightarrow> route_row list \<Rightarrow> supervisor_decision" where
  "decide_supervision env r e n routes =
     (let spent = costOrNull (se_to_number env) (se_cost env);
          cap = maxCostForRun r;
          reason = reason_code_of r e;
          exceeded = budget_exceeded spent cap;
          retryable = reason \<in> set RETRYABLE_ERROR_CODES;
          canRetry = (retryable \<and> \<not> exceeded \<and> n < maxAttemptsForRun r);
          fallback = (if canRetry then hasFallbackRoute (rn_space_id r) (rn_id r) routes else False);
          user = non_empty (supervisor_user r)
      in \<lparr>sd_decision =
            (if exceeded then BudgetExceeded
             else if canRetry \<and> user then (if fallback then RetryFallbackRoute else RetrySameRoute)
             else HumanReview),
          sd_reason_code =
            (if exceeded then ''run_budget_exceeded''
             else if canRetry \<and> user then reason
             else if \<not> retryable then reason
             else if \<not> user then ''retry_identity_unavailable''
             else ''retry_attempt_cap_reached''),
          sd_attempt_number = n, sd_total_cost = spent, sd_max_cost = cap\<rparr>)"

section \<open>Supervising a run\<close>

definition is_retry :: "supervisor_choice \<Rightarrow> bool" where
  "is_retry d \<longleftrightarrow> d = RetrySameRoute \<or> d = RetryFallbackRoute"

text \<open>\<open>ensureAttempt\<close>: the latest attempt; a run without one gets attempt 1.\<close>

definition ensureAttempt :: "supervisor_env \<Rightarrow> run \<Rightarrow> run_db \<Rightarrow> run_attempt option \<times> run_db" where
  "ensureAttempt env r db =
     (case getLatestRunAttempt (rn_space_id r) (rn_id r) db of
        Some a \<Rightarrow> (Some a, db)
      | None \<Rightarrow>
          let now = (case rn_ended_at r of Some t \<Rightarrow> t | None \<Rightarrow> rn_updated_at r);
              time = or_value (rn_started_at r) now;
              db' = db\<lparr>db_attempts := insert_attempt
                ((new_attempt (se_first_attempt_id env) (rn_space_id r) (rn_id r) 1
                    (attemptStatusForRun (rn_status r)) time)
                   \<lparr>at_started_at := Some time, at_ended_at := Some time, at_last_activity_at := Some time\<rparr>)
                (db_attempts db)\<rparr>
          in (getLatestRunAttempt (rn_space_id r) (rn_id r) db', db'))"

definition supervisor_metadata :: "run \<Rightarrow> evaluation \<Rightarrow> supervisor_decision \<Rightarrow> jsval" where
  "supervisor_metadata r e d = JObj
     [(''max_attempts'', JNum (of_nat (maxAttemptsForRun r))),
      (''reroute'', JBool (sd_decision d = RetryFallbackRoute)),
      (''retryable'', JBool (reason_code_of r e \<in> set RETRYABLE_ERROR_CODES)),
      (''source_status'', JStr (run_status_text (rn_status r))),
      (''outcome_status'', JStr (ev_outcome_status e))]"

definition supervisor_row_of ::
    "supervisor_env \<Rightarrow> run \<Rightarrow> evaluation \<Rightarrow> run_attempt \<Rightarrow> supervisor_decision \<Rightarrow> supervisor_row" where
  "supervisor_row_of env r e a d =
     \<lparr>sr_id = se_decision_id env, sr_space_id = rn_space_id r, sr_run_id = rn_id r, sr_attempt_id = at_id a,
      sr_decision = sd_decision d, sr_reason_code = sd_reason_code d,
      sr_next_attempt_number = (if is_retry (sd_decision d) then Some (at_number a + 1) else None),
      sr_total_cost = sd_total_cost d, sr_max_cost = sd_max_cost d,
      sr_metadata_json = supervisor_metadata r e d, sr_created_at = se_now env\<rparr>"

definition retry_job :: "run \<Rightarrow> nat \<Rightarrow> enqueue_input" where
  "retry_job r n =
     \<lparr>ei_job_type = ''agent_run'',
      ei_payload = JObj [(''run_id'', JStr (rn_id r)), (''supervisor_attempt'', JNum (of_nat n))],
      ei_space_id = rn_space_id r, ei_user_id = supervisor_user r, ei_workspace_id = rn_workspace_id r,
      ei_agent_id = Some (rn_agent_id r), ei_priority = None, ei_max_attempts = Some 1, ei_scheduled_at = None\<rparr>"

definition review_message :: "supervisor_decision \<Rightarrow> string" where
  "review_message d =
     (if sd_decision d = BudgetExceeded
      then ''Run cost cap was reached before another physical attempt could start.''
      else ''Supervisor requires human review after attempt '' @ dec_of_nat (sd_attempt_number d) @ '': '' @
           sd_reason_code d @ ''.'')"

datatype supervise_error = RequeueFailed | AttemptNotCreated

text \<open>
  The transaction: an error rolls every statement back. The emitted signal is outside the model; its
  failure is contained by a savepoint.
\<close>

definition supervise_tx ::
    "supervisor_env \<Rightarrow> run \<Rightarrow> evaluation \<Rightarrow> run_state \<Rightarrow>
     (supervise_error + supervisor_decision option) \<times> run_state" where
  "supervise_tx env r e st =
     (case ensureAttempt env r (st_db st) of
        (None, _) \<Rightarrow> (Inl AttemptNotCreated, st)
      | (Some a, db) \<Rightarrow>
          if list_ex (\<lambda>d. sr_space_id d = rn_space_id r \<and> sr_attempt_id d = at_id a) (st_decisions st)
          then (Inr None, st\<lparr>st_db := db\<rparr>)
          else
            let d = decide_supervision env r e (at_number a) (st_routes st);
                st1 = st\<lparr>st_db := db, st_decisions := st_decisions st @ [supervisor_row_of env r e a d]\<rparr>
            in if is_retry (sd_decision d) then
                 (case requeueRunForRetry (rn_space_id r) (rn_id r) (se_now env) (sd_reason_code d)
                         (at_number a + 1) (se_attempt_id env) db of
                    (None, _) \<Rightarrow> (Inl RequeueFailed, st)
                  | (Some _, db') \<Rightarrow>
                      (Inr (Some d), st1\<lparr>st_db := db',
                         st_queue := enqueue (se_patterns env) (se_job_id env) (retry_job r (at_number a + 1))
                                       (se_now env) (st_queue st)\<rparr>))
               else (Inr (Some d), st1\<lparr>st_db := snd (holdRunForSupervisorReview (se_patterns env) (rn_space_id r)
                       (rn_id r) (sd_reason_code d) (review_message d) (se_now env) db)\<rparr>))"

definition supervise ::
    "supervisor_env \<Rightarrow> run \<Rightarrow> evaluation \<Rightarrow> run_state \<Rightarrow>
     (supervise_error + supervisor_decision option) \<times> run_state" where
  "supervise env r e st =
     (if rn_run_role r = Coordinator \<or> \<not> supervisable (rn_status r) \<or>
         isManagedFailFastRun (rn_trigger_origin r) (rn_contract_snapshot_json r)
      then (Inr None, st)
      else supervise_tx env r e st)"

end
