(* ===== verification/RunHistory.thy ===== *)
theory RunHistory
  imports RunWriters RunSupervisor
begin

text \<open>
  The histories of the run tables: a step relation over every operation of \<open>runs/repository.ts\<close>, the
  router, the supervisor, the statements of the job queue that end runs, the starts of coordinators, the runs of daily
  reports and the statements on other columns, which are all the writers of the table in the program; the invariant of
  the tables; and what follows for each run.
\<close>

section \<open>Steps\<close>

text \<open>
  The job queue ends the runs of cancelled and abandoned jobs: the statement of \<open>jobs/repository.ts\<close>,
  which \<open>end_runs\<close> states on the queue's own view of the table.
\<close>

definition queue_may_end :: "run_status \<Rightarrow> bool" where
  "queue_may_end s \<longleftrightarrow> \<not> ended s \<and> s \<noteq> RunWaitingForReview"

definition error_object :: "string \<Rightarrow> string \<Rightarrow> jsval" where
  "error_object code text = JObj [(''error_code'', JStr code), (''error_text'', JStr text)]"

definition queue_end_runs :: "string set \<Rightarrow> run_status \<Rightarrow> string \<Rightarrow> string \<Rightarrow> int \<Rightarrow> run_db \<Rightarrow> run_db" where
  "queue_end_runs ids status message code now db =
     db\<lparr>db_runs := sql_update (\<lambda>r. rn_id r \<in> ids \<and> queue_may_end (rn_status r))
          (\<lambda>r. r\<lparr>rn_status := status, rn_ended_at := Some now, rn_updated_at := now,
                 rn_error_message := Some message, rn_error_json := Some (error_object code message)\<rparr>)
          (db_runs db)\<rparr>"

definition attempt_id_fresh :: "string \<Rightarrow> run_db \<Rightarrow> bool" where
  "attempt_id_fresh i db \<longleftrightarrow> i \<notin> at_id ` set (db_attempts db)"

inductive db_step :: "run_db \<Rightarrow> run_db \<Rightarrow> bool" where
  create: "\<not> list_ex (\<lambda>r. rn_id r = ce_run_id env) (db_runs db) \<Longrightarrow>
     attempts_of (rci_space_id i) (ce_run_id env) (db_attempts db) = [] \<Longrightarrow> attempt_id_fresh (ce_attempt_id env) db \<Longrightarrow>
     db_step db (snd (createQueuedRunInternal refs env i links db))"
| running: "attempt_id_fresh new_id db \<Longrightarrow> db_step db (snd (markRunRunning space i now level new_id db))"
| sandbox: "db_step db (updateRunSandboxLevel space i level2 now db)"
| terminal: "ended (tu_status u) \<Longrightarrow> db_step db (snd (markRunTerminal patterns u db))"
| degraded: "db_step db (snd (markRunDegraded patterns space i now code message diagnostics db))"
| stale: "db_step db (snd (recoverStaleRuns patterns seconds now db))"
| cancelling: "db_step db (snd (markRunCancelling patterns space i now reason user db))"
| review: "db_step db (snd (markRunWaitingForReview patterns space i code message now db))"
| dependency: "db_step db (snd (markRunWaitingForDependency patterns space i output now db))"
| dependency_done: "db_step db (snd (requeueWaitingDependencyRun patterns space i prompt at_text now db))"
| approved: "db_step db (snd (grantRunApprovalAndRequeue space i granting_user at_text now db))"
| resumed: "attempt_id_fresh new_id db \<Longrightarrow>
     db_step db (snd (resumeRunAfterSupervisorReview space i granting_user at_text now new_id db))"
| system_run: "\<not> list_ex (\<lambda>r. rn_id r = ce_run_id env) (db_runs db) \<Longrightarrow>
     attempts_of (rci_space_id i) (ce_run_id env) (db_attempts db) = [] \<Longrightarrow> attempt_id_fresh (ce_attempt_id env) db \<Longrightarrow>
     db_step db (snd (createRunningSystemRun refs env i db))"
| coordinator: "\<not> list_ex (\<lambda>r. rn_id r = ce_run_id env) (db_runs db) \<Longrightarrow>
     db_step db (snd (startCoordinator refs env i now db))"
| report: "\<not> list_ex (\<lambda>r. rn_id r = i) (db_runs db) \<Longrightarrow>
     db_step db (report_started i space agent user trigger_origin prompt now db)"
| report_succeeded: "list_all (\<lambda>r. rn_id r = i \<longrightarrow> report_run r) (db_runs db) \<Longrightarrow> db_step db (report_succeeded i now db)"
| report_failed: "list_all (\<lambda>r. rn_id r = i \<longrightarrow> report_run r) (db_runs db) \<Longrightarrow> db_step db (report_failed i message now db)"
| prompt: "db_step db (updateRunPrompt space i text now db)"
| touch: "db_step db (touch_run space i now db)"
| by_queue: "status = RunCancelled \<or> status = RunFailed \<Longrightarrow> db_step db (queue_end_runs ids status message code now db)"

text \<open>
  The daily report service ends the run it has inserted itself, by its id: a run of a report. What a caller holds of a
  run when it calls the supervisor is an earlier read of its row.
\<close>

definition run_core :: "run \<Rightarrow> string \<times> string \<times> run_role \<times> string \<times> jsval \<times> string option \<times> string option" where
  "run_core r = (rn_space_id r, rn_id r, rn_run_role r, rn_trigger_origin r, rn_contract_snapshot_json r,
     rn_owner_user_id r, rn_instructed_by_user_id r)"

inductive run_step :: "run_state \<Rightarrow> run_state \<Rightarrow> bool" where
  db: "db_step (st_db st) db \<Longrightarrow> run_step st (st\<lparr>st_db := db\<rparr>)"
| route: "routeRun env r (st_db st) (st_routes st) = (result, db, routes) \<Longrightarrow>
     run_step st (st\<lparr>st_db := db, st_routes := routes\<rparr>)"
| supervise: "run_core r \<in> run_core ` set (db_runs (st_db st)) \<Longrightarrow>
     attempt_id_fresh (se_first_attempt_id senv) (st_db st) \<Longrightarrow> attempt_id_fresh (se_attempt_id senv) (st_db st) \<Longrightarrow>
     se_attempt_id senv \<noteq> se_first_attempt_id senv \<Longrightarrow>
     run_step st (snd (supervise senv r e st))"
| jobs: "run_step st (st\<lparr>st_queue := q\<rparr>)"

definition empty_state :: run_state where
  "empty_state = \<lparr>st_db = \<lparr>db_runs = [], db_attempts = []\<rparr>, st_routes = [], st_decisions = [],
     st_queue = empty_queue [] []\<rparr>"

abbreviation run_steps :: "run_state \<Rightarrow> run_state \<Rightarrow> bool" where
  "run_steps \<equiv> run_step\<^sup>*\<^sup>*"

section \<open>The status of a run\<close>

definition edge :: "run_status \<Rightarrow> run_status \<Rightarrow> bool" where
  "edge s s' \<longleftrightarrow>
     s' = s \<or>
     \<not> ended s \<and> ended s' \<or>
     \<not> ended s \<and> s' = RunCancelling \<or>
     s = RunQueued \<and> s' = RunRunning \<or>
     s = RunRunning \<and> s' \<in> {RunWaitingForReview, RunWaitingForDependency} \<or>
     s \<in> {RunWaitingForReview, RunWaitingForDependency} \<and> s' = RunQueued \<or>
     s = RunSucceeded \<and> s' = RunDegraded \<or>
     supervisable s \<and> s' \<in> {RunQueued, RunWaitingForReview}"

text \<open>The run of a daily report may be ended from any status, also from an end.\<close>

definition report_end :: "run \<Rightarrow> run \<Rightarrow> bool" where
  "report_end r r' \<longleftrightarrow> report_run r \<and> rn_status r' \<in> {RunSucceeded, RunFailed}"

definition run_change :: "run \<Rightarrow> run \<Rightarrow> bool" where
  "run_change r r' \<longleftrightarrow> run_core r' = run_core r \<and> (edge (rn_status r) (rn_status r') \<or> report_end r r')"

definition runs_evolve :: "run list \<Rightarrow> run list \<Rightarrow> bool" where
  "runs_evolve rs rs' \<longleftrightarrow> (\<exists>ts new. rs' = ts @ new \<and> list_all2 run_change rs ts \<and> distinct (map rn_id new) \<and>
     rn_id ` set new \<inter> rn_id ` set rs = {})"

lemma edge_refl [simp]: "edge s s"
  by (simp add: edge_def)

lemma run_change_refl [simp]: "run_change r r"
  by (simp add: run_change_def)

lemma update_evolves:
  assumes "\<And>r. P r \<Longrightarrow> run_change r (f r)"
  shows "runs_evolve rs (sql_update P f rs)"
proof -
  have "list_all2 run_change rs (sql_update P f rs)"
    using assms by (simp add: sql_update_def list_all2_conv_all_nth)
  then show ?thesis unfolding runs_evolve_def by (intro exI [of _ "sql_update P f rs"] exI [of _ "[]"]) simp
qed

lemma runs_evolve_refl [simp]: "runs_evolve rs rs"
  using update_evolves [of "\<lambda>_. False" id rs] by (simp add: sql_update_def)

lemma append_evolves: "rn_id r \<notin> rn_id ` set rs \<Longrightarrow> runs_evolve rs (rs @ [r])"
  unfolding runs_evolve_def
  by (intro exI [of _ rs] exI [of _ "[r]"]) (auto simp: list_all2_conv_all_nth)

lemma transition_evolves:
  assumes "\<And>r. guard r \<Longrightarrow> run_change r (change r)"
  shows "runs_evolve (db_runs db) (db_runs (snd (transition space i guard change attempts db)))"
  by (auto simp: transition_def Let_def intro!: update_evolves assms split: list.splits)

section \<open>The numbering of attempts\<close>

definition at_key :: "run_attempt \<Rightarrow> string \<times> string \<times> string \<times> nat" where
  "at_key a = (at_id a, at_space_id a, at_run_id a, at_number a)"

definition attempts_ok :: "run_attempt list \<Rightarrow> bool" where
  "attempts_ok atts \<longleftrightarrow> distinct (map at_id atts) \<and>
     (\<forall>space run. map at_number (attempts_of space run atts) = [1..<Suc (length (attempts_of space run atts))])"

text \<open>A statement keeps the keys of all attempts, and adds at most the next attempt of a run.\<close>

definition attempts_evolve :: "run_attempt list \<Rightarrow> run_attempt list \<Rightarrow> bool" where
  "attempts_evolve atts atts' \<longleftrightarrow>
     map at_key atts' = map at_key atts \<or>
     (\<exists>a. map at_key atts' = map at_key atts @ [at_key a] \<and> at_id a \<notin> at_id ` set atts \<and>
        at_number a = next_number (at_space_id a) (at_run_id a) atts)"

lemma numbers_of_keys:
  "map at_number (attempts_of space run atts) =
     map (snd \<circ> snd \<circ> snd) (filter (\<lambda>(i, s, r, n). s = space \<and> r = run) (map at_key atts))"
  by (induction atts) (auto simp: attempts_of_def of_run_def at_key_def)

lemma ids_of_keys: "map at_id atts = map fst (map at_key atts)"
  by (simp add: at_key_def)

lemma same_keys:
  assumes "map at_key atts' = map at_key atts"
  shows "map at_number (attempts_of space run atts') = map at_number (attempts_of space run atts)"
    "map at_id atts' = map at_id atts"
    "length (attempts_of space run atts') = length (attempts_of space run atts)"
    "attempts_ok atts' = attempts_ok atts"
proof -
  show numbers: "map at_number (attempts_of space run atts') = map at_number (attempts_of space run atts)" for space run
    by (simp only: numbers_of_keys assms)
  show len: "length (attempts_of space run atts') = length (attempts_of space run atts)" for space run
    by (rule map_eq_imp_length_eq [OF numbers])
  show ids: "map at_id atts' = map at_id atts"
    by (simp only: ids_of_keys assms)
  show "attempts_ok atts' = attempts_ok atts"
    by (simp only: attempts_ok_def numbers len ids)
qed

lemma next_number_bound: "b \<in> set atts \<Longrightarrow> of_run space run b \<Longrightarrow> at_number b < next_number space run atts"
  by (auto simp: next_number_def max_number_def attempts_of_def or_value_def le_imp_less_Suc filter_empty_conv)

lemma next_number_ok:
  assumes "attempts_ok atts"
  shows "next_number space run atts = Suc (length (attempts_of space run atts))"
proof (cases "attempts_of space run atts")
  case (Cons a as)
  have "set (map at_number (attempts_of space run atts)) = {1..<Suc (length (attempts_of space run atts))}"
    using assms by (simp add: attempts_ok_def del: upt_Suc)
  moreover have "Max {1..<Suc n} = n" if "0 < n" for n :: nat
    using that by (intro Max_eqI) auto
  ultimately show ?thesis using Cons by (simp add: next_number_def max_number_def or_value_def)
qed (simp add: next_number_def max_number_def or_value_def)

lemma attempts_evolve_ok:
  assumes "attempts_evolve atts atts'" and "attempts_ok atts"
  shows "attempts_ok atts'"
  using assms(1) unfolding attempts_evolve_def
proof (elim disjE exE conjE)
  assume keys: "map at_key atts' = map at_key atts"
  then show ?thesis using assms(2) by (simp add: same_keys(4) [OF keys])
next
  fix a
  assume keys: "map at_key atts' = map at_key atts @ [at_key a]" and new: "at_id a \<notin> at_id ` set atts"
    and number: "at_number a = next_number (at_space_id a) (at_run_id a) atts"
  have keys': "map at_key atts' = map at_key (atts @ [a])" using keys by simp
  have "map at_number (attempts_of space run (atts @ [a])) =
      [1..<Suc (length (attempts_of space run (atts @ [a])))]" for space run
    using assms(2) number next_number_ok [OF assms(2)]
    by (auto simp: attempts_ok_def attempts_of_def of_run_def)
  then have "attempts_ok (atts @ [a])" using assms(2) new by (auto simp: attempts_ok_def)
  then show ?thesis by (simp add: same_keys(4) [OF keys'])
qed

lemma evolve_refl [simp]: "attempts_evolve atts atts"
  by (simp add: attempts_evolve_def)

lemma evolve_same: "map at_key atts' = map at_key atts \<Longrightarrow> attempts_evolve atts atts'"
  by (simp add: attempts_evolve_def)

lemma evolve_update: "(\<And>a. at_key (f a) = at_key a) \<Longrightarrow> attempts_evolve atts (sql_update P f atts)"
  by (intro evolve_same map_sql_update)

lemma evolve_update_latest:
  "(\<And>a. at_key (f a) = at_key a) \<Longrightarrow> attempts_evolve atts (update_latest space run guard f atts)"
  unfolding update_latest_def by (rule evolve_update)

lemma evolve_append:
  "at_id a \<notin> at_id ` set atts \<Longrightarrow> at_number a = next_number (at_space_id a) (at_run_id a) atts \<Longrightarrow>
     attempts_evolve atts (atts @ [a])"
  unfolding attempts_evolve_def by (intro disjI2 exI [of _ a]) simp

lemma evolve_insert:
  "at_id a \<notin> at_id ` set atts \<Longrightarrow> at_number a = next_number (at_space_id a) (at_run_id a) atts \<Longrightarrow>
     attempts_evolve atts (insert_attempt a atts)"
  by (auto simp: insert_attempt_def intro: evolve_append)

lemma latest_attempt:
  assumes "getLatestRunAttempt space run db = Some a"
  shows "a \<in> set (db_attempts db)" "of_run space run a" "next_number space run (db_attempts db) = at_number a + 1"
  using assms
  by (auto simp: getLatestRunAttempt_def find_Some_iff is_latest_def of_run_def next_number_def or_value_def
      split: option.splits)

lemma no_attempt:
  assumes "getLatestRunAttempt space run db = None"
  shows "attempts_of space run (db_attempts db) = []"
proof (rule ccontr)
  let ?as = "attempts_of space run (db_attempts db)"
  assume "?as \<noteq> []"
  then have "Max (at_number ` set ?as) \<in> at_number ` set ?as" by (intro Max_in) auto
  then obtain a where "a \<in> set ?as" "at_number a = Max (at_number ` set ?as)" by fastforce
  with \<open>?as \<noteq> []\<close> have "a \<in> set (db_attempts db)" "of_run space run a" "is_latest (db_attempts db) a"
    by (auto simp: attempts_of_def is_latest_def max_number_def of_run_def)
  with assms show False by (auto simp: getLatestRunAttempt_def find_None_iff)
qed

section \<open>Every step evolves the tables\<close>

lemma transition_attempts:
  "attempts_evolve (db_attempts db) (f (db_attempts db)) \<Longrightarrow>
     attempts_evolve (db_attempts db) (db_attempts (snd (transition space i guard change f db)))"
  by (simp add: transition_def Let_def split: list.splits)

lemma key_simps [simp]:
  "at_key (a\<lparr>at_status := s\<rparr>) = at_key a"
  "at_key (a\<lparr>at_started_at := t\<rparr>) = at_key a"
  "at_key (a\<lparr>at_ended_at := t\<rparr>) = at_key a"
  "at_key (a\<lparr>at_last_activity_at := t\<rparr>) = at_key a"
  "at_key (a\<lparr>at_cancel_requested_at := t\<rparr>) = at_key a"
  "at_key (a\<lparr>at_cancel_confirmed_at := t\<rparr>) = at_key a"
  "at_key (a\<lparr>at_exit_code := x\<rparr>) = at_key a"
  "at_key (a\<lparr>at_error_code := c\<rparr>) = at_key a"
  "at_key (a\<lparr>at_error_json := j\<rparr>) = at_key a"
  "at_key (a\<lparr>at_updated_at := u\<rparr>) = at_key a"
  by (simp_all add: at_key_def)

text \<open>The two tables of a database evolve, in one statement.\<close>

definition db_evolves :: "run_db \<Rightarrow> run_db \<Rightarrow> bool" where
  "db_evolves db db' \<longleftrightarrow> runs_evolve (db_runs db) (db_runs db') \<and> attempts_evolve (db_attempts db) (db_attempts db')"

lemma db_evolves_refl [simp]: "db_evolves db db"
  by (simp add: db_evolves_def)

lemma transition_db_evolves:
  assumes "\<And>r. guard r \<Longrightarrow> run_change r (change r)" and "attempts_evolve (db_attempts db) (f (db_attempts db))"
  shows "db_evolves db (snd (transition space i guard change f db))"
  using assms by (simp add: db_evolves_def transition_evolves transition_attempts)

lemmas run_changes = run_change_def run_core_def edge_def ended_def supervisable_def

lemmas run_operations = markRunRunning_def markRunTerminal_def markRunDegraded_def markRunCancelling_def
  markRunWaitingForReview_def markRunWaitingForDependency_def requeueWaitingDependencyRun_def
  grantRunApprovalAndRequeue_def resumeRunAfterSupervisorReview_def holdRunForSupervisorReview_def
  review_pause_def

lemma create_evolves:
  assumes "\<not> list_ex (\<lambda>r. rn_id r = ce_run_id env) (db_runs db)"
    and "attempts_of (rci_space_id i) (ce_run_id env) (db_attempts db) = []" and "attempt_id_fresh (ce_attempt_id env) db"
  shows "db_evolves db (snd (createQueuedRunInternal refs env i links db))"
  using assms
  by (auto simp: createQueuedRunInternal_def Let_def db_evolves_def new_run_def list_ex_iff attempt_id_fresh_def
      next_number_def max_number_def or_value_def intro!: append_evolves evolve_insert split: option.splits sum.splits)

lemma system_evolves:
  assumes "\<not> list_ex (\<lambda>r. rn_id r = ce_run_id env) (db_runs db)"
    and "attempts_of (rci_space_id i) (ce_run_id env) (db_attempts db) = []" and "attempt_id_fresh (ce_attempt_id env) db"
  shows "db_evolves db (snd (createRunningSystemRun refs env i db))"
  using assms
  by (auto simp: createRunningSystemRun_def Let_def db_evolves_def system_run_def system_attempt_def list_ex_iff
      attempt_id_fresh_def next_number_def max_number_def or_value_def
      intro!: append_evolves evolve_insert split: option.splits sum.splits)

lemma coordinator_evolves:
  assumes "\<not> list_ex (\<lambda>r. rn_id r = ce_run_id env) (db_runs db)"
  shows "db_evolves db (snd (startCoordinator refs env i now db))"
proof (cases "createCoordinatorRun refs env i db")
  case (Pair result db')
  show ?thesis
  proof (cases result)
    case (Inl e)
    then show ?thesis by (simp add: startCoordinator_def Pair)
  next
    case (Inr top_run)
    from Pair have db': "db' = db\<lparr>db_runs := db_runs db @ [top_run]\<rparr>" and new: "rn_id top_run = ce_run_id env"
      unfolding Inr createCoordinatorRun_def createQueuedRunInternal_def Let_def
      by (auto simp: no_links_def new_run_def split: option.splits sum.splits)
    have others: "\<forall>r \<in> set (db_runs db). \<not> is_run (rn_space_id top_run) (rn_id top_run) r"
      using assms new by (auto simp: is_run_def list_ex_iff)
    then have "sql_update (is_run (rn_space_id top_run) (rn_id top_run)) f (db_runs db @ [top_run]) = db_runs db @ [f top_run]" for f
      by (auto simp: sql_update_def is_run_def intro!: map_idI)
    moreover have "rn_id top_run \<notin> rn_id ` set (db_runs db)"
      using assms new by (auto simp: list_ex_iff)
    ultimately show ?thesis
      using append_evolves [of "top_run\<lparr>rn_status := RunWaitingForDependency, rn_updated_at := now\<rparr>" "db_runs db"]
      by (simp add: startCoordinator_def Pair Inr wait_for_nodes_def db' db_evolves_def)
  qed
qed

lemma report_evolves:
  assumes "list_all (\<lambda>r. rn_id r = i \<longrightarrow> report_run r) (db_runs db)"
  shows "db_evolves db (report_succeeded i now db)" and "db_evolves db (report_failed i message now db)"
proof -
  have ends: "runs_evolve (db_runs db) (sql_update (\<lambda>r. rn_id r = i) f (db_runs db))"
    if "\<And>r. report_run r \<Longrightarrow> run_change r (f r)" for f
  proof -
    have "sql_update (\<lambda>r. rn_id r = i) f (db_runs db) = sql_update (\<lambda>r. rn_id r = i \<and> report_run r) f (db_runs db)"
      using assms by (auto simp: sql_update_def list_all_iff)
    then show ?thesis using update_evolves [of "\<lambda>r. rn_id r = i \<and> report_run r" f "db_runs db"] that by simp
  qed
  show "db_evolves db (report_succeeded i now db)" "db_evolves db (report_failed i message now db)"
    by (auto simp: report_succeeded_def report_failed_def db_evolves_def run_change_def run_core_def report_end_def intro!: ends)
qed

lemma running_evolves:
  "attempt_id_fresh new_id db \<Longrightarrow> db_evolves db (snd (markRunRunning space i now level new_id db))"
  unfolding markRunRunning_def
  by (rule transition_db_evolves)
    (auto simp: run_changes attempt_id_fresh_def new_attempt_def intro!: evolve_update_latest evolve_insert)

lemma resumed_evolves:
  "attempt_id_fresh new_id db \<Longrightarrow>
     db_evolves db (snd (resumeRunAfterSupervisorReview space i granting_user at_text now new_id db))"
  unfolding resumeRunAfterSupervisorReview_def
  by (rule transition_db_evolves)
    (auto simp: run_changes attempt_id_fresh_def new_attempt_def intro!: evolve_append)

lemma pause_evolves:
  "(\<And>r. guard r \<Longrightarrow> edge (rn_status r) RunWaitingForReview) \<Longrightarrow>
     db_evolves db (snd (review_pause patterns guard error space i code message now db))"
  unfolding review_pause_def
  by (rule transition_db_evolves) (auto simp: run_change_def run_core_def intro!: evolve_update_latest)

lemma db_step_evolves: "db_step db db' \<Longrightarrow> db_evolves db db'"
proof (induction rule: db_step.induct)
  case (terminal u patterns db)
  then show ?case
    unfolding markRunTerminal_def Let_def
    by (intro transition_db_evolves) (auto simp: run_changes intro!: evolve_update_latest)
next
  case (degraded patterns space i now code message diagnostics db)
  show ?case
    unfolding markRunDegraded_def Let_def by (rule transition_db_evolves) (auto simp: run_changes)
next
  case (cancelling patterns space i now reason user db)
  show ?case
    unfolding markRunCancelling_def Let_def
    by (rule transition_db_evolves) (auto simp: run_changes intro!: evolve_update_latest)
next
  case (review patterns space i code message now db)
  show ?case unfolding markRunWaitingForReview_def by (rule pause_evolves) (simp add: edge_def)
next
  case (dependency patterns space i out now db)
  show ?case
    unfolding markRunWaitingForDependency_def by (rule transition_db_evolves) (auto simp: run_changes)
next
  case (dependency_done patterns space i prompt at_text now db)
  show ?case
    unfolding requeueWaitingDependencyRun_def Let_def by (rule transition_db_evolves) (auto simp: run_changes)
next
  case (approved space i granting_user at_text now db)
  show ?case
    unfolding grantRunApprovalAndRequeue_def
    by (rule transition_db_evolves) (auto simp: run_changes intro!: evolve_update_latest)
next
  case (stale patterns seconds now db)
  show ?case
    by (auto simp: recoverStaleRuns_def Let_def db_evolves_def lost_def run_changes
        intro!: update_evolves evolve_update)
next
  case (sandbox space i level2 now db)
  show ?case
    by (auto simp: updateRunSandboxLevel_def db_evolves_def run_changes intro!: update_evolves)
next
  case (by_queue status ids message code now db)
  then show ?case
    by (auto simp: queue_end_runs_def queue_may_end_def db_evolves_def run_changes intro!: update_evolves)
next
  case (report i db space agent user trigger_origin prompt now)
  then show ?case
    by (auto simp: report_started_def db_evolves_def report_row_def list_ex_iff intro!: append_evolves)
next
  case (prompt db space i words now)
  show ?case by (auto simp: updateRunPrompt_def db_evolves_def run_changes intro!: update_evolves)
next
  case (touch db space i now)
  show ?case by (auto simp: touch_run_def db_evolves_def run_changes intro!: update_evolves)
qed (simp_all add: create_evolves running_evolves resumed_evolves system_evolves coordinator_evolves report_evolves)

section \<open>The supervisor's step\<close>

lemma hold_evolves:
  "db_evolves db (snd (holdRunForSupervisorReview patterns space i code message now db))"
  unfolding holdRunForSupervisorReview_def by (rule pause_evolves) (simp add: edge_def)

lemma requeue_evolves:
  assumes "attempt_id_fresh new_id db" and "n = next_number space i (db_attempts db)"
  shows "db_evolves db (snd (requeueRunForRetry space i now reason n new_id db))"
  using assms unfolding requeueRunForRetry_def
  by (intro transition_db_evolves) (auto simp: run_changes attempt_id_fresh_def intro!: evolve_insert)

lemma ensure_attempt:
  assumes "ensureAttempt env r db = (result, db')" and "attempt_id_fresh (se_first_attempt_id env) db"
  shows "db_runs db' = db_runs db \<and> attempts_evolve (db_attempts db) (db_attempts db') \<and>
         at_id ` set (db_attempts db') \<subseteq> insert (se_first_attempt_id env) (at_id ` set (db_attempts db)) \<and>
         (\<exists>a. result = Some a \<and> getLatestRunAttempt (rn_space_id r) (rn_id r) db' = Some a)"
proof (cases "getLatestRunAttempt (rn_space_id r) (rn_id r) db")
  case (Some a)
  then have "result = Some a" "db' = db" using assms(1) by (simp_all add: ensureAttempt_def)
  with Some show ?thesis by auto
next
  case None
  define a where "a = (new_attempt (se_first_attempt_id env) (rn_space_id r) (rn_id r) 1
      (attemptStatusForRun (rn_status r)) (or_value (rn_started_at r) (case rn_ended_at r of Some t \<Rightarrow> t | None \<Rightarrow> rn_updated_at r)))
      \<lparr>at_started_at := Some (or_value (rn_started_at r) (case rn_ended_at r of Some t \<Rightarrow> t | None \<Rightarrow> rn_updated_at r)),
       at_ended_at := Some (or_value (rn_started_at r) (case rn_ended_at r of Some t \<Rightarrow> t | None \<Rightarrow> rn_updated_at r)),
       at_last_activity_at := Some (or_value (rn_started_at r) (case rn_ended_at r of Some t \<Rightarrow> t | None \<Rightarrow> rn_updated_at r))\<rparr>"
  have a: "at_id a = se_first_attempt_id env" "at_space_id a = rn_space_id r" "at_run_id a = rn_id r" "at_number a = 1"
    by (simp_all add: a_def)
  have none: "attempts_of (rn_space_id r) (rn_id r) (db_attempts db) = []" by (rule no_attempt [OF None])
  then have "\<not> list_ex (\<lambda>b. of_run (rn_space_id r) (rn_id r) b \<and> at_number b = 1) (db_attempts db)"
    by (auto simp: attempts_of_def list_ex_iff filter_empty_conv)
  then have db': "db' = db\<lparr>db_attempts := db_attempts db @ [a]\<rparr>"
      "result = getLatestRunAttempt (rn_space_id r) (rn_id r) db'"
    using assms(1) None by (auto simp: ensureAttempt_def Let_def insert_attempt_def a_def)
  have "attempts_of (rn_space_id r) (rn_id r) (db_attempts db') = [a]"
    using none a by (simp add: db' attempts_of_def of_run_def)
  then have "getLatestRunAttempt (rn_space_id r) (rn_id r) db' \<noteq> None" using no_attempt by fastforce
  moreover have "attempts_evolve (db_attempts db) (db_attempts db')"
    using none a assms(2)
    by (auto simp: db' attempt_id_fresh_def next_number_def max_number_def or_value_def image_iff intro!: evolve_append)
  ultimately show ?thesis using a by (auto simp: db')
qed

text \<open>The four ways a call of the supervisor ends.\<close>

lemma supervise_cases:
  obtains
    (quiet) "supervise env r e st = (fst (supervise env r e st), st)"
  | (seen) a db where "ensureAttempt env r (st_db st) = (Some a, db)"
      "supervise env r e st = (Inr None, st\<lparr>st_db := db\<rparr>)"
  | (retry) a db x db' d where "ensureAttempt env r (st_db st) = (Some a, db)"
      "\<not> list_ex (\<lambda>d. sr_space_id d = rn_space_id r \<and> sr_attempt_id d = at_id a) (st_decisions st)"
      "d = decide_supervision env r e (at_number a) (st_routes st)" "is_retry (sd_decision d)"
      "requeueRunForRetry (rn_space_id r) (rn_id r) (se_now env) (sd_reason_code d) (at_number a + 1)
         (se_attempt_id env) db = (Some x, db')"
      "supervise env r e st = (Inr (Some d), st\<lparr>st_db := db',
         st_decisions := st_decisions st @ [supervisor_row_of env r e a d],
         st_queue := enqueue (se_patterns env) (se_job_id env) (retry_job r (at_number a + 1)) (se_now env) (st_queue st)\<rparr>)"
  | (hold) a db d where "ensureAttempt env r (st_db st) = (Some a, db)"
      "\<not> list_ex (\<lambda>d. sr_space_id d = rn_space_id r \<and> sr_attempt_id d = at_id a) (st_decisions st)"
      "d = decide_supervision env r e (at_number a) (st_routes st)" "\<not> is_retry (sd_decision d)"
      "supervise env r e st = (Inr (Some d), st\<lparr>
         st_db := snd (holdRunForSupervisorReview (se_patterns env) (rn_space_id r) (rn_id r) (sd_reason_code d)
           (review_message d) (se_now env) db),
         st_decisions := st_decisions st @ [supervisor_row_of env r e a d]\<rparr>)"
proof (cases "rn_run_role r = Coordinator \<or> \<not> supervisable (rn_status r) \<or>
         isManagedFailFastRun (rn_trigger_origin r) (rn_contract_snapshot_json r)")
  case True
  then show thesis using quiet by (simp add: supervise_def)
next
  case False
  then have tx: "supervise env r e st = supervise_tx env r e st" by (simp add: supervise_def)
  obtain result db where ensure: "ensureAttempt env r (st_db st) = (result, db)" by fastforce
  show thesis
  proof (cases result)
    case None
    then show thesis using quiet ensure by (simp add: tx supervise_tx_def)
  next
    case (Some a)
    define d where "d = decide_supervision env r e (at_number a) (st_routes st)"
    show thesis
    proof (cases "list_ex (\<lambda>d. sr_space_id d = rn_space_id r \<and> sr_attempt_id d = at_id a) (st_decisions st)")
      case True
      then show thesis using seen ensure Some by (simp add: tx supervise_tx_def)
    next
      case new: False
      show thesis
      proof (cases "is_retry (sd_decision d)")
        case False
        then show thesis using hold [of a db d] ensure Some new by (simp add: tx supervise_tx_def Let_def d_def)
      next
        case True
        obtain x db' where "requeueRunForRetry (rn_space_id r) (rn_id r) (se_now env) (sd_reason_code d)
            (at_number a + 1) (se_attempt_id env) db = (x, db')" by fastforce
        with True show thesis
          using quiet retry [of a db d _ db'] ensure Some new
          by (cases x) (simp_all add: tx supervise_tx_def Let_def d_def)
      qed
    qed
  qed
qed

section \<open>Every step evolves the state\<close>

definition attempts_grow :: "run_attempt list \<Rightarrow> run_attempt list \<Rightarrow> bool" where
  "attempts_grow = attempts_evolve\<^sup>*\<^sup>*"

lemma attempts_grow_ok: "attempts_grow atts atts' \<Longrightarrow> attempts_ok atts \<Longrightarrow> attempts_ok atts'"
  unfolding attempts_grow_def by (induction rule: rtranclp_induct) (simp_all add: attempts_evolve_ok)

lemma evolve_keys: "attempts_evolve atts atts' \<Longrightarrow> at_key ` set atts \<subseteq> at_key ` set atts'"
  unfolding attempts_evolve_def
  by (elim disjE exE conjE) (metis order_refl set_map, metis Un_upper1 set_append set_map)

lemma grow_keys: "attempts_grow atts atts' \<Longrightarrow> at_key ` set atts \<subseteq> at_key ` set atts'"
  unfolding attempts_grow_def by (induction rule: rtranclp_induct) (use evolve_keys in blast)+

lemma grow_refl [simp]: "attempts_grow atts atts"
  by (simp add: attempts_grow_def)

lemma grow_one: "attempts_evolve atts atts' \<Longrightarrow> attempts_grow atts atts'"
  unfolding attempts_grow_def by (rule r_into_rtranclp)

lemma grow_two: "attempts_evolve atts atts' \<Longrightarrow> attempts_evolve atts' atts'' \<Longrightarrow> attempts_grow atts atts''"
  unfolding attempts_grow_def by (meson converse_rtranclp_into_rtranclp r_into_rtranclp)

lemma stamp_evolves: "stamp_run env r decision_id c db = (result, db') \<Longrightarrow> db_evolves db db'"
proof -
  assume "stamp_run env r decision_id c db = (result, db')"
  then have "db' = snd (transition (rn_space_id r) (rn_id r) (\<lambda>x. True)
      (stamp_route env decision_id c (model_override r c decision_id)) id db)"
    by (auto simp: stamp_run_def Let_def split: prod.splits option.splits)
  then show ?thesis
    by (simp only:) (rule transition_db_evolves, auto simp: run_changes stamp_route_def)
qed

lemma route_evolves: "routeRun env r db rows = (result, db', rows') \<Longrightarrow> db_evolves db db'"
  by (auto simp: routeRun_def Let_def dest: stamp_evolves split: if_splits option.splits prod.splits)

lemma supervise_evolves:
  assumes "attempt_id_fresh (se_first_attempt_id env) (st_db st)" and "attempt_id_fresh (se_attempt_id env) (st_db st)"
    and "se_attempt_id env \<noteq> se_first_attempt_id env"
  shows "runs_evolve (db_runs (st_db st)) (db_runs (st_db (snd (supervise env r e st)))) \<and>
         attempts_grow (db_attempts (st_db st)) (db_attempts (st_db (snd (supervise env r e st))))"
proof (cases rule: supervise_cases [of env r e st])
  case quiet
  then have "snd (supervise env r e st) = st" by (metis snd_conv)
  then show ?thesis by simp
next
  case (seen a db)
  then show ?thesis using ensure_attempt [OF seen(1) assms(1)] by (simp add: grow_one)
next
  case (retry a db x db' d)
  note ensured = ensure_attempt [OF retry(1) assms(1)]
  then have "getLatestRunAttempt (rn_space_id r) (rn_id r) db = Some a" by auto
  from latest_attempt(3) [OF this] have "at_number a + 1 = next_number (rn_space_id r) (rn_id r) (db_attempts db)" by simp
  moreover have "attempt_id_fresh (se_attempt_id env) db"
    using ensured assms(2,3) by (auto simp: attempt_id_fresh_def)
  ultimately have "db_evolves db db'" using requeue_evolves retry(5) by (metis snd_conv)
  then show ?thesis using ensured retry(6) by (auto simp: db_evolves_def intro: grow_two)
next
  case (hold a db d)
  note ensured = ensure_attempt [OF hold(1) assms(1)]
  then show ?thesis
    using hold_evolves [of db "se_patterns env" "rn_space_id r" "rn_id r" "sd_reason_code d" "review_message d" "se_now env"]
    by (auto simp: hold(5) db_evolves_def intro: grow_two)
qed

lemma run_step_evolves:
  assumes "run_step st st'"
  shows "runs_evolve (db_runs (st_db st)) (db_runs (st_db st')) \<and>
         attempts_grow (db_attempts (st_db st)) (db_attempts (st_db st'))"
  using assms
proof (cases rule: run_step.cases)
  case (db db)
  then show ?thesis using db_step_evolves [OF db(2)] by (simp add: db_evolves_def grow_one)
next
  case (route env r result db routes)
  then show ?thesis using route_evolves [OF route(2)] by (simp add: db_evolves_def grow_one)
next
  case (supervise r senv e)
  then show ?thesis by (simp add: supervise_evolves)
qed simp

end
