(* ===== verification/RunProperties.thy ===== *)
theory RunProperties
  imports RunHistory
begin

text \<open>
  What the histories of the run tables guarantee: the status graph, the numbering of attempts, the bound
  on automatic retries, the supervisor's decision on every branch, and the caps of the contract in it.
\<close>

section \<open>The invariant of the tables\<close>

definition decision_ok :: "run_db \<Rightarrow> supervisor_row \<Rightarrow> bool" where
  "decision_ok db d \<longleftrightarrow>
     (\<exists>r \<in> set (db_runs db). \<exists>a \<in> set (db_attempts db).
        is_run (sr_space_id d) (sr_run_id d) r \<and> of_run (sr_space_id d) (sr_run_id d) a \<and>
        at_id a = sr_attempt_id d \<and> (is_retry (sr_decision d) \<longrightarrow> at_number a < maxAttemptsForRun r))"

definition state_ok :: "run_state \<Rightarrow> bool" where
  "state_ok st \<longleftrightarrow>
     distinct (map rn_id (db_runs (st_db st))) \<and> attempts_ok (db_attempts (st_db st)) \<and>
     (\<forall>d \<in> set (st_decisions st). decision_ok (st_db st) d) \<and>
     distinct (map sr_attempt_id (st_decisions st))"

lemma evolve_row:
  assumes "runs_evolve rs rs'" and "r \<in> set rs"
  shows "\<exists>r' \<in> set rs'. run_change r r'"
proof -
  obtain ts new where "rs' = ts @ new" "list_all2 run_change rs ts"
    using assms(1) unfolding runs_evolve_def by blast
  then show ?thesis using assms(2) by (fastforce simp: list_all2_conv_all_nth in_set_conv_nth)
qed

lemma evolve_distinct:
  assumes "runs_evolve rs rs'" and "distinct (map rn_id rs)"
  shows "distinct (map rn_id rs')"
proof -
  obtain ts new where new: "rs' = ts @ new" "list_all2 run_change rs ts" "distinct (map rn_id new)"
      "rn_id ` set new \<inter> rn_id ` set rs = {}"
    using assms(1) unfolding runs_evolve_def by blast
  from new(2) have "map rn_id ts = map rn_id rs"
    by (induction rule: list_all2_induct) (auto simp: run_change_def run_core_def)
  moreover from this have "rn_id ` set ts = rn_id ` set rs" by (metis set_map)
  ultimately show ?thesis using new assms(2) by auto
qed

lemma core_simps:
  assumes "run_core r' = run_core r"
  shows "rn_id r' = rn_id r" "rn_space_id r' = rn_space_id r" "maxAttemptsForRun r' = maxAttemptsForRun r"
    "maxCostForRun r' = maxCostForRun r" "supervisor_user r' = supervisor_user r"
  using assms by (simp_all add: run_core_def maxAttemptsForRun_def maxCostForRun_def supervisor_user_def)

lemma decision_ok_evolves:
  assumes "decision_ok db d" and "runs_evolve (db_runs db) (db_runs db')" and "attempts_grow (db_attempts db) (db_attempts db')"
  shows "decision_ok db' d"
proof -
  obtain r a where r: "r \<in> set (db_runs db)" "is_run (sr_space_id d) (sr_run_id d) r"
    and a: "a \<in> set (db_attempts db)" "of_run (sr_space_id d) (sr_run_id d) a" "at_id a = sr_attempt_id d"
    and cap: "is_retry (sr_decision d) \<longrightarrow> at_number a < maxAttemptsForRun r"
    using assms(1) unfolding decision_ok_def by blast
  obtain r' where r': "r' \<in> set (db_runs db')" "run_core r' = run_core r"
    using evolve_row [OF assms(2) r(1)] by (auto simp: run_change_def)
  obtain a' where a': "a' \<in> set (db_attempts db')" "at_key a' = at_key a"
    using grow_keys [OF assms(3)] a(1) by (metis imageE image_eqI subsetD)
  from a'(2) have "at_id a' = at_id a" "at_number a' = at_number a" "of_run (sr_space_id d) (sr_run_id d) a'"
    using a(2) by (simp_all add: at_key_def of_run_def)
  moreover have "is_run (sr_space_id d) (sr_run_id d) r'" "maxAttemptsForRun r' = maxAttemptsForRun r"
    using r(2) core_simps [OF r'(2)] by (simp_all add: is_run_def)
  ultimately show ?thesis unfolding decision_ok_def using r'(1) a'(1) a(3) cap by metis
qed

lemma same_attempt:
  assumes "attempts_ok atts" and "a \<in> set atts" "b \<in> set atts" and "at_id a = at_id b"
  shows "a = b"
  using assms by (auto simp: attempts_ok_def distinct_map dest: inj_onD)

lemma retry_below_cap:
  "is_retry (sd_decision (decide_supervision env r e n routes)) \<Longrightarrow>
     reason_code_of r e \<in> set RETRYABLE_ERROR_CODES \<and> n < maxAttemptsForRun r \<and> non_empty (supervisor_user r) \<and>
     \<not> budget_exceeded (costOrNull (se_to_number env) (se_cost env)) (maxCostForRun r)"
  by (auto simp: decide_supervision_def Let_def is_retry_def split: if_splits)

text \<open>The new row of the supervisor: its attempt is the latest of its run, and was not decided before.\<close>

lemma new_decision_ok:
  assumes "run_core r \<in> run_core ` set (db_runs db)" and "runs_evolve (db_runs db) (db_runs db')"
    and "attempts_grow (db_attempts db1) (db_attempts db')" and "getLatestRunAttempt (rn_space_id r) (rn_id r) db1 = Some a"
    and "d = decide_supervision env r e (at_number a) routes"
  shows "decision_ok db' (supervisor_row_of env r e a d)"
proof -
  obtain r0 where r0: "r0 \<in> set (db_runs db)" "run_core r0 = run_core r" using assms(1) by auto
  obtain r' where r': "r' \<in> set (db_runs db')" "run_core r' = run_core r"
    using evolve_row [OF assms(2) r0(1)] r0(2) by (auto simp: run_change_def)
  note a = latest_attempt [OF assms(4)]
  obtain a' where a': "a' \<in> set (db_attempts db')" "at_key a' = at_key a"
    using grow_keys [OF assms(3)] a(1) by (metis imageE image_eqI subsetD)
  have "at_id a' = at_id a" "at_number a' = at_number a" "of_run (rn_space_id r) (rn_id r) a'"
    using a(2) a'(2) by (simp_all add: at_key_def of_run_def)
  moreover have "is_run (rn_space_id r) (rn_id r) r'" "maxAttemptsForRun r' = maxAttemptsForRun r"
    using core_simps [OF r'(2)] by (simp_all add: is_run_def)
  ultimately show ?thesis
    unfolding decision_ok_def using r'(1) a'(1) retry_below_cap [of env r e "at_number a" routes]
    by (intro bexI [of _ r'] bexI [of _ a']) (auto simp: supervisor_row_of_def assms(5))
qed

lemma run_step_decisions:
  assumes "run_step st st'"
  shows "st_decisions st' = st_decisions st \<or>
     (\<exists>d. st_decisions st' = st_decisions st @ [d] \<and> decision_ok (st_db st') d \<and>
        \<not> list_ex (\<lambda>x. sr_space_id x = sr_space_id d \<and> sr_attempt_id x = sr_attempt_id d) (st_decisions st))"
  using assms
proof (cases rule: run_step.cases)
  case (supervise r senv e)
  note evolves = run_step_evolves [OF assms]
  show ?thesis
  proof (cases rule: supervise_cases [of senv r e st])
    case quiet
    then have "st' = st" using supervise(1) by (metis snd_conv)
    then show ?thesis by simp
  next
    case (seen a db)
    then show ?thesis using supervise(1) by simp
  next
    case (retry a db x db' d)
    have latest: "getLatestRunAttempt (rn_space_id r) (rn_id r) db = Some a"
      using ensure_attempt [OF retry(1) supervise(3)] by auto
    have grow: "attempts_grow (db_attempts db) (db_attempts (st_db st'))"
    proof -
      have "attempt_id_fresh (se_attempt_id senv) db"
        using ensure_attempt [OF retry(1) supervise(3)] supervise(4,5) by (auto simp: attempt_id_fresh_def)
      then have "db_evolves db db'"
        using requeue_evolves [of "se_attempt_id senv" db "at_number a + 1" "rn_space_id r" "rn_id r"] retry(5)
          latest_attempt(3) [OF latest] by (metis snd_conv)
      then show ?thesis using supervise(1) retry(6) by (simp add: db_evolves_def grow_one)
    qed
    have "decision_ok (st_db st') (supervisor_row_of senv r e a d)"
      by (rule new_decision_ok [OF supervise(2) conjunct1 [OF evolves] grow latest retry(3)])
    then show ?thesis using supervise(1) retry(2,6) by (simp add: supervisor_row_of_def)
  next
    case (hold a db d)
    have latest: "getLatestRunAttempt (rn_space_id r) (rn_id r) db = Some a"
      using ensure_attempt [OF hold(1) supervise(3)] by auto
    have grow: "attempts_grow (db_attempts db) (db_attempts (st_db st'))"
      using hold_evolves [of db "se_patterns senv" "rn_space_id r" "rn_id r" "sd_reason_code d" "review_message d" "se_now senv"]
        supervise(1) hold(5) by (simp add: db_evolves_def grow_one)
    have "decision_ok (st_db st') (supervisor_row_of senv r e a d)"
      by (rule new_decision_ok [OF supervise(2) conjunct1 [OF evolves] grow latest hold(3)])
    then show ?thesis using supervise(1) hold(2,5) by (simp add: supervisor_row_of_def)
  qed
qed simp_all

lemma decision_attempt:
  assumes "decision_ok db d"
  obtains a where "a \<in> set (db_attempts db)" "at_id a = sr_attempt_id d" "at_space_id a = sr_space_id d"
    "at_run_id a = sr_run_id d"
  using assms by (auto simp: decision_ok_def of_run_def)

lemma run_step_ok:
  assumes "run_step st st'" and "state_ok st"
  shows "state_ok st'"
proof -
  note evolves = run_step_evolves [OF assms(1)]
  have runs: "distinct (map rn_id (db_runs (st_db st')))"
    using evolves assms(2) by (auto simp: state_ok_def intro: evolve_distinct)
  have atts: "attempts_ok (db_attempts (st_db st'))"
    using evolves assms(2) by (auto simp: state_ok_def intro: attempts_grow_ok)
  have old: "\<forall>d \<in> set (st_decisions st). decision_ok (st_db st') d"
    using evolves assms(2) by (auto simp: state_ok_def intro: decision_ok_evolves)
  from run_step_decisions [OF assms(1)] show ?thesis
  proof (elim disjE exE conjE)
    assume "st_decisions st' = st_decisions st"
    then show ?thesis using runs atts old assms(2) by (simp add: state_ok_def)
  next
    fix d
    assume d: "st_decisions st' = st_decisions st @ [d]" "decision_ok (st_db st') d"
      and new: "\<not> list_ex (\<lambda>x. sr_space_id x = sr_space_id d \<and> sr_attempt_id x = sr_attempt_id d) (st_decisions st)"
    have "sr_attempt_id d \<notin> sr_attempt_id ` set (st_decisions st)"
    proof
      assume "sr_attempt_id d \<in> sr_attempt_id ` set (st_decisions st)"
      then obtain x where x: "x \<in> set (st_decisions st)" "sr_attempt_id x = sr_attempt_id d" by auto
      obtain a where a: "a \<in> set (db_attempts (st_db st'))" "at_id a = sr_attempt_id d" "at_space_id a = sr_space_id d"
        using decision_attempt [OF d(2)] by metis
      obtain b where b: "b \<in> set (db_attempts (st_db st'))" "at_id b = sr_attempt_id x" "at_space_id b = sr_space_id x"
        using decision_attempt old x(1) by metis
      have "a = b" using same_attempt [OF atts a(1) b(1)] a(2) b(2) x(2) by simp
      then show False using new x a(3) b(3) by (auto simp: list_ex_iff)
    qed
    then show ?thesis using runs atts old d assms(2) by (auto simp: state_ok_def)
  qed
qed

lemma empty_state_ok [simp]: "state_ok empty_state"
  by (simp add: state_ok_def empty_state_def attempts_ok_def attempts_of_def)

lemma reachable_ok: "run_steps empty_state st \<Longrightarrow> state_ok st"
  by (induction rule: rtranclp_induct) (simp_all add: run_step_ok)

section \<open>The status of a run\<close>

lemmas edge_cases = edge_def ended_def supervisable_def

text \<open>
  C21: no writer of the table of runs takes a run off its status graph. Each step of the repository, the router, the
  supervisor, the job queue, the starts of plans and workflow executions, and the service of daily reports leaves every
  run in the table, with its identity, role, contract and owner. The status of a run that is not of a daily report is
  the same or one edge further: a cancelled run stays cancelled, a succeeded one can only be marked degraded, and an
  ended run leaves its status only by a retry or a review of the supervisor. The run of a daily report moves along the
  same graph or is ended, as succeeded or failed, by its service, from whatever status it has.
\<close>

theorem runs_follow_status_graph:
  assumes "run_step st st'" and "r \<in> set (db_runs (st_db st))"
  shows "list_ex (\<lambda>r'. run_core r' = run_core r \<and>
      (if report_run r then edge (rn_status r) (rn_status r') \<or> rn_status r' \<in> {RunSucceeded, RunFailed}
       else edge (rn_status r) (rn_status r')) \<and>
      (if report_run r then True else if rn_status r = RunCancelled then rn_status r' = RunCancelled
       else if rn_status r = RunSucceeded then rn_status r' \<in> {RunSucceeded, RunDegraded}
       else if ended (rn_status r) then rn_status r' \<in> {rn_status r, RunQueued, RunWaitingForReview} else True))
    (db_runs (st_db st'))"
proof -
  have "runs_evolve (db_runs (st_db st)) (db_runs (st_db st'))" using run_step_evolves [OF assms(1)] by simp
  from evolve_row [OF this assms(2)] obtain r' where r': "r' \<in> set (db_runs (st_db st'))" "run_change r r'" by blast
  then show ?thesis
    by (cases "rn_status r") (auto simp: list_ex_iff run_change_def report_end_def edge_cases intro!: bexI [of _ r'])
qed

section \<open>Attempts and retries\<close>

text \<open>
  C22: in every reachable state the attempts of each run are numbered 1, 2, 3, ... in the order of their
  creation, and every supervisor decision is the only one of its attempt, an attempt of its run.
\<close>

theorem attempts_numbered_and_decided_once:
  assumes "run_steps empty_state st"
  shows "map at_number (attempts_of space run (db_attempts (st_db st))) =
           [1..<Suc (length (attempts_of space run (db_attempts (st_db st))))] \<and>
         distinct (map at_id (db_attempts (st_db st))) \<and>
         distinct (map sr_attempt_id (st_decisions st)) \<and>
         list_all (\<lambda>d. sr_attempt_id d \<in> at_id ` set (attempts_of (sr_space_id d) (sr_run_id d) (db_attempts (st_db st))))
           (st_decisions st)"
proof -
  have ok: "state_ok st" by (rule reachable_ok [OF assms])
  then have "list_all (\<lambda>d. sr_attempt_id d \<in>
      at_id ` set (attempts_of (sr_space_id d) (sr_run_id d) (db_attempts (st_db st)))) (st_decisions st)"
    by (force simp: state_ok_def list_all_iff decision_ok_def attempts_of_def)
  then show ?thesis using ok by (simp add: state_ok_def attempts_ok_def del: upt_Suc)
qed

text \<open>The retries of a run, by the numbers of the attempts they follow.\<close>

definition retries_of :: "string \<Rightarrow> string \<Rightarrow> run_state \<Rightarrow> supervisor_row list" where
  "retries_of space run st =
     filter (\<lambda>d. sr_space_id d = space \<and> sr_run_id d = run \<and> is_retry (sr_decision d)) (st_decisions st)"

lemma unique_run:
  "distinct (map rn_id rs) \<Longrightarrow> r \<in> set rs \<Longrightarrow> r' \<in> set rs \<Longrightarrow> rn_id r = rn_id r' \<Longrightarrow> r = r'"
  by (auto simp: distinct_map dest: inj_onD)

lemma number_bounds: "attempts_ok atts \<Longrightarrow> a \<in> set (attempts_of s i atts) \<Longrightarrow> 1 \<le> at_number a"
  unfolding attempts_ok_def by (metis atLeastLessThan_iff image_eqI set_map set_upt)

lemma same_number:
  assumes "attempts_ok atts" and "a \<in> set (attempts_of s i atts)" "b \<in> set (attempts_of s i atts)"
    and "at_number a = at_number b"
  shows "a = b"
proof -
  have "distinct (map at_number (attempts_of s i atts))"
    using assms(1) by (simp add: attempts_ok_def del: upt_Suc)
  then show ?thesis using assms(2-4) by (auto simp: distinct_map dest: inj_onD)
qed

lemma retries_bounded:
  assumes "state_ok st" and "r \<in> set (db_runs (st_db st))"
  shows "length (retries_of (rn_space_id r) (rn_id r) st) < maxAttemptsForRun r"
proof -
  let ?ds = "retries_of (rn_space_id r) (rn_id r) st"
  let ?as = "attempts_of (rn_space_id r) (rn_id r) (db_attempts (st_db st))"
  have ok: "attempts_ok (db_attempts (st_db st))" and ids: "distinct (map rn_id (db_runs (st_db st)))"
    using assms(1) by (simp_all add: state_ok_def)
  have "\<forall>d \<in> set ?ds. \<exists>a. a \<in> set ?as \<and> at_id a = sr_attempt_id d \<and> at_number a < maxAttemptsForRun r"
  proof
    fix d
    assume d: "d \<in> set ?ds"
    then have "decision_ok (st_db st) d" using assms(1) by (auto simp: retries_of_def state_ok_def)
    then obtain r' a where ra: "r' \<in> set (db_runs (st_db st))" "a \<in> set (db_attempts (st_db st))"
        "is_run (sr_space_id d) (sr_run_id d) r'" "of_run (sr_space_id d) (sr_run_id d) a" "at_id a = sr_attempt_id d"
        "is_retry (sr_decision d) \<longrightarrow> at_number a < maxAttemptsForRun r'"
      unfolding decision_ok_def by blast
    have "r' = r" by (rule unique_run [OF ids ra(1) assms(2)]) (use ra(3) d in \<open>simp add: is_run_def retries_of_def\<close>)
    then show "\<exists>a. a \<in> set ?as \<and> at_id a = sr_attempt_id d \<and> at_number a < maxAttemptsForRun r"
      using ra d by (intro exI [of _ a]) (auto simp: attempts_of_def retries_of_def)
  qed
  then obtain f where f: "\<forall>d \<in> set ?ds. f d \<in> set ?as \<and> at_id (f d) = sr_attempt_id d \<and>
      at_number (f d) < maxAttemptsForRun r" by metis
  have "distinct (map sr_attempt_id ?ds)"
    using assms(1) by (simp add: state_ok_def retries_of_def distinct_map_filter)
  moreover have "inj_on (\<lambda>d. at_number (f d)) (set ?ds)"
  proof (rule inj_onI)
    fix d e
    assume de: "d \<in> set ?ds" "e \<in> set ?ds" "at_number (f d) = at_number (f e)"
    then have "f d = f e" using f same_number [OF ok] by blast
    then have "sr_attempt_id d = sr_attempt_id e" using f de by metis
    then show "d = e" using \<open>distinct (map sr_attempt_id ?ds)\<close> de by (auto simp: distinct_map dest: inj_onD)
  qed
  ultimately have "length ?ds = card ((\<lambda>d. at_number (f d)) ` set ?ds)"
    by (metis card_image distinct_card distinct_map)
  also have "\<dots> \<le> card {1..<maxAttemptsForRun r}"
    using f number_bounds [OF ok] by (intro card_mono) force+
  finally have "length ?ds \<le> maxAttemptsForRun r - 1" by simp
  moreover have "0 < maxAttemptsForRun r"
    by (auto simp: maxAttemptsForRun_def DEFAULT_MAX_RUN_ATTEMPTS_def split: option.splits)
  ultimately show ?thesis by simp
qed

lemma max_attempts_le_10: "maxAttemptsForRun r \<le> 10"
  by (auto simp: maxAttemptsForRun_def DEFAULT_MAX_RUN_ATTEMPTS_def nat_le_iff split: option.splits)

text \<open>
  C23: automatic retries are bounded. In every reachable state the supervisor has decided to retry a run
  fewer times than the attempts its contract allows, hence at most nine times, whatever the sequence of
  failures, reviews, pauses and cancellations.
\<close>

theorem automatic_retries_bounded:
  assumes "run_steps empty_state st" and "r \<in> set (db_runs (st_db st))"
  shows "length (retries_of (rn_space_id r) (rn_id r) st) < maxAttemptsForRun r \<and>
         length (retries_of (rn_space_id r) (rn_id r) st) \<le> 9"
  using retries_bounded [OF reachable_ok [OF assms(1)] assms(2)] max_attempts_le_10 [of r] by simp

section \<open>The supervisor's decision\<close>

text \<open>A call that is not turned away, on a run whose row is the one the caller read.\<close>

definition under_supervision :: "run \<Rightarrow> run_attempt \<Rightarrow> run_state \<Rightarrow> bool" where
  "under_supervision r a st \<longleftrightarrow>
     rn_run_role r = Execution \<and> supervisable (rn_status r) \<and>
     \<not> isManagedFailFastRun (rn_trigger_origin r) (rn_contract_snapshot_json r) \<and>
     find_run (rn_space_id r) (rn_id r) (st_db st) = Some r \<and>
     getLatestRunAttempt (rn_space_id r) (rn_id r) (st_db st) = Some a \<and>
     \<not> list_ex (\<lambda>d. sr_space_id d = rn_space_id r \<and> sr_attempt_id d = at_id a) (st_decisions st)"

definition may_retry :: "supervisor_env \<Rightarrow> run \<Rightarrow> evaluation \<Rightarrow> nat \<Rightarrow> bool" where
  "may_retry env r e n \<longleftrightarrow>
     reason_code_of r e \<in> set RETRYABLE_ERROR_CODES \<and>
     \<not> budget_exceeded (costOrNull (se_to_number env) (se_cost env)) (maxCostForRun r) \<and>
     n < maxAttemptsForRun r \<and> non_empty (supervisor_user r)"

lemma retry_iff: "is_retry (sd_decision (decide_supervision env r e n routes)) \<longleftrightarrow> may_retry env r e n"
  by (auto simp: decide_supervision_def Let_def is_retry_def may_retry_def)

lemma transition_hit:
  assumes "find_run space i db = Some r" and "guard r"
  shows "\<exists>x. transition space i guard change attempts db =
      (Some x, db\<lparr>db_runs := sql_update (\<lambda>r. is_run space i r \<and> guard r) change (db_runs db),
                 db_attempts := attempts (db_attempts db)\<rparr>)"
proof -
  have "r \<in> set (db_runs db)" "is_run space i r" using assms(1) by (auto simp: find_run_def find_Some_iff)
  then have "sql_returning (\<lambda>r. is_run space i r \<and> guard r) change (db_runs db) \<noteq> []"
    using assms(2) by (auto simp: sql_returning_def filter_empty_conv)
  then obtain x xs where "sql_returning (\<lambda>r. is_run space i r \<and> guard r) change (db_runs db) = x # xs"
    by (meson neq_Nil_conv)
  then show ?thesis by (simp add: transition_def Let_def)
qed

lemma find_run_update:
  assumes "find_run space i db = Some r" and "guard r" and "\<And>x. is_run space i (change x) \<longleftrightarrow> is_run space i x"
  shows "find_run space i (db\<lparr>db_runs := sql_update (\<lambda>r. is_run space i r \<and> guard r) change (db_runs db),
           db_attempts := atts\<rparr>) = Some (change r)"
proof -
  have "List.find (is_run space i) (sql_update (\<lambda>r. is_run space i r \<and> guard r) change rs) = Some (change r)"
    if "List.find (is_run space i) rs = Some r" for rs
    using that assms(2,3) by (induction rs) (auto simp: sql_update_def split: if_splits)
  then show ?thesis using assms(1) by (simp add: find_run_def)
qed

lemma transition_found:
  assumes "find_run space i db = Some r" and "guard r" and "\<And>x. is_run space i (change x) \<longleftrightarrow> is_run space i x"
    and "P (change r)" and "Q (attempts (db_attempts db))"
  shows "\<exists>x db'. transition space i guard change attempts db = (Some x, db') \<and>
      (\<exists>r'. find_run space i db' = Some r' \<and> P r') \<and> Q (db_attempts db')"
proof -
  obtain x where "transition space i guard change attempts db =
      (Some x, db\<lparr>db_runs := sql_update (\<lambda>r. is_run space i r \<and> guard r) change (db_runs db),
                 db_attempts := attempts (db_attempts db)\<rparr>)"
    using transition_hit [where guard = guard, OF assms(1,2)] by blast
  with find_run_update [where guard = guard and change = change, OF assms(1-3)] assms(4,5) show ?thesis by simp
qed

lemma held_run:
  assumes "find_run space i db = Some r" and "supervisable (rn_status r)"
  shows "\<exists>x db'. holdRunForSupervisorReview patterns space i code message now db = (Some x, db') \<and>
      (\<exists>r'. find_run space i db' = Some r' \<and> rn_status r' = RunWaitingForReview \<and> rn_started_at r' = rn_started_at r) \<and>
      map at_key (db_attempts db') = map at_key (db_attempts db)"
  unfolding holdRunForSupervisorReview_def review_pause_def
  by (rule transition_found [OF assms(1)]) (use assms(2) in \<open>auto simp: is_run_def update_latest_def intro!: map_sql_update\<close>)

lemma requeued_run:
  assumes "find_run space i db = Some r" and "supervisable (rn_status r)"
  shows "\<exists>x db'. requeueRunForRetry space i now reason n new_id db = (Some x, db') \<and>
      (\<exists>r'. find_run space i db' = Some r' \<and> rn_status r' = RunQueued \<and> rn_started_at r' = None \<and> rn_ended_at r' = None) \<and>
      db_attempts db' = insert_attempt (new_attempt new_id space i n RunQueued now) (db_attempts db)"
  unfolding requeueRunForRetry_def
  by (rule transition_found [OF assms(1)]) (use assms(2) in \<open>auto simp: is_run_def\<close>)

text \<open>
  C24: the supervisor's decision is exact. Of a failed run it retries the attempt exactly if the failure
  is of a retryable kind, the recorded cost has not reached the cap, attempts remain and there is a user
  to run as; then the run is queued again without its start and end, its next attempt is recorded, and
  one job of one attempt is enqueued for it. Otherwise it waits for a human review, with no new attempt
  and no job. In both cases the decision is recorded once.
\<close>

theorem supervision_exact:
  assumes "under_supervision r a st" and "attempt_id_fresh (se_attempt_id env) (st_db st)"
  shows "case supervise env r e st of (result, st') \<Rightarrow>
      case (result, find_run (rn_space_id r) (rn_id r) (st_db st')) of
        (Inr (Some d), Some r') \<Rightarrow>
          st_decisions st' = st_decisions st @ [supervisor_row_of env r e a d] \<and>
          (if may_retry env r e (at_number a)
           then rn_status r' = RunQueued \<and> rn_started_at r' = None \<and> rn_ended_at r' = None \<and>
             db_attempts (st_db st') = db_attempts (st_db st) @
               [new_attempt (se_attempt_id env) (rn_space_id r) (rn_id r) (at_number a + 1) RunQueued (se_now env)] \<and>
             st_queue st' = enqueue (se_patterns env) (se_job_id env) (retry_job r (at_number a + 1)) (se_now env) (st_queue st)
           else rn_status r' = RunWaitingForReview \<and> rn_started_at r' = rn_started_at r \<and>
             map at_key (db_attempts (st_db st')) = map at_key (db_attempts (st_db st)) \<and>
             st_queue st' = st_queue st)
      | _ \<Rightarrow> False"
proof -
  let ?db = "st_db st"
  let ?d = "decide_supervision env r e (at_number a) (st_routes st)"
  have found: "find_run (rn_space_id r) (rn_id r) ?db = Some r"
    and latest: "getLatestRunAttempt (rn_space_id r) (rn_id r) ?db = Some a"
    and status: "supervisable (rn_status r)"
    and new: "\<not> list_ex (\<lambda>d. sr_space_id d = rn_space_id r \<and> sr_attempt_id d = at_id a) (st_decisions st)"
    using assms(1) by (simp_all add: under_supervision_def)
  have tx: "supervise env r e st = supervise_tx env r e st"
    using assms(1) by (simp add: under_supervision_def supervise_def)
  have ensured: "ensureAttempt env r ?db = (Some a, ?db)" using latest by (simp add: ensureAttempt_def)
  show ?thesis
  proof (cases "may_retry env r e (at_number a)")
    case True
    let ?new = "new_attempt (se_attempt_id env) (rn_space_id r) (rn_id r) (at_number a + 1) RunQueued (se_now env)"
    have "at_number b \<noteq> at_number a + 1" if "b \<in> set (db_attempts ?db)" "of_run (rn_space_id r) (rn_id r) b" for b
      using next_number_bound [OF that] latest_attempt(3) [OF latest] by simp
    then have "insert_attempt ?new (db_attempts ?db) = db_attempts ?db @ [?new]"
      by (auto simp: insert_attempt_def list_ex_iff)
    moreover obtain x db' r' where
      "requeueRunForRetry (rn_space_id r) (rn_id r) (se_now env) (sd_reason_code ?d) (at_number a + 1)
         (se_attempt_id env) ?db = (Some x, db')"
      "find_run (rn_space_id r) (rn_id r) db' = Some r'" "rn_status r' = RunQueued" "rn_started_at r' = None"
      "rn_ended_at r' = None" "db_attempts db' = insert_attempt ?new (db_attempts ?db)"
      using requeued_run [OF found status] by metis
    ultimately show ?thesis
      using True new by (simp add: tx supervise_tx_def ensured Let_def retry_iff)
  next
    case False
    obtain x db' r' where
      "holdRunForSupervisorReview (se_patterns env) (rn_space_id r) (rn_id r) (sd_reason_code ?d) (review_message ?d)
         (se_now env) ?db = (Some x, db')"
      "find_run (rn_space_id r) (rn_id r) db' = Some r'" "rn_status r' = RunWaitingForReview"
      "rn_started_at r' = rn_started_at r" "map at_key (db_attempts db') = map at_key (db_attempts ?db)"
      using held_run [OF found status] by metis
    then show ?thesis
      using False new by (simp add: tx supervise_tx_def ensured Let_def retry_iff)
  qed
qed

section \<open>The caps of the contract\<close>

definition contract_of :: "run_create_input \<Rightarrow> contract_input" where
  "contract_of i = (case rci_contract_snapshot i of None \<Rightarrow> empty_contract_input | Some c \<Rightarrow> c)"

lemma num_opt_num [simp]: "num (opt_num x) = x"
  by (simp add: opt_num_def split: option.splits)

lemma contract_caps:
  "num (get (contractRecord (contract_json (createRunContractSnapshot c created_at))) ''max_attempts'') =
     winning_cap MaxAttempts (normalizeBudgetSources (case c of None \<Rightarrow> empty_contract_input | Some c \<Rightarrow> c))"
  "num (get (contractRecord (contract_json (createRunContractSnapshot c created_at))) ''max_cost'') =
     winning_cap MaxCost (normalizeBudgetSources (case c of None \<Rightarrow> empty_contract_input | Some c \<Rightarrow> c))"
  by (simp_all add: contractRecord_def record_or_empty_def contract_json_def createRunContractSnapshot_def
      Let_def resolveBudget_def)

lemma normalized_source_caps:
  assumes "normalizeBudgetSource v = Some s"
  shows "case bs_max_attempts s of None \<Rightarrow> True | Some q \<Rightarrow> of_int \<lfloor>q\<rfloor> = q \<and> 0 < q"
    "case bs_max_cost s of None \<Rightarrow> True | Some q \<Rightarrow> 0 \<le> q"
  using assms
  by (auto simp: normalizeBudgetSource_def positiveIntegerOrNull_def nonNegativeNumberOrNull_def
      split: if_splits option.splits)

lemma normalized_caps:
  assumes "s \<in> set (normalizeBudgetSources c)"
  shows "case cap_of MaxAttempts s of None \<Rightarrow> True | Some q \<Rightarrow> of_int \<lfloor>q\<rfloor> = q \<and> 0 < q"
    "case cap_of MaxCost s of None \<Rightarrow> True | Some q \<Rightarrow> 0 \<le> q"
proof -
  from assms consider "s = legacy_source c" | v where "normalizeBudgetSource v = Some s"
    by (auto simp: normalizeBudgetSources_def Let_def set_map_filter_eq split: jsval.splits if_splits)
  then show "case cap_of MaxAttempts s of None \<Rightarrow> True | Some q \<Rightarrow> of_int \<lfloor>q\<rfloor> = q \<and> 0 < q"
      "case cap_of MaxCost s of None \<Rightarrow> True | Some q \<Rightarrow> 0 \<le> q"
    by (cases; use normalized_source_caps in \<open>auto simp: legacy_source_def positiveIntegerOrNull_def
        nonNegativeNumberOrNull_def split: option.splits if_splits\<close>)+
qed

lemma winning_cap_source:
  "winning_cap d sources = Some q \<Longrightarrow> \<exists>s \<in> set sources. cap_of d s = Some q"
  using winning_source_Some(1) by (fastforce simp: winning_cap_Some_iff binds_def)

text \<open>
  C25: the supervisor enforces the budget the contract froze. For a run created from any declared budget
  sources, the attempts it may use are the strictest binding cap, never more than that cap and never more
  than ten, or two when no source caps attempts; and the cost at which it stops is the strictest binding
  cost cap.
\<close>

theorem contract_caps_bind_supervisor:
  "let sources = normalizeBudgetSources (contract_of i); r = new_run i links capabilities run_id now created_at
   in maxCostForRun r = winning_cap MaxCost sources \<and>
      (case winning_cap MaxAttempts sources of
         None \<Rightarrow> maxAttemptsForRun r = 2
       | Some q \<Rightarrow> maxAttemptsForRun r = nat (min 10 \<lfloor>q\<rfloor>) \<and> of_nat (maxAttemptsForRun r) \<le> q)"
proof -
  let ?sources = "normalizeBudgetSources (contract_of i)"
  let ?r = "new_run i links capabilities run_id now created_at"
  have caps: "num (get (contractRecord (rn_contract_snapshot_json ?r)) ''max_attempts'') = winning_cap MaxAttempts ?sources"
    "num (get (contractRecord (rn_contract_snapshot_json ?r)) ''max_cost'') = winning_cap MaxCost ?sources"
    by (simp_all add: new_run_def contract_caps contract_of_def)
  have cost: "maxCostForRun ?r = winning_cap MaxCost ?sources"
  proof (cases "winning_cap MaxCost ?sources")
    case (Some q)
    then obtain s where "s \<in> set ?sources" "cap_of MaxCost s = Some q" using winning_cap_source by blast
    with normalized_caps(2) [of s "contract_of i"] have "0 \<le> q" by simp
    with Some show ?thesis by (simp add: maxCostForRun_def caps)
  qed (simp add: maxCostForRun_def caps)
  show ?thesis
  proof (cases "winning_cap MaxAttempts ?sources")
    case None
    with cost show ?thesis by (simp add: Let_def maxAttemptsForRun_def caps DEFAULT_MAX_RUN_ATTEMPTS_def)
  next
    case (Some q)
    then obtain s where "s \<in> set ?sources" "cap_of MaxAttempts s = Some q" using winning_cap_source by blast
    with normalized_caps(1) [of s "contract_of i"] have q: "of_int \<lfloor>q\<rfloor> = q" "0 < q" by simp_all
    then have "1 \<le> \<lfloor>q\<rfloor>" by linarith
    then have "maxAttemptsForRun ?r = nat (min 10 \<lfloor>q\<rfloor>)" by (simp add: maxAttemptsForRun_def caps Some)
    moreover have "(of_nat (nat (min 10 \<lfloor>q\<rfloor>)) :: rat) \<le> q"
    proof -
      have "(of_nat (nat (min 10 \<lfloor>q\<rfloor>)) :: rat) = of_int (min 10 \<lfloor>q\<rfloor>)"
        using \<open>1 \<le> \<lfloor>q\<rfloor>\<close> by simp
      also have "\<dots> \<le> of_int \<lfloor>q\<rfloor>" by (simp only: of_int_le_iff)
      finally show ?thesis by (simp add: q(1))
    qed
    ultimately show ?thesis using cost Some by (simp add: Let_def)
  qed
qed

section \<open>Where the tables and the code part\<close>

text \<open>
  Waiting for delegated results consumes an attempt. A run that pauses for its dependencies, is put
  back into the queue and is dispatched again gets a new attempt, recorded as backfilled, while the
  attempt it was running stays running for ever; so the wait counts against the attempts of the run.
\<close>

theorem dependency_wait_takes_an_attempt:
  assumes "find_run space i db = Some r" and "rn_status r = RunRunning" and "attempts_ok (db_attempts db)"
    and "getLatestRunAttempt space i db = Some a" and "at_status a = RunRunning"
  shows "case markRunWaitingForDependency patterns space i out paused_at db of (paused, db1) \<Rightarrow>
      case requeueWaitingDependencyRun patterns space i prompt resumed_at queued_at db1 of (queued, db2) \<Rightarrow>
      case markRunRunning space i dispatched_at level new_id db2 of (running, db3) \<Rightarrow>
        paused \<noteq> None \<and> queued \<noteq> None \<and> running \<noteq> None \<and>
        db_attempts db3 = db_attempts db @
          [(new_attempt new_id space i (at_number a + 1) RunRunning dispatched_at)
             \<lparr>at_started_at := Some dispatched_at, at_last_activity_at := Some dispatched_at,
              at_error_json := Some (JObj [(''error_code'', JStr ''attempt_backfilled_on_dispatch'')])\<rparr>]"
proof -
  have "\<exists>x db1. markRunWaitingForDependency patterns space i out paused_at db = (Some x, db1) \<and>
      (\<exists>r'. find_run space i db1 = Some r' \<and> rn_status r' = RunWaitingForDependency) \<and> db_attempts db1 = db_attempts db"
    unfolding markRunWaitingForDependency_def
    by (rule transition_found [OF assms(1)]) (use assms(2) in \<open>auto simp: is_run_def\<close>)
  then obtain x1 db1 r1 where 1: "markRunWaitingForDependency patterns space i out paused_at db = (Some x1, db1)"
      "find_run space i db1 = Some r1" "rn_status r1 = RunWaitingForDependency" "db_attempts db1 = db_attempts db" by blast
  have "\<exists>x db2. requeueWaitingDependencyRun patterns space i prompt resumed_at queued_at db1 = (Some x, db2) \<and>
      (\<exists>r'. find_run space i db2 = Some r' \<and> rn_status r' = RunQueued) \<and> db_attempts db2 = db_attempts db1"
    unfolding requeueWaitingDependencyRun_def Let_def
    by (rule transition_found [OF 1(2)]) (use 1(3) in \<open>auto simp: is_run_def\<close>)
  then obtain x2 db2 r2 where 2: "requeueWaitingDependencyRun patterns space i prompt resumed_at queued_at db1 = (Some x2, db2)"
      "find_run space i db2 = Some r2" "rn_status r2 = RunQueued" "db_attempts db2 = db_attempts db"
    using 1(4) by auto
  note latest = latest_attempt [OF assms(4)]
  have "b = a" if "b \<in> set (db_attempts db)" "of_run space i b" "is_latest (db_attempts db) b" for b
  proof (rule same_number [OF assms(3)])
    show "b \<in> set (attempts_of space i (db_attempts db))" "a \<in> set (attempts_of space i (db_attempts db))"
      using that latest by (simp_all add: attempts_of_def)
    show "at_number b = at_number a"
      using that latest(3) by (auto simp: is_latest_def of_run_def next_number_def or_value_def)
  qed
  then have none: "\<not> list_ex (\<lambda>b. of_run space i b \<and> is_latest (db_attempts db) b \<and> at_status b = RunQueued) (db_attempts db)"
    using assms(5) by (auto simp: list_ex_iff)
  have free: "\<not> list_ex (\<lambda>b. of_run space i b \<and> at_number b = at_number a + 1) (db_attempts db)"
  proof
    assume "list_ex (\<lambda>b. of_run space i b \<and> at_number b = at_number a + 1) (db_attempts db)"
    then obtain b where "b \<in> set (db_attempts db)" "of_run space i b" "at_number b = at_number a + 1"
      by (auto simp: list_ex_iff)
    with next_number_bound [of b "db_attempts db" space i] latest(3) show False by simp
  qed
  have "\<exists>x db3. markRunRunning space i dispatched_at level new_id db2 = (Some x, db3) \<and>
      (\<exists>r'. find_run space i db3 = Some r' \<and> True) \<and>
      db_attempts db3 = db_attempts db @
          [(new_attempt new_id space i (at_number a + 1) RunRunning dispatched_at)
             \<lparr>at_started_at := Some dispatched_at, at_last_activity_at := Some dispatched_at,
              at_error_json := Some (JObj [(''error_code'', JStr ''attempt_backfilled_on_dispatch'')])\<rparr>]"
    unfolding markRunRunning_def
    by (rule transition_found [OF 2(2)])
      (use 2(3) none free latest(3) in \<open>simp_all add: is_run_def 2(4) insert_attempt_def new_attempt_def\<close>)
  then show ?thesis using 1(1) 2(1) by auto
qed

text \<open>The queue's own statement on the runs it sees is the one stated here on the full rows.\<close>

definition run_row_of :: "run \<Rightarrow> run_row" where
  "run_row_of r = \<lparr>rr_id = rn_id r, rr_status = run_status_text (rn_status r), rr_ended_at = rn_ended_at r,
     rr_updated_at = rn_updated_at r, rr_error_message = rn_error_message r,
     rr_error_code = json_text (rn_error_json r) ''error_code''\<rparr>"

lemma queue_may_end_text: "queue_may_end s \<longleftrightarrow> run_status_text s \<notin> set TERMINAL_RUN_STATES"
  by (cases s) (simp_all add: queue_may_end_def ended_def TERMINAL_RUN_STATES_def)

lemma queue_end_runs_refines:
  "map run_row_of (db_runs (queue_end_runs ids status message code now db)) =
     end_runs ids (run_status_text status) message code now (map run_row_of (db_runs db))"
  by (simp add: queue_end_runs_def end_runs_def sql_update_def queue_may_end_text run_row_of_def json_text_def
      error_object_def)

section \<open>A concrete history\<close>

text \<open>A run is created with a contract of three attempts, runs, fails on the network and is retried.\<close>

definition demo_refs :: run_refs where
  "demo_refs = \<lparr>rf_agent = (\<lambda>_ _. Some \<lparr>ar_status = ''active'', ar_current_version_id = Some ''v''\<rparr>),
     rf_version_belongs = (\<lambda>_ _ _. True), rf_workspace = (\<lambda>_ _. True), rf_session = (\<lambda>_ _. True),
     rf_project = (\<lambda>_ _. True), rf_profile_enabled = (\<lambda>_ _ _. None)\<rparr>"

definition demo_input :: run_create_input where
  "demo_input = \<lparr>rci_agent_id = ''a'', rci_space_id = ''s'', rci_user_id = ''u'', rci_mode = ''live'',
     rci_run_type = ''agent'', rci_trigger_origin = ''manual'', rci_session_id = None, rci_workspace_id = None,
     rci_project_id = None, rci_prompt = Some ''go'', rci_parent_run_id = None, rci_root_run_id = None,
     rci_runtime_profile_id = None, rci_runtime_profile_selection_source = None, rci_capabilities_json = None,
     rci_model_override_json = [], rci_contract_snapshot = Some (empty_contract_input\<lparr>ci_max_attempts := JNum 3\<rparr>)\<rparr>"

definition demo_create :: create_env where
  "demo_create = \<lparr>ce_run_id = ''r'', ce_attempt_id = ''a1'', ce_now = 1, ce_created_at = ''t''\<rparr>"

definition demo_failure :: terminal_update where
  "demo_failure = \<lparr>tu_space_id = ''s'', tu_run_id = ''r'', tu_status = RunFailed, tu_output_text = None,
     tu_output_json = JObj [], tu_error_json = JObj [(''error_code'', JStr ''provider_network_error'')],
     tu_exit_code = Some 1, tu_completed_at = 3\<rparr>"

definition demo_env :: supervisor_env where
  "demo_env = \<lparr>se_patterns = id, se_cost = JNull, se_to_number = (\<lambda>_. JNaN), se_now = 4,
     se_first_attempt_id = ''a0'', se_decision_id = ''d1'', se_attempt_id = ''a2'', se_job_id = ''j1''\<rparr>"

definition demo_evaluation :: evaluation where
  "demo_evaluation = \<lparr>ev_failure_reason_code = None, ev_outcome_status = ''failed''\<rparr>"

definition demo_db1 :: run_db where
  "demo_db1 = snd (createQueuedRunInternal demo_refs demo_create demo_input no_links (st_db empty_state))"

definition demo_db2 :: run_db where
  "demo_db2 = snd (markRunRunning ''s'' ''r'' 2 None ''a9'' demo_db1)"

definition demo_db3 :: run_db where
  "demo_db3 = snd (markRunTerminal id demo_failure demo_db2)"

definition demo_failed :: run_state where
  "demo_failed = empty_state\<lparr>st_db := demo_db3\<rparr>"

definition demo_run :: run where
  "demo_run = hd (db_runs demo_db3)"

definition demo_retried :: run_state where
  "demo_retried = snd (supervise demo_env demo_run demo_evaluation demo_failed)"

lemma demo_running: "run_steps empty_state (empty_state\<lparr>st_db := demo_db2\<rparr>)"
proof -
  have "db_step (st_db empty_state) demo_db1"
    unfolding demo_db1_def by (rule db_step.create) code_simp+
  then have "run_step empty_state (empty_state\<lparr>st_db := demo_db1\<rparr>)" by (rule run_step.db)
  moreover have "db_step demo_db1 demo_db2"
    unfolding demo_db2_def by (rule db_step.running) code_simp
  then have "run_step (empty_state\<lparr>st_db := demo_db1\<rparr>) (empty_state\<lparr>st_db := demo_db2\<rparr>)"
    using run_step.db [of "empty_state\<lparr>st_db := demo_db1\<rparr>" demo_db2] by simp
  ultimately show ?thesis by (meson rtranclp.rtrancl_refl rtranclp.rtrancl_into_rtrancl)
qed

lemma demo_steps: "run_steps empty_state demo_failed"
proof -
  have "db_step demo_db2 demo_db3"
    unfolding demo_db3_def by (rule db_step.terminal) (simp add: demo_failure_def ended_def)
  then have "run_step (empty_state\<lparr>st_db := demo_db2\<rparr>) demo_failed"
    unfolding demo_failed_def using run_step.db [of "empty_state\<lparr>st_db := demo_db2\<rparr>" demo_db3] by simp
  with demo_running show ?thesis by (rule rtranclp.rtrancl_into_rtrancl)
qed

lemma demo_supervised: "run_step demo_failed demo_retried"
  unfolding demo_retried_def by (rule run_step.supervise) code_simp+

lemma runs_follow_status_graph_witness:
  "list_ex (\<lambda>r'. run_core r' = run_core demo_run \<and> edge (rn_status demo_run) (rn_status r')) (db_runs (st_db demo_retried))"
proof -
  have "demo_run \<in> set (db_runs (st_db demo_failed))" by code_simp
  moreover have "\<not> report_run demo_run" by code_simp
  ultimately show ?thesis
    using runs_follow_status_graph [OF demo_supervised, of demo_run] by (auto simp: list_ex_iff)
qed

text \<open>A daily report whose run is cancelled while it is written, and is then marked as succeeded.\<close>

definition report_cancellation :: terminal_update where
  "report_cancellation = demo_failure\<lparr>tu_run_id := ''d'', tu_status := RunCancelled\<rparr>"

definition report_db :: run_db where
  "report_db = snd (markRunTerminal id report_cancellation
     (report_started ''d'' ''s'' ''a'' ''u'' ''automation'' ''go'' 2 (st_db empty_state)))"

lemma cancelled_report_succeeds:
  "run_steps empty_state (empty_state\<lparr>st_db := report_succeeded ''d'' 9 report_db\<rparr>) \<and>
   map rn_status (db_runs report_db) = [RunCancelled] \<and>
   map rn_status (db_runs (report_succeeded ''d'' 9 report_db)) = [RunSucceeded]"
proof (intro conjI)
  let ?db1 = "report_started ''d'' ''s'' ''a'' ''u'' ''automation'' ''go'' 2 (st_db empty_state)"
  have started: "db_step (st_db empty_state) ?db1" by (rule db_step.report) (simp add: empty_state_def)
  have cancelled: "db_step ?db1 report_db"
    unfolding report_db_def by (rule db_step.terminal) (simp add: report_cancellation_def ended_def)
  have succeeded: "db_step report_db (report_succeeded ''d'' 9 report_db)" by (rule db_step.report_succeeded) code_simp
  have "run_step (empty_state\<lparr>st_db := db\<rparr>) (empty_state\<lparr>st_db := db'\<rparr>)" if "db_step db db'" for db db'
    using run_step.db [of "empty_state\<lparr>st_db := db\<rparr>" db'] that by simp
  note step = this
  have "empty_state\<lparr>st_db := st_db empty_state\<rparr> = empty_state" by simp
  with step [OF started] have 1: "run_step empty_state (empty_state\<lparr>st_db := ?db1\<rparr>)" by (simp only:)
  from 1 step [OF cancelled] step [OF succeeded]
  show "run_steps empty_state (empty_state\<lparr>st_db := report_succeeded ''d'' 9 report_db\<rparr>)"
    by (meson rtranclp.rtrancl_refl rtranclp.rtrancl_into_rtrancl)
qed code_simp+

lemma demo_reachable: "run_steps empty_state demo_retried"
  using demo_steps demo_supervised by (rule rtranclp.rtrancl_into_rtrancl)

lemma attempts_numbered_and_decided_once_witness:
  "map at_number (attempts_of ''s'' ''r'' (db_attempts (st_db demo_retried))) = [1, 2] \<and>
   distinct (map sr_attempt_id (st_decisions demo_retried))"
proof -
  have "length (attempts_of ''s'' ''r'' (db_attempts (st_db demo_retried))) = 2" by code_simp
  then show ?thesis
    using attempts_numbered_and_decided_once [OF demo_reachable, of "''s''" "''r''"] by (simp add: upt_rec)
qed

lemma automatic_retries_bounded_witness:
  "length (retries_of ''s'' ''r'' demo_retried) < 3"
proof -
  let ?r = "hd (db_runs (st_db demo_retried))"
  have "?r \<in> set (db_runs (st_db demo_retried))" by code_simp
  moreover have "rn_space_id ?r = ''s'' \<and> rn_id ?r = ''r'' \<and> maxAttemptsForRun ?r = 3" by code_simp
  ultimately show ?thesis using automatic_retries_bounded [OF demo_reachable, of ?r] by simp
qed

lemma supervision_exact_witness:
  "map_option rn_status (find_run ''s'' ''r'' (st_db demo_retried)) = Some RunQueued"
proof -
  have "\<exists>a. getLatestRunAttempt (rn_space_id demo_run) (rn_id demo_run) (st_db demo_failed) = Some a \<and>
      under_supervision demo_run a demo_failed \<and> may_retry demo_env demo_run demo_evaluation (at_number a)"
    by (rule exI [of _ "hd (db_attempts demo_db3)"]) code_simp
  then obtain a where "under_supervision demo_run a demo_failed" "may_retry demo_env demo_run demo_evaluation (at_number a)"
    by blast
  moreover have "attempt_id_fresh (se_attempt_id demo_env) (st_db demo_failed)" by code_simp
  moreover have "rn_space_id demo_run = ''s'' \<and> rn_id demo_run = ''r''" by code_simp
  ultimately show ?thesis
    using supervision_exact [of demo_run a demo_failed demo_env demo_evaluation]
    by (auto simp: demo_retried_def split: prod.splits sum.splits option.splits)
qed

lemma dependency_wait_takes_an_attempt_witness:
  "map at_number (db_attempts (snd (markRunRunning ''s'' ''r'' 9 None ''a3''
     (snd (requeueWaitingDependencyRun id ''s'' ''r'' ''go on'' ''t'' 8
       (snd (markRunWaitingForDependency id ''s'' ''r'' JNull 7 demo_db2))))))) = [1, 2]"
proof -
  let ?r = "hd (db_runs demo_db2)" and ?a = "hd (db_attempts demo_db2)"
  have "find_run ''s'' ''r'' demo_db2 = Some ?r" by code_simp
  moreover have "rn_status ?r = RunRunning" by code_simp
  moreover have "attempts_ok (db_attempts demo_db2)"
    using reachable_ok [OF demo_running] by (simp add: state_ok_def)
  moreover have "getLatestRunAttempt ''s'' ''r'' demo_db2 = Some ?a" by code_simp
  moreover have "at_status ?a = RunRunning" by code_simp
  moreover have "map at_number (db_attempts demo_db2) = [1]" by code_simp
  ultimately show ?thesis
    using dependency_wait_takes_an_attempt [of "''s''" "''r''" demo_db2 ?r ?a, where patterns = id and out = JNull and
        paused_at = 7 and prompt = "''go on''" and resumed_at = "''t''" and queued_at = 8 and dispatched_at = 9 and level = None and new_id = "''a3''"]
    by (auto split: prod.splits)
qed

text \<open>A run that is resumed after a review is queued with the end of its failed attempt still set.\<close>

lemma resumed_run_keeps_its_end:
  "let held = snd (holdRunForSupervisorReview id ''s'' ''r'' ''x'' ''m'' 5 demo_db3);
       resumed = snd (resumeRunAfterSupervisorReview ''s'' ''r'' ''u'' ''t'' 6 ''a5'' held);
       running = snd (markRunRunning ''s'' ''r'' 7 None ''a6'' resumed)
   in map (\<lambda>r. (rn_status r, rn_started_at r, rn_ended_at r)) (db_runs running) = [(RunRunning, Some 7, Some 3)]"
  by code_simp

end
