(* ===== verification/PolicyRegistry.thy ===== *)
theory PolicyRegistry
  imports PolicyTypes
begin

text \<open>
  The canonical action registry, \<open>POLICY_ACTION_REGISTRY\<close> of \<open>packages/protocol/src/policy.ts\<close>, in
  its insertion order, cut into nine consecutive pieces, and the map \<open>policy/actionRegistry.ts\<close>
  indexes it by. The lemmas say that the action names are distinct, so the map and the list
  have the same entries, and which entries exist.
\<close>

section \<open>The data\<close>

definition registry_1 :: "action_definition list" where
  "registry_1 =
  [
   \<lparr>ad_action = ''runtime.execute'', ad_resource_type = ''run'',
    ad_default_risk_level = Medium, ad_default_decision = Allow, ad_audit_required = True,
    ad_approval_capability = None,
    ad_default_required_approver_role = None,
    ad_current_enforcement_point = ''server/src/modules/runs/orchestrationService.ts'',
    ad_lifecycle_status = WiredDirect, ad_record_failure_mode = BestEffort\<rparr>,
   \<lparr>ad_action = ''run.spawn_child'', ad_resource_type = ''run'',
    ad_default_risk_level = Medium, ad_default_decision = RequireApproval, ad_audit_required = True,
    ad_approval_capability = None,
    ad_default_required_approver_role = None,
    ad_current_enforcement_point = ''server/src/modules/agentGroups/service.ts'',
    ad_lifecycle_status = WiredDirect, ad_record_failure_mode = FailClosed\<rparr>,
   \<lparr>ad_action = ''runtime.use_credential'', ad_resource_type = ''credential'',
    ad_default_risk_level = High, ad_default_decision = RequireApproval, ad_audit_required = True,
    ad_approval_capability = (Some ''approve_credential_use''),
    ad_default_required_approver_role = (Some ''owner''),
    ad_current_enforcement_point = ''server/src/modules/runs/orchestrationService.ts'',
    ad_lifecycle_status = WiredDirect, ad_record_failure_mode = FailClosed\<rparr>,
   \<lparr>ad_action = ''context.inject_memory'', ad_resource_type = ''memory'',
    ad_default_risk_level = Low, ad_default_decision = Allow, ad_audit_required = False,
    ad_approval_capability = None,
    ad_default_required_approver_role = None,
    ad_current_enforcement_point = ''server/src/modules/context/prepareService.ts'',
    ad_lifecycle_status = WiredDirect, ad_record_failure_mode = BestEffort\<rparr>,
   \<lparr>ad_action = ''context.render_for_runtime'', ad_resource_type = ''context'',
    ad_default_risk_level = Low, ad_default_decision = Allow, ad_audit_required = False,
    ad_approval_capability = None,
    ad_default_required_approver_role = None,
    ad_current_enforcement_point = ''server/src/modules/context/prepareService.ts'',
    ad_lifecycle_status = WiredDirect, ad_record_failure_mode = BestEffort\<rparr>,
   \<lparr>ad_action = ''workspace.write_patch'', ad_resource_type = ''workspace'',
    ad_default_risk_level = High, ad_default_decision = RequireApproval, ad_audit_required = True,
    ad_approval_capability = (Some ''approve_code_patch''),
    ad_default_required_approver_role = (Some ''owner''),
    ad_current_enforcement_point = ''server/src/modules/workspaces/codePatch.ts'',
    ad_lifecycle_status = WiredDirect, ad_record_failure_mode = FailClosed\<rparr>,
   \<lparr>ad_action = ''artifact.persist'', ad_resource_type = ''artifact'',
    ad_default_risk_level = Low, ad_default_decision = Allow, ad_audit_required = True,
    ad_approval_capability = None,
    ad_default_required_approver_role = None,
    ad_current_enforcement_point = ''server/src/modules/runs/materializationService.ts'',
    ad_lifecycle_status = WiredDirect, ad_record_failure_mode = FailClosed\<rparr>,
   \<lparr>ad_action = ''proposal.create'', ad_resource_type = ''proposal'',
    ad_default_risk_level = Low, ad_default_decision = Allow, ad_audit_required = False,
    ad_approval_capability = None,
    ad_default_required_approver_role = None,
    ad_current_enforcement_point = ''server/src/modules/memory/proposalRepository.ts, server/src/modules/runs/materializationService.ts, server/src/modules/workspaces/codePatch.ts'',
    ad_lifecycle_status = WiredDirect, ad_record_failure_mode = BestEffort\<rparr>,
   \<lparr>ad_action = ''proposal.apply'', ad_resource_type = ''proposal'',
    ad_default_risk_level = Medium, ad_default_decision = RequireApproval, ad_audit_required = True,
    ad_approval_capability = (Some ''approve_proposal''),
    ad_default_required_approver_role = (Some ''owner''),
    ad_current_enforcement_point = ''server/src/modules/proposals/applyService.ts'',
    ad_lifecycle_status = WiredDirect, ad_record_failure_mode = FailClosed\<rparr>,
   \<lparr>ad_action = ''agent.config_update'', ad_resource_type = ''agent'',
    ad_default_risk_level = High, ad_default_decision = Allow, ad_audit_required = True,
    ad_approval_capability = (Some ''approve_agent_config_change''),
    ad_default_required_approver_role = (Some ''owner''),
    ad_current_enforcement_point = ''server/src/modules/agents/routes.ts'',
    ad_lifecycle_status = WiredDirect, ad_record_failure_mode = BestEffort\<rparr>
  ]"

definition registry_2 :: "action_definition list" where
  "registry_2 =
  [
   \<lparr>ad_action = ''memory.create'', ad_resource_type = ''memory'',
    ad_default_risk_level = Medium, ad_default_decision = RequireApproval, ad_audit_required = True,
    ad_approval_capability = (Some ''approve_memory_change''),
    ad_default_required_approver_role = (Some ''owner''),
    ad_current_enforcement_point = ''server/src/modules/proposals/applyService.ts via proposal.apply'',
    ad_lifecycle_status = WiredViaProposal, ad_record_failure_mode = BestEffort\<rparr>,
   \<lparr>ad_action = ''memory.update'', ad_resource_type = ''memory'',
    ad_default_risk_level = Medium, ad_default_decision = RequireApproval, ad_audit_required = True,
    ad_approval_capability = (Some ''approve_memory_change''),
    ad_default_required_approver_role = (Some ''owner''),
    ad_current_enforcement_point = ''server/src/modules/proposals/applyService.ts via proposal.apply'',
    ad_lifecycle_status = WiredViaProposal, ad_record_failure_mode = BestEffort\<rparr>,
   \<lparr>ad_action = ''memory.archive'', ad_resource_type = ''memory'',
    ad_default_risk_level = Medium, ad_default_decision = RequireApproval, ad_audit_required = True,
    ad_approval_capability = (Some ''approve_memory_change''),
    ad_default_required_approver_role = (Some ''owner''),
    ad_current_enforcement_point = ''server/src/modules/proposals/applyService.ts via proposal.apply'',
    ad_lifecycle_status = WiredViaProposal, ad_record_failure_mode = BestEffort\<rparr>,
   \<lparr>ad_action = ''policy.change'', ad_resource_type = ''policy'',
    ad_default_risk_level = High, ad_default_decision = RequireApproval, ad_audit_required = True,
    ad_approval_capability = (Some ''approve_policy_change''),
    ad_default_required_approver_role = (Some ''owner''),
    ad_current_enforcement_point = ''server/src/modules/proposals/applyService.ts via proposal.apply'',
    ad_lifecycle_status = WiredViaProposal, ad_record_failure_mode = FailClosed\<rparr>,
   \<lparr>ad_action = ''knowledge.create'', ad_resource_type = ''knowledge'',
    ad_default_risk_level = Medium, ad_default_decision = RequireApproval, ad_audit_required = True,
    ad_approval_capability = (Some ''approve_knowledge_change''),
    ad_default_required_approver_role = (Some ''owner''),
    ad_current_enforcement_point = ''server/src/modules/proposals/applyService.ts via proposal.apply'',
    ad_lifecycle_status = WiredViaProposal, ad_record_failure_mode = BestEffort\<rparr>,
   \<lparr>ad_action = ''knowledge.update'', ad_resource_type = ''knowledge'',
    ad_default_risk_level = Medium, ad_default_decision = RequireApproval, ad_audit_required = True,
    ad_approval_capability = (Some ''approve_knowledge_change''),
    ad_default_required_approver_role = (Some ''owner''),
    ad_current_enforcement_point = ''server/src/modules/proposals/applyService.ts via proposal.apply'',
    ad_lifecycle_status = WiredViaProposal, ad_record_failure_mode = BestEffort\<rparr>,
   \<lparr>ad_action = ''knowledge.archive'', ad_resource_type = ''knowledge'',
    ad_default_risk_level = Medium, ad_default_decision = RequireApproval, ad_audit_required = True,
    ad_approval_capability = (Some ''approve_knowledge_change''),
    ad_default_required_approver_role = (Some ''owner''),
    ad_current_enforcement_point = ''server/src/modules/proposals/applyService.ts via proposal.apply'',
    ad_lifecycle_status = WiredViaProposal, ad_record_failure_mode = BestEffort\<rparr>,
   \<lparr>ad_action = ''claim.create'', ad_resource_type = ''claim'',
    ad_default_risk_level = Medium, ad_default_decision = RequireApproval, ad_audit_required = True,
    ad_approval_capability = (Some ''approve_knowledge_change''),
    ad_default_required_approver_role = (Some ''owner''),
    ad_current_enforcement_point = ''server/src/modules/proposals/applyService.ts via proposal.apply'',
    ad_lifecycle_status = WiredViaProposal, ad_record_failure_mode = BestEffort\<rparr>,
   \<lparr>ad_action = ''claim.update'', ad_resource_type = ''claim'',
    ad_default_risk_level = Medium, ad_default_decision = RequireApproval, ad_audit_required = True,
    ad_approval_capability = (Some ''approve_knowledge_change''),
    ad_default_required_approver_role = (Some ''owner''),
    ad_current_enforcement_point = ''server/src/modules/proposals/applyService.ts via proposal.apply'',
    ad_lifecycle_status = WiredViaProposal, ad_record_failure_mode = BestEffort\<rparr>
  ]"

definition registry_3 :: "action_definition list" where
  "registry_3 =
  [
   \<lparr>ad_action = ''claim.archive'', ad_resource_type = ''claim'',
    ad_default_risk_level = Medium, ad_default_decision = RequireApproval, ad_audit_required = True,
    ad_approval_capability = (Some ''approve_knowledge_change''),
    ad_default_required_approver_role = (Some ''owner''),
    ad_current_enforcement_point = ''server/src/modules/proposals/applyService.ts via proposal.apply'',
    ad_lifecycle_status = WiredViaProposal, ad_record_failure_mode = BestEffort\<rparr>,
   \<lparr>ad_action = ''object_relation.create'', ad_resource_type = ''object_relation'',
    ad_default_risk_level = Medium, ad_default_decision = RequireApproval, ad_audit_required = True,
    ad_approval_capability = (Some ''approve_knowledge_change''),
    ad_default_required_approver_role = (Some ''owner''),
    ad_current_enforcement_point = ''server/src/modules/proposals/applyService.ts via proposal.apply'',
    ad_lifecycle_status = WiredViaProposal, ad_record_failure_mode = BestEffort\<rparr>,
   \<lparr>ad_action = ''object_relation.delete'', ad_resource_type = ''object_relation'',
    ad_default_risk_level = Medium, ad_default_decision = RequireApproval, ad_audit_required = True,
    ad_approval_capability = (Some ''approve_knowledge_change''),
    ad_default_required_approver_role = (Some ''owner''),
    ad_current_enforcement_point = ''server/src/modules/proposals/applyService.ts via proposal.apply'',
    ad_lifecycle_status = WiredViaProposal, ad_record_failure_mode = BestEffort\<rparr>,
   \<lparr>ad_action = ''object_kind.create'', ad_resource_type = ''object_schema'',
    ad_default_risk_level = High, ad_default_decision = RequireApproval, ad_audit_required = True,
    ad_approval_capability = (Some ''approve_knowledge_change''),
    ad_default_required_approver_role = (Some ''admin''),
    ad_current_enforcement_point = ''server/src/modules/proposals/applyService.ts via proposal.apply'',
    ad_lifecycle_status = WiredViaProposal, ad_record_failure_mode = BestEffort\<rparr>,
   \<lparr>ad_action = ''object_kind.update'', ad_resource_type = ''object_schema'',
    ad_default_risk_level = High, ad_default_decision = RequireApproval, ad_audit_required = True,
    ad_approval_capability = (Some ''approve_knowledge_change''),
    ad_default_required_approver_role = (Some ''admin''),
    ad_current_enforcement_point = ''server/src/modules/proposals/applyService.ts via proposal.apply'',
    ad_lifecycle_status = WiredViaProposal, ad_record_failure_mode = BestEffort\<rparr>,
   \<lparr>ad_action = ''object_kind.deprecate'', ad_resource_type = ''object_schema'',
    ad_default_risk_level = High, ad_default_decision = RequireApproval, ad_audit_required = True,
    ad_approval_capability = (Some ''approve_knowledge_change''),
    ad_default_required_approver_role = (Some ''admin''),
    ad_current_enforcement_point = ''server/src/modules/proposals/applyService.ts via proposal.apply'',
    ad_lifecycle_status = WiredViaProposal, ad_record_failure_mode = BestEffort\<rparr>,
   \<lparr>ad_action = ''object_kind.archive'', ad_resource_type = ''object_schema'',
    ad_default_risk_level = High, ad_default_decision = RequireApproval, ad_audit_required = True,
    ad_approval_capability = (Some ''approve_knowledge_change''),
    ad_default_required_approver_role = (Some ''admin''),
    ad_current_enforcement_point = ''server/src/modules/proposals/applyService.ts via proposal.apply'',
    ad_lifecycle_status = WiredViaProposal, ad_record_failure_mode = BestEffort\<rparr>,
   \<lparr>ad_action = ''claim_candidate_packet'', ad_resource_type = ''proposal'',
    ad_default_risk_level = Medium, ad_default_decision = RequireApproval, ad_audit_required = True,
    ad_approval_capability = (Some ''approve_proposal''),
    ad_default_required_approver_role = (Some ''owner''),
    ad_current_enforcement_point = ''server/src/modules/proposals/applyService.ts via proposal.apply'',
    ad_lifecycle_status = WiredViaProposal, ad_record_failure_mode = BestEffort\<rparr>,
   \<lparr>ad_action = ''retrieval_maintenance_packet'', ad_resource_type = ''proposal'',
    ad_default_risk_level = Medium, ad_default_decision = RequireApproval, ad_audit_required = True,
    ad_approval_capability = (Some ''approve_proposal''),
    ad_default_required_approver_role = (Some ''owner''),
    ad_current_enforcement_point = ''server/src/modules/proposals/applyService.ts via proposal.apply'',
    ad_lifecycle_status = WiredViaProposal, ad_record_failure_mode = BestEffort\<rparr>
  ]"

definition registry_4 :: "action_definition list" where
  "registry_4 =
  [
   \<lparr>ad_action = ''memory_maintenance_packet'', ad_resource_type = ''proposal'',
    ad_default_risk_level = Medium, ad_default_decision = RequireApproval, ad_audit_required = True,
    ad_approval_capability = (Some ''approve_proposal''),
    ad_default_required_approver_role = (Some ''owner''),
    ad_current_enforcement_point = ''server/src/modules/proposals/applyService.ts via proposal.apply'',
    ad_lifecycle_status = WiredViaProposal, ad_record_failure_mode = BestEffort\<rparr>,
   \<lparr>ad_action = ''retrieval_diagnostics_packet'', ad_resource_type = ''proposal'',
    ad_default_risk_level = Medium, ad_default_decision = RequireApproval, ad_audit_required = True,
    ad_approval_capability = (Some ''approve_proposal''),
    ad_default_required_approver_role = (Some ''owner''),
    ad_current_enforcement_point = ''server/src/modules/proposals/applyService.ts via proposal.apply'',
    ad_lifecycle_status = WiredViaProposal, ad_record_failure_mode = BestEffort\<rparr>,
   \<lparr>ad_action = ''relation_discovery_packet'', ad_resource_type = ''proposal'',
    ad_default_risk_level = Medium, ad_default_decision = RequireApproval, ad_audit_required = True,
    ad_approval_capability = (Some ''approve_proposal''),
    ad_default_required_approver_role = (Some ''owner''),
    ad_current_enforcement_point = ''server/src/modules/proposals/applyService.ts via proposal.apply'',
    ad_lifecycle_status = WiredViaProposal, ad_record_failure_mode = BestEffort\<rparr>,
   \<lparr>ad_action = ''skill.import'', ad_resource_type = ''skill_package'',
    ad_default_risk_level = Medium, ad_default_decision = RequireApproval, ad_audit_required = True,
    ad_approval_capability = (Some ''approve_capability_change''),
    ad_default_required_approver_role = (Some ''owner''),
    ad_current_enforcement_point = ''server/src/modules/proposals/applyService.ts via proposal.apply'',
    ad_lifecycle_status = WiredViaProposal, ad_record_failure_mode = FailClosed\<rparr>,
   \<lparr>ad_action = ''skill.convert'', ad_resource_type = ''skill_package'',
    ad_default_risk_level = High, ad_default_decision = RequireApproval, ad_audit_required = True,
    ad_approval_capability = (Some ''approve_capability_change''),
    ad_default_required_approver_role = (Some ''owner''),
    ad_current_enforcement_point = ''server/src/modules/proposals/applyService.ts via proposal.apply'',
    ad_lifecycle_status = WiredViaProposal, ad_record_failure_mode = FailClosed\<rparr>,
   \<lparr>ad_action = ''capability.enable'', ad_resource_type = ''capability'',
    ad_default_risk_level = High, ad_default_decision = RequireApproval, ad_audit_required = True,
    ad_approval_capability = (Some ''approve_capability_change''),
    ad_default_required_approver_role = (Some ''owner''),
    ad_current_enforcement_point = ''server/src/modules/proposals/applyService.ts via proposal.apply'',
    ad_lifecycle_status = WiredViaProposal, ad_record_failure_mode = FailClosed\<rparr>,
   \<lparr>ad_action = ''capability.disable'', ad_resource_type = ''capability'',
    ad_default_risk_level = Medium, ad_default_decision = RequireApproval, ad_audit_required = True,
    ad_approval_capability = (Some ''approve_capability_change''),
    ad_default_required_approver_role = (Some ''owner''),
    ad_current_enforcement_point = ''server/src/modules/proposals/applyService.ts via proposal.apply'',
    ad_lifecycle_status = WiredViaProposal, ad_record_failure_mode = FailClosed\<rparr>,
   \<lparr>ad_action = ''capability.update'', ad_resource_type = ''capability'',
    ad_default_risk_level = High, ad_default_decision = RequireApproval, ad_audit_required = True,
    ad_approval_capability = (Some ''approve_capability_change''),
    ad_default_required_approver_role = (Some ''owner''),
    ad_current_enforcement_point = ''server/src/modules/proposals/applyService.ts via proposal.apply'',
    ad_lifecycle_status = WiredViaProposal, ad_record_failure_mode = FailClosed\<rparr>,
   \<lparr>ad_action = ''runtime_skill.binding_update'', ad_resource_type = ''runtime_skill_binding'',
    ad_default_risk_level = High, ad_default_decision = RequireApproval, ad_audit_required = True,
    ad_approval_capability = (Some ''approve_capability_change''),
    ad_default_required_approver_role = (Some ''owner''),
    ad_current_enforcement_point = ''server/src/modules/proposals/applyService.ts via proposal.apply'',
    ad_lifecycle_status = WiredViaProposal, ad_record_failure_mode = FailClosed\<rparr>
  ]"

definition registry_5 :: "action_definition list" where
  "registry_5 =
  [
   \<lparr>ad_action = ''context.use_personal_grant'', ad_resource_type = ''personal_memory_grant'',
    ad_default_risk_level = High, ad_default_decision = RequireApproval, ad_audit_required = True,
    ad_approval_capability = None,
    ad_default_required_approver_role = None,
    ad_current_enforcement_point = ''not_implemented'',
    ad_lifecycle_status = Reserved, ad_record_failure_mode = BestEffort\<rparr>,
   \<lparr>ad_action = ''workspace.read'', ad_resource_type = ''workspace'',
    ad_default_risk_level = Low, ad_default_decision = Allow, ad_audit_required = False,
    ad_approval_capability = None,
    ad_default_required_approver_role = None,
    ad_current_enforcement_point = ''server/src/modules/workspaces/routes.ts'',
    ad_lifecycle_status = WiredDirect, ad_record_failure_mode = BestEffort\<rparr>,
   \<lparr>ad_action = ''workspace.apply_patch'', ad_resource_type = ''workspace'',
    ad_default_risk_level = High, ad_default_decision = RequireApproval, ad_audit_required = True,
    ad_approval_capability = (Some ''approve_code_patch''),
    ad_default_required_approver_role = (Some ''owner''),
    ad_current_enforcement_point = ''not_implemented'',
    ad_lifecycle_status = Reserved, ad_record_failure_mode = BestEffort\<rparr>,
   \<lparr>ad_action = ''artifact.export'', ad_resource_type = ''artifact'',
    ad_default_risk_level = High, ad_default_decision = RequireApproval, ad_audit_required = True,
    ad_approval_capability = None,
    ad_default_required_approver_role = (Some ''owner''),
    ad_current_enforcement_point = ''not_implemented'',
    ad_lifecycle_status = Reserved, ad_record_failure_mode = BestEffort\<rparr>,
   \<lparr>ad_action = ''proposal.approve'', ad_resource_type = ''proposal'',
    ad_default_risk_level = Medium, ad_default_decision = RequireApproval, ad_audit_required = True,
    ad_approval_capability = (Some ''approve_proposal''),
    ad_default_required_approver_role = (Some ''owner''),
    ad_current_enforcement_point = ''not_implemented'',
    ad_lifecycle_status = Reserved, ad_record_failure_mode = BestEffort\<rparr>,
   \<lparr>ad_action = ''memory.read_private'', ad_resource_type = ''memory'',
    ad_default_risk_level = High, ad_default_decision = RequireApproval, ad_audit_required = True,
    ad_approval_capability = None,
    ad_default_required_approver_role = (Some ''owner''),
    ad_current_enforcement_point = ''not_implemented'',
    ad_lifecycle_status = Reserved, ad_record_failure_mode = BestEffort\<rparr>,
   \<lparr>ad_action = ''memory.promote_shared'', ad_resource_type = ''memory'',
    ad_default_risk_level = High, ad_default_decision = RequireApproval, ad_audit_required = True,
    ad_approval_capability = (Some ''approve_memory_change''),
    ad_default_required_approver_role = (Some ''owner''),
    ad_current_enforcement_point = ''not_implemented'',
    ad_lifecycle_status = Reserved, ad_record_failure_mode = BestEffort\<rparr>,
   \<lparr>ad_action = ''runtime_skill.render'', ad_resource_type = ''runtime_skill_binding'',
    ad_default_risk_level = Medium, ad_default_decision = RequireApproval, ad_audit_required = True,
    ad_approval_capability = (Some ''approve_capability_change''),
    ad_default_required_approver_role = (Some ''owner''),
    ad_current_enforcement_point = ''server/src/modules/context/prepareService.ts'',
    ad_lifecycle_status = WiredDirect, ad_record_failure_mode = BestEffort\<rparr>,
   \<lparr>ad_action = ''runtime_skill.execute'', ad_resource_type = ''runtime_skill_binding'',
    ad_default_risk_level = High, ad_default_decision = RequireApproval, ad_audit_required = True,
    ad_approval_capability = (Some ''approve_capability_change''),
    ad_default_required_approver_role = (Some ''owner''),
    ad_current_enforcement_point = ''not_implemented'',
    ad_lifecycle_status = Reserved, ad_record_failure_mode = BestEffort\<rparr>,
   \<lparr>ad_action = ''tool_binding.enable'', ad_resource_type = ''tool_binding'',
    ad_default_risk_level = High, ad_default_decision = RequireApproval, ad_audit_required = True,
    ad_approval_capability = (Some ''approve_tool_binding_change''),
    ad_default_required_approver_role = (Some ''owner''),
    ad_current_enforcement_point = ''not_implemented'',
    ad_lifecycle_status = Reserved, ad_record_failure_mode = BestEffort\<rparr>
  ]"

definition registry_6 :: "action_definition list" where
  "registry_6 =
  [
   \<lparr>ad_action = ''evidence.export'', ad_resource_type = ''evidence'',
    ad_default_risk_level = High, ad_default_decision = RequireApproval, ad_audit_required = True,
    ad_approval_capability = None,
    ad_default_required_approver_role = (Some ''owner''),
    ad_current_enforcement_point = ''not_implemented'',
    ad_lifecycle_status = Reserved, ad_record_failure_mode = BestEffort\<rparr>,
   \<lparr>ad_action = ''automation.create'', ad_resource_type = ''automation'',
    ad_default_risk_level = High, ad_default_decision = RequireApproval, ad_audit_required = True,
    ad_approval_capability = (Some ''approve_automation_change''),
    ad_default_required_approver_role = (Some ''owner''),
    ad_current_enforcement_point = ''server/src/modules/automations/service.ts'',
    ad_lifecycle_status = WiredDirect, ad_record_failure_mode = FailClosed\<rparr>,
   \<lparr>ad_action = ''automation.fire'', ad_resource_type = ''automation'',
    ad_default_risk_level = Medium, ad_default_decision = RequireApproval, ad_audit_required = True,
    ad_approval_capability = None,
    ad_default_required_approver_role = (Some ''owner''),
    ad_current_enforcement_point = ''server/src/modules/automations/service.ts'',
    ad_lifecycle_status = WiredDirect, ad_record_failure_mode = FailClosed\<rparr>,
   \<lparr>ad_action = ''automation.update'', ad_resource_type = ''automation'',
    ad_default_risk_level = High, ad_default_decision = RequireApproval, ad_audit_required = True,
    ad_approval_capability = (Some ''approve_automation_change''),
    ad_default_required_approver_role = (Some ''owner''),
    ad_current_enforcement_point = ''server/src/modules/automations/service.ts'',
    ad_lifecycle_status = WiredDirect, ad_record_failure_mode = FailClosed\<rparr>,
   \<lparr>ad_action = ''source.connection.manage'', ad_resource_type = ''source_connection'',
    ad_default_risk_level = Medium, ad_default_decision = Allow, ad_audit_required = True,
    ad_approval_capability = None,
    ad_default_required_approver_role = None,
    ad_current_enforcement_point = ''server/src/modules/sources/routes.ts'',
    ad_lifecycle_status = WiredDirect, ad_record_failure_mode = BestEffort\<rparr>,
   \<lparr>ad_action = ''source.item_create'', ad_resource_type = ''source_item'',
    ad_default_risk_level = Low, ad_default_decision = Allow, ad_audit_required = True,
    ad_approval_capability = None,
    ad_default_required_approver_role = None,
    ad_current_enforcement_point = ''server/src/modules/sources/routes.ts'',
    ad_lifecycle_status = WiredDirect, ad_record_failure_mode = BestEffort\<rparr>,
   \<lparr>ad_action = ''source.item_update'', ad_resource_type = ''source_item'',
    ad_default_risk_level = Low, ad_default_decision = Allow, ad_audit_required = True,
    ad_approval_capability = None,
    ad_default_required_approver_role = None,
    ad_current_enforcement_point = ''server/src/modules/sources/routes.ts'',
    ad_lifecycle_status = WiredDirect, ad_record_failure_mode = BestEffort\<rparr>,
   \<lparr>ad_action = ''evidence.create'', ad_resource_type = ''evidence'',
    ad_default_risk_level = Low, ad_default_decision = Allow, ad_audit_required = True,
    ad_approval_capability = None,
    ad_default_required_approver_role = None,
    ad_current_enforcement_point = ''server/src/modules/sources/routes.ts'',
    ad_lifecycle_status = WiredDirect, ad_record_failure_mode = BestEffort\<rparr>,
   \<lparr>ad_action = ''evidence.update'', ad_resource_type = ''evidence'',
    ad_default_risk_level = Low, ad_default_decision = Allow, ad_audit_required = True,
    ad_approval_capability = None,
    ad_default_required_approver_role = None,
    ad_current_enforcement_point = ''server/src/modules/sources/routes.ts'',
    ad_lifecycle_status = WiredDirect, ad_record_failure_mode = BestEffort\<rparr>,
   \<lparr>ad_action = ''evidence.link'', ad_resource_type = ''evidence'',
    ad_default_risk_level = Low, ad_default_decision = Allow, ad_audit_required = True,
    ad_approval_capability = None,
    ad_default_required_approver_role = None,
    ad_current_enforcement_point = ''server/src/modules/sources/routes.ts'',
    ad_lifecycle_status = WiredDirect, ad_record_failure_mode = BestEffort\<rparr>
  ]"

definition registry_7 :: "action_definition list" where
  "registry_7 =
  [
   \<lparr>ad_action = ''source.custom.create'', ad_resource_type = ''source_connection'',
    ad_default_risk_level = Medium, ad_default_decision = Allow, ad_audit_required = True,
    ad_approval_capability = None,
    ad_default_required_approver_role = None,
    ad_current_enforcement_point = ''server/src/modules/sources/routes.ts'',
    ad_lifecycle_status = WiredDirect, ad_record_failure_mode = BestEffort\<rparr>,
   \<lparr>ad_action = ''source.custom.generate'', ad_resource_type = ''source_connection'',
    ad_default_risk_level = Medium, ad_default_decision = Allow, ad_audit_required = True,
    ad_approval_capability = None,
    ad_default_required_approver_role = None,
    ad_current_enforcement_point = ''server/src/modules/sources/routes.ts'',
    ad_lifecycle_status = WiredDirect, ad_record_failure_mode = BestEffort\<rparr>,
   \<lparr>ad_action = ''source.custom.test'', ad_resource_type = ''source_connection'',
    ad_default_risk_level = Low, ad_default_decision = Allow, ad_audit_required = True,
    ad_approval_capability = None,
    ad_default_required_approver_role = None,
    ad_current_enforcement_point = ''server/src/modules/sources/routes.ts'',
    ad_lifecycle_status = WiredDirect, ad_record_failure_mode = BestEffort\<rparr>,
   \<lparr>ad_action = ''source.custom.activate'', ad_resource_type = ''source_connection'',
    ad_default_risk_level = Medium, ad_default_decision = Allow, ad_audit_required = True,
    ad_approval_capability = None,
    ad_default_required_approver_role = None,
    ad_current_enforcement_point = ''server/src/modules/sources/routes.ts'',
    ad_lifecycle_status = WiredDirect, ad_record_failure_mode = BestEffort\<rparr>,
   \<lparr>ad_action = ''source.custom.repair'', ad_resource_type = ''source_connection'',
    ad_default_risk_level = Medium, ad_default_decision = Allow, ad_audit_required = True,
    ad_approval_capability = None,
    ad_default_required_approver_role = None,
    ad_current_enforcement_point = ''server/src/modules/sources/customSourceRoutes.ts'',
    ad_lifecycle_status = WiredDirect, ad_record_failure_mode = BestEffort\<rparr>,
   \<lparr>ad_action = ''source.custom.rollback'', ad_resource_type = ''source_connection'',
    ad_default_risk_level = Medium, ad_default_decision = Allow, ad_audit_required = True,
    ad_approval_capability = None,
    ad_default_required_approver_role = None,
    ad_current_enforcement_point = ''server/src/modules/sources/customSourceRoutes.ts'',
    ad_lifecycle_status = WiredDirect, ad_record_failure_mode = BestEffort\<rparr>,
   \<lparr>ad_action = ''source.custom.credential_create'', ad_resource_type = ''custom_source_credential'',
    ad_default_risk_level = High, ad_default_decision = Allow, ad_audit_required = True,
    ad_approval_capability = None,
    ad_default_required_approver_role = None,
    ad_current_enforcement_point = ''server/src/modules/sources/customSourceRoutes.ts'',
    ad_lifecycle_status = WiredDirect, ad_record_failure_mode = BestEffort\<rparr>,
   \<lparr>ad_action = ''source.recipe.create'', ad_resource_type = ''source_connection'',
    ad_default_risk_level = Medium, ad_default_decision = Allow, ad_audit_required = True,
    ad_approval_capability = None,
    ad_default_required_approver_role = None,
    ad_current_enforcement_point = ''server/src/modules/sources/sourceRecipeRoutes.ts'',
    ad_lifecycle_status = WiredDirect, ad_record_failure_mode = BestEffort\<rparr>,
   \<lparr>ad_action = ''source.recipe.activate'', ad_resource_type = ''source_connection'',
    ad_default_risk_level = Medium, ad_default_decision = Allow, ad_audit_required = True,
    ad_approval_capability = None,
    ad_default_required_approver_role = None,
    ad_current_enforcement_point = ''server/src/modules/sources/sourceRecipeRoutes.ts'',
    ad_lifecycle_status = WiredDirect, ad_record_failure_mode = BestEffort\<rparr>,
   \<lparr>ad_action = ''source.recipe.dry_run'', ad_resource_type = ''source_connection'',
    ad_default_risk_level = Low, ad_default_decision = Allow, ad_audit_required = True,
    ad_approval_capability = None,
    ad_default_required_approver_role = None,
    ad_current_enforcement_point = ''server/src/modules/sources/sourceRecipeRoutes.ts'',
    ad_lifecycle_status = WiredDirect, ad_record_failure_mode = BestEffort\<rparr>
  ]"

definition registry_8 :: "action_definition list" where
  "registry_8 =
  [
   \<lparr>ad_action = ''source.custom.settings_update'', ad_resource_type = ''custom_source_settings'',
    ad_default_risk_level = Medium, ad_default_decision = Allow, ad_audit_required = True,
    ad_approval_capability = None,
    ad_default_required_approver_role = None,
    ad_current_enforcement_point = ''server/src/modules/sources/routes.ts'',
    ad_lifecycle_status = WiredDirect, ad_record_failure_mode = BestEffort\<rparr>,
   \<lparr>ad_action = ''project.source.bind'', ad_resource_type = ''project_source'',
    ad_default_risk_level = Medium, ad_default_decision = Allow, ad_audit_required = True,
    ad_approval_capability = None,
    ad_default_required_approver_role = None,
    ad_current_enforcement_point = ''server/src/modules/projects/routes.ts'',
    ad_lifecycle_status = WiredDirect, ad_record_failure_mode = BestEffort\<rparr>,
   \<lparr>ad_action = ''project.operation.manage'', ad_resource_type = ''project_operation'',
    ad_default_risk_level = Low, ad_default_decision = Allow, ad_audit_required = True,
    ad_approval_capability = None,
    ad_default_required_approver_role = None,
    ad_current_enforcement_point = ''server/src/modules/projects/routes.ts'',
    ad_lifecycle_status = WiredDirect, ad_record_failure_mode = BestEffort\<rparr>,
   \<lparr>ad_action = ''context.select_evidence'', ad_resource_type = ''evidence'',
    ad_default_risk_level = Low, ad_default_decision = Allow, ad_audit_required = False,
    ad_approval_capability = None,
    ad_default_required_approver_role = None,
    ad_current_enforcement_point = ''server/src/modules/context/prepareService.ts'',
    ad_lifecycle_status = WiredDirect, ad_record_failure_mode = BestEffort\<rparr>,
   \<lparr>ad_action = ''retrieval.search'', ad_resource_type = ''retrieval_tool'',
    ad_default_risk_level = Low, ad_default_decision = Deny, ad_audit_required = True,
    ad_approval_capability = None,
    ad_default_required_approver_role = None,
    ad_current_enforcement_point = ''server/src/modules/retrieval/tool/service.ts, server/src/modules/runs/managedRetrievalTools.ts'',
    ad_lifecycle_status = WiredDirect, ad_record_failure_mode = FailClosed\<rparr>,
   \<lparr>ad_action = ''retrieval.brief'', ad_resource_type = ''retrieval_tool'',
    ad_default_risk_level = Low, ad_default_decision = Deny, ad_audit_required = True,
    ad_approval_capability = None,
    ad_default_required_approver_role = None,
    ad_current_enforcement_point = ''server/src/modules/retrieval/tool/service.ts, server/src/modules/runs/managedRetrievalTools.ts'',
    ad_lifecycle_status = WiredDirect, ad_record_failure_mode = FailClosed\<rparr>,
   \<lparr>ad_action = ''memory.retrieval.search'', ad_resource_type = ''retrieval_tool'',
    ad_default_risk_level = Low, ad_default_decision = Deny, ad_audit_required = True,
    ad_approval_capability = None,
    ad_default_required_approver_role = None,
    ad_current_enforcement_point = ''server/src/modules/retrieval/tool/service.ts, server/src/modules/runs/managedRetrievalTools.ts'',
    ad_lifecycle_status = WiredDirect, ad_record_failure_mode = FailClosed\<rparr>,
   \<lparr>ad_action = ''memory.retrieval.brief'', ad_resource_type = ''retrieval_tool'',
    ad_default_risk_level = Low, ad_default_decision = Deny, ad_audit_required = True,
    ad_approval_capability = None,
    ad_default_required_approver_role = None,
    ad_current_enforcement_point = ''server/src/modules/retrieval/tool/service.ts, server/src/modules/runs/managedRetrievalTools.ts'',
    ad_lifecycle_status = WiredDirect, ad_record_failure_mode = FailClosed\<rparr>,
   \<lparr>ad_action = ''project.summary.search'', ad_resource_type = ''retrieval_tool'',
    ad_default_risk_level = Low, ad_default_decision = Deny, ad_audit_required = True,
    ad_approval_capability = None,
    ad_default_required_approver_role = None,
    ad_current_enforcement_point = ''server/src/modules/retrieval/tool/service.ts, server/src/modules/runs/managedRetrievalTools.ts'',
    ad_lifecycle_status = WiredDirect, ad_record_failure_mode = FailClosed\<rparr>,
   \<lparr>ad_action = ''project.summary.brief'', ad_resource_type = ''retrieval_tool'',
    ad_default_risk_level = Low, ad_default_decision = Deny, ad_audit_required = True,
    ad_approval_capability = None,
    ad_default_required_approver_role = None,
    ad_current_enforcement_point = ''server/src/modules/retrieval/tool/service.ts, server/src/modules/runs/managedRetrievalTools.ts'',
    ad_lifecycle_status = WiredDirect, ad_record_failure_mode = FailClosed\<rparr>
  ]"

definition registry_9 :: "action_definition list" where
  "registry_9 =
  [
   \<lparr>ad_action = ''source.retrieval.search'', ad_resource_type = ''retrieval_tool'',
    ad_default_risk_level = Low, ad_default_decision = Deny, ad_audit_required = True,
    ad_approval_capability = None,
    ad_default_required_approver_role = None,
    ad_current_enforcement_point = ''server/src/modules/retrieval/tool/service.ts, server/src/modules/runs/managedRetrievalTools.ts'',
    ad_lifecycle_status = WiredDirect, ad_record_failure_mode = FailClosed\<rparr>,
   \<lparr>ad_action = ''source.retrieval.brief'', ad_resource_type = ''retrieval_tool'',
    ad_default_risk_level = Low, ad_default_decision = Deny, ad_audit_required = True,
    ad_approval_capability = None,
    ad_default_required_approver_role = None,
    ad_current_enforcement_point = ''server/src/modules/retrieval/tool/service.ts, server/src/modules/runs/managedRetrievalTools.ts'',
    ad_lifecycle_status = WiredDirect, ad_record_failure_mode = FailClosed\<rparr>,
   \<lparr>ad_action = ''deployment.propose'', ad_resource_type = ''deployment'',
    ad_default_risk_level = High, ad_default_decision = RequireApproval, ad_audit_required = True,
    ad_approval_capability = (Some ''approve_deployment''),
    ad_default_required_approver_role = (Some ''owner''),
    ad_current_enforcement_point = ''not_implemented'',
    ad_lifecycle_status = Reserved, ad_record_failure_mode = BestEffort\<rparr>,
   \<lparr>ad_action = ''deployment.execute'', ad_resource_type = ''deployment'',
    ad_default_risk_level = Critical, ad_default_decision = RequireApproval, ad_audit_required = True,
    ad_approval_capability = (Some ''approve_deployment''),
    ad_default_required_approver_role = (Some ''owner''),
    ad_current_enforcement_point = ''not_implemented'',
    ad_lifecycle_status = Reserved, ad_record_failure_mode = BestEffort\<rparr>,
   \<lparr>ad_action = ''policy.action_grant.create'', ad_resource_type = ''action_approval_grant'',
    ad_default_risk_level = High, ad_default_decision = Allow, ad_audit_required = True,
    ad_approval_capability = (Some ''manage_action_grants''),
    ad_default_required_approver_role = (Some ''owner''),
    ad_current_enforcement_point = ''server/src/modules/policy/actionApprovalGrantService.ts'',
    ad_lifecycle_status = WiredDirect, ad_record_failure_mode = FailClosed\<rparr>,
   \<lparr>ad_action = ''source.connection.activate'', ad_resource_type = ''source_connection'',
    ad_default_risk_level = High, ad_default_decision = RequireApproval, ad_audit_required = True,
    ad_approval_capability = (Some ''approve_source_connection''),
    ad_default_required_approver_role = (Some ''owner''),
    ad_current_enforcement_point = ''server/src/modules/proposals/applyService.ts via source_connection_create'',
    ad_lifecycle_status = WiredViaProposal, ad_record_failure_mode = FailClosed\<rparr>,
   \<lparr>ad_action = ''policy.action_grant.revoke'', ad_resource_type = ''action_approval_grant'',
    ad_default_risk_level = High, ad_default_decision = Allow, ad_audit_required = True,
    ad_approval_capability = (Some ''manage_action_grants''),
    ad_default_required_approver_role = (Some ''owner''),
    ad_current_enforcement_point = ''server/src/modules/policy/actionApprovalGrantService.ts'',
    ad_lifecycle_status = WiredDirect, ad_record_failure_mode = FailClosed\<rparr>,
   \<lparr>ad_action = ''source.backfill.plan'', ad_resource_type = ''source_backfill_plan'',
    ad_default_risk_level = Medium, ad_default_decision = Allow, ad_audit_required = True,
    ad_approval_capability = None,
    ad_default_required_approver_role = None,
    ad_current_enforcement_point = ''server/src/modules/sources/sourceBackfillService.ts'',
    ad_lifecycle_status = WiredDirect, ad_record_failure_mode = FailClosed\<rparr>,
   \<lparr>ad_action = ''source.backfill.start'', ad_resource_type = ''source_backfill_plan'',
    ad_default_risk_level = High, ad_default_decision = RequireApproval, ad_audit_required = True,
    ad_approval_capability = (Some ''approve_source_backfill''),
    ad_default_required_approver_role = (Some ''owner''),
    ad_current_enforcement_point = ''server/src/modules/sources/sourceBackfillProposalApplier.ts'',
    ad_lifecycle_status = WiredViaProposal, ad_record_failure_mode = FailClosed\<rparr>,
   \<lparr>ad_action = ''source.backfill.manage'', ad_resource_type = ''source_backfill_plan'',
    ad_default_risk_level = Medium, ad_default_decision = Allow, ad_audit_required = True,
    ad_approval_capability = None,
    ad_default_required_approver_role = None,
    ad_current_enforcement_point = ''server/src/modules/sources/routes.ts'',
    ad_lifecycle_status = WiredDirect, ad_record_failure_mode = FailClosed\<rparr>,
   \<lparr>ad_action = ''task.plan.propose'', ad_resource_type = ''plan'',
    ad_default_risk_level = Medium, ad_default_decision = Allow, ad_audit_required = True,
    ad_approval_capability = None,
    ad_default_required_approver_role = None,
    ad_current_enforcement_point = ''server/src/modules/systemActions/agentToolGateway.ts'',
    ad_lifecycle_status = WiredDirect, ad_record_failure_mode = FailClosed\<rparr>
  ]"

definition policy_action_registry :: "action_definition list" where
  "policy_action_registry =
     concat [registry_1, registry_2, registry_3, registry_4, registry_5, registry_6, registry_7,
             registry_8, registry_9]"

section \<open>Access\<close>

text \<open>
  A registry is the map \<open>loadActionRegistry\<close> builds: \<open>map.set(def.action, def)\<close> for each definition
  in order, so a later definition of an action replaces an earlier one.
\<close>

type_synonym registry = "string \<rightharpoonup> action_definition"

definition index_registry :: "action_definition list \<Rightarrow> registry" where
  "index_registry defs = fold (\<lambda>d m. m(ad_action d \<mapsto> d)) defs Map.empty"

definition loadActionRegistry :: registry where
  "loadActionRegistry = index_registry policy_action_registry"

definition getActionDefinition :: "registry \<Rightarrow> string \<Rightarrow> action_definition option" where
  "getActionDefinition reg action = reg action"

datatype policy_error = UnknownPolicyActionError string | ProposalRiskLevelError string

definition requireActionDefinition :: "registry \<Rightarrow> string \<Rightarrow> policy_error + action_definition" where
  "requireActionDefinition reg action =
     (case reg action of None \<Rightarrow> Inl (UnknownPolicyActionError action) | Some d \<Rightarrow> Inr d)"

section \<open>The action names\<close>

lemma registry_actions_1: "map ad_action registry_1 =
  [''runtime.execute'', ''run.spawn_child'', ''runtime.use_credential'',
   ''context.inject_memory'', ''context.render_for_runtime'', ''workspace.write_patch'',
   ''artifact.persist'', ''proposal.create'', ''proposal.apply'', ''agent.config_update'']"
  by (simp add: registry_1_def)

lemma registry_actions_2: "map ad_action registry_2 =
  [''memory.create'', ''memory.update'', ''memory.archive'', ''policy.change'',
   ''knowledge.create'', ''knowledge.update'', ''knowledge.archive'', ''claim.create'',
   ''claim.update'']"
  by (simp add: registry_2_def)

lemma registry_actions_3: "map ad_action registry_3 =
  [''claim.archive'', ''object_relation.create'', ''object_relation.delete'',
   ''object_kind.create'', ''object_kind.update'', ''object_kind.deprecate'',
   ''object_kind.archive'', ''claim_candidate_packet'', ''retrieval_maintenance_packet'']"
  by (simp add: registry_3_def)

lemma registry_actions_4: "map ad_action registry_4 =
  [''memory_maintenance_packet'', ''retrieval_diagnostics_packet'',
   ''relation_discovery_packet'', ''skill.import'', ''skill.convert'', ''capability.enable'',
   ''capability.disable'', ''capability.update'', ''runtime_skill.binding_update'']"
  by (simp add: registry_4_def)

lemma registry_actions_5: "map ad_action registry_5 =
  [''context.use_personal_grant'', ''workspace.read'', ''workspace.apply_patch'',
   ''artifact.export'', ''proposal.approve'', ''memory.read_private'',
   ''memory.promote_shared'', ''runtime_skill.render'', ''runtime_skill.execute'',
   ''tool_binding.enable'']"
  by (simp add: registry_5_def)

lemma registry_actions_6: "map ad_action registry_6 =
  [''evidence.export'', ''automation.create'', ''automation.fire'', ''automation.update'',
   ''source.connection.manage'', ''source.item_create'', ''source.item_update'',
   ''evidence.create'', ''evidence.update'', ''evidence.link'']"
  by (simp add: registry_6_def)

lemma registry_actions_7: "map ad_action registry_7 =
  [''source.custom.create'', ''source.custom.generate'', ''source.custom.test'',
   ''source.custom.activate'', ''source.custom.repair'', ''source.custom.rollback'',
   ''source.custom.credential_create'', ''source.recipe.create'', ''source.recipe.activate'',
   ''source.recipe.dry_run'']"
  by (simp add: registry_7_def)

lemma registry_actions_8: "map ad_action registry_8 =
  [''source.custom.settings_update'', ''project.source.bind'', ''project.operation.manage'',
   ''context.select_evidence'', ''retrieval.search'', ''retrieval.brief'',
   ''memory.retrieval.search'', ''memory.retrieval.brief'', ''project.summary.search'',
   ''project.summary.brief'']"
  by (simp add: registry_8_def)

lemma registry_actions_9: "map ad_action registry_9 =
  [''source.retrieval.search'', ''source.retrieval.brief'', ''deployment.propose'',
   ''deployment.execute'', ''policy.action_grant.create'', ''source.connection.activate'',
   ''policy.action_grant.revoke'', ''source.backfill.plan'', ''source.backfill.start'',
   ''source.backfill.manage'', ''task.plan.propose'']"
  by (simp add: registry_9_def)

lemmas registry_actions =
  registry_actions_1 registry_actions_2 registry_actions_3 registry_actions_4 registry_actions_5
  registry_actions_6 registry_actions_7 registry_actions_8 registry_actions_9

lemma set_policy_action_registry:
  "set policy_action_registry =
     set registry_1 \<union> set registry_2 \<union> set registry_3 \<union> set registry_4 \<union> set registry_5 \<union>
     set registry_6 \<union> set registry_7 \<union> set registry_8 \<union> set registry_9"
  by (simp add: policy_action_registry_def Un_assoc)

lemma ball_policy_action_registry:
  "(\<forall>d \<in> set policy_action_registry. P d) \<longleftrightarrow>
     list_all P registry_1 \<and> list_all P registry_2 \<and> list_all P registry_3 \<and> list_all P registry_4 \<and>
     list_all P registry_5 \<and> list_all P registry_6 \<and> list_all P registry_7 \<and> list_all P registry_8 \<and>
     list_all P registry_9"
  by (auto simp: set_policy_action_registry list_all_iff)

lemma distinct_registry_actions: "distinct (map ad_action policy_action_registry)"
  by (simp add: policy_action_registry_def registry_actions)

lemma index_registry_append:
  "fold (\<lambda>d m. m(ad_action d \<mapsto> d)) defs m0 a =
     (case index_registry defs a of None \<Rightarrow> m0 a | Some d \<Rightarrow> Some d)"
proof (induction defs arbitrary: m0 rule: rev_induct)
  case (snoc d defs)
  then show ?case by (simp add: index_registry_def)
qed (simp add: index_registry_def)

lemma index_registry_SomeD: "index_registry defs a = Some d \<Longrightarrow> d \<in> set defs \<and> ad_action d = a"
  by (induction defs rule: rev_induct) (auto simp: index_registry_def split: if_splits)

lemma index_registry_complete:
  "distinct (map ad_action defs) \<Longrightarrow> d \<in> set defs \<Longrightarrow> index_registry defs (ad_action d) = Some d"
proof (induction defs rule: rev_induct)
  case (snoc e defs)
  show ?case
  proof (cases "d = e")
    case True
    then show ?thesis by (simp add: index_registry_def)
  next
    case False
    with snoc.prems(2) have d: "d \<in> set defs" by simp
    then have "ad_action d \<in> ad_action ` set defs" by (rule imageI)
    with snoc.prems(1) have "ad_action d \<noteq> ad_action e" by (cases "ad_action d = ad_action e") simp_all
    with snoc d show ?thesis by (simp add: index_registry_def)
  qed
qed simp

lemma loadActionRegistry_iff:
  "loadActionRegistry a = Some d \<longleftrightarrow> d \<in> set policy_action_registry \<and> ad_action d = a"
  unfolding loadActionRegistry_def
  using index_registry_SomeD index_registry_complete [OF distinct_registry_actions] by metis

section \<open>What the registry promises\<close>

text \<open>
  The fail-closed shape of the data: a fail-closed entry is audited, an entry that is not wired to
  a direct enforcement point never defaults to allow, a reserved entry has no enforcement point,
  an unaudited entry is a low-risk allowed read, and only \<open>run.spawn_child\<close> and
  \<open>context.use_personal_grant\<close> ask for approval without naming who approves.
\<close>

definition registry_entry_ok :: "action_definition \<Rightarrow> bool" where
  "registry_entry_ok d \<longleftrightarrow>
     (ad_record_failure_mode d = FailClosed \<longrightarrow> ad_audit_required d) \<and>
     (ad_lifecycle_status d \<noteq> WiredDirect \<longrightarrow> ad_default_decision d = RequireApproval) \<and>
     (ad_lifecycle_status d = Reserved \<longleftrightarrow> ad_current_enforcement_point d = ''not_implemented'') \<and>
     (\<not> ad_audit_required d \<longrightarrow> ad_default_decision d = Allow \<and> ad_default_risk_level d = Low) \<and>
     (ad_default_decision d = RequireApproval \<and> ad_default_required_approver_role d = None \<longrightarrow>
        ad_action d \<in> {''run.spawn_child'', ''context.use_personal_grant''})"

lemma registry_ok_1: "list_all registry_entry_ok registry_1"
  by (simp add: registry_1_def registry_entry_ok_def)

lemma registry_ok_2: "list_all registry_entry_ok registry_2"
  by (simp add: registry_2_def registry_entry_ok_def)

lemma registry_ok_3: "list_all registry_entry_ok registry_3"
  by (simp add: registry_3_def registry_entry_ok_def)

lemma registry_ok_4: "list_all registry_entry_ok registry_4"
  by (simp add: registry_4_def registry_entry_ok_def)

lemma registry_ok_5: "list_all registry_entry_ok registry_5"
  by (simp add: registry_5_def registry_entry_ok_def)

lemma registry_ok_6: "list_all registry_entry_ok registry_6"
  by (simp add: registry_6_def registry_entry_ok_def)

lemma registry_ok_7: "list_all registry_entry_ok registry_7"
  by (simp add: registry_7_def registry_entry_ok_def)

lemma registry_ok_8: "list_all registry_entry_ok registry_8"
  by (simp add: registry_8_def registry_entry_ok_def)

lemma registry_ok_9: "list_all registry_entry_ok registry_9"
  by (simp add: registry_9_def registry_entry_ok_def)

lemma registry_all_ok: "d \<in> set policy_action_registry \<Longrightarrow> registry_entry_ok d"
  using ball_policy_action_registry [of registry_entry_ok]
    registry_ok_1 registry_ok_2 registry_ok_3 registry_ok_4 registry_ok_5 registry_ok_6
    registry_ok_7 registry_ok_8 registry_ok_9
  by blast

section \<open>Properties\<close>

text \<open>
  The shipped registry lists 88 actions, each once, and every entry fails closed: a
  fail-closed entry is audited, an entry not wired to a direct enforcement point defaults to
  approval, a reserved one has no enforcement point, an unaudited one is a low-risk allowed read, and
  an entry that asks for approval names the approving role, two excepted.
\<close>

theorem registry_fail_closed:
  "length policy_action_registry = 88 \<and> distinct (map ad_action policy_action_registry) \<and>
   list_all registry_entry_ok policy_action_registry"
proof -
  have "length (map ad_action policy_action_registry) = 88"
    by (simp add: policy_action_registry_def registry_actions)
  then show ?thesis
    using distinct_registry_actions registry_all_ok by (simp add: list_all_iff)
qed

end
