(* ===== verification/PolicyRules.thy ===== *)
theory PolicyRules
  imports PolicyRegistry
begin

text \<open>
  The policy decision core, \<open>policy/decisionCore.ts\<close>: the role ranks, the six hard invariants, the
  eleven built-in rules and \<open>engineCheck\<close>. A context is an untyped object; each guard or rule is a
  function from it to an optional decision, and the first answer wins.
\<close>

section \<open>Roles\<close>

definition CANONICAL_ROLES :: "string list" where
  "CANONICAL_ROLES = [''guest'', ''member'', ''reviewer'', ''admin'', ''owner'']"

definition ROLE_RANK :: "string \<rightharpoonup> nat" where
  "ROLE_RANK = map_of (zip CANONICAL_ROLES [0, 1, 2, 3, 4])"

definition normalizeRole :: "string \<Rightarrow> string" where
  "normalizeRole raw =
     (if raw = [] then ''guest''
      else let lower = to_lower (trim raw)
           in if ROLE_RANK lower \<noteq> None then lower else ''guest'')"

definition roleRank :: "string \<Rightarrow> nat" where
  "roleRank role = (case ROLE_RANK (normalizeRole role) of None \<Rightarrow> 0 | Some n \<Rightarrow> n)"

definition hasRoleAtLeast :: "string \<Rightarrow> string \<Rightarrow> bool" where
  "hasRoleAtLeast role required \<longleftrightarrow> roleRank required \<le> roleRank role"

section \<open>Hard invariants\<close>

definition PERSISTENCE_ACTIONS :: "string list" where
  "PERSISTENCE_ACTIONS =
     [''artifact.persist'', ''memory.create'', ''memory.update'', ''memory.archive'',
      ''workspace.write_patch'', ''proposal.create'', ''proposal.apply'', ''policy.change'',
      ''capability.enable'', ''capability.update'', ''tool_binding.enable'',
      ''automation.create'', ''automation.fire'', ''automation.update'',
      ''deployment.propose'', ''deployment.execute'']"

definition APPROVAL_PROOF_FLAGS :: "string list" where
  "APPROVAL_PROOF_FLAGS =
     [''approved_by_user'', ''approved_by_granting_user'', ''approval_status'', ''is_approved'',
      ''auto_approved'', ''pre_approved'']"

definition EGRESS_SENSITIVE_ACTIONS :: "string list" where
  "EGRESS_SENSITIVE_ACTIONS =
     [''artifact.export'', ''artifact.persist'', ''proposal.apply'', ''context.use_personal_grant'']"

definition MEMORY_READ_ACTIONS :: "string list" where
  "MEMORY_READ_ACTIONS = [''context.inject_memory'', ''context.use_personal_grant'']"

type_synonym guard = "jsobj \<Rightarrow> policy_decision option"

definition action_of :: "jsobj \<Rightarrow> string" where
  "action_of ctx = str (get ctx ''action'')"

text \<open>The fields every hard invariant sets: a critical denial with one code in three places.\<close>

definition invariant_denial :: "string \<Rightarrow> string \<Rightarrow> string \<Rightarrow> string \<Rightarrow> jsval \<Rightarrow> policy_decision" where
  "invariant_denial msg code audit action space =
     (makeDecision Deny msg)
       \<lparr>pd_risk_level := Critical, pd_reason_code := Some code, pd_policy_rule_id := Some code,
        pd_policy_source := ''hard_invariant'', pd_audit_code := Some audit,
        pd_action := JStr action, pd_space_id := space\<rparr>"

definition crossSpaceMemoryRead :: guard where
  "crossSpaceMemoryRead ctx =
     (let action = action_of ctx;
          spaceId = get ctx ''space_id'';
          resourceSpaceId = get ctx ''resource_space_id''
      in if action \<notin> set MEMORY_READ_ACTIONS \<and> action \<noteq> ''context.render_for_runtime'' then None
         else if \<not> truthy spaceId \<or> \<not> truthy resourceSpaceId then None
         else if strict_eq spaceId resourceSpaceId then None
         else if get ctx ''has_personal_memory_grant'' = JBool True then None
         else Some ((invariant_denial
                (''Cross-space memory read denied: requesting_space='' @ pyRepr (to_string spaceId) @
                 '', resource_space='' @ pyRepr (to_string resourceSpaceId) @
                 ''. A PersonalMemoryGrant is required for cross-space personal memory access.'')
                ''hard_invariant_cross_space_memory'' ''cross_space_memory_denied'' action
                (if str spaceId \<noteq> [] then JStr (str spaceId) else JNull))
              \<lparr>pd_resource_type := coalesce (get ctx ''resource_type'') JNull\<rparr>))"

definition personalContextBlockNotPersisted :: guard where
  "personalContextBlockNotPersisted ctx =
     (let action = action_of ctx
      in if action \<notin> set PERSISTENCE_ACTIONS then None
         else if has_key (record_or_empty (get ctx ''metadata_json'')) ''personal_context_block''
               \<or> has_key (record_or_empty (get ctx ''context'')) ''personal_context_block''
         then Some (invariant_denial
                (''personal_context_block must never be persisted. It is ephemeral and may '' @
                 ''only be used for runtime reasoning.'')
                ''hard_invariant_personal_context_not_persisted''
                ''personal_context_block_persist_attempt'' action
                (coalesce (get ctx ''space_id'') JNull))
         else None)"

definition rawPrivateMemoryBlocksEgress :: guard where
  "rawPrivateMemoryBlocksEgress ctx =
     (let action = action_of ctx;
          rawPrivate =
            get ctx ''raw_private_memory_included'' = JBool True \<or>
            (case asRecord (get ctx ''context'') of
               None \<Rightarrow> False
             | Some context \<Rightarrow> get context ''raw_private_memory_included'' = JBool True)
      in if action \<notin> set EGRESS_SENSITIVE_ACTIONS then None
         else if rawPrivate
         then Some (invariant_denial
                (''raw_private_memory_included=true blocks all egress. Private memory content '' @
                 ''must never leave the personal space context.'')
                ''hard_invariant_raw_private_memory_egress''
                ''raw_private_memory_egress_blocked'' action
                (coalesce (get ctx ''space_id'') JNull))
         else None)"

definition publicTargetBlocksGrantDerived :: guard where
  "publicTargetBlocksGrantDerived ctx =
     (let action = action_of ctx
      in if action \<notin> set EGRESS_SENSITIVE_ACTIONS then None
         else if get ctx ''derived_from_personal_memory_grant'' \<noteq> JBool True then None
         else if to_lower (str (get ctx ''target_visibility'')) = ''public''
         then Some (invariant_denial
                (''Grant-derived output cannot be published with public visibility. Personal '' @
                 ''memory grant output must remain within approved scopes.'')
                ''hard_invariant_public_visibility_grant_derived''
                ''grant_derived_public_visibility_blocked'' action
                (coalesce (get ctx ''space_id'') JNull))
         else None)"

text \<open>The flag scan goes bag by bag and, within a bag, flag by flag.\<close>

definition first_flag :: "jsobj list \<Rightarrow> string option" where
  "first_flag bags =
     first_some (map (\<lambda>bag _. List.find (has_key bag) APPROVAL_PROOF_FLAGS) bags) ()"

definition payloadFlagsNotApprovalProof :: guard where
  "payloadFlagsNotApprovalProof ctx =
     (let action = action_of ctx;
          bags = [record_or_empty (get ctx ''payload''),
                  record_or_empty (get ctx ''metadata_json''),
                  record_or_empty (get ctx ''context'')]
      in if action \<noteq> ''proposal.apply'' \<and> action \<noteq> ''policy.change'' then None
         else (case first_flag bags of
             None \<Rightarrow> None
           | Some flag \<Rightarrow> Some (invariant_denial
                (''Payload flag '' @ pyRepr flag @ '' cannot serve as approval proof. Approval '' @
                 ''requires a real ProposalApproval row with verifiable authority.'')
                ''hard_invariant_payload_not_approval_proof'' ''payload_flag_as_approval_proof''
                action (coalesce (get ctx ''space_id'') JNull))))"

definition unknownTargetSpaceEgressFailsClosed :: guard where
  "unknownTargetSpaceEgressFailsClosed ctx =
     (let action = action_of ctx;
          targetSpaceId = get ctx ''target_space_id''
      in if action \<notin> set EGRESS_SENSITIVE_ACTIONS then None
         else if nullish targetSpaceId then None
         else if \<not> is_string targetSpaceId \<or> trim (str targetSpaceId) = []
         then Some (invariant_denial
                (''Unknown or empty target_space_id in egress-sensitive action. Cannot resolve '' @
                 ''target space; failing closed.'')
                ''hard_invariant_unknown_target_space'' ''unknown_target_space_egress'' action
                (coalesce (get ctx ''space_id'') JNull))
         else None)"

definition HARD_INVARIANTS :: "guard list" where
  "HARD_INVARIANTS =
     [crossSpaceMemoryRead, personalContextBlockNotPersisted, rawPrivateMemoryBlocksEgress,
      publicTargetBlocksGrantDerived, payloadFlagsNotApprovalProof,
      unknownTargetSpaceEgressFailsClosed]"

definition checkHardInvariants :: guard where
  "checkHardInvariants ctx = first_some HARD_INVARIANTS ctx"

section \<open>Built-in rules\<close>

text \<open>The fields most rules set; \<open>r\<close> is the risk, \<open>reason\<close>, \<open>rule\<close> and \<open>audit\<close> the codes.\<close>

definition ruled ::
  "decision_value \<Rightarrow> string \<Rightarrow> risk_level \<Rightarrow> string \<Rightarrow> string \<Rightarrow> string \<Rightarrow> policy_decision" where
  "ruled d msg r reason rule audit =
     (makeDecision d msg)
       \<lparr>pd_risk_level := r, pd_reason_code := Some reason, pd_policy_rule_id := Some rule,
        pd_audit_code := Some audit\<rparr>"

definition ruleSpaceBoundary :: guard where
  "ruleSpaceBoundary ctx =
     (let requesting = get ctx ''space_id''; resource = get ctx ''resource_space_id''
      in if truthy resource \<and> truthy requesting \<and> \<not> strict_eq requesting resource
         then Some (ruled Deny
                (''Cross-space access denied: requesting='' @ to_string requesting @
                 '', resource='' @ to_string resource)
                Critical ''space_boundary'' ''space_boundary'' ''cross_space_access_denied'')
         else None)"

definition ruleAgentStatus :: guard where
  "ruleAgentStatus ctx =
     (let action = action_of ctx; agentStatus = get ctx ''agent_status''
      in if truthy agentStatus \<and> agentStatus \<noteq> JStr ''active''
            \<and> (prefix ''memory.'' action \<or> action = ''runtime.execute'')
         then Some (ruled Deny (''Agent is not active (status='' @ to_string agentStatus @ '')'')
                High ''agent_status'' ''agent_status'' ''agent_not_active'')
         else None)"

definition PROTECTED_MEMORY_SCOPES :: "string list" where
  "PROTECTED_MEMORY_SCOPES = [''user'', ''workspace'', ''space'', ''system'']"

definition ruleMemoryScope :: guard where
  "ruleMemoryScope ctx =
     (let action = action_of ctx; scope = str (get ctx ''resource_id'')
      in if action \<noteq> ''memory.create'' \<and> action \<noteq> ''memory.update'' \<and> action \<noteq> ''memory.archive''
         then None
         else if scope \<in> set PROTECTED_MEMORY_SCOPES
         then Some ((ruled RequireApproval
                (''Writing to scope '' @ [CHR 0x27] @ scope @ [CHR 0x27] @
                 '' requires user approval'')
                Medium ''memory_scope_requires_approval'' ''memory_scope''
                ''memory_scope_requires_approval'')
              \<lparr>pd_required_approver_role := Some ''owner''\<rparr>)
         else None)"

definition ruleUseCredential :: guard where
  "ruleUseCredential ctx =
     (let action = action_of ctx;
          spaceId = get ctx ''space_id'';
          resourceSpaceId = get ctx ''resource_space_id'';
          origin = str (get ctx ''trigger_origin'');
          triggerOrigin = (if origin \<noteq> [] then origin else ''manual'')
      in if action \<noteq> ''runtime.use_credential'' then None
         else if truthy resourceSpaceId \<and> truthy spaceId \<and> \<not> strict_eq resourceSpaceId spaceId
         then Some (ruled Deny
                (''Cross-space credential use denied: run space='' @ pyRepr (to_string spaceId) @
                 '' credential space='' @ pyRepr (to_string resourceSpaceId))
                Critical ''credential_cross_space'' ''credential_cross_space_deny''
                ''credential_cross_space'')
         else if allowsManagedCredentialUse triggerOrigin (JObj ctx)
         then Some (ruled Allow
                (''Managed source/research execution is covered by the user'' @ [CHR 0x27] @
                 ''s setup authorization.'')
                High ''credential_managed_preauthorized''
                ''credential_managed_preauthorized_allow'' ''credential_managed_preauthorized'')
         else if triggerOrigin = ''automation''
         then (if get ctx ''automation_pre_authorized'' = JBool True
               then Some (ruled Allow
                 ''Automation-origin credential use allowed by standing pre-authorization.''
                 High ''credential_automation_preauthorized''
                 ''credential_automation_preauthorized_allow''
                 ''credential_automation_preauthorized'')
               else Some ((ruled RequireApproval
                 ''Automation-origin credential use requires explicit approval.''
                 High ''credential_automation_origin'' ''credential_automation_require_approval''
                 ''credential_automation_origin'')
                 \<lparr>pd_required_approver_role := Some ''owner''\<rparr>))
         else if triggerOrigin \<in> {''manual'', ''user'', ''api'', ''delegation''} \<or> triggerOrigin = []
         then Some (ruled Allow ''Same-space user-mediated credential use allowed.''
                High ''credential_same_space_manual'' ''credential_same_space_manual_allow''
                ''credential_same_space_manual'')
         else None)"

text \<open>\<open>allowedTools.includes(toolName)\<close>: a truthy tool name is never NaN.\<close>

definition ruleToolPermission :: guard where
  "ruleToolPermission ctx =
     (let action = action_of ctx; toolName = get ctx ''tool_name''
      in if action \<noteq> ''runtime.execute'' then None
         else (case get ctx ''agent_tool_permissions'' of
             JArr allowedTools \<Rightarrow>
               if truthy toolName \<and> \<not> list_ex (\<lambda>t. strict_eq t toolName) allowedTools
               then Some (ruled Deny
                      (''Tool '' @ [CHR 0x27] @ to_string toolName @ [CHR 0x27] @
                       '' is not in agent'' @ [CHR 0x27] @ ''s tool_permissions_json'')
                      High ''tool_not_permitted'' ''tool_permission'' ''tool_not_permitted'')
               else None
           | _ \<Rightarrow> None))"

definition ruleWorkspaceWritePatch :: guard where
  "ruleWorkspaceWritePatch ctx =
     (let action = action_of ctx
      in if action \<noteq> ''workspace.write_patch'' then None
         else if truthy (get ctx ''proposal_id'')
               \<and> get ctx ''proposal_type'' = JStr ''code_patch''
               \<and> get ctx ''proposal_apply_allowed'' = JBool True
         then Some (ruled Allow ''workspace.write_patch via accepted code_patch proposal''
                High ''workspace_write_patch_via_proposal'' ''workspace_write_patch_via_proposal''
                ''workspace_write_via_proposal'')
         else None)"

definition AUTOMATION_ACTIONS :: "string list" where
  "AUTOMATION_ACTIONS = [''automation.create'', ''automation.update'', ''automation.fire'']"

definition ruleAutomation :: guard where
  "ruleAutomation ctx =
     (let action = action_of ctx;
          member_role = str (get ctx ''membership_role'');
          role = (if member_role \<noteq> [] then member_role else ''guest'')
      in if action \<notin> set AUTOMATION_ACTIONS then None
         else if hasRoleAtLeast role ''admin''
         then Some (ruled Allow (action @ '' allowed for role='' @ role)
                High ''automation_admin_allow'' ''automation_admin_allow'' ''automation_allowed'')
         else if get ctx ''target_type'' = JStr ''agent_run''
               \<and> get ctx ''project_writer'' = JBool True \<and> str (get ctx ''project_id'') \<noteq> []
         then Some (ruled Allow (action @ '' allowed for project writer'')
                High ''automation_project_writer_allow'' ''automation_project_writer_allow''
                ''automation_project_writer_allowed'')
         else Some (ruled Deny (action @ '' requires admin or owner authority; role='' @ role)
                High ''automation_insufficient_role'' ''automation_insufficient_role''
                ''automation_denied''))"

definition ruleRuntimeExecuteRiskLevel :: guard where
  "ruleRuntimeExecuteRiskLevel ctx =
     (let action = action_of ctx; raw = str (get ctx ''risk_level'')
      in if action \<noteq> ''runtime.execute'' then None
         else (case parse_risk raw of
             None \<Rightarrow> None
           | Some r \<Rightarrow> Some (ruled Allow
                (''runtime.execute allowed with effective risk_level='' @ raw)
                r ''runtime_execute_risk_level'' ''runtime_execute_risk_level''
                ''runtime_execute_risk_level'')))"

definition RUN_SPAWN_CHILD_REQUIRED_CONTEXT :: "string list" where
  "RUN_SPAWN_CHILD_REQUIRED_CONTEXT =
     [''space_id'', ''resource_space_id'', ''group_id'', ''parent_run_id'', ''root_run_id'',
      ''requesting_agent_id'', ''target_agent_id'', ''manager_user_id'', ''group_status'',
      ''requesting_agent_status'', ''target_agent_status'', ''requesting_member_status'',
      ''target_member_status'']"

definition RUN_SPAWN_CHILD_REQUIRED_NUMERIC_CONTEXT :: "string list" where
  "RUN_SPAWN_CHILD_REQUIRED_NUMERIC_CONTEXT =
     [''depth'', ''max_depth'', ''fanout_count'', ''max_fanout'', ''concurrency_count'',
      ''max_concurrency'']"

definition spawn_status_checks :: "(string \<times> string) list" where
  "spawn_status_checks =
     [(''group_status'', ''Agent group is not active.''),
      (''requesting_agent_status'', ''Requesting agent is not active.''),
      (''target_agent_status'', ''Target agent is not active.''),
      (''requesting_member_status'', ''Requesting agent is not an active group member.''),
      (''target_member_status'', ''Target agent is not an active group member.'')]"

definition spawn_widening_flags :: "string list" where
  "spawn_widening_flags =
     [''context_widens_authority'', ''credential_scope_widens'', ''workspace_scope_widens'',
      ''project_scope_widens'', ''memory_scope_widens'', ''durable_write_scope_widens'']"

text \<open>\<open>a !== null && b !== null && a > b\<close>.\<close>

definition exceeds :: "rat option \<Rightarrow> rat option \<Rightarrow> bool" where
  "exceeds a b \<longleftrightarrow> (case (a, b) of (Some x, Some y) \<Rightarrow> y < x | _ \<Rightarrow> False)"

definition ruleRunSpawnChild :: guard where
  "ruleRunSpawnChild ctx =
     (if action_of ctx \<noteq> ''run.spawn_child'' then None
      else case List.find (\<lambda>field. str (get ctx field) = []) RUN_SPAWN_CHILD_REQUIRED_CONTEXT of
        Some field \<Rightarrow> Some (ruled Deny
          (''run.spawn_child missing required context '' @ [CHR 0x27] @ field @ [CHR 0x27])
          High ''run_spawn_child_missing_context'' ''run_spawn_child_missing_context''
          ''run_spawn_child_missing_context'')
      | None \<Rightarrow>
      (case List.find (\<lambda>field. num (get ctx field) = None)
              RUN_SPAWN_CHILD_REQUIRED_NUMERIC_CONTEXT of
        Some field \<Rightarrow> Some (ruled Deny
          (''run.spawn_child missing required numeric context '' @ [CHR 0x27] @ field @ [CHR 0x27])
          High ''run_spawn_child_missing_context'' ''run_spawn_child_missing_context''
          ''run_spawn_child_missing_context'')
      | None \<Rightarrow>
      if str (get ctx ''requesting_agent_id'') = str (get ctx ''target_agent_id'')
      then Some (ruled Deny ''run.spawn_child requires a distinct target agent.''
             Medium ''run_spawn_child_self_target'' ''run_spawn_child_self_target''
             ''run_spawn_child_self_target'')
      else (case List.find (\<lambda>(field, _). str (get ctx field) \<noteq> [] \<and>
                                         str (get ctx field) \<noteq> ''active'') spawn_status_checks of
        Some (_, message) \<Rightarrow> Some (ruled Deny message
          High ''run_spawn_child_inactive_context'' ''run_spawn_child_inactive_context''
          ''run_spawn_child_inactive_context'')
      | None \<Rightarrow>
      if list_ex (\<lambda>flag. get ctx flag = JBool True) spawn_widening_flags
      then Some (ruled Deny ''run.spawn_child cannot widen the parent/root authority envelope.''
             Critical ''run_spawn_child_authority_widening'' ''run_spawn_child_authority_widening''
             ''run_spawn_child_authority_widening'')
      else if get ctx ''depth_limit_exceeded'' = JBool True
           \<or> exceeds (num (get ctx ''depth'')) (num (get ctx ''max_depth''))
      then Some (ruled Deny ''run.spawn_child depth limit exceeded.''
             High ''run_spawn_child_depth_limit'' ''run_spawn_child_depth_limit''
             ''run_spawn_child_depth_limit'')
      else if get ctx ''fanout_limit_exceeded'' = JBool True
           \<or> get ctx ''concurrency_limit_exceeded'' = JBool True
           \<or> exceeds (num (get ctx ''fanout_count'')) (num (get ctx ''max_fanout''))
           \<or> exceeds (num (get ctx ''concurrency_count'')) (num (get ctx ''max_concurrency''))
      then Some (ruled Deny ''run.spawn_child fanout or concurrency limit exceeded.''
             High ''run_spawn_child_capacity_limit'' ''run_spawn_child_capacity_limit''
             ''run_spawn_child_capacity_limit'')
      else Some (ruled Allow ''run.spawn_child allowed for active same-space group delegation.''
             Medium ''run_spawn_child_allowed'' ''run_spawn_child_allowed''
             ''run_spawn_child_allowed''))))"

definition ruleRuntimeSkillRenderEnabled :: guard where
  "ruleRuntimeSkillRenderEnabled ctx =
     (let riskLevel = (case parse_risk (str (get ctx ''risk_level'')) of None \<Rightarrow> Medium | Some r \<Rightarrow> r)
      in if action_of ctx \<noteq> ''runtime_skill.render'' then None
         else if get ctx ''enabled_binding'' \<noteq> JBool True then None
         else if str (get ctx ''capability_enablement_id'') = [] then None
         else Some (ruled Allow
                (''runtime_skill.render allowed for enabled binding (reviewed at capability '' @
                 ''enablement, risk_level='' @ risk_text riskLevel @ '')'')
                riskLevel ''runtime_skill_render_enabled_binding''
                ''runtime_skill_render_enabled_binding'' ''runtime_skill_render_enabled_binding''))"

definition RETRIEVAL_TOOL_ACTIONS :: "string list" where
  "RETRIEVAL_TOOL_ACTIONS =
     [''retrieval.search'', ''retrieval.brief'', ''memory.retrieval.search'',
      ''memory.retrieval.brief'', ''project.summary.search'', ''project.summary.brief'',
      ''source.retrieval.search'', ''source.retrieval.brief'']"

definition ruleRetrievalToolCall :: guard where
  "ruleRetrievalToolCall ctx =
     (let action = action_of ctx;
          tool = str (get ctx ''tool_name'');
          toolName = (if tool \<noteq> [] then tool else action);
          dom_name = str (get ctx ''domain'');
          domain = (if dom_name \<noteq> [] then dom_name else ''unknown'');
          on_tool = (\<lambda>d. d\<lparr>pd_action := JStr action, pd_resource_type := JStr ''retrieval_tool'',
                           pd_resource_id := Some toolName\<rparr>)
      in if action \<notin> set RETRIEVAL_TOOL_ACTIONS then None
         else if get ctx ''domain_enabled'' \<noteq> JBool True
         then Some (on_tool (ruled Deny
                (''Retrieval tool '' @ pyRepr toolName @ '' is not enabled for domain '' @
                 pyRepr domain @ '' in this run.'')
                Low ''retrieval_tool_domain_not_enabled'' ''retrieval_tool_domain_enabled''
                ''retrieval_tool_domain_not_enabled''))
         else if str (get ctx ''instructed_by_user_id'') = []
         then Some (on_tool (ruled Deny
                (''Retrieval tool '' @ pyRepr toolName @ '' requires an instructed user viewer.'')
                Low ''retrieval_tool_missing_viewer'' ''retrieval_tool_viewer_required''
                ''retrieval_tool_missing_viewer''))
         else if get ctx ''source_policy_denied'' = JBool True
         then Some (on_tool (ruled Deny
                (''Retrieval tool '' @ pyRepr toolName @ '' denied by source policy.'')
                Medium ''retrieval_tool_source_policy_denied'' ''retrieval_tool_source_policy''
                ''retrieval_tool_source_policy_denied''))
         else if get ctx ''egress_policy_denied'' = JBool True
         then Some (on_tool (ruled Deny
                (''Retrieval tool '' @ pyRepr toolName @ '' denied by egress policy.'')
                Medium ''retrieval_tool_egress_policy_denied'' ''retrieval_tool_egress_policy''
                ''retrieval_tool_egress_policy_denied''))
         else Some (on_tool (ruled Allow
                (''Retrieval tool '' @ pyRepr toolName @ '' allowed for domain '' @
                 pyRepr domain @ ''.'')
                Low ''retrieval_tool_call_allowed'' ''retrieval_tool_call_allowed''
                ''retrieval_tool_call_allowed'')))"

definition BUILTIN_RULES :: "guard list" where
  "BUILTIN_RULES =
     [ruleSpaceBoundary, ruleAgentStatus, ruleMemoryScope, ruleUseCredential, ruleToolPermission,
      ruleWorkspaceWritePatch, ruleAutomation, ruleRuntimeExecuteRiskLevel, ruleRunSpawnChild,
      ruleRuntimeSkillRenderEnabled, ruleRetrievalToolCall]"

section \<open>The engine\<close>

definition unknown_action_denial :: "jsobj \<Rightarrow> policy_decision" where
  "unknown_action_denial ctx =
     (let action = get ctx ''action''
      in (ruled Deny
            (''Unknown policy action '' @ pyRepr (to_string action) @ ''. All sensitive actions '' @
             ''must be registered in the canonical action registry.'')
            High ''unknown_policy_action'' ''unknown_action_deny'' ''unknown_policy_action'')
         \<lparr>pd_policy_source := ''builtin'', pd_action := coalesce action JNull,
          pd_space_id := coalesce (get ctx ''space_id'') JNull\<rparr>)"

definition registry_default_decision :: "action_definition \<Rightarrow> jsobj \<Rightarrow> policy_decision" where
  "registry_default_decision defn ctx =
     (let action = get ctx ''action''
      in (makeDecision (ad_default_decision defn)
            (''No rule matched; registry default for '' @ pyRepr (to_string action) @ '' is '' @
             decision_text (ad_default_decision defn)))
         \<lparr>pd_risk_level := ad_default_risk_level defn,
          pd_reason_code := Some ''registry_default'',
          pd_required_approver_role := ad_default_required_approver_role defn,
          pd_approval_capability := ad_approval_capability defn,
          pd_policy_rule_id := Some ''registry_default'',
          pd_policy_source := ''registry'',
          pd_resource_type := JStr (ad_resource_type defn),
          pd_action := JStr (str action),
          pd_actor_id := coalesce (get ctx ''actor_id'') JNull,
          pd_actor_ref := asRecord (get ctx ''actor_ref''),
          pd_space_id := coalesce (get ctx ''space_id'') JNull\<rparr>)"

text \<open>\<open>engineCheck\<close> catches the only error \<open>requireActionDefinition\<close> throws.\<close>

definition engineCheck :: "registry \<Rightarrow> jsobj \<Rightarrow> policy_decision" where
  "engineCheck reg ctx =
     (case requireActionDefinition reg (action_of ctx) of
        Inl _ \<Rightarrow> unknown_action_denial ctx
      | Inr defn \<Rightarrow>
          (case first_some BUILTIN_RULES ctx of
             Some d \<Rightarrow> d
           | None \<Rightarrow> registry_default_decision defn ctx))"

section \<open>Chains of guards\<close>

text \<open>
  The contract the gateway relies on for both lists: every answer of a guard satisfies \<open>ok\<close>, and
  some guard answers exactly on the contexts \<open>fires\<close> describes.
\<close>

locale guard_chain =
  fixes guards :: "('c \<Rightarrow> 'd option) list"
    and ok :: "'c \<Rightarrow> 'd \<Rightarrow> bool"
  assumes sound: "g \<in> set guards \<Longrightarrow> g c = Some d \<Longrightarrow> ok c d"
begin

lemma answer_ok: "first_some guards c = Some d \<Longrightarrow> ok c d"
  using first_some_SomeD [of guards c d] sound by blast

end

locale exhaustive_guard_chain = guard_chain +
  fixes fires :: "'c \<Rightarrow> bool"
  assumes complete: "fires c \<longleftrightarrow> (\<exists>g \<in> set guards. g c \<noteq> None)"
begin

lemma silent_iff: "first_some guards c = None \<longleftrightarrow> \<not> fires c"
  by (auto simp: first_some_None_iff complete)

lemma answers_ok: "fires c \<Longrightarrow> \<exists>d. first_some guards c = Some d \<and> ok c d"
  using silent_iff answer_ok by fastforce

end

section \<open>The hard invariants as a chain\<close>

lemmas [rule_defs] =
  crossSpaceMemoryRead_def personalContextBlockNotPersisted_def rawPrivateMemoryBlocksEgress_def
  publicTargetBlocksGrantDerived_def payloadFlagsNotApprovalProof_def
  unknownTargetSpaceEgressFailsClosed_def

lemma invariant_denial_simps [simp, decision_simps]:
  "pd_decision (invariant_denial m c a act sp) = Deny"
  "pd_risk_level (invariant_denial m c a act sp) = Critical"
  "pd_policy_source (invariant_denial m c a act sp) = ''hard_invariant''"
  "pd_reason_code (invariant_denial m c a act sp) = Some c"
  "pd_policy_rule_id (invariant_denial m c a act sp) = Some c"
  "pd_audit_code (invariant_denial m c a act sp) = Some a"
  "pd_action (invariant_denial m c a act sp) = JStr act"
  by (simp_all add: invariant_denial_def makeDecision_def)

lemma ruled_simps [simp, decision_simps]:
  "pd_decision (ruled d m r re ru au) = d"
  "pd_risk_level (ruled d m r re ru au) = r"
  "pd_policy_source (ruled d m r re ru au) = ''builtin''"
  "pd_reason_code (ruled d m r re ru au) = Some re"
  "pd_policy_rule_id (ruled d m r re ru au) = Some ru"
  "pd_audit_code (ruled d m r re ru au) = Some au"
  by (simp_all add: ruled_def makeDecision_def)

definition critical_denial :: "jsobj \<Rightarrow> policy_decision \<Rightarrow> bool" where
  "critical_denial ctx d \<longleftrightarrow>
     pd_decision d = Deny \<and> pd_risk_level d = Critical \<and> pd_policy_source d = ''hard_invariant''
     \<and> pd_policy_rule_id d \<noteq> None \<and> pd_audit_code d \<noteq> None \<and> pd_action d = JStr (action_of ctx)"

text \<open>The contexts a hard invariant forbids, stated without the code's order and early returns.\<close>

definition reads_across_spaces :: "jsobj \<Rightarrow> bool" where
  "reads_across_spaces ctx \<longleftrightarrow>
     action_of ctx \<in> {''context.inject_memory'', ''context.use_personal_grant'',
                      ''context.render_for_runtime''} \<and>
     truthy (get ctx ''space_id'') \<and> truthy (get ctx ''resource_space_id'') \<and>
     \<not> strict_eq (get ctx ''space_id'') (get ctx ''resource_space_id'') \<and>
     get ctx ''has_personal_memory_grant'' \<noteq> JBool True"

definition persists_personal_context :: "jsobj \<Rightarrow> bool" where
  "persists_personal_context ctx \<longleftrightarrow>
     action_of ctx \<in> set PERSISTENCE_ACTIONS \<and>
     (\<exists>bag \<in> {''metadata_json'', ''context''}.
        has_key (record_or_empty (get ctx bag)) ''personal_context_block'')"

definition leaks_private_memory :: "jsobj \<Rightarrow> bool" where
  "leaks_private_memory ctx \<longleftrightarrow>
     action_of ctx \<in> set EGRESS_SENSITIVE_ACTIONS \<and>
     (get ctx ''raw_private_memory_included'' = JBool True \<or>
      get (record_or_empty (get ctx ''context'')) ''raw_private_memory_included'' = JBool True)"

definition publishes_grant_output :: "jsobj \<Rightarrow> bool" where
  "publishes_grant_output ctx \<longleftrightarrow>
     action_of ctx \<in> set EGRESS_SENSITIVE_ACTIONS \<and>
     get ctx ''derived_from_personal_memory_grant'' = JBool True \<and>
     to_lower (str (get ctx ''target_visibility'')) = ''public''"

definition claims_approval_by_flag :: "jsobj \<Rightarrow> bool" where
  "claims_approval_by_flag ctx \<longleftrightarrow>
     action_of ctx \<in> {''proposal.apply'', ''policy.change''} \<and>
     (\<exists>bag \<in> {''payload'', ''metadata_json'', ''context''}. \<exists>flag \<in> set APPROVAL_PROOF_FLAGS.
        has_key (record_or_empty (get ctx bag)) flag)"

definition targets_unknown_space :: "jsobj \<Rightarrow> bool" where
  "targets_unknown_space ctx \<longleftrightarrow>
     action_of ctx \<in> set EGRESS_SENSITIVE_ACTIONS \<and>
     \<not> nullish (get ctx ''target_space_id'') \<and>
     (case get ctx ''target_space_id'' of JStr s \<Rightarrow> trim s = [] | _ \<Rightarrow> True)"

definition violates_invariant :: "jsobj \<Rightarrow> bool" where
  "violates_invariant ctx \<longleftrightarrow>
     reads_across_spaces ctx \<or> persists_personal_context ctx \<or> leaks_private_memory ctx \<or>
     publishes_grant_output ctx \<or> claims_approval_by_flag ctx \<or> targets_unknown_space ctx"

lemma crossSpaceMemoryRead_iff: "crossSpaceMemoryRead ctx \<noteq> None \<longleftrightarrow> reads_across_spaces ctx"
  by (auto simp: crossSpaceMemoryRead_def reads_across_spaces_def MEMORY_READ_ACTIONS_def Let_def)

lemma personalContextBlock_iff:
  "personalContextBlockNotPersisted ctx \<noteq> None \<longleftrightarrow> persists_personal_context ctx"
  by (auto simp: personalContextBlockNotPersisted_def persists_personal_context_def Let_def)

lemma get_record_or_empty:
  "get (record_or_empty v) k = (case asRecord v of None \<Rightarrow> JUndef | Some ob \<Rightarrow> get ob k)"
  by (cases v) (simp_all add: record_or_empty_def)

lemma rawPrivateMemory_iff: "rawPrivateMemoryBlocksEgress ctx \<noteq> None \<longleftrightarrow> leaks_private_memory ctx"
  by (auto simp: rawPrivateMemoryBlocksEgress_def leaks_private_memory_def Let_def
      get_record_or_empty split: option.splits)

lemma publicTarget_iff: "publicTargetBlocksGrantDerived ctx \<noteq> None \<longleftrightarrow> publishes_grant_output ctx"
  by (auto simp: publicTargetBlocksGrantDerived_def publishes_grant_output_def Let_def)

lemma first_flag_None_iff:
  "first_flag bags = None \<longleftrightarrow> (\<forall>bag \<in> set bags. \<forall>flag \<in> set APPROVAL_PROOF_FLAGS. \<not> has_key bag flag)"
  by (auto simp: first_flag_def first_some_None_iff find_None_all)

lemma payloadFlags_iff: "payloadFlagsNotApprovalProof ctx \<noteq> None \<longleftrightarrow> claims_approval_by_flag ctx"
proof -
  have "first_flag [record_or_empty (get ctx ''payload''), record_or_empty (get ctx ''metadata_json''),
          record_or_empty (get ctx ''context'')] \<noteq> None \<longleftrightarrow>
        (\<exists>bag \<in> {''payload'', ''metadata_json'', ''context''}. \<exists>flag \<in> set APPROVAL_PROOF_FLAGS.
          has_key (record_or_empty (get ctx bag)) flag)"
    by (auto simp: first_flag_None_iff simp del: not_None_eq)
  then show ?thesis
    by (auto simp: payloadFlagsNotApprovalProof_def claims_approval_by_flag_def Let_def
        simp del: bex_simps split: option.splits)
qed

lemma unknownTarget_iff:
  "unknownTargetSpaceEgressFailsClosed ctx \<noteq> None \<longleftrightarrow> targets_unknown_space ctx"
  by (cases "get ctx ''target_space_id''")
    (auto simp: unknownTargetSpaceEgressFailsClosed_def targets_unknown_space_def Let_def)

lemma HARD_INVARIANTS_sound:
  "g \<in> set HARD_INVARIANTS \<Longrightarrow> g ctx = Some d \<Longrightarrow> critical_denial ctx d"
  by (auto simp: HARD_INVARIANTS_def rule_defs critical_denial_def Let_def
      split: if_splits option.splits)

interpretation hard: exhaustive_guard_chain HARD_INVARIANTS critical_denial violates_invariant
proof unfold_locales
  fix g ctx d
  assume "g \<in> set HARD_INVARIANTS" and "g ctx = Some d"
  then show "critical_denial ctx d" by (rule HARD_INVARIANTS_sound)
next
  fix ctx
  show "violates_invariant ctx \<longleftrightarrow> (\<exists>g \<in> set HARD_INVARIANTS. g ctx \<noteq> None)"
    by (simp only: violates_invariant_def HARD_INVARIANTS_def list.set bex_simps insert_iff
        crossSpaceMemoryRead_iff personalContextBlock_iff rawPrivateMemory_iff publicTarget_iff
        payloadFlags_iff unknownTarget_iff empty_iff simp_thms)
qed

lemma checkHardInvariants_None_iff: "checkHardInvariants ctx = None \<longleftrightarrow> \<not> violates_invariant ctx"
  by (simp add: checkHardInvariants_def hard.silent_iff)

lemma checkHardInvariants_SomeD: "checkHardInvariants ctx = Some d \<Longrightarrow> critical_denial ctx d"
  by (simp add: checkHardInvariants_def hard.answer_ok)

section \<open>Properties\<close>

text \<open>
  The hard invariants answer exactly on the contexts the six rules of the specification forbid,
  whatever their order, and each answer is a critical denial that names its rule and audit code.
\<close>

theorem hard_invariants_exact:
  "case checkHardInvariants ctx of
     None \<Rightarrow> \<not> violates_invariant ctx
   | Some d \<Rightarrow> violates_invariant ctx \<and> critical_denial ctx d"
  using checkHardInvariants_None_iff [of ctx] checkHardInvariants_SomeD [of ctx]
  by (auto split: option.split)

end
