(* ===== verification/PolicyEngine.thy ===== *)
theory PolicyEngine
  imports PolicyRules
begin

text \<open>
  What the rule engine of \<open>policy/decisionCore.ts\<close> grants. \<open>engine_grants\<close> is the abstract access
  specification: it names, per action, the evidence the context must carry, without the order of the
  rules. The main theorem is that \<open>engineCheck\<close> answers \<open>allow\<close> exactly on the contexts it holds for.
\<close>

section \<open>The access specification\<close>

definition spaces_agree :: "jsobj \<Rightarrow> bool" where
  "spaces_agree ctx \<longleftrightarrow>
     (truthy (get ctx ''space_id'') \<and> truthy (get ctx ''resource_space_id'') \<longrightarrow>
        strict_eq (get ctx ''space_id'') (get ctx ''resource_space_id''))"

definition agent_may_act :: "jsobj \<Rightarrow> bool" where
  "agent_may_act ctx \<longleftrightarrow>
     (prefix ''memory.'' (action_of ctx) \<or> action_of ctx = ''runtime.execute'' \<longrightarrow>
        \<not> truthy (get ctx ''agent_status'') \<or> get ctx ''agent_status'' = JStr ''active'')"

definition memory_write :: "string \<Rightarrow> bool" where
  "memory_write a \<longleftrightarrow> a \<in> {''memory.create'', ''memory.update'', ''memory.archive''}"

definition credential_origin :: "jsobj \<Rightarrow> string" where
  "credential_origin ctx =
     (if str (get ctx ''trigger_origin'') \<noteq> [] then str (get ctx ''trigger_origin'') else ''manual'')"

definition user_mediated :: "string \<Rightarrow> bool" where
  "user_mediated origin \<longleftrightarrow> origin \<in> {''manual'', ''user'', ''api'', ''delegation''}"

text \<open>Whether a credential may be used, where the registry default decides unlisted origins.\<close>

definition credential_covered :: "jsobj \<Rightarrow> bool \<Rightarrow> bool" where
  "credential_covered ctx dflt \<longleftrightarrow>
     allowsManagedCredentialUse (credential_origin ctx) (JObj ctx) \<or>
     (if credential_origin ctx = ''automation''
      then get ctx ''automation_pre_authorized'' = JBool True
      else user_mediated (credential_origin ctx) \<or> dflt)"

definition tool_permitted :: "jsobj \<Rightarrow> bool" where
  "tool_permitted ctx \<longleftrightarrow>
     (case get ctx ''agent_tool_permissions'' of
        JArr tools \<Rightarrow> truthy (get ctx ''tool_name'') \<longrightarrow>
                        (\<exists>t \<in> set tools. strict_eq t (get ctx ''tool_name''))
      | _ \<Rightarrow> True)"

definition patch_accepted :: "jsobj \<Rightarrow> bool" where
  "patch_accepted ctx \<longleftrightarrow>
     truthy (get ctx ''proposal_id'') \<and> get ctx ''proposal_type'' = JStr ''code_patch'' \<and>
     get ctx ''proposal_apply_allowed'' = JBool True"

definition automation_authority :: "jsobj \<Rightarrow> bool" where
  "automation_authority ctx \<longleftrightarrow>
     normalizeRole (str (get ctx ''membership_role'')) \<in> {''admin'', ''owner''} \<or>
     get ctx ''target_type'' = JStr ''agent_run'' \<and> get ctx ''project_writer'' = JBool True \<and>
     str (get ctx ''project_id'') \<noteq> []"

definition under_limit :: "jsobj \<Rightarrow> string \<Rightarrow> string \<Rightarrow> bool" where
  "under_limit ctx value_key limit_key \<longleftrightarrow>
     (\<exists>x y. get ctx value_key = JNum x \<and> get ctx limit_key = JNum y \<and> x \<le> y)"

definition spawn_permitted :: "jsobj \<Rightarrow> bool" where
  "spawn_permitted ctx \<longleftrightarrow>
     (\<forall>f \<in> set RUN_SPAWN_CHILD_REQUIRED_CONTEXT. str (get ctx f) \<noteq> []) \<and>
     get ctx ''requesting_agent_id'' \<noteq> get ctx ''target_agent_id'' \<and>
     (\<forall>f \<in> {''group_status'', ''requesting_agent_status'', ''target_agent_status'',
              ''requesting_member_status'', ''target_member_status''}. get ctx f = JStr ''active'') \<and>
     (\<forall>flag \<in> set spawn_widening_flags. get ctx flag \<noteq> JBool True) \<and>
     under_limit ctx ''depth'' ''max_depth'' \<and> get ctx ''depth_limit_exceeded'' \<noteq> JBool True \<and>
     under_limit ctx ''fanout_count'' ''max_fanout'' \<and> get ctx ''fanout_limit_exceeded'' \<noteq> JBool True \<and>
     under_limit ctx ''concurrency_count'' ''max_concurrency'' \<and>
     get ctx ''concurrency_limit_exceeded'' \<noteq> JBool True"

definition skill_binding_enabled :: "jsobj \<Rightarrow> bool" where
  "skill_binding_enabled ctx \<longleftrightarrow>
     get ctx ''enabled_binding'' = JBool True \<and> str (get ctx ''capability_enablement_id'') \<noteq> []"

definition retrieval_permitted :: "jsobj \<Rightarrow> bool" where
  "retrieval_permitted ctx \<longleftrightarrow>
     get ctx ''domain_enabled'' = JBool True \<and> str (get ctx ''instructed_by_user_id'') \<noteq> [] \<and>
     get ctx ''source_policy_denied'' \<noteq> JBool True \<and> get ctx ''egress_policy_denied'' \<noteq> JBool True"

definition action_grants :: "jsobj \<Rightarrow> bool \<Rightarrow> bool" where
  "action_grants ctx dflt =
     (let a = action_of ctx
      in if memory_write a then str (get ctx ''resource_id'') \<notin> set PROTECTED_MEMORY_SCOPES \<and> dflt
         else if a = ''runtime.use_credential'' then credential_covered ctx dflt
         else if a = ''runtime.execute''
              then tool_permitted ctx \<and> (parse_risk (str (get ctx ''risk_level'')) \<noteq> None \<or> dflt)
         else if a = ''workspace.write_patch'' then patch_accepted ctx \<or> dflt
         else if a \<in> set AUTOMATION_ACTIONS then automation_authority ctx
         else if a = ''run.spawn_child'' then spawn_permitted ctx
         else if a = ''runtime_skill.render'' then skill_binding_enabled ctx \<or> dflt
         else if a \<in> set RETRIEVAL_TOOL_ACTIONS then retrieval_permitted ctx
         else dflt)"

definition engine_grants :: "registry \<Rightarrow> jsobj \<Rightarrow> bool" where
  "engine_grants reg ctx \<longleftrightarrow>
     (\<exists>d. reg (action_of ctx) = Some d \<and> spaces_agree ctx \<and> agent_may_act ctx \<and>
          action_grants ctx (ad_default_decision d = Allow))"

section \<open>The verdict of each rule\<close>

definition verdict :: "guard \<Rightarrow> jsobj \<Rightarrow> decision_value option" where
  "verdict g ctx = map_option pd_decision (g ctx)"

lemma map_option_first_some:
  "map_option f (first_some gs x) = first_some (map (\<lambda>g y. map_option f (g y)) gs) x"
  by (induction gs) (auto split: option.splits)

lemma strict_eq_sym: "strict_eq a b \<longleftrightarrow> strict_eq b a"
  by (cases a; cases b) auto

lemma verdict_space: "verdict ruleSpaceBoundary ctx = (if spaces_agree ctx then None else Some Deny)"
  by (auto simp: verdict_def ruleSpaceBoundary_def spaces_agree_def Let_def)

lemma verdict_agent: "verdict ruleAgentStatus ctx = (if agent_may_act ctx then None else Some Deny)"
  by (auto simp: verdict_def ruleAgentStatus_def agent_may_act_def Let_def)

lemma verdict_memory:
  "verdict ruleMemoryScope ctx =
     (if memory_write (action_of ctx) \<and> str (get ctx ''resource_id'') \<in> set PROTECTED_MEMORY_SCOPES
      then Some RequireApproval else None)"
  by (auto simp: verdict_def ruleMemoryScope_def memory_write_def Let_def)

lemma verdict_credential:
  "verdict ruleUseCredential ctx =
     (if action_of ctx \<noteq> ''runtime.use_credential'' then None
      else if \<not> spaces_agree ctx then Some Deny
      else if allowsManagedCredentialUse (credential_origin ctx) (JObj ctx) then Some Allow
      else if credential_origin ctx = ''automation''
      then Some (if get ctx ''automation_pre_authorized'' = JBool True then Allow
                 else RequireApproval)
      else if user_mediated (credential_origin ctx) then Some Allow else None)"
  by (auto simp: verdict_def ruleUseCredential_def spaces_agree_def credential_origin_def
      user_mediated_def Let_def strict_eq_sym [of "get ctx ''resource_space_id''"])

lemma verdict_tool:
  "verdict ruleToolPermission ctx =
     (if action_of ctx = ''runtime.execute'' \<and> \<not> tool_permitted ctx then Some Deny else None)"
  by (cases "get ctx ''agent_tool_permissions''")
    (auto simp: verdict_def ruleToolPermission_def tool_permitted_def Let_def list_ex_iff)

lemma verdict_patch:
  "verdict ruleWorkspaceWritePatch ctx =
     (if action_of ctx = ''workspace.write_patch'' \<and> patch_accepted ctx then Some Allow else None)"
  by (auto simp: verdict_def ruleWorkspaceWritePatch_def patch_accepted_def Let_def)

lemma ROLE_RANK_simps:
  "ROLE_RANK r = (if r = ''guest'' then Some 0 else if r = ''member'' then Some 1
     else if r = ''reviewer'' then Some 2 else if r = ''admin'' then Some 3
     else if r = ''owner'' then Some 4 else None)"
  by (simp add: ROLE_RANK_def CANONICAL_ROLES_def)

lemma normalizeRole_guest [simp]: "normalizeRole ''guest'' = ''guest''"
  by (simp add: normalizeRole_def lower_eval trim_def trim_left_def is_space_def ROLE_RANK_simps)

lemma normalizeRole_admin [simp]: "normalizeRole ''admin'' = ''admin''"
  by (simp add: normalizeRole_def lower_eval trim_def trim_left_def is_space_def ROLE_RANK_simps)

lemma normalizeRole_Nil [simp]: "normalizeRole [] = ''guest''"
  by (simp add: normalizeRole_def)

lemma normalizeRole_range: "normalizeRole r \<in> set CANONICAL_ROLES"
  by (auto simp: normalizeRole_def CANONICAL_ROLES_def Let_def ROLE_RANK_simps)

lemma hasRoleAtLeast_admin:
  "hasRoleAtLeast r ''admin'' \<longleftrightarrow> normalizeRole r \<in> {''admin'', ''owner''}"
  using normalizeRole_range [of r]
  by (auto simp: hasRoleAtLeast_def roleRank_def CANONICAL_ROLES_def ROLE_RANK_simps)

lemma verdict_automation:
  "verdict ruleAutomation ctx =
     (if action_of ctx \<in> set AUTOMATION_ACTIONS
      then Some (if automation_authority ctx then Allow else Deny) else None)"
  by (auto simp: verdict_def ruleAutomation_def automation_authority_def Let_def hasRoleAtLeast_admin)

lemma verdict_execute:
  "verdict ruleRuntimeExecuteRiskLevel ctx =
     (if action_of ctx = ''runtime.execute'' \<and> parse_risk (str (get ctx ''risk_level'')) \<noteq> None
      then Some Allow else None)"
  by (auto simp: verdict_def ruleRuntimeExecuteRiskLevel_def Let_def split: option.splits)

lemma num_None_iff: "num v = None \<longleftrightarrow> (\<forall>q. v \<noteq> JNum q)"
  by (cases v) auto

lemma under_limit_iff:
  "num (get ctx a) \<noteq> None \<Longrightarrow> num (get ctx b) \<noteq> None \<Longrightarrow>
     under_limit ctx a b \<longleftrightarrow> \<not> exceeds (num (get ctx a)) (num (get ctx b))"
  by (auto simp: under_limit_def exceeds_def num_None_iff)

lemma under_limit_numbers: "under_limit ctx a b \<Longrightarrow> num (get ctx a) \<noteq> None \<and> num (get ctx b) \<noteq> None"
  by (auto simp: under_limit_def)

text \<open>A search whose hits all deny is one denial, whatever it finds first.\<close>

lemma find_denies:
  "(\<And>y. map_option pd_decision (f y) = Some Deny) \<Longrightarrow>
   map_option pd_decision (case List.find P xs of None \<Rightarrow> z | Some y \<Rightarrow> f y) =
     (if \<exists>x \<in> set xs. P x then Some Deny else map_option pd_decision z)"
  using find_None_all [of P xs] by (cases "List.find P xs") auto

lemma if_denies:
  "map_option pd_decision (if b then Some x else y) =
     (if b then Some (pd_decision x) else map_option pd_decision y)"
  by simp

definition spawn_context_present :: "jsobj \<Rightarrow> bool" where
  "spawn_context_present ctx \<longleftrightarrow>
     (\<forall>f \<in> set RUN_SPAWN_CHILD_REQUIRED_CONTEXT. str (get ctx f) \<noteq> [])"

definition spawn_numbers_present :: "jsobj \<Rightarrow> bool" where
  "spawn_numbers_present ctx \<longleftrightarrow>
     (\<forall>f \<in> set RUN_SPAWN_CHILD_REQUIRED_NUMERIC_CONTEXT. num (get ctx f) \<noteq> None)"

definition spawn_statuses_active :: "jsobj \<Rightarrow> bool" where
  "spawn_statuses_active ctx \<longleftrightarrow>
     (\<forall>(f, m) \<in> set spawn_status_checks. str (get ctx f) = [] \<or> str (get ctx f) = ''active'')"

lemma verdict_spawn_order:
  "action_of ctx = ''run.spawn_child'' \<Longrightarrow>
   verdict ruleRunSpawnChild ctx =
     Some (if spawn_context_present ctx \<and> spawn_numbers_present ctx
              \<and> str (get ctx ''requesting_agent_id'') \<noteq> str (get ctx ''target_agent_id'')
              \<and> spawn_statuses_active ctx
              \<and> (\<forall>flag \<in> set spawn_widening_flags. get ctx flag \<noteq> JBool True)
              \<and> \<not> (get ctx ''depth_limit_exceeded'' = JBool True
                   \<or> exceeds (num (get ctx ''depth'')) (num (get ctx ''max_depth'')))
              \<and> \<not> (get ctx ''fanout_limit_exceeded'' = JBool True
                   \<or> get ctx ''concurrency_limit_exceeded'' = JBool True
                   \<or> exceeds (num (get ctx ''fanout_count'')) (num (get ctx ''max_fanout''))
                   \<or> exceeds (num (get ctx ''concurrency_count'')) (num (get ctx ''max_concurrency'')))
           then Allow else Deny)"
proof -
  assume a: "action_of ctx = ''run.spawn_child''"
  have "verdict ruleRunSpawnChild ctx =
    (if \<not> spawn_context_present ctx then Some Deny
     else if \<not> spawn_numbers_present ctx then Some Deny
     else if str (get ctx ''requesting_agent_id'') = str (get ctx ''target_agent_id'') then Some Deny
     else if \<not> spawn_statuses_active ctx then Some Deny
     else if \<not> (\<forall>flag \<in> set spawn_widening_flags. get ctx flag \<noteq> JBool True) then Some Deny
     else if get ctx ''depth_limit_exceeded'' = JBool True
          \<or> exceeds (num (get ctx ''depth'')) (num (get ctx ''max_depth'')) then Some Deny
     else if get ctx ''fanout_limit_exceeded'' = JBool True
          \<or> get ctx ''concurrency_limit_exceeded'' = JBool True
          \<or> exceeds (num (get ctx ''fanout_count'')) (num (get ctx ''max_fanout''))
          \<or> exceeds (num (get ctx ''concurrency_count'')) (num (get ctx ''max_concurrency''))
     then Some Deny else Some Allow)"
    unfolding verdict_def ruleRunSpawnChild_def spawn_context_present_def spawn_numbers_present_def
      spawn_statuses_active_def
    by (simp only: a not_True_eq_False simp_thms if_False if_denies find_denies ruled_simps
        option.map prod.case_eq_if list_ex_iff ball_simps not_not case_prod_beta)
      (simp only: bex_simps ball_simps not_not de_Morgan_disj)
  then show ?thesis by argo
qed

lemma active_of_str: "str v \<noteq> [] \<Longrightarrow> (str v = [] \<or> str v = ''active'') \<longleftrightarrow> v = JStr ''active''"
  by (cases v) auto

lemma str_eq_iff_eq: "str v \<noteq> [] \<Longrightarrow> str w \<noteq> [] \<Longrightarrow> str v = str w \<longleftrightarrow> v = w"
  by (cases v; cases w) auto

lemma spawn_permitted_iff:
  "spawn_permitted ctx \<longleftrightarrow>
     spawn_context_present ctx \<and> spawn_numbers_present ctx
     \<and> str (get ctx ''requesting_agent_id'') \<noteq> str (get ctx ''target_agent_id'')
     \<and> spawn_statuses_active ctx
     \<and> (\<forall>flag \<in> set spawn_widening_flags. get ctx flag \<noteq> JBool True)
     \<and> \<not> (get ctx ''depth_limit_exceeded'' = JBool True
          \<or> exceeds (num (get ctx ''depth'')) (num (get ctx ''max_depth'')))
     \<and> \<not> (get ctx ''fanout_limit_exceeded'' = JBool True
          \<or> get ctx ''concurrency_limit_exceeded'' = JBool True
          \<or> exceeds (num (get ctx ''fanout_count'')) (num (get ctx ''max_fanout''))
          \<or> exceeds (num (get ctx ''concurrency_count'')) (num (get ctx ''max_concurrency'')))"
proof (cases "spawn_context_present ctx \<and> spawn_numbers_present ctx")
  case True
  then have strs: "str (get ctx f) \<noteq> []" if "f \<in> set RUN_SPAWN_CHILD_REQUIRED_CONTEXT" for f
    using that by (simp add: spawn_context_present_def)
  from True have nums: "num (get ctx f) \<noteq> None" if "f \<in> set RUN_SPAWN_CHILD_REQUIRED_NUMERIC_CONTEXT" for f
    using that by (simp add: spawn_numbers_present_def)
  have ids: "str (get ctx ''requesting_agent_id'') = str (get ctx ''target_agent_id'') \<longleftrightarrow>
      get ctx ''requesting_agent_id'' = get ctx ''target_agent_id''"
    by (rule str_eq_iff_eq) (rule strs, simp add: RUN_SPAWN_CHILD_REQUIRED_CONTEXT_def)+
  have act: "(str (get ctx f) = [] \<or> str (get ctx f) = ''active'') \<longleftrightarrow> get ctx f = JStr ''active''"
    if "f \<in> set RUN_SPAWN_CHILD_REQUIRED_CONTEXT" for f
    using strs [OF that] by (rule active_of_str)
  have stat: "spawn_statuses_active ctx \<longleftrightarrow>
      (\<forall>f \<in> {''group_status'', ''requesting_agent_status'', ''target_agent_status'',
         ''requesting_member_status'', ''target_member_status''}. get ctx f = JStr ''active'')"
    using act by (simp add: spawn_statuses_active_def spawn_status_checks_def
        RUN_SPAWN_CHILD_REQUIRED_CONTEXT_def)
  have lim: "under_limit ctx ''depth'' ''max_depth'' \<longleftrightarrow>
        \<not> exceeds (num (get ctx ''depth'')) (num (get ctx ''max_depth''))"
      "under_limit ctx ''fanout_count'' ''max_fanout'' \<longleftrightarrow>
        \<not> exceeds (num (get ctx ''fanout_count'')) (num (get ctx ''max_fanout''))"
      "under_limit ctx ''concurrency_count'' ''max_concurrency'' \<longleftrightarrow>
        \<not> exceeds (num (get ctx ''concurrency_count'')) (num (get ctx ''max_concurrency''))"
    by (rule under_limit_iff; rule nums; simp add: RUN_SPAWN_CHILD_REQUIRED_NUMERIC_CONTEXT_def)+
  show ?thesis
    unfolding spawn_permitted_def stat ids lim using True by (auto simp: spawn_context_present_def)
next
  case False
  have "\<not> spawn_permitted ctx"
  proof
    assume perm: "spawn_permitted ctx"
    then have "spawn_context_present ctx"
      by (simp add: spawn_permitted_def spawn_context_present_def)
    moreover from perm have "spawn_numbers_present ctx"
      by (auto simp: spawn_permitted_def spawn_numbers_present_def
          RUN_SPAWN_CHILD_REQUIRED_NUMERIC_CONTEXT_def dest!: under_limit_numbers)
    ultimately show False using False by simp
  qed
  with False show ?thesis by blast
qed

lemma verdict_spawn:
  "verdict ruleRunSpawnChild ctx =
     (if action_of ctx = ''run.spawn_child''
      then Some (if spawn_permitted ctx then Allow else Deny) else None)"
proof (cases "action_of ctx = ''run.spawn_child''")
  case True
  then show ?thesis unfolding verdict_spawn_order [OF True] spawn_permitted_iff by simp
next
  case False
  then show ?thesis by (simp add: verdict_def ruleRunSpawnChild_def)
qed

lemma verdict_skill:
  "verdict ruleRuntimeSkillRenderEnabled ctx =
     (if action_of ctx = ''runtime_skill.render'' \<and> skill_binding_enabled ctx then Some Allow else None)"
  by (auto simp: verdict_def ruleRuntimeSkillRenderEnabled_def skill_binding_enabled_def Let_def)

lemma verdict_retrieval:
  "verdict ruleRetrievalToolCall ctx =
     (if action_of ctx \<in> set RETRIEVAL_TOOL_ACTIONS
      then Some (if retrieval_permitted ctx then Allow else Deny) else None)"
  by (auto simp: verdict_def ruleRetrievalToolCall_def retrieval_permitted_def Let_def)

lemmas verdicts =
  verdict_space verdict_agent verdict_memory verdict_credential verdict_tool verdict_patch
  verdict_automation verdict_execute verdict_spawn verdict_skill verdict_retrieval

section \<open>The engine refines the specification\<close>

text \<open>The verdict of the whole chain, with the registry default as the last resort.\<close>

definition chain_verdict :: "jsobj \<Rightarrow> decision_value option" where
  "chain_verdict ctx = first_some (map verdict BUILTIN_RULES) ctx"

lemma first_some_rules: "map_option pd_decision (first_some BUILTIN_RULES ctx) = chain_verdict ctx"
proof -
  have "verdict = (\<lambda>g y. map_option pd_decision (g y))"
    by (intro ext) (simp add: verdict_def)
  then show ?thesis by (simp add: chain_verdict_def map_option_first_some)
qed

lemma registry_default_decision_simps [simp, decision_simps]:
  "pd_decision (registry_default_decision d ctx) = ad_default_decision d"
  "pd_risk_level (registry_default_decision d ctx) = ad_default_risk_level d"
  "pd_policy_source (registry_default_decision d ctx) = ''registry''"
  "pd_required_approver_role (registry_default_decision d ctx) = ad_default_required_approver_role d"
  by (simp_all add: registry_default_decision_def Let_def)

lemma unknown_action_denial_simps [simp, decision_simps]:
  "pd_decision (unknown_action_denial ctx) = Deny"
  "pd_risk_level (unknown_action_denial ctx) = High"
  by (simp_all add: unknown_action_denial_def Let_def)

lemma engineCheck_decision:
  "pd_decision (engineCheck reg ctx) =
     (case reg (action_of ctx) of
        None \<Rightarrow> Deny
      | Some d \<Rightarrow> (case chain_verdict ctx of Some v \<Rightarrow> v | None \<Rightarrow> ad_default_decision d))"
  using first_some_rules [of ctx]
  by (auto simp: engineCheck_def requireActionDefinition_def split: option.splits)

lemma chain_verdict_eq:
  "chain_verdict ctx =
     (case verdict ruleSpaceBoundary ctx of Some v \<Rightarrow> Some v | None \<Rightarrow>
      case verdict ruleAgentStatus ctx of Some v \<Rightarrow> Some v | None \<Rightarrow>
      first_some (map verdict (drop 2 BUILTIN_RULES)) ctx)"
  by (simp add: chain_verdict_def BUILTIN_RULES_def cong: option.case_cong split: option.split)

lemma action_verdict:
  assumes "spaces_agree ctx"
  shows "(case first_some (map verdict (drop 2 BUILTIN_RULES)) ctx of
            Some v \<Rightarrow> v = Allow | None \<Rightarrow> dflt) \<longleftrightarrow> action_grants ctx dflt"
  using assms
  by (auto simp: BUILTIN_RULES_def verdicts action_grants_def Let_def memory_write_def
      credential_covered_def AUTOMATION_ACTIONS_def RETRIEVAL_TOOL_ACTIONS_def)

lemma engine_allow_iff: "pd_decision (engineCheck reg ctx) = Allow \<longleftrightarrow> engine_grants reg ctx"
proof (cases "reg (action_of ctx)")
  case None
  then show ?thesis by (simp add: engineCheck_decision engine_grants_def)
next
  case (Some d)
  let ?rest = "first_some (map verdict (drop 2 BUILTIN_RULES)) ctx"
  have "(case chain_verdict ctx of Some v \<Rightarrow> v | None \<Rightarrow> ad_default_decision d) = Allow \<longleftrightarrow>
      spaces_agree ctx \<and> agent_may_act ctx \<and>
      (case ?rest of Some v \<Rightarrow> v = Allow | None \<Rightarrow> ad_default_decision d = Allow)"
    unfolding chain_verdict_eq verdict_space verdict_agent by (auto split: option.splits)
  with Some show ?thesis
    by (auto simp: engineCheck_decision engine_grants_def action_verdict)
qed

section \<open>Properties\<close>

text \<open>
  C3: the rule engine refines the access specification: it answers allow exactly on the contexts
  whose action is registered, whose spaces agree, whose agent may act, and whose evidence
  satisfies the specification of the action.
\<close>

theorem engine_refines_specification:
  "pd_decision (engineCheck reg ctx) = Allow \<longleftrightarrow> engine_grants reg ctx"
  by (rule engine_allow_iff)

end
