(* ===== verification/PolicySanitizer.thy ===== *)
theory PolicySanitizer
  imports PolicyTypes
begin

text \<open>
  The metadata sanitizer of the durable audit record, \<open>policy/sanitizer.ts\<close>. The mutable budget
  object is threaded through as a number; the code only decrements it where it is positive. The
  lemmas bound what reaches the record and show that metadata inside the bounds is kept as it is.
\<close>

section \<open>The sanitizer\<close>

definition DANGEROUS_KEYS :: "string list" where
  "DANGEROUS_KEYS =
     [''password'', ''token'', ''api_key'', ''secret'', ''credential'', ''personal_context_block'',
      ''raw_memory'', ''memory_content'', ''prompt'', ''rendered_context'', ''stdout'', ''stderr'',
      ''patch'', ''diff'', ''file_content'']"

abbreviation MAX_DEPTH :: nat where "MAX_DEPTH \<equiv> 4"
abbreviation MAX_KEYS :: nat where "MAX_KEYS \<equiv> 32"
abbreviation MAX_STR_LEN :: nat where "MAX_STR_LEN \<equiv> 512"
abbreviation MAX_TOTAL_KEYS :: nat where "MAX_TOTAL_KEYS \<equiv> 128"

abbreviation REDACTED :: jsval where "REDACTED \<equiv> JStr ''[REDACTED]''"

definition isDangerousKey :: "string \<Rightarrow> bool" where
  "isDangerousKey key \<longleftrightarrow> (let lower = to_lower key in list_ex (contains lower) DANGEROUS_KEYS)"

text \<open>
  \<open>sanitizeEntries\<close> is the loop over \<open>Object.entries(value)\<close>; \<open>sanitizeItems n\<close> is \<open>map\<close> over the
  first \<open>n\<close> items of an array, left to right.
\<close>

fun sanitizeValue :: "jsval \<Rightarrow> nat \<Rightarrow> nat \<Rightarrow> jsval \<times> nat"
  and sanitizeEntries :: "jsobj \<Rightarrow> nat \<Rightarrow> nat \<Rightarrow> jsobj \<times> nat"
  and sanitizeItems :: "nat \<Rightarrow> jsval list \<Rightarrow> nat \<Rightarrow> nat \<Rightarrow> jsval list \<times> nat" where
  "sanitizeValue (JObj es) depth budget =
     (if MAX_DEPTH < depth \<or> budget = 0 then (REDACTED, budget)
      else let r = sanitizeEntries es depth budget in (JObj (fst r), snd r))"
| "sanitizeValue (JArr vs) depth budget =
     (if MAX_DEPTH < depth \<or> budget = 0 then (REDACTED, budget)
      else let r = sanitizeItems MAX_KEYS vs depth budget in (JArr (fst r), snd r))"
| "sanitizeValue (JStr s) depth budget =
     (if MAX_DEPTH < depth \<or> budget = 0 then (REDACTED, budget)
      else (JStr (if MAX_STR_LEN < length s then take MAX_STR_LEN s else s), budget))"
| "sanitizeValue value depth budget =
     (if MAX_DEPTH < depth \<or> budget = 0 then (REDACTED, budget) else (value, budget))"
| "sanitizeEntries [] depth budget = ([], budget)"
| "sanitizeEntries ((k, v) # es) depth budget =
     (if budget = 0 then ([], budget)
      else if isDangerousKey k
      then let r = sanitizeEntries es depth (budget - 1) in ((k, REDACTED) # fst r, snd r)
      else let v' = sanitizeValue v (depth + 1) (budget - 1);
               r = sanitizeEntries es depth (snd v')
           in ((k, fst v') # fst r, snd r))"
| "sanitizeItems 0 vs depth budget = ([], budget)"
| "sanitizeItems (Suc n) [] depth budget = ([], budget)"
| "sanitizeItems (Suc n) (v # vs) depth budget =
     (let v' = sanitizeValue v (depth + 1) budget;
          r = sanitizeItems n vs depth (snd v')
      in (fst v' # fst r, snd r))"

text \<open>The cast of the result to a record: the top level call always yields an object.\<close>

definition sanitizePolicyMetadata :: "jsobj option \<Rightarrow> jsobj option" where
  "sanitizePolicyMetadata data =
     (case data of
        None \<Rightarrow> None
      | Some ob \<Rightarrow> asRecord (fst (sanitizeValue (JObj ob) 0 MAX_TOTAL_KEYS)))"

section \<open>What the record may hold\<close>

text \<open>
  \<open>redacted\<close>: no dangerous key keeps a value, at any depth. \<open>bounded d\<close>: at most \<open>d\<close> levels of
  containers, arrays and strings within their limits. \<open>key_count\<close>: the keys in all objects.
\<close>

fun redacted :: "jsval \<Rightarrow> bool" where
  "redacted (JObj es) \<longleftrightarrow> (\<forall>(k, v) \<in> set es. (isDangerousKey k \<longrightarrow> v = REDACTED) \<and> redacted v)"
| "redacted (JArr vs) \<longleftrightarrow> (\<forall>v \<in> set vs. redacted v)"
| "redacted _ \<longleftrightarrow> True"

fun bounded :: "nat \<Rightarrow> jsval \<Rightarrow> bool" where
  "bounded 0 v \<longleftrightarrow> v = REDACTED"
| "bounded (Suc d) (JObj es) \<longleftrightarrow> (\<forall>(k, v) \<in> set es. bounded d v)"
| "bounded (Suc d) (JArr vs) \<longleftrightarrow> length vs \<le> MAX_KEYS \<and> (\<forall>v \<in> set vs. bounded d v)"
| "bounded (Suc d) (JStr s) \<longleftrightarrow> length s \<le> MAX_STR_LEN"
| "bounded (Suc d) _ \<longleftrightarrow> True"

fun key_count :: "jsval \<Rightarrow> nat" and entries_count :: "jsobj \<Rightarrow> nat"
  and items_count :: "jsval list \<Rightarrow> nat" where
  "key_count (JObj es) = entries_count es"
| "key_count (JArr vs) = items_count vs"
| "key_count _ = 0"
| "entries_count [] = 0"
| "entries_count ((k, v) # es) = Suc (key_count v + entries_count es)"
| "items_count [] = 0"
| "items_count (v # vs) = key_count v + items_count vs"

lemma bounded_REDACTED [simp]: "bounded d REDACTED"
  by (cases d) simp_all

lemma bounded_Suc: "bounded d v \<Longrightarrow> bounded (Suc d) v"
  by (induction d v rule: bounded.induct) auto

lemmas sanitize_induct = sanitizeValue_sanitizeEntries_sanitizeItems.induct

lemma sanitize_redacted:
  "redacted (fst (sanitizeValue v d b))"
  "\<forall>(k, w) \<in> set (fst (sanitizeEntries es d b)). (isDangerousKey k \<longrightarrow> w = REDACTED) \<and> redacted w"
  "\<forall>w \<in> set (fst (sanitizeItems n vs d b)). redacted w"
  by (induction v d b and es d b and n vs d b rule: sanitize_induct) (simp_all add: Let_def)

text \<open>Every key of the output is paid for, so the budget bounds their number.\<close>

lemma sanitize_budget:
  "key_count (fst (sanitizeValue v d b)) + snd (sanitizeValue v d b) \<le> b"
  "entries_count (fst (sanitizeEntries es d b)) + snd (sanitizeEntries es d b) \<le> b"
  "items_count (fst (sanitizeItems n vs d b)) + snd (sanitizeItems n vs d b) \<le> b"
proof (induction v d b and es d b and n vs d b rule: sanitize_induct)
  case (6 k v es depth budget)
  let ?v = "sanitizeValue v (depth + 1) (budget - 1)"
  show ?case
  proof (cases "budget = 0 \<or> isDangerousKey k")
    case True
    with 6(1) show ?thesis by (auto simp: Let_def)
  next
    case False
    with 6(2,3) have "key_count (fst ?v) + snd ?v \<le> budget - 1"
      and "entries_count (fst (sanitizeEntries es depth (snd ?v)))
           + snd (sanitizeEntries es depth (snd ?v)) \<le> snd ?v" by simp_all
    with False show ?thesis by (auto simp: Let_def)
  qed
qed (auto simp: Let_def)

lemma length_sanitizeItems: "length (fst (sanitizeItems n vs d b)) \<le> n"
proof (induction n arbitrary: vs b)
  case (Suc n)
  then show ?case by (cases vs) (simp_all add: Let_def)
qed simp

lemma sanitize_bounded:
  "d + k = 5 \<Longrightarrow> bounded k (fst (sanitizeValue v d b))"
  "d + k = 4 \<Longrightarrow> \<forall>(key, w) \<in> set (fst (sanitizeEntries es d b)). bounded k w"
  "d + k = 4 \<Longrightarrow> \<forall>w \<in> set (fst (sanitizeItems n vs d b)). bounded k w"
proof (induction v d b and es d b and n vs d b arbitrary: k and k and k rule: sanitize_induct)
  case (1 es d b)
  then show ?case by (cases k) (auto simp: Let_def)
next
  case (2 vs d b)
  then show ?case by (cases k) (auto simp: Let_def length_sanitizeItems)
next
  case (3 s d b)
  then show ?case by (cases k) (auto simp: Let_def)
qed (case_tac k; auto simp: Let_def)+

text \<open>Metadata inside the bounds, with fewer keys than the budget, is recorded unchanged.\<close>

lemma sanitize_unchanged:
  "d + k = 5 \<Longrightarrow> bounded k v \<Longrightarrow> redacted v \<Longrightarrow> key_count v < b \<Longrightarrow>
     sanitizeValue v d b = (v, b - key_count v)"
  "d + k = 4 \<Longrightarrow> \<forall>(key, w) \<in> set es. bounded k w \<and> (isDangerousKey key \<longrightarrow> w = REDACTED) \<and> redacted w
     \<Longrightarrow> entries_count es < b \<Longrightarrow> sanitizeEntries es d b = (es, b - entries_count es)"
  "d + k = 4 \<Longrightarrow> length vs \<le> n \<Longrightarrow> \<forall>w \<in> set vs. bounded k w \<and> redacted w \<Longrightarrow> items_count vs < b
     \<Longrightarrow> sanitizeItems n vs d b = (vs, b - items_count vs)"
proof (induction v d b and es d b and n vs d b arbitrary: k and k and k rule: sanitize_induct)
  case (1 es d b)
  then show ?case by (cases k) (auto simp: Let_def case_prod_beta)
next
  case (2 vs d b)
  then show ?case by (cases k) (auto simp: Let_def)
next
  case (3 s d b)
  then show ?case by (cases k) auto
next
  case (6 key v es d b)
  then show ?case by (cases "isDangerousKey key") (simp_all add: Let_def)
next
  case (9 n v vs d b)
  then show ?case by (simp add: Let_def)
qed (case_tac k; simp)+

lemma sanitizePolicyMetadata_Some:
  "sanitizePolicyMetadata (Some ob) = Some (fst (sanitizeEntries ob 0 MAX_TOTAL_KEYS))"
  by (simp add: sanitizePolicyMetadata_def Let_def)

lemma sanitizePolicyMetadata_None [simp]: "sanitizePolicyMetadata None = None"
  by (simp add: sanitizePolicyMetadata_def)

definition audit_safe :: "jsobj \<Rightarrow> bool" where
  "audit_safe ob \<longleftrightarrow>
     redacted (JObj ob) \<and> bounded (Suc MAX_DEPTH) (JObj ob) \<and> key_count (JObj ob) \<le> MAX_TOTAL_KEYS"

lemma bounded_object: "bounded (Suc MAX_DEPTH) (JObj es) \<longleftrightarrow> (\<forall>(k, v) \<in> set es. bounded MAX_DEPTH v)"
  by (rule bounded.simps(2))

lemma sanitized_audit_safe: "sanitizePolicyMetadata data = Some out \<Longrightarrow> audit_safe out"
proof (cases data)
  case (Some ob)
  assume "sanitizePolicyMetadata data = Some out"
  with Some have out: "out = fst (sanitizeEntries ob 0 MAX_TOTAL_KEYS)"
    by (simp add: sanitizePolicyMetadata_Some)
  have "redacted (JObj out)" using sanitize_redacted(2) [of ob 0] by (simp add: out)
  moreover have "bounded (Suc MAX_DEPTH) (JObj out)"
    unfolding bounded_object out by (rule sanitize_bounded(2)) simp
  moreover have "key_count (JObj out) \<le> MAX_TOTAL_KEYS"
    using sanitize_budget(2) [of ob 0 MAX_TOTAL_KEYS] by (simp add: out)
  ultimately show ?thesis by (simp add: audit_safe_def)
qed simp

lemma sanitized_unchanged:
  assumes "audit_safe ob" and "key_count (JObj ob) < MAX_TOTAL_KEYS"
  shows "sanitizePolicyMetadata (Some ob) = Some ob"
proof -
  have "sanitizeEntries ob 0 MAX_TOTAL_KEYS = (ob, MAX_TOTAL_KEYS - entries_count ob)"
    by (rule sanitize_unchanged(2) [of 0 4]) (use assms in \<open>auto simp: audit_safe_def bounded_object simp del: Suc_numeral\<close>)
  then show ?thesis by (simp add: sanitizePolicyMetadata_Some)
qed

section \<open>Properties\<close>

text \<open>
  Sanitized metadata keeps no value under a dangerous key, at any depth, and is bounded: five
  levels, 32 items per array, 512 characters per string, 128 keys in all.
\<close>

theorem sanitizer_bounds:
  "case sanitizePolicyMetadata data of None \<Rightarrow> data = None | Some out \<Rightarrow> audit_safe out"
  using sanitized_audit_safe [of data]
  by (cases data) (auto simp: sanitizePolicyMetadata_Some split: option.split)

text \<open>Metadata already inside the bounds, with fewer than 128 keys, is recorded as it is.\<close>

theorem sanitizer_identity:
  assumes "audit_safe ob" and "key_count (JObj ob) < MAX_TOTAL_KEYS"
  shows "sanitizePolicyMetadata (Some ob) = Some ob"
  using assms by (rule sanitized_unchanged)

theorem sanitizer_identity_witness:
  "sanitizePolicyMetadata (Some [(''run'', JObj [(''id'', JStr ''r1''), (''ok'', JBool True)])]) =
     Some [(''run'', JObj [(''id'', JStr ''r1''), (''ok'', JBool True)])]"
proof (rule sanitizer_identity)
  show "audit_safe [(''run'', JObj [(''id'', JStr ''r1''), (''ok'', JBool True)])]"
    by code_simp
  show "key_count (JObj [(''run'', JObj [(''id'', JStr ''r1''), (''ok'', JBool True)])]) < MAX_TOTAL_KEYS"
    by simp
qed

end
