(* ===== verification/PolicyGateway.thy ===== *)
theory PolicyGateway
  imports PolicyEngine PolicySanitizer
begin

text \<open>
  The pure part of the policy gateway, \<open>policy/gateway.ts\<close>: the contexts the guards and the engine
  see, the durable-audit requirement and its failure mode, the audit envelope, the decision of an
  action, and the gate a proposal passes before it is applied.
\<close>

section \<open>Contexts\<close>

text \<open>\<open>if (value) ctx.k = value\<close>, and \<open>a ?? b\<close> on nullable fields.\<close>

definition put_if :: "string \<Rightarrow> jsval \<Rightarrow> jsobj \<Rightarrow> jsobj" where
  "put_if k v ob = (if truthy v then put k v ob else ob)"

definition buildEngineCtx :: "check_request \<Rightarrow> jsobj" where
  "buildEngineCtx req =
     (let ctx = [(''action'', JStr (rq_action req))];
          ctx = put_if ''space_id'' (opt_str (rq_space_id req)) ctx;
          ctx = put_if ''resource_space_id'' (opt_str (rq_resource_space_id req)) ctx;
          ctx = put_if ''actor_id'' (opt_str (rq_actor_id req)) ctx;
          ctx = put_if ''actor_ref'' (opt_obj (rq_actor_ref req)) ctx;
          ctx = put_if ''resource_type'' (opt_str (rq_resource_type req)) ctx;
          ctx = put_if ''resource_id'' (opt_str (rq_resource_id req)) ctx;
          ctx = put_if ''proposal_id'' (opt_str (rq_proposal_id req)) ctx
      in (case rq_context req of None \<Rightarrow> ctx | Some c \<Rightarrow> assign ctx c))"

definition buildGuardCtx :: "check_request \<Rightarrow> jsobj" where
  "buildGuardCtx req =
     (let ctx = [(''action'', JStr (rq_action req))];
          ctx = put_if ''space_id'' (opt_str (rq_space_id req)) ctx;
          ctx = put_if ''resource_space_id'' (opt_str (rq_resource_space_id req)) ctx;
          ctx = put_if ''metadata_json'' (opt_obj (rq_metadata_json req)) ctx;
          ctx = put_if ''payload'' (opt_obj (rq_payload req)) ctx
      in (case rq_context req of
            None \<Rightarrow> ctx
          | Some c \<Rightarrow> put ''context'' (JObj c) (assign ctx c)))"

definition triggerOrigin :: "check_request \<Rightarrow> string" where
  "triggerOrigin req =
     (case rq_context req of None \<Rightarrow> [] | Some ctx \<Rightarrow> str (get ctx ''trigger_origin''))"

section \<open>Durable audit and failure mode\<close>

definition isDurableAuditRequired ::
  "action_definition option \<Rightarrow> policy_decision \<Rightarrow> check_request \<Rightarrow> bool" where
  "isDurableAuditRequired defn d req \<longleftrightarrow>
     (if rq_force_record req then True
      else if (case defn of None \<Rightarrow> False | Some f \<Rightarrow> ad_audit_required f) then True
      else if (case defn of None \<Rightarrow> False | Some f \<Rightarrow> ad_record_failure_mode f = FailClosed) then True
      else if pd_decision d = Deny \<or> pd_decision d = RequireApproval then True
      else if pd_risk_level d = Critical then True
      else if triggerOrigin req = ''automation'' then True
      else False)"

definition resolveFailureMode ::
  "action_definition option \<Rightarrow> policy_decision \<Rightarrow> check_request \<Rightarrow> failure_mode" where
  "resolveFailureMode defn d req =
     (if rq_force_record req then FailClosed
      else if (case defn of None \<Rightarrow> False | Some f \<Rightarrow> ad_record_failure_mode f = FailClosed)
      then FailClosed
      else
        let auditRequired = (case defn of None \<Rightarrow> False | Some f \<Rightarrow> ad_audit_required f);
            origin = triggerOrigin req
        in if auditRequired \<and> origin = ''automation'' then FailClosed
           else if auditRequired \<and> pd_risk_level d = Critical then FailClosed
           else if pd_decision d \<noteq> Allow \<and> origin = ''automation'' then FailClosed
           else if pd_decision d \<noteq> Allow \<and> pd_risk_level d = Critical then FailClosed
           else BestEffort)"

text \<open>A fail-closed mode only arises where the audit is durable.\<close>

lemma fail_closed_durable:
  "resolveFailureMode defn d req = FailClosed \<Longrightarrow> isDurableAuditRequired defn d req"
  by (cases "pd_decision d")
    (auto simp: resolveFailureMode_def isDurableAuditRequired_def Let_def
      split: if_splits option.splits)

lemma resolveFailureMode_forced:
  "ad_record_failure_mode f = FailClosed \<or> rq_force_record req \<Longrightarrow>
     resolveFailureMode (Some f) d req = FailClosed"
  by (auto simp: resolveFailureMode_def)

definition buildAuditEnvelope ::
  "check_request \<Rightarrow> policy_decision \<Rightarrow> action_definition option \<Rightarrow> string \<Rightarrow> audit_envelope" where
  "buildAuditEnvelope req d defn nowIso =
     (let resourceType = coalesce (opt_str (rq_resource_type req))
            (case defn of Some f \<Rightarrow> JStr (ad_resource_type f)
             | None \<Rightarrow> coalesce (pd_resource_type d) JNull);
          proposalId =
            (case rq_proposal_id req of
               Some p \<Rightarrow> Some p
             | None \<Rightarrow> if strict_eq resourceType (JStr ''proposal'')
                       then or_else (rq_resource_id req) (pd_resource_id d) else None)
      in \<lparr>ae_space_id = coalesce (opt_str (rq_space_id req)) (coalesce (pd_space_id d) JNull),
          ae_actor_type = or_else (rq_actor_type req) (pd_actor_type d),
          ae_actor_id = coalesce (opt_str (rq_actor_id req)) (coalesce (pd_actor_id d) JNull),
          ae_actor_ref_json = or_else (rq_actor_ref req) (pd_actor_ref d),
          ae_action = rq_action req,
          ae_resource_type = resourceType,
          ae_resource_id = or_else (rq_resource_id req) (pd_resource_id d),
          ae_decision = pd_decision d,
          ae_risk_level = pd_risk_level d,
          ae_required_approver_role = pd_required_approver_role d,
          ae_approval_capability = pd_approval_capability d,
          ae_policy_rule_id = pd_policy_rule_id d,
          ae_policy_source = Some (pd_policy_source d),
          ae_policy_id = pd_policy_id d,
          ae_audit_code = pd_audit_code d,
          ae_run_id = rq_run_id req,
          ae_proposal_id = proposalId,
          ae_metadata_json = sanitizePolicyMetadata (rq_metadata_json req),
          ae_created_at = nowIso\<rparr>)"

section \<open>The decision of an action\<close>

text \<open>The identity fields the three registry denials share.\<close>

definition denial_for :: "check_request \<Rightarrow> string \<Rightarrow> risk_level \<Rightarrow> string \<Rightarrow> string \<Rightarrow> string \<Rightarrow> policy_decision" where
  "denial_for req msg r code rule source =
     (makeDecision Deny msg)
       \<lparr>pd_risk_level := r, pd_reason_code := Some code, pd_policy_rule_id := Some rule,
        pd_policy_source := source, pd_audit_code := Some code,
        pd_action := JStr (rq_action req), pd_space_id := opt_str (rq_space_id req),
        pd_actor_type := rq_actor_type req, pd_actor_id := opt_str (rq_actor_id req),
        pd_actor_ref := rq_actor_ref req, pd_resource_id := rq_resource_id req\<rparr>"

definition unknown_action_decision :: "check_request \<Rightarrow> policy_decision" where
  "unknown_action_decision req =
     (denial_for req (''Unknown policy action '' @ pyRepr (rq_action req) @ ''.'') High
        ''unknown_policy_action'' ''unknown_action_deny'' ''builtin'')
     \<lparr>pd_resource_type := opt_str (rq_resource_type req)\<rparr>"

definition reserved_decision :: "action_definition \<Rightarrow> check_request \<Rightarrow> policy_decision" where
  "reserved_decision defn req =
     (denial_for req
        (''Policy action '' @ pyRepr (rq_action req) @ '' is reserved and has no enforcement point. '' @
         ''Reserved actions always fail closed until the action is wired to a real enforcement point.'')
        (ad_default_risk_level defn) ''policy_action_not_implemented'' ''action_not_implemented''
        ''registry'')
     \<lparr>pd_resource_type := JStr (ad_resource_type defn),
      pd_required_approver_role := ad_default_required_approver_role defn,
      pd_approval_capability := ad_approval_capability defn\<rparr>"

definition via_proposal_decision :: "action_definition \<Rightarrow> check_request \<Rightarrow> policy_decision" where
  "via_proposal_decision defn req =
     (denial_for req
        (''Policy action '' @ pyRepr (rq_action req) @ '' is enforced via the proposal.apply gate and '' @
         ''must not be enforced as a standalone action. Use PolicyGateway.enforce_proposal_apply() '' @
         ''instead.'')
        (ad_default_risk_level defn) ''policy_action_via_proposal_only'' ''action_via_proposal_only''
        ''registry'')
     \<lparr>pd_resource_type := JStr (ad_resource_type defn),
      pd_required_approver_role := ad_default_required_approver_role defn,
      pd_approval_capability := ad_approval_capability defn\<rparr>"

text \<open>The two back-fills differ in where the resource type comes from.\<close>

definition backfill_identity :: "check_request \<Rightarrow> policy_decision \<Rightarrow> policy_decision" where
  "backfill_identity req d =
     d\<lparr>pd_actor_type := or_else (pd_actor_type d) (rq_actor_type req),
       pd_actor_id := coalesce (pd_actor_id d) (opt_str (rq_actor_id req)),
       pd_actor_ref := or_else (pd_actor_ref d) (rq_actor_ref req),
       pd_space_id := coalesce (pd_space_id d) (opt_str (rq_space_id req)),
       pd_resource_id := or_else (pd_resource_id d) (rq_resource_id req)\<rparr>"

definition backfill_resource_type :: "jsval \<Rightarrow> policy_decision \<Rightarrow> policy_decision" where
  "backfill_resource_type v d = d\<lparr>pd_resource_type := coalesce (pd_resource_type d) v\<rparr>"

definition computeDecision ::
  "registry \<Rightarrow> check_request \<Rightarrow> action_definition option \<times> policy_decision" where
  "computeDecision reg req =
     (case getActionDefinition reg (rq_action req) of
        None \<Rightarrow> (None, unknown_action_decision req)
      | Some defn \<Rightarrow>
          if ad_lifecycle_status defn = Reserved then (Some defn, reserved_decision defn req)
          else if ad_lifecycle_status defn = WiredViaProposal
          then (Some defn, via_proposal_decision defn req)
          else (case checkHardInvariants (buildGuardCtx req) of
              Some denial \<Rightarrow>
                (Some defn, backfill_resource_type
                   (coalesce (JStr (ad_resource_type defn)) (opt_str (rq_resource_type req)))
                   (backfill_identity req denial))
            | None \<Rightarrow>
                (Some defn, backfill_resource_type (JStr (ad_resource_type defn))
                   (backfill_identity req (engineCheck reg (buildEngineCtx req))))))"

lemma backfill_simps [simp, decision_simps]:
  "pd_decision (backfill_identity req d) = pd_decision d"
  "pd_risk_level (backfill_identity req d) = pd_risk_level d"
  "pd_policy_source (backfill_identity req d) = pd_policy_source d"
  "pd_decision (backfill_resource_type v d) = pd_decision d"
  "pd_risk_level (backfill_resource_type v d) = pd_risk_level d"
  "pd_policy_source (backfill_resource_type v d) = pd_policy_source d"
  by (simp_all add: backfill_identity_def backfill_resource_type_def)

lemma registry_denial_simps [simp, decision_simps]:
  "pd_decision (unknown_action_decision req) = Deny"
  "pd_decision (reserved_decision defn req) = Deny"
  "pd_decision (via_proposal_decision defn req) = Deny"
  by (simp_all add: unknown_action_decision_def reserved_decision_def via_proposal_decision_def
      denial_for_def)

lemma fst_computeDecision: "fst (computeDecision reg req) = reg (rq_action req)"
  by (simp add: computeDecision_def getActionDefinition_def split: option.split)

text \<open>An action is allowed exactly where it is wired, no invariant is violated and the engine grants it.\<close>

lemma computeDecision_allow_iff:
  "pd_decision (snd (computeDecision reg req)) = Allow \<longleftrightarrow>
     (\<exists>defn. reg (rq_action req) = Some defn \<and> ad_lifecycle_status defn = WiredDirect) \<and>
     \<not> violates_invariant (buildGuardCtx req) \<and> engine_grants reg (buildEngineCtx req)"
proof (cases "reg (rq_action req)")
  case None
  then show ?thesis by (simp add: computeDecision_def getActionDefinition_def)
next
  case (Some defn)
  show ?thesis
  proof (cases "checkHardInvariants (buildGuardCtx req)")
    case None
    moreover from None have "\<not> violates_invariant (buildGuardCtx req)"
      by (simp only: checkHardInvariants_None_iff simp_thms)
    ultimately show ?thesis using Some
      by (cases "ad_lifecycle_status defn")
        (simp_all add: computeDecision_def getActionDefinition_def engine_allow_iff)
  next
    case (Some denial)
    then have "violates_invariant (buildGuardCtx req)" and "pd_decision denial = Deny"
      using checkHardInvariants_None_iff [of "buildGuardCtx req"] checkHardInvariants_SomeD
      by (auto simp: critical_denial_def)
    with Some \<open>reg (rq_action req) = Some defn\<close> show ?thesis
      by (simp add: computeDecision_def getActionDefinition_def)
  qed
qed

lemma computeDecision_invariant:
  assumes "reg (rq_action req) = Some defn" and "ad_lifecycle_status defn = WiredDirect"
    and "violates_invariant (buildGuardCtx req)"
  shows "pd_decision (snd (computeDecision reg req)) = Deny"
    and "pd_risk_level (snd (computeDecision reg req)) = Critical"
    and "pd_policy_source (snd (computeDecision reg req)) = ''hard_invariant''"
proof -
  from assms(3) obtain denial where "checkHardInvariants (buildGuardCtx req) = Some denial"
    using checkHardInvariants_None_iff by (cases "checkHardInvariants (buildGuardCtx req)") auto
  moreover from this have "critical_denial (buildGuardCtx req) denial" by (rule checkHardInvariants_SomeD)
  ultimately show "pd_decision (snd (computeDecision reg req)) = Deny"
    and "pd_risk_level (snd (computeDecision reg req)) = Critical"
    and "pd_policy_source (snd (computeDecision reg req)) = ''hard_invariant''"
    using assms(1,2) by (simp_all add: computeDecision_def getActionDefinition_def critical_denial_def)
qed

text \<open>
  The request's own fields reach the rules unless its context has keys of the same names, which
  \<open>Object.assign\<close> lets overwrite them.
\<close>

lemma get_put_if: "get (put_if k v ob) k' = (if k' = k \<and> truthy v then v else get ob k')"
  by (simp add: put_if_def)

lemma truthy_opt_str [simp]: "truthy (opt_str s) \<longleftrightarrow> (\<exists>c cs. s = Some (c # cs))"
  by (cases s) (auto simp: neq_Nil_conv)

definition context_keeps :: "check_request \<Rightarrow> string \<Rightarrow> bool" where
  "context_keeps req k \<longleftrightarrow> (case rq_context req of None \<Rightarrow> True | Some c \<Rightarrow> \<not> has_key c k)"

lemma action_of_buildEngineCtx:
  "context_keeps req ''action'' \<Longrightarrow> action_of (buildEngineCtx req) = rq_action req"
  by (auto simp: buildEngineCtx_def action_of_def context_keeps_def Let_def get_put_if
      get_assign_absent split: option.splits)

lemma action_of_buildGuardCtx:
  "context_keeps req ''action'' \<Longrightarrow> action_of (buildGuardCtx req) = rq_action req"
  by (auto simp: buildGuardCtx_def action_of_def context_keeps_def Let_def get_put_if
      get_assign_absent split: option.splits)

section \<open>The proposal gate\<close>

definition PROPOSAL_TYPE_RISK_entries :: "(string \<times> risk_level) list" where
  "PROPOSAL_TYPE_RISK_entries =
     [(''memory_create'', Medium), (''memory_update'', Medium), (''memory_archive'', Medium),
      (''follow_up_task'', Medium), (''plan_review'', Medium), (''plan_checkpoint'', Medium),
      (''code_patch'', High), (''policy_change'', High), (''egress_review'', High),
      (''agent_config_update'', High), (''prompt_update'', Medium), (''knowledge_create'', Medium),
      (''knowledge_update'', Medium), (''knowledge_archive'', Medium), (''claim_create'', Medium),
      (''claim_update'', Medium), (''claim_archive'', Medium), (''object_relation_create'', Medium),
      (''object_relation_delete'', Medium), (''object_kind_create'', High),
      (''object_kind_update'', High), (''object_kind_deprecate'', High),
      (''object_kind_archive'', High), (''claim_candidate_packet'', Medium),
      (''memory_maintenance_packet'', Medium), (''retrieval_diagnostics_packet'', Medium),
      (''retrieval_maintenance_packet'', Medium), (''relation_discovery_packet'', Medium),
      (''skill_import_approve'', Medium), (''capability_install'', High),
      (''capability_update'', High), (''capability_enable'', High),
      (''capability_disable'', Medium), (''runtime_skill_binding_update'', High),
      (''custom_source_policy_delta'', Medium), (''custom_source_credentialed_source'', High),
      (''custom_source_repair_activation'', Medium), (''source_recipe_activation'', Medium),
      (''evolution_bundle_rollback'', High)]"

definition PROPOSAL_TYPE_RISK :: "string \<rightharpoonup> risk_level" where
  "PROPOSAL_TYPE_RISK = map_of PROPOSAL_TYPE_RISK_entries"

definition SUPPORTED_PROPOSAL_TYPES :: "string list" where
  "SUPPORTED_PROPOSAL_TYPES = map fst PROPOSAL_TYPE_RISK_entries"

definition ADMIN_MAX_RISK :: risk_level where "ADMIN_MAX_RISK = High"

definition REVIEWER_MAX_RISK :: risk_level where "REVIEWER_MAX_RISK = Medium"

definition parseProposalRisk :: "string option \<Rightarrow> policy_error + risk_level option" where
  "parseProposalRisk riskStr =
     (case riskStr of
        None \<Rightarrow> Inr None
      | Some s \<Rightarrow>
          if s = [] then Inr None
          else (case parse_risk s of
                  Some r \<Rightarrow> Inr (Some r)
                | None \<Rightarrow> Inl (ProposalRiskLevelError s)))"

definition type_default_risk :: "string \<Rightarrow> risk_level" where
  "type_default_risk proposalType =
     (case PROPOSAL_TYPE_RISK proposalType of None \<Rightarrow> High | Some r \<Rightarrow> r)"

definition effectiveProposalRisk :: "string \<Rightarrow> string option \<Rightarrow> policy_error + risk_level" where
  "effectiveProposalRisk proposalType declaredRiskStr =
     (let typeDefault = type_default_risk proposalType
      in bind_sum (parseProposalRisk declaredRiskStr) (\<lambda>declared.
           case declared of
             None \<Rightarrow> Inr typeDefault
           | Some d \<Rightarrow> Inr (if risk_rank typeDefault < risk_rank d then d else typeDefault)))"

record proposal_input =
  pi_user_id :: string
  pi_space_id :: string
  pi_proposal_id :: string
  pi_proposal_type :: string
  pi_declared_risk :: "string option"
  pi_required_approver_role :: "string option"
  pi_proposal_payload :: "jsobj option"
  pi_metadata_json :: "jsobj option"

definition normalizeRequiredApproverRole :: "string option \<Rightarrow> string option" where
  "normalizeRequiredApproverRole role =
     (case role of
        None \<Rightarrow> None
      | Some r \<Rightarrow> if r = [] then None
                  else if r \<in> {''owner'', ''admin'', ''reviewer''} then Some r
                  else Some ''owner'')"

text \<open>The gateway's own \<open>roleRank\<close>, which differs from the decision core's.\<close>

definition approverRank :: "string \<Rightarrow> nat" where
  "approverRank role =
     (if role = ''owner'' then 3 else if role = ''admin'' then 2 else if role = ''reviewer'' then 1
      else 0)"

definition roleSatisfiesRequiredApprover :: "string \<Rightarrow> string \<Rightarrow> bool" where
  "roleSatisfiesRequiredApprover actorRole requiredRole \<longleftrightarrow>
     approverRank requiredRole \<le> approverRank actorRole"

definition proposal_meta :: "proposal_input \<Rightarrow> risk_level \<Rightarrow> string option \<Rightarrow> jsobj" where
  "proposal_meta input risk membershipRole =
     [(''proposal_type'', JStr (pi_proposal_type input)),
      (''membership_role'', opt_str membershipRole),
      (''effective_risk'', JStr (risk_text risk)),
      (''proposal_declared_risk'', opt_str (pi_declared_risk input)),
      (''proposal_required_approver_role'', opt_str (pi_required_approver_role input)),
      (''default_type_risk'', JStr (risk_text (type_default_risk (pi_proposal_type input)))),
      (''supported_apply_type'', JBool True)]"

text \<open>The fields all outcomes of the gate share.\<close>

definition proposal_decision ::
  "proposal_input \<Rightarrow> decision_value \<Rightarrow> string \<Rightarrow> risk_level \<Rightarrow> string \<Rightarrow> string \<Rightarrow>
     string option \<Rightarrow> jsobj \<Rightarrow> policy_decision" where
  "proposal_decision input d msg risk code rule required meta =
     (makeDecision d msg)
       \<lparr>pd_risk_level := risk, pd_reason_code := Some code, pd_policy_rule_id := Some rule,
        pd_action := JStr ''proposal.apply'', pd_resource_type := JStr ''proposal'',
        pd_resource_id := Some (pi_proposal_id input),
        pd_proposal_type := Some (pi_proposal_type input),
        pd_required_approver_role := required,
        pd_approval_capability := Some ''approve_proposal'',
        pd_audit_code := Some code, pd_space_id := JStr (pi_space_id input),
        pd_actor_id := JStr (pi_user_id input), pd_actor_type := Some ''user'',
        pd_metadata_json := Some meta\<rparr>"

definition approveProposal ::
  "proposal_input \<Rightarrow> risk_level \<Rightarrow> string \<Rightarrow> string \<Rightarrow> string \<Rightarrow> string option \<Rightarrow> policy_decision" where
  "approveProposal input risk role auditCode ruleId required =
     proposal_decision input Allow
       (''User has '' @ role @ '' role; approved for '' @ risk_text risk @ ''-risk proposal'')
       risk auditCode ruleId required (proposal_meta input risk (Some role))"

text \<open>The gate for a member with raw role \<open>r\<close>: the code's last five returns.\<close>

definition member_decision ::
  "proposal_input \<Rightarrow> risk_level \<Rightarrow> string option \<Rightarrow> string \<Rightarrow> policy_decision" where
  "member_decision input risk required r =
     (if (case required of None \<Rightarrow> False | Some q \<Rightarrow> \<not> roleSatisfiesRequiredApprover r q)
      then proposal_decision input RequireApproval
             (''User has '' @ pyRepr r @ '' role; proposal requires '' @ the required @ '' approval'')
             risk ''insufficient_required_approver_role'' ''proposal_apply_required_role''
             required (proposal_meta input risk (Some r))
      else if r = ''owner''
      then approveProposal input risk ''owner'' ''approved_owner'' ''proposal_apply_owner_allow''
             required
      else if r = ''admin'' \<and> risk_rank risk \<le> risk_rank ADMIN_MAX_RISK
      then approveProposal input risk ''admin'' ''approved_admin'' ''proposal_apply_admin_allow''
             required
      else if r = ''reviewer'' \<and> risk_rank risk \<le> risk_rank REVIEWER_MAX_RISK
      then approveProposal input risk ''reviewer'' ''approved_reviewer''
             ''proposal_apply_reviewer_allow'' required
      else proposal_decision input RequireApproval
             (''User has '' @ pyRepr r @ '' role; insufficient authority for '' @ risk_text risk @
              ''-risk proposal'')
             risk ''insufficient_role'' ''proposal_apply_insufficient_role'' required
             (proposal_meta input risk (Some r)))"

definition checkProposalApplyPolicy ::
  "proposal_input \<Rightarrow> string option \<Rightarrow> string list \<Rightarrow> policy_error + policy_decision" where
  "checkProposalApplyPolicy input role supportedTypes =
     (if pi_proposal_type input \<notin> set supportedTypes
      then Inr (proposal_decision input Deny
             (''Proposal type '' @ pyRepr (pi_proposal_type input) @ '' has no supported apply handler'')
             High ''unsupported_proposal_type'' ''proposal_type_not_supported'' None
             [(''proposal_type'', JStr (pi_proposal_type input)),
              (''supported_apply_type'', JBool False)])
      else bind_sum (effectiveProposalRisk (pi_proposal_type input) (pi_declared_risk input)) (\<lambda>risk.
        let required = normalizeRequiredApproverRole (pi_required_approver_role input)
        in Inr (case role of
          None \<Rightarrow> proposal_decision input RequireApproval ''User is not a member of this space'' risk
                    ''no_membership'' ''proposal_apply_no_membership'' required
                    (proposal_meta input risk None)
        | Some r \<Rightarrow> member_decision input risk required r)))"

section \<open>The approval matrix\<close>

text \<open>
  \<open>authority\<close> is the highest risk a role may apply; \<open>may_apply\<close> is the abstract specification of the
  gate: the proposal's risk lies within the authority of the role, and the role is not below the one
  the proposal itself names, where a name without authority stands for the owner.
\<close>

definition authority :: "string \<Rightarrow> risk_level option" where
  "authority = [''owner'' \<mapsto> Critical, ''admin'' \<mapsto> High, ''reviewer'' \<mapsto> Medium]"

definition names_higher_role :: "string option \<Rightarrow> string \<Rightarrow> bool" where
  "names_higher_role required role \<longleftrightarrow>
     (case required of
        None \<Rightarrow> False
      | Some q \<Rightarrow> q \<noteq> [] \<and>
          the (authority role) < (case authority q of Some most \<Rightarrow> most | None \<Rightarrow> Critical))"

definition may_apply :: "string option \<Rightarrow> string option \<Rightarrow> risk_level \<Rightarrow> bool" where
  "may_apply role required risk \<longleftrightarrow>
     (\<exists>r top. role = Some r \<and> authority r = Some top \<and> risk \<le> top \<and> \<not> names_higher_role required r)"

lemma effectiveProposalRisk_max:
  "effectiveProposalRisk t declared =
     (case declared of
        None \<Rightarrow> Inr (type_default_risk t)
      | Some s \<Rightarrow> if s = [] then Inr (type_default_risk t)
                  else (case parse_risk s of
                          None \<Rightarrow> Inl (ProposalRiskLevelError s)
                        | Some r \<Rightarrow> Inr (max (type_default_risk t) r)))"
  by (auto simp: effectiveProposalRisk_def parseProposalRisk_def Let_def max_def
      less_eq_risk_level_def intro: risk_rank_inj split: option.splits)

lemma proposal_decision_simps [simp, decision_simps]:
  "pd_decision (proposal_decision i d m r c ru q mt) = d"
  "pd_risk_level (proposal_decision i d m r c ru q mt) = r"
  "pd_metadata_json (proposal_decision i d m r c ru q mt) = Some mt"
  "pd_decision (approveProposal i r ro a ru q) = Allow"
  "pd_risk_level (approveProposal i r ro a ru q) = r"
  "pd_metadata_json (approveProposal i r ro a ru q) = Some (proposal_meta i r (Some ro))"
  by (simp_all add: proposal_decision_def approveProposal_def)

lemma authority_simps [simp]:
  "authority ''owner'' = Some Critical" "authority ''admin'' = Some High"
  "authority ''reviewer'' = Some Medium"
  "r \<noteq> ''owner'' \<Longrightarrow> r \<noteq> ''admin'' \<Longrightarrow> r \<noteq> ''reviewer'' \<Longrightarrow> authority r = None"
  by (simp_all add: authority_def)

lemma names_higher_role_iff:
  assumes "r \<in> {''owner'', ''admin'', ''reviewer''}"
  shows "names_higher_role required r \<longleftrightarrow>
    (case normalizeRequiredApproverRole required of None \<Rightarrow> False
     | Some q \<Rightarrow> \<not> roleSatisfiesRequiredApprover r q)"
proof (cases required)
  case (Some q)
  show ?thesis
  proof (cases "q \<in> {''owner'', ''admin'', ''reviewer''}")
    case True
    with Some assms show ?thesis
      by (elim insertE) (simp_all add: names_higher_role_def normalizeRequiredApproverRole_def
          roleSatisfiesRequiredApprover_def approverRank_def less_risk_level_def)
  next
    case False
    with Some assms show ?thesis
      by (elim insertE) (simp_all add: names_higher_role_def normalizeRequiredApproverRole_def
          roleSatisfiesRequiredApprover_def approverRank_def less_risk_level_def)
  qed
qed (simp add: names_higher_role_def normalizeRequiredApproverRole_def)

lemma pd_decision_member:
  "pd_decision (member_decision input risk required r) =
     (if (case required of None \<Rightarrow> False | Some q \<Rightarrow> \<not> roleSatisfiesRequiredApprover r q)
      then RequireApproval else if r = ''owner'' then Allow
      else if r = ''admin'' \<and> risk \<le> High then Allow
      else if r = ''reviewer'' \<and> risk \<le> Medium then Allow else RequireApproval)"
  by (simp only: member_decision_def if_distrib [of pd_decision] proposal_decision_simps
      less_eq_risk_level_def ADMIN_MAX_RISK_def REVIEWER_MAX_RISK_def)

lemma member_decision_allow:
  "pd_decision (member_decision input risk (normalizeRequiredApproverRole q) r) = Allow \<longleftrightarrow>
     may_apply (Some r) q risk"
proof (cases "r \<in> {''owner'', ''admin'', ''reviewer''}")
  case True
  then show ?thesis
    unfolding pd_decision_member names_higher_role_iff [OF True, symmetric]
    by (elim insertE) (simp_all add: may_apply_def)
next
  case False
  then show ?thesis by (simp add: pd_decision_member may_apply_def)
qed

lemma checkProposalApplyPolicy_allow:
  assumes "checkProposalApplyPolicy input role supported = Inr d"
  shows "pd_decision d = Allow \<longleftrightarrow>
     pi_proposal_type input \<in> set supported \<and>
     (\<exists>risk. effectiveProposalRisk (pi_proposal_type input) (pi_declared_risk input) = Inr risk \<and>
             may_apply role (pi_required_approver_role input) risk)"
proof (cases "pi_proposal_type input \<in> set supported")
  case False
  with assms show ?thesis by (auto simp: checkProposalApplyPolicy_def)
next
  case supp: True
  with assms obtain risk
    where risk: "effectiveProposalRisk (pi_proposal_type input) (pi_declared_risk input) = Inr risk"
    by (auto simp: checkProposalApplyPolicy_def bind_sum_Inr_iff)
  with supp show ?thesis using assms
    by (cases role) (auto simp: checkProposalApplyPolicy_def member_decision_allow,
        auto simp: may_apply_def)
qed

lemma checkProposalApplyPolicy_total:
  "(\<exists>d. checkProposalApplyPolicy input role supported = Inr d) \<or>
   (\<exists>s. pi_declared_risk input = Some s \<and> parse_risk s = None \<and>
        checkProposalApplyPolicy input role supported = Inl (ProposalRiskLevelError s))"
  by (auto simp: checkProposalApplyPolicy_def effectiveProposalRisk_max Let_def
      split: option.splits)

section \<open>Properties\<close>

text \<open>A request with nothing but an action and a space, for concrete runs.\<close>

definition bare_request :: "string \<Rightarrow> check_request" where
  "bare_request action =
     \<lparr>rq_action = action, rq_actor_type = None, rq_actor_id = None, rq_actor_ref = None,
      rq_space_id = Some ''s1'', rq_resource_type = None, rq_resource_id = None,
      rq_resource_space_id = None, rq_run_id = None, rq_proposal_id = None, rq_context = None,
      rq_payload = None, rq_metadata_json = None, rq_force_record = False\<rparr>"

text \<open>
  A hard invariant cannot be waived: on a wired action of a request whose guard context
  violates one, the decision is a critical denial by the invariant, whatever the rules would grant.
\<close>

theorem invariant_not_waivable:
  assumes "reg (rq_action req) = Some defn" and "ad_lifecycle_status defn = WiredDirect"
    and "violates_invariant (buildGuardCtx req)"
  shows "pd_decision (snd (computeDecision reg req)) = Deny \<and>
         pd_risk_level (snd (computeDecision reg req)) = Critical \<and>
         pd_policy_source (snd (computeDecision reg req)) = ''hard_invariant''"
  using computeDecision_invariant [of reg req defn] assms by simp

theorem invariant_not_waivable_witness:
  "let req = (bare_request ''artifact.persist'')
               \<lparr>rq_context := Some [(''raw_private_memory_included'', JBool True)]\<rparr>
   in pd_decision (snd (computeDecision loadActionRegistry req)) = Deny"
proof -
  let ?req = "(bare_request ''artifact.persist'')
    \<lparr>rq_context := Some [(''raw_private_memory_included'', JBool True)]\<rparr>"
  obtain defn where "loadActionRegistry (rq_action ?req) = Some defn"
    and "ad_lifecycle_status defn = WiredDirect"
  proof -
    have "map_option ad_lifecycle_status (loadActionRegistry (rq_action ?req)) = Some WiredDirect"
      by code_simp
    then show thesis by (auto intro: that)
  qed
  moreover have "violates_invariant (buildGuardCtx ?req)" by code_simp
  ultimately show ?thesis using invariant_not_waivable [of loadActionRegistry ?req defn]
    by (simp only: Let_def)
qed

text \<open>
  The risk a proposal is judged by is the higher of its declared risk and its type's default;
  an unknown type counts as high, an undeclared risk as the default, and an unreadable risk is an
  error.
\<close>

theorem effective_risk_is_max:
  "effectiveProposalRisk t declared =
     (case declared of
        None \<Rightarrow> Inr (type_default_risk t)
      | Some s \<Rightarrow> if s = [] then Inr (type_default_risk t)
                  else (case parse_risk s of
                          None \<Rightarrow> Inl (ProposalRiskLevelError s)
                        | Some r \<Rightarrow> Inr (max (type_default_risk t) r)))"
  by (rule effectiveProposalRisk_max)

text \<open>
  The rules judge the action the request names as long as the request's context has no key
  \<open>action\<close>; with such a key the rules judge the context's action instead, and a request for
  \<open>workspace.write_patch\<close> that needs an approval is allowed.
\<close>

theorem context_can_replace_action:
  "(context_keeps req ''action'' \<longrightarrow> action_of (buildEngineCtx req) = rq_action req \<and>
      action_of (buildGuardCtx req) = rq_action req) \<and>
   (let patch = bare_request ''workspace.write_patch'';
        disguised = patch\<lparr>rq_context := Some [(''action'', JStr ''runtime.execute''),
                                             (''risk_level'', JStr ''low'')]\<rparr>
    in pd_decision (snd (computeDecision loadActionRegistry patch)) = RequireApproval \<and>
       pd_decision (snd (computeDecision loadActionRegistry disguised)) = Allow)"
proof -
  have "let patch = bare_request ''workspace.write_patch'';
        disguised = patch\<lparr>rq_context := Some [(''action'', JStr ''runtime.execute''),
                                             (''risk_level'', JStr ''low'')]\<rparr>
    in pd_decision (snd (computeDecision loadActionRegistry patch)) = RequireApproval \<and>
       pd_decision (snd (computeDecision loadActionRegistry disguised)) = Allow"
    by code_simp
  then show ?thesis by (simp add: action_of_buildEngineCtx action_of_buildGuardCtx)
qed

theorem context_can_replace_action_witness:
  "context_keeps (bare_request ''proposal.create'') ''action'' \<and>
   action_of (buildEngineCtx (bare_request ''proposal.create'')) = rq_action (bare_request ''proposal.create'')"
  using context_can_replace_action [of "bare_request ''proposal.create''"]
  by (simp add: context_keeps_def bare_request_def Let_def)

end
