(* ===== verification/PolicyService.thy ===== *)
theory PolicyService
  imports PolicyGateway
begin

text \<open>
  Policy enforcement with its durable audit: \<open>policy/service.ts\<close> and \<open>policy/auditWriter.ts\<close>. The
  database is a parameter: what its \<open>INSERT ... RETURNING id\<close> answers for a row (no answer where the
  query throws or returns no row). The table is the log of the rows it accepted, passed along.
\<close>

section \<open>The audit writer\<close>

datatype audit_error = PolicyAuditPersistError string jsval | MissingDatabaseUrl

type_synonym audit_log = "(string \<times> audit_envelope) list"
type_synonym audit_db = "audit_log \<Rightarrow> audit_envelope \<Rightarrow> string option"

definition writePolicyAudit ::
  "audit_db \<Rightarrow> audit_envelope \<Rightarrow> audit_log \<Rightarrow> (audit_error + string) \<times> audit_log" where
  "writePolicyAudit db env trail =
     (case db trail env of
        None \<Rightarrow> (Inl (PolicyAuditPersistError (ae_action env) (ae_actor_id env)), trail)
      | Some i \<Rightarrow> (Inr i, trail @ [(i, env)]))"

text \<open>\<open>config.databaseUrl\<close> is falsy when it is absent or empty.\<close>

definition persistAudit ::
  "audit_db \<Rightarrow> string option \<Rightarrow> audit_envelope \<Rightarrow> audit_log \<Rightarrow>
     (audit_error + string) \<times> audit_log" where
  "persistAudit db url env trail =
     (if \<not> truthy (opt_str url) then (Inl MissingDatabaseUrl, trail)
      else writePolicyAudit db env trail)"

section \<open>Enforcement\<close>

datatype enforce_status = Allowed | Blocked | Errored

record enforce_result =
  er_status :: enforce_status
  er_decision :: "policy_decision option"
  er_policy_decision_record_id :: "string option"
  er_error_code :: "string option"
  er_message :: "string option"

definition blockedErrorCode :: "policy_decision \<Rightarrow> string" where
  "blockedErrorCode d =
     (if pd_decision d = Deny then ''policy_denied'' else ''policy_requires_approval'')"

definition blocked :: "policy_decision \<Rightarrow> string option \<Rightarrow> enforce_result" where
  "blocked d recordId =
     \<lparr>er_status = Blocked, er_decision = Some d, er_policy_decision_record_id = recordId,
      er_error_code = Some (blockedErrorCode d), er_message = Some (pd_message d)\<rparr>"

definition allowed :: "policy_decision \<Rightarrow> string option \<Rightarrow> enforce_result" where
  "allowed d recordId =
     \<lparr>er_status = Allowed, er_decision = Some d, er_policy_decision_record_id = recordId,
      er_error_code = None, er_message = None\<rparr>"

definition audit_failed :: "string \<Rightarrow> enforce_result" where
  "audit_failed action =
     \<lparr>er_status = Errored, er_decision = None, er_policy_decision_record_id = None,
      er_error_code = Some ''policy_audit_persist_failed'',
      er_message = Some (''Durable audit write failed (fail_closed) for '' @ action)\<rparr>"

text \<open>A caught failure leaves the record id \<open>null\<close>.\<close>

fun record_id :: "audit_error + string \<Rightarrow> string option" where
  "record_id (Inl _) = None"
| "record_id (Inr i) = Some i"

definition enforce ::
  "audit_db \<Rightarrow> string option \<Rightarrow> registry \<Rightarrow> check_request \<Rightarrow> string \<Rightarrow> audit_log \<Rightarrow>
     enforce_result \<times> audit_log" where
  "enforce db url reg req nowIso trail =
     (let (defn, decision) = computeDecision reg req
      in if pd_decision decision = Deny \<or> pd_decision decision = RequireApproval
         then let (written, trail') = persistAudit db url (buildAuditEnvelope req decision defn nowIso) trail
              in (blocked decision (record_id written), trail')
         else if isDurableAuditRequired defn decision req
         then let failureMode = resolveFailureMode defn decision req;
                  (written, trail') = persistAudit db url (buildAuditEnvelope req decision defn nowIso) trail
              in if record_id written = None \<and> failureMode = FailClosed
                 then (audit_failed (rq_action req), trail')
                 else (allowed decision (record_id written), trail')
         else (allowed decision None, trail))"

definition proposal_envelope :: "policy_decision \<Rightarrow> proposal_input \<Rightarrow> string \<Rightarrow> audit_envelope" where
  "proposal_envelope d input nowIso =
     \<lparr>ae_space_id = JStr (pi_space_id input), ae_actor_type = Some ''user'',
      ae_actor_id = JStr (pi_user_id input), ae_actor_ref_json = None,
      ae_action = ''proposal.apply'', ae_resource_type = JStr ''proposal'',
      ae_resource_id = Some (pi_proposal_id input), ae_decision = pd_decision d,
      ae_risk_level = pd_risk_level d, ae_required_approver_role = pd_required_approver_role d,
      ae_approval_capability = pd_approval_capability d, ae_policy_rule_id = pd_policy_rule_id d,
      ae_policy_source = Some (pd_policy_source d), ae_policy_id = pd_policy_id d,
      ae_audit_code = pd_audit_code d, ae_run_id = None,
      ae_proposal_id = Some (pi_proposal_id input), ae_metadata_json = pd_metadata_json d,
      ae_created_at = nowIso\<rparr>"

definition writeProposalAudit ::
  "audit_db \<Rightarrow> string option \<Rightarrow> policy_decision \<Rightarrow> proposal_input \<Rightarrow> string \<Rightarrow> audit_log \<Rightarrow>
     (audit_error + string) \<times> audit_log" where
  "writeProposalAudit db url d input nowIso trail =
     persistAudit db url (proposal_envelope d input nowIso) trail"

definition proposal_guard_ctx :: "proposal_input \<Rightarrow> jsobj" where
  "proposal_guard_ctx input =
     [(''action'', JStr ''proposal.apply''), (''space_id'', JStr (pi_space_id input)),
      (''payload'', JObj (case pi_proposal_payload input of None \<Rightarrow> [] | Some p \<Rightarrow> p))]"

definition metadata_or_empty :: "jsobj option \<Rightarrow> jsobj" where
  "metadata_or_empty m = (case m of None \<Rightarrow> [] | Some ob \<Rightarrow> ob)"

text \<open>The \<open>??=\<close> back-fill of a hard-invariant denial.\<close>

definition fill_proposal_denial :: "proposal_input \<Rightarrow> policy_decision \<Rightarrow> policy_decision" where
  "fill_proposal_denial input d =
     d\<lparr>pd_actor_type := or_else (pd_actor_type d) (Some ''user''),
       pd_actor_id := coalesce (pd_actor_id d) (JStr (pi_user_id input)),
       pd_space_id := coalesce (pd_space_id d) (JStr (pi_space_id input)),
       pd_resource_type := coalesce (pd_resource_type d) (JStr ''proposal''),
       pd_resource_id := or_else (pd_resource_id d) (Some (pi_proposal_id input)),
       pd_proposal_type := or_else (pd_proposal_type d) (Some (pi_proposal_type input)),
       pd_metadata_json := sanitizePolicyMetadata (Some
         (put ''decision_source'' (JStr ''hard_invariant_guard'')
           (put ''proposal_type'' (JStr (pi_proposal_type input))
             (metadata_or_empty (pi_metadata_json input)))))\<rparr>"

definition fill_proposal_metadata :: "proposal_input \<Rightarrow> policy_decision \<Rightarrow> policy_decision" where
  "fill_proposal_metadata input d =
     d\<lparr>pd_metadata_json := sanitizePolicyMetadata (Some
         (put ''decision_source'' (JStr ''check_proposal_apply_policy'')
           (assign (metadata_or_empty (pi_metadata_json input))
              (metadata_or_empty (pd_metadata_json d)))))\<rparr>"

definition enforceProposalApply ::
  "audit_db \<Rightarrow> string option \<Rightarrow> proposal_input \<Rightarrow> string option \<Rightarrow> string list \<Rightarrow> string \<Rightarrow>
     audit_log \<Rightarrow> policy_error + (enforce_result \<times> audit_log)" where
  "enforceProposalApply db url input role supportedTypes nowIso trail =
     (case checkHardInvariants (proposal_guard_ctx input) of
        Some denial \<Rightarrow>
          let d = fill_proposal_denial input denial;
              (written, trail') = writeProposalAudit db url d input nowIso trail
          in Inr (blocked d None, trail')
      | None \<Rightarrow>
          bind_sum (checkProposalApplyPolicy input role supportedTypes) (\<lambda>decision.
            let d = fill_proposal_metadata input decision;
                (written, trail') = writeProposalAudit db url d input nowIso trail
            in if pd_decision d \<noteq> Allow then Inr (blocked d None, trail')
               else if record_id written = None then Inr (audit_failed ''proposal.apply'', trail')
               else Inr (allowed d None, trail')))"

section \<open>The audit contract\<close>

text \<open>
  What enforcement needs of a writer: an accepted envelope is one more row, a refused one leaves
  the table as it was.
\<close>

locale audit_sink =
  fixes emit :: "'e \<Rightarrow> 's \<Rightarrow> (audit_error + string) \<times> 's"
    and rows :: "'s \<Rightarrow> (string \<times> 'e) list"
  assumes accepted: "emit e s = (Inr i, s') \<Longrightarrow> rows s' = rows s @ [(i, e)]"
    and refused: "emit e s = (Inl x, s') \<Longrightarrow> rows s' = rows s"
begin

lemma at_most_one:
  "emit e s = (w, s') \<Longrightarrow>
     rows s' = rows s @ (case record_id w of None \<Rightarrow> [] | Some i \<Rightarrow> [(i, e)])"
  by (cases w) (auto dest: accepted refused)

lemma rows_kept: "emit e s = (w, s') \<Longrightarrow> set (rows s) \<subseteq> set (rows s')"
  by (auto dest: at_most_one)

end

interpretation sink: audit_sink "persistAudit db url" "\<lambda>trail. trail" for db url
  by unfold_locales
    (auto simp: persistAudit_def writePolicyAudit_def split: if_splits option.splits)

lemma persistAudit_log:
  "snd (persistAudit db url e trail) =
     trail @ (case record_id (fst (persistAudit db url e trail)) of None \<Rightarrow> [] | Some i \<Rightarrow> [(i, e)])"
  using sink.at_most_one [of db url e trail] by (cases "persistAudit db url e trail") auto

section \<open>Enforcement as a specification\<close>

lemma result_simps [simp, decision_simps]:
  "er_status (blocked d i) = Blocked" "er_decision (blocked d i) = Some d"
  "er_status (allowed d i) = Allowed" "er_decision (allowed d i) = Some d"
  "er_status (audit_failed a) = Errored" "er_decision (audit_failed a) = None"
  "er_policy_decision_record_id (blocked d i) = i" "er_policy_decision_record_id (allowed d i) = i"
  "er_error_code (blocked d i) = Some (blockedErrorCode d)"
  by (simp_all add: blocked_def allowed_def audit_failed_def)

definition audit_of :: "audit_db \<Rightarrow> string option \<Rightarrow> registry \<Rightarrow> check_request \<Rightarrow> string \<Rightarrow> audit_log \<Rightarrow>
    audit_error + string" where
  "audit_of db url reg req nowIso trail =
     (let (defn, d) = computeDecision reg req
      in fst (persistAudit db url (buildAuditEnvelope req d defn nowIso) trail))"

lemma enforce_cases:
  assumes "computeDecision reg req = (defn, d)"
  shows "enforce db url reg req nowIso trail =
    (let written = audit_of db url reg req nowIso trail;
         trail' = snd (persistAudit db url (buildAuditEnvelope req d defn nowIso) trail)
     in if pd_decision d \<noteq> Allow then (blocked d (record_id written), trail')
        else if \<not> isDurableAuditRequired defn d req then (allowed d None, trail)
        else if record_id written = None \<and> resolveFailureMode defn d req = FailClosed
        then (audit_failed (rq_action req), trail')
        else (allowed d (record_id written), trail'))"
  using assms
  by (cases "pd_decision d") (simp_all add: enforce_def audit_of_def Let_def case_prod_beta)

lemma enforce_allowed:
  assumes "enforce db url reg req nowIso trail = (res, trail')" and "er_status res = Allowed"
  obtains defn d where "computeDecision reg req = (Some defn, d)" and "pd_decision d = Allow"
    and "er_decision res = Some d"
    and "resolveFailureMode (Some defn) d req = FailClosed \<longrightarrow>
      (\<exists>i. trail' = trail @ [(i, buildAuditEnvelope req d (Some defn) nowIso)])"
proof -
  obtain def d where c: "computeDecision reg req = (def, d)" by (cases "computeDecision reg req")
  note e = assms(1) [unfolded enforce_cases [OF c] Let_def]
  have allow: "pd_decision d = Allow" using e assms(2) by (auto split: if_splits)
  then obtain defn where defn: "def = Some defn"
    using computeDecision_allow_iff [of reg req] c fst_computeDecision [of reg req] by auto
  have dec: "er_decision res = Some d" using e assms(2) allow by (auto split: if_splits)
  have "\<exists>i. trail' = trail @ [(i, buildAuditEnvelope req d (Some defn) nowIso)]"
    if "resolveFailureMode (Some defn) d req = FailClosed"
  proof -
    from that defn have "isDurableAuditRequired def d req" by (auto intro: fail_closed_durable)
    with that e assms(2) allow defn have w: "record_id (audit_of db url reg req nowIso trail) \<noteq> None"
      and l: "trail' = snd (persistAudit db url (buildAuditEnvelope req d def nowIso) trail)"
      by (auto split: if_splits)
    from w c show ?thesis unfolding l
      by (subst persistAudit_log) (auto simp: audit_of_def defn)
  qed
  with c defn allow dec show thesis by (intro that) auto
qed

lemma enforce_log:
  "snd (enforce db url reg req nowIso trail) = trail \<or>
   (\<exists>i. snd (enforce db url reg req nowIso trail) =
          trail @ [(i, buildAuditEnvelope req (snd (computeDecision reg req))
                       (fst (computeDecision reg req)) nowIso)])"
proof -
  obtain defn d where c: "computeDecision reg req = (defn, d)" by (cases "computeDecision reg req")
  show ?thesis
    using persistAudit_log [of db url "buildAuditEnvelope req d defn nowIso" trail]
    by (auto simp: enforce_cases [OF c] c Let_def split: option.splits)
qed

lemma fill_simps [simp, decision_simps]:
  "pd_decision (fill_proposal_denial i d) = pd_decision d"
  "pd_decision (fill_proposal_metadata i d) = pd_decision d"
  "pd_risk_level (fill_proposal_denial i d) = pd_risk_level d"
  by (simp_all add: fill_proposal_denial_def fill_proposal_metadata_def)

lemma enforceProposalApply_allowed:
  assumes "enforceProposalApply db url input role supported nowIso trail = Inr (res, trail')"
    and "er_status res = Allowed"
  obtains d i where "checkHardInvariants (proposal_guard_ctx input) = None"
    and "checkProposalApplyPolicy input role supported = Inr d" and "pd_decision d = Allow"
    and "trail' = trail @ [(i, proposal_envelope (fill_proposal_metadata input d) input nowIso)]"
proof -
  from assms obtain d where inv: "checkHardInvariants (proposal_guard_ctx input) = None"
    and d: "checkProposalApplyPolicy input role supported = Inr d"
    by (auto simp: enforceProposalApply_def bind_sum_Inr_iff Let_def case_prod_beta
        split: option.splits)
  let ?w = "persistAudit db url (proposal_envelope (fill_proposal_metadata input d) input nowIso) trail"
  from assms inv d have allow: "pd_decision d = Allow" and "record_id (fst ?w) \<noteq> None"
    and trail': "trail' = snd ?w"
    by (auto simp: enforceProposalApply_def writeProposalAudit_def Let_def case_prod_beta
        split: if_splits)
  then obtain i where "trail' = trail @ [(i, proposal_envelope (fill_proposal_metadata input d) input nowIso)]"
    unfolding trail' by (subst (asm) (2) persistAudit_log) auto
  with inv d allow show thesis by (rule that)
qed

lemma proposal_guard_violation:
  "violates_invariant (proposal_guard_ctx input) \<longleftrightarrow>
     (\<exists>flag \<in> set APPROVAL_PROOF_FLAGS. has_key (metadata_or_empty (pi_proposal_payload input)) flag)"
  by (simp add: violates_invariant_def reads_across_spaces_def persists_personal_context_def
      leaks_private_memory_def publishes_grant_output_def claims_approval_by_flag_def
      targets_unknown_space_def proposal_guard_ctx_def action_of_def record_or_empty_def
      metadata_or_empty_def split: option.split)

lemma envelope_metadata_safe:
  "ae_metadata_json (buildAuditEnvelope req d defn nowIso) = Some m \<Longrightarrow> audit_safe m"
  by (simp add: buildAuditEnvelope_def Let_def sanitized_audit_safe)

section \<open>Properties\<close>

text \<open>
  C1: enforcement lets an action proceed only if the action is registered and wired, no hard
  invariant is violated, and the rules grant it; and if the action is fail-closed (or the caller
  forces a record), the audit row of exactly this decision has been written.
\<close>

theorem enforce_allow_justified:
  assumes "enforce db url reg req nowIso trail = (res, trail')" and "er_status res = Allowed"
  shows "\<exists>defn d. reg (rq_action req) = Some defn \<and> ad_lifecycle_status defn = WiredDirect \<and>
           \<not> violates_invariant (buildGuardCtx req) \<and> engine_grants reg (buildEngineCtx req) \<and>
           er_decision res = Some d \<and> pd_decision d = Allow \<and>
           (ad_record_failure_mode defn = FailClosed \<or> rq_force_record req \<longrightarrow>
              (\<exists>i. trail' = trail @ [(i, buildAuditEnvelope req d (Some defn) nowIso)]))"
proof -
  from assms obtain defn d where c: "computeDecision reg req = (Some defn, d)" "pd_decision d = Allow"
    and d: "er_decision res = Some d"
    and audit: "resolveFailureMode (Some defn) d req = FailClosed \<longrightarrow>
      (\<exists>i. trail' = trail @ [(i, buildAuditEnvelope req d (Some defn) nowIso)])"
    by (rule enforce_allowed)
  from c computeDecision_allow_iff [of reg req] fst_computeDecision [of reg req] d audit
    resolveFailureMode_forced [of defn req d]
  show ?thesis by (intro exI [of _ defn] exI [of _ d]) auto
qed

theorem enforce_allow_justified_witness:
  "\<exists>defn d. loadActionRegistry ''source.backfill.manage'' = Some defn \<and>
     ad_lifecycle_status defn = WiredDirect \<and>
     (ad_record_failure_mode defn = FailClosed \<longrightarrow>
        snd (enforce (\<lambda>_ _. Some ''r1'') (Some ''db'') loadActionRegistry
               (bare_request ''source.backfill.manage'') ''now'' []) =
        [] @ [(''r1'', buildAuditEnvelope (bare_request ''source.backfill.manage'') d (Some defn) ''now'')])"
proof -
  let ?req = "bare_request ''source.backfill.manage''"
  let ?run = "enforce (\<lambda>_ _. Some ''r1'') (Some ''db'') loadActionRegistry ?req ''now'' []"
  have run: "enforce (\<lambda>_ _. Some ''r1'') (Some ''db'') loadActionRegistry ?req ''now'' [] =
    (fst ?run, snd ?run)" by (rule prod.collapse [symmetric])
  have ok: "er_status (fst ?run) = Allowed" by code_simp
  have ids: "map fst (snd ?run) = [''r1'']" by code_simp
  obtain defn d where "loadActionRegistry (rq_action ?req) = Some defn"
    and "ad_lifecycle_status defn = WiredDirect"
    and "ad_record_failure_mode defn = FailClosed \<longrightarrow>
      (\<exists>i. snd ?run = [] @ [(i, buildAuditEnvelope ?req d (Some defn) ''now'')])"
    using enforce_allow_justified [OF run ok] by blast
  moreover have "rq_action ?req = ''source.backfill.manage''" by (simp only: bare_request_def check_request.simps)
  moreover have "i = ''r1''" if "snd ?run = [] @ [(i, e)]" for i e
    using ids unfolding that by simp
  ultimately show ?thesis by metis
qed

text \<open>
  The outcome of enforcement is decided by the decision and, for an allowed fail-closed action
  only, by the audit write: every other decision than allow blocks whatever the writer does, and an
  allowed action is an error exactly when its fail-closed audit could not be written.
\<close>

theorem enforce_status:
  "er_status (fst (enforce db url reg req nowIso trail)) =
     (let (defn, d) = computeDecision reg req;
          written = fst (persistAudit db url (buildAuditEnvelope req d defn nowIso) trail)
      in if pd_decision d \<noteq> Allow then Blocked
         else if resolveFailureMode defn d req = FailClosed \<and> record_id written = None then Errored
         else Allowed)"
proof -
  obtain defn d where c: "computeDecision reg req = (defn, d)" by (cases "computeDecision reg req")
  show ?thesis
    using fail_closed_durable [of defn d req]
    by (auto simp: enforce_cases [OF c] audit_of_def c Let_def)
qed

text \<open>
  An enforcement call adds at most one audit row, of its own decision, and a blocked call adds
  exactly one unless the writer fails; what a row says of the caller's metadata is redacted and
  bounded.
\<close>

theorem enforce_audits_once:
  "\<exists>rows. snd (enforce db url reg req nowIso trail) = trail @ rows \<and> length rows \<le> 1 \<and>
     (\<forall>(i, e) \<in> set rows.
        ae_action e = rq_action req \<and> ae_decision e = pd_decision (snd (computeDecision reg req)) \<and>
        (\<forall>m. ae_metadata_json e = Some m \<longrightarrow> audit_safe m)) \<and>
     (er_status (fst (enforce db url reg req nowIso trail)) = Blocked \<longrightarrow>
        length rows = (if er_policy_decision_record_id (fst (enforce db url reg req nowIso trail)) = None
                       then 0 else 1))"
proof -
  obtain defn d where c: "computeDecision reg req = (defn, d)" by (cases "computeDecision reg req")
  let ?e = "buildAuditEnvelope req d defn nowIso"
  have env: "ae_action ?e = rq_action req" "ae_decision ?e = pd_decision d"
    by (simp_all add: buildAuditEnvelope_def Let_def)
  note run = enforce_cases [OF c, of db url nowIso trail]
  let ?w = "record_id (fst (persistAudit db url ?e trail))"
  have w: "audit_of db url reg req nowIso trail = fst (persistAudit db url ?e trail)"
    by (simp add: audit_of_def c)
  show ?thesis
  proof (cases "pd_decision d = Allow \<and> \<not> isDurableAuditRequired defn d req")
    case True
    then show ?thesis by (intro exI [of _ "[]"]) (simp add: run Let_def)
  next
    case False
    then show ?thesis using env envelope_metadata_safe [of req d defn nowIso]
      by (intro exI [of _ "case ?w of None \<Rightarrow> [] | Some i \<Rightarrow> [(i, ?e)]"])
        (auto simp: run Let_def w c persistAudit_log [of db url ?e trail] split: option.splits)
  qed
qed

theorem enforce_audits_once_witness:
  "length (snd (enforce (\<lambda>_ _. Some ''r1'') (Some ''db'') loadActionRegistry
     (bare_request ''workspace.write_patch'') ''now'' [])) = 1"
proof -
  let ?req = "bare_request ''workspace.write_patch''"
  let ?run = "enforce (\<lambda>_ _. Some ''r1'') (Some ''db'') loadActionRegistry ?req ''now'' []"
  have "er_status (fst ?run) = Blocked" by code_simp
  moreover have "er_policy_decision_record_id (fst ?run) = Some ''r1''" by code_simp
  moreover note enforce_audits_once [of "\<lambda>_ _. Some ''r1''" "Some ''db''" loadActionRegistry ?req "''now''" "[]"]
  ultimately show ?thesis by (metis append_Nil option.distinct(1))
qed

lemma proposal_gate_iff:
  "(\<exists>res trail'. enforceProposalApply db url input role supported nowIso trail = Inr (res, trail') \<and>
                 er_status res = Allowed) \<longleftrightarrow>
   \<not> (\<exists>flag \<in> set APPROVAL_PROOF_FLAGS. has_key (metadata_or_empty (pi_proposal_payload input)) flag) \<and>
   pi_proposal_type input \<in> set supported \<and>
   (\<exists>risk d. effectiveProposalRisk (pi_proposal_type input) (pi_declared_risk input) = Inr risk \<and>
      may_apply role (pi_required_approver_role input) risk \<and>
      checkProposalApplyPolicy input role supported = Inr d \<and>
      record_id (fst (writeProposalAudit db url (fill_proposal_metadata input d) input nowIso trail)) \<noteq> None)"
proof (cases "checkHardInvariants (proposal_guard_ctx input)")
  case (Some denial)
  moreover from this have "violates_invariant (proposal_guard_ctx input)"
    using checkHardInvariants_None_iff [of "proposal_guard_ctx input"] by simp
  ultimately show ?thesis
    by (auto simp: enforceProposalApply_def Let_def case_prod_beta proposal_guard_violation)
next
  case None
  moreover from this have "\<not> violates_invariant (proposal_guard_ctx input)"
    by (simp only: checkHardInvariants_None_iff simp_thms)
  moreover note allow = checkProposalApplyPolicy_allow [of input role supported]
  ultimately show ?thesis
    by (cases "checkProposalApplyPolicy input role supported")
      (auto simp: enforceProposalApply_def Let_def case_prod_beta proposal_guard_violation
        split: if_splits)
qed

text \<open>
  C2: the proposal gate lets a proposal be applied exactly if the payload carries no approval flag,
  the type has an applier, the proposal's risk (the higher of the declared and the default one)
  lies within the authority of the member's role and of the role the proposal asks for, and the
  audit row has been written.
\<close>

theorem proposal_apply_allowed_iff:
  "(\<exists>res trail'. enforceProposalApply db url input role supported nowIso trail = Inr (res, trail') \<and>
                 er_status res = Allowed) \<longleftrightarrow>
   \<not> (\<exists>flag \<in> set APPROVAL_PROOF_FLAGS. has_key (metadata_or_empty (pi_proposal_payload input)) flag) \<and>
   pi_proposal_type input \<in> set supported \<and>
   (\<exists>risk d. effectiveProposalRisk (pi_proposal_type input) (pi_declared_risk input) = Inr risk \<and>
      may_apply role (pi_required_approver_role input) risk \<and>
      checkProposalApplyPolicy input role supported = Inr d \<and>
      record_id (fst (writeProposalAudit db url (fill_proposal_metadata input d) input nowIso trail)) \<noteq> None)"
  by (rule proposal_gate_iff)

end
