(* ===== verification/SystemActions.thy ===== *)
theory SystemActions
  imports PolicyService SqlTable AsyncIo
begin

text \<open>
  The system actions: the registry of \<open>packages/protocol/src/systemActions.ts\<close>, the dispatcher of
  \<open>systemActions/gateway.ts\<close> and, from \<open>systemActions/agentToolGateway.ts\<close>, what lets an agent's run
  call one. The checker of an input or output schema is the schema library's: it is the parameter
  \<open>parse\<close>, which gives the parsed value or a message.
\<close>

section \<open>The registry\<close>

datatype visibility = InternalOnly | AgentTool | PublicApi | ExternalMcp | SystemJob

datatype actor_type = UserActor | AgentActor | SystemActor | AutomationActor

datatype side_effects = NoEffects | DraftEffects | ProposalEffects | DurableEffects

text \<open>The fields of an object schema, and the schemas.\<close>

datatype field_schema =
    NonEmptyText
  | OptionalNullableText
  | ObjectField
  | OptionalNullableCost
  | OptionalObjects
  | OptionalNullableObject

datatype schema =
    AnyObject
  | ObjectWith "(string \<times> field_schema) list"
  | ExactObject "(string \<times> field_schema) list"

record system_action =
  sa_id :: string
  sa_title :: string
  sa_visibility :: "visibility list"
  sa_allowed_actor_types :: "actor_type list"
  sa_input_schema :: schema
  sa_output_schema :: schema
  sa_owning_module :: string
  sa_application_service :: string
  sa_policy_action :: string
  sa_side_effects :: side_effects
  sa_idempotency_required :: bool
  sa_proposal_type :: "string option"
  sa_grantable :: bool

definition objectInput :: schema where
  "objectInput = AnyObject"

definition objectOutput :: schema where
  "objectOutput = AnyObject"

definition proposalOutput :: schema where
  "proposalOutput = ObjectWith [(''modelResult'', ObjectField), (''summary'', ObjectField)]"

definition proposalInputs :: "(string \<times> schema) list" where
  "proposalInputs =
     [(''task.plan.propose'', ExactObject
        [(''task_id'', NonEmptyText), (''plan_id'', OptionalNullableText), (''definition_json'', ObjectField),
         (''reference_workflow_version_id'', OptionalNullableText), (''budget_cap'', OptionalNullableCost),
         (''budget_sources'', OptionalObjects), (''planner_metadata'', OptionalNullableObject)]),
      (''source.channel.propose_activation'', ObjectWith [(''source_channel_id'', NonEmptyText)]),
      (''project.source.propose_bind'', ObjectWith [(''source_channel_id'', NonEmptyText)]),
      (''source.backfill.propose_start'', ObjectWith
        [(''source_channel_id'', NonEmptyText), (''source_backfill_plan_id'', NonEmptyText)])]"

definition action_proposal_input :: "string \<Rightarrow> schema" where
  "action_proposal_input i = (case map_of proposalInputs i of None \<Rightarrow> objectInput | Some s \<Rightarrow> s)"

definition system_action_of :: "string \<Rightarrow> string \<Rightarrow> string \<Rightarrow> string \<Rightarrow> string \<Rightarrow> side_effects \<Rightarrow> system_action" where
  "system_action_of i t owner service pol effects =
     \<lparr>sa_id = i, sa_title = t, sa_visibility = [AgentTool], sa_allowed_actor_types = [AgentActor],
      sa_input_schema = objectInput, sa_output_schema = objectOutput, sa_owning_module = owner,
      sa_application_service = service, sa_policy_action = pol, sa_side_effects = effects,
      sa_idempotency_required = (effects \<noteq> NoEffects),
      sa_proposal_type = (if effects = ProposalEffects then Some ''agent_delegation'' else None),
      sa_grantable = (effects = ProposalEffects)\<rparr>"

text \<open>\<open>agentVisible\<close> is never passed, so its default \<open>false\<close> holds.\<close>

definition httpAction :: "string \<Rightarrow> string \<Rightarrow> string \<Rightarrow> string \<Rightarrow> string \<Rightarrow> side_effects \<Rightarrow> system_action" where
  "httpAction i t owner service pol effects =
     \<lparr>sa_id = i, sa_title = t, sa_visibility = [PublicApi], sa_allowed_actor_types = [UserActor],
      sa_input_schema = objectInput, sa_output_schema = objectOutput, sa_owning_module = owner,
      sa_application_service = service, sa_policy_action = pol, sa_side_effects = effects,
      sa_idempotency_required = (effects \<noteq> NoEffects), sa_proposal_type = None, sa_grantable = False\<rparr>"

definition proposalAction :: "string \<Rightarrow> string \<Rightarrow> string \<Rightarrow> string \<Rightarrow> string \<Rightarrow> string \<Rightarrow> system_action" where
  "proposalAction i t owner service pol proposalType =
     \<lparr>sa_id = i, sa_title = t, sa_visibility = [AgentTool, PublicApi],
      sa_allowed_actor_types = [UserActor, AgentActor], sa_input_schema = action_proposal_input i,
      sa_output_schema = proposalOutput, sa_owning_module = owner, sa_application_service = service,
      sa_policy_action = pol, sa_side_effects = ProposalEffects, sa_idempotency_required = True,
      sa_proposal_type = Some proposalType, sa_grantable = True\<rparr>"

definition agentAction :: "string \<Rightarrow> string \<Rightarrow> string \<Rightarrow> string \<Rightarrow> string \<Rightarrow> side_effects \<Rightarrow> system_action" where
  "agentAction i t owner service pol effects =
     \<lparr>sa_id = i, sa_title = t, sa_visibility = [AgentTool], sa_allowed_actor_types = [AgentActor],
      sa_input_schema = action_proposal_input i, sa_output_schema = proposalOutput, sa_owning_module = owner,
      sa_application_service = service, sa_policy_action = pol, sa_side_effects = effects,
      sa_idempotency_required = True, sa_proposal_type = None, sa_grantable = False\<rparr>"

definition internalAction :: "string \<Rightarrow> string \<Rightarrow> string \<Rightarrow> string \<Rightarrow> string \<Rightarrow> system_action" where
  "internalAction i t owner service pol =
     \<lparr>sa_id = i, sa_title = t, sa_visibility = [InternalOnly, SystemJob],
      sa_allowed_actor_types = [UserActor, SystemActor], sa_input_schema = objectInput,
      sa_output_schema = objectOutput, sa_owning_module = owner, sa_application_service = service,
      sa_policy_action = pol, sa_side_effects = DurableEffects, sa_idempotency_required = True,
      sa_proposal_type = None, sa_grantable = False\<rparr>"

lemmas action_constructors [simp] =
  system_action_of_def httpAction_def proposalAction_def agentAction_def internalAction_def

text \<open>The registry, in the order of the source.\<close>

definition SYSTEM_ACTION_REGISTRY :: "system_action list" where
  "SYSTEM_ACTION_REGISTRY =
     [system_action_of ''retrieval.search'' ''Search knowledge'' ''retrieval''
        ''RetrievalToolService.search'' ''retrieval.search'' NoEffects,
      system_action_of ''retrieval.brief'' ''Build knowledge brief'' ''retrieval''
        ''RetrievalToolService.brief'' ''retrieval.brief'' NoEffects,
      system_action_of ''memory.retrieval.search'' ''Search memory'' ''memory''
        ''RetrievalToolService.search'' ''memory.retrieval.search'' NoEffects,
      system_action_of ''memory.retrieval.brief'' ''Build memory brief'' ''memory''
        ''RetrievalToolService.brief'' ''memory.retrieval.brief'' NoEffects,
      system_action_of ''project.summary.search'' ''Search project summaries'' ''projects''
        ''RetrievalToolService.search'' ''project.summary.search'' NoEffects,
      system_action_of ''project.summary.brief'' ''Build project summary brief'' ''projects''
        ''RetrievalToolService.brief'' ''project.summary.brief'' NoEffects,
      system_action_of ''source.retrieval.search'' ''Search source material'' ''sources''
        ''RetrievalToolService.search'' ''source.retrieval.search'' NoEffects,
      system_action_of ''source.retrieval.brief'' ''Build source brief'' ''sources''
        ''RetrievalToolService.brief'' ''source.retrieval.brief'' NoEffects,
      system_action_of ''agent.delegate'' ''Delegate to an agent'' ''agent_groups''
        ''AgentGroupRunService.spawnChildRun'' ''run.spawn_child'' DurableEffects,
      system_action_of ''agent.wait_for_results'' ''Wait for agent results'' ''agent_groups''
        ''AgentGroupRunService.waitForResults'' ''runtime.execute'' NoEffects,
      httpAction ''source.recipe.plan'' ''Plan a Source recipe'' ''sources''
        ''SourceRecipeService.planSource'' ''source.recipe.create'' NoEffects,
      httpAction ''source.recipe.create'' ''Create a Source recipe draft'' ''sources''
        ''SourceRecipeService.createSource'' ''source.recipe.create'' DraftEffects,
      httpAction ''source.recipe.dry_run'' ''Dry-run a Source recipe'' ''sources''
        ''SourceRecipeService.dryRunRecipeVersion'' ''source.recipe.dry_run'' NoEffects,
      httpAction ''source.recipe.activate'' ''Activate a Source recipe'' ''sources''
        ''SourceRecipeService.activateRecipe'' ''source.recipe.activate'' DurableEffects,
      httpAction ''project.source.bind'' ''Bind a Source to a Project'' ''projects''
        ''ProjectSourceBindingService.createBinding'' ''project.source.bind'' DurableEffects,
      httpAction ''policy.action_grant.create'' ''Create an action approval grant'' ''policy''
        ''ActionApprovalGrantService.create'' ''policy.action_grant.create'' DurableEffects,
      httpAction ''policy.action_grant.revoke'' ''Revoke an action approval grant'' ''policy''
        ''ActionApprovalGrantService.revoke'' ''policy.action_grant.revoke'' DurableEffects,
      proposalAction ''source.channel.propose_activation'' ''Propose Source Channel activation''
        ''sources'' ''SourceChannelService.proposeActivation'' ''source.connection.manage'' ''source_channel_activation'',
      proposalAction ''project.source.propose_bind'' ''Propose binding a Source to a Project'' ''projects''
        ''ProjectSourceBindingService.proposeBind'' ''project.source.bind'' ''project_source_bind'',
      httpAction ''project.operation.read'' ''Read Project operation progress'' ''projects''
        ''ProjectOperationService.get'' ''project.operation.manage'' NoEffects,
      httpAction ''project.operation.create'' ''Create a Project operation'' ''projects''
        ''ProjectOperationService.create'' ''project.operation.manage'' DurableEffects,
      httpAction ''project.operation.cancel'' ''Cancel a Project operation'' ''projects''
        ''ProjectOperationService.cancel'' ''project.operation.manage'' DurableEffects,
      httpAction ''source.backfill.preview'' ''Preview Source history import'' ''sources''
        ''SourceBackfillPlanningService.preview'' ''source.backfill.plan'' NoEffects,
      httpAction ''source.backfill.create_plan'' ''Create Source history import plan'' ''sources''
        ''SourceBackfillPlanningService.create'' ''source.backfill.plan'' DraftEffects,
      proposalAction ''source.backfill.propose_start'' ''Propose Source history import'' ''sources''
        ''SourceBackfillPlanningService.proposeStart'' ''source.backfill.plan'' ''source_backfill_start'',
      agentAction ''task.plan.propose'' ''Propose an Agent-generated Task plan'' ''plans''
        ''PgPlanRepository.createPlanFromAgent'' ''task.plan.propose'' DurableEffects,
      internalAction ''source.backfill.start'' ''Start approved Source history import'' ''sources''
        ''SourceBackfillExecutionService.start'' ''source.backfill.start'',
      httpAction ''source.backfill.pause'' ''Pause Source history import'' ''sources''
        ''SourceBackfillPlanningService.setPaused'' ''source.backfill.manage'' DurableEffects,
      httpAction ''source.backfill.resume'' ''Resume Source history import'' ''sources''
        ''SourceBackfillPlanningService.setPaused'' ''source.backfill.manage'' DurableEffects]"

text \<open>\<open>loadSystemActionRegistry\<close>: a map by id, in which a later entry replaces an earlier one.\<close>

definition loadSystemActionRegistry :: "string \<Rightarrow> system_action option" where
  "loadSystemActionRegistry i = map_of (rev (map (\<lambda>d. (sa_id d, d)) SYSTEM_ACTION_REGISTRY)) i"

text \<open>\<open>SYSTEM_ACTION_REGISTRY.find(...)\<close>, as the services look an action up.\<close>

definition find_action :: "string \<Rightarrow> system_action option" where
  "find_action i = List.find (\<lambda>d. sa_id d = i) SYSTEM_ACTION_REGISTRY"

text \<open>
  An action with side effects needs an idempotency key; what can be granted in advance is what proposes;
  an internal action is not for agents.
\<close>

definition action_ok :: "system_action \<Rightarrow> bool" where
  "action_ok d \<longleftrightarrow>
     (sa_idempotency_required d \<longleftrightarrow> sa_side_effects d \<noteq> NoEffects) \<and>
     (sa_grantable d \<longleftrightarrow> sa_proposal_type d \<noteq> None) \<and>
     (sa_grantable d \<longleftrightarrow> sa_side_effects d = ProposalEffects) \<and>
     (InternalOnly \<in> set (sa_visibility d) \<longrightarrow>
        AgentTool \<notin> set (sa_visibility d) \<and> AgentActor \<notin> set (sa_allowed_actor_types d))"

lemma distinct_action_ids: "distinct (map sa_id SYSTEM_ACTION_REGISTRY)"
  by code_simp

lemma registry_actions_ok: "list_all action_ok SYSTEM_ACTION_REGISTRY"
  by code_simp

lemma map_of_rev_ids:
  "distinct (map f xs) \<Longrightarrow> map_of (rev (map (\<lambda>d. (f d, d)) xs)) i = List.find (\<lambda>d. f d = i) xs"
proof (induction xs)
  case (Cons x xs)
  have "f x = i \<Longrightarrow> y \<in> set xs \<Longrightarrow> f y \<noteq> i" for y
    using Cons.prems by (metis distinct.simps(2) image_eqI list.simps(9) list.set_map)
  then have "f x = i \<Longrightarrow> List.find (\<lambda>d. f d = i) xs = None" by (simp add: find_None_iff)
  with Cons show ?case by (auto simp: map_add_def split: option.splits)
qed simp

lemma load_is_find: "loadSystemActionRegistry = find_action"
  using map_of_rev_ids [OF distinct_action_ids] by (auto simp: loadSystemActionRegistry_def find_action_def)

lemma find_action_ok: "find_action i = Some d \<Longrightarrow> action_ok d \<and> sa_id d = i"
  using registry_actions_ok by (auto simp: find_action_def find_Some_iff list_all_length)

section \<open>The dispatcher\<close>

text \<open>
  What a promise may reject with: the \<open>code\<close> and the decision record the error carries, if any, and the
  error itself.
\<close>

datatype action_error = ActionError (err_code: "string option") (err_thrown: js_error) (err_record: "string option")

definition SystemActionGatewayError :: "string \<Rightarrow> string \<Rightarrow> string option \<Rightarrow> action_error" where
  "SystemActionGatewayError code message recordId = ActionError (Some code) (ErrorObject message) recordId"

record action_actor =
  aa_type :: actor_type
  aa_space_id :: string
  aa_user_id :: "string option"
  aa_agent_id :: "string option"
  aa_run_id :: "string option"

record action_policy =
  ap_allowed :: bool
  ap_record_id :: "string option"
  ap_reason :: "string option"
  ap_details :: jsval

record dispatch_context =
  dc_actor :: action_actor
  dc_visibility :: visibility
  dc_idempotency_key :: "string option"
  dc_policy_decision :: "action_policy option"

record action_result =
  ar_definition :: system_action
  ar_output :: jsval
  ar_record_id :: "string option"

type_synonym 's executor = "jsval \<Rightarrow> dispatch_context \<Rightarrow> (action_error, 's, jsval) async"

type_synonym ('s, 'x) action_hook =
  "(system_action \<Rightarrow> 'x \<Rightarrow> dispatch_context \<Rightarrow> (action_error, 's, unit) async) option"

record 's action_gateway =
  gw_executors :: "string \<Rightarrow> 's executor option"
  gw_enforcePolicy :: "system_action \<Rightarrow> jsval \<Rightarrow> dispatch_context \<Rightarrow> (action_error, 's, action_policy) async"
  gw_onValidated :: "('s, jsval) action_hook"
  gw_onCompleted :: "('s, action_result) action_hook"
  gw_onFailed :: "('s, action_error) action_hook"
  gw_parse :: "schema \<Rightarrow> jsval \<Rightarrow> string + jsval"

definition run_hook :: "('s, 'x) action_hook \<Rightarrow> system_action \<Rightarrow> 'x \<Rightarrow> dispatch_context \<Rightarrow>
    (action_error, 's, unit) async" where
  "run_hook h d x ctx = (case h of None \<Rightarrow> io_return () | Some f \<Rightarrow> f d x ctx)"

definition actor_text :: "actor_type \<Rightarrow> string" where
  "actor_text a = (case a of UserActor \<Rightarrow> ''user'' | AgentActor \<Rightarrow> ''agent'' | SystemActor \<Rightarrow> ''system''
     | AutomationActor \<Rightarrow> ''automation'')"

definition visibility_text :: "visibility \<Rightarrow> string" where
  "visibility_text v = (case v of InternalOnly \<Rightarrow> ''internal_only'' | AgentTool \<Rightarrow> ''agent_tool''
     | PublicApi \<Rightarrow> ''public_api'' | ExternalMcp \<Rightarrow> ''external_mcp'' | SystemJob \<Rightarrow> ''system_job'')"

definition policyDecisionRecordIdFromOutput :: "jsval \<Rightarrow> string option" where
  "policyDecisionRecordIdFromOutput out =
     (case out of
        JObj ob \<Rightarrow> (case get ob ''summary'' of
            JObj summary \<Rightarrow> (case get summary ''policy_decision_record_id'' of
                JStr s \<Rightarrow> if s = [] then None else Some s
              | _ \<Rightarrow> None)
          | _ \<Rightarrow> None)
      | _ \<Rightarrow> None)"

text \<open>The guards before the input is read: who calls, from where, and with what key.\<close>

definition call_refused :: "system_action \<Rightarrow> string \<Rightarrow> dispatch_context \<Rightarrow> action_error option" where
  "call_refused d actionId ctx =
     (if aa_type (dc_actor ctx) \<notin> set (sa_allowed_actor_types d) then
        Some (SystemActionGatewayError ''system_action_actor_denied''
          (''Actor type '' @ quoted (actor_text (aa_type (dc_actor ctx))) @ '' cannot invoke '' @ quoted actionId) None)
      else if dc_visibility ctx \<notin> set (sa_visibility d) then
        Some (SystemActionGatewayError ''system_action_visibility_denied''
          (''Action '' @ quoted actionId @ '' is not visible on '' @ quoted (visibility_text (dc_visibility ctx))) None)
      else if sa_idempotency_required d \<and> \<not> truthy (opt_str (dc_idempotency_key ctx)) then
        Some (SystemActionGatewayError ''system_action_idempotency_required''
          (''Action '' @ quoted actionId @ '' requires an idempotency key'') None)
      else None)"

text \<open>The executor and what follows it.\<close>

definition execute_action :: "'s action_gateway \<Rightarrow> system_action \<Rightarrow> string \<Rightarrow> jsval \<Rightarrow> dispatch_context \<Rightarrow>
    action_policy \<Rightarrow> (action_error, 's, action_result) async" where
  "execute_action gw d actionId data ctx pol =
     (case gw_executors gw (sa_id d) of
        None \<Rightarrow> io_throw (SystemActionGatewayError ''system_action_not_implemented''
                  (''No executor registered for '' @ quoted actionId) None)
      | Some ex \<Rightarrow>
          io_bind (ex data (ctx\<lparr>dc_policy_decision := Some pol\<rparr>)) (\<lambda>out.
          case gw_parse gw (sa_output_schema d) out of
            Inl message \<Rightarrow> io_throw (SystemActionGatewayError ''system_action_invalid_output'' message None)
          | Inr parsed \<Rightarrow>
              let result = \<lparr>ar_definition = d, ar_output = parsed,
                    ar_record_id = or_else (policyDecisionRecordIdFromOutput parsed) (ap_record_id pol)\<rparr>
              in io_bind (run_hook (gw_onCompleted gw) d result ctx) (\<lambda>_. io_return result)))"

definition dispatch_known :: "'s action_gateway \<Rightarrow> system_action \<Rightarrow> string \<Rightarrow> jsval \<Rightarrow> dispatch_context \<Rightarrow>
    (action_error, 's, action_result) async" where
  "dispatch_known gw d actionId input ctx =
     (case call_refused d actionId ctx of
        Some e \<Rightarrow> io_throw e
      | None \<Rightarrow>
          (case gw_parse gw (sa_input_schema d) input of
             Inl message \<Rightarrow> io_throw (SystemActionGatewayError ''system_action_invalid_input'' message None)
           | Inr data \<Rightarrow>
               io_bind (run_hook (gw_onValidated gw) d data ctx) (\<lambda>_.
               io_bind (gw_enforcePolicy gw d data ctx) (\<lambda>pol.
               if \<not> ap_allowed pol then
                 io_throw (SystemActionGatewayError ''system_action_policy_denied''
                   (or_value (ap_reason pol) ''Action denied by policy'') (ap_record_id pol))
               else execute_action gw d actionId data ctx pol))))"

definition dispatch_action :: "'s action_gateway \<Rightarrow> string \<Rightarrow> jsval \<Rightarrow> dispatch_context \<Rightarrow>
    (action_error, 's, action_result) async" where
  "dispatch_action gw actionId input ctx =
     (case loadSystemActionRegistry actionId of
        None \<Rightarrow> io_throw (SystemActionGatewayError ''unknown_system_action''
                  (''Unknown system action '' @ quoted actionId) None)
      | Some d \<Rightarrow>
          io_catch (dispatch_known gw d actionId input ctx) (\<lambda>e.
            io_bind (run_hook (gw_onFailed gw) d e ctx) (\<lambda>_. io_throw e)))"

end
