(* ===== verification/AgentTools.thy ===== *)
theory AgentTools
  imports SystemActions
begin

text \<open>
  What an agent's run may call, \<open>systemActions/agentToolGateway.ts\<close>: the proposal actions its version
  permits, the policy decision in front of every action, the events around it, and the answer a failed
  call gives the model. The adapters of retrieval and delegation are parameters: they are the policy code
  of those modules. \<open>parse_json\<close> is \<open>JSON.parse\<close>.
\<close>

section \<open>State and environment\<close>

text \<open>The audit rows and everything else.\<close>

record 'w agent_state =
  as_trail :: audit_log
  as_world :: 'w

type_synonym ('w, 'a) agent_io = "(action_error, 'w agent_state, 'a) async"

text \<open>The columns of the run that the gateway reads.\<close>

record agent_run =
  gr_id :: string
  gr_space_id :: string
  gr_agent_id :: string
  gr_agent_version_id :: "string option"
  gr_instructed_by_user_id :: "string option"
  gr_project_id :: "string option"
  gr_capabilities_json :: jsval

text \<open>
  The configured database and its answers, the clock, the adapters (none where the binding or its method
  is missing), the sink of run events (none without a database), and the executors: of the retrieval
  tools and whether the run has a retrieval binding, of the tools of its delegation binding, and of the
  four proposal actions.
\<close>

record 'w agent_env =
  ge_databaseUrl :: "string option"
  ge_db :: audit_db
  ge_now :: string
  ge_preflight :: "(jsval \<Rightarrow> ('w, action_policy) agent_io) option"
  ge_retrieval :: "string \<Rightarrow> jsval \<Rightarrow> string \<Rightarrow> ('w, string option) agent_io"
  ge_events :: "(string \<Rightarrow> string \<Rightarrow> string \<Rightarrow> jsobj \<Rightarrow> ('w, unit) agent_io) option"
  ge_retrieval_bound :: bool
  ge_retrieval_executor :: "string \<Rightarrow> 'w agent_state executor"
  ge_delegation_executors :: "(string \<times> 'w agent_state executor) list"
  ge_proposal_executors :: "string \<Rightarrow> 'w agent_state executor"
  ge_parse :: "schema \<Rightarrow> jsval \<Rightarrow> string + jsval"
  ge_parse_json :: "string \<Rightarrow> jsval option"

definition has_database :: "'w agent_env \<Rightarrow> bool" where
  "has_database env \<longleftrightarrow> truthy (opt_str (ge_databaseUrl env))"

section \<open>The proposal actions of a run\<close>

definition GENERIC_PROPOSAL_ACTION_IDS :: "string list" where
  "GENERIC_PROPOSAL_ACTION_IDS =
     [''source.channel.propose_activation'', ''project.source.propose_bind'',
      ''source.backfill.propose_start'', ''task.plan.propose'']"

definition allowedTools :: "jsobj option \<Rightarrow> string list" where
  "allowedTools permissions =
     (case permissions of
        None \<Rightarrow> []
      | Some ob \<Rightarrow> (case get ob ''allowed_tools'' of
            JArr items \<Rightarrow> map str (filter is_string items)
          | _ \<Rightarrow> []))"

definition filterGenericActionCapabilities :: "string list \<Rightarrow> jsobj option \<Rightarrow> string list" where
  "filterGenericActionCapabilities capabilities permissions =
     filter (\<lambda>a. a \<in> set (allowedTools permissions)) capabilities"

text \<open>\<open>permissions\<close> is the column of the run's agent version, if the query finds its row.\<close>

definition resolveEnabledGenericActions :: "'w agent_env \<Rightarrow> agent_run \<Rightarrow> jsobj option \<Rightarrow> string set" where
  "resolveEnabledGenericActions env r permissions =
     (let declared = (case gr_capabilities_json r of
            JArr items \<Rightarrow> map str (filter (\<lambda>v. is_string v \<and> str v \<in> set GENERIC_PROPOSAL_ACTION_IDS) items)
          | _ \<Rightarrow> [])
      in if declared = [] then {}
         else if \<not> has_database env \<or> \<not> truthy (opt_str (gr_agent_version_id r)) then {}
         else set (filterGenericActionCapabilities declared permissions))"

section \<open>The executors\<close>

definition genericDefinitions :: "string set \<Rightarrow> system_action list" where
  "genericDefinitions enabled =
     filter (\<lambda>d. sa_id d \<in> set GENERIC_PROPOSAL_ACTION_IDS \<and> sa_id d \<in> enabled) SYSTEM_ACTION_REGISTRY"

definition agent_permitted :: "string \<Rightarrow> bool" where
  "agent_permitted i \<longleftrightarrow>
     list_ex (\<lambda>d. sa_id d = i \<and> AgentTool \<in> set (sa_visibility d) \<and> AgentActor \<in> set (sa_allowed_actor_types d))
       SYSTEM_ACTION_REGISTRY"

text \<open>
  The map of executors, the last \<open>set\<close> of a name first: the delegation tools, the retrieval tools (also
  when the binding is only made to carry proposal actions), the proposal actions.
\<close>

definition run_executors :: "'w agent_env \<Rightarrow> agent_run \<Rightarrow> jsobj option \<Rightarrow> string \<Rightarrow> 'w agent_state executor option" where
  "run_executors env r permissions i =
     (let generic = (genericDefinitions (resolveEnabledGenericActions env r permissions) \<noteq> []);
          delegation = rev (filter (\<lambda>(name, _). agent_permitted name) (ge_delegation_executors env))
      in case map_of delegation i of
           Some ex \<Rightarrow> Some ex
         | None \<Rightarrow>
             if (ge_retrieval_bound env \<or> generic) \<and>
                list_ex (\<lambda>d. sa_id d = i \<and> sa_application_service d \<in>
                    {''RetrievalToolService.search'', ''RetrievalToolService.brief''}) SYSTEM_ACTION_REGISTRY
             then Some (ge_retrieval_executor env i)
             else if generic \<and> has_database env \<and> truthy (opt_str (gr_instructed_by_user_id r)) \<and>
                     i \<in> set GENERIC_PROPOSAL_ACTION_IDS
             then Some (ge_proposal_executors env i)
             else None)"

section \<open>The policy decision\<close>

definition retrieval_domain :: "string \<Rightarrow> string" where
  "retrieval_domain i =
     (if prefix ''memory.'' i then ''memory''
      else if prefix ''project.'' i then ''project_public_summary''
      else if prefix ''source.'' i then ''source'' else ''knowledge'')"

definition agent_request :: "system_action \<Rightarrow> agent_run \<Rightarrow> string \<Rightarrow> string \<Rightarrow> jsobj \<Rightarrow> jsobj \<Rightarrow> check_request" where
  "agent_request d r resourceType resourceId ctx meta =
     \<lparr>rq_action = sa_policy_action d, rq_actor_type = Some ''agent'', rq_actor_id = Some (gr_agent_id r),
      rq_actor_ref = None, rq_space_id = Some (gr_space_id r), rq_resource_type = Some resourceType,
      rq_resource_id = Some resourceId, rq_resource_space_id = Some (gr_space_id r),
      rq_run_id = Some (gr_id r), rq_proposal_id = None, rq_context = Some ctx, rq_payload = None,
      rq_metadata_json = Some meta, rq_force_record = True\<rparr>"

definition wait_request :: "system_action \<Rightarrow> agent_run \<Rightarrow> check_request" where
  "wait_request d r =
     agent_request d r ''run'' (gr_id r)
       [(''tool_name'', JStr (sa_id d)), (''instructed_by_user_id'', opt_str (gr_instructed_by_user_id r))]
       [(''surface'', JStr ''managed_run_system_action_gateway''), (''action_id'', JStr (sa_id d))]"

definition proposal_request :: "system_action \<Rightarrow> jsval \<Rightarrow> agent_run \<Rightarrow> check_request" where
  "proposal_request d input r =
     (let ob = record_or_empty input;
          resourceType =
            (if sa_id d = ''source.backfill.propose_start'' then ''source_backfill_plan''
             else if sa_id d = ''task.plan.propose'' then ''plan'' else sa_owning_module d);
          resourceId =
            (if sa_id d = ''source.backfill.propose_start''
             then to_string (coalesce (get ob ''source_backfill_plan_id'') (JStr (gr_id r)))
             else if sa_id d = ''task.plan.propose''
             then to_string (coalesce (get ob ''task_id'') (JStr (gr_id r)))
             else or_value (gr_project_id r) (gr_id r))
      in agent_request d r resourceType resourceId
           [(''action_id'', JStr (sa_id d)), (''project_id'', opt_str (gr_project_id r)),
            (''instructed_by_user_id'', opt_str (gr_instructed_by_user_id r))]
           [(''surface'', JStr ''managed_run_system_action_gateway'')])"

definition enforce_request :: "'w agent_env \<Rightarrow> check_request \<Rightarrow> ('w, action_policy) agent_io" where
  "enforce_request env req s =
     (let (res, trail) = enforce (ge_db env) (ge_databaseUrl env) loadActionRegistry req (ge_now env) (as_trail s)
      in (Inr \<lparr>ap_allowed = (er_status res = Allowed), ap_record_id = er_policy_decision_record_id res,
               ap_reason = er_message res, ap_details = JUndef\<rparr>, s\<lparr>as_trail := trail\<rparr>))"

definition enforcePolicyForAction :: "'w agent_env \<Rightarrow> agent_run \<Rightarrow> system_action \<Rightarrow> jsval \<Rightarrow>
    ('w, action_policy) agent_io" where
  "enforcePolicyForAction env r d input =
     (case (if sa_id d = ''agent.delegate'' then ge_preflight env else None) of
        Some preflight \<Rightarrow> preflight input
      | None \<Rightarrow>
          if prefix ''RetrievalToolService.'' (sa_application_service d) then
            io_bind (ge_retrieval env (sa_id d) input (retrieval_domain (sa_id d))) (\<lambda>recordId.
            io_return \<lparr>ap_allowed = True, ap_record_id = recordId, ap_reason = None, ap_details = JUndef\<rparr>)
          else if sa_id d = ''agent.wait_for_results'' \<and> has_database env then
            enforce_request env (wait_request d r)
          else if sa_id d \<in> set GENERIC_PROPOSAL_ACTION_IDS \<and> has_database env then
            enforce_request env (proposal_request d input r)
          else io_return \<lparr>ap_allowed = False, ap_record_id = None,
                 ap_reason = Some ''No canonical policy adapter is registered for this action'',
                 ap_details = JUndef\<rparr>)"

section \<open>Events\<close>

text \<open>The own properties that \<open>{ ...v }\<close> copies.\<close>

definition spread :: "jsval \<Rightarrow> jsobj" where
  "spread v = (case v of
     JObj ob \<Rightarrow> ob
   | JArr items \<Rightarrow> zip (map dec_of_nat [0..<length items]) items
   | JStr s \<Rightarrow> zip (map dec_of_nat [0..<length s]) (map (\<lambda>c. JStr [c]) s)
   | _ \<Rightarrow> [])"

definition emitActionEvent :: "'w agent_env \<Rightarrow> system_action \<Rightarrow> string \<Rightarrow> dispatch_context \<Rightarrow> jsobj \<Rightarrow>
    ('w, unit) agent_io" where
  "emitActionEvent env d eventType ctx meta =
     (case ge_events env of
        None \<Rightarrow> io_return ()
      | Some sink \<Rightarrow>
          io_catch (sink eventType (or_value (dc_idempotency_key ctx) (sa_id d)) (sa_id d) meta) (\<lambda>e.
            if map_option ad_record_failure_mode (loadActionRegistry (sa_policy_action d)) = Some FailClosed
            then io_throw e else io_return ()))"

definition agent_gateway :: "'w agent_env \<Rightarrow> agent_run \<Rightarrow> (string \<Rightarrow> 'w agent_state executor option) \<Rightarrow>
    'w agent_state action_gateway" where
  "agent_gateway env r executors =
     \<lparr>gw_executors = executors,
      gw_enforcePolicy = (\<lambda>d input _. enforcePolicyForAction env r d input),
      gw_onValidated = Some (\<lambda>d _ ctx. emitActionEvent env d ''action_invoked'' ctx []),
      gw_onCompleted = Some (\<lambda>d result ctx. emitActionEvent env d ''action_completed'' ctx
        (assign [(''policy_decision_record_id'', opt_str (ar_record_id result))]
          (spread (get (record_or_empty (ar_output result)) ''summary'')))),
      gw_onFailed = Some (\<lambda>d e ctx. emitActionEvent env d ''action_completed'' ctx
        [(''ok'', JBool False), (''error_code'', JStr (or_value (err_code e) ''system_action_failed'')),
         (''policy_decision_record_id'', opt_str (err_record e))]),
      gw_parse = ge_parse env\<rparr>"

section \<open>A tool call\<close>

record tool_call =
  tc_id :: string
  tc_name :: string
  tc_arguments_json :: string

definition agent_context :: "agent_run \<Rightarrow> tool_call \<Rightarrow> dispatch_context" where
  "agent_context r call =
     \<lparr>dc_actor = \<lparr>aa_type = AgentActor, aa_space_id = gr_space_id r, aa_user_id = gr_instructed_by_user_id r,
        aa_agent_id = Some (gr_agent_id r), aa_run_id = Some (gr_id r)\<rparr>,
      dc_visibility = AgentTool, dc_idempotency_key = Some (tc_id call), dc_policy_decision = None\<rparr>"

text \<open>\<open>name.split(".")[0]\<close>, whichever branch.\<close>

definition toolCallFailureResult :: "tool_call \<Rightarrow> action_error \<Rightarrow> jsval" where
  "toolCallFailureResult call e =
     (let disabled = (case err_thrown e of
            ErrorObject message \<Rightarrow> contains message ''is not enabled for domain'' | _ \<Rightarrow> False);
          errorCode =
            (if disabled then ''retrieval_tool_domain_not_enabled''
             else or_value (err_code e)
               (if contains (tc_name call) ''retrieval'' then ''retrieval_tool_call_failed''
                else ''system_action_failed''));
          message =
            (if disabled then ''Retrieval tool domain is not enabled for this run.''
             else case err_thrown e of ErrorObject m \<Rightarrow> m | _ \<Rightarrow> ''Action failed'')
      in JObj
        [(''modelResult'', JObj [(''ok'', JBool False), (''tool'', JStr (tc_name call)), (''error'', JStr message)]),
         (''summary'', JObj ([(''tool_name'', JStr (tc_name call))] @
            (if disabled then [(''domain'', JStr (hd (split_on (CHR ''.'') (tc_name call))))] else []) @
            [(''ok'', JBool False), (''error_code'', JStr errorCode)]))])"

definition parse_arguments :: "'w agent_env \<Rightarrow> tool_call \<Rightarrow> jsval" where
  "parse_arguments env call =
     or_value (ge_parse_json env (if tc_arguments_json call = [] then ''{}'' else tc_arguments_json call)) (JObj [])"

definition dispatch_call :: "'w agent_env \<Rightarrow> agent_run \<Rightarrow> (string \<Rightarrow> 'w agent_state executor option) \<Rightarrow> tool_call \<Rightarrow>
    'w agent_state \<Rightarrow> jsval \<times> 'w agent_state" where
  "dispatch_call env r executors call s =
     (case dispatch_action (agent_gateway env r executors) (tc_name call) (parse_arguments env call)
             (agent_context r call) s of
        (Inl e, s1) \<Rightarrow> (toolCallFailureResult call e, s1)
      | (Inr result, s1) \<Rightarrow> (ar_output result, s1))"

section \<open>When an executor runs\<close>

text \<open>The call passes every check in front of the executor, which would run in state \<open>s2\<close>.\<close>

definition authorised :: "'s action_gateway \<Rightarrow> string \<Rightarrow> jsval \<Rightarrow> dispatch_context \<Rightarrow> 's \<Rightarrow> system_action \<Rightarrow> jsval \<Rightarrow>
    's \<Rightarrow> bool" where
  "authorised gw actionId input ctx s d data s2 \<longleftrightarrow>
     find_action actionId = Some d \<and> call_refused d actionId ctx = None \<and>
     gw_parse gw (sa_input_schema d) input = Inr data \<and>
     (\<exists>s1 pol. run_hook (gw_onValidated gw) d data ctx s = (Inr (), s1) \<and>
        gw_enforcePolicy gw d data ctx s1 = (Inr pol, s2) \<and> ap_allowed pol)"

lemma unauthorised_known:
  assumes "find_action actionId = Some d" and "\<nexists>data s2. authorised gw actionId input ctx s d data s2"
  shows "dispatch_known (gw\<lparr>gw_executors := ex\<rparr>) d actionId input ctx s = dispatch_known gw d actionId input ctx s"
proof (cases "call_refused d actionId ctx")
  case None
  show ?thesis
  proof (cases "gw_parse gw (sa_input_schema d) input")
    case (Inr data)
    with None assms have "\<not> ap_allowed pol"
      if "run_hook (gw_onValidated gw) d data ctx s = (Inr (), s1)"
        "gw_enforcePolicy gw d data ctx s1 = (Inr pol, s2)" for s1 pol s2
      using that by (auto simp: authorised_def)
    with None Inr show ?thesis
      by (auto simp: dispatch_known_def io_bind_def split: prod.splits sum.splits)
  qed (simp add: dispatch_known_def None)
qed (simp add: dispatch_known_def)

text \<open>The executors only matter once a call is authorised.\<close>

lemma unauthorised_dispatch:
  assumes "\<nexists>d data s2. authorised gw actionId input ctx s d data s2"
  shows "dispatch_action (gw\<lparr>gw_executors := ex\<rparr>) actionId input ctx s = dispatch_action gw actionId input ctx s"
proof (cases "find_action actionId")
  case (Some d)
  with assms unauthorised_known [OF Some, of gw input ctx s ex] show ?thesis
    by (simp add: dispatch_action_def load_is_find io_catch_def)
qed (simp add: dispatch_action_def load_is_find)

section \<open>Authorised agent calls\<close>

definition proposal_tool :: "system_action \<Rightarrow> bool" where
  "proposal_tool d \<longleftrightarrow>
     sa_id d \<noteq> ''agent.delegate'' \<and> sa_id d \<noteq> ''agent.wait_for_results'' \<and>
     \<not> prefix ''RetrievalToolService.'' (sa_application_service d) \<and> sa_idempotency_required d"

lemma generic_actions:
  assumes "i \<in> set GENERIC_PROPOSAL_ACTION_IDS" and "find_action i = Some d"
  shows "proposal_tool d"
proof -
  have "list_all (\<lambda>i. case find_action i of None \<Rightarrow> False | Some d \<Rightarrow> proposal_tool d) GENERIC_PROPOSAL_ACTION_IDS"
    by code_simp
  with assms show ?thesis by (fastforce simp: list_all_iff)
qed

lemma generic_request:
  assumes "i \<in> set GENERIC_PROPOSAL_ACTION_IDS" and "find_action i = Some d" and "has_database env"
  shows "enforcePolicyForAction env r d input = enforce_request env (proposal_request d input r)"
  using generic_actions [OF assms(1,2)] assms find_action_ok [OF assms(2)]
  by (auto simp: enforcePolicyForAction_def proposal_tool_def)

lemma generic_needs_database:
  assumes "i \<in> set GENERIC_PROPOSAL_ACTION_IDS" and "find_action i = Some d" and "\<not> has_database env"
  shows "enforcePolicyForAction env r d input s = (Inr pol, s') \<Longrightarrow> \<not> ap_allowed pol"
  using generic_actions [OF assms(1,2)] assms(3)
  by (auto simp: enforcePolicyForAction_def proposal_tool_def)

lemma forced_request [simp]: "rq_force_record (proposal_request d input r)"
  by (simp add: proposal_request_def agent_request_def Let_def)

text \<open>A forced request that is allowed leaves its decision in the audit table.\<close>

lemma enforce_request_allowed:
  assumes "enforce_request env req s = (Inr pol, s2)" and "ap_allowed pol" and "rq_force_record req"
  obtains defn d i where "computeDecision loadActionRegistry req = (Some defn, d)" and "pd_decision d = Allow"
    and "s2 = s\<lparr>as_trail := as_trail s @ [(i, buildAuditEnvelope req d (Some defn) (ge_now env))]\<rparr>"
proof -
  obtain res trail where e: "enforce (ge_db env) (ge_databaseUrl env) loadActionRegistry req (ge_now env) (as_trail s) =
      (res, trail)"
    by fastforce
  with assms(1,2) have ok: "er_status res = Allowed" and s2: "s2 = s\<lparr>as_trail := trail\<rparr>"
    by (auto simp: enforce_request_def)
  obtain defn d where c: "computeDecision loadActionRegistry req = (Some defn, d)" "pd_decision d = Allow"
    and audit: "resolveFailureMode (Some defn) d req = FailClosed \<longrightarrow>
      (\<exists>i. trail = as_trail s @ [(i, buildAuditEnvelope req d (Some defn) (ge_now env))])"
    using enforce_allowed [OF e ok] by metis
  from audit assms(3) obtain i where "trail = as_trail s @ [(i, buildAuditEnvelope req d (Some defn) (ge_now env))]"
    by (auto simp: resolveFailureMode_def)
  with c s2 that show ?thesis by blast
qed

lemma enabled_generic: "resolveEnabledGenericActions env r permissions \<subseteq> set GENERIC_PROPOSAL_ACTION_IDS"
  by (auto simp: resolveEnabledGenericActions_def filterGenericActionCapabilities_def Let_def
      split: jsval.splits if_splits)

lemma generic_definitions_exist:
  assumes "enabled \<subseteq> set GENERIC_PROPOSAL_ACTION_IDS" and "enabled \<noteq> {}"
  shows "genericDefinitions enabled \<noteq> []"
proof -
  from assms obtain i where i: "i \<in> enabled" "i \<in> set GENERIC_PROPOSAL_ACTION_IDS" by blast
  have "list_all (\<lambda>i. list_ex (\<lambda>d. sa_id d = i) SYSTEM_ACTION_REGISTRY) GENERIC_PROPOSAL_ACTION_IDS"
    by code_simp
  with i obtain d where "d \<in> set SYSTEM_ACTION_REGISTRY" "sa_id d = i" by (fastforce simp: list_all_iff list_ex_iff)
  with i show ?thesis by (force simp: genericDefinitions_def filter_empty_conv)
qed

text \<open>
  The tool description the model sees, \<open>proposalActionJsonSchema\<close>: its \<open>required\<close> list are the keys of
  \<open>properties\<close>.
\<close>

definition proposalActionJsonSchema :: "string \<Rightarrow> jsobj" where
  "proposalActionJsonSchema i =
     (let kind = (\<lambda>t. JObj [(''type'', JStr t)]);
          nullable = (\<lambda>t. JObj [(''type'', JArr [JStr t, JStr ''null''])]);
          properties =
            (if i = ''task.plan.propose'' then
               [(''task_id'', kind ''string''), (''plan_id'', nullable ''string''), (''definition_json'', kind ''object''),
                (''reference_workflow_version_id'', nullable ''string''), (''budget_cap'', nullable ''number''),
                (''budget_sources'', kind ''array''), (''planner_metadata'', nullable ''object'')]
             else if i = ''source.channel.propose_activation'' then
               [(''provider_key'', kind ''string''), (''name'', kind ''string''), (''query'', kind ''object''),
                (''endpoint_url'', kind ''string'')]
             else if i = ''project.source.propose_bind'' then [(''source_channel_id'', kind ''string'')]
             else [(''source_channel_id'', kind ''string''), (''source_backfill_plan_id'', kind ''string'')])
      in [(''type'', JStr ''object''), (''properties'', JObj properties),
          (''required'', JArr (map (JStr \<circ> fst) properties)), (''additionalProperties'', JBool True)])"

text \<open>
  The description of the activation proposal does not mention the one field its input schema needs; the
  descriptions of the other proposal actions name every field of theirs.
\<close>

lemma activation_description_misses_channel:
  "filter (\<lambda>i. \<not> (case action_proposal_input i of
       AnyObject \<Rightarrow> True
     | ObjectWith fs \<Rightarrow> set (map (JStr \<circ> fst) fs) \<subseteq>
         set (case get (proposalActionJsonSchema i) ''required'' of JArr xs \<Rightarrow> xs | _ \<Rightarrow> [])
     | ExactObject fs \<Rightarrow> set (map (JStr \<circ> fst) fs) \<subseteq>
         set (case get (proposalActionJsonSchema i) ''required'' of JArr xs \<Rightarrow> xs | _ \<Rightarrow> [])))
     GENERIC_PROPOSAL_ACTION_IDS = [''source.channel.propose_activation'']"
  by code_simp

section \<open>Properties\<close>

text \<open>
  C33: an agent's proposal action only ever takes effect behind an audited decision. If the executors
  make any difference to a tool call, then the call carries an idempotency key and an input the schema
  accepts, the policy engine allowed the action on the request built from the run and that input, and in
  the state the executor starts from that decision has just been written to the audit table.
\<close>

theorem agent_proposals_audited:
  assumes "tc_name call \<in> set GENERIC_PROPOSAL_ACTION_IDS"
    and "dispatch_call env r executors call s \<noteq> dispatch_call env r executors' call s"
  shows "\<exists>d data s1 s2 defn decision i.
    authorised (agent_gateway env r executors) (tc_name call) (parse_arguments env call) (agent_context r call) s
      d data s2 \<and>
    find_action (tc_name call) = Some d \<and> tc_id call \<noteq> [] \<and>
    ge_parse env (sa_input_schema d) (parse_arguments env call) = Inr data \<and>
    emitActionEvent env d ''action_invoked'' (agent_context r call) [] s = (Inr (), s1) \<and>
    computeDecision loadActionRegistry (proposal_request d data r) = (Some defn, decision) \<and>
    pd_decision decision = Allow \<and>
    s2 = s1\<lparr>as_trail := as_trail s1 @
      [(i, buildAuditEnvelope (proposal_request d data r) decision (Some defn) (ge_now env))]\<rparr>"
proof -
  let ?gw = "agent_gateway env r executors"
  have swap: "?gw\<lparr>gw_executors := executors'\<rparr> = agent_gateway env r executors'"
    by (simp add: agent_gateway_def)
  let ?call = "dispatch_action ?gw (tc_name call) (parse_arguments env call) (agent_context r call) s"
  have "dispatch_action (?gw\<lparr>gw_executors := executors'\<rparr>) (tc_name call) (parse_arguments env call)
      (agent_context r call) s \<noteq> ?call"
    using assms(2) by (auto simp: dispatch_call_def swap)
  then obtain d data s2 where a: "authorised ?gw (tc_name call) (parse_arguments env call) (agent_context r call) s d data s2"
    using unauthorised_dispatch [of ?gw "tc_name call" "parse_arguments env call" "agent_context r call" s executors']
    by blast
  then obtain s1 pol where f: "find_action (tc_name call) = Some d"
    and key: "call_refused d (tc_name call) (agent_context r call) = None"
    and parse: "ge_parse env (sa_input_schema d) (parse_arguments env call) = Inr data"
    and hook: "emitActionEvent env d ''action_invoked'' (agent_context r call) [] s = (Inr (), s1)"
    and pol: "enforcePolicyForAction env r d data s1 = (Inr pol, s2)" "ap_allowed pol"
    by (auto simp: authorised_def agent_gateway_def run_hook_def)
  have db: "has_database env" using generic_needs_database [OF assms(1) f] pol by blast
  have "enforce_request env (proposal_request d data r) s1 = (Inr pol, s2)"
    using pol(1) generic_request [OF assms(1) f db] by simp
  then obtain defn decision i where "computeDecision loadActionRegistry (proposal_request d data r) = (Some defn, decision)"
      "pd_decision decision = Allow"
      "s2 = s1\<lparr>as_trail := as_trail s1 @
        [(i, buildAuditEnvelope (proposal_request d data r) decision (Some defn) (ge_now env))]\<rparr>"
    using pol(2) by (rule enforce_request_allowed) simp_all
  moreover have "tc_id call \<noteq> []"
    using key generic_actions [OF assms(1) f]
    by (auto simp: call_refused_def proposal_tool_def agent_context_def split: if_splits)
  ultimately show ?thesis using a f parse hook by blast
qed

text \<open>A run whose version permits the plan proposal only.\<close>

definition tool_env :: "nat agent_env" where
  "tool_env =
     \<lparr>ge_databaseUrl = Some ''db'', ge_db = (\<lambda>_ _. Some ''p1''), ge_now = ''now'', ge_preflight = None,
      ge_retrieval = (\<lambda>_ _ _. io_return None), ge_events = None, ge_retrieval_bound = False,
      ge_retrieval_executor = (\<lambda>_ _ _. io_return JNull), ge_delegation_executors = [],
      ge_proposal_executors = (\<lambda>_ _ _ s. (Inr (JObj [(''summary'', JObj [])]), s\<lparr>as_world := as_world s + 1\<rparr>)),
      ge_parse = (\<lambda>_ v. Inr v), ge_parse_json = (\<lambda>_. None)\<rparr>"

definition tool_run :: agent_run where
  "tool_run =
     \<lparr>gr_id = ''r'', gr_space_id = ''s'', gr_agent_id = ''a'', gr_agent_version_id = Some ''v'',
      gr_instructed_by_user_id = Some ''u'', gr_project_id = None,
      gr_capabilities_json = JArr [JStr ''task.plan.propose'']\<rparr>"

definition sample_permissions :: jsobj where
  "sample_permissions = [(''allowed_tools'', JArr [JStr ''task.plan.propose''])]"

definition sample_state :: "nat agent_state" where
  "sample_state = \<lparr>as_trail = [], as_world = 0\<rparr>"

definition sample_call :: "string \<Rightarrow> tool_call" where
  "sample_call name = \<lparr>tc_id = ''c1'', tc_name = name, tc_arguments_json = ''{}''\<rparr>"

lemma sample_calls_take_effect:
  "as_world (snd (dispatch_call tool_env tool_run (run_executors tool_env tool_run (Some sample_permissions))
     (sample_call ''task.plan.propose'') sample_state)) = 1"
  "as_world (snd (dispatch_call tool_env tool_run (\<lambda>_. None) (sample_call ''task.plan.propose'') sample_state)) = 0"
  by code_simp+

theorem agent_proposals_audited_witness:
  "\<exists>d. find_action ''task.plan.propose'' = Some d \<and>
     (\<exists>data decision. pd_decision decision = Allow \<and>
        snd (computeDecision loadActionRegistry (proposal_request d data tool_run)) = decision)"
proof -
  have name: "tc_name (sample_call ''task.plan.propose'') = ''task.plan.propose''" by (simp add: sample_call_def)
  have differs: "dispatch_call tool_env tool_run (run_executors tool_env tool_run (Some sample_permissions))
      (sample_call ''task.plan.propose'') sample_state \<noteq>
    dispatch_call tool_env tool_run (\<lambda>_. None) (sample_call ''task.plan.propose'') sample_state"
    using sample_calls_take_effect by force
  have generic: "tc_name (sample_call ''task.plan.propose'') \<in> set GENERIC_PROPOSAL_ACTION_IDS"
    by (simp add: name GENERIC_PROPOSAL_ACTION_IDS_def)
  show ?thesis using agent_proposals_audited [OF generic differs] unfolding name by (metis snd_conv)
qed

text \<open>
  Permissions are not checked when a tool is called. Once the version of a run permits one of the
  proposal actions, every call behaves as it does under any other permissions that do: an action that
  the version does not permit is executed when the model names it.
\<close>

theorem one_permission_unlocks_all:
  assumes "resolveEnabledGenericActions env r permissions \<noteq> {}"
    and "resolveEnabledGenericActions env r permissions' \<noteq> {}"
  shows "dispatch_call env r (run_executors env r permissions) call s =
         dispatch_call env r (run_executors env r permissions') call s"
proof -
  have "genericDefinitions (resolveEnabledGenericActions env r q) \<noteq> []"
    if "resolveEnabledGenericActions env r q \<noteq> {}" for q
    using that enabled_generic [of env r q] by (intro generic_definitions_exist) auto
  then have "run_executors env r permissions = run_executors env r permissions'"
    using assms by (simp add: run_executors_def fun_eq_iff)
  then show ?thesis by simp
qed

theorem one_permission_unlocks_all_witness:
  "''source.backfill.propose_start'' \<notin> resolveEnabledGenericActions tool_env tool_run (Some sample_permissions) \<and>
   as_world (snd (dispatch_call tool_env tool_run (run_executors tool_env tool_run (Some sample_permissions))
     (sample_call ''source.backfill.propose_start'') sample_state)) = 1"
proof -
  define wide where "wide = [(''allowed_tools'', JArr (map JStr GENERIC_PROPOSAL_ACTION_IDS))]"
  have enabled: "resolveEnabledGenericActions tool_env tool_run (Some sample_permissions) = {''task.plan.propose''}"
    by code_simp
  have wide: "resolveEnabledGenericActions tool_env tool_run (Some wide) \<noteq> {}"
    unfolding wide_def by code_simp
  have "as_world (snd (dispatch_call tool_env tool_run (run_executors tool_env tool_run (Some wide))
     (sample_call ''source.backfill.propose_start'') sample_state)) = 1"
    unfolding wide_def by code_simp
  with one_permission_unlocks_all [OF _ wide, of "Some sample_permissions"] enabled show ?thesis by simp
qed

end
