(* ===== verification/AccessPolicy.thy ===== *)
theory AccessPolicy
  imports JsValue
begin

text \<open>
  The content access rule: the types of \<open>access/contentAccessTypes.ts\<close>, the decision of
  \<open>access/contentAccessPolicy.ts\<close>, the roles of \<open>access/roles.ts\<close> and the memory rule of
  \<open>memory/memoryReadAuth.ts\<close>, with the declarative policy the decision implements.
\<close>

section \<open>Types\<close>

text \<open>\<open>"deny" | "summary" | "full"\<close>, ordered by what they disclose.\<close>

datatype access_decision = AccessDeny | AccessSummary | AccessFull

fun access_rank :: "access_decision \<Rightarrow> nat" where
  "access_rank AccessDeny = 0"
| "access_rank AccessSummary = 1"
| "access_rank AccessFull = 2"

lemma access_rank_inj: "access_rank a = access_rank b \<Longrightarrow> a = b"
  by (cases a; cases b) simp_all

instantiation access_decision :: linorder
begin

definition less_eq_access_decision :: "access_decision \<Rightarrow> access_decision \<Rightarrow> bool" where
  "less_eq_access_decision a b \<longleftrightarrow> access_rank a \<le> access_rank b"

definition less_access_decision :: "access_decision \<Rightarrow> access_decision \<Rightarrow> bool" where
  "less_access_decision a b \<longleftrightarrow> access_rank a < access_rank b"

instance
  by standard (auto simp: less_eq_access_decision_def less_access_decision_def intro: access_rank_inj)

end

instantiation access_decision :: order_bot
begin

definition bot_access_decision :: access_decision where
  "bot_access_decision = AccessDeny"

instance
  by standard (simp add: bot_access_decision_def less_eq_access_decision_def)

end

lemmas access_order = less_eq_access_decision_def less_access_decision_def

lemma access_le_simps [simp]:
  "AccessDeny \<le> a" "a \<le> AccessFull" "\<not> AccessSummary \<le> AccessDeny" "\<not> AccessFull \<le> AccessDeny"
  "\<not> AccessFull \<le> AccessSummary" "AccessFull \<le> a \<longleftrightarrow> a = AccessFull"
  "AccessSummary \<le> a \<longleftrightarrow> a \<noteq> AccessDeny" "a \<le> AccessDeny \<longleftrightarrow> a = AccessDeny"
  by (cases a; simp add: access_order)+

definition CONTENT_VISIBILITIES :: "string list" where
  "CONTENT_VISIBILITIES = [''private'', ''space_shared'', ''selected_users'']"

definition CONTENT_ACCESS_LEVELS :: "string list" where
  "CONTENT_ACCESS_LEVELS = [''full'', ''summary'']"

definition OVERSIGHT_MODES :: "string list" where
  "OVERSIGHT_MODES = [''none'', ''summary'', ''content'', ''full'']"

definition isContentVisibility :: "string \<Rightarrow> bool" where
  "isContentVisibility v \<longleftrightarrow> v \<in> set CONTENT_VISIBILITIES"

definition isContentAccessLevel :: "string \<Rightarrow> bool" where
  "isContentAccessLevel l \<longleftrightarrow> l \<in> set CONTENT_ACCESS_LEVELS"

definition isOversightMode :: "string \<Rightarrow> bool" where
  "isOversightMode m \<longleftrightarrow> m \<in> set OVERSIGHT_MODES"

text \<open>The cast \<open>level as ContentAccessLevel\<close> of a checked level.\<close>

definition level_decision :: "string \<Rightarrow> access_decision" where
  "level_decision l = (if l = ''full'' then AccessFull else AccessSummary)"

record content_resource =
  cr_space_id :: string
  cr_owner_user_id :: "string option"
  cr_visibility :: string
  cr_access_level :: string

record content_grant =
  cg_grantee_user_id :: string
  cg_access_level :: string
  cg_revoked_at :: "string option"

record access_context =
  ax_spaceId :: string
  ax_userId :: string
  ax_activeSpaceMember :: bool
  ax_scopeAllowed :: bool
  ax_oversightLevel :: "string option"

section \<open>Roles\<close>

definition isKnownSpaceRole :: "string option \<Rightarrow> bool" where
  "isKnownSpaceRole r \<longleftrightarrow>
     r \<in> Some ` set [''owner'', ''admin'', ''reviewer'', ''member'', ''guest'']"

definition isSpaceOwnerOrAdmin :: "string option \<Rightarrow> bool" where
  "isSpaceOwnerOrAdmin r \<longleftrightarrow> r = Some ''owner'' \<or> r = Some ''admin''"

section \<open>The decision\<close>

text \<open>\<open>!candidate.revoked_at\<close>: null, undefined and the empty string.\<close>

definition not_revoked :: "content_grant \<Rightarrow> bool" where
  "not_revoked g \<longleftrightarrow> cg_revoked_at g = None \<or> cg_revoked_at g = Some []"

fun widest_from :: "access_decision \<Rightarrow> access_decision list \<Rightarrow> access_decision" where
  "widest_from widest [] = widest"
| "widest_from widest (d # ds) =
     (if d = AccessFull then AccessFull
      else widest_from (if d = AccessSummary \<and> widest = AccessDeny then AccessSummary else widest) ds)"

definition widestAccessDecision :: "access_decision list \<Rightarrow> access_decision" where
  "widestAccessDecision decisions = widest_from AccessDeny decisions"

definition oversightContribution :: "string option \<Rightarrow> access_decision" where
  "oversightContribution m =
     (if m = Some ''summary'' then AccessSummary
      else if m = Some ''content'' \<or> m = Some ''full'' then AccessFull
      else AccessDeny)"

definition grant_applies :: "string \<Rightarrow> content_grant \<Rightarrow> bool" where
  "grant_applies userId g \<longleftrightarrow>
     cg_grantee_user_id g = userId \<and> not_revoked g \<and> isContentAccessLevel (cg_access_level g)"

definition memberAccessDecision ::
  "content_resource \<Rightarrow> string \<Rightarrow> content_grant list \<Rightarrow> access_decision" where
  "memberAccessDecision resource userId grants =
     (if cr_visibility resource = ''private'' then AccessDeny
      else
        let grant = List.find (grant_applies userId) grants
        in if cr_visibility resource = ''space_shared'' then
             (let baseLevel = level_decision (cr_access_level resource)
              in case grant of
                   None \<Rightarrow> baseLevel
                 | Some g \<Rightarrow> widestAccessDecision [baseLevel, level_decision (cg_access_level g)])
           else
             (case grant of None \<Rightarrow> AccessDeny | Some g \<Rightarrow> level_decision (cg_access_level g)))"

definition access_gates :: "content_resource \<Rightarrow> access_context \<Rightarrow> bool" where
  "access_gates resource ctx \<longleftrightarrow>
     cr_space_id resource = ax_spaceId ctx \<and> ax_activeSpaceMember ctx \<and>
     ax_scopeAllowed ctx \<and> isContentVisibility (cr_visibility resource) \<and>
     isContentAccessLevel (cr_access_level resource)"

definition decideContentAccess ::
  "content_resource \<Rightarrow> access_context \<Rightarrow> content_grant list \<Rightarrow> access_decision" where
  "decideContentAccess resource ctx grants =
     (if \<not> access_gates resource ctx then AccessDeny
      else if cr_owner_user_id resource = Some (ax_userId ctx) then AccessFull
      else
        let memberLevel = memberAccessDecision resource (ax_userId ctx) grants;
            oversightLevel = oversightContribution (ax_oversightLevel ctx)
        in widestAccessDecision [memberLevel, oversightLevel])"

definition isContentOwner :: "string option \<Rightarrow> string option \<Rightarrow> bool" where
  "isContentOwner owner_user_id userId \<longleftrightarrow>
     userId \<noteq> None \<and> userId \<noteq> Some [] \<and> owner_user_id = userId"

lemma widest_two [simp]: "widestAccessDecision [a, b] = max a b"
  by (cases a; cases b) (simp_all add: widestAccessDecision_def max_def)

section \<open>The declarative policy\<close>

text \<open>
  Who may read what, and how much of it: behind the gates, the owner in full; a member at the level
  of shared content; a grantee of an active grant on shared or selected content at the level of the
  grant; an overseer at the level of the oversight mode; and whoever may read in full may read the
  summary.
\<close>

inductive may_access ::
  "content_resource \<Rightarrow> access_context \<Rightarrow> content_grant list \<Rightarrow> access_decision \<Rightarrow> bool"
  for resource :: content_resource and ctx :: access_context and grants :: "content_grant list" where
  may_owner: "access_gates resource ctx \<Longrightarrow>
     cr_owner_user_id resource = Some (ax_userId ctx) \<Longrightarrow>
     may_access resource ctx grants AccessFull"
| may_shared: "access_gates resource ctx \<Longrightarrow> cr_visibility resource = ''space_shared'' \<Longrightarrow>
     may_access resource ctx grants (level_decision (cr_access_level resource))"
| may_grantee: "access_gates resource ctx \<Longrightarrow> cr_visibility resource \<noteq> ''private'' \<Longrightarrow>
     g \<in> set grants \<Longrightarrow> grant_applies (ax_userId ctx) g \<Longrightarrow>
     may_access resource ctx grants (level_decision (cg_access_level g))"
| may_oversee: "access_gates resource ctx \<Longrightarrow> oversightContribution (ax_oversightLevel ctx) = d \<Longrightarrow>
     d \<noteq> AccessDeny \<Longrightarrow> may_access resource ctx grants d"
| may_less: "may_access resource ctx grants AccessFull \<Longrightarrow>
     may_access resource ctx grants AccessSummary"

inductive_cases may_accessE: "may_access resource ctx grants d"

text \<open>A user has at most one grant on a resource.\<close>

definition one_grant_each :: "content_grant list \<Rightarrow> bool" where
  "one_grant_each grants \<longleftrightarrow> distinct (map cg_grantee_user_id grants)"

lemma level_decision_not_deny [simp]: "level_decision l \<noteq> AccessDeny"
  by (simp add: level_decision_def)

lemma find_grant:
  assumes "one_grant_each grants" and "g \<in> set grants" and "grant_applies u g"
  shows "List.find (grant_applies u) grants = Some g"
proof -
  have "\<exists>h. List.find (grant_applies u) grants = Some h"
    using assms find_None_all [of "grant_applies u" grants] by (metis option.exhaust)
  then obtain h where h: "List.find (grant_applies u) grants = Some h" by blast
  then have "h \<in> set grants" "grant_applies u h" using find_Some_in by metis+
  then have "h = g"
    using assms inj_onD [of cg_grantee_user_id "set grants" h g]
    by (simp add: one_grant_each_def distinct_map grant_applies_def)
  with h show ?thesis by simp
qed

lemma may_access_sound:
  assumes "one_grant_each grants" and "may_access resource ctx grants d"
  shows "d \<le> decideContentAccess resource ctx grants"
  using assms(2)
proof (induction rule: may_access.induct)
  case may_shared
  then show ?case
    by (auto simp: decideContentAccess_def memberAccessDecision_def Let_def le_max_iff_disj
        split: option.splits)
next
  case (may_grantee g)
  then show ?case using find_grant [OF assms(1)]
    by (auto simp: decideContentAccess_def memberAccessDecision_def Let_def le_max_iff_disj)
qed (auto simp: decideContentAccess_def Let_def le_max_iff_disj)

lemma member_access_may:
  assumes "access_gates resource ctx"
    and "memberAccessDecision resource (ax_userId ctx) grants \<noteq> AccessDeny"
  shows "may_access resource ctx grants (memberAccessDecision resource (ax_userId ctx) grants)"
proof -
  let ?u = "ax_userId ctx"
  have grantee: "may_access resource ctx grants (level_decision (cg_access_level g))"
    if "List.find (grant_applies ?u) grants = Some g" and "cr_visibility resource \<noteq> ''private''" for g
    using find_Some_in [OF that(1)] that(2) assms(1) by (auto intro: may_grantee)
  show ?thesis
    using assms grantee may_shared [OF assms(1)]
    by (auto simp: memberAccessDecision_def Let_def max_def split: if_splits option.splits)
qed

lemma decide_may_access:
  assumes "decideContentAccess resource ctx grants \<noteq> AccessDeny"
  shows "may_access resource ctx grants (decideContentAccess resource ctx grants)"
proof (cases "cr_owner_user_id resource = Some (ax_userId ctx)")
  case True
  with assms show ?thesis by (auto simp: decideContentAccess_def intro: may_owner split: if_splits)
next
  case False
  let ?m = "memberAccessDecision resource (ax_userId ctx) grants"
  let ?o = "oversightContribution (ax_oversightLevel ctx)"
  from assms False have g: "access_gates resource ctx"
    and d: "decideContentAccess resource ctx grants = max ?m ?o"
    by (auto simp: decideContentAccess_def Let_def split: if_splits)
  show ?thesis
  proof (cases "?m \<le> ?o")
    case True
    with assms d show ?thesis by (simp add: max_def may_oversee [OF g refl])
  next
    case False
    with assms d show ?thesis by (simp add: max_def member_access_may [OF g])
  qed
qed

lemma may_access_closed:
  "may_access resource ctx grants d \<Longrightarrow> e \<noteq> AccessDeny \<Longrightarrow> e \<le> d \<Longrightarrow>
     may_access resource ctx grants e"
  using may_less by (cases d; cases e) auto

section \<open>Memories\<close>

record memory_fields =
  mf_space_id :: string
  mf_deleted_at :: jsval
  mf_sensitivity_level :: "string option"
  mf_visibility :: "string option"
  mf_access_level :: "string option"
  mf_effective_access_level :: "string option"
  mf_owner_user_id :: "string option"
  mf_scope_type :: "string option"
  mf_workspace_id :: "string option"
  mf_content_access_grants :: "content_grant list option"

record memory_context =
  mx_userId :: string
  mx_spaceId :: string
  mx_activeSpaceMember :: "bool option"
  mx_scopeAllowed :: "bool option"
  mx_workspaceId :: "string option"
  mx_includeSystemScope :: "bool option"
  mx_oversightLevel :: "string option"

definition some_and :: "('a \<Rightarrow> bool) \<Rightarrow> 'a option \<Rightarrow> bool" where
  "some_and P x = (case x of None \<Rightarrow> False | Some v \<Rightarrow> P v)"

lemma some_and_simps [simp]: "\<not> some_and P None" "some_and P (Some v) \<longleftrightarrow> P v"
  by (simp_all add: some_and_def)

lemma some_and_iff: "some_and P x \<longleftrightarrow> (\<exists>v. x = Some v \<and> P v)"
  by (cases x) simp_all

definition memory_gates :: "memory_fields \<Rightarrow> memory_context \<Rightarrow> bool" where
  "memory_gates memory ctx \<longleftrightarrow>
     mf_deleted_at memory = JNull \<and> mf_space_id memory = mx_spaceId ctx \<and>
     mx_activeSpaceMember ctx \<noteq> Some False \<and> mx_scopeAllowed ctx \<noteq> Some False \<and>
     some_and isContentVisibility (mf_visibility memory) \<and>
     some_and isContentAccessLevel (mf_access_level memory) \<and>
     (mf_scope_type memory = Some ''system'' \<longrightarrow> mx_includeSystemScope ctx = Some True) \<and>
     (mf_workspace_id memory \<in> {None, Some []} \<or> mf_workspace_id memory = mx_workspaceId ctx)"

definition memory_content_decision :: "memory_fields \<Rightarrow> memory_context \<Rightarrow> access_decision" where
  "memory_content_decision memory ctx =
     (if some_and isContentAccessLevel (mf_effective_access_level memory)
      then level_decision (the (mf_effective_access_level memory))
      else decideContentAccess
        \<lparr>cr_space_id = mf_space_id memory, cr_owner_user_id = mf_owner_user_id memory,
         cr_visibility = the (mf_visibility memory), cr_access_level = the (mf_access_level memory)\<rparr>
        \<lparr>ax_spaceId = mx_spaceId ctx, ax_userId = mx_userId ctx,
         ax_activeSpaceMember = (mx_activeSpaceMember ctx \<noteq> Some False),
         ax_scopeAllowed = (mx_scopeAllowed ctx \<noteq> Some False),
         ax_oversightLevel = mx_oversightLevel ctx\<rparr>
        (case mf_content_access_grants memory of None \<Rightarrow> [] | Some gs \<Rightarrow> gs))"

definition memoryAccessDecision :: "memory_fields \<Rightarrow> memory_context \<Rightarrow> access_decision" where
  "memoryAccessDecision memory ctx =
     (if \<not> memory_gates memory ctx then AccessDeny
      else
        let decision = memory_content_decision memory ctx
        in if decision = AccessDeny then decision
           else if mf_sensitivity_level memory = Some ''highly_restricted'' \<and>
                   \<not> isContentOwner (mf_owner_user_id memory) (Some (mx_userId ctx)) \<and>
                   mx_oversightLevel ctx \<noteq> Some ''full''
           then AccessDeny
           else decision)"

definition canReadMemory :: "memory_fields \<Rightarrow> memory_context \<Rightarrow> bool" where
  "canReadMemory memory ctx \<longleftrightarrow> memoryAccessDecision memory ctx \<noteq> AccessDeny"

definition shouldRedactMemoryContent :: "memory_fields \<Rightarrow> string \<Rightarrow> bool" where
  "shouldRedactMemoryContent memory viewerUserId =
     (if isContentOwner (mf_owner_user_id memory) (Some viewerUserId) then False
      else if mf_effective_access_level memory \<notin> {None, Some []}
      then mf_effective_access_level memory = Some ''summary''
      else mf_access_level memory = Some ''summary'')"

lemma memory_decision_if:
  "memoryAccessDecision memory ctx =
     (if memory_gates memory ctx \<and>
         (mf_sensitivity_level memory = Some ''highly_restricted'' \<longrightarrow>
            isContentOwner (mf_owner_user_id memory) (Some (mx_userId ctx)) \<or>
            mx_oversightLevel ctx = Some ''full'')
      then memory_content_decision memory ctx else AccessDeny)"
  by (auto simp: memoryAccessDecision_def Let_def)

section \<open>Properties\<close>

text \<open>
  C15: the decision is the widest level the declarative access policy grants: a level other than deny
  may be read exactly if the decision is at least that level, given that a user has at most one grant
  on a resource.
\<close>

theorem access_decision_exact:
  assumes "one_grant_each grants" and "d \<noteq> AccessDeny"
  shows "may_access resource ctx grants d \<longleftrightarrow> d \<le> decideContentAccess resource ctx grants"
proof
  assume "d \<le> decideContentAccess resource ctx grants"
  moreover from this assms(2) have "decideContentAccess resource ctx grants \<noteq> AccessDeny"
    by (cases d) auto
  ultimately show "may_access resource ctx grants d"
    using decide_may_access may_access_closed assms(2) by metis
qed (rule may_access_sound [OF assms(1)])

definition sample_resource :: content_resource where
  "sample_resource =
     \<lparr>cr_space_id = ''s'', cr_owner_user_id = Some ''o'', cr_visibility = ''selected_users'',
      cr_access_level = ''full''\<rparr>"

definition sample_viewer :: access_context where
  "sample_viewer =
     \<lparr>ax_spaceId = ''s'', ax_userId = ''u'', ax_activeSpaceMember = True, ax_scopeAllowed = True,
      ax_oversightLevel = None\<rparr>"

definition sample_grants :: "content_grant list" where
  "sample_grants =
     [\<lparr>cg_grantee_user_id = ''u'', cg_access_level = ''summary'', cg_revoked_at = None\<rparr>]"

theorem access_decision_exact_witness:
  "may_access sample_resource sample_viewer sample_grants AccessSummary"
proof -
  have "one_grant_each sample_grants" by (simp add: one_grant_each_def sample_grants_def)
  moreover have "AccessSummary \<le> decideContentAccess sample_resource sample_viewer sample_grants"
    by code_simp
  ultimately show ?thesis using access_decision_exact by blast
qed

end
