(* ===== verification/AccessSql.thy ===== *)
theory AccessSql
  imports AccessPolicy SqlTable
begin

text \<open>
  The second copy of the content access rule: the SQL predicates that \<open>access/contentAccessSql.ts\<close>,
  \<open>workspaces/access.ts\<close> and \<open>memory/memorySensitivitySql.ts\<close> generate, read as predicates over the
  tables they query, the resource registry of \<open>access/contentAccessRegistry.ts\<close>, and the queries of
  \<open>access/contentAccessQuery.ts\<close> and \<open>access/oversightResolver.ts\<close>. A comparison with \<open>NULL\<close>
  does not hold, and no predicate negates one, so conditions are two-valued. The file ends with the
  equivalence of the two copies.
\<close>

section \<open>Tables\<close>

record space_row =
  sp_id :: string
  sp_type :: string
  sp_oversight_mode :: string

record membership_row =
  mb_space_id :: string
  mb_user_id :: string
  mb_role :: string
  mb_status :: string

record project_row =
  pj_id :: string
  pj_space_id :: string
  pj_owner_user_id :: "string option"
  pj_deleted_at :: "string option"

record project_member_row =
  pm_space_id :: string
  pm_project_id :: string
  pm_user_id :: string
  pm_status :: string

record workspace_row =
  ws_id :: string
  ws_space_id :: string

record project_workspace_row =
  pw_project_id :: string
  pw_workspace_id :: string

record grant_row =
  gr_space_id :: string
  gr_resource_type :: string
  gr_resource_id :: string
  gr_grantee_user_id :: string
  gr_granted_by_user_id :: string
  gr_access_level :: string
  gr_created_at :: string
  gr_updated_at :: string
  gr_revoked_at :: "string option"
  gr_revoked_by_user_id :: "string option"

text \<open>The columns of a content table that access control reads and writes.\<close>

record content_row =
  cn_id :: string
  cn_space_id :: string
  cn_owner_user_id :: "string option"
  cn_visibility :: string
  cn_access_level :: string
  cn_workspace_id :: "string option"
  cn_project_id :: "string option"
  cn_status :: string
  cn_deleted_at :: "string option"
  cn_sensitivity_level :: "string option"
  cn_updated_at :: string

record access_db =
  db_spaces :: "space_row list"
  db_memberships :: "membership_row list"
  db_projects :: "project_row list"
  db_project_members :: "project_member_row list"
  db_workspaces :: "workspace_row list"
  db_project_workspaces :: "project_workspace_row list"
  db_grants :: "grant_row list"
  db_content :: "string \<Rightarrow> content_row list"

section \<open>The registry\<close>

datatype active_predicate = NoPredicate | NotArchived | NotDeletedAt | StatusNotDeleted | StatusActive

record content_definition =
  cd_resourceType :: string
  cd_tableName :: string
  cd_workspaceColumn :: "string option"
  cd_projectColumn :: "string option"
  cd_activePredicate :: active_predicate
  cd_publishable :: bool

text \<open>Every definition has \<open>owner_user_id\<close> as its owner column.\<close>

definition content_definition_of ::
  "string \<Rightarrow> string \<Rightarrow> string option \<Rightarrow> string option \<Rightarrow> active_predicate \<Rightarrow> bool \<Rightarrow> content_definition" where
  "content_definition_of ty tab wc pc ap pub =
     \<lparr>cd_resourceType = ty, cd_tableName = tab, cd_workspaceColumn = wc, cd_projectColumn = pc,
      cd_activePredicate = ap, cd_publishable = pub\<rparr>"

definition CONTENT_RESOURCE_DEFINITIONS :: "content_definition list" where
  "CONTENT_RESOURCE_DEFINITIONS =
     (let wc = Some ''workspace_id''; pc = Some ''project_id'' in
     [content_definition_of ''agent'' ''agents'' None None NotArchived False,
      content_definition_of ''artifact'' ''artifacts'' wc pc NoPredicate True,
      content_definition_of ''activity'' ''activity_records'' wc pc NoPredicate False,
      content_definition_of ''memory'' ''memory_entries'' wc pc NotDeletedAt True,
      content_definition_of ''proposal'' ''proposals'' wc pc NoPredicate False,
      content_definition_of ''run'' ''runs'' wc pc NoPredicate False,
      content_definition_of ''source_connection'' ''source_connections'' None None NotDeletedAt False,
      content_definition_of ''source_item'' ''source_items'' None None NotDeletedAt False,
      content_definition_of ''source_snapshot'' ''source_snapshots'' None None NoPredicate False,
      content_definition_of ''extracted_evidence'' ''extracted_evidence'' None None NotDeletedAt False,
      content_definition_of ''space_object'' ''space_objects'' wc (Some ''primary_project_id'')
        StatusNotDeleted True,
      content_definition_of ''task'' ''tasks'' wc pc NotDeletedAt True,
      content_definition_of ''token_usage_event'' ''token_usage_events'' wc pc NoPredicate False,
      content_definition_of ''workspace'' ''workspaces'' None None StatusActive False,
      content_definition_of ''reader_annotation'' ''reader_annotations'' None None StatusActive False])"

definition contentResourceDefinition :: "string \<Rightarrow> content_definition option" where
  "contentResourceDefinition resourceType =
     List.find (\<lambda>d. cd_resourceType d = resourceType) CONTENT_RESOURCE_DEFINITIONS"

fun active_sql :: "active_predicate \<Rightarrow> content_row \<Rightarrow> bool" where
  "active_sql NoPredicate row = True"
| "active_sql NotArchived row = (cn_status row \<noteq> ''archived'')"
| "active_sql NotDeletedAt row = (cn_deleted_at row = None)"
| "active_sql StatusNotDeleted row = (cn_status row \<noteq> ''deleted'')"
| "active_sql StatusActive row = (cn_status row = ''active'')"

section \<open>The generated predicates\<close>

definition active_member :: "string \<Rightarrow> string \<Rightarrow> membership_row \<Rightarrow> bool" where
  "active_member sp u m \<longleftrightarrow> mb_space_id m = sp \<and> mb_user_id m = u \<and> mb_status m = ''active''"

definition active_member_sql :: "access_db \<Rightarrow> string \<Rightarrow> string \<Rightarrow> bool" where
  "active_member_sql db sp u \<longleftrightarrow> list_ex (active_member sp u) (db_memberships db)"

definition active_overseer_sql :: "access_db \<Rightarrow> string \<Rightarrow> string \<Rightarrow> bool" where
  "active_overseer_sql db sp u \<longleftrightarrow>
     list_ex (\<lambda>m. active_member sp u m \<and> mb_role m \<in> {''owner'', ''admin''}) (db_memberships db)"

definition contentOversightEligibleSql :: "access_db \<Rightarrow> string \<Rightarrow> string \<Rightarrow> bool" where
  "contentOversightEligibleSql db sp u \<longleftrightarrow>
     list_ex (\<lambda>s. sp_id s = sp \<and> sp_oversight_mode s \<noteq> ''none'') (db_spaces db) \<and>
     active_overseer_sql db sp u"

definition contentOversightLevelAtLeastFullSql :: "access_db \<Rightarrow> string \<Rightarrow> string \<Rightarrow> bool" where
  "contentOversightLevelAtLeastFullSql db sp u \<longleftrightarrow>
     list_ex (\<lambda>s. sp_id s = sp \<and> sp_oversight_mode s \<in> {''content'', ''full''}) (db_spaces db) \<and>
     active_overseer_sql db sp u"

definition contentFullOversightSql :: "access_db \<Rightarrow> string \<Rightarrow> string \<Rightarrow> bool" where
  "contentFullOversightSql db sp u \<longleftrightarrow>
     list_ex (\<lambda>s. sp_id s = sp \<and> sp_oversight_mode s = ''full'') (db_spaces db) \<and>
     active_overseer_sql db sp u"

definition project_member_sql :: "access_db \<Rightarrow> project_row \<Rightarrow> string \<Rightarrow> bool" where
  "project_member_sql db p u \<longleftrightarrow>
     list_ex (\<lambda>m. pm_space_id m = pj_space_id p \<and> pm_project_id m = pj_id p \<and> pm_user_id m = u \<and>
                  pm_status m = ''active'') (db_project_members db)"

definition projectReadAccessSql :: "access_db \<Rightarrow> string \<Rightarrow> string \<Rightarrow> string \<Rightarrow> bool" where
  "projectReadAccessSql db sp project u \<longleftrightarrow>
     list_ex (\<lambda>p. pj_id p = project \<and> pj_space_id p = sp \<and> pj_deleted_at p = None \<and>
        list_ex (\<lambda>s. sp_id s = pj_space_id p \<and>
          (sp_type s = ''personal'' \<or> pj_owner_user_id p = Some u \<or> project_member_sql db p u))
          (db_spaces db)) (db_projects db)"

definition workspaceProjectReadAccessSql :: "access_db \<Rightarrow> string \<Rightarrow> string \<Rightarrow> string \<Rightarrow> bool" where
  "workspaceProjectReadAccessSql db sp workspace u \<longleftrightarrow>
     list_ex (\<lambda>w. ws_id w = workspace \<and> ws_space_id w = sp \<and>
        list_ex (\<lambda>s. sp_id s = ws_space_id w \<and> sp_type s = ''personal'') (db_spaces db))
       (db_workspaces db) \<or>
     list_ex (\<lambda>l. pw_workspace_id l = workspace \<and>
        list_ex (\<lambda>p. pj_id p = pw_project_id l \<and> pj_space_id p = sp \<and> pj_deleted_at p = None \<and>
          list_ex (\<lambda>w. ws_id w = pw_workspace_id l \<and> ws_space_id w = pj_space_id p) (db_workspaces db) \<and>
          (pj_owner_user_id p = Some u \<or> project_member_sql db p u)) (db_projects db))
       (db_project_workspaces db)"

text \<open>A definition without the column selects \<open>NULL\<close> for it.\<close>

definition contentScopeSql :: "access_db \<Rightarrow> content_definition \<Rightarrow> content_row \<Rightarrow> string \<Rightarrow> bool" where
  "contentScopeSql db def row u \<longleftrightarrow>
     (cd_projectColumn def \<noteq> None \<longrightarrow>
        (case cn_project_id row of None \<Rightarrow> True
         | Some p \<Rightarrow> projectReadAccessSql db (cn_space_id row) p u)) \<and>
     (cd_workspaceColumn def \<noteq> None \<longrightarrow>
        (case cn_workspace_id row of None \<Rightarrow> True
         | Some w \<Rightarrow> workspaceProjectReadAccessSql db (cn_space_id row) w u))"

definition grant_on :: "string \<Rightarrow> string \<Rightarrow> string \<Rightarrow> grant_row \<Rightarrow> bool" where
  "grant_on sp ty rid g \<longleftrightarrow>
     gr_space_id g = sp \<and> gr_resource_type g = ty \<and> gr_resource_id g = rid"

definition active_grant_sql ::
  "access_db \<Rightarrow> content_definition \<Rightarrow> content_row \<Rightarrow> string \<Rightarrow> (string \<Rightarrow> bool) \<Rightarrow> bool" where
  "active_grant_sql db def row u level \<longleftrightarrow>
     list_ex (\<lambda>g. grant_on (cn_space_id row) (cd_resourceType def) (cn_id row) g \<and>
        gr_grantee_user_id g = u \<and> level (gr_access_level g) \<and> gr_revoked_at g = None) (db_grants db)"

definition contentAccessSql ::
  "access_db \<Rightarrow> content_definition \<Rightarrow> bool \<Rightarrow> string \<Rightarrow> content_row \<Rightarrow> bool" where
  "contentAccessSql db def includeOversight u row \<longleftrightarrow>
     active_member_sql db (cn_space_id row) u \<and>
     contentScopeSql db def row u \<and>
     cn_visibility row \<in> {''private'', ''space_shared'', ''selected_users''} \<and>
     cn_access_level row \<in> {''full'', ''summary''} \<and>
     (cn_owner_user_id row = Some u \<or>
      cn_visibility row = ''space_shared'' \<or>
      (cn_visibility row = ''selected_users'' \<and> active_grant_sql db def row u (\<lambda>_. True)) \<or>
      (includeOversight \<and> contentOversightEligibleSql db (cn_space_id row) u))"

definition contentAccessLevelSql ::
  "access_db \<Rightarrow> content_definition \<Rightarrow> bool \<Rightarrow> string \<Rightarrow> content_row \<Rightarrow> string" where
  "contentAccessLevelSql db def includeOversight u row =
     (let oversightFull = includeOversight \<and> contentOversightLevelAtLeastFullSql db (cn_space_id row) u;
          oversightEligible = includeOversight \<and> contentOversightEligibleSql db (cn_space_id row) u;
          fullGrant = active_grant_sql db def row u (\<lambda>l. l = ''full'');
          summaryGrant = active_grant_sql db def row u (\<lambda>l. l = ''summary'')
      in if cn_owner_user_id row = Some u then ''full''
         else if cn_visibility row = ''space_shared'' then
           (if cn_access_level row = ''full'' \<or> fullGrant \<or> oversightFull then ''full'' else ''summary'')
         else if cn_visibility row = ''selected_users'' then
           (if fullGrant \<or> oversightFull then ''full''
            else if summaryGrant \<or> oversightEligible then ''summary''
            else ''summary'')
         else if oversightFull then ''full''
         else if oversightEligible then ''summary''
         else cn_access_level row)"

text \<open>\<open>COALESCE(sensitivity_level, 'normal') <> 'highly_restricted'\<close>.\<close>

definition memorySensitivityReadSql :: "access_db \<Rightarrow> string \<Rightarrow> content_row \<Rightarrow> bool" where
  "memorySensitivityReadSql db u row \<longleftrightarrow>
     or_value (cn_sensitivity_level row) ''normal'' \<noteq> ''highly_restricted'' \<or>
     cn_owner_user_id row = Some u \<or>
     contentFullOversightSql db (cn_space_id row) u"

section \<open>Queries\<close>

definition resolveOversightLevel :: "access_db \<Rightarrow> string \<Rightarrow> string \<Rightarrow> string" where
  "resolveOversightLevel db sp u =
     (case [(sp_oversight_mode s, mb_role m).
              s \<leftarrow> db_spaces db, sp_id s = sp,
              m \<leftarrow> db_memberships db, active_member (sp_id s) u m] of
        [] \<Rightarrow> ''none''
      | (mode, role) # _ \<Rightarrow>
          if role \<noteq> ''owner'' \<and> role \<noteq> ''admin'' then ''none''
          else if isOversightMode mode then mode else ''none'')"

definition contentDecisionFromDb ::
  "access_db \<Rightarrow> string \<Rightarrow> string \<Rightarrow> string \<Rightarrow> string \<Rightarrow> access_decision" where
  "contentDecisionFromDb db sp u resourceType resourceId =
     (case contentResourceDefinition resourceType of
        None \<Rightarrow> AccessDeny
      | Some def \<Rightarrow>
          (case filter (\<lambda>row. cn_space_id row = sp \<and> cn_id row = resourceId \<and>
                          active_sql (cd_activePredicate def) row \<and> contentAccessSql db def True u row)
                  (db_content db (cd_tableName def)) of
             [] \<Rightarrow> AccessDeny
           | row # _ \<Rightarrow>
               let level = contentAccessLevelSql db def True u row
               in if isContentAccessLevel level then level_decision level else AccessDeny))"

definition contentOwnerFromDb ::
  "access_db \<Rightarrow> string \<Rightarrow> string \<Rightarrow> string \<Rightarrow> string \<Rightarrow> bool" where
  "contentOwnerFromDb db sp u resourceType resourceId =
     (case contentResourceDefinition resourceType of
        None \<Rightarrow> False
      | Some def \<Rightarrow>
          filter (\<lambda>row. cn_space_id row = sp \<and> cn_id row = resourceId \<and>
                    active_sql (cd_activePredicate def) row \<and> contentAccessSql db def True u row \<and>
                    cn_owner_user_id row = Some u)
            (db_content db (cd_tableName def)) \<noteq> [])"

section \<open>Constraints of the schema\<close>

text \<open>
  The unique keys and check constraints of \<open>db/schema\<close>: one row per space, per membership and per
  grant of a grantee on a resource; modes, levels and visibilities among the known ones; no empty
  time stamps.
\<close>

definition grant_key :: "grant_row \<Rightarrow> string \<times> string \<times> string \<times> string" where
  "grant_key g = (gr_space_id g, gr_resource_type g, gr_resource_id g, gr_grantee_user_id g)"

definition grant_ok :: "grant_row \<Rightarrow> bool" where
  "grant_ok g \<longleftrightarrow> isContentAccessLevel (gr_access_level g) \<and> gr_revoked_at g \<noteq> Some []"

definition grants_ok :: "grant_row list \<Rightarrow> bool" where
  "grants_ok gs \<longleftrightarrow> distinct (map grant_key gs) \<and> list_all grant_ok gs"

definition content_row_ok :: "content_row \<Rightarrow> bool" where
  "content_row_ok row \<longleftrightarrow>
     isContentVisibility (cn_visibility row) \<and> isContentAccessLevel (cn_access_level row)"

definition content_ok :: "access_db \<Rightarrow> bool" where
  "content_ok db \<longleftrightarrow>
     (\<forall>tab. distinct (map cn_id (db_content db tab)) \<and> list_all content_row_ok (db_content db tab))"

definition access_db_ok :: "access_db \<Rightarrow> bool" where
  "access_db_ok db \<longleftrightarrow>
     distinct (map sp_id (db_spaces db)) \<and>
     list_all (\<lambda>s. isOversightMode (sp_oversight_mode s)) (db_spaces db) \<and>
     distinct (map (\<lambda>m. (mb_space_id m, mb_user_id m)) (db_memberships db)) \<and>
     grants_ok (db_grants db) \<and> content_ok db"

section \<open>Reading the tables as the arguments of the decision\<close>

definition resource_of :: "content_row \<Rightarrow> content_resource" where
  "resource_of row =
     \<lparr>cr_space_id = cn_space_id row, cr_owner_user_id = cn_owner_user_id row,
      cr_visibility = cn_visibility row, cr_access_level = cn_access_level row\<rparr>"

lemma resource_of_simps [simp]:
  "cr_space_id (resource_of row) = cn_space_id row"
  "cr_owner_user_id (resource_of row) = cn_owner_user_id row"
  "cr_visibility (resource_of row) = cn_visibility row"
  "cr_access_level (resource_of row) = cn_access_level row"
  by (simp_all add: resource_of_def)

definition viewer_of :: "access_db \<Rightarrow> content_definition \<Rightarrow> content_row \<Rightarrow> string \<Rightarrow> string \<Rightarrow> access_context" where
  "viewer_of db def row sp u =
     \<lparr>ax_spaceId = sp, ax_userId = u, ax_activeSpaceMember = active_member_sql db sp u,
      ax_scopeAllowed = contentScopeSql db def row u,
      ax_oversightLevel = Some (resolveOversightLevel db sp u)\<rparr>"

definition content_grant_of :: "grant_row \<Rightarrow> content_grant" where
  "content_grant_of g =
     \<lparr>cg_grantee_user_id = gr_grantee_user_id g, cg_access_level = gr_access_level g,
      cg_revoked_at = gr_revoked_at g\<rparr>"

definition grants_on :: "access_db \<Rightarrow> string \<Rightarrow> string \<Rightarrow> string \<Rightarrow> content_grant list" where
  "grants_on db sp ty rid = map content_grant_of (filter (grant_on sp ty rid) (db_grants db))"

definition load_content ::
  "access_db \<Rightarrow> content_definition \<Rightarrow> string \<Rightarrow> string \<Rightarrow> content_row option" where
  "load_content db def sp rid =
     List.find (\<lambda>row. cn_space_id row = sp \<and> cn_id row = rid \<and>
                      active_sql (cd_activePredicate def) row) (db_content db (cd_tableName def))"

section \<open>Oversight\<close>

lemma spaces_of:
  assumes "access_db_ok db"
  shows "filter (\<lambda>s. sp_id s = sp) (db_spaces db) = [] \<or>
     (\<exists>s. filter (\<lambda>s. sp_id s = sp) (db_spaces db) = [s] \<and> s \<in> set (db_spaces db) \<and> sp_id s = sp \<and>
          isOversightMode (sp_oversight_mode s))"
proof (cases "\<exists>s \<in> set (db_spaces db). sp_id s = sp")
  case True
  then obtain s where s: "s \<in> set (db_spaces db)" "sp_id s = sp" by blast
  with assms filter_unique_key [of sp_id "db_spaces db" s] show ?thesis
    by (auto simp: access_db_ok_def list_all_iff)
qed (auto simp: filter_empty_conv)

lemma members_of:
  assumes "access_db_ok db"
  shows "filter (active_member sp u) (db_memberships db) = [] \<or>
     (\<exists>m. filter (active_member sp u) (db_memberships db) = [m] \<and> active_member sp u m)"
proof -
  let ?k = "\<lambda>m. (mb_space_id m, mb_user_id m)"
  have d: "distinct (map ?k (db_memberships db))" using assms by (simp add: access_db_ok_def)
  have split: "filter (active_member sp u) (db_memberships db) =
      filter (\<lambda>m. mb_status m = ''active'') (filter (\<lambda>m. ?k m = (sp, u)) (db_memberships db))"
    by (simp add: active_member_def conj_ac cong: filter_cong)
  show ?thesis
  proof (cases "\<exists>m \<in> set (db_memberships db). ?k m = (sp, u)")
    case True
    then obtain m where m: "m \<in> set (db_memberships db)" "?k m = (sp, u)" by blast
    from filter_unique_key [OF d m(1)] m(2)
    have one: "filter (\<lambda>m. ?k m = (sp, u)) (db_memberships db) = [m]" by (simp only:)
    show ?thesis unfolding split one using m(2) by (simp add: active_member_def)
  next
    case False
    then have "filter (\<lambda>m. ?k m = (sp, u)) (db_memberships db) = []" by (auto simp: filter_empty_conv)
    with split show ?thesis by (metis filter.simps(1))
  qed
qed

lemma ex_filter: "list_ex (\<lambda>x. P x \<and> Q x) xs \<longleftrightarrow> list_ex Q (filter P xs)"
  by (induction xs) auto

lemma oversight_sql:
  assumes "access_db_ok db"
  shows "contentOversightEligibleSql db sp u \<longleftrightarrow> resolveOversightLevel db sp u \<noteq> ''none''"
    and "contentOversightLevelAtLeastFullSql db sp u \<longleftrightarrow>
           resolveOversightLevel db sp u \<in> {''content'', ''full''}"
    and "contentFullOversightSql db sp u \<longleftrightarrow> resolveOversightLevel db sp u = ''full''"
    and "isOversightMode (resolveOversightLevel db sp u)"
proof -
  let ?S = "filter (\<lambda>s. sp_id s = sp) (db_spaces db)"
  let ?M = "filter (active_member sp u) (db_memberships db)"
  have rows: "[(sp_oversight_mode s, mb_role m). s \<leftarrow> db_spaces db, sp_id s = sp,
      m \<leftarrow> db_memberships db, active_member (sp_id s) u m] =
      [(sp_oversight_mode s, mb_role m). s \<leftarrow> ?S, m \<leftarrow> ?M]"
    by (simp add: concat_map_if) (intro arg_cong [of _ _ concat] map_cong, auto)
  note defs = contentOversightEligibleSql_def contentOversightLevelAtLeastFullSql_def
    contentFullOversightSql_def active_overseer_sql_def ex_filter
  have "(contentOversightEligibleSql db sp u \<longleftrightarrow> resolveOversightLevel db sp u \<noteq> ''none'') \<and>
    (contentOversightLevelAtLeastFullSql db sp u \<longleftrightarrow>
       resolveOversightLevel db sp u \<in> {''content'', ''full''}) \<and>
    (contentFullOversightSql db sp u \<longleftrightarrow> resolveOversightLevel db sp u = ''full'') \<and>
    isOversightMode (resolveOversightLevel db sp u)"
    using spaces_of [OF assms, of sp] members_of [OF assms, of sp u]
    unfolding resolveOversightLevel_def rows defs
    by (auto simp: isOversightMode_def OVERSIGHT_MODES_def split: if_splits)
  then show "contentOversightEligibleSql db sp u \<longleftrightarrow> resolveOversightLevel db sp u \<noteq> ''none''"
    and "contentOversightLevelAtLeastFullSql db sp u \<longleftrightarrow>
           resolveOversightLevel db sp u \<in> {''content'', ''full''}"
    and "contentFullOversightSql db sp u \<longleftrightarrow> resolveOversightLevel db sp u = ''full''"
    and "isOversightMode (resolveOversightLevel db sp u)" by blast+
qed

section \<open>Grants\<close>

lemma distinct_map_weaken:
  "distinct (map k xs) \<Longrightarrow> (\<And>x y. x \<in> set xs \<Longrightarrow> y \<in> set xs \<Longrightarrow> f x = f y \<Longrightarrow> k x = k y) \<Longrightarrow>
     distinct (map f xs)"
  unfolding distinct_map inj_on_def by metis

lemma grants_on_one_each:
  assumes "grants_ok (db_grants db)"
  shows "one_grant_each (grants_on db sp ty rid)"
proof -
  let ?gs = "filter (grant_on sp ty rid) (db_grants db)"
  have "distinct (map grant_key ?gs)"
    using assms by (simp add: grants_ok_def distinct_map_filter)
  then have "distinct (map gr_grantee_user_id ?gs)"
    by (rule distinct_map_weaken) (auto simp: grant_key_def grant_on_def)
  then show ?thesis
    by (simp add: one_grant_each_def grants_on_def content_grant_of_def comp_def)
qed

lemma active_grants:
  assumes "grants_ok (db_grants db)"
  shows "active_grant_sql db def row u level \<longleftrightarrow>
    (\<exists>g \<in> set (grants_on db (cn_space_id row) (cd_resourceType def) (cn_id row)).
       grant_applies u g \<and> level (cg_access_level g))"
  using assms
  by (fastforce simp: active_grant_sql_def grants_on_def list_ex_iff grant_applies_def not_revoked_def
      content_grant_of_def grants_ok_def list_all_iff grant_ok_def)

lemma active_grant_find:
  assumes "grants_ok (db_grants db)"
  shows "active_grant_sql db def row u level \<longleftrightarrow>
    (case List.find (grant_applies u)
            (grants_on db (cn_space_id row) (cd_resourceType def) (cn_id row)) of
       None \<Rightarrow> False | Some g \<Rightarrow> level (cg_access_level g))"
proof -
  let ?gs = "grants_on db (cn_space_id row) (cd_resourceType def) (cn_id row)"
  show ?thesis
  proof (cases "List.find (grant_applies u) ?gs")
    case None
    then have "\<forall>g \<in> set ?gs. \<not> grant_applies u g" by (simp add: find_None_all)
    with None show ?thesis by (auto simp: active_grants [OF assms])
  next
    case (Some g)
    have "h = g" if "h \<in> set ?gs" "grant_applies u h" for h
      using find_grant [OF grants_on_one_each [OF assms] that] Some by simp
    with Some find_Some_in [OF Some] show ?thesis by (auto simp: active_grants [OF assms])
  qed
qed

section \<open>The two copies agree\<close>

definition sql_decision :: "access_db \<Rightarrow> content_definition \<Rightarrow> string \<Rightarrow> content_row \<Rightarrow> access_decision" where
  "sql_decision db def u row =
     (if contentAccessSql db def True u row
      then level_decision (contentAccessLevelSql db def True u row) else AccessDeny)"

lemma level_sql_known:
  "content_row_ok row \<Longrightarrow> isContentAccessLevel (contentAccessLevelSql db def b u row)"
  by (auto simp: contentAccessLevelSql_def Let_def content_row_ok_def isContentAccessLevel_def
      CONTENT_ACCESS_LEVELS_def)

lemma grant_level_cases:
  assumes "List.find (grant_applies u) gs = Some g"
  shows "cg_access_level g = ''full'' \<or> cg_access_level g = ''summary''"
  using find_Some_in [OF assms]
  by (auto simp: grant_applies_def isContentAccessLevel_def CONTENT_ACCESS_LEVELS_def)

lemma sql_agrees:
  assumes ok: "access_db_ok db" and row: "content_row_ok row" and sp: "cn_space_id row = sp"
  shows "sql_decision db def u row =
    decideContentAccess (resource_of row) (viewer_of db def row sp u)
      (grants_on db sp (cd_resourceType def) (cn_id row))"
proof -
  let ?gs = "grants_on db sp (cd_resourceType def) (cn_id row)"
  let ?o = "resolveOversightLevel db sp u"
  have g: "grants_ok (db_grants db)" using ok by (simp add: access_db_ok_def)
  note grants = active_grant_find [OF g, of def row u, unfolded sp]
  note over = oversight_sql [OF ok, of sp u]
  have mode: "?o = ''none'' \<or> ?o = ''summary'' \<or> ?o = ''content'' \<or> ?o = ''full''"
    using over(4) by (auto simp: isOversightMode_def OVERSIGHT_MODES_def)
  have vis: "cn_visibility row = ''private'' \<or> cn_visibility row = ''space_shared'' \<or>
      cn_visibility row = ''selected_users''"
    and lev: "cn_access_level row = ''full'' \<or> cn_access_level row = ''summary''"
    using row by (auto simp: content_row_ok_def isContentVisibility_def CONTENT_VISIBILITIES_def
        isContentAccessLevel_def CONTENT_ACCESS_LEVELS_def)
  have gates: "access_gates (resource_of row) (viewer_of db def row sp u) \<longleftrightarrow>
      active_member_sql db sp u \<and> contentScopeSql db def row u"
    using row sp by (simp add: access_gates_def resource_of_def viewer_of_def content_row_ok_def)
  show ?thesis
  proof (cases "active_member_sql db sp u \<and> contentScopeSql db def row u")
    case False
    then have "\<not> contentAccessSql db def True u row" by (auto simp: contentAccessSql_def sp)
    with gates False show ?thesis by (auto simp: sql_decision_def decideContentAccess_def)
  next
    case scope: True
    show ?thesis
    proof (cases "cn_owner_user_id row = Some u")
      case True
      with scope vis lev gates sp show ?thesis
        by (auto simp: sql_decision_def decideContentAccess_def contentAccessSql_def
            contentAccessLevelSql_def level_decision_def resource_of_def viewer_of_def)
    next
      case False
      have policy: "decideContentAccess (resource_of row) (viewer_of db def row sp u) ?gs =
          max (memberAccessDecision (resource_of row) u ?gs) (oversightContribution (Some ?o))"
        using gates scope False by (simp add: decideContentAccess_def resource_of_def viewer_of_def)
      have access: "contentAccessSql db def True u row \<longleftrightarrow>
          cn_visibility row = ''space_shared'' \<or>
          cn_visibility row = ''selected_users'' \<and> active_grant_sql db def row u (\<lambda>_. True) \<or>
          ?o \<noteq> ''none''"
        using scope vis lev False by (auto simp: contentAccessSql_def sp over)
      let ?F = "contentOversightLevelAtLeastFullSql db sp u"
      let ?E = "contentOversightEligibleSql db sp u"
      have oversight: "oversightContribution (Some ?o) =
          (if ?F then AccessFull else if ?E then AccessSummary else AccessDeny)" and FE: "?F \<Longrightarrow> ?E"
        using mode by (auto simp: oversightContribution_def over)
      have E: "?o \<noteq> ''none'' \<longleftrightarrow> ?E" by (simp add: over)
      from vis show ?thesis
      proof (elim disjE)
        assume v: "cn_visibility row = ''private''"
        with FE False show ?thesis
          by (simp add: sql_decision_def access E policy oversight sp memberAccessDecision_def
              contentAccessLevelSql_def level_decision_def max_def)
      next
        assume v: "cn_visibility row = ''space_shared''"
        show ?thesis
        proof (cases "List.find (grant_applies u) ?gs")
          case None
          with v False show ?thesis
            by (simp add: sql_decision_def access E policy oversight sp memberAccessDecision_def
                contentAccessLevelSql_def level_decision_def grants max_def)
        next
          case (Some g)
          with v False show ?thesis
            by (simp add: sql_decision_def access E policy oversight sp memberAccessDecision_def
                contentAccessLevelSql_def level_decision_def grants max_def)
        qed
      next
        assume v: "cn_visibility row = ''selected_users''"
        show ?thesis
        proof (cases "List.find (grant_applies u) ?gs")
          case None
          with v False FE show ?thesis
            by (simp add: sql_decision_def access E policy oversight sp memberAccessDecision_def
                contentAccessLevelSql_def level_decision_def grants max_def)
        next
          case (Some g)
          with v False show ?thesis
            by (simp add: sql_decision_def access E policy oversight sp memberAccessDecision_def
                contentAccessLevelSql_def level_decision_def grants max_def)
        qed
      qed
    qed
  qed
qed

section \<open>Loading a row\<close>

lemma load_content_ok:
  assumes "access_db_ok db" and "load_content db def sp rid = Some row"
  shows "content_row_ok row \<and> cn_space_id row = sp \<and> cn_id row = rid \<and>
     row \<in> set (db_content db (cd_tableName def))"
  using find_Some_in [OF assms(2) [unfolded load_content_def]] assms(1)
  unfolding access_db_ok_def content_ok_def list_all_iff by blast

lemma load_content_filter:
  assumes "access_db_ok db"
  shows "filter (\<lambda>row. cn_space_id row = sp \<and> cn_id row = rid \<and>
             active_sql (cd_activePredicate def) row \<and> Q row) (db_content db (cd_tableName def)) =
    (case load_content db def sp rid of None \<Rightarrow> [] | Some row \<Rightarrow> if Q row then [row] else [])"
proof -
  let ?rows = "db_content db (cd_tableName def)"
  let ?P = "\<lambda>row. cn_space_id row = sp \<and> cn_id row = rid \<and> active_sql (cd_activePredicate def) row"
  have d: "distinct (map cn_id ?rows)" using assms by (simp add: access_db_ok_def content_ok_def)
  show ?thesis
  proof (cases "load_content db def sp rid")
    case None
    then have "\<forall>row \<in> set ?rows. \<not> ?P row" by (simp only: load_content_def find_None_all)
    then have "filter (\<lambda>row. ?P row \<and> Q row) ?rows = []" by (auto simp: filter_empty_conv)
    with None show ?thesis by simp
  next
    case (Some row)
    then have r: "row \<in> set ?rows" "?P row"
      using find_Some_in [OF Some [unfolded load_content_def]] by simp_all
    have "filter (\<lambda>x. ?P x \<and> Q x) ?rows = filter (\<lambda>x. ?P x \<and> Q x) (filter (\<lambda>x. cn_id x = cn_id row) ?rows)"
      unfolding filter_filter using r(2) by (intro filter_cong) auto
    also have "\<dots> = (if Q row then [row] else [])"
      using filter_unique_key [OF d r(1)] r(2) by simp
    finally show ?thesis using Some by simp
  qed
qed

lemma contentResourceDefinition_type: "contentResourceDefinition ty = Some def \<Longrightarrow> cd_resourceType def = ty"
  unfolding contentResourceDefinition_def by (drule find_Some_in) simp

lemma contentDecision_agrees:
  assumes "access_db_ok db"
  shows "contentDecisionFromDb db sp u ty rid =
    (case contentResourceDefinition ty of
       None \<Rightarrow> AccessDeny
     | Some def \<Rightarrow>
         (case load_content db def sp rid of
            None \<Rightarrow> AccessDeny
          | Some row \<Rightarrow> decideContentAccess (resource_of row) (viewer_of db def row sp u)
                          (grants_on db sp ty rid)))"
proof (cases "contentResourceDefinition ty")
  case None
  then show ?thesis by (simp add: contentDecisionFromDb_def)
next
  case (Some def)
  note ty = contentResourceDefinition_type [OF Some]
  show ?thesis
  proof (cases "load_content db def sp rid")
    case None
    with Some show ?thesis by (simp add: contentDecisionFromDb_def load_content_filter [OF assms])
  next
    case (Some row)
    note row = load_content_ok [OF assms Some]
    have "contentDecisionFromDb db sp u ty rid = sql_decision db def u row"
      using Some \<open>contentResourceDefinition ty = Some def\<close> level_sql_known [of row db def True u] row
      by (simp add: contentDecisionFromDb_def load_content_filter [OF assms] sql_decision_def Let_def)
    also have "\<dots> = decideContentAccess (resource_of row) (viewer_of db def row sp u)
        (grants_on db sp ty rid)"
      using sql_agrees [OF assms, of row sp def u] row ty by simp
    finally show ?thesis using Some \<open>contentResourceDefinition ty = Some def\<close> by simp
  qed
qed

section \<open>Memory rows\<close>

definition memory_of :: "content_row \<Rightarrow> string option \<Rightarrow> string option \<Rightarrow> content_grant list option \<Rightarrow>
    memory_fields" where
  "memory_of row scope_type effective grants =
     \<lparr>mf_space_id = cn_space_id row, mf_deleted_at = opt_str (cn_deleted_at row),
      mf_sensitivity_level = cn_sensitivity_level row, mf_visibility = Some (cn_visibility row),
      mf_access_level = Some (cn_access_level row), mf_effective_access_level = effective,
      mf_owner_user_id = cn_owner_user_id row, mf_scope_type = scope_type,
      mf_workspace_id = cn_workspace_id row, mf_content_access_grants = grants\<rparr>"

definition memory_viewer :: "string \<Rightarrow> string \<Rightarrow> bool option \<Rightarrow> bool option \<Rightarrow> string option \<Rightarrow> bool \<Rightarrow>
    string \<Rightarrow> memory_context" where
  "memory_viewer sp u member scope workspace system oversight =
     \<lparr>mx_userId = u, mx_spaceId = sp, mx_activeSpaceMember = member, mx_scopeAllowed = scope,
      mx_workspaceId = workspace, mx_includeSystemScope = Some system,
      mx_oversightLevel = Some oversight\<rparr>"

text \<open>
  How the repositories read a memory: the SQL filters the row and computes its level, then
  \<^const>\<open>memoryAccessDecision\<close> decides on the loaded row.
\<close>

definition memory_read_by_sql ::
  "access_db \<Rightarrow> content_definition \<Rightarrow> string \<Rightarrow> string \<Rightarrow> string option \<Rightarrow> bool \<Rightarrow> string option \<Rightarrow>
     content_row \<Rightarrow> access_decision" where
  "memory_read_by_sql db def sp u workspace system scope_type row =
     (if contentAccessSql db def True u row \<and> memorySensitivityReadSql db u row
      then memoryAccessDecision
             (memory_of row scope_type (Some (contentAccessLevelSql db def True u row)) None)
             (memory_viewer sp u None None workspace system (resolveOversightLevel db sp u))
      else AccessDeny)"

lemma memory_paths_agree:
  assumes ok: "access_db_ok db" and row: "content_row_ok row" and sp: "cn_space_id row = sp"
    and u: "u \<noteq> []"
  shows "memory_read_by_sql db def sp u workspace system scope_type row =
    memoryAccessDecision
      (memory_of row scope_type None (Some (grants_on db sp (cd_resourceType def) (cn_id row))))
      (memory_viewer sp u (Some (active_member_sql db sp u)) (Some (contentScopeSql db def row u))
        workspace system (resolveOversightLevel db sp u))"
proof -
  let ?o = "resolveOversightLevel db sp u"
  let ?gs = "grants_on db sp (cd_resourceType def) (cn_id row)"
  let ?A = "contentAccessSql db def True u row"
  let ?level = "contentAccessLevelSql db def True u row"
  let ?sql = "memory_of row scope_type (Some ?level) None"
  let ?ts = "memory_of row scope_type None (Some ?gs)"
  let ?vs = "memory_viewer sp u None None workspace system ?o"
  let ?vt = "memory_viewer sp u (Some (active_member_sql db sp u)) (Some (contentScopeSql db def row u))
        workspace system ?o"
  have level: "isContentAccessLevel ?level" using row by (rule level_sql_known)
  have known: "isContentVisibility (cn_visibility row)" "isContentAccessLevel (cn_access_level row)"
    using row by (simp_all add: content_row_ok_def)
  have A: "?A \<Longrightarrow> active_member_sql db sp u \<and> contentScopeSql db def row u"
    using sp by (simp add: contentAccessSql_def)
  have sens: "memorySensitivityReadSql db u row \<longleftrightarrow>
      (cn_sensitivity_level row = Some ''highly_restricted'' \<longrightarrow>
         cn_owner_user_id row = Some u \<or> ?o = ''full'')"
    by (cases "cn_sensitivity_level row")
      (auto simp: memorySensitivityReadSql_def or_value_def sp oversight_sql(3) [OF ok])
  have gates: "memory_gates ?ts ?vt \<longleftrightarrow>
      memory_gates ?sql ?vs \<and> active_member_sql db sp u \<and> contentScopeSql db def row u"
    using known by (auto simp: memory_gates_def memory_of_def memory_viewer_def)
  have sql: "memory_content_decision ?sql ?vs = level_decision ?level"
    using level by (simp add: memory_content_decision_def memory_of_def)
  have "memory_content_decision ?ts ?vt =
      decideContentAccess (resource_of row) (viewer_of db def row sp u) ?gs"
    by (simp add: memory_content_decision_def memory_of_def memory_viewer_def resource_of_def
        viewer_of_def)
  then have ts: "memory_content_decision ?ts ?vt = (if ?A then level_decision ?level else AccessDeny)"
    by (simp only: sql_agrees [OF ok row sp, symmetric] sql_decision_def)
  have owner: "isContentOwner (cn_owner_user_id row) (Some u) \<longleftrightarrow> cn_owner_user_id row = Some u"
    using u by (simp add: isContentOwner_def)
  have fields: "mf_sensitivity_level ?sql = cn_sensitivity_level row"
    "mf_owner_user_id ?sql = cn_owner_user_id row" "mf_sensitivity_level ?ts = cn_sensitivity_level row"
    "mf_owner_user_id ?ts = cn_owner_user_id row" "mx_userId ?vs = u" "mx_userId ?vt = u"
    "mx_oversightLevel ?vs = Some ?o" "mx_oversightLevel ?vt = Some ?o"
    by (simp_all add: memory_of_def memory_viewer_def)
  show ?thesis
    unfolding memory_read_by_sql_def memory_decision_if sql ts gates fields owner sens
    using A by auto
qed

section \<open>Properties\<close>

text \<open>
  C14: the two copies of the access rule agree: on tables that satisfy the schema's constraints, the
  generated SQL gives exactly the decision \<^const>\<open>decideContentAccess\<close> takes on the loaded row, the
  viewer's membership, scope and oversight mode, and the grants on the resource; and it denies what
  is not registered, not there or not active.
\<close>

theorem access_copies_agree:
  assumes "access_db_ok db"
  shows "contentDecisionFromDb db sp u ty rid =
    (case contentResourceDefinition ty of
       None \<Rightarrow> AccessDeny
     | Some def \<Rightarrow>
         (case load_content db def sp rid of
            None \<Rightarrow> AccessDeny
          | Some row \<Rightarrow> decideContentAccess (resource_of row) (viewer_of db def row sp u)
                          (grants_on db sp ty rid)))"
  by (rule contentDecision_agrees [OF assms])

definition sample_db :: access_db where
  "sample_db =
     \<lparr>db_spaces = [\<lparr>sp_id = ''s'', sp_type = ''team'', sp_oversight_mode = ''content''\<rparr>],
      db_memberships =
        [\<lparr>mb_space_id = ''s'', mb_user_id = ''o'', mb_role = ''member'', mb_status = ''active''\<rparr>,
         \<lparr>mb_space_id = ''s'', mb_user_id = ''a'', mb_role = ''admin'', mb_status = ''active''\<rparr>,
         \<lparr>mb_space_id = ''s'', mb_user_id = ''u'', mb_role = ''member'', mb_status = ''active''\<rparr>],
      db_projects = [], db_project_members = [], db_workspaces = [], db_project_workspaces = [],
      db_grants =
        [\<lparr>gr_space_id = ''s'', gr_resource_type = ''memory'', gr_resource_id = ''m'',
          gr_grantee_user_id = ''u'', gr_granted_by_user_id = ''o'', gr_access_level = ''summary'',
          gr_created_at = ''t'', gr_updated_at = ''t'', gr_revoked_at = None,
          gr_revoked_by_user_id = None\<rparr>],
      db_content = (\<lambda>tab. if tab = ''memory_entries'' then
        [\<lparr>cn_id = ''m'', cn_space_id = ''s'', cn_owner_user_id = Some ''o'',
          cn_visibility = ''selected_users'', cn_access_level = ''full'', cn_workspace_id = None,
          cn_project_id = None, cn_status = ''active'', cn_deleted_at = None,
          cn_sensitivity_level = None, cn_updated_at = ''t''\<rparr>] else [])\<rparr>"

lemma sample_db_ok: "access_db_ok sample_db"
  by (simp add: access_db_ok_def sample_db_def content_ok_def grants_ok_def grant_ok_def
      content_row_ok_def isContentVisibility_def isContentAccessLevel_def isOversightMode_def
      CONTENT_VISIBILITIES_def CONTENT_ACCESS_LEVELS_def OVERSIGHT_MODES_def)

lemma sample_def: "\<exists>def row. contentResourceDefinition ''memory'' = Some def \<and>
    load_content sample_db def ''s'' ''m'' = Some row \<and> cn_id row = ''m'' \<and> cn_space_id row = ''s'' \<and>
    content_row_ok row"
proof -
  have "map_option cd_tableName (contentResourceDefinition ''memory'') = Some ''memory_entries''"
    "map_option cd_activePredicate (contentResourceDefinition ''memory'') = Some NotDeletedAt"
    by code_simp+
  then obtain def where d: "contentResourceDefinition ''memory'' = Some def"
    "cd_tableName def = ''memory_entries''" "cd_activePredicate def = NotDeletedAt" by auto
  then have "\<exists>row. load_content sample_db def ''s'' ''m'' = Some row"
    by (simp add: load_content_def sample_db_def)
  with d load_content_ok [OF sample_db_ok] show ?thesis by blast
qed

theorem access_copies_agree_witness:
  "\<exists>def row. contentDecisionFromDb sample_db ''s'' ''u'' ''memory'' ''m'' =
     decideContentAccess (resource_of row) (viewer_of sample_db def row ''s'' ''u'')
       (grants_on sample_db ''s'' ''memory'' ''m'')"
proof -
  obtain def row where d: "contentResourceDefinition ''memory'' = Some def"
    "load_content sample_db def ''s'' ''m'' = Some row" using sample_def by blast
  show ?thesis
    by (rule exI [of _ def], rule exI [of _ row])
      (simp add: access_copies_agree [OF sample_db_ok] d)
qed

text \<open>
  Reading a memory through the SQL filters and the level the SQL computes gives exactly what
  \<^const>\<open>memoryAccessDecision\<close> gives on the row, its grants and the viewer's membership, scope and
  oversight, the gate of highly restricted memories included.
\<close>

theorem memory_reads_agree:
  assumes "access_db_ok db" and "content_row_ok row" and "u \<noteq> []"
  shows "memory_read_by_sql db def (cn_space_id row) u workspace system scope_type row =
    memoryAccessDecision
      (memory_of row scope_type None
        (Some (grants_on db (cn_space_id row) (cd_resourceType def) (cn_id row))))
      (memory_viewer (cn_space_id row) u (Some (active_member_sql db (cn_space_id row) u))
        (Some (contentScopeSql db def row u)) workspace system
        (resolveOversightLevel db (cn_space_id row) u))"
  by (rule memory_paths_agree [OF assms(1,2) refl assms(3)])

theorem memory_reads_agree_witness:
  "\<exists>def row vw. memory_read_by_sql sample_db def ''s'' ''u'' None False None row =
     memoryAccessDecision
       (memory_of row None None (Some (grants_on sample_db ''s'' (cd_resourceType def) ''m''))) vw"
proof -
  obtain def :: content_definition and row where
    r: "cn_id row = ''m''" "cn_space_id row = ''s''" "content_row_ok row"
    using sample_def by blast
  show ?thesis
    using memory_reads_agree [OF sample_db_ok r(3), of "''u''" def None False None, unfolded r] by blast
qed

end
