(* ===== verification/AccessService.thy ===== *)
theory AccessService
  imports AccessSql "HOL-Library.List_Lexorder" "HOL-Library.Char_ord"
begin

text \<open>
  The operations that change access: \<open>ContentAccessService.updatePolicy\<close> of
  \<open>contentAccess/service.ts\<close> and \<open>inheritContentAccessGrants\<close> of
  \<open>access/contentAccessInheritance.ts\<close>. A failing transaction leaves the tables as they were.
\<close>

section \<open>Requests, errors and results\<close>

datatype http_error = HttpError nat string | PlainError string

record access_update =
  au_visibility :: string
  au_access_level :: string
  au_grants :: "(string \<times> string) list"

record grant_out =
  go_user_id :: string
  go_access_level :: string
  go_created_at :: string
  go_updated_at :: string

record policy_out =
  po_resource_type :: string
  po_resource_id :: string
  po_space_id :: string
  po_owner_user_id :: "string option"
  po_visibility :: string
  po_access_level :: string
  po_workspace_id :: "string option"
  po_project_id :: "string option"
  po_grants :: "grant_out list"

definition requireDefinition :: "string \<Rightarrow> http_error + content_definition" where
  "requireDefinition ty =
     (case contentResourceDefinition ty of
        None \<Rightarrow> Inl (HttpError 404 ''Content type not found'')
      | Some def \<Rightarrow> Inr def)"

definition validateUpdate :: "access_update \<Rightarrow> http_error + unit" where
  "validateUpdate update =
     (if \<not> isContentVisibility (au_visibility update) then Inl (HttpError 422 ''Invalid visibility'')
      else if \<not> isContentAccessLevel (au_access_level update)
      then Inl (HttpError 422 ''Invalid access_level'')
      else if list_ex (\<lambda>(u, l). u = [] \<or> \<not> isContentAccessLevel l) (au_grants update)
      then Inl (HttpError 422 ''Invalid content grant'')
      else Inr ())"

text \<open>A \<open>Map\<close> keeps the place of a key's first insertion and the value of its last.\<close>

definition dedupeGrants :: "(string \<times> string) list \<Rightarrow> string option \<Rightarrow> (string \<times> string) list" where
  "dedupeGrants grants owner =
     fold (\<lambda>(u, l). AList.update u l) (filter (\<lambda>(u, l). Some u \<noteq> owner) grants) []"

definition canManage :: "access_db \<Rightarrow> string \<Rightarrow> string \<Rightarrow> content_row \<Rightarrow> bool" where
  "canManage db sp u row =
     (case filter (active_member sp u) (db_memberships db) of
        [] \<Rightarrow> False
      | m # _ \<Rightarrow> mb_role m \<noteq> [] \<and>
                 (cn_owner_user_id row = Some u \<or> isSpaceOwnerOrAdmin (Some (mb_role m))))"

definition assertActiveMembers :: "access_db \<Rightarrow> string \<Rightarrow> string list \<Rightarrow> http_error + unit" where
  "assertActiveMembers db sp userIds =
     (if list_all (active_member_sql db sp) userIds then Inr ()
      else Inl (HttpError 422 ''All grantees must be active members of this space''))"

section \<open>Grant statements\<close>

definition grant_merge :: "grant_row \<Rightarrow> grant_row \<Rightarrow> grant_row" where
  "grant_merge new old =
     old\<lparr>gr_granted_by_user_id := gr_granted_by_user_id new, gr_access_level := gr_access_level new,
         gr_updated_at := gr_updated_at new, gr_revoked_at := None, gr_revoked_by_user_id := None\<rparr>"

definition new_grant :: "string \<Rightarrow> string \<Rightarrow> string \<Rightarrow> string \<Rightarrow> string \<Rightarrow> string \<Rightarrow> string \<Rightarrow> grant_row" where
  "new_grant sp ty rid grantee grantor level now =
     \<lparr>gr_space_id = sp, gr_resource_type = ty, gr_resource_id = rid, gr_grantee_user_id = grantee,
      gr_granted_by_user_id = grantor, gr_access_level = level, gr_created_at = now,
      gr_updated_at = now, gr_revoked_at = None, gr_revoked_by_user_id = None\<rparr>"

definition insert_grants :: "grant_row list \<Rightarrow> grant_row list \<Rightarrow> grant_row list" where
  "insert_grants new grants = fold (upsert grant_key grant_merge) new grants"

definition revoke_grants :: "string \<Rightarrow> string \<Rightarrow> string \<Rightarrow> string \<Rightarrow> string \<Rightarrow> grant_row list \<Rightarrow> grant_row list" where
  "revoke_grants sp ty rid u now =
     sql_update (\<lambda>g. grant_on sp ty rid g \<and> gr_revoked_at g = None)
       (\<lambda>g. g\<lparr>gr_revoked_at := Some now, gr_revoked_by_user_id := Some u, gr_updated_at := now\<rparr>)"

definition loadGrants :: "access_db \<Rightarrow> string \<Rightarrow> string \<Rightarrow> string \<Rightarrow> grant_row list" where
  "loadGrants db sp ty rid =
     sort_key gr_grantee_user_id
       (filter (\<lambda>g. grant_on sp ty rid g \<and> gr_revoked_at g = None) (db_grants db))"

text \<open>The query selects \<open>NULL\<close> for a column the definition does not name.\<close>

definition policyOut :: "content_definition \<Rightarrow> string \<Rightarrow> content_row \<Rightarrow> grant_row list \<Rightarrow> policy_out" where
  "policyOut def ty row grants =
     \<lparr>po_resource_type = ty, po_resource_id = cn_id row, po_space_id = cn_space_id row,
      po_owner_user_id = cn_owner_user_id row, po_visibility = cn_visibility row,
      po_access_level = cn_access_level row,
      po_workspace_id = (if cd_workspaceColumn def = None then None else cn_workspace_id row),
      po_project_id = (if cd_projectColumn def = None then None else cn_project_id row),
      po_grants = map (\<lambda>g. \<lparr>go_user_id = gr_grantee_user_id g, go_access_level = gr_access_level g,
        go_created_at = gr_created_at g, go_updated_at = gr_updated_at g\<rparr>) grants\<rparr>"

section \<open>The operations\<close>

definition getPolicy :: "access_db \<Rightarrow> string \<Rightarrow> string \<Rightarrow> string \<Rightarrow> string \<Rightarrow> http_error + policy_out" where
  "getPolicy db sp u ty rid =
     bind_sum (requireDefinition ty) (\<lambda>def.
     (case load_content db def sp rid of
        None \<Rightarrow> Inl (HttpError 404 ''Content not found'')
      | Some row \<Rightarrow>
          if \<not> canManage db sp u row then Inl (HttpError 404 ''Content not found'')
          else Inr (policyOut def ty row (loadGrants db sp ty rid))))"

definition write_policy ::
  "content_definition \<Rightarrow> string \<Rightarrow> string \<Rightarrow> string \<Rightarrow> string \<Rightarrow> access_update \<Rightarrow>
     (string \<times> string) list \<Rightarrow> string \<Rightarrow> access_db \<Rightarrow> access_db" where
  "write_policy def sp u ty rid update grants now db =
     (let tab = cd_tableName def;
          rows = sql_update (\<lambda>r. cn_space_id r = sp \<and> cn_id r = rid)
                   (\<lambda>r. r\<lparr>cn_visibility := au_visibility update,
                           cn_access_level := au_access_level update, cn_updated_at := now\<rparr>)
                   (db_content db tab);
          revoked = revoke_grants sp ty rid u now (db_grants db)
      in db\<lparr>db_content := (db_content db)(tab := rows),
            db_grants :=
              (if au_visibility update = ''selected_users'' \<or> au_visibility update = ''space_shared''
               then insert_grants (map (\<lambda>(v, l). new_grant sp ty rid v u l now) grants) revoked
               else revoked)\<rparr>)"

definition updatePolicy ::
  "access_db \<Rightarrow> string \<Rightarrow> string \<Rightarrow> string \<Rightarrow> string \<Rightarrow> access_update \<Rightarrow> string \<Rightarrow>
     http_error + (policy_out \<times> access_db)" where
  "updatePolicy db sp u ty rid update now =
     bind_sum (requireDefinition ty) (\<lambda>def.
     bind_sum (validateUpdate update) (\<lambda>_.
     (case load_content db def sp rid of
        None \<Rightarrow> Inl (HttpError 404 ''Content not found'')
      | Some row \<Rightarrow>
          if \<not> canManage db sp u row then Inl (HttpError 404 ''Content not found'')
          else if au_visibility update \<noteq> ''space_shared'' \<and> cn_owner_user_id row \<in> {None, Some []} then
            Inl (HttpError 422 ''owner_user_id is required for private or selected-user content'')
          else
            let grants = dedupeGrants (au_grants update) (cn_owner_user_id row)
            in if au_visibility update = ''selected_users'' \<and> grants = [] then
                 Inl (HttpError 422 ''selected_users visibility requires at least one grantee'')
               else
                 bind_sum (assertActiveMembers db sp (map fst grants)) (\<lambda>_.
                 let db' = write_policy def sp u ty rid update grants now db
                 in (case load_content db' def sp rid of
                       None \<Rightarrow> Inl (PlainError ''updated row'')
                     | Some row' \<Rightarrow> Inr (policyOut def ty row' (loadGrants db' sp ty rid), db'))))))"

definition inheritContentAccessGrants ::
  "access_db \<Rightarrow> string \<Rightarrow> string \<Rightarrow> string \<Rightarrow> string \<Rightarrow> string \<Rightarrow> string \<Rightarrow> http_error + access_db" where
  "inheritContentAccessGrants db sp sourceType sourceId targetType targetId now =
     (if contentResourceDefinition sourceType = None then
        Inl (PlainError (''Unknown source content resource type: '' @ sourceType))
      else if contentResourceDefinition targetType = None then
        Inl (PlainError (''Unknown target content resource type: '' @ targetType))
      else Inr (db\<lparr>db_grants := insert_grants
             (map (\<lambda>g. new_grant (gr_space_id g) targetType targetId (gr_grantee_user_id g)
                        (gr_granted_by_user_id g) (gr_access_level g) now)
               (filter (\<lambda>g. grant_on sp sourceType sourceId g \<and> gr_revoked_at g = None \<and>
                            active_member_sql db (gr_space_id g) (gr_grantee_user_id g))
                 (db_grants db)))
             (db_grants db)\<rparr>))"

section \<open>The grant table\<close>

interpretation grants: keyed_table grant_key grant_merge
  by unfold_locales (simp add: grant_key_def grant_merge_def)

lemma grants_ok_upsert:
  assumes "grants_ok gs" and "grant_ok g"
  shows "grants_ok (upsert grant_key grant_merge g gs)"
proof -
  have "grant_ok r" if "r \<in> set (upsert grant_key grant_merge g gs)" for r
    using grants.upsert_set [OF that] assms
    by (auto simp: grants_ok_def list_all_iff grant_ok_def grant_merge_def)
  then show ?thesis
    using assms(1) grants.upsert_distinct by (simp add: grants_ok_def list_all_iff)
qed

lemma grants_ok_insert: "grants_ok gs \<Longrightarrow> list_all grant_ok new \<Longrightarrow> grants_ok (insert_grants new gs)"
  unfolding insert_grants_def by (induction new arbitrary: gs) (simp_all add: grants_ok_upsert)

lemma grants_ok_revoke:
  assumes "grants_ok gs" and "now \<noteq> []"
  shows "grants_ok (revoke_grants sp ty rid u now gs)"
proof -
  have "map grant_key (revoke_grants sp ty rid u now gs) = map grant_key gs"
    by (simp add: revoke_grants_def map_sql_update grant_key_def)
  with assms show ?thesis
    by (auto simp: grants_ok_def list_all_iff revoke_grants_def in_sql_update grant_ok_def
        split: if_splits)
qed

text \<open>The level of the active grant of a user on a resource.\<close>

definition active_level :: "string \<Rightarrow> string \<Rightarrow> string \<Rightarrow> grant_row list \<Rightarrow> string \<Rightarrow> string option" where
  "active_level sp ty rid gs v =
     map_option gr_access_level
       (List.find (\<lambda>g. grant_key g = (sp, ty, rid, v) \<and> gr_revoked_at g = None)  gs)"

lemma find_filtered: "(\<And>x. P x \<Longrightarrow> Q x) \<Longrightarrow> List.find P (filter Q xs) = List.find P xs"
  by (induction xs) auto

lemma active_level_upsert:
  assumes "gr_revoked_at g = None"
  shows "active_level sp ty rid (upsert grant_key grant_merge g gs) v =
    (if grant_key g = (sp, ty, rid, v) then Some (gr_access_level g) else active_level sp ty rid gs v)"
proof (cases "grant_key g = (sp, ty, rid, v)")
  case True
  let ?gs = "upsert grant_key grant_merge g gs"
  let ?P = "\<lambda>h. grant_key h = (sp, ty, rid, v) \<and> gr_revoked_at h = None"
  have same: "gr_revoked_at r = None \<and> gr_access_level r = gr_access_level g"
    if "r \<in> set ?gs" "grant_key r = grant_key g" for r
    using grants.upsert_same [OF that] assms by (auto simp: grant_merge_def)
  obtain r where r: "r \<in> set ?gs" "grant_key r = grant_key g"
    using grants.upsert_present by blast
  with same True have "\<not> (\<forall>h \<in> set ?gs. \<not> ?P h)" by auto
  then obtain h where h: "List.find ?P ?gs = Some h"
    unfolding find_None_all [symmetric] by blast
  with find_Some_in [OF h] same True show ?thesis by (simp add: active_level_def)
next
  case False
  have others: "filter (\<lambda>h. grant_key h = (sp, ty, rid, v)) (upsert grant_key grant_merge g gs) =
      filter (\<lambda>h. grant_key h = (sp, ty, rid, v)) gs"
    by (rule grants.upsert_others) (use False in simp)
  have by_key: "active_level sp ty rid hs v = map_option gr_access_level
      (List.find (\<lambda>h. grant_key h = (sp, ty, rid, v) \<and> gr_revoked_at h = None)
        (filter (\<lambda>h. grant_key h = (sp, ty, rid, v)) hs))" for hs
    by (subst find_filtered) (auto simp: active_level_def)
  have "active_level sp ty rid (upsert grant_key grant_merge g gs) v = active_level sp ty rid gs v"
    unfolding by_key others ..
  with False show ?thesis by simp
qed

lemma revoked_all:
  assumes "r \<in> set (revoke_grants sp ty rid u now gs)" and "grant_on sp ty rid r"
  shows "gr_revoked_at r \<noteq> None"
proof -
  obtain g where g: "r = (if grant_on sp ty rid g \<and> gr_revoked_at g = None
      then g\<lparr>gr_revoked_at := Some now, gr_revoked_by_user_id := Some u, gr_updated_at := now\<rparr> else g)"
    using assms(1) unfolding revoke_grants_def in_sql_update by blast
  show ?thesis
    using assms(2) by (cases "grant_on sp ty rid g \<and> gr_revoked_at g = None") (auto simp: g)
qed

lemma active_level_revoke:
  "active_level sp ty rid (revoke_grants sp ty rid u now gs) v = None"
proof -
  have "grant_key g = (sp, ty, rid, v) \<Longrightarrow> grant_on sp ty rid g" for g
    by (simp add: grant_key_def grant_on_def)
  then show ?thesis using revoked_all unfolding active_level_def find_None_all option.map_disc_iff by metis
qed

lemma active_level_insert:
  "list_all (\<lambda>g. gr_revoked_at g = None) new \<Longrightarrow> distinct (map grant_key new) \<Longrightarrow>
     active_level sp ty rid (insert_grants new gs) v =
     (case List.find (\<lambda>g. grant_key g = (sp, ty, rid, v)) new of
        None \<Rightarrow> active_level sp ty rid gs v | Some g \<Rightarrow> Some (gr_access_level g))"
  unfolding insert_grants_def
proof (induction new arbitrary: gs)
  case (Cons g new)
  then show ?case
  proof (cases "grant_key g = (sp, ty, rid, v)")
    case True
    with Cons.prems(2) have "List.find (\<lambda>h. grant_key h = (sp, ty, rid, v)) new = None"
      by (force simp: find_None_all)
    with Cons True show ?thesis by (simp add: active_level_upsert)
  next
    case False
    with Cons.prems have "active_level sp ty rid (upsert grant_key grant_merge g gs) v =
        active_level sp ty rid gs v" by (simp add: active_level_upsert)
    with Cons False show ?thesis by (simp split: option.splits)
  qed
qed simp

text \<open>What \<^const>\<open>decideContentAccess\<close> sees of the grants is the level of the viewer's active grant.\<close>

lemma decide_by_level:
  assumes "map_option cg_access_level (List.find (grant_applies (ax_userId ctx)) gs) =
           map_option cg_access_level (List.find (grant_applies (ax_userId ctx)) gs')"
  shows "decideContentAccess resource ctx gs = decideContentAccess resource ctx gs'"
  using assms
  by (auto simp: decideContentAccess_def memberAccessDecision_def Let_def split: option.splits)

lemma applied_level:
  assumes "grants_ok (db_grants db)"
  shows "map_option cg_access_level (List.find (grant_applies v) (grants_on db sp ty rid)) =
         active_level sp ty rid (db_grants db) v"
proof -
  let ?P = "\<lambda>g. grant_key g = (sp, ty, rid, v) \<and> gr_revoked_at g = None"
  have P: "?P g \<longleftrightarrow> grant_on sp ty rid g \<and> grant_applies v (content_grant_of g)"
    if "g \<in> set (db_grants db)" for g
    using that assms
    by (auto simp: grant_key_def grant_on_def grant_applies_def content_grant_of_def not_revoked_def
        grants_ok_def list_all_iff grant_ok_def)
  have "map_option cg_access_level
      (List.find (grant_applies v) (map content_grant_of (filter (grant_on sp ty rid) gs))) =
    map_option gr_access_level (List.find ?P gs)" if "set gs \<subseteq> set (db_grants db)" for gs
    using that
  proof (induction gs)
    case (Cons g gs)
    then show ?case using P [of g] by (auto simp: content_grant_of_def)
  qed simp
  then show ?thesis by (simp add: grants_on_def active_level_def)
qed

section \<open>What an update writes\<close>

lemma dedupe_keys:
  "distinct (map fst (dedupeGrants grants owner)) \<and>
   (\<forall>(v, l) \<in> set (dedupeGrants grants owner). (v, l) \<in> set grants \<and> Some v \<noteq> owner)"
proof -
  have "distinct (map fst (fold (\<lambda>(u, l). AList.update u l) xs acc)) \<and>
      set (fold (\<lambda>(u, l). AList.update u l) xs acc) \<subseteq> set xs \<union> set acc"
    if "distinct (map fst acc)" for xs acc
    using that
  proof (induction xs arbitrary: acc)
    case (Cons x xs)
    obtain u l where x: "x = (u, l)" by (cases x)
    have "set (AList.update u l acc) \<subseteq> insert (u, l) (set acc)"
      by (induction acc) auto
    moreover have "distinct (map fst (AList.update u l acc))"
      using Cons.prems by (rule distinct_update)
    ultimately show ?case using Cons.IH x by fastforce
  qed simp
  from this [of "[]" "filter (\<lambda>(u, l). Some u \<noteq> owner) grants"] show ?thesis
    by (auto simp: dedupeGrants_def)
qed

text \<open>What a successful update has checked and done.\<close>

lemma updatePolicy_InrD:
  assumes "updatePolicy db sp u ty rid update now = Inr (out, db')"
  obtains def row where
    "contentResourceDefinition ty = Some def" and "load_content db def sp rid = Some row"
    and "canManage db sp u row"
    and "isContentVisibility (au_visibility update)" and "isContentAccessLevel (au_access_level update)"
    and "list_all (\<lambda>(v, l). v \<noteq> [] \<and> isContentAccessLevel l) (au_grants update)"
    and "list_all (active_member_sql db sp) (map fst (dedupeGrants (au_grants update) (cn_owner_user_id row)))"
    and "au_visibility update = ''space_shared'' \<or> cn_owner_user_id row \<noteq> None"
    and "db' = write_policy def sp u ty rid update
           (dedupeGrants (au_grants update) (cn_owner_user_id row)) now db"
proof -
  obtain def where d: "contentResourceDefinition ty = Some def"
    using assms by (cases "contentResourceDefinition ty") (auto simp: updatePolicy_def requireDefinition_def)
  have v: "validateUpdate update = Inr ()"
    using assms d by (cases "validateUpdate update") (auto simp: updatePolicy_def requireDefinition_def)
  obtain row where r: "load_content db def sp rid = Some row"
    using assms d v by (cases "load_content db def sp rid")
      (auto simp: updatePolicy_def requireDefinition_def)
  let ?g = "dedupeGrants (au_grants update) (cn_owner_user_id row)"
  have m: "list_all (active_member_sql db sp) (map fst ?g)"
    using assms d v r
    by (auto simp: updatePolicy_def requireDefinition_def Let_def assertActiveMembers_def
        split: if_splits)
  have rest: "canManage db sp u row"
    "au_visibility update = ''space_shared'' \<or> cn_owner_user_id row \<noteq> None"
    "db' = write_policy def sp u ty rid update ?g now db"
    using assms d v r m
    by (auto simp: updatePolicy_def requireDefinition_def Let_def assertActiveMembers_def
        split: if_splits option.splits)
  have "isContentVisibility (au_visibility update)" "isContentAccessLevel (au_access_level update)"
    "list_all (\<lambda>(v, l). v \<noteq> [] \<and> isContentAccessLevel l) (au_grants update)"
    using v by (auto simp: validateUpdate_def list_ex_iff list_all_iff split: if_splits)
  with d r m rest show ?thesis by (intro that) auto
qed

lemma write_policy_same [simp]:
  "db_spaces (write_policy def sp u ty rid update gs now db) = db_spaces db"
  "db_memberships (write_policy def sp u ty rid update gs now db) = db_memberships db"
  "db_projects (write_policy def sp u ty rid update gs now db) = db_projects db"
  "db_project_members (write_policy def sp u ty rid update gs now db) = db_project_members db"
  "db_workspaces (write_policy def sp u ty rid update gs now db) = db_workspaces db"
  "db_project_workspaces (write_policy def sp u ty rid update gs now db) = db_project_workspaces db"
  by (simp_all add: write_policy_def Let_def)

definition update_row :: "access_update \<Rightarrow> string \<Rightarrow> content_row \<Rightarrow> content_row" where
  "update_row update now r =
     r\<lparr>cn_visibility := au_visibility update, cn_access_level := au_access_level update,
       cn_updated_at := now\<rparr>"

lemma write_policy_rows:
  "db_content (write_policy def sp u ty rid update gs now db) =
     (db_content db)(cd_tableName def :=
        sql_update (\<lambda>r. cn_space_id r = sp \<and> cn_id r = rid) (update_row update now)
          (db_content db (cd_tableName def)))"
  by (simp add: write_policy_def Let_def update_row_def [abs_def])

lemma content_ok_write:
  assumes "content_ok db" and "isContentVisibility (au_visibility update)"
    and "isContentAccessLevel (au_access_level update)"
  shows "content_ok (write_policy def sp u ty rid update gs now db)"
proof -
  have "content_row_ok (update_row update now r)" for r
    using assms(2,3) by (simp add: content_row_ok_def update_row_def)
  moreover have "cn_id (update_row update now r) = cn_id r" for r by (simp add: update_row_def)
  ultimately show ?thesis
    using assms(1)
    by (auto simp: content_ok_def write_policy_rows map_sql_update list_all_iff in_sql_update)
qed

lemma new_grants_ok:
  "list_all (\<lambda>(v, l). isContentAccessLevel l) gs \<Longrightarrow>
     list_all grant_ok (map (\<lambda>(v, l). new_grant sp ty rid v u l now) gs)"
  by (auto simp: list_all_iff grant_ok_def new_grant_def)

lemma write_policy_ok:
  assumes "access_db_ok db" and "now \<noteq> []"
    and "isContentVisibility (au_visibility update)" and "isContentAccessLevel (au_access_level update)"
    and "list_all (\<lambda>(v, l). isContentAccessLevel l) gs"
  shows "access_db_ok (write_policy def sp u ty rid update gs now db)"
proof -
  have "grants_ok (db_grants (write_policy def sp u ty rid update gs now db))"
    using assms(1,2) new_grants_ok [OF assms(5)]
    by (simp add: write_policy_def Let_def access_db_ok_def grants_ok_revoke grants_ok_insert)
  then show ?thesis using assms(1) content_ok_write [OF _ assms(3,4)] by (simp add: access_db_ok_def)
qed

lemma write_policy_levels:
  assumes "distinct (map fst gs)"
  shows "active_level sp ty rid (db_grants (write_policy def sp u ty rid update gs now db)) v =
    (if au_visibility update \<in> {''selected_users'', ''space_shared''} then map_of gs v else None)"
proof -
  let ?new = "map (\<lambda>(v, l). new_grant sp ty rid v u l now) gs"
  have "distinct (map grant_key ?new)"
    unfolding map_map
    by (rule distinct_map_weaken [OF assms])
      (auto simp: new_grant_def grant_key_def split: prod.splits)
  moreover have "list_all (\<lambda>g. gr_revoked_at g = None) ?new" by (auto simp: list_all_iff new_grant_def)
  moreover have "map_option gr_access_level (List.find (\<lambda>g. grant_key g = (sp, ty, rid, v)) ?new) =
      map_of gs v"
    by (induction gs) (auto simp: new_grant_def grant_key_def)
  ultimately show ?thesis
    by (auto simp: write_policy_def Let_def active_level_insert active_level_revoke split: option.splits)
qed

section \<open>Decisions after an update\<close>

lemma find_sql_update:
  assumes "\<And>r. P (f r) = P r"
  shows "List.find P (sql_update Q f rows) =
    map_option (\<lambda>r. if Q r then f r else r) (List.find P rows)"
  using assms by (induction rows) (auto simp: sql_update_def)

lemma active_sql_update_row [simp]: "active_sql ap (update_row update now r) = active_sql ap r"
  by (cases ap) (simp_all add: update_row_def)

lemma update_row_simps [simp]:
  "cn_id (update_row update now r) = cn_id r"
  "cn_space_id (update_row update now r) = cn_space_id r"
  "cn_owner_user_id (update_row update now r) = cn_owner_user_id r"
  "cn_workspace_id (update_row update now r) = cn_workspace_id r"
  "cn_project_id (update_row update now r) = cn_project_id r"
  "cn_visibility (update_row update now r) = au_visibility update"
  "cn_access_level (update_row update now r) = au_access_level update"
  by (simp_all add: update_row_def)

lemma load_written:
  "load_content (write_policy def sp u ty rid update gs now db) def' sp' rid' =
     map_option (\<lambda>r. if cd_tableName def' = cd_tableName def \<and> sp' = sp \<and> rid' = rid
                     then update_row update now r else r)
       (load_content db def' sp' rid')"
proof -
  let ?rows = "db_content db (cd_tableName def)"
  have "List.find (\<lambda>row. cn_space_id row = sp' \<and> cn_id row = rid' \<and> active_sql ap row)
      (sql_update (\<lambda>r. cn_space_id r = sp \<and> cn_id r = rid) (update_row update now) rows) =
    map_option (\<lambda>r. if sp' = sp \<and> rid' = rid then update_row update now r else r)
      (List.find (\<lambda>row. cn_space_id row = sp' \<and> cn_id row = rid' \<and> active_sql ap row) rows)" for ap rows
    by (induction rows) (auto simp: sql_update_def)
  then show ?thesis
    by (simp add: load_content_def write_policy_rows option.map_ident)
qed

lemma scope_depends:
  assumes "db_spaces db' = db_spaces db" "db_projects db' = db_projects db"
    "db_project_members db' = db_project_members db" "db_workspaces db' = db_workspaces db"
    "db_project_workspaces db' = db_project_workspaces db"
    "cn_space_id row' = cn_space_id row" "cn_project_id row' = cn_project_id row"
    "cn_workspace_id row' = cn_workspace_id row"
  shows "contentScopeSql db' def row' v = contentScopeSql db def row v"
proof -
  have "projectReadAccessSql db' s p v = projectReadAccessSql db s p v"
    "workspaceProjectReadAccessSql db' s p v = workspaceProjectReadAccessSql db s p v" for s p
    using assms by (simp_all add: projectReadAccessSql_def workspaceProjectReadAccessSql_def
        project_member_sql_def)
  with assms show ?thesis by (simp add: contentScopeSql_def split: option.splits)
qed

lemma viewer_written:
  assumes "cn_space_id row' = cn_space_id row" "cn_project_id row' = cn_project_id row"
    "cn_workspace_id row' = cn_workspace_id row"
  shows "viewer_of (write_policy def sp u ty rid update gs now db) def' row' sp' v =
         viewer_of db def' row sp' v"
proof -
  let ?db = "write_policy def sp u ty rid update gs now db"
  have "contentScopeSql ?db def' row' v = contentScopeSql db def' row v"
    by (rule scope_depends) (simp_all add: assms)
  moreover have "active_member_sql ?db sp' v = active_member_sql db sp' v"
    "resolveOversightLevel ?db sp' v = resolveOversightLevel db sp' v"
    unfolding active_member_sql_def resolveOversightLevel_def write_policy_same by (rule refl)+
  ultimately show ?thesis by (simp add: viewer_of_def)
qed

text \<open>The grants an update asks for, as the decision reads them.\<close>

definition requested_grants :: "access_update \<Rightarrow> (string \<times> string) list \<Rightarrow> content_grant list" where
  "requested_grants update gs =
     (if au_visibility update = ''private'' then []
      else map (\<lambda>(v, l). \<lparr>cg_grantee_user_id = v, cg_access_level = l, cg_revoked_at = None\<rparr>) gs)"

lemma requested_level:
  assumes "list_all (\<lambda>(v, l). isContentAccessLevel l) gs"
  shows "map_option cg_access_level (List.find (grant_applies v) (requested_grants update gs)) =
    (if au_visibility update = ''private'' then None else map_of gs v)"
  using assms by (induction gs) (auto simp: requested_grants_def grant_applies_def not_revoked_def)

lemma written_decision:
  assumes ok: "access_db_ok db" and now: "now \<noteq> []" and d: "contentResourceDefinition ty = Some def"
    and r: "load_content db def sp rid = Some row"
    and vis: "isContentVisibility (au_visibility update)"
    and lev: "isContentAccessLevel (au_access_level update)"
    and gs: "list_all (\<lambda>(v, l). isContentAccessLevel l) gs" "distinct (map fst gs)"
  shows "contentDecisionFromDb (write_policy def sp u ty rid update gs now db) sp v ty rid =
    decideContentAccess (resource_of (update_row update now row)) (viewer_of db def row sp v)
      (requested_grants update gs)"
proof -
  let ?db = "write_policy def sp u ty rid update gs now db"
  let ?row = "update_row update now row"
  have ok': "access_db_ok ?db" by (rule write_policy_ok [OF ok now vis lev gs(1)])
  have "load_content ?db def sp rid = Some ?row" by (simp add: load_written r)
  then have "contentDecisionFromDb ?db sp v ty rid =
      decideContentAccess (resource_of ?row) (viewer_of ?db def ?row sp v) (grants_on ?db sp ty rid)"
    by (simp add: contentDecision_agrees [OF ok'] d)
  also have "viewer_of ?db def ?row sp v = viewer_of db def row sp v"
    by (rule viewer_written) simp_all
  also have "decideContentAccess (resource_of ?row) (viewer_of db def row sp v) (grants_on ?db sp ty rid) =
      decideContentAccess (resource_of ?row) (viewer_of db def row sp v) (requested_grants update gs)"
  proof (rule decide_by_level)
    have "grants_ok (db_grants ?db)" using ok' by (simp add: access_db_ok_def)
    then show "map_option cg_access_level (List.find (grant_applies (ax_userId (viewer_of db def row sp v)))
          (grants_on ?db sp ty rid)) =
        map_option cg_access_level (List.find (grant_applies (ax_userId (viewer_of db def row sp v)))
          (requested_grants update gs))"
      using vis by (auto simp: applied_level write_policy_levels [OF gs(2)] requested_level [OF gs(1)]
          viewer_of_def isContentVisibility_def CONTENT_VISIBILITIES_def)
  qed
  finally show ?thesis .
qed

lemma dedupe_levels:
  "list_all (\<lambda>(v, l). v \<noteq> [] \<and> isContentAccessLevel l) grants \<Longrightarrow>
     list_all (\<lambda>(v, l). isContentAccessLevel l) (dedupeGrants grants owner)"
  using dedupe_keys [of grants owner] by (fastforce simp: list_all_iff)

section \<open>Other resources\<close>

lemma other_grants_written:
  assumes "(sp', ty', rid') \<noteq> (sp, ty, rid)"
  shows "filter (grant_on sp' ty' rid') (db_grants (write_policy def sp u ty rid update gs now db)) =
         filter (grant_on sp' ty' rid') (db_grants db)"
proof -
  have revoked: "filter (grant_on sp' ty' rid') (revoke_grants sp ty rid u now rows) =
      filter (grant_on sp' ty' rid') rows" for rows
    unfolding revoke_grants_def
    by (rule filter_sql_update_other) (use assms in \<open>auto simp: grant_on_def\<close>)
  have "filter (grant_on sp' ty' rid')
      (insert_grants (map (\<lambda>(v, l). new_grant sp ty rid v u l now) gs) rows) =
    filter (grant_on sp' ty' rid') rows" for rows
    unfolding insert_grants_def
  proof (induction gs arbitrary: rows)
    case (Cons g gs)
    obtain v l where g: "g = (v, l)" by (cases g)
    have "filter (grant_on sp' ty' rid') (upsert grant_key grant_merge (new_grant sp ty rid v u l now) rows) =
        filter (grant_on sp' ty' rid') rows"
      by (rule grants.upsert_others) (use assms in \<open>auto simp: grant_on_def grant_key_def new_grant_def\<close>)
    with Cons.IH g show ?case by simp
  qed simp
  with revoked show ?thesis by (simp add: write_policy_def Let_def)
qed

lemma same_table_same_type:
  "contentResourceDefinition ty = Some def \<Longrightarrow> contentResourceDefinition ty' = Some def' \<Longrightarrow>
     cd_tableName def = cd_tableName def' \<Longrightarrow> ty = ty'"
proof -
  assume d: "contentResourceDefinition ty = Some def" "contentResourceDefinition ty' = Some def'"
    and tab: "cd_tableName def = cd_tableName def'"
  have "distinct (map cd_tableName CONTENT_RESOURCE_DEFINITIONS)" by code_simp
  moreover have "def \<in> set CONTENT_RESOURCE_DEFINITIONS" "def' \<in> set CONTENT_RESOURCE_DEFINITIONS"
    using d unfolding contentResourceDefinition_def by (blast dest: find_Some_in)+
  ultimately have "def = def'" using tab by (rule unique_key_eq)
  with d show ?thesis using contentResourceDefinition_type by metis
qed

lemma other_written:
  assumes ok: "access_db_ok db" "access_db_ok (write_policy def sp u ty rid update gs now db)"
    and d: "contentResourceDefinition ty = Some def" and other: "(sp', ty', rid') \<noteq> (sp, ty, rid)"
  shows "contentDecisionFromDb (write_policy def sp u ty rid update gs now db) sp' v ty' rid' =
         contentDecisionFromDb db sp' v ty' rid'"
proof (cases "contentResourceDefinition ty'")
  case None
  then show ?thesis by (simp add: contentDecisionFromDb_def)
next
  case (Some def')
  have "\<not> (cd_tableName def' = cd_tableName def \<and> sp' = sp \<and> rid' = rid)"
    using other same_table_same_type [OF d Some] by auto
  then have load: "load_content (write_policy def sp u ty rid update gs now db) def' sp' rid' =
      load_content db def' sp' rid'"
    by (auto simp: load_written option.map_ident)
  show ?thesis
    unfolding contentDecision_agrees [OF ok(1)] contentDecision_agrees [OF ok(2)] load Some
    by (cases "load_content db def' sp' rid'")
      (simp_all add: load grants_on_def other_grants_written [OF other] viewer_written)
qed

section \<open>Inheriting grants\<close>

lemma inherit_ok:
  assumes "access_db_ok db" and "inheritContentAccessGrants db sp sty sid tty tid now = Inr db'"
  shows "access_db_ok db'"
proof -
  let ?src = "filter (\<lambda>g. grant_on sp sty sid g \<and> gr_revoked_at g = None \<and>
      active_member_sql db (gr_space_id g) (gr_grantee_user_id g)) (db_grants db)"
  let ?new = "map (\<lambda>g. new_grant (gr_space_id g) tty tid (gr_grantee_user_id g)
      (gr_granted_by_user_id g) (gr_access_level g) now) ?src"
  have db': "db' = db\<lparr>db_grants := insert_grants ?new (db_grants db)\<rparr>"
    using assms(2) by (simp add: inheritContentAccessGrants_def split: if_splits)
  have "list_all grant_ok ?new"
    using assms(1) by (auto simp: access_db_ok_def grants_ok_def list_all_iff grant_ok_def new_grant_def)
  with assms(1) show ?thesis
    by (simp add: db' access_db_ok_def grants_ok_insert content_ok_def)
qed

text \<open>The target's grantees afterwards: those of the source who are active members, then its own.\<close>

lemma inherit_levels:
  assumes ok: "access_db_ok db" and "inheritContentAccessGrants db sp sty sid tty tid now = Inr db'"
  shows "active_level sp tty tid (db_grants db') v =
    (if active_member_sql db sp v \<and> active_level sp sty sid (db_grants db) v \<noteq> None
     then active_level sp sty sid (db_grants db) v else active_level sp tty tid (db_grants db) v)"
proof -
  let ?P = "\<lambda>g. grant_on sp sty sid g \<and> gr_revoked_at g = None \<and>
      active_member_sql db (gr_space_id g) (gr_grantee_user_id g)"
  let ?f = "\<lambda>g. new_grant (gr_space_id g) tty tid (gr_grantee_user_id g)
      (gr_granted_by_user_id g) (gr_access_level g) now"
  have db': "db_grants db' = insert_grants (map ?f (filter ?P (db_grants db))) (db_grants db)"
    using assms(2) by (auto simp: inheritContentAccessGrants_def split: if_splits)
  have "distinct (map grant_key (filter ?P (db_grants db)))"
    using ok by (simp add: access_db_ok_def grants_ok_def distinct_map_filter)
  then have keys: "distinct (map grant_key (map ?f (filter ?P (db_grants db))))"
    unfolding map_map
    by (rule distinct_map_weaken) (auto simp: grant_key_def grant_on_def new_grant_def)
  have active: "list_all (\<lambda>g. gr_revoked_at g = None) (map ?f (filter ?P (db_grants db)))"
    by (auto simp: list_all_iff new_grant_def)
  let ?F = "List.find (\<lambda>g. grant_key g = (sp, tty, tid, v)) (map ?f (filter ?P (db_grants db)))"
  have "map_option gr_access_level
      (List.find (\<lambda>g. grant_key g = (sp, tty, tid, v)) (map ?f (filter ?P gs))) =
    (if active_member_sql db sp v then active_level sp sty sid gs v else None)" for gs
    by (induction gs) (auto simp: active_level_def grant_key_def grant_on_def new_grant_def)
  from this [of "db_grants db"] active_level_insert [OF active keys, of sp tty tid "db_grants db" v]
  show ?thesis unfolding db' by (cases ?F) (auto split: if_splits)
qed

section \<open>Properties\<close>

text \<open>
  An access update that succeeds was asked for by someone who may manage the resource, and from
  then on every user's decision on it is the access rule applied to the requested visibility, level
  and grants: nothing of the old grants survives, and no grantee is lost or added.
\<close>

theorem update_takes_effect:
  assumes "access_db_ok db" and "now \<noteq> []"
    and "updatePolicy db sp u ty rid update now = Inr (out, db')"
  shows "\<exists>def row. contentResourceDefinition ty = Some def \<and> load_content db def sp rid = Some row \<and>
    canManage db sp u row \<and>
    contentDecisionFromDb db' sp v ty rid =
      decideContentAccess (resource_of (update_row update now row)) (viewer_of db def row sp v)
        (requested_grants update (dedupeGrants (au_grants update) (cn_owner_user_id row)))"
proof -
  from assms(3) obtain def row where d: "contentResourceDefinition ty = Some def"
    and r: "load_content db def sp rid = Some row" and m: "canManage db sp u row"
    and vis: "isContentVisibility (au_visibility update)"
    and lev: "isContentAccessLevel (au_access_level update)"
    and gs: "list_all (\<lambda>(v, l). v \<noteq> [] \<and> isContentAccessLevel l) (au_grants update)"
    and db': "db' = write_policy def sp u ty rid update
        (dedupeGrants (au_grants update) (cn_owner_user_id row)) now db"
    by (rule updatePolicy_InrD)
  from written_decision [OF assms(1,2) d r vis lev dedupe_levels [OF gs]]
  have "contentDecisionFromDb db' sp v ty rid =
      decideContentAccess (resource_of (update_row update now row)) (viewer_of db def row sp v)
        (requested_grants update (dedupeGrants (au_grants update) (cn_owner_user_id row)))"
    using dedupe_keys by (simp add: db')
  with d r m show ?thesis by blast
qed

definition sample_update :: access_update where
  "sample_update =
     \<lparr>au_visibility = ''space_shared'', au_access_level = ''summary'', au_grants = [(''u'', ''full'')]\<rparr>"

lemma sample_updated: "\<exists>out db'. updatePolicy sample_db ''s'' ''o'' ''memory'' ''m'' sample_update ''t2'' = Inr (out, db')"
proof -
  have "\<not> isl (updatePolicy sample_db ''s'' ''o'' ''memory'' ''m'' sample_update ''t2'')" by code_simp
  then show ?thesis by (cases "updatePolicy sample_db ''s'' ''o'' ''memory'' ''m'' sample_update ''t2''") auto
qed

theorem update_takes_effect_witness:
  "\<exists>def row db'. contentDecisionFromDb db' ''s'' ''u'' ''memory'' ''m'' =
     decideContentAccess (resource_of (update_row sample_update ''t2'' row))
       (viewer_of sample_db def row ''s'' ''u'')
       (requested_grants sample_update (dedupeGrants [(''u'', ''full'')] (cn_owner_user_id row)))"
proof -
  obtain out db' where u: "updatePolicy sample_db ''s'' ''o'' ''memory'' ''m'' sample_update ''t2'' = Inr (out, db')"
    using sample_updated by blast
  have "au_grants sample_update = [(''u'', ''full'')]" by (simp add: sample_update_def)
  with update_takes_effect [OF sample_db_ok _ u, of "''u''"] show ?thesis by auto
qed

text \<open>An access update changes no decision on any other resource.\<close>

theorem update_changes_nothing_else:
  assumes "access_db_ok db" and "now \<noteq> []"
    and "updatePolicy db sp u ty rid update now = Inr (out, db')"
    and "(sp', ty', rid') \<noteq> (sp, ty, rid)"
  shows "contentDecisionFromDb db' sp' v ty' rid' = contentDecisionFromDb db sp' v ty' rid'"
proof -
  from assms(3) obtain def row where d: "contentResourceDefinition ty = Some def"
    and "load_content db def sp rid = Some row" and "canManage db sp u row"
    and vis: "isContentVisibility (au_visibility update)"
    and lev: "isContentAccessLevel (au_access_level update)"
    and gs: "list_all (\<lambda>(v, l). v \<noteq> [] \<and> isContentAccessLevel l) (au_grants update)"
    and db': "db' = write_policy def sp u ty rid update
        (dedupeGrants (au_grants update) (cn_owner_user_id row)) now db"
    by (rule updatePolicy_InrD)
  from write_policy_ok [OF assms(1,2) vis lev dedupe_levels [OF gs]]
  show ?thesis unfolding db' by (rule other_written [OF assms(1) _ d assms(4)])
qed

theorem update_changes_nothing_else_witness:
  "\<exists>db'. contentDecisionFromDb db' ''s'' ''u'' ''task'' ''m'' =
         contentDecisionFromDb sample_db ''s'' ''u'' ''task'' ''m''"
proof -
  obtain out db' where u: "updatePolicy sample_db ''s'' ''o'' ''memory'' ''m'' sample_update ''t2'' = Inr (out, db')"
    using sample_updated by blast
  show ?thesis
    by (rule exI [of _ db'], rule update_changes_nothing_else [OF sample_db_ok _ u]) simp_all
qed

text \<open>
  Updating and inheriting access keep the constraints of the tables: unique keys, known
  visibilities, levels and modes.
\<close>

theorem access_tables_invariant:
  assumes "access_db_ok db" and "now \<noteq> []"
  shows "(case updatePolicy db sp u ty rid update now of
            Inl e \<Rightarrow> True | Inr (out, db') \<Rightarrow> access_db_ok db') \<and>
         (case inheritContentAccessGrants db sp sty sid tty tid now of
            Inl e \<Rightarrow> True | Inr db' \<Rightarrow> access_db_ok db')"
proof -
  have "access_db_ok db'" if "updatePolicy db sp u ty rid update now = Inr (out, db')" for out db'
    using that
  proof (rule updatePolicy_InrD)
    fix def row
    assume "isContentVisibility (au_visibility update)" "isContentAccessLevel (au_access_level update)"
      and gs: "list_all (\<lambda>(v, l). v \<noteq> [] \<and> isContentAccessLevel l) (au_grants update)"
      and "db' = write_policy def sp u ty rid update
        (dedupeGrants (au_grants update) (cn_owner_user_id row)) now db"
    then show ?thesis using write_policy_ok [OF assms _ _ dedupe_levels [OF gs]] by simp
  qed
  then show ?thesis using inherit_ok [OF assms(1)] by (auto split: sum.splits)
qed

theorem access_tables_invariant_witness:
  "case updatePolicy sample_db ''s'' ''o'' ''memory'' ''m'' sample_update ''t2'' of
     Inl e \<Rightarrow> True | Inr (out, db') \<Rightarrow> access_db_ok db'"
  using access_tables_invariant [OF sample_db_ok, of "''t2''"] by simp

end
