(* ===== verification/ApprovalGrants.thy ===== *)
theory ApprovalGrants
  imports AccessService SystemActions StableSort
begin

text \<open>
  Advance approvals, \<open>policy/actionApprovalGrantService.ts\<close>: an owner lets an agent's proposals of one
  action be applied without a review, within a scope, until a time and up to a number of uses. Times are
  milliseconds since the epoch; \<open>parse_date\<close> tells whether \<open>Date.parse\<close> reads a text and \<open>to_timestamp\<close>
  is the database's reading of it; \<open>to_number\<close> is \<open>Number(s)\<close> on texts.
\<close>

section \<open>The table\<close>

datatype grant_status = GrantActive | GrantRevoked | GrantExpired

record action_grant =
  ag_id :: string
  ag_space_id :: string
  ag_agent_id :: string
  ag_action_id :: string
  ag_project_id :: "string option"
  ag_resource_kind :: "string option"
  ag_resource_id :: "string option"
  ag_granted_by_user_id :: string
  ag_status :: grant_status
  ag_expires_at :: "int option"
  ag_max_uses :: "nat option"
  ag_use_count :: nat
  ag_last_used_at :: "int option"
  ag_created_at :: int
  ag_revoked_at :: "int option"

text \<open>
  The key of the partial unique index on active grants, and the check constraint.
\<close>

definition grant_scope :: "action_grant \<Rightarrow> string \<times> string \<times> string \<times> string \<times> string \<times> string" where
  "grant_scope g = (ag_space_id g, ag_agent_id g, ag_action_id g, or_value (ag_project_id g) [],
     or_value (ag_resource_kind g) [], or_value (ag_resource_id g) [])"

definition active_scope :: "action_grant list \<Rightarrow> action_grant \<Rightarrow> bool" where
  "active_scope gs new \<longleftrightarrow> list_ex (\<lambda>g. ag_status g = GrantActive \<and> grant_scope g = grant_scope new) gs"

definition use_count_check :: "action_grant \<Rightarrow> bool" where
  "use_count_check g \<longleftrightarrow> (case ag_max_uses g of None \<Rightarrow> True | Some m \<Rightarrow> 0 < m \<and> ag_use_count g \<le> m)"

section \<open>Reading a request\<close>

definition optionalString :: "jsval \<Rightarrow> string option" where
  "optionalString v = (case v of JStr s \<Rightarrow> if trim s = [] then None else Some (trim s) | _ \<Rightarrow> None)"

definition requiredString :: "jsval \<Rightarrow> string \<Rightarrow> http_error + string" where
  "requiredString v field = (case optionalString v of
     None \<Rightarrow> Inl (HttpError 422 (field @ '' is required'')) | Some s \<Rightarrow> Inr s)"

text \<open>\<open>Number(v)\<close>.\<close>

definition js_number :: "(string \<Rightarrow> jsval) \<Rightarrow> jsval \<Rightarrow> jsval" where
  "js_number to_number v = (case v of
     JNum q \<Rightarrow> JNum q
   | JInf b \<Rightarrow> JInf b
   | JNaN \<Rightarrow> JNaN
   | JUndef \<Rightarrow> JNaN
   | JNull \<Rightarrow> JNum 0
   | JBool b \<Rightarrow> JNum (if b then 1 else 0)
   | JStr s \<Rightarrow> to_number s
   | _ \<Rightarrow> to_number (to_string v))"

definition positive_integer :: "jsval \<Rightarrow> nat option" where
  "positive_integer v = (case num v of
     None \<Rightarrow> None
   | Some q \<Rightarrow> if of_int \<lfloor>q\<rfloor> = q \<and> 0 < q then Some (nat \<lfloor>q\<rfloor>) else None)"

text \<open>\<open>maxUses\<close>: absent or \<open>null\<close> means unlimited.\<close>

definition readMaxUses :: "(string \<Rightarrow> jsval) \<Rightarrow> jsval \<Rightarrow> http_error + nat option" where
  "readMaxUses to_number v =
     (if nullish v then Inr None
      else case positive_integer (js_number to_number v) of
        None \<Rightarrow> Inl (HttpError 422 ''max_uses must be a positive integer'')
      | Some n \<Rightarrow> Inr (Some n))"

definition readExpiresAt :: "(string \<Rightarrow> bool) \<Rightarrow> jsval \<Rightarrow> http_error + string option" where
  "readExpiresAt parse_date v = (case optionalString v of
     None \<Rightarrow> Inr None
   | Some s \<Rightarrow> if parse_date s then Inr (Some s)
               else Inl (HttpError 422 ''expires_at must be an ISO datetime''))"

definition requireGrantable :: "string \<Rightarrow> http_error + unit" where
  "requireGrantable actionId = (case find_action actionId of
     None \<Rightarrow> Inl (HttpError 422 ''Unknown system action'')
   | Some d \<Rightarrow> if sa_grantable d then Inr ()
               else Inl (HttpError 422 ''This action cannot be pre-authorized''))"

definition assertOwner :: "access_db \<Rightarrow> string \<Rightarrow> string \<Rightarrow> http_error + unit" where
  "assertOwner db sp u =
     (if list_ex (\<lambda>m. active_member sp u m \<and> mb_role m = ''owner'') (db_memberships db) then Inr ()
      else Inl (HttpError 403 ''Space owner access required''))"

text \<open>\<open>agents\<close>: the ids of the agents and their spaces.\<close>

definition assertScopedResource :: "access_db \<Rightarrow> (string \<times> string) list \<Rightarrow> string \<Rightarrow> string \<Rightarrow> string option \<Rightarrow>
    http_error + unit" where
  "assertScopedResource db agents sp agentId projectId =
     (if (agentId, sp) \<notin> set agents then Inl (HttpError 404 ''Agent not found'')
      else case projectId of
        None \<Rightarrow> Inr ()
      | Some p \<Rightarrow>
          if list_ex (\<lambda>r. pj_id r = p \<and> pj_space_id r = sp \<and> pj_deleted_at r = None) (db_projects db) then Inr ()
          else Inl (HttpError 404 ''Project not found''))"

section \<open>Creating and revoking\<close>

definition spent :: "int \<Rightarrow> action_grant \<Rightarrow> bool" where
  "spent now g \<longleftrightarrow>
     (case ag_expires_at g of None \<Rightarrow> False | Some t \<Rightarrow> t \<le> now) \<or>
     (case ag_max_uses g of None \<Rightarrow> False | Some m \<Rightarrow> m \<le> ag_use_count g)"

text \<open>The scope is that of the grant about to be inserted.\<close>

definition expireStaleGrant :: "action_grant \<Rightarrow> int \<Rightarrow> action_grant list \<Rightarrow> action_grant list" where
  "expireStaleGrant new now =
     sql_update (\<lambda>g. grant_scope g = grant_scope new \<and> ag_status g = GrantActive \<and> spent now g)
       (\<lambda>g. g\<lparr>ag_status := GrantExpired\<rparr>)"

definition max_int4 :: nat where
  "max_int4 = 2147483647"

text \<open>
  The statement: the column types, then the unique index. \<open>expires\<close> is the converted time stamp.
\<close>

definition insert_grant :: "action_grant \<Rightarrow> action_grant list \<Rightarrow> http_error + action_grant list" where
  "insert_grant new gs =
     (if (case ag_max_uses new of None \<Rightarrow> False | Some m \<Rightarrow> max_int4 < m)
      then Inl (PlainError ''integer out of range'')
      else if active_scope gs new
      then Inl (HttpError 409 ''An active grant already exists for this agent, action, and scope'')
      else Inr (gs @ [new]))"

record grant_env =
  gv_access :: access_db
  gv_agents :: "(string \<times> string) list"
  gv_to_number :: "string \<Rightarrow> jsval"
  gv_parse_date :: "string \<Rightarrow> bool"
  gv_to_timestamp :: "string \<Rightarrow> int option"

record grant_request =
  gq_agent_id :: string
  gq_action_id :: string
  gq_project_id :: "string option"
  gq_resource_kind :: "string option"
  gq_resource_id :: "string option"
  gq_max_uses :: "nat option"
  gq_expires_at :: "string option"

definition readGrantRequest :: "grant_env \<Rightarrow> string \<Rightarrow> string \<Rightarrow> jsobj \<Rightarrow> http_error + grant_request" where
  "readGrantRequest env sp u body =
     bind_sum (assertOwner (gv_access env) sp u) (\<lambda>_.
     bind_sum (requiredString (get body ''agent_id'') ''agent_id'') (\<lambda>agentId.
     bind_sum (requiredString (get body ''action_id'') ''action_id'') (\<lambda>actionId.
     bind_sum (requireGrantable actionId) (\<lambda>_.
     let projectId = optionalString (get body ''project_id'') in
     bind_sum (assertScopedResource (gv_access env) (gv_agents env) sp agentId projectId) (\<lambda>_.
     bind_sum (readMaxUses (gv_to_number env) (get body ''max_uses'')) (\<lambda>maxUses.
     bind_sum (readExpiresAt (gv_parse_date env) (get body ''expires_at'')) (\<lambda>expiresAt.
     Inr \<lparr>gq_agent_id = agentId, gq_action_id = actionId, gq_project_id = projectId,
           gq_resource_kind = optionalString (get body ''resource_kind''),
           gq_resource_id = optionalString (get body ''resource_id''),
           gq_max_uses = maxUses, gq_expires_at = expiresAt\<rparr>)))))))"

definition new_action_grant :: "grant_request \<Rightarrow> string \<Rightarrow> string \<Rightarrow> string \<Rightarrow> int \<Rightarrow> int option \<Rightarrow> action_grant" where
  "new_action_grant q i sp u now expires =
     \<lparr>ag_id = i, ag_space_id = sp, ag_agent_id = gq_agent_id q, ag_action_id = gq_action_id q,
      ag_project_id = gq_project_id q, ag_resource_kind = gq_resource_kind q,
      ag_resource_id = gq_resource_id q, ag_granted_by_user_id = u, ag_status = GrantActive,
      ag_expires_at = expires, ag_max_uses = gq_max_uses q, ag_use_count = 0, ag_last_used_at = None,
      ag_created_at = now, ag_revoked_at = None\<rparr>"

text \<open>
  The two statements are not in a transaction: a grant expired by the first stays expired when the
  second fails.
\<close>

definition create_grant :: "grant_env \<Rightarrow> string \<Rightarrow> string \<Rightarrow> jsobj \<Rightarrow> string \<Rightarrow> int \<Rightarrow> action_grant list \<Rightarrow>
    (http_error + action_grant) \<times> action_grant list" where
  "create_grant env sp u body i now gs =
     (case readGrantRequest env sp u body of
        Inl e \<Rightarrow> (Inl e, gs)
      | Inr q \<Rightarrow>
          let gs' = expireStaleGrant (new_action_grant q i sp u now None) now gs
          in case (case gq_expires_at q of
                     None \<Rightarrow> Inr None
                   | Some s \<Rightarrow> (case gv_to_timestamp env s of
                         None \<Rightarrow> Inl (PlainError ''invalid input syntax for type timestamp'')
                       | Some t \<Rightarrow> Inr (Some t))) of
               Inl e \<Rightarrow> (Inl e, gs')
             | Inr expires \<Rightarrow>
                 let new = new_action_grant q i sp u now expires
                 in case insert_grant new gs' of Inl e \<Rightarrow> (Inl e, gs') | Inr gs'' \<Rightarrow> (Inr new, gs''))"

definition revoke_grant :: "access_db \<Rightarrow> string \<Rightarrow> string \<Rightarrow> string \<Rightarrow> int \<Rightarrow> action_grant list \<Rightarrow>
    (http_error + action_grant) \<times> action_grant list" where
  "revoke_grant db sp u grantId now gs =
     (case assertOwner db sp u of
        Inl e \<Rightarrow> (Inl e, gs)
      | Inr _ \<Rightarrow>
          let P = (\<lambda>g. ag_id g = grantId \<and> ag_space_id g = sp \<and> ag_status g = GrantActive);
              f = (\<lambda>g. g\<lparr>ag_status := GrantRevoked, ag_revoked_at := Some now\<rparr>)
          in case sql_returning P f gs of
               [] \<Rightarrow> (Inl (HttpError 404 ''Action approval grant not found''), sql_update P f gs)
             | g # _ \<Rightarrow> (Inr g, sql_update P f gs))"

section \<open>Consuming\<close>

record grant_use =
  gu_space_id :: string
  gu_agent_id :: string
  gu_action_id :: string
  gu_project_id :: "string option"
  gu_resource_kind :: "string option"
  gu_resource_id :: "string option"

text \<open>\<open>column IS NULL OR column = $n\<close>: comparing with \<open>NULL\<close> is not true.\<close>

definition admits :: "string option \<Rightarrow> string option \<Rightarrow> bool" where
  "admits column v \<longleftrightarrow> column = None \<or> column = v"

definition covers :: "grant_use \<Rightarrow> action_grant \<Rightarrow> bool" where
  "covers a g \<longleftrightarrow>
     ag_space_id g = gu_space_id a \<and> ag_agent_id g = gu_agent_id a \<and> ag_action_id g = gu_action_id a \<and>
     admits (ag_project_id g) (gu_project_id a) \<and> admits (ag_resource_kind g) (gu_resource_kind a) \<and>
     admits (ag_resource_id g) (gu_resource_id a)"

definition usable :: "int \<Rightarrow> action_grant \<Rightarrow> bool" where
  "usable now g \<longleftrightarrow>
     ag_status g = GrantActive \<and>
     (case ag_expires_at g of None \<Rightarrow> True | Some t \<Rightarrow> now < t) \<and>
     (case ag_max_uses g of None \<Rightarrow> True | Some m \<Rightarrow> ag_use_count g < m)"

definition specificity :: "action_grant \<Rightarrow> int" where
  "specificity g =
     (if ag_resource_id g \<noteq> None then 1 else 0) + (if ag_resource_kind g \<noteq> None then 1 else 0) +
     (if ag_project_id g \<noteq> None then 1 else 0)"

text \<open>\<open>ORDER BY specificity DESC, created_at ASC\<close>.\<close>

definition grant_order :: "action_grant \<Rightarrow> action_grant \<Rightarrow> int" where
  "grant_order a b =
     (if specificity a \<noteq> specificity b then specificity b - specificity a
      else ag_created_at a - ag_created_at b)"

definition use_once :: "int \<Rightarrow> action_grant \<Rightarrow> action_grant" where
  "use_once now g = g\<lparr>ag_use_count := ag_use_count g + 1, ag_last_used_at := Some now\<rparr>"

text \<open>\<open>locked\<close>: the ids other transactions hold, which \<open>SKIP LOCKED\<close> passes over.\<close>

definition matching_grants :: "string set \<Rightarrow> grant_use \<Rightarrow> int \<Rightarrow> action_grant list \<Rightarrow> action_grant list" where
  "matching_grants locked a now gs =
     sort_by grant_order (filter (\<lambda>g. usable now g \<and> covers a g \<and> ag_id g \<notin> locked) gs)"

definition consumeMatching :: "string set \<Rightarrow> grant_use \<Rightarrow> int \<Rightarrow> action_grant list \<Rightarrow>
    action_grant option \<times> action_grant list" where
  "consumeMatching locked a now gs =
     (case find_action (gu_action_id a) of
        None \<Rightarrow> (None, gs)
      | Some d \<Rightarrow>
          if \<not> sa_grantable d then (None, gs)
          else case matching_grants locked a now gs of
            [] \<Rightarrow> (None, gs)
          | g # _ \<Rightarrow> (Some (use_once now g), sql_update (\<lambda>h. ag_id h = ag_id g) (use_once now) gs))"

section \<open>The chosen grant\<close>

interpretation grants_by_rank: comparator grant_order
  by unfold_locales (auto simp: grant_order_def split: if_splits)

lemma usable_iff: "usable now g \<longleftrightarrow> ag_status g = GrantActive \<and> \<not> spent now g"
  by (auto simp: usable_def spent_def split: option.splits)

lemma use_once_simps [simp]:
  "ag_id (use_once now g) = ag_id g"
  "ag_status (use_once now g) = ag_status g"
  "ag_max_uses (use_once now g) = ag_max_uses g"
  "ag_use_count (use_once now g) = ag_use_count g + 1"
  "ag_granted_by_user_id (use_once now g) = ag_granted_by_user_id g"
  "grant_scope (use_once now g) = grant_scope g"
  by (simp_all add: use_once_def grant_scope_def)

lemma usable_check: "usable now g \<Longrightarrow> use_count_check g \<Longrightarrow> use_count_check (use_once now g)"
  by (auto simp: usable_def use_count_check_def split: option.splits)

definition best_grant :: "string set \<Rightarrow> grant_use \<Rightarrow> int \<Rightarrow> action_grant list \<Rightarrow> action_grant \<Rightarrow> bool" where
  "best_grant locked a now gs g \<longleftrightarrow>
     g \<in> set gs \<and> usable now g \<and> covers a g \<and> ag_id g \<notin> locked \<and>
     (\<forall>h \<in> set gs. usable now h \<and> covers a h \<and> ag_id h \<notin> locked \<longrightarrow>
        specificity h < specificity g \<or> specificity h = specificity g \<and> ag_created_at g \<le> ag_created_at h)"

lemma matching_first: "matching_grants locked a now gs = g # rest \<Longrightarrow> best_grant locked a now gs g"
proof -
  let ?el = "filter (\<lambda>g. usable now g \<and> covers a g \<and> ag_id g \<notin> locked) gs"
  assume m: "matching_grants locked a now gs = g # rest"
  then have sorted: "sort_by grant_order ?el = g # rest" by (simp add: matching_grants_def)
  then have els: "set ?el = set (g # rest)" by (metis set_sort_by)
  have le: "grant_order g h \<le> 0" if "h \<in> set rest" for h
    using grants_by_rank.sorted_sort [of ?el] that by (simp add: sorted)
  have "grant_order g h \<le> 0" if "h \<in> set ?el" for h
  proof (cases "h = g")
    case True
    then show ?thesis by (simp add: grant_order_def)
  next
    case False
    then show ?thesis using that le unfolding els by simp
  qed
  then have "specificity h < specificity g \<or> specificity h = specificity g \<and> ag_created_at g \<le> ag_created_at h"
    if "h \<in> set ?el" for h
    using that by (force simp: grant_order_def split: if_splits)
  moreover have "g \<in> set ?el" unfolding els by simp
  ultimately show ?thesis by (simp add: best_grant_def)
qed

lemma no_matching_grant:
  "matching_grants locked a now gs = [] \<longleftrightarrow> (\<forall>g \<in> set gs. \<not> (usable now g \<and> covers a g \<and> ag_id g \<notin> locked))"
proof -
  have "matching_grants locked a now gs = [] \<longleftrightarrow> set (matching_grants locked a now gs) = {}" by simp
  then show ?thesis unfolding matching_grants_def by (auto simp: filter_empty_conv)
qed

definition grantable_action :: "string \<Rightarrow> bool" where
  "grantable_action i \<longleftrightarrow> (case find_action i of None \<Rightarrow> False | Some d \<Rightarrow> sa_grantable d)"

lemma consume_cases:
  "(if grantable_action (gu_action_id a) \<and> matching_grants locked a now gs \<noteq> [] then
      \<exists>g. best_grant locked a now gs g \<and> consumeMatching locked a now gs =
        (Some (use_once now g), sql_update (\<lambda>h. ag_id h = ag_id g) (use_once now) gs)
    else consumeMatching locked a now gs = (None, gs))"
  using matching_first [of locked a now gs]
  by (auto simp: consumeMatching_def grantable_action_def split: option.splits list.splits)

lemma consume_some:
  assumes "consumeMatching locked a now gs = (Some g', gs')"
  obtains g where "best_grant locked a now gs g" and "g' = use_once now g"
    and "gs' = sql_update (\<lambda>h. ag_id h = ag_id g) (use_once now) gs" and "grantable_action (gu_action_id a)"
proof (cases "grantable_action (gu_action_id a) \<and> matching_grants locked a now gs \<noteq> []")
  case True
  then obtain g where "best_grant locked a now gs g" "consumeMatching locked a now gs =
      (Some (use_once now g), sql_update (\<lambda>h. ag_id h = ag_id g) (use_once now) gs)"
    using consume_cases [of a locked now gs] by (metis (no_types, lifting))
  with assms True that show ?thesis by simp
next
  case False
  then have "consumeMatching locked a now gs = (None, gs)"
    using consume_cases [of a locked now gs] by (simp only: if_False)
  with assms show ?thesis by simp
qed

section \<open>The table's invariant\<close>

definition active_only :: "action_grant list \<Rightarrow> action_grant list" where
  "active_only gs = filter (\<lambda>g. ag_status g = GrantActive) gs"

text \<open>Ids are unique, a scope has one active grant at most, and no grant is used more often than it may.\<close>

definition grant_table_ok :: "action_grant list \<Rightarrow> bool" where
  "grant_table_ok gs \<longleftrightarrow>
     distinct (map ag_id gs) \<and> distinct (map grant_scope (active_only gs)) \<and> list_all use_count_check gs"

lemma active_deactivate:
  assumes "\<And>g. ag_status (f g) \<noteq> GrantActive"
  shows "active_only (sql_update P f gs) = filter (\<lambda>g. \<not> P g) (active_only gs)"
  using assms by (induction gs) (auto simp: active_only_def sql_update_def)

lemma distinct_map_filter_sub: "distinct (map f xs) \<Longrightarrow> distinct (map f (filter P xs))"
  by (induction xs) auto

lemma active_keep:
  assumes "\<And>g. ag_status (f g) = ag_status g" and "\<And>g. grant_scope (f g) = grant_scope g"
  shows "map grant_scope (active_only (sql_update P f gs)) = map grant_scope (active_only gs)"
  using assms by (induction gs) (auto simp: active_only_def sql_update_def)

lemma table_deactivate:
  assumes "grant_table_ok gs" and "\<And>g. ag_status (f g) \<noteq> GrantActive" and "\<And>g. ag_id (f g) = ag_id g"
    and "\<And>g. use_count_check g \<Longrightarrow> use_count_check (f g)"
  shows "grant_table_ok (sql_update P f gs)"
  using assms
  by (auto simp: grant_table_ok_def active_deactivate map_sql_update distinct_map_filter_sub list_all_iff in_sql_update)

lemma table_expire: "grant_table_ok gs \<Longrightarrow> grant_table_ok (expireStaleGrant new now gs)"
  unfolding expireStaleGrant_def by (rule table_deactivate) (auto simp: use_count_check_def split: option.splits)

lemma table_revoke:
  assumes "revoke_grant db sp u i now gs = (r, gs')" and "grant_table_ok gs"
  shows "grant_table_ok gs'"
proof -
  have "gs' = gs \<or> gs' = sql_update (\<lambda>g. ag_id g = i \<and> ag_space_id g = sp \<and> ag_status g = GrantActive)
      (\<lambda>g. g\<lparr>ag_status := GrantRevoked, ag_revoked_at := Some now\<rparr>) gs"
    using assms(1) by (auto simp: revoke_grant_def Let_def split: sum.splits list.splits)
  then show ?thesis using assms(2) by (auto intro!: table_deactivate simp: use_count_check_def split: option.splits)
qed

lemma table_insert:
  assumes "insert_grant new gs = Inr gs'" and "grant_table_ok gs" and "ag_id new \<notin> ag_id ` set gs"
    and "use_count_check new"
  shows "grant_table_ok gs'"
proof -
  have gs': "gs' = gs @ [new]" and "\<not> active_scope gs new"
    using assms(1) by (auto simp: insert_grant_def split: if_splits)
  then have "grant_scope new \<notin> grant_scope ` set (active_only gs)"
    by (force simp: active_scope_def active_only_def list_ex_iff)
  with assms gs' show ?thesis by (auto simp: grant_table_ok_def active_only_def)
qed

lemma table_used:
  assumes best: "best_grant locked a now gs g" and ok: "grant_table_ok gs"
  shows "grant_table_ok (sql_update (\<lambda>h. ag_id h = ag_id g) (use_once now) gs)"
proof -
  have "use_count_check (if ag_id h = ag_id g then use_once now h else h)" if "h \<in> set gs" for h
  proof (cases "ag_id h = ag_id g")
    case True
    then have "h = g"
      using ok best that by (auto simp: grant_table_ok_def best_grant_def distinct_map inj_on_def)
    then show ?thesis using best ok that usable_check by (auto simp: best_grant_def grant_table_ok_def list_all_iff)
  qed (use ok that in \<open>auto simp: grant_table_ok_def list_all_iff\<close>)
  then show ?thesis
    using ok by (auto simp: grant_table_ok_def map_sql_update active_keep list_all_iff in_sql_update)
qed

section \<open>What a request leaves\<close>

text \<open>No row disappears; a row with an old id keeps its count, a new one has not been used.\<close>

definition counts_kept :: "action_grant list \<Rightarrow> action_grant list \<Rightarrow> bool" where
  "counts_kept gs gs' \<longleftrightarrow>
     ag_id ` set gs \<subseteq> ag_id ` set gs' \<and>
     (\<forall>g \<in> set gs'. (\<exists>h \<in> set gs. ag_id h = ag_id g \<and> ag_use_count h = ag_use_count g) \<or>
        ag_id g \<notin> ag_id ` set gs \<and> ag_use_count g = 0)"

lemma counts_kept_refl [simp]: "counts_kept gs gs"
  by (auto simp: counts_kept_def)

lemma counts_kept_update:
  assumes "\<And>g. ag_id (f g) = ag_id g" and "\<And>g. ag_use_count (f g) = ag_use_count g"
  shows "counts_kept gs (sql_update P f gs)"
proof -
  have "map ag_id (sql_update P f gs) = map ag_id gs" by (rule map_sql_update) (rule assms(1))
  then have "ag_id ` set (sql_update P f gs) = ag_id ` set gs" by (metis list.set_map)
  moreover have "\<exists>h \<in> set gs. ag_id h = ag_id g \<and> ag_use_count h = ag_use_count g" if "g \<in> set (sql_update P f gs)" for g
    using that assms unfolding in_sql_update by force
  ultimately show ?thesis by (simp add: counts_kept_def)
qed

lemma counts_kept_insert:
  assumes "counts_kept gs gs'" and "ag_id new \<notin> ag_id ` set gs" and "ag_use_count new = 0"
  shows "counts_kept gs (gs' @ [new])"
  using assms by (auto simp: counts_kept_def)

lemma requested_uses: "readGrantRequest env sp u body = Inr q \<Longrightarrow> gq_max_uses q \<noteq> Some 0"
  by (auto simp: readGrantRequest_def bind_sum_def Let_def readMaxUses_def positive_integer_def
      split: sum.splits option.splits if_splits)

lemma create_grant_cases:
  assumes "create_grant env sp u body i now gs = (r, gs')"
  obtains (refused) "gs' = gs"
    | (expired) new where "gs' = expireStaleGrant new now gs"
    | (created) new stale where "insert_grant new (expireStaleGrant stale now gs) = Inr gs'" and "ag_id new = i"
      and "ag_use_count new = 0" and "ag_max_uses new \<noteq> Some 0"
proof (cases "readGrantRequest env sp u body")
  case (Inl e)
  then show ?thesis using assms by (intro refused) (simp add: create_grant_def)
next
  case (Inr q)
  let ?gs = "expireStaleGrant (new_action_grant q i sp u now None) now gs"
  show ?thesis
  proof (cases "gs' = ?gs")
    case False
    then obtain expires where "insert_grant (new_action_grant q i sp u now expires) ?gs = Inr gs'"
      using assms by (auto simp: create_grant_def Inr Let_def split: option.splits sum.splits)
    then show ?thesis
      using created [of "new_action_grant q i sp u now expires"] requested_uses [OF Inr]
      by (simp add: new_action_grant_def)
  qed (rule expired)
qed

lemma create_grant_ok:
  assumes "create_grant env sp u body i now gs = (r, gs')" and "grant_table_ok gs" and fresh: "i \<notin> ag_id ` set gs"
  shows "grant_table_ok gs' \<and> counts_kept gs gs'"
  using assms(1)
proof (cases rule: create_grant_cases)
  case (expired new)
  then show ?thesis
    using table_expire [OF assms(2)] by (simp add: expireStaleGrant_def counts_kept_update)
next
  case (created new stale)
  let ?gs = "expireStaleGrant stale now gs"
  have kept: "counts_kept gs ?gs" by (simp add: expireStaleGrant_def counts_kept_update)
  have "map ag_id ?gs = map ag_id gs" unfolding expireStaleGrant_def by (rule map_sql_update) simp
  then have ids: "ag_id ` set ?gs = ag_id ` set gs" by (metis list.set_map)
  have gs': "gs' = ?gs @ [new]" using created(1) by (auto simp: insert_grant_def split: if_splits)
  have "use_count_check new" using created by (auto simp: use_count_check_def split: option.splits)
  then show ?thesis
    using table_insert [OF created(1) table_expire [OF assms(2)]] fresh created(2,3) ids
      counts_kept_insert [OF kept] gs' by simp
qed (use assms(2) in simp)

lemma revoke_grant_ok:
  assumes "revoke_grant db sp u i now gs = (r, gs')" and "grant_table_ok gs"
  shows "grant_table_ok gs' \<and> counts_kept gs gs'"
proof -
  have "gs' = gs \<or> gs' = sql_update (\<lambda>g. ag_id g = i \<and> ag_space_id g = sp \<and> ag_status g = GrantActive)
      (\<lambda>g. g\<lparr>ag_status := GrantRevoked, ag_revoked_at := Some now\<rparr>) gs"
    using assms(1) by (auto simp: revoke_grant_def Let_def split: sum.splits list.splits)
  then show ?thesis using table_revoke [OF assms] by (auto simp: counts_kept_update)
qed

end
