(* ===== verification/ProposalTables.thy ===== *)
theory ProposalTables
  imports ApprovalGrants
begin

text \<open>
  The rows a decision on a proposal reads and writes: \<open>proposals\<close> and \<open>proposal_approvals\<close>
  (\<open>db/schema/proposals.ts\<close>), the grants, the evolution bundles, and the source tables a rejection
  releases. The columns of \<open>proposals\<close> that access control reads are in the content table of \<open>AccessSql\<close>.
  Times are milliseconds since the epoch.
\<close>

section \<open>Rows\<close>

text \<open>What an applier is given, and the row.\<close>

record apply_proposal =
  prop_id :: string
  prop_space_id :: string
  prop_proposal_type :: string
  prop_title :: "string option"
  prop_payload_json :: "jsobj option"
  prop_workspace_id :: "string option"
  prop_visibility :: "string option"
  prop_created_by_user_id :: "string option"
  prop_created_by_run_id :: "string option"
  prop_project_id :: "string option"

record proposal_row = apply_proposal +
  prop_status :: string
  prop_risk_level :: "string option"
  prop_preview :: bool
  prop_created_by_agent_id :: "string option"
  prop_required_approver_role :: "string option"
  prop_reviewed_at :: "int option"
  prop_reviewed_by :: "string option"
  prop_updated_at :: int

record approval_row =
  pa_id :: string
  pa_proposal_id :: string
  pa_approval_type :: string
  pa_approver_user_id :: string
  pa_grant_id :: "string option"
  pa_action_grant_id :: "string option"
  pa_target_space_id :: "string option"
  pa_status :: string
  pa_metadata_json :: jsval
  pa_created_at :: int
  pa_revoked_at :: "int option"

text \<open>A row of \<open>personal_memory_grants\<close>, as the egress approval reads it.\<close>

record memory_grant =
  mg_id :: string
  mg_granting_user_id :: string
  mg_target_space_id :: string
  mg_target_run_id :: string
  mg_status :: string
  mg_egress_review_expires_at :: "int option"

record bundle_member =
  bm_bundle_id :: string
  bm_proposal_id :: string
  bm_status :: string

record source_channel =
  sc_id :: string
  sc_space_id :: string
  sc_source_connection_id :: string
  sc_status :: string
  sc_updated_at :: int

record source_connection =
  sn_id :: string
  sn_space_id :: string
  sn_status :: string
  sn_deleted_at :: "int option"
  sn_updated_at :: int

record backfill_plan =
  bp_id :: string
  bp_space_id :: string
  bp_proposal_id :: "string option"
  bp_status :: string
  bp_updated_at :: int

text \<open>A row of \<open>source_handler_versions\<close> or of \<open>source_recipe_versions\<close>.\<close>

record source_version =
  sv_id :: string
  sv_space_id :: string
  sv_proposal_id :: "string option"
  sv_status :: string

record source_tables =
  so_channels :: "source_channel list"
  so_connections :: "source_connection list"
  so_backfill_plans :: "backfill_plan list"
  so_handler_versions :: "source_version list"
  so_recipe_versions :: "source_version list"

text \<open>
  The database: \<open>tb_runs\<close> holds each run's \<open>personal_grant_context_json->>'grant_id'\<close>, \<open>tb_bundles\<close> the
  status of each evolution bundle, and \<open>tb_rest\<close> the tables of the appliers.
\<close>

record 'd tables =
  tb_access :: access_db
  tb_proposals :: "proposal_row list"
  tb_approvals :: "approval_row list"
  tb_grants :: "action_grant list"
  tb_memory_grants :: "memory_grant list"
  tb_runs :: "(string \<times> string option) list"
  tb_bundles :: "(string \<times> string) list"
  tb_bundle_members :: "bundle_member list"
  tb_sources :: source_tables
  tb_rest :: 'd

section \<open>Statements\<close>

definition getProposalForUpdate :: "string \<Rightarrow> 'd tables \<Rightarrow> proposal_row option" where
  "getProposalForUpdate i t = List.find (\<lambda>p. prop_id p = i) (tb_proposals t)"

definition pending_row :: "string \<Rightarrow> string \<Rightarrow> proposal_row \<Rightarrow> bool" where
  "pending_row i sp p \<longleftrightarrow> prop_id p = i \<and> prop_space_id p = sp \<and> prop_status p = ''pending''"

definition or_first :: "'a option \<Rightarrow> 'a \<Rightarrow> 'a option" where
  "or_first old new = (case old of None \<Rightarrow> Some new | Some x \<Rightarrow> Some x)"

definition final_row :: "int \<Rightarrow> string \<Rightarrow> string \<Rightarrow> jsobj option \<Rightarrow> proposal_row \<Rightarrow> proposal_row" where
  "final_row now user status patch p =
     p\<lparr>prop_status := status, prop_reviewed_at := or_first (prop_reviewed_at p) now,
       prop_reviewed_by := or_first (prop_reviewed_by p) user,
       prop_payload_json := (case patch of None \<Rightarrow> prop_payload_json p | Some ob \<Rightarrow> Some ob),
       prop_updated_at := now\<rparr>"

definition markProposalFinal :: "proposal_row \<Rightarrow> int \<Rightarrow> string \<Rightarrow> string \<Rightarrow> jsobj option \<Rightarrow> 'd tables \<Rightarrow> 'd tables" where
  "markProposalFinal p now user status patch t =
     t\<lparr>tb_proposals := sql_update (pending_row (prop_id p) (prop_space_id p)) (final_row now user status patch)
         (tb_proposals t)\<rparr>"

definition rejected_row :: "int \<Rightarrow> string \<Rightarrow> proposal_row \<Rightarrow> proposal_row" where
  "rejected_row now user p =
     p\<lparr>prop_status := ''rejected'', prop_reviewed_at := Some now, prop_reviewed_by := Some user, prop_updated_at := now\<rparr>"

text \<open>\<open>stringValue\<close> here is a non-empty string. \<open>column->>key\<close> on a payload: an array or object never equals an id.\<close>

definition payloadString :: "jsval \<Rightarrow> string option" where
  "payloadString v = (case v of JStr s \<Rightarrow> if s = [] then None else Some s | _ \<Rightarrow> None)"

definition payload_of :: "('a) apply_proposal_scheme \<Rightarrow> jsobj" where
  "payload_of p = (case prop_payload_json p of None \<Rightarrow> [] | Some ob \<Rightarrow> ob)"

definition scalar_text :: "jsval \<Rightarrow> string option" where
  "scalar_text v = (case v of
     JStr s \<Rightarrow> Some s | JNum _ \<Rightarrow> Some (to_string v) | JBool _ \<Rightarrow> Some (to_string v) | _ \<Rightarrow> None)"

definition depends_on :: "proposal_row \<Rightarrow> proposal_row \<Rightarrow> bool" where
  "depends_on p q \<longleftrightarrow>
     prop_space_id q = prop_space_id p \<and> prop_status q = ''pending'' \<and>
     scalar_text (get (payload_of q) ''depends_on_proposal_id'') = Some (prop_id p)"

definition release_versions :: "string \<Rightarrow> string \<Rightarrow> source_version list \<Rightarrow> source_version list" where
  "release_versions i sp =
     sql_update (\<lambda>v. sv_space_id v = sp \<and> sv_proposal_id v = Some i \<and> sv_status v = ''pending_approval'')
       (\<lambda>v. v\<lparr>sv_status := ''draft'', sv_proposal_id := None\<rparr>)"

definition releaseRejectedCustomSourceHandlerVersion :: "string \<Rightarrow> string \<Rightarrow> 'd tables \<Rightarrow> 'd tables" where
  "releaseRejectedCustomSourceHandlerVersion i sp t =
     t\<lparr>tb_sources := (tb_sources t)\<lparr>so_handler_versions := release_versions i sp (so_handler_versions (tb_sources t))\<rparr>\<rparr>"

definition releaseRejectedSourceRecipeVersion :: "string \<Rightarrow> string \<Rightarrow> 'd tables \<Rightarrow> 'd tables" where
  "releaseRejectedSourceRecipeVersion i sp t =
     t\<lparr>tb_sources := (tb_sources t)\<lparr>so_recipe_versions := release_versions i sp (so_recipe_versions (tb_sources t))\<rparr>\<rparr>"

definition archive_channel :: "string \<Rightarrow> string \<Rightarrow> int \<Rightarrow> source_tables \<Rightarrow> source_tables" where
  "archive_channel channel sp now so =
     (let connections = map sc_source_connection_id
            (filter (\<lambda>c. sc_id c = channel \<and> sc_space_id c = sp) (so_channels so))
      in so\<lparr>so_channels := sql_update (\<lambda>c. sc_id c = channel \<and> sc_space_id c = sp \<and> sc_status c = ''paused'')
               (\<lambda>c. c\<lparr>sc_status := ''archived'', sc_updated_at := now\<rparr>) (so_channels so),
            so_connections := sql_update
               (\<lambda>c. sn_id c \<in> set connections \<and> sn_space_id c = sp \<and> sn_status c = ''paused'')
               (\<lambda>c. c\<lparr>sn_status := ''archived'', sn_updated_at := now\<rparr>) (so_connections so)\<rparr>)"

definition releaseRejectedSourceChannelDraft :: "proposal_row \<Rightarrow> int \<Rightarrow> 'd tables \<Rightarrow> 'd tables" where
  "releaseRejectedSourceChannelDraft p now t =
     (if prop_proposal_type p \<noteq> ''source_channel_activation'' then t
      else case payloadString (get (payload_of p) ''source_channel_id'') of
        None \<Rightarrow> t
      | Some channel \<Rightarrow>
          t\<lparr>tb_sources := archive_channel channel (prop_space_id p) now (tb_sources t),
            tb_proposals := sql_update (depends_on p)
              (\<lambda>q. q\<lparr>prop_status := ''superseded'', prop_updated_at := now\<rparr>) (tb_proposals t)\<rparr>)"

definition releaseRejectedSourceBackfillPlan :: "proposal_row \<Rightarrow> int \<Rightarrow> 'd tables \<Rightarrow> 'd tables" where
  "releaseRejectedSourceBackfillPlan p now t =
     (if prop_proposal_type p \<noteq> ''source_backfill_start'' then t
      else case payloadString (get (payload_of p) ''source_backfill_plan_id'') of
        None \<Rightarrow> t
      | Some plan \<Rightarrow>
          t\<lparr>tb_sources := (tb_sources t)\<lparr>so_backfill_plans := sql_update
              (\<lambda>b. bp_id b = plan \<and> bp_space_id b = prop_space_id p \<and> bp_proposal_id b = Some (prop_id p) \<and>
                   bp_status b = ''proposed'')
              (\<lambda>b. b\<lparr>bp_status := ''draft'', bp_proposal_id := None, bp_updated_at := now\<rparr>)
              (so_backfill_plans (tb_sources t))\<rparr>\<rparr>)"

section \<open>Reading\<close>

definition getMembershipRole :: "access_db \<Rightarrow> string \<Rightarrow> string \<Rightarrow> string option" where
  "getMembershipRole db u sp = map_option mb_role (List.find (active_member sp u) (db_memberships db))"

text \<open>\<open>getVisible\<close>: the row, if the reader may read it.\<close>

definition proposal_readable :: "access_db \<Rightarrow> string \<Rightarrow> string \<Rightarrow> string \<Rightarrow> bool" where
  "proposal_readable db sp u i \<longleftrightarrow>
     (case contentResourceDefinition ''proposal'' of
        None \<Rightarrow> False
      | Some def \<Rightarrow> list_ex (\<lambda>row. cn_space_id row = sp \<and> cn_id row = i \<and> contentAccessSql db def True u row)
                     (db_content db (cd_tableName def)))"

definition getVisible :: "string \<Rightarrow> string \<Rightarrow> string \<Rightarrow> 'd tables \<Rightarrow> proposal_row option" where
  "getVisible sp u i t =
     (if proposal_readable (tb_access t) sp u i
      then List.find (\<lambda>p. prop_space_id p = sp \<and> prop_id p = i) (tb_proposals t) else None)"

definition active_bundle_of :: "string \<Rightarrow> 'd tables \<Rightarrow> string option" where
  "active_bundle_of i t = map_option bm_bundle_id
     (List.find (\<lambda>m. bm_proposal_id m = i \<and> bm_status m = ''pending'' \<and>
        list_ex (\<lambda>(b, status). b = bm_bundle_id m \<and> status \<in> {''pending_review'', ''partially_approved''})
          (tb_bundles t)) (tb_bundle_members t))"

end
