(* ===== verification/ProposalApply.thy ===== *)
theory ProposalApply
  imports ProposalTables
begin

text \<open>
  Deciding a proposal, \<open>proposals/applyService.ts\<close>: accepting it, accepting it on a grant given in
  advance, rejecting it, and approving what leaves a personal memory. Each runs in one transaction, which
  \<open>FOR UPDATE\<close> makes atomic with respect to the others. The appliers of the proposal types are arbitrary
  asynchronous functions on the tables and on what is outside of the database (files); their registry is
  that of \<open>proposals/applierRegistry.ts\<close>. The check of a payload against its schema is the schema
  library's. The code patch rollback and the evolution signals are not modelled.
\<close>

section \<open>State, errors, appliers\<close>

datatype apply_error =
    ProposalApplyHttpError nat jsval
  | PolicyFailure policy_error
  | UnknownProposalApplierError string
  | ProposalPayloadValidationError string
  | RouteFailure http_error
  | MemoryApplyError string
  | MemoryApplyUnsupportedError string
  | OtherApplyError js_error

text \<open>The audit rows are written on a connection of their own, which no rollback touches.\<close>

record ('d, 'w) apply_state =
  ss_db :: "'d tables"
  ss_trail :: audit_log
  ss_outside :: 'w

type_synonym ('d, 'w, 'a) apply_io = "(apply_error, ('d, 'w) apply_state, 'a) async"

record 'w apply_result =
  rs_result_type :: string
  rs_result :: jsval
  rs_rollback :: "('w \<Rightarrow> 'w) option"
  rs_payload_patch :: "jsobj option"
  rs_final_status :: "string option"

type_synonym ('d, 'w) applier =
  "apply_proposal \<Rightarrow> string \<Rightarrow> (apply_error, 'd tables \<times> 'w, 'w apply_result) async"

type_synonym ('d, 'w) applier_registry = "(string \<times> ('d, 'w) applier) list"

definition register_applier :: "string \<Rightarrow> ('d, 'w) applier \<Rightarrow> ('d, 'w) applier_registry \<Rightarrow>
    string + ('d, 'w) applier_registry" where
  "register_applier ty f reg =
     (if ty = [] then Inl ''proposalType must be non-empty''
      else if map_of reg ty \<noteq> None then Inl (''an applier is already registered for proposal type '' @ ty)
      else Inr (reg @ [(ty, f)]))"

definition registeredTypes :: "('d, 'w) applier_registry \<Rightarrow> string list" where
  "registeredTypes reg = map fst reg"

record ('d, 'w) apply_env =
  pe_databaseUrl :: "string option"
  pe_audit_db :: audit_db
  pe_now_text :: string
  pe_now :: int
  pe_registry :: "('d, 'w) applier_registry"
  pe_valid_payload :: "string \<Rightarrow> jsobj \<Rightarrow> bool"
  pe_commits :: "'d tables \<Rightarrow> bool"
  pe_approval_id :: string
  pe_locked :: "string set"

record accept_options =
  op_confirm_incomplete :: bool
  op_allow_bundle_member :: bool

record accept_outcome =
  ao_proposal :: proposal_row
  ao_result_type :: string
  ao_result :: jsval

section \<open>Steps\<close>

definition io_update :: "('d tables \<Rightarrow> 'd tables) \<Rightarrow> ('d, 'w, unit) apply_io" where
  "io_update f s = (Inr (), s\<lparr>ss_db := f (ss_db s)\<rparr>)"

definition io_on_error :: "('s \<Rightarrow> 's) \<Rightarrow> ('e, 's, 'a) async \<Rightarrow> ('e, 's, 'a) async" where
  "io_on_error h m s = (case m s of (Inl e, s1) \<Rightarrow> (Inl e, h s1) | (Inr x, s1) \<Rightarrow> (Inr x, s1))"

definition compensate :: "('w \<Rightarrow> 'w) option \<Rightarrow> ('d, 'w) apply_state \<Rightarrow> ('d, 'w) apply_state" where
  "compensate rb s = (case rb of None \<Rightarrow> s | Some f \<Rightarrow> s\<lparr>ss_outside := f (ss_outside s)\<rparr>)"

text \<open>\<open>validateProposalPayload\<close> sets the type on a copy of the payload.\<close>

definition registry_apply :: "('d, 'w) apply_env \<Rightarrow> proposal_row \<Rightarrow> string \<Rightarrow> ('d, 'w, 'w apply_result) apply_io" where
  "registry_apply env p user s =
     (case map_of (pe_registry env) (prop_proposal_type p) of
        None \<Rightarrow> (Inl (UnknownProposalApplierError (prop_proposal_type p)), s)
      | Some f \<Rightarrow>
          if \<not> pe_valid_payload env (prop_proposal_type p)
                 (put ''proposal_type'' (JStr (prop_proposal_type p)) (payload_of p))
          then (Inl (ProposalPayloadValidationError (prop_proposal_type p)), s)
          else case f (apply_proposal.truncate p) user (ss_db s, ss_outside s) of
            (r, t, w) \<Rightarrow> (r, s\<lparr>ss_db := t, ss_outside := w\<rparr>))"

definition http_detail :: "nat \<Rightarrow> string \<Rightarrow> apply_error" where
  "http_detail code message = ProposalApplyHttpError code (JStr message)"

definition assertBundleMemberMayBeDecided :: "string \<Rightarrow> bool \<Rightarrow> ('d, 'w, unit) apply_io" where
  "assertBundleMemberMayBeDecided i allowedByCoordinator s =
     (case (if allowedByCoordinator then None else active_bundle_of i (ss_db s)) of
        None \<Rightarrow> (Inr (), s)
      | Some b \<Rightarrow> (Inl (ProposalApplyHttpError 409 (JObj
          [(''code'', JStr ''proposal_bundled''), (''bundle_id'', JStr b),
           (''message'', JStr ''This proposal is owned by an active evolution bundle; decide it from the bundle inbox.'')])), s))"

definition skippedChangesForDetail :: "jsobj \<Rightarrow> jsval list" where
  "skippedChangesForDetail payload =
     (case get payload ''skipped_changes'' of JArr xs \<Rightarrow> xs
      | _ \<Rightarrow> (case get payload ''skipped'' of JArr xs \<Rightarrow> xs | _ \<Rightarrow> []))"

definition unconfirmed_patch :: "proposal_row \<Rightarrow> bool \<Rightarrow> bool" where
  "unconfirmed_patch p confirmed \<longleftrightarrow>
     prop_proposal_type p = ''code_patch'' \<and> get (payload_of p) ''incomplete_patch'' = JBool True \<and> \<not> confirmed"

definition assertIncompleteCodePatchConfirmation :: "proposal_row \<Rightarrow> bool \<Rightarrow> ('d, 'w, unit) apply_io" where
  "assertIncompleteCodePatchConfirmation p confirmed =
     (if unconfirmed_patch p confirmed
      then io_throw (ProposalApplyHttpError 422 (JObj
        [(''code'', JStr ''incomplete_patch_requires_confirmation''),
         (''message'', JStr (''This code_patch proposal has incomplete_patch=true: some agent file changes were skipped '' @
            ''and the patch is partial. Pass confirm_incomplete_patch=true to apply it anyway.'')),
         (''skipped_changes'', JArr (skippedChangesForDetail (payload_of p)))]))
      else io_return ())"

definition policyResultToHttpError :: "enforce_result \<Rightarrow> apply_error" where
  "policyResultToHttpError res =
     (if er_status res = Errored
      then http_detail 500 (or_value (or_else (er_message res) (er_error_code res)) ''Policy audit failed'')
      else http_detail 403 (or_value (or_else (er_message res) (er_error_code res)) ''Policy denied proposal apply''))"

definition apply_input :: "proposal_row \<Rightarrow> string \<Rightarrow> proposal_input" where
  "apply_input p user =
     \<lparr>pi_user_id = user, pi_space_id = prop_space_id p, pi_proposal_id = prop_id p,
      pi_proposal_type = prop_proposal_type p, pi_declared_risk = prop_risk_level p,
      pi_required_approver_role = prop_required_approver_role p, pi_proposal_payload = prop_payload_json p,
      pi_metadata_json = Some [(''server_apply'', JBool True)]\<rparr>"

definition enforceApplyPolicy :: "('d, 'w) apply_env \<Rightarrow> proposal_row \<Rightarrow> string \<Rightarrow> ('d, 'w, unit) apply_io" where
  "enforceApplyPolicy env p user s =
     (case enforceProposalApply (pe_audit_db env) (pe_databaseUrl env) (apply_input p user)
             (getMembershipRole (tb_access (ss_db s)) user (prop_space_id p))
             (registeredTypes (pe_registry env)) (pe_now_text env) (ss_trail s) of
        Inl e \<Rightarrow> (Inl (PolicyFailure e), s)
      | Inr (res, trail) \<Rightarrow>
          (if er_status res = Allowed then Inr () else Inl (policyResultToHttpError res), s\<lparr>ss_trail := trail\<rparr>))"

definition normalizeApplyError :: "apply_error \<Rightarrow> apply_error" where
  "normalizeApplyError e = (case e of
     PolicyFailure (ProposalRiskLevelError v) \<Rightarrow> ProposalApplyHttpError 422 (JObj
       [(''code'', JStr ''invalid_proposal_risk_level''), (''risk_value'', JStr v),
        (''message'', JStr (''Invalid proposal risk_level '' @ pyRepr v @
           ''. Must be one of: low, medium, high, critical.''))])
   | _ \<Rightarrow> e)"

definition read_decided :: "string \<Rightarrow> string \<Rightarrow> string \<Rightarrow> string \<Rightarrow> ('d, 'w, proposal_row) apply_io" where
  "read_decided sp u i message s =
     (case getVisible sp u i (ss_db s) of
        None \<Rightarrow> (Inl (OtherApplyError (ErrorObject message)), s)
      | Some p \<Rightarrow> (Inr p, s))"

text \<open>The end of an acceptance: the final status, and the row as the accepting user sees it.\<close>

definition conclude :: "('d, 'w) apply_env \<Rightarrow> proposal_row \<Rightarrow> string \<Rightarrow> string \<Rightarrow> 'w apply_result \<Rightarrow> string \<Rightarrow>
    ('d, 'w, accept_outcome) apply_io" where
  "conclude env p sp user result message =
     io_bind (io_update (markProposalFinal p (pe_now env) user (or_value (rs_final_status result) ''accepted'')
        (rs_payload_patch result))) (\<lambda>_.
     io_bind (read_decided sp user (prop_id p) message) (\<lambda>accepted.
     io_return \<lparr>ao_proposal = accepted, ao_result_type = rs_result_type result, ao_result = rs_result result\<rparr>))"

definition commit :: "('d, 'w) apply_env \<Rightarrow> ('w \<Rightarrow> 'w) option \<Rightarrow> 'd tables \<Rightarrow> 'a \<Rightarrow> ('d, 'w, 'a) apply_io" where
  "commit env rb before x s =
     (if pe_commits env (ss_db s) then (Inr x, s)
      else (Inl (OtherApplyError (ErrorObject ''COMMIT'')), compensate rb (s\<lparr>ss_db := before\<rparr>)))"

section \<open>Accepting\<close>

definition acceptable :: "string \<Rightarrow> string \<Rightarrow> string \<Rightarrow> 'd tables \<Rightarrow> proposal_row option" where
  "acceptable sp u i t =
     (case getProposalForUpdate i t of
        None \<Rightarrow> None
      | Some p \<Rightarrow>
          if prop_status p \<noteq> ''pending'' \<or> prop_preview p \<or> prop_space_id p \<noteq> sp \<or>
             contentDecisionFromDb (tb_access t) sp u ''proposal'' (prop_id p) = AccessDeny
          then None else Some p)"

definition accept_pending :: "('d, 'w) apply_env \<Rightarrow> string \<Rightarrow> string \<Rightarrow> accept_options \<Rightarrow> ('d, 'w, unit) apply_io \<Rightarrow>
    proposal_row \<Rightarrow> ('d, 'w, accept_outcome \<times> ('w \<Rightarrow> 'w) option) apply_io" where
  "accept_pending env sp u opts afterApply p =
     io_bind (assertBundleMemberMayBeDecided (prop_id p) (op_allow_bundle_member opts)) (\<lambda>_.
     io_bind (assertIncompleteCodePatchConfirmation p (op_confirm_incomplete opts)) (\<lambda>_.
     io_bind (enforceApplyPolicy env p u) (\<lambda>_.
     io_bind (registry_apply env p u) (\<lambda>result.
     io_on_error (compensate (rs_rollback result))
       (io_bind afterApply (\<lambda>_.
        io_bind (conclude env p sp u result ''accepted proposal is not visible after apply'') (\<lambda>outcome.
        io_return (outcome, rs_rollback result))))))))"

definition acceptInTransaction :: "('d, 'w) apply_env \<Rightarrow> string \<Rightarrow> string \<Rightarrow> string \<Rightarrow> accept_options \<Rightarrow>
    ('d, 'w, unit) apply_io \<Rightarrow> ('d, 'w, (accept_outcome \<times> ('w \<Rightarrow> 'w) option) option) apply_io" where
  "acceptInTransaction env i sp u opts afterApply s =
     (case acceptable sp u i (ss_db s) of
        None \<Rightarrow> (Inr None, s)
      | Some p \<Rightarrow> io_lift normalizeApplyError
          (io_bind (accept_pending env sp u opts afterApply p) (\<lambda>out. io_return (Some out))) s)"

definition accept :: "('d, 'w) apply_env \<Rightarrow> string \<Rightarrow> string \<Rightarrow> string \<Rightarrow> accept_options \<Rightarrow>
    ('d, 'w, accept_outcome option) apply_io" where
  "accept env i sp u opts s =
     (case acceptInTransaction env i sp u opts (io_return ()) s of
        (Inl e, s1) \<Rightarrow> (Inl (normalizeApplyError e), s1\<lparr>ss_db := ss_db s\<rparr>)
      | (Inr None, s1) \<Rightarrow> commit env None (ss_db s) None s1
      | (Inr (Some (outcome, rb)), s1) \<Rightarrow> commit env rb (ss_db s) (Some outcome) s1)"

section \<open>Accepting on a grant\<close>

record action_scope =
  sx_action_id :: string
  sx_project_id :: "string option"
  sx_resource_kind :: "string option"
  sx_resource_id :: "string option"

definition grantable_proposal :: "action_scope \<Rightarrow> proposal_row \<Rightarrow> bool" where
  "grantable_proposal a p \<longleftrightarrow>
     (case find_action (sx_action_id a) of
        None \<Rightarrow> False
      | Some d \<Rightarrow>
          sa_grantable d \<and> truthy (opt_str (sa_proposal_type d)) \<and>
          get (payload_of p) ''action_id'' = JStr (sx_action_id a) \<and>
          sa_proposal_type d = Some (prop_proposal_type p) \<and>
          (sx_project_id a = None \<or> sx_project_id a = prop_project_id p))"

definition grant_use_of :: "action_scope \<Rightarrow> proposal_row \<Rightarrow> string \<Rightarrow> grant_use" where
  "grant_use_of a p agent =
     \<lparr>gu_space_id = prop_space_id p, gu_agent_id = agent, gu_action_id = sx_action_id a,
      gu_project_id = or_else (sx_project_id a) (prop_project_id p),
      gu_resource_kind = sx_resource_kind a, gu_resource_id = sx_resource_id a\<rparr>"

definition consume_grant :: "('d, 'w) apply_env \<Rightarrow> grant_use \<Rightarrow> ('d, 'w, action_grant option) apply_io" where
  "consume_grant env a s =
     (let (g, gs) = consumeMatching (pe_locked env) a (pe_now env) (tb_grants (ss_db s))
      in (Inr g, s\<lparr>ss_db := (ss_db s)\<lparr>tb_grants := gs\<rparr>\<rparr>))"

definition grant_approval :: "('d, 'w) apply_env \<Rightarrow> action_scope \<Rightarrow> proposal_row \<Rightarrow> action_grant \<Rightarrow> approval_row" where
  "grant_approval env a p g =
     \<lparr>pa_id = pe_approval_id env, pa_proposal_id = prop_id p, pa_approval_type = ''action_grant'',
      pa_approver_user_id = ag_granted_by_user_id g, pa_grant_id = None, pa_action_grant_id = Some (ag_id g),
      pa_target_space_id = None, pa_status = ''approved'',
      pa_metadata_json = JObj [(''approval_source'', JStr (''action_grant:'' @ ag_id g)),
        (''action_id'', JStr (sx_action_id a))],
      pa_created_at = pe_now env, pa_revoked_at = None\<rparr>"

text \<open>The unique index on approved rows of a proposal and an action grant.\<close>

definition insert_approval :: "approval_row \<Rightarrow> ('d, 'w, unit) apply_io" where
  "insert_approval new s =
     (if list_ex (\<lambda>a. pa_proposal_id a = pa_proposal_id new \<and> pa_action_grant_id a = pa_action_grant_id new \<and>
           pa_status a = ''approved'') (tb_approvals (ss_db s))
      then (Inl (OtherApplyError (ErrorObject ''duplicate key value violates unique constraint'')), s)
      else (Inr (), s\<lparr>ss_db := (ss_db s)\<lparr>tb_approvals := tb_approvals (ss_db s) @ [new]\<rparr>\<rparr>))"

definition apply_on_grant :: "('d, 'w) apply_env \<Rightarrow> action_scope \<Rightarrow> proposal_row \<Rightarrow> action_grant \<Rightarrow>
    ('d, 'w, accept_outcome \<times> ('w \<Rightarrow> 'w) option) apply_io" where
  "apply_on_grant env a p g =
     (let user = ag_granted_by_user_id g in
      io_bind (enforceApplyPolicy env p user) (\<lambda>_.
      io_bind (registry_apply env p user) (\<lambda>result.
      io_on_error (compensate (rs_rollback result))
        (io_bind (insert_approval (grant_approval env a p g)) (\<lambda>_.
         io_bind (conclude env p (prop_space_id p) user result ''accepted proposal is not visible after grant apply'') (\<lambda>outcome.
         io_return (outcome, rs_rollback result)))))))"

definition accept_on_grant :: "('d, 'w) apply_env \<Rightarrow> action_scope \<Rightarrow> proposal_row \<Rightarrow> string \<Rightarrow>
    ('d, 'w, (accept_outcome \<times> ('w \<Rightarrow> 'w) option) option) apply_io" where
  "accept_on_grant env a p agent =
     io_bind (assertBundleMemberMayBeDecided (prop_id p) False) (\<lambda>_.
     if \<not> grantable_proposal a p then io_return None
     else io_bind (consume_grant env (grant_use_of a p agent)) (\<lambda>grant.
       case grant of
         None \<Rightarrow> io_return None
       | Some g \<Rightarrow> io_bind (apply_on_grant env a p g) (\<lambda>out. io_return (Some out))))"

definition acceptAgentProposalIfGranted :: "('d, 'w) apply_env \<Rightarrow> string \<Rightarrow> action_scope \<Rightarrow>
    ('d, 'w, accept_outcome option) apply_io" where
  "acceptAgentProposalIfGranted env i a s =
     (case getProposalForUpdate i (ss_db s) of
        None \<Rightarrow> (Inr None, s)
      | Some p \<Rightarrow>
          if prop_status p \<noteq> ''pending'' \<or> prop_preview p \<or> \<not> truthy (opt_str (prop_created_by_agent_id p))
          then (Inr None, s)
          else case accept_on_grant env a p (the (prop_created_by_agent_id p)) s of
            (Inl e, s1) \<Rightarrow> (Inl e, s1\<lparr>ss_db := ss_db s\<rparr>)
          | (Inr None, s1) \<Rightarrow> (Inr None, s1\<lparr>ss_db := ss_db s\<rparr>)
          | (Inr (Some (outcome, rb)), s1) \<Rightarrow> commit env rb (ss_db s) (Some outcome) s1)"

section \<open>Rejecting\<close>

text \<open>The service's own copies of the role helpers have the text of the gateway's.\<close>

definition canRejectProposalWithRole :: "proposal_row \<Rightarrow> string \<Rightarrow> string option \<Rightarrow> bool" where
  "canRejectProposalWithRole p user role \<longleftrightarrow>
     prop_created_by_user_id p = Some user \<or>
     (case (normalizeRequiredApproverRole (prop_required_approver_role p), role) of
        (Some required, Some r) \<Rightarrow> r \<noteq> [] \<and> roleSatisfiesRequiredApprover r required
      | _ \<Rightarrow> False)"

definition rejectable :: "string \<Rightarrow> string \<Rightarrow> string \<Rightarrow> 'd tables \<Rightarrow> proposal_row option" where
  "rejectable sp u i t =
     (case getProposalForUpdate i t of
        None \<Rightarrow> None
      | Some p \<Rightarrow>
          if prop_space_id p \<noteq> sp \<or> prop_status p \<noteq> ''pending'' \<or>
             contentDecisionFromDb (tb_access t) sp u ''proposal'' (prop_id p) = AccessDeny \<or>
             \<not> canRejectProposalWithRole p u (getMembershipRole (tb_access t) u (prop_space_id p))
          then None else Some p)"

definition reject_tables :: "int \<Rightarrow> string \<Rightarrow> string \<Rightarrow> string \<Rightarrow> proposal_row \<Rightarrow> 'd tables \<Rightarrow> 'd tables" where
  "reject_tables now i sp u p t =
     releaseRejectedSourceBackfillPlan p now (releaseRejectedSourceChannelDraft p now
       (releaseRejectedSourceRecipeVersion i sp (releaseRejectedCustomSourceHandlerVersion i sp
         (t\<lparr>tb_proposals := sql_update (pending_row i sp) (rejected_row now u) (tb_proposals t)\<rparr>))))"

definition rejectTransaction :: "('d, 'w) apply_env \<Rightarrow> string \<Rightarrow> string \<Rightarrow> string \<Rightarrow> ('d, 'w, unit) apply_io \<Rightarrow> bool \<Rightarrow>
    ('d, 'w, proposal_row option) apply_io" where
  "rejectTransaction env i sp u afterReject allowBundleMember s =
     (case rejectable sp u i (ss_db s) of
        None \<Rightarrow> (Inr None, s)
      | Some p \<Rightarrow>
          io_bind (assertBundleMemberMayBeDecided (prop_id p) allowBundleMember) (\<lambda>_.
          io_bind (io_update (reject_tables (pe_now env) i sp u p)) (\<lambda>_.
          io_bind afterReject (\<lambda>_.
          io_bind (read_decided sp u i ''rejected proposal is not visible after reject'') (\<lambda>out.
          io_return (Some out))))) s)"

definition reject :: "('d, 'w) apply_env \<Rightarrow> string \<Rightarrow> string \<Rightarrow> string \<Rightarrow> ('d, 'w, proposal_row option) apply_io" where
  "reject env i sp u s =
     (case rejectTransaction env i sp u (io_return ()) False s of
        (Inl e, s1) \<Rightarrow> (Inl (normalizeApplyError e), s1\<lparr>ss_db := ss_db s\<rparr>)
      | (Inr out, s1) \<Rightarrow> commit env None (ss_db s) out s1)"

section \<open>Approving what leaves a personal memory\<close>

definition source_run_of :: "proposal_row \<Rightarrow> string option" where
  "source_run_of p = or_else (payloadString (get (payload_of p) ''source_run_id'')) (prop_created_by_run_id p)"

definition inferGrantId :: "proposal_row \<Rightarrow> 'd tables \<Rightarrow> string option" where
  "inferGrantId p t =
     (case payloadString (get (payload_of p) ''grant_id'') of
        Some i \<Rightarrow> Some i
      | None \<Rightarrow>
          (case get (payload_of p) ''personal_memory_grant_ids'' of
             JArr [JStr i] \<Rightarrow> Some i
           | _ \<Rightarrow>
               if \<not> truthy (opt_str (source_run_of p)) then None
               else (case map_of (tb_runs t) (the (source_run_of p)) of None \<Rightarrow> None | Some grant \<Rightarrow> grant)))"

definition getGrant :: "string \<Rightarrow> 'd tables \<Rightarrow> memory_grant option" where
  "getGrant i t = List.find (\<lambda>g. mg_id g = i) (tb_memory_grants t)"

text \<open>The refusals, in the order of the code.\<close>

definition grant_refusal :: "proposal_row \<Rightarrow> memory_grant \<Rightarrow> string \<Rightarrow> string \<Rightarrow> int \<Rightarrow> string option" where
  "grant_refusal p g user grantId now =
     (let payload = payload_of p; run = source_run_of p
      in if mg_granting_user_id g \<noteq> user then Some ''only granting_user_id can approve grant-derived egress''
         else if get payload ''raw_private_memory_included'' = JBool True
         then Some ''raw private memory cannot be approved for egress''
         else if mg_status g \<in> {''revoked'', ''expired'', ''failed''}
         then Some (''grant status '' @ [CHR 0x22] @ mg_status g @ [CHR 0x22] @ '' cannot approve egress'')
         else if payloadString (get payload ''grant_id'') \<notin> {None, Some grantId}
         then Some ''proposal grant_id does not match approval grant_id''
         else if (case get payload ''personal_memory_grant_ids'' of
                    JArr ids \<Rightarrow> grantId \<notin> set (map to_string ids) | _ \<Rightarrow> False)
         then Some ''proposal personal_memory_grant_ids does not include approval grant_id''
         else if payloadString (get payload ''target_space_id'') \<notin> {None, Some (mg_target_space_id g)}
         then Some ''proposal target_space_id does not match grant target_space_id''
         else if prop_space_id p \<noteq> mg_target_space_id g
         then Some ''proposal space_id does not match grant target_space_id''
         else if \<not> truthy (opt_str run) then Some ''grant-derived proposal is missing source_run_id''
         else if run \<noteq> Some (mg_target_run_id g)
         then Some ''proposal source_run_id does not match grant target_run_id''
         else if (case mg_egress_review_expires_at g of None \<Rightarrow> False | Some t \<Rightarrow> t \<le> now)
         then Some ''egress review deadline has passed''
         else None)"

definition validateGrantApproval :: "proposal_row \<Rightarrow> memory_grant \<Rightarrow> string \<Rightarrow> string \<Rightarrow> int \<Rightarrow> apply_error + unit" where
  "validateGrantApproval p g user grantId now =
     (case grant_refusal p g user grantId now of None \<Rightarrow> Inr () | Some message \<Rightarrow> Inl (http_detail 403 message))"

definition standing_approval :: "string \<Rightarrow> string \<Rightarrow> string \<Rightarrow> approval_row \<Rightarrow> bool" where
  "standing_approval i user grantId a \<longleftrightarrow>
     pa_proposal_id a = i \<and> pa_approval_type a = ''egress_granting_user'' \<and> pa_approver_user_id a = user \<and>
     pa_grant_id a = Some grantId \<and> pa_status a = ''approved'' \<and> pa_revoked_at a = None"

text \<open>\<open>ORDER BY created_at DESC LIMIT 1\<close>.\<close>

definition latest_approval :: "string \<Rightarrow> string \<Rightarrow> string \<Rightarrow> 'd tables \<Rightarrow> approval_row option" where
  "latest_approval i user grantId t =
     (case sort_by (\<lambda>a b. pa_created_at b - pa_created_at a) (filter (standing_approval i user grantId) (tb_approvals t)) of
        [] \<Rightarrow> None | a # _ \<Rightarrow> Some a)"

definition egress_approval :: "('d, 'w) apply_env \<Rightarrow> proposal_row \<Rightarrow> string \<Rightarrow> string \<Rightarrow> memory_grant \<Rightarrow> approval_row" where
  "egress_approval env p user grantId g =
     \<lparr>pa_id = pe_approval_id env, pa_proposal_id = prop_id p, pa_approval_type = ''egress_granting_user'',
      pa_approver_user_id = user, pa_grant_id = Some grantId, pa_action_grant_id = None,
      pa_target_space_id = Some (mg_target_space_id g), pa_status = ''approved'',
      pa_metadata_json = JObj [(''approval_type'', JStr ''egress_granting_user''),
        (''raw_private_memory_included'', JBool False), (''personal_summary_persisted'', JBool False)],
      pa_created_at = pe_now env, pa_revoked_at = None\<rparr>"

text \<open>
  The unique index on approved rows: a row that is approved and revoked by its time stamp still blocks.
\<close>

definition approve_egress_tables :: "('d, 'w) apply_env \<Rightarrow> string \<Rightarrow> string \<Rightarrow> string \<Rightarrow> string option \<Rightarrow> 'd tables \<Rightarrow>
    apply_error + (approval_row \<times> 'd tables)" where
  "approve_egress_tables env i sp u grantIdInput t =
     (case getProposalForUpdate i t of
        None \<Rightarrow> Inl (http_detail 404 ''Proposal not found'')
      | Some p \<Rightarrow>
          if prop_space_id p \<noteq> sp \<or> contentDecisionFromDb (tb_access t) sp u ''proposal'' (prop_id p) = AccessDeny
          then Inl (http_detail 404 ''Proposal not found'')
          else case or_else grantIdInput (inferGrantId p t) of
            None \<Rightarrow> Inl (http_detail 422 ''grant_id is required'')
          | Some grantId \<Rightarrow>
              if grantId = [] then Inl (http_detail 422 ''grant_id is required'')
              else case getGrant grantId t of
                None \<Rightarrow> Inl (http_detail 403 ''grant not found'')
              | Some g \<Rightarrow>
                  bind_sum (validateGrantApproval p g u grantId (pe_now env)) (\<lambda>_.
                  case latest_approval (prop_id p) u grantId t of
                    Some a \<Rightarrow> Inr (a, t)
                  | None \<Rightarrow>
                      let new = egress_approval env p u grantId g
                      in if list_ex (\<lambda>a. pa_proposal_id a = prop_id p \<and> pa_approval_type a = pa_approval_type new \<and>
                              pa_approver_user_id a = u \<and> pa_grant_id a = Some grantId \<and> pa_status a = ''approved'')
                            (tb_approvals t)
                         then Inl (OtherApplyError (ErrorObject ''duplicate key value violates unique constraint''))
                         else Inr (new, t\<lparr>tb_approvals := tb_approvals t @ [new]\<rparr>)))"

definition approveEgressGrantingUser :: "('d, 'w) apply_env \<Rightarrow> string \<Rightarrow> string \<Rightarrow> string \<Rightarrow> string option \<Rightarrow>
    ('d, 'w, approval_row) apply_io" where
  "approveEgressGrantingUser env i sp u grantIdInput s =
     (case approve_egress_tables env i sp u grantIdInput (ss_db s) of
        Inl e \<Rightarrow> (Inl e, s)
      | Inr (a, t) \<Rightarrow> commit env None (ss_db s) a (s\<lparr>ss_db := t\<rparr>))"

end
