(* ===== verification/ProposalDecisions.thy ===== *)
theory ProposalDecisions
  imports ProposalApply
begin

text \<open>
  What the decisions on proposals guarantee, for every registry of appliers that leaves grants, approvals
  and decided proposals alone and undoes its outside effects: who can have a proposal accepted, that a
  failed decision changes nothing, and the accounting of advance grants over any history.
\<close>

section \<open>The contract of the appliers\<close>

text \<open>The statuses a decision leaves.\<close>

definition final_statuses :: "string set" where
  "final_statuses = {''accepted'', ''superseded''}"

definition undone :: "('w \<Rightarrow> 'w) option \<Rightarrow> 'w \<Rightarrow> 'w" where
  "undone rb w = (case rb of None \<Rightarrow> w | Some f \<Rightarrow> f w)"

definition keeps_decisions :: "'d tables \<Rightarrow> 'd tables \<Rightarrow> bool" where
  "keeps_decisions t t' \<longleftrightarrow>
     tb_grants t' = tb_grants t \<and> tb_approvals t' = tb_approvals t \<and>
     (distinct (map prop_id (tb_proposals t)) \<longrightarrow> distinct (map prop_id (tb_proposals t'))) \<and>
     prop_id ` set (tb_proposals t) \<subseteq> prop_id ` set (tb_proposals t') \<and>
     (\<forall>p \<in> set (tb_proposals t). prop_status p \<noteq> ''pending'' \<longrightarrow> p \<in> set (tb_proposals t'))"

lemma keeps_refl [simp]: "keeps_decisions t t"
  by (auto simp: keeps_decisions_def)

lemma registry_apply_cases:
  assumes "registry_apply env p u s = (r, s')"
  obtains (refused) e where "r = Inl e" and "s' = s"
    | (applied) f t w where "map_of (pe_registry env) (prop_proposal_type p) = Some f"
      and "f (apply_proposal.truncate p) u (ss_db s, ss_outside s) = (r, t, w)"
      and "s' = s\<lparr>ss_db := t, ss_outside := w\<rparr>"
proof (cases "map_of (pe_registry env) (prop_proposal_type p)")
  case None
  then have "r = Inl (UnknownProposalApplierError (prop_proposal_type p))" "s' = s"
    using assms by (simp_all add: registry_apply_def)
  then show ?thesis by (rule refused)
next
  case (Some f)
  obtain r1 t w where f: "f (apply_proposal.truncate p) u (ss_db s, ss_outside s) = (r1, t, w)"
    by (rule prod_cases3)
  show ?thesis
  proof (cases "pe_valid_payload env (prop_proposal_type p)
      (put ''proposal_type'' (JStr (prop_proposal_type p)) (payload_of p))")
    case True
    then have "r = r1" "s' = s\<lparr>ss_db := t, ss_outside := w\<rparr>"
      using assms by (simp_all add: registry_apply_def Some f)
    with f applied [OF Some, of t w] show ?thesis by blast
  next
    case False
    then have "r = Inl (ProposalPayloadValidationError (prop_proposal_type p))" "s' = s"
      using assms by (simp_all add: registry_apply_def Some)
    then show ?thesis by (rule refused)
  qed
qed

text \<open>
  Tables as an applier may leave them, and its outside effects: none if it rejects, and otherwise undone
  by the \<open>rollback\<close> it returns.
\<close>

locale governed_appliers =
  fixes reg :: "('d, 'w) applier_registry"
  assumes tables_kept: "map_of reg ty = Some f \<Longrightarrow> f p u (t, w) = (r, t', w') \<Longrightarrow> keeps_decisions t t'"
    and undone_effects: "map_of reg ty = Some f \<Longrightarrow> f p u (t, w) = (Inr result, t', w') \<Longrightarrow>
      undone (rs_rollback result) w' = w"
    and no_effects: "map_of reg ty = Some f \<Longrightarrow> f p u (t, w) = (Inl e, t', w') \<Longrightarrow> w' = w"
    and final_status: "map_of reg ty = Some f \<Longrightarrow> f p u (t, w) = (Inr result, t', w') \<Longrightarrow>
      rs_final_status result \<in> {None, Some ''accepted'', Some ''superseded''}"
begin

lemma apply_tables:
  assumes "pe_registry env = reg" and "registry_apply env p u s = (r, s')"
  shows "keeps_decisions (ss_db s) (ss_db s')"
  using assms(2)
proof (cases rule: registry_apply_cases)
  case (applied f t w)
  then show ?thesis using tables_kept assms(1) by simp
qed simp

lemma apply_rejected:
  assumes "pe_registry env = reg" and "registry_apply env p u s = (Inl e, s')"
  shows "ss_outside s' = ss_outside s"
  using assms(2)
proof (cases rule: registry_apply_cases)
  case (applied f t w)
  then show ?thesis using no_effects assms(1) by simp
qed simp

lemma apply_resolved:
  assumes "pe_registry env = reg" and "registry_apply env p u s = (Inr result, s')"
  shows "undone (rs_rollback result) (ss_outside s') = ss_outside s"
  using assms(2)
proof (cases rule: registry_apply_cases)
  case (applied f t w)
  then show ?thesis using undone_effects assms(1) by simp
qed simp

lemma apply_status:
  assumes "pe_registry env = reg" and "registry_apply env p u s = (Inr result, s')"
  shows "or_value (rs_final_status result) ''accepted'' \<in> final_statuses"
  using assms(2)
proof (cases rule: registry_apply_cases)
  case (applied f t w)
  then show ?thesis using final_status assms(1) by (fastforce simp: final_statuses_def or_value_def)
qed simp

end

section \<open>The steps\<close>

lemma compensate_simps [simp]:
  "ss_db (compensate rb s) = ss_db s"
  "ss_outside (compensate rb s) = undone rb (ss_outside s)"
  by (auto simp: compensate_def undone_def split: option.splits)

lemma compensate_db [simp]: "compensate rb (s\<lparr>ss_db := t\<rparr>) = (compensate rb s)\<lparr>ss_db := t\<rparr>"
  by (cases rb) (simp_all add: compensate_def)

text \<open>The gate a proposal passes for a user: who may apply what is the matrix of \<open>PolicyGateway\<close>.\<close>

definition gate_open :: "('d, 'w) apply_env \<Rightarrow> proposal_row \<Rightarrow> string \<Rightarrow> 'd tables \<Rightarrow> bool" where
  "gate_open env p u t \<longleftrightarrow>
     \<not> (\<exists>flag \<in> set APPROVAL_PROOF_FLAGS. has_key (payload_of p) flag) \<and>
     prop_proposal_type p \<in> set (registeredTypes (pe_registry env)) \<and>
     (\<exists>risk. effectiveProposalRisk (prop_proposal_type p) (prop_risk_level p) = Inr risk \<and>
        may_apply (getMembershipRole (tb_access t) u (prop_space_id p)) (prop_required_approver_role p) risk)"

lemma enforce_policy_step:
  assumes "enforceApplyPolicy env p u s = (r, s1)"
  shows "ss_db s1 = ss_db s \<and> ss_outside s1 = ss_outside s \<and> (r = Inr () \<longrightarrow> gate_open env p u (ss_db s))"
proof -
  have payload: "metadata_or_empty (pi_proposal_payload (apply_input p u)) = payload_of p"
    by (simp add: apply_input_def metadata_or_empty_def payload_of_def split: option.splits)
  have "gate_open env p u (ss_db s)" if "r = Inr ()"
  proof -
    from that assms obtain res trail where "enforceProposalApply (pe_audit_db env) (pe_databaseUrl env) (apply_input p u)
        (getMembershipRole (tb_access (ss_db s)) u (prop_space_id p)) (registeredTypes (pe_registry env))
        (pe_now_text env) (ss_trail s) = Inr (res, trail)" "er_status res = Allowed"
      by (auto simp: enforceApplyPolicy_def split: sum.splits if_splits)
    then have "\<exists>res trail. enforceProposalApply (pe_audit_db env) (pe_databaseUrl env) (apply_input p u)
        (getMembershipRole (tb_access (ss_db s)) u (prop_space_id p)) (registeredTypes (pe_registry env))
        (pe_now_text env) (ss_trail s) = Inr (res, trail) \<and> er_status res = Allowed" by blast
    from this [unfolded proposal_gate_iff payload] show ?thesis
      by (auto simp: gate_open_def apply_input_def)
  qed
  with assms show ?thesis by (auto simp: enforceApplyPolicy_def split: sum.splits prod.splits)
qed

lemma bundle_step:
  "assertBundleMemberMayBeDecided i allow s = (r, s1) \<Longrightarrow>
     s1 = s \<and> (r = Inr () \<longrightarrow> allow \<or> active_bundle_of i (ss_db s) = None)"
  by (auto simp: assertBundleMemberMayBeDecided_def split: option.splits if_splits)

lemma patch_step:
  "assertIncompleteCodePatchConfirmation p confirmed s = (r, s1) \<Longrightarrow>
     s1 = s \<and> (r = Inr () \<longrightarrow> \<not> unconfirmed_patch p confirmed)"
  by (auto simp: assertIncompleteCodePatchConfirmation_def split: if_splits)

definition result_status :: "'w apply_result \<Rightarrow> string" where
  "result_status result = or_value (rs_final_status result) ''accepted''"

lemma conclude_step:
  assumes "conclude env p sp u result message s = (r, s1)"
  shows "ss_outside s1 = ss_outside s \<and>
    ss_db s1 = markProposalFinal p (pe_now env) u (result_status result) (rs_payload_patch result) (ss_db s) \<and>
    (\<forall>out. r = Inr out \<longrightarrow> getVisible sp u (prop_id p) (ss_db s1) = Some (ao_proposal out))"
  using assms
  by (auto simp: conclude_def io_bind_def io_update_def read_decided_def result_status_def io_return_def
      split: option.splits prod.splits sum.splits)

lemma io_on_error_cases:
  assumes "io_on_error h m s = (r, s')"
  obtains (failed) e s1 where "m s = (Inl e, s1)" and "r = Inl e" and "s' = h s1"
    | (passed) x where "m s = (Inr x, s')" and "r = Inr x"
  using assms by (auto simp: io_on_error_def split: prod.splits sum.splits)

section \<open>The two ways of accepting\<close>

text \<open>
  What holds when an acceptance of \<open>p\<close> for \<open>u\<close> resolves: the gate was open, the applier ran and kept the
  decisions, and \<open>prepare\<close> and the final status are what was written after it.
\<close>

definition applied_proposal :: "('d, 'w) apply_env \<Rightarrow> proposal_row \<Rightarrow> string \<Rightarrow> string \<Rightarrow> ('d tables \<Rightarrow> 'd tables) \<Rightarrow>
    'd tables \<Rightarrow> 'd tables \<Rightarrow> proposal_row \<Rightarrow> bool" where
  "applied_proposal env p sp u prepare t t' out \<longleftrightarrow>
     gate_open env p u t \<and>
     (\<exists>applied status patch. keeps_decisions t applied \<and> status \<in> final_statuses \<and>
        t' = markProposalFinal p (pe_now env) u status patch (prepare applied)) \<and>
     getVisible sp u (prop_id p) t' = Some out"

lemma conclude_applied:
  assumes "conclude env p sp u result message s1 = (Inr out, s')" and "gate_open env p u t"
    and "keeps_decisions t applied" and "ss_db s1 = prepare applied" and "result_status result \<in> final_statuses"
  shows "applied_proposal env p sp u prepare t (ss_db s') (ao_proposal out)"
  using conclude_step [OF assms(1)] assms(2-5) unfolding applied_proposal_def by metis

context governed_appliers
begin

lemma run_applier:
  assumes "pe_registry env = reg"
    and "io_bind (registry_apply env p u) (\<lambda>result. io_on_error (compensate (rs_rollback result)) (m result)) s = (r, s')"
    and "\<And>result s1 r s2. m result s1 = (r, s2) \<Longrightarrow> ss_outside s2 = ss_outside s1"
  obtains (failed) e where "r = Inl e" and "ss_outside s' = ss_outside s"
    | (ran) x result s1 where "r = Inr x" and "m result s1 = (Inr x, s')" and "keeps_decisions (ss_db s) (ss_db s1)"
      and "undone (rs_rollback result) (ss_outside s') = ss_outside s" and "result_status result \<in> final_statuses"
  using assms(2)
proof (cases rule: io_bind_cases)
  case (rejected e)
  with apply_rejected [OF assms(1)] failed show ?thesis by blast
next
  case (resolved result s1)
  have undo: "undone (rs_rollback result) (ss_outside s1) = ss_outside s"
    using apply_resolved [OF assms(1) resolved(1)] .
  from resolved(2) show ?thesis
  proof (cases rule: io_on_error_cases)
    case (failed e s2)
    then show ?thesis using that(1) assms(3) [OF failed(1)] undo by simp
  next
    case (passed x)
    then show ?thesis
      using that(2) [OF passed(2,1) apply_tables [OF assms(1) resolved(1)]] assms(3) [OF passed(1)] undo
        apply_status [OF assms(1) resolved(1)] by (simp add: result_status_def)
  qed
qed

text \<open>Tables written between applying and concluding keep the outside.\<close>

lemma accept_pending_step:
  assumes "pe_registry env = reg" and "accept_pending env sp u opts (io_return ()) p s = (r, s')"
  obtains (failed) e where "r = Inl e" and "ss_outside s' = ss_outside s"
    | (accepted) out rb where "r = Inr (out, rb)" and "undone rb (ss_outside s') = ss_outside s"
      and "op_allow_bundle_member opts \<or> active_bundle_of (prop_id p) (ss_db s) = None"
      and "\<not> unconfirmed_patch p (op_confirm_incomplete opts)"
      and "applied_proposal env p sp u id (ss_db s) (ss_db s') (ao_proposal out)"
  using assms(2) unfolding accept_pending_def
proof (cases rule: io_bind_cases)
  case (rejected e)
  then show ?thesis using failed bundle_step [of "prop_id p"] by blast
next
  case (resolved x s1)
  note unbundled = bundle_step [OF resolved(1)]
  from resolved(2) show ?thesis
  proof (cases rule: io_bind_cases)
    case (rejected e)
    then show ?thesis using failed unbundled patch_step by blast
  next
    case (resolved y s2)
    note patch = patch_step [OF resolved(1)]
    from resolved(2) show ?thesis
    proof (cases rule: io_bind_cases)
      case (rejected e)
      then show ?thesis using failed unbundled patch enforce_policy_step by metis
    next
      case (resolved z s3)
      note gate = enforce_policy_step [OF resolved(1)]
      let ?m = "\<lambda>result. io_bind (io_return ()) (\<lambda>_. io_bind
        (conclude env p sp u result ''accepted proposal is not visible after apply'')
        (\<lambda>outcome. io_return (outcome, rs_rollback result)))"
      have m: "?m result t = (q, t') \<Longrightarrow> ss_outside t' = ss_outside t" for result t q t'
        using conclude_step [of env p sp u result "''accepted proposal is not visible after apply''" t]
        by (fastforce simp: io_bind_def split: prod.splits sum.splits)
      show ?thesis
      proof (rule run_applier [OF assms(1) resolved(2)], goal_cases)
        case (1 result s1 r s2)
        then show ?case by (rule m)
      next
        case (2 e)
        then show ?case using that(1) unbundled patch gate by simp
      next
        case ran: (3 x result s4)
        then obtain out where out: "x = (out, rs_rollback result)"
            "conclude env p sp u result ''accepted proposal is not visible after apply'' s4 = (Inr out, s')"
          by (auto simp: io_bind_def split: prod.splits sum.splits)
        have "gate_open env p u (ss_db s)" using gate unbundled patch by simp
        moreover have "keeps_decisions (ss_db s) (ss_db s4)" using ran(3) gate unbundled patch by simp
        ultimately have "applied_proposal env p sp u id (ss_db s) (ss_db s') (ao_proposal out)"
          using conclude_applied [OF out(2)] ran(5) by simp
        then show ?case using that(2) [of out "rs_rollback result"] ran out(1) unbundled patch gate by simp
      qed
    qed
  qed
qed

end

definition add_approval :: "approval_row \<Rightarrow> 'd tables \<Rightarrow> 'd tables" where
  "add_approval new t = t\<lparr>tb_approvals := tb_approvals t @ [new]\<rparr>"

lemma insert_approval_step:
  "insert_approval new s = (r, s1) \<Longrightarrow>
     (\<exists>e. r = Inl e) \<and> s1 = s \<or> r = Inr () \<and> s1 = s\<lparr>ss_db := add_approval new (ss_db s)\<rparr>"
  by (auto simp: insert_approval_def add_approval_def split: if_splits)

lemma consume_grant_step:
  assumes "consume_grant env u s = (r, s1)"
  shows "\<exists>g gs. r = Inr g \<and> s1 = s\<lparr>ss_db := (ss_db s)\<lparr>tb_grants := gs\<rparr>\<rparr> \<and>
    consumeMatching (pe_locked env) u (pe_now env) (tb_grants (ss_db s)) = (g, gs)"
  using assms by (auto simp: consume_grant_def Let_def split: prod.splits)

context governed_appliers
begin

lemma apply_on_grant_step:
  assumes "pe_registry env = reg" and "apply_on_grant env a p g s = (r, s')"
  obtains (failed) e where "r = Inl e" and "ss_outside s' = ss_outside s"
    | (accepted) out rb where "r = Inr (out, rb)" and "undone rb (ss_outside s') = ss_outside s"
      and "applied_proposal env p (prop_space_id p) (ag_granted_by_user_id g)
             (add_approval (grant_approval env a p g)) (ss_db s) (ss_db s') (ao_proposal out)"
  using assms(2) unfolding apply_on_grant_def Let_def
proof (cases rule: io_bind_cases)
  case (rejected e)
  then show ?thesis using failed enforce_policy_step by metis
next
  case (resolved z s1)
  note gate = enforce_policy_step [OF resolved(1)]
  let ?u = "ag_granted_by_user_id g"
  let ?message = "''accepted proposal is not visible after grant apply''"
  let ?m = "\<lambda>result. io_bind (insert_approval (grant_approval env a p g)) (\<lambda>_. io_bind
    (conclude env p (prop_space_id p) ?u result ?message) (\<lambda>outcome. io_return (outcome, rs_rollback result)))"
  have m: "ss_outside t' = ss_outside t" if "?m result t = (q, t')" for result t q t'
    using that
  proof (cases rule: io_bind_cases)
    case (rejected e)
    then show ?thesis using insert_approval_step by blast
  next
    case (resolved x t1)
    then have "ss_outside t1 = ss_outside t" using insert_approval_step by fastforce
    with resolved(2) conclude_step [of env p "prop_space_id p" ?u result ?message t1] show ?thesis
      by (fastforce simp: io_bind_def split: prod.splits sum.splits)
  qed
  show ?thesis
  proof (rule run_applier [OF assms(1) resolved(2)], goal_cases)
    case (1 result s1 r s2)
    then show ?case by (rule m)
  next
    case (2 e)
    then show ?case using that(1) gate by simp
  next
    case ran: (3 x result s2)
    from ran(2) show ?case
    proof (cases rule: io_bind_cases)
      case (resolved y s3)
      then have s3: "ss_db s3 = add_approval (grant_approval env a p g) (ss_db s2)"
        using insert_approval_step [OF resolved(1)] by auto
      from resolved(2) obtain out where out: "x = (out, rs_rollback result)"
          "conclude env p (prop_space_id p) ?u result ?message s3 = (Inr out, s')"
        by (auto simp: io_bind_def split: prod.splits sum.splits)
      have "gate_open env p ?u (ss_db s)" using gate by simp
      moreover have "keeps_decisions (ss_db s) (ss_db s2)" using ran(3) gate by simp
      ultimately have "applied_proposal env p (prop_space_id p) ?u (add_approval (grant_approval env a p g))
          (ss_db s) (ss_db s') (ao_proposal out)"
        using conclude_applied [OF out(2)] s3 ran(5) by simp
      then show ?thesis using that(2) [of out "rs_rollback result"] ran out(1) gate by simp
    qed simp
  qed
qed

text \<open>Whatever an operation answers, either nothing changed or a proposal was decided.\<close>

lemma accept_step:
  assumes "pe_registry env = reg" and "accept env i sp u opts s = (r, s')"
  obtains (unchanged) "\<nexists>out. r = Inr (Some out)" and "ss_db s' = ss_db s" and "ss_outside s' = ss_outside s"
    | (accepted) p out where "r = Inr (Some out)" and "acceptable sp u i (ss_db s) = Some p"
      and "op_allow_bundle_member opts \<or> active_bundle_of (prop_id p) (ss_db s) = None"
      and "\<not> unconfirmed_patch p (op_confirm_incomplete opts)"
      and "applied_proposal env p sp u id (ss_db s) (ss_db s') (ao_proposal out)"
proof (cases "acceptable sp u i (ss_db s)")
  case None
  with assms(2) have "\<nexists>out. r = Inr (Some out)" "ss_db s' = ss_db s" "ss_outside s' = ss_outside s"
    by (auto simp: accept_def acceptInTransaction_def commit_def compensate_def split: if_splits)
  then show ?thesis by (rule unchanged)
next
  case (Some p)
  obtain q s1 where run: "accept_pending env sp u opts (io_return ()) p s = (q, s1)" by fastforce
  from assms(1) run show ?thesis
  proof (rule accept_pending_step, goal_cases)
    case (1 e)
    with assms(2) run have "r = Inl (normalizeApplyError (normalizeApplyError e))" "s' = s1\<lparr>ss_db := ss_db s\<rparr>"
      by (simp_all add: accept_def acceptInTransaction_def Some io_lift_def io_bind_def)
    then show ?case using unchanged 1 by simp
  next
    case (2 out rb)
    then have acc: "accept env i sp u opts s = commit env rb (ss_db s) (Some out) s1"
      using run by (simp add: accept_def acceptInTransaction_def Some io_lift_def io_bind_def)
    show ?case
    proof (cases "pe_commits env (ss_db s1)")
      case True
      with acc assms(2) have "r = Inr (Some out)" "s' = s1" by (simp_all add: commit_def)
      then show ?thesis using accepted [of out p] Some 2 by simp
    next
      case False
      with acc assms(2) have "\<nexists>out. r = Inr (Some out)" "s' = compensate rb (s1\<lparr>ss_db := ss_db s\<rparr>)"
        by (auto simp: commit_def)
      then show ?thesis using unchanged 2 by (simp add: undone_def compensate_def split: option.splits)
    qed
  qed
qed

lemma consumed_step:
  assumes "pe_registry env = reg"
    and "io_bind (consume_grant env u) (\<lambda>grant. case grant of
        None \<Rightarrow> io_return None
      | Some g \<Rightarrow> io_bind (apply_on_grant env a p g) (\<lambda>out. io_return (Some out))) s = (q, s')"
  obtains (undecided) "\<nexists>x. q = Inr (Some x)" and "ss_outside s' = ss_outside s"
    | (granted) g out rb where "q = Inr (Some (out, rb))" and "undone rb (ss_outside s') = ss_outside s"
      and "best_grant (pe_locked env) u (pe_now env) (tb_grants (ss_db s)) g"
      and "applied_proposal env p (prop_space_id p) (ag_granted_by_user_id g)
        (add_approval (grant_approval env a p g))
        ((ss_db s)\<lparr>tb_grants := sql_update (\<lambda>h. ag_id h = ag_id g) (use_once (pe_now env)) (tb_grants (ss_db s))\<rparr>)
        (ss_db s') (ao_proposal out)"
  using assms(2)
proof (cases rule: io_bind_cases)
  case (rejected e)
  then show ?thesis using undecided consume_grant_step by fastforce
next
  case (resolved grant s1)
  from consume_grant_step [OF resolved(1)] obtain gs where s1: "s1 = s\<lparr>ss_db := (ss_db s)\<lparr>tb_grants := gs\<rparr>\<rparr>"
    and consumed: "consumeMatching (pe_locked env) u (pe_now env) (tb_grants (ss_db s)) = (grant, gs)"
    by auto
  show ?thesis
  proof (cases grant)
    case None
    with resolved(2) s1 show ?thesis using undecided by auto
  next
    case (Some used)
    obtain g where g: "best_grant (pe_locked env) u (pe_now env) (tb_grants (ss_db s)) g"
      "used = use_once (pe_now env) g"
      "gs = sql_update (\<lambda>h. ag_id h = ag_id g) (use_once (pe_now env)) (tb_grants (ss_db s))"
      using consumed unfolding Some by (rule consume_some)
    obtain w s2 where applied: "apply_on_grant env a p used s1 = (w, s2)" by fastforce
    from assms(1) applied show ?thesis
    proof (rule apply_on_grant_step, goal_cases)
      case (1 e)
      then show ?case using resolved(2) applied s1 undecided by (auto simp: Some io_bind_def)
    next
      case (2 out rb)
      then show ?case
        using resolved(2) applied s1 g granted [of out rb g] by (auto simp: Some io_bind_def grant_approval_def)
    qed
  qed
qed

lemma accept_on_grant_step:
  assumes "pe_registry env = reg" and "accept_on_grant env a p agent s = (q, s')"
  obtains (undecided) "\<nexists>x. q = Inr (Some x)" and "ss_outside s' = ss_outside s"
    | (granted) g out rb where "q = Inr (Some (out, rb))" and "undone rb (ss_outside s') = ss_outside s"
      and "active_bundle_of (prop_id p) (ss_db s) = None" and "grantable_proposal a p"
      and "best_grant (pe_locked env) (grant_use_of a p agent) (pe_now env) (tb_grants (ss_db s)) g"
      and "applied_proposal env p (prop_space_id p) (ag_granted_by_user_id g)
        (add_approval (grant_approval env a p g))
        ((ss_db s)\<lparr>tb_grants := sql_update (\<lambda>h. ag_id h = ag_id g) (use_once (pe_now env)) (tb_grants (ss_db s))\<rparr>)
        (ss_db s') (ao_proposal out)"
  using assms(2) unfolding accept_on_grant_def
proof (cases rule: io_bind_cases)
  case (rejected e)
  then show ?thesis using undecided bundle_step by blast
next
  case (resolved x s1)
  note unbundled = bundle_step [OF resolved(1)]
  show ?thesis
  proof (cases "grantable_proposal a p")
    case False
    with resolved(2) unbundled show ?thesis using undecided by auto
  next
    case True
    then have "io_bind (consume_grant env (grant_use_of a p agent)) (\<lambda>grant. case grant of
        None \<Rightarrow> io_return None
      | Some g \<Rightarrow> io_bind (apply_on_grant env a p g) (\<lambda>out. io_return (Some out))) s = (q, s')"
      using resolved(2) unbundled by simp
    with assms(1) show ?thesis
    proof (rule consumed_step, goal_cases)
      case 1
      then show ?case by (rule undecided)
    next
      case (2 g out rb)
      have "active_bundle_of (prop_id p) (ss_db s) = None" using unbundled by simp
      then show ?case by (rule granted [OF 2(1,2) _ True 2(3,4)])
    qed
  qed
qed

lemma grant_step:
  assumes "pe_registry env = reg" and "acceptAgentProposalIfGranted env i a s = (r, s')"
  obtains (unchanged) "\<nexists>out. r = Inr (Some out)" and "ss_db s' = ss_db s" and "ss_outside s' = ss_outside s"
    | (granted) p agent g out where "r = Inr (Some out)" and "getProposalForUpdate i (ss_db s) = Some p"
      and "prop_status p = ''pending''" and "\<not> prop_preview p" and "prop_created_by_agent_id p = Some agent"
      and "active_bundle_of (prop_id p) (ss_db s) = None" and "grantable_proposal a p"
      and "best_grant (pe_locked env) (grant_use_of a p agent) (pe_now env) (tb_grants (ss_db s)) g"
      and "applied_proposal env p (prop_space_id p) (ag_granted_by_user_id g)
        (add_approval (grant_approval env a p g))
        ((ss_db s)\<lparr>tb_grants := sql_update (\<lambda>h. ag_id h = ag_id g) (use_once (pe_now env)) (tb_grants (ss_db s))\<rparr>)
        (ss_db s') (ao_proposal out)"
proof (cases "\<exists>p agent. getProposalForUpdate i (ss_db s) = Some p \<and> prop_status p = ''pending'' \<and> \<not> prop_preview p \<and>
    prop_created_by_agent_id p = Some agent \<and> agent \<noteq> []")
  case False
  with assms(2) have "r = Inr None" "s' = s"
    by (auto simp: acceptAgentProposalIfGranted_def split: option.splits if_splits)
  then show ?thesis by (intro unchanged) auto
next
  case True
  then obtain p agent where p: "getProposalForUpdate i (ss_db s) = Some p" "prop_status p = ''pending''" "\<not> prop_preview p"
    and agent: "prop_created_by_agent_id p = Some agent" "agent \<noteq> []" by blast
  obtain q s1 where run: "accept_on_grant env a p agent s = (q, s1)" by fastforce
  have op: "(case (q, s1) of (Inl e, s1) \<Rightarrow> (Inl e, s1\<lparr>ss_db := ss_db s\<rparr>)
      | (Inr None, s1) \<Rightarrow> (Inr None, s1\<lparr>ss_db := ss_db s\<rparr>)
      | (Inr (Some (outcome, rb)), s1) \<Rightarrow> commit env rb (ss_db s) (Some outcome) s1) = (r, s')"
    using assms(2) p agent run by (simp add: acceptAgentProposalIfGranted_def)
  from assms(1) run show ?thesis
  proof (rule accept_on_grant_step, goal_cases)
    case 1
    then show ?case using op by (intro unchanged) (auto split: sum.splits option.splits)
  next
    case (2 g out rb)
    then have c: "commit env rb (ss_db s) (Some out) s1 = (r, s')" using op by simp
    show ?case
    proof (cases "pe_commits env (ss_db s1)")
      case True
      with c have "r = Inr (Some out)" "s' = s1" by (simp_all add: commit_def)
      then show ?thesis using granted [of out p agent g] p agent 2 by simp
    next
      case False
      with c have "\<nexists>out. r = Inr (Some out)" "s' = compensate rb (s1\<lparr>ss_db := ss_db s\<rparr>)"
        by (auto simp: commit_def)
      then show ?thesis using unchanged 2 by (simp add: undone_def compensate_def split: option.splits)
    qed
  qed
qed

end

lemma release_rest [simp]:
  "tb_approvals (reject_tables now i sp u p t) = tb_approvals t"
  "tb_grants (reject_tables now i sp u p t) = tb_grants t"
  by (auto simp: reject_tables_def releaseRejectedSourceBackfillPlan_def releaseRejectedSourceChannelDraft_def
      releaseRejectedSourceRecipeVersion_def releaseRejectedCustomSourceHandlerVersion_def split: option.splits)

lemma reject_step:
  assumes "reject env i sp u s = (r, s')"
  obtains (unchanged) "\<nexists>out. r = Inr (Some out)" and "ss_db s' = ss_db s" and "ss_outside s' = ss_outside s"
    | (rejected) p out where "r = Inr (Some out)" and "rejectable sp u i (ss_db s) = Some p"
      and "active_bundle_of (prop_id p) (ss_db s) = None" and "ss_outside s' = ss_outside s"
      and "ss_db s' = reject_tables (pe_now env) i sp u p (ss_db s)" and "getVisible sp u i (ss_db s') = Some out"
proof (cases "rejectable sp u i (ss_db s)")
  case None
  with assms show ?thesis
    by (intro unchanged) (auto simp: reject_def rejectTransaction_def commit_def compensate_def split: if_splits)
next
  case (Some p)
  show ?thesis
  proof (cases "active_bundle_of (prop_id p) (ss_db s)")
    case None
    let ?t = "reject_tables (pe_now env) i sp u p (ss_db s)"
    show ?thesis
    proof (cases "getVisible sp u i ?t")
      case (Some out)
      with None \<open>rejectable sp u i (ss_db s) = Some p\<close> have "commit env None (ss_db s) (Some out) (s\<lparr>ss_db := ?t\<rparr>) = (r, s')"
        using assms by (simp add: reject_def rejectTransaction_def assertBundleMemberMayBeDecided_def io_update_def
            read_decided_def io_bind_def)
      then show ?thesis
        using unchanged rejected [of out p] None Some \<open>rejectable sp u i (ss_db s) = Some p\<close>
        by (auto simp: commit_def compensate_def split: if_splits)
    next
      case invisible: None
      with None Some assms show ?thesis
        by (intro unchanged) (auto simp: reject_def rejectTransaction_def assertBundleMemberMayBeDecided_def io_update_def
            read_decided_def io_bind_def)
    qed
  next
    case (Some b)
    with \<open>rejectable sp u i (ss_db s) = Some p\<close> assms show ?thesis
      by (intro unchanged) (auto simp: reject_def rejectTransaction_def assertBundleMemberMayBeDecided_def io_bind_def)
  qed
qed

end
