(* ===== verification/ProposalHistory.thy ===== *)
theory ProposalHistory
  imports ProposalDecisions
begin

text \<open>
  Histories of decisions: any sequence of acceptances, acceptances on grants, rejections, egress
  approvals, creations and revocations of grants, new proposals, changes of who may read a proposal, and of
  work on other tables; their invariant, and what follows for grants and proposals.
\<close>

section \<open>Steps\<close>

text \<open>
  Proposals are content, so the owner of one, decided or not, may change who reads it: \<open>updatePolicy\<close> asks for no
  status.
\<close>

definition share_proposal :: "access_update \<Rightarrow> int \<Rightarrow> proposal_row \<Rightarrow> proposal_row" where
  "share_proposal update now p = p\<lparr>prop_visibility := Some (au_visibility update), prop_updated_at := now\<rparr>"

definition share_proposals :: "string \<Rightarrow> string \<Rightarrow> string \<Rightarrow> access_update \<Rightarrow> int \<Rightarrow> proposal_row list \<Rightarrow> proposal_row list" where
  "share_proposals sp ty rid update now ps =
     (if ty = ''proposal'' then sql_update (\<lambda>p. prop_space_id p = sp \<and> prop_id p = rid) (share_proposal update now) ps else ps)"

text \<open>
  These are all the statements of the program on proposals, approvals and grants: those of \<open>applyService.ts\<close> and
  \<open>actionApprovalGrantService.ts\<close>, the insertion of proposals (any row with a new id) and the update of their readers. Work elsewhere leaves these three tables alone and is otherwise free.
\<close>

inductive decision_step :: "('d, 'w) apply_state \<Rightarrow> ('d, 'w) apply_state \<Rightarrow> bool" where
  accepting: "governed_appliers (pe_registry env) \<Longrightarrow> accept env i sp u opts s = (r, s') \<Longrightarrow> decision_step s s'"
| granting: "governed_appliers (pe_registry env) \<Longrightarrow> acceptAgentProposalIfGranted env i a s = (r, s') \<Longrightarrow>
    decision_step s s'"
| rejecting: "reject env i sp u s = (r, s') \<Longrightarrow> decision_step s s'"
| approving: "approveEgressGrantingUser env i sp u grantId s = (r, s') \<Longrightarrow> decision_step s s'"
| creating: "create_grant genv sp u body i now (tb_grants (ss_db s)) = (r, gs) \<Longrightarrow>
    i \<notin> ag_id ` set (tb_grants (ss_db s)) \<Longrightarrow> decision_step s (s\<lparr>ss_db := (ss_db s)\<lparr>tb_grants := gs\<rparr>\<rparr>)"
| revoking: "revoke_grant db sp u i now (tb_grants (ss_db s)) = (r, gs) \<Longrightarrow>
    decision_step s (s\<lparr>ss_db := (ss_db s)\<lparr>tb_grants := gs\<rparr>\<rparr>)"
| proposing: "prop_id p \<notin> prop_id ` set (tb_proposals (ss_db s)) \<Longrightarrow>
    decision_step s (s\<lparr>ss_db := (ss_db s)\<lparr>tb_proposals := tb_proposals (ss_db s) @ [p]\<rparr>\<rparr>)"
| sharing: "updatePolicy (tb_access (ss_db s)) sp u ty rid update now = Inr (out, db') \<Longrightarrow>
    decision_step s (s\<lparr>ss_db := (ss_db s)\<lparr>tb_access := db',
      tb_proposals := share_proposals sp ty rid update now' (tb_proposals (ss_db s))\<rparr>\<rparr>)"
| elsewhere: "tb_proposals t = tb_proposals (ss_db s) \<Longrightarrow> tb_grants t = tb_grants (ss_db s) \<Longrightarrow>
    tb_approvals t = tb_approvals (ss_db s) \<Longrightarrow> decision_step s (s\<lparr>ss_db := t, ss_trail := es, ss_outside := w\<rparr>)"

abbreviation decision_steps :: "('d, 'w) apply_state \<Rightarrow> ('d, 'w) apply_state \<Rightarrow> bool" where
  "decision_steps \<equiv> decision_step\<^sup>*\<^sup>*"

section \<open>Decided rows stay\<close>

definition decided :: "proposal_row \<Rightarrow> bool" where
  "decided p \<longleftrightarrow> prop_status p \<noteq> ''pending''"

text \<open>All of a decided row but its readers and its time stamp.\<close>

definition same_decision :: "proposal_row \<Rightarrow> proposal_row \<Rightarrow> bool" where
  "same_decision p q \<longleftrightarrow> q = p\<lparr>prop_visibility := prop_visibility q, prop_updated_at := prop_updated_at q\<rparr>"

lemma same_decision_refl [simp]: "same_decision p p"
  by (simp add: same_decision_def)

lemma same_decision_trans:
  assumes "same_decision p q" and "same_decision q r"
  shows "same_decision p r"
proof -
  from assms have q: "q = p\<lparr>prop_visibility := prop_visibility q, prop_updated_at := prop_updated_at q\<rparr>"
    and r: "r = q\<lparr>prop_visibility := prop_visibility r, prop_updated_at := prop_updated_at r\<rparr>"
    by (simp_all only: same_decision_def)
  have "r = p\<lparr>prop_visibility := prop_visibility q, prop_updated_at := prop_updated_at q,
      prop_visibility := prop_visibility r, prop_updated_at := prop_updated_at r\<rparr>"
    using r unfolding q [symmetric] .
  then show ?thesis unfolding same_decision_def by simp
qed

lemma same_decisionD:
  assumes "same_decision p q"
  shows "prop_id q = prop_id p" and "prop_status q = prop_status p" and "decided q = decided p"
proof -
  from assms have q: "q = p\<lparr>prop_visibility := prop_visibility q, prop_updated_at := prop_updated_at q\<rparr>"
    by (simp only: same_decision_def)
  show "prop_id q = prop_id p" "prop_status q = prop_status p" "decided q = decided p"
    unfolding decided_def by (subst q, simp)+
qed

definition decided_kept :: "'d tables \<Rightarrow> 'd tables \<Rightarrow> bool" where
  "decided_kept t t' \<longleftrightarrow>
     (distinct (map prop_id (tb_proposals t)) \<longrightarrow> distinct (map prop_id (tb_proposals t'))) \<and>
     (\<forall>p \<in> set (tb_proposals t). decided p \<longrightarrow> (\<exists>q \<in> set (tb_proposals t'). same_decision p q))"

lemma decided_kept_refl [simp]: "decided_kept t t"
  by (auto simp: decided_kept_def intro: same_decision_refl)

lemma decided_kept_trans:
  assumes "decided_kept t t'" and "decided_kept t' t''"
  shows "decided_kept t t''"
  using assms same_decision_trans same_decisionD(3) unfolding decided_kept_def by metis

lemma exact_kept:
  assumes "distinct (map prop_id (tb_proposals t)) \<longrightarrow> distinct (map prop_id (tb_proposals t'))"
    and "\<And>p. p \<in> set (tb_proposals t) \<Longrightarrow> decided p \<Longrightarrow> p \<in> set (tb_proposals t')"
  shows "decided_kept t t'"
  using assms same_decision_refl unfolding decided_kept_def by blast

lemma keeps_decided: "keeps_decisions t t' \<Longrightarrow> decided_kept t t'"
  by (intro exact_kept) (auto simp: keeps_decisions_def decided_def)

lemma proposed_kept:
  assumes "prop_id p \<notin> prop_id ` set (tb_proposals t)"
  shows "decided_kept t (t\<lparr>tb_proposals := tb_proposals t @ [p]\<rparr>)"
  by (intro exact_kept) (use assms in simp_all)

lemma shared_kept:
  "decided_kept t (t\<lparr>tb_access := db, tb_proposals := share_proposals sp ty rid update now (tb_proposals t)\<rparr>)"
proof -
  let ?ps = "share_proposals sp ty rid update now (tb_proposals t)"
  have same: "same_decision p (share_proposal update now p)" for p by (simp add: same_decision_def share_proposal_def)
  have "map prop_id ?ps = map prop_id (tb_proposals t)"
    by (simp add: share_proposals_def share_proposal_def map_sql_update)
  then have ids: "distinct (map prop_id ?ps) = distinct (map prop_id (tb_proposals t))" by (simp only:)
  have "\<exists>q \<in> set ?ps. same_decision p q" if "p \<in> set (tb_proposals t)" for p
  proof -
    have "p \<in> set ?ps \<or> share_proposal update now p \<in> set ?ps"
      using that by (auto simp: share_proposals_def in_sql_update)
    then show ?thesis using same [of p] same_decision_refl [of p] by blast
  qed
  then show ?thesis by (simp add: decided_kept_def ids)
qed

text \<open>Updating pending rows keeps the decided ones.\<close>

lemma pending_update:
  assumes "\<And>p. P p \<Longrightarrow> \<not> decided p" and "\<And>p. prop_id (f p) = prop_id p"
  shows "decided_kept t (t\<lparr>tb_proposals := sql_update P f (tb_proposals t)\<rparr>)"
proof -
  have "p \<in> set (sql_update P f (tb_proposals t))" if "p \<in> set (tb_proposals t)" "decided p" for p
    using that assms(1) by (auto simp: in_sql_update)
  then show ?thesis using assms(2) by (intro exact_kept) (simp_all add: map_sql_update)
qed

lemma same_proposals: "tb_proposals t' = tb_proposals t \<Longrightarrow> decided_kept t t'"
  by (intro exact_kept) simp_all

lemma mark_final_kept: "decided_kept t (markProposalFinal p now u status patch t)"
  unfolding markProposalFinal_def by (rule pending_update) (simp_all add: pending_row_def decided_def final_row_def)

lemma reject_kept: "decided_kept t (reject_tables now i sp u p t)"
proof -
  let ?t1 = "t\<lparr>tb_proposals := sql_update (pending_row i sp) (rejected_row now u) (tb_proposals t)\<rparr>"
  have 1: "decided_kept t ?t1"
    by (rule pending_update) (simp_all add: pending_row_def decided_def rejected_row_def)
  let ?t2 = "releaseRejectedSourceRecipeVersion i sp (releaseRejectedCustomSourceHandlerVersion i sp ?t1)"
  have 2: "decided_kept ?t1 ?t2"
    by (rule same_proposals)
      (simp add: releaseRejectedSourceRecipeVersion_def releaseRejectedCustomSourceHandlerVersion_def)
  have 3: "decided_kept ?t2 (releaseRejectedSourceChannelDraft p now ?t2)"
  proof (cases "prop_proposal_type p = ''source_channel_activation''")
    case True
    have draft: "decided_kept q (q\<lparr>tb_sources := so, tb_proposals := sql_update (depends_on p)
        (\<lambda>q. q\<lparr>prop_status := ''superseded'', prop_updated_at := now\<rparr>) (tb_proposals q)\<rparr>)" for q :: "'a tables" and so
      using pending_update [of "depends_on p" "\<lambda>q. q\<lparr>prop_status := ''superseded'', prop_updated_at := now\<rparr>" "q\<lparr>tb_sources := so\<rparr>"]
      by (simp add: depends_on_def decided_def decided_kept_def)
    show ?thesis
      by (cases "payloadString (get (payload_of p) ''source_channel_id'')")
        (simp_all add: releaseRejectedSourceChannelDraft_def True draft)
  qed (simp add: releaseRejectedSourceChannelDraft_def)
  have 4: "decided_kept q (releaseRejectedSourceBackfillPlan p now q)" for q :: "'a tables"
    by (rule same_proposals) (simp add: releaseRejectedSourceBackfillPlan_def split: option.splits)
  show ?thesis
    unfolding reject_tables_def by (rule decided_kept_trans [OF decided_kept_trans [OF decided_kept_trans [OF 1 2] 3] 4])
qed

lemma applied_kept:
  assumes "applied_proposal env p sp u prepare t t' out" and "\<And>t. tb_proposals (prepare t) = tb_proposals t"
  shows "decided_kept t t'"
proof -
  from assms(1) obtain applied status patch where a: "keeps_decisions t applied"
    and t': "t' = markProposalFinal p (pe_now env) u status patch (prepare applied)"
    by (auto simp: applied_proposal_def)
  show ?thesis
    unfolding t'
    by (rule decided_kept_trans [OF decided_kept_trans [OF keeps_decided [OF a] same_proposals [OF assms(2)]] mark_final_kept])
qed

lemma egress_tables:
  assumes "approveEgressGrantingUser env i sp u grantId s = (r, s')"
  obtains "s' = s" | new where "pa_approval_type new = ''egress_granting_user''" and "pa_action_grant_id new = None"
    and "s' = s\<lparr>ss_db := add_approval new (ss_db s)\<rparr>"
proof (cases "approve_egress_tables env i sp u grantId (ss_db s)")
  case (Inl e)
  with assms show ?thesis by (auto simp: approveEgressGrantingUser_def intro: that(1))
next
  case (Inr res)
  obtain a t where res: "res = (a, t)" by fastforce
  have t: "t = ss_db s \<or> (\<exists>p g grant. t = add_approval (egress_approval env p u grant g) (ss_db s))"
    using Inr unfolding res
    by (auto simp: approve_egress_tables_def bind_sum_def Let_def add_approval_def split: option.splits sum.splits if_splits)
  have "s' = s \<or> s' = s\<lparr>ss_db := t\<rparr>"
    using assms by (auto simp: approveEgressGrantingUser_def Inr res commit_def compensate_def split: if_splits)
  moreover have "s\<lparr>ss_db := ss_db s\<rparr> = s" by simp
  ultimately consider "s' = s" | (new) p g grant where "s' = s\<lparr>ss_db := add_approval (egress_approval env p u grant g) (ss_db s)\<rparr>"
    using t by metis
  then show ?thesis
  proof cases
    case (new p g grant)
    then show ?thesis using that(2) [of "egress_approval env p u grant g"] by (simp add: egress_approval_def)
  qed (rule that(1))
qed

section \<open>Deciding\<close>

lemma applied_decided:
  assumes "applied_proposal env p (prop_space_id p) u prepare t t' out"
  shows "out \<in> set (tb_proposals t') \<and> prop_id out = prop_id p \<and> decided out"
proof -
  from assms obtain applied status patch where fin: "status \<in> final_statuses"
    and t': "t' = markProposalFinal p (pe_now env) u status patch (prepare applied)"
    and visible: "getVisible (prop_space_id p) u (prop_id p) t' = Some out"
    by (auto simp: applied_proposal_def)
  from visible have out: "out \<in> set (tb_proposals t')" "prop_id out = prop_id p" "prop_space_id out = prop_space_id p"
    by (auto simp: getVisible_def find_Some_iff split: if_splits)
  then obtain r where "out = (if pending_row (prop_id p) (prop_space_id p) r
      then final_row (pe_now env) u status patch r else r)"
    by (auto simp: t' markProposalFinal_def in_sql_update)
  then have "decided out" using fin out by (auto simp: final_row_def final_statuses_def decided_def pending_row_def)
  with out show ?thesis by simp
qed

section \<open>The accounts\<close>

definition names_grant :: "string \<Rightarrow> approval_row \<Rightarrow> bool" where
  "names_grant i a \<longleftrightarrow> pa_action_grant_id a = Some i"

definition grant_approvals :: "'d tables \<Rightarrow> approval_row list" where
  "grant_approvals t = filter (\<lambda>a. pa_action_grant_id a \<noteq> None) (tb_approvals t)"

text \<open>
  Each use of a grant is one approval that names it, each such approval belongs to a proposal of its own,
  and that proposal is decided.
\<close>

definition accounts_ok :: "'d tables \<Rightarrow> bool" where
  "accounts_ok t \<longleftrightarrow>
     grant_table_ok (tb_grants t) \<and> distinct (map prop_id (tb_proposals t)) \<and>
     (\<forall>g \<in> set (tb_grants t). ag_use_count g = length (filter (names_grant (ag_id g)) (tb_approvals t))) \<and>
     (\<forall>a \<in> set (grant_approvals t). the (pa_action_grant_id a) \<in> ag_id ` set (tb_grants t)) \<and>
     distinct (map pa_proposal_id (grant_approvals t)) \<and>
     (\<forall>a \<in> set (grant_approvals t). \<exists>p \<in> set (tb_proposals t). decided p \<and> prop_id p = pa_proposal_id a)"

lemma accounts_okD:
  assumes "accounts_ok t"
  shows "grant_table_ok (tb_grants t)" and "distinct (map prop_id (tb_proposals t))"
    and "g \<in> set (tb_grants t) \<Longrightarrow> ag_use_count g = length (filter (names_grant (ag_id g)) (tb_approvals t))"
    and "a \<in> set (grant_approvals t) \<Longrightarrow> the (pa_action_grant_id a) \<in> ag_id ` set (tb_grants t)"
    and "distinct (map pa_proposal_id (grant_approvals t))"
    and "a \<in> set (grant_approvals t) \<Longrightarrow> \<exists>p \<in> set (tb_proposals t). decided p \<and> prop_id p = pa_proposal_id a"
  using assms by (simp_all add: accounts_ok_def)

lemma accounts_okI:
  assumes "grant_table_ok (tb_grants t)" and "distinct (map prop_id (tb_proposals t))"
    and "\<And>g. g \<in> set (tb_grants t) \<Longrightarrow> ag_use_count g = length (filter (names_grant (ag_id g)) (tb_approvals t))"
    and "\<And>a. a \<in> set (grant_approvals t) \<Longrightarrow> the (pa_action_grant_id a) \<in> ag_id ` set (tb_grants t)"
    and "distinct (map pa_proposal_id (grant_approvals t))"
    and "\<And>a. a \<in> set (grant_approvals t) \<Longrightarrow> \<exists>p \<in> set (tb_proposals t). decided p \<and> prop_id p = pa_proposal_id a"
  shows "accounts_ok t"
  using assms by (simp add: accounts_ok_def)

lemma decided_keptD:
  "decided_kept t t' \<Longrightarrow> distinct (map prop_id (tb_proposals t)) \<Longrightarrow> distinct (map prop_id (tb_proposals t'))"
  "decided_kept t t' \<Longrightarrow> \<exists>p \<in> set (tb_proposals t). decided p \<and> prop_id p = i \<Longrightarrow>
     \<exists>p \<in> set (tb_proposals t'). decided p \<and> prop_id p = i"
  using same_decisionD unfolding decided_kept_def by metis+

lemma accounts_same:
  assumes ok: "accounts_ok t" and kept: "decided_kept t t'" and same: "tb_grants t' = tb_grants t"
    "tb_approvals t' = tb_approvals t"
  shows "accounts_ok t'"
proof -
  have approvals: "grant_approvals t' = grant_approvals t" by (simp add: grant_approvals_def same)
  show ?thesis
  proof (rule accounts_okI)
    show "\<exists>p \<in> set (tb_proposals t'). decided p \<and> prop_id p = pa_proposal_id a" if "a \<in> set (grant_approvals t')" for a
      using that by (intro decided_keptD(2) [OF kept] accounts_okD(6) [OF ok]) (simp add: approvals)
    show "grant_table_ok (tb_grants t')" using accounts_okD(1) [OF ok] by (simp add: same)
    show "distinct (map prop_id (tb_proposals t'))" by (rule decided_keptD(1) [OF kept accounts_okD(2) [OF ok]])
    show "ag_use_count g = length (filter (names_grant (ag_id g)) (tb_approvals t'))" if "g \<in> set (tb_grants t')" for g
      using accounts_okD(3) [OF ok, of g] that unfolding same .
    show "the (pa_action_grant_id a) \<in> ag_id ` set (tb_grants t')" if "a \<in> set (grant_approvals t')" for a
      using accounts_okD(4) [OF ok, of a] that unfolding same approvals .
    show "distinct (map pa_proposal_id (grant_approvals t'))" using accounts_okD(5) [OF ok] by (simp add: approvals)
  qed
qed

lemma accounts_egress:
  assumes "accounts_ok t" and "pa_action_grant_id new = None"
  shows "accounts_ok (add_approval new t)"
  using assms by (simp add: accounts_ok_def add_approval_def grant_approvals_def names_grant_def)

lemma accounts_grants:
  assumes ok: "accounts_ok t" and table: "grant_table_ok gs" and kept: "counts_kept (tb_grants t) gs"
  shows "accounts_ok (t\<lparr>tb_grants := gs\<rparr>)"
proof -
  have ids: "ag_id ` set (tb_grants t) \<subseteq> ag_id ` set gs" using kept by (simp add: counts_kept_def)
  have rows: "(\<exists>h \<in> set (tb_grants t). ag_id h = ag_id g \<and> ag_use_count h = ag_use_count g) \<or>
      ag_id g \<notin> ag_id ` set (tb_grants t) \<and> ag_use_count g = 0" if "g \<in> set gs" for g
    using kept that by (simp add: counts_kept_def)
  have "ag_use_count g = length (filter (names_grant (ag_id g)) (tb_approvals t))" if g: "g \<in> set gs" for g
    using rows [OF g]
  proof
    assume "\<exists>h \<in> set (tb_grants t). ag_id h = ag_id g \<and> ag_use_count h = ag_use_count g"
    then obtain h where "h \<in> set (tb_grants t)" "ag_id h = ag_id g" "ag_use_count h = ag_use_count g" by blast
    then show ?thesis using accounts_okD(3) [OF ok, of h] by simp
  next
    assume fresh: "ag_id g \<notin> ag_id ` set (tb_grants t) \<and> ag_use_count g = 0"
    have "\<not> names_grant (ag_id g) a" if "a \<in> set (tb_approvals t)" for a
    proof
      assume "names_grant (ag_id g) a"
      with that have "a \<in> set (grant_approvals t)" "the (pa_action_grant_id a) = ag_id g"
        by (auto simp: grant_approvals_def names_grant_def)
      then show False using accounts_okD(4) [OF ok, of a] fresh by simp
    qed
    with fresh show ?thesis by (simp add: filter_empty_conv)
  qed
  moreover have "\<forall>a \<in> set (grant_approvals t). the (pa_action_grant_id a) \<in> ag_id ` set gs"
    using ok ids by (auto simp: accounts_ok_def)
  ultimately show ?thesis using ok table by (simp add: accounts_ok_def grant_approvals_def)
qed

lemma accounts_used:
  assumes ok: "accounts_ok t" and p: "p \<in> set (tb_proposals t)" "\<not> decided p"
    and best: "best_grant locked u now (tb_grants t) g"
    and table: "grant_table_ok (sql_update (\<lambda>h. ag_id h = ag_id g) (use_once now) (tb_grants t))"
    and applied: "applied_proposal env p (prop_space_id p) user (add_approval new)
      (t\<lparr>tb_grants := sql_update (\<lambda>h. ag_id h = ag_id g) (use_once now) (tb_grants t)\<rparr>) t' out"
    and new: "pa_action_grant_id new = Some (ag_id g)" "pa_proposal_id new = prop_id p"
  shows "accounts_ok t'"
proof -
  let ?gs = "sql_update (\<lambda>h. ag_id h = ag_id g) (use_once now) (tb_grants t)"
  note out = applied_decided [OF applied]
  from applied have kept: "decided_kept (t\<lparr>tb_grants := ?gs\<rparr>) t'"
    by (rule applied_kept) (simp add: add_approval_def)
  have tables: "tb_grants t' = ?gs" "tb_approvals t' = tb_approvals t @ [new]"
    using applied by (auto simp: applied_proposal_def keeps_decisions_def markProposalFinal_def add_approval_def)
  have g: "g \<in> set (tb_grants t)" using best by (simp add: best_grant_def)
  have counts: "ag_use_count h = length (filter (names_grant (ag_id h)) (tb_approvals t'))" if h: "h \<in> set ?gs" for h
  proof -
    obtain k where k: "k \<in> set (tb_grants t)" "h = (if ag_id k = ag_id g then use_once now k else k)"
      using h by (auto simp: in_sql_update)
    then show ?thesis using accounts_okD(3) [OF ok k(1)] new by (simp add: tables names_grant_def)
  qed
  have unused: "pa_proposal_id a \<noteq> prop_id p" if mem: "a \<in> set (grant_approvals t)" for a
  proof
    assume a: "pa_proposal_id a = prop_id p"
    obtain q where q: "q \<in> set (tb_proposals t)" "decided q" "prop_id q = prop_id p"
      using accounts_okD(6) [OF ok mem] by (auto simp: a)
    then have "q = p" using accounts_okD(2) [OF ok] p(1) by (simp add: distinct_map inj_on_def)
    with q p show False by simp
  qed
  have "grant_approvals t' = grant_approvals t @ [new]" by (simp add: grant_approvals_def tables new)
  moreover have "ag_id ` set ?gs = ag_id ` set (tb_grants t)"
    using arg_cong [OF map_sql_update [of ag_id "use_once now" "\<lambda>h. ag_id h = ag_id g" "tb_grants t"], of set] by simp
  moreover have "\<exists>q \<in> set (tb_proposals t'). decided q \<and> prop_id q = pa_proposal_id a" if "a \<in> set (grant_approvals t)" for a
  proof -
    have "\<exists>q \<in> set (tb_proposals (t\<lparr>tb_grants := ?gs\<rparr>)). decided q \<and> prop_id q = pa_proposal_id a"
      using accounts_okD(6) [OF ok that] by simp
    then show ?thesis by (rule decided_keptD(2) [OF kept])
  qed
  ultimately have approvals: "grant_approvals t' = grant_approvals t @ [new]"
    and ids: "ag_id ` set ?gs = ag_id ` set (tb_grants t)"
    and decisions: "\<And>a. a \<in> set (grant_approvals t) \<Longrightarrow>
      \<exists>q \<in> set (tb_proposals t'). decided q \<and> prop_id q = pa_proposal_id a" by blast+
  show ?thesis
  proof (rule accounts_okI)
    show "grant_table_ok (tb_grants t')" using table by (simp add: tables)
    show "distinct (map prop_id (tb_proposals t'))"
      using decided_keptD(1) [OF kept] accounts_okD(2) [OF ok] by simp
    have "prop_id p \<notin> pa_proposal_id ` set (grant_approvals t)" using unused by (metis imageE)
    then show "distinct (map pa_proposal_id (grant_approvals t'))"
      using accounts_okD(5) [OF ok] new by (simp add: approvals)
    show "the (pa_action_grant_id a) \<in> ag_id ` set (tb_grants t')" if "a \<in> set (grant_approvals t')" for a
      using that accounts_okD(4) [OF ok, of a] g new unfolding tables ids by (auto simp: approvals)
    show "\<exists>q \<in> set (tb_proposals t'). decided q \<and> prop_id q = pa_proposal_id a" if "a \<in> set (grant_approvals t')" for a
      using that decisions [of a] out new by (auto simp: approvals)
  qed (simp add: tables(1) counts)
qed

section \<open>Every step\<close>

lemma find_pending: "getProposalForUpdate i t = Some p \<Longrightarrow> p \<in> set (tb_proposals t) \<and> prop_id p = i"
  by (auto simp: getProposalForUpdate_def find_Some_iff)

lemma acceptable_pending:
  "acceptable sp u i t = Some p \<Longrightarrow> p \<in> set (tb_proposals t) \<and> prop_id p = i \<and> \<not> decided p \<and> prop_space_id p = sp"
  using find_pending [of i t] by (auto simp: acceptable_def decided_def split: option.splits if_splits)

lemma accept_ok:
  assumes "governed_appliers (pe_registry env)" and "accept env i sp u opts s = (r, s')" and "accounts_ok (ss_db s)"
  shows "accounts_ok (ss_db s') \<and> decided_kept (ss_db s) (ss_db s')"
proof (rule governed_appliers.accept_step [OF assms(1) refl assms(2)], goal_cases)
  case 1
  then show ?case using assms(3) by simp
next
  case (2 p out)
  have kept: "decided_kept (ss_db s) (ss_db s')" by (rule applied_kept [OF 2(5)]) simp
  have "tb_grants (ss_db s') = tb_grants (ss_db s)" "tb_approvals (ss_db s') = tb_approvals (ss_db s)"
    using 2(5) by (auto simp: applied_proposal_def keeps_decisions_def markProposalFinal_def)
  with kept show ?case using accounts_same [OF assms(3) kept] by simp
qed

lemma granted_ok:
  assumes "governed_appliers (pe_registry env)" and "acceptAgentProposalIfGranted env i a s = (r, s')"
    and "accounts_ok (ss_db s)"
  shows "accounts_ok (ss_db s') \<and> decided_kept (ss_db s) (ss_db s')"
proof (rule governed_appliers.grant_step [OF assms(1) refl assms(2)], goal_cases)
  case 1
  then show ?case using assms(3) by simp
next
  case (2 p agent g out)
  let ?gs = "sql_update (\<lambda>h. ag_id h = ag_id g) (use_once (pe_now env)) (tb_grants (ss_db s))"
  have p: "p \<in> set (tb_proposals (ss_db s))" "\<not> decided p" using find_pending [OF 2(2)] 2(3) by (auto simp: decided_def)
  have table: "grant_table_ok ?gs"
    by (rule table_used [OF 2(8) accounts_okD(1) [OF assms(3)]])
  have "accounts_ok (ss_db s')"
    by (rule accounts_used [OF assms(3) p 2(8) table 2(9)]) (simp_all add: grant_approval_def)
  moreover have "decided_kept ((ss_db s)\<lparr>tb_grants := ?gs\<rparr>) (ss_db s')"
    using 2(9) by (rule applied_kept) (simp add: add_approval_def)
  ultimately show ?case by (simp add: decided_kept_def)
qed

lemma step_ok:
  assumes "decision_step s s'" and "accounts_ok (ss_db s)"
  shows "accounts_ok (ss_db s') \<and> decided_kept (ss_db s) (ss_db s')"
  using assms
proof (induction rule: decision_step.induct)
  case (rejecting env i sp u s r s')
  from rejecting(1) show ?case
  proof (rule reject_step, goal_cases)
    case (2 p out)
    then show ?case using accounts_same [OF rejecting(2) reject_kept] reject_kept by simp
  qed (use rejecting(2) in simp)
next
  case (approving env i sp u grantId s r s')
  from approving(1) show ?case
  proof (rule egress_tables, goal_cases)
    case (2 new)
    then show ?case using accounts_egress [OF approving(2)] by (simp add: same_proposals add_approval_def)
  qed (use approving(2) in simp)
next
  case (creating genv sp u body i now s r gs)
  from create_grant_ok [OF creating(1) accounts_okD(1) [OF creating(3)] creating(2)] show ?case
    using accounts_grants [OF creating(3)] by (simp add: same_proposals)
next
  case (revoking db sp u i now s r gs)
  from revoke_grant_ok [OF revoking(1) accounts_okD(1) [OF revoking(2)]] show ?case
    using accounts_grants [OF revoking(2)] by (simp add: same_proposals)
next
  case (proposing p s)
  from proposed_kept [OF proposing(1)] accounts_same [OF proposing(2), of "(ss_db s)\<lparr>tb_proposals := tb_proposals (ss_db s) @ [p]\<rparr>"]
  show ?case by simp
next
  case (sharing s sp u ty rid update now out db now')
  from shared_kept [where t = "ss_db s" and db = db and sp = sp and ty = ty and rid = rid and update = update and now = now'] accounts_same [OF sharing(2), of
      "(ss_db s)\<lparr>tb_access := db, tb_proposals := share_proposals sp ty rid update now' (tb_proposals (ss_db s))\<rparr>"]
  show ?case by simp
next
  case (elsewhere t s es w)
  from same_proposals [of t "ss_db s"] accounts_same [OF elsewhere(4), of t] elsewhere(1-3) show ?case by simp
qed (use accept_ok granted_ok in blast)+

lemma steps_ok:
  assumes "decision_steps s s'" and "accounts_ok (ss_db s)"
  shows "accounts_ok (ss_db s') \<and> decided_kept (ss_db s) (ss_db s')"
  using assms
proof (induction rule: rtranclp_induct)
  case (step s1 s2)
  then show ?case using step_ok [OF step(2)] decided_kept_trans by blast
qed simp

end
