(* ===== verification/PolicyChange.thy ===== *)
theory PolicyChange
  imports ProposalHistory JobQueue
begin

text \<open>
  The applier of policy changes, \<open>applyPolicyChangeProposal\<close> of \<open>proposals/applierRegistry.ts\<close>, with
  \<open>markPolicyBundleDirty\<close> of \<open>context/digestService.ts\<close> and the refresh job it enqueues: a member of the
  registry that meets the contract of the appliers.
\<close>

section \<open>Tables\<close>

record policy_row =
  po_id :: string
  po_space_id :: string
  po_name :: string
  po_domain :: string
  po_policy_json :: jsobj
  po_enabled :: bool
  po_policy_key :: "string option"
  po_enforcement_mode :: "string option"
  po_priority :: rat
  po_policy_version :: nat
  po_status :: string
  po_rule_json :: "jsobj option"
  po_applies_to_json :: "jsval option"
  po_supersedes_policy_id :: "string option"
  po_created_from_proposal_id :: string
  po_created_at :: int
  po_updated_at :: int

record digest_row =
  dg_space_id :: string
  dg_scope_type :: string
  dg_scope_id :: "string option"
  dg_digest_type :: string
  dg_status :: string
  dg_dirty_since :: "int option"
  dg_dirty_count :: nat
  dg_dirty_reason_json :: jsval
  dg_updated_at :: int

record policy_tables =
  pt_policies :: "policy_row list"
  pt_digests :: "digest_row list"
  pt_queue :: queue

section \<open>Reading the payload\<close>

definition strFromPayload :: "jsobj \<Rightarrow> string \<Rightarrow> string option" where
  "strFromPayload payload k = (case get payload k of
     JStr s \<Rightarrow> if trim s = [] then None else Some (trim s) | _ \<Rightarrow> None)"

definition objFromPayload :: "jsobj \<Rightarrow> string \<Rightarrow> jsobj option" where
  "objFromPayload payload k = asRecord (get payload k)"

definition jsonValueFromPayload :: "jsobj \<Rightarrow> string \<Rightarrow> jsval option" where
  "jsonValueFromPayload payload k = (case get payload k of
     JArr xs \<Rightarrow> Some (JArr xs) | JObj ob \<Rightarrow> Some (JObj ob) | _ \<Rightarrow> None)"

section \<open>Applying\<close>

definition markPolicyBundleDirty :: "string \<Rightarrow> jsval \<Rightarrow> int \<Rightarrow> digest_row list \<Rightarrow> digest_row list" where
  "markPolicyBundleDirty sp reason now =
     sql_update (\<lambda>d. dg_space_id d = sp \<and> dg_scope_type d = ''space'' \<and> dg_scope_id d = None \<and>
                   dg_digest_type d = ''policy_bundle'' \<and> dg_status d \<in> {''active'', ''dirty''})
       (\<lambda>d. d\<lparr>dg_status := ''dirty'', dg_dirty_since := or_first (dg_dirty_since d) now,
              dg_dirty_count := dg_dirty_count d + 1, dg_dirty_reason_json := reason, dg_updated_at := now\<rparr>)"

definition supersede_policy :: "string option \<Rightarrow> string \<Rightarrow> int \<Rightarrow> policy_row list \<Rightarrow> policy_row list" where
  "supersede_policy old sp now rows = (case old of
     None \<Rightarrow> rows
   | Some i \<Rightarrow> sql_update (\<lambda>r. po_id r = i \<and> po_space_id r = sp \<and> po_status r = ''active'')
       (\<lambda>r. r\<lparr>po_status := ''superseded'', po_updated_at := now\<rparr>) rows)"

definition new_policy :: "string \<Rightarrow> apply_proposal \<Rightarrow> string \<Rightarrow> string \<Rightarrow> int \<Rightarrow> policy_row" where
  "new_policy i p name domain now =
     (let payload = payload_of p
      in \<lparr>po_id = i, po_space_id = prop_space_id p, po_name = name, po_domain = domain,
          po_policy_json = or_value (objFromPayload payload ''policy_json'') [], po_enabled = True,
          po_policy_key = strFromPayload payload ''policy_key'',
          po_enforcement_mode = strFromPayload payload ''enforcement_mode'',
          po_priority = or_value (num (get payload ''priority'')) 0, po_policy_version = 1,
          po_status = ''active'', po_rule_json = objFromPayload payload ''rule_json'',
          po_applies_to_json = jsonValueFromPayload payload ''applies_to_json'',
          po_supersedes_policy_id = strFromPayload payload ''supersedes_policy_id'',
          po_created_from_proposal_id = prop_id p, po_created_at = now, po_updated_at = now\<rparr>)"

text \<open>The column types, the check constraint and the foreign key of the table.\<close>

definition policy_row_ok :: "policy_row list \<Rightarrow> policy_row \<Rightarrow> bool" where
  "policy_row_ok rows r \<longleftrightarrow>
     length (po_name r) \<le> 256 \<and> length (po_domain r) \<le> 64 \<and>
     (case po_policy_key r of None \<Rightarrow> True | Some k \<Rightarrow> length k \<le> 256) \<and>
     (case po_enforcement_mode r of None \<Rightarrow> True
      | Some m \<Rightarrow> m \<in> {''allow'', ''deny'', ''require_approval'', ''allow_with_log''}) \<and>
     of_int \<lfloor>po_priority r\<rfloor> = po_priority r \<and> - 2147483648 \<le> po_priority r \<and> po_priority r \<le> 2147483647 \<and>
     (case po_supersedes_policy_id r of None \<Rightarrow> True | Some i \<Rightarrow> list_ex (\<lambda>q. po_id q = i) rows)"

record policy_env =
  pv_now :: int
  pv_policy_id :: string
  pv_job_id :: string
  pv_patterns :: patterns

definition refresh_job :: "string \<Rightarrow> string \<Rightarrow> enqueue_input" where
  "refresh_job sp user =
     \<lparr>ei_job_type = ''context_digest_refresh'',
      ei_payload = JObj [(''space_id'', JStr sp), (''digest_type'', JStr ''policy_bundle'')],
      ei_space_id = sp, ei_user_id = Some user, ei_workspace_id = None, ei_agent_id = None,
      ei_priority = None, ei_max_attempts = None, ei_scheduled_at = None\<rparr>"

definition apply_policy_change :: "policy_env \<Rightarrow> apply_proposal \<Rightarrow> string \<Rightarrow> string \<Rightarrow> string \<Rightarrow>
    'x policy_tables_scheme \<Rightarrow> 'x policy_tables_scheme" where
  "apply_policy_change env p user name domain t =
     (let sp = prop_space_id p;
          reason = JObj [(''triggered_by'', JStr ''policy_change''), (''proposal_id'', JStr (prop_id p)),
            (''policy_id'', JStr (pv_policy_id env))]
      in t\<lparr>pt_policies := supersede_policy (strFromPayload (payload_of p) ''supersedes_policy_id'') sp (pv_now env)
             (pt_policies t) @ [new_policy (pv_policy_id env) p name domain (pv_now env)],
          pt_digests := markPolicyBundleDirty sp reason (pv_now env) (pt_digests t),
          pt_queue := enqueue (pv_patterns env) (pv_job_id env) (refresh_job sp user) (pv_now env) (pt_queue t)\<rparr>)"

definition applyPolicyChangeProposal :: "policy_env \<Rightarrow> ('x policy_tables_scheme, 'w) applier" where
  "applyPolicyChangeProposal env p user s =
     (case s of (t, w) \<Rightarrow>
        case (strFromPayload (payload_of p) ''name'', strFromPayload (payload_of p) ''domain'') of
          (None, _) \<Rightarrow> (Inl (OtherApplyError (ErrorObject (''policy_change payload missing required field '' @ quoted ''name''))), t, w)
        | (Some _, None) \<Rightarrow>
            (Inl (OtherApplyError (ErrorObject (''policy_change payload missing required field '' @ quoted ''domain''))), t, w)
        | (Some name, Some domain) \<Rightarrow>
            if \<not> policy_row_ok (pt_policies (tb_rest t)) (new_policy (pv_policy_id env) p name domain (pv_now env))
            then (Inl (OtherApplyError (ErrorObject ''insert or update on table policies'')), t, w)
            else (Inr \<lparr>rs_result_type = ''policy_version'',
                  rs_result = JObj [(''policy_id'', JStr (pv_policy_id env)), (''space_id'', JStr (prop_space_id p)),
                    (''domain'', JStr domain), (''name'', JStr name)],
                  rs_rollback = None,
                  rs_payload_patch = Some (put ''resulting_policy_id'' (JStr (pv_policy_id env)) (payload_of p)),
                  rs_final_status = None\<rparr>,
             t\<lparr>tb_rest := apply_policy_change env p user name domain (tb_rest t)\<rparr>, w))"

definition policy_registry :: "policy_env \<Rightarrow> ('x policy_tables_scheme, 'w) applier_registry" where
  "policy_registry env = [(''policy_change'', applyPolicyChangeProposal env)]"

interpretation policy_changes: governed_appliers "policy_registry env" for env
proof (unfold_locales, goal_cases)
  case (1 ty f p u t w r t' w')
  then show ?case
    by (auto simp: policy_registry_def applyPolicyChangeProposal_def keeps_decisions_def split: if_splits option.splits)
next
  case (2 ty f p u t w result t' w')
  then show ?case
    by (auto simp: policy_registry_def applyPolicyChangeProposal_def undone_def split: if_splits option.splits)
next
  case (3 ty f p u t w e t' w')
  then show ?case by (auto simp: policy_registry_def applyPolicyChangeProposal_def split: if_splits option.splits)
next
  case (4 ty f p u t w result t' w')
  then show ?case by (auto simp: policy_registry_def applyPolicyChangeProposal_def split: if_splits option.splits)
qed

end
