(* ===== verification/SourceActivation.thy ===== *)
theory SourceActivation
  imports PolicyChange
begin

text \<open>
  The applier of source channel activations, \<open>sources/sourceChannelProposalApplier.ts\<close>, and the registry of
  the appliers modelled here. A draft is activated only if it is the one the proposal was made for. Times
  are milliseconds since the epoch; \<open>se_parse_date\<close> is \<open>new Date(s)\<close> on texts, without a value if the date
  is invalid.
\<close>

section \<open>The draft\<close>

record source_env =
  se_now :: int
  se_parse_date :: "string \<Rightarrow> int option"

text \<open>The statement of the join: the connection of a paused channel, paused too and not deleted.\<close>

definition paused_channel :: "string \<Rightarrow> string \<Rightarrow> source_channel \<Rightarrow> bool" where
  "paused_channel i sp c \<longleftrightarrow> sc_id c = i \<and> sc_space_id c = sp \<and> sc_status c = ''paused''"

definition paused_connection :: "string \<Rightarrow> source_connection \<Rightarrow> bool" where
  "paused_connection i n \<longleftrightarrow> sn_id n = i \<and> sn_status n = ''paused'' \<and> sn_deleted_at n = None"

definition draft_of :: "string \<Rightarrow> string \<Rightarrow> source_tables \<Rightarrow> source_channel option" where
  "draft_of i sp so = List.find (\<lambda>c. paused_channel i sp c \<and>
     list_ex (paused_connection (sc_source_connection_id c)) (so_connections so)) (so_channels so)"

text \<open>
  The driver returns a time stamp as a date, whose \<open>String\<close> has no fraction of a second.
\<close>

definition whole_seconds :: "int \<Rightarrow> int" where
  "whole_seconds t = t - t mod 1000"

section \<open>Activating\<close>

definition activate_channel :: "string \<Rightarrow> string \<Rightarrow> string \<Rightarrow> int \<Rightarrow> source_tables \<Rightarrow> source_tables" where
  "activate_channel channel connection sp now so =
     so\<lparr>so_connections := sql_update (\<lambda>n. sn_id n = connection \<and> sn_space_id n = sp)
          (\<lambda>n. n\<lparr>sn_status := ''active'', sn_updated_at := now\<rparr>) (so_connections so),
        so_channels := sql_update (\<lambda>c. sc_id c = channel \<and> sc_space_id c = sp)
          (\<lambda>c. c\<lparr>sc_status := ''active'', sc_updated_at := now\<rparr>) (so_channels so)\<rparr>"

definition plain_failure :: "string \<Rightarrow> apply_error" where
  "plain_failure message = OtherApplyError (ErrorObject message)"

definition read_activation :: "apply_proposal \<Rightarrow> http_error + (string \<times> string)" where
  "read_activation p =
     bind_sum (requiredString (get (payload_of p) ''source_channel_id'') ''source_channel_id'') (\<lambda>channel.
     bind_sum (requiredString (get (payload_of p) ''draft_updated_at'') ''draft_updated_at'') (\<lambda>expected.
     Inr (channel, expected)))"

definition check_draft :: "source_env \<Rightarrow> string \<Rightarrow> source_channel option \<Rightarrow> apply_error + source_channel" where
  "check_draft env expected draft = (case draft of
     None \<Rightarrow> Inl (plain_failure ''Source Channel draft changed after proposal creation'')
   | Some c \<Rightarrow> (case se_parse_date env expected of
         None \<Rightarrow> Inl (plain_failure ''Invalid time value'')
       | Some t \<Rightarrow> if whole_seconds (sc_updated_at c) = t then Inr c
                   else Inl (plain_failure ''Source Channel draft changed after proposal creation'')))"

definition applySourceChannelActivation :: "source_env \<Rightarrow> ('d, 'w) applier" where
  "applySourceChannelActivation env p user s =
     (case s of (t, w) \<Rightarrow>
        case read_activation p of
          Inl e \<Rightarrow> (Inl (RouteFailure e), t, w)
        | Inr (channel, expected) \<Rightarrow>
            (case check_draft env expected (draft_of channel (prop_space_id p) (tb_sources t)) of
               Inl e \<Rightarrow> (Inl e, t, w)
             | Inr c \<Rightarrow>
                 (Inr \<lparr>rs_result_type = ''source_channel'',
                    rs_result = JObj [(''source_channel_id'', JStr channel),
                      (''source_connection_id'', JStr (sc_source_connection_id c)), (''status'', JStr ''active'')],
                    rs_rollback = None, rs_payload_patch = None, rs_final_status = None\<rparr>,
                  t\<lparr>tb_sources := activate_channel channel (sc_source_connection_id c) (prop_space_id p)
                      (se_now env) (tb_sources t)\<rparr>, w)))"

section \<open>The registry\<close>

text \<open>The appliers of \<open>createDefaultProposalApplierRegistry\<close> that are modelled, in its order.\<close>

definition applier_registry :: "policy_env \<Rightarrow> source_env \<Rightarrow> ('x policy_tables_scheme, 'w) applier_registry" where
  "applier_registry penv senv =
     policy_registry penv @ [(''source_channel_activation'', applySourceChannelActivation senv)]"

lemma draft_checked:
  "check_draft env expected draft = Inr c \<Longrightarrow>
     draft = Some c \<and> se_parse_date env expected = Some (whole_seconds (sc_updated_at c))"
  by (auto simp: check_draft_def split: option.splits if_splits)

lemma activation_cases:
  assumes "applySourceChannelActivation env p user (t, w) = (r, t', w')"
  obtains (refused) e where "r = Inl e" and "t' = t" and "w' = w"
    | (activated) channel expected c result where "read_activation p = Inr (channel, expected)"
      and "draft_of channel (prop_space_id p) (tb_sources t) = Some c"
      and "se_parse_date env expected = Some (whole_seconds (sc_updated_at c))"
      and "r = Inr result" and "rs_rollback result = None" and "rs_final_status result = None"
      and "t' = t\<lparr>tb_sources := activate_channel channel (sc_source_connection_id c) (prop_space_id p)
        (se_now env) (tb_sources t)\<rparr>" and "w' = w"
proof (cases "read_activation p")
  case (Inl e)
  with assms show ?thesis by (intro refused [of "RouteFailure e"]) (simp_all add: applySourceChannelActivation_def)
next
  case (Inr ids)
  obtain channel expected where ids: "ids = (channel, expected)" by (rule prod.exhaust)
  show ?thesis
  proof (cases "check_draft env expected (draft_of channel (prop_space_id p) (tb_sources t))")
    case (Inl e)
    with \<open>read_activation p = Inr ids\<close> ids assms show ?thesis
      by (intro refused [of e]) (simp_all add: applySourceChannelActivation_def)
  next
    case (Inr c)
    from draft_checked [OF this] show ?thesis
      using \<open>read_activation p = Inr ids\<close> assms Inr
      unfolding applySourceChannelActivation_def ids prod.case sum.case
      by (intro activated) (auto simp: ids)
  qed
qed

text \<open>Governed appliers, added to governed appliers.\<close>

lemma governed_add:
  assumes reg: "governed_appliers reg"
    and new: "governed_appliers added"
  shows "governed_appliers (reg @ added)"
proof -
  have one: "map_of (reg @ added) k = Some h \<Longrightarrow> map_of reg k = Some h \<or> map_of added k = Some h" for k h
    by (auto simp: map_add_def split: option.splits if_splits)
  show ?thesis
  proof (rule governed_appliers.intro, goal_cases)
    case (1 k h p u t w r t' w')
    from one [OF 1(1)] show ?case
      using governed_appliers.tables_kept [where f = h and p = p and u = u and t = t and w = w, OF reg _ 1(2)]
        governed_appliers.tables_kept [where f = h and p = p and u = u and t = t and w = w, OF new _ 1(2)] by blast
  next
    case (2 k h p u t w result t' w')
    from one [OF 2(1)] show ?case
      using governed_appliers.undone_effects [where f = h and p = p and u = u and t = t and w = w, OF reg _ 2(2)]
        governed_appliers.undone_effects [where f = h and p = p and u = u and t = t and w = w, OF new _ 2(2)] by blast
  next
    case (3 k h p u t w e t' w')
    from one [OF 3(1)] show ?case
      using governed_appliers.no_effects [where f = h and p = p and u = u and t = t and w = w, OF reg _ 3(2)]
        governed_appliers.no_effects [where f = h and p = p and u = u and t = t and w = w, OF new _ 3(2)] by blast
  next
    case (4 k h p u t w result t' w')
    from one [OF 4(1)] show ?case
      using governed_appliers.final_status [where f = h and p = p and u = u and t = t and w = w, OF reg _ 4(2)]
        governed_appliers.final_status [where f = h and p = p and u = u and t = t and w = w, OF new _ 4(2)] by blast
  qed
qed

lemma activation_governed:
  "governed_appliers [(''source_channel_activation'', applySourceChannelActivation env :: ('d, 'w) applier)]"
proof (rule governed_appliers.intro, goal_cases)
  case (1 ty f p u t w r t' w')
  then have "applySourceChannelActivation env p u (t, w) = (r, t', w')" by (simp split: if_splits)
  then show ?case by (cases rule: activation_cases) (simp_all add: keeps_decisions_def)
next
  case (2 ty f p u t w result t' w')
  then have "applySourceChannelActivation env p u (t, w) = (Inr result, t', w')" by (simp split: if_splits)
  then show ?case by (cases rule: activation_cases) (simp_all add: undone_def)
next
  case (3 ty f p u t w e t' w')
  then have "applySourceChannelActivation env p u (t, w) = (Inl e, t', w')" by (simp split: if_splits)
  then show ?case by (cases rule: activation_cases) simp_all
next
  case (4 ty f p u t w result t' w')
  then have "applySourceChannelActivation env p u (t, w) = (Inr result, t', w')" by (simp split: if_splits)
  then show ?case by (cases rule: activation_cases) simp_all
qed

interpretation server_appliers: governed_appliers "applier_registry penv senv" for penv senv
  unfolding applier_registry_def
  by (rule governed_add [OF policy_changes.governed_appliers_axioms activation_governed])

end
