(* ===== verification/ProposalProperties.thy ===== *)
theory ProposalProperties
  imports SourceActivation
begin

text \<open>
  The properties of the decisions on proposals and of advance approvals. The witnesses run the modelled
  appliers on a small database: an owner, an agent's proposal to activate a source channel, the paused
  channel, and a grant for the action.
\<close>

section \<open>A small database\<close>

definition channel_proposal :: proposal_row where
  "channel_proposal =
     \<lparr>prop_id = ''p'', prop_space_id = ''s'', prop_proposal_type = ''source_channel_activation'', prop_title = None,
      prop_payload_json = Some [(''action_id'', JStr ''source.channel.propose_activation''),
        (''source_channel_id'', JStr ''c''), (''draft_updated_at'', JStr ''d''), (''grant_id'', JStr ''m''),
        (''source_run_id'', JStr ''r'')],
      prop_workspace_id = None, prop_visibility = Some ''space_shared'', prop_created_by_user_id = None,
      prop_created_by_run_id = Some ''r'', prop_project_id = None, prop_status = ''pending'',
      prop_risk_level = Some ''medium'', prop_preview = False, prop_created_by_agent_id = Some ''a'',
      prop_required_approver_role = Some ''owner'', prop_reviewed_at = None, prop_reviewed_by = None,
      prop_updated_at = 1\<rparr>"

definition proposal_content :: content_row where
  "proposal_content =
     \<lparr>cn_id = ''p'', cn_space_id = ''s'', cn_owner_user_id = None, cn_visibility = ''space_shared'',
      cn_access_level = ''full'', cn_workspace_id = None, cn_project_id = None, cn_status = ''pending'',
      cn_deleted_at = None, cn_sensitivity_level = None, cn_updated_at = ''1''\<rparr>"

definition owned_space :: access_db where
  "owned_space =
     \<lparr>db_spaces = [\<lparr>sp_id = ''s'', sp_type = ''team'', sp_oversight_mode = ''none''\<rparr>],
      db_memberships = [\<lparr>mb_space_id = ''s'', mb_user_id = ''o'', mb_role = ''owner'', mb_status = ''active''\<rparr>],
      db_projects = [], db_project_members = [], db_workspaces = [], db_project_workspaces = [],
      db_grants = [], db_content = (\<lambda>n. if n = ''proposals'' then [proposal_content] else [])\<rparr>"

definition channel_grant :: action_grant where
  "channel_grant =
     \<lparr>ag_id = ''g'', ag_space_id = ''s'', ag_agent_id = ''a'', ag_action_id = ''source.channel.propose_activation'',
      ag_project_id = None, ag_resource_kind = None, ag_resource_id = None, ag_granted_by_user_id = ''o'',
      ag_status = GrantActive, ag_expires_at = None, ag_max_uses = Some 1, ag_use_count = 0,
      ag_last_used_at = None, ag_created_at = 1, ag_revoked_at = None\<rparr>"

definition small_tables :: "action_grant list \<Rightarrow> policy_tables tables" where
  "small_tables gs =
     \<lparr>tb_access = owned_space, tb_proposals = [channel_proposal], tb_approvals = [], tb_grants = gs,
      tb_memory_grants = [\<lparr>mg_id = ''m'', mg_granting_user_id = ''o'', mg_target_space_id = ''s'',
        mg_target_run_id = ''r'', mg_status = ''active'', mg_egress_review_expires_at = None\<rparr>],
      tb_runs = [], tb_bundles = [], tb_bundle_members = [],
      tb_sources = \<lparr>so_channels = [\<lparr>sc_id = ''c'', sc_space_id = ''s'', sc_source_connection_id = ''n'',
          sc_status = ''paused'', sc_updated_at = 7000\<rparr>],
        so_connections = [\<lparr>sn_id = ''n'', sn_space_id = ''s'', sn_status = ''paused'', sn_deleted_at = None,
          sn_updated_at = 7000\<rparr>],
        so_backfill_plans = [], so_handler_versions = [], so_recipe_versions = []\<rparr>,
      tb_rest = \<lparr>pt_policies = [], pt_digests = [], pt_queue = \<lparr>qu_jobs = [], qu_runs = [], qu_locks = [], qu_events = []\<rparr>\<rparr>\<rparr>"

text \<open>\<open>c\<close> is the answer to \<open>COMMIT\<close>.\<close>

definition small_env :: "bool \<Rightarrow> (policy_tables, unit) apply_env" where
  "small_env c =
     \<lparr>pe_databaseUrl = Some ''db'', pe_audit_db = (\<lambda>_ _. Some ''d''), pe_now_text = ''now'', pe_now = 10,
      pe_registry = applier_registry
        \<lparr>pv_now = 10, pv_policy_id = ''y'', pv_job_id = ''j'', pv_patterns = id\<rparr>
        \<lparr>se_now = 10, se_parse_date = (\<lambda>_. Some 7000)\<rparr>,
      pe_valid_payload = (\<lambda>_ _. True), pe_commits = (\<lambda>_. c), pe_approval_id = ''x'', pe_locked = {}\<rparr>"

definition small_state :: "action_grant list \<Rightarrow> (policy_tables, unit) apply_state" where
  "small_state gs = \<lparr>ss_db = small_tables gs, ss_trail = [], ss_outside = ()\<rparr>"

definition no_options :: accept_options where
  "no_options = \<lparr>op_confirm_incomplete = False, op_allow_bundle_member = False\<rparr>"

definition channel_action :: action_scope where
  "channel_action =
     \<lparr>sx_action_id = ''source.channel.propose_activation'', sx_project_id = None,
      sx_resource_kind = Some ''source_channel'', sx_resource_id = Some ''c''\<rparr>"

lemma sample_gate:
  assumes "tb_access (ss_db s) = owned_space"
  obtains trail where "enforceApplyPolicy (small_env c) channel_proposal ''o'' s = (Inr (), s\<lparr>ss_trail := trail\<rparr>)"
proof -
  let ?i = "apply_input channel_proposal ''o''" and ?types = "registeredTypes (pe_registry (small_env c))"
  have role: "getMembershipRole owned_space ''o'' (prop_space_id channel_proposal) = Some ''owner''" by code_simp
  have flags: "\<not> (\<exists>flag \<in> set APPROVAL_PROOF_FLAGS. has_key (metadata_or_empty (pi_proposal_payload ?i)) flag)"
    by code_simp
  have risk: "effectiveProposalRisk (pi_proposal_type ?i) (pi_declared_risk ?i) = Inr High" by code_simp
  have may: "may_apply (Some ''owner'') (pi_required_approver_role ?i) High"
    by (simp add: may_apply_def names_higher_role_def apply_input_def channel_proposal_def less_eq_risk_level_def)
  have type: "pi_proposal_type ?i \<in> set ?types" by code_simp
  obtain d where "checkProposalApplyPolicy ?i (Some ''owner'') ?types = Inr d"
    using type risk by (auto simp: checkProposalApplyPolicy_def bind_sum_def)
  moreover have "record_id (fst (writeProposalAudit (pe_audit_db (small_env c)) (pe_databaseUrl (small_env c)) d' ?i now trail)) \<noteq> None"
    for d' now trail
    by (simp add: small_env_def writeProposalAudit_def persistAudit_def writePolicyAudit_def)
  ultimately obtain res trail where gate: "enforceProposalApply (pe_audit_db (small_env c)) (pe_databaseUrl (small_env c)) ?i (Some ''owner'')
      ?types (pe_now_text (small_env c)) (ss_trail s) = Inr (res, trail)" "er_status res = Allowed"
    using proposal_gate_iff [of "pe_audit_db (small_env c)" "pe_databaseUrl (small_env c)" ?i "Some ''owner''" ?types
      "pe_now_text (small_env c)" "ss_trail s"] flags risk may type by blast
  have "enforceApplyPolicy (small_env c) channel_proposal ''o'' s = (Inr (), s\<lparr>ss_trail := trail\<rparr>)"
    unfolding enforceApplyPolicy_def assms role gate(1) by (simp add: gate(2))
  then show ?thesis by (rule that)
qed

lemma channel_row: "acceptable ''s'' ''o'' ''p'' (small_tables gs) = Some channel_proposal"
  by code_simp

lemma sample_unbundled: "assertBundleMemberMayBeDecided ''p'' False (small_state gs) = (Inr (), small_state gs)"
  by (simp add: assertBundleMemberMayBeDecided_def active_bundle_of_def small_state_def small_tables_def)

lemma resolved_fst: "isl (fst x) = False \<Longrightarrow> \<exists>y s. x = (Inr y, s)"
  by (cases x; cases "fst x") auto

text \<open>What is left to do once the gate has let the owner pass: it resolves, whatever the audit trail.\<close>

lemma sample_applied:
  "isl (fst (io_bind (registry_apply (small_env c) channel_proposal ''o'')
     (\<lambda>result. io_on_error (compensate (rs_rollback result))
        (io_bind (io_return ()) (\<lambda>_.
         io_bind (conclude (small_env c) channel_proposal ''s'' ''o'' result message)
           (\<lambda>outcome. io_return (outcome, rs_rollback result)))))
     (small_state []\<lparr>ss_trail := trail\<rparr>))) = False"
  by code_simp

lemma sample_pending:
  "\<exists>out rb s'. accept_pending (small_env c) ''s'' ''o'' no_options (io_return ()) channel_proposal (small_state []) =
     (Inr (out, rb), s')"
proof -
  have access: "tb_access (ss_db (small_state [])) = owned_space" by (simp add: small_state_def small_tables_def)
  obtain trail where gate: "enforceApplyPolicy (small_env c) channel_proposal ''o'' (small_state []) =
      (Inr (), small_state []\<lparr>ss_trail := trail\<rparr>)"
    using sample_gate [OF access] by blast
  have p: "prop_id channel_proposal = ''p''" "\<not> op_allow_bundle_member no_options"
    by (simp_all add: channel_proposal_def no_options_def)
  have patch: "assertIncompleteCodePatchConfirmation channel_proposal x s = (Inr (), s)" for x and s :: "(policy_tables, unit) apply_state"
    by (simp add: assertIncompleteCodePatchConfirmation_def unconfirmed_patch_def channel_proposal_def)
  show ?thesis
    using resolved_fst [OF sample_applied [of c "''accepted proposal is not visible after apply''" trail]]
    by (auto simp: accept_pending_def p sample_unbundled patch gate)
qed

lemma sample_acceptance:
  obtains out s' where "accept (small_env True) ''p'' ''s'' ''o'' no_options (small_state []) = (Inr (Some out), s')"
proof -
  obtain out rb s' where "accept_pending (small_env True) ''s'' ''o'' no_options (io_return ()) channel_proposal (small_state []) =
      (Inr (out, rb), s')"
    using sample_pending by blast
  moreover have "pe_commits (small_env True) t" for t by (simp add: small_env_def)
  ultimately have "accept (small_env True) ''p'' ''s'' ''o'' no_options (small_state []) = (Inr (Some out), s')"
    using channel_row [of "[]"]
    by (simp add: accept_def acceptInTransaction_def small_state_def io_lift_def commit_def)
  then show ?thesis by (rule that)
qed

lemma sample_lost_commit:
  "\<exists>e. fst (accept (small_env False) ''p'' ''s'' ''o'' no_options (small_state [])) = Inl e"
proof -
  obtain out rb s' where "accept_pending (small_env False) ''s'' ''o'' no_options (io_return ()) channel_proposal (small_state []) =
      (Inr (out, rb), s')"
    using sample_pending by blast
  moreover have "\<not> pe_commits (small_env False) t" for t by (simp add: small_env_def)
  ultimately show ?thesis
    using channel_row [of "[]"]
    by (simp add: accept_def acceptInTransaction_def small_state_def io_lift_def commit_def)
qed

lemma sample_consumed:
  "consumeMatching {} (grant_use_of channel_action channel_proposal ''a'') 10 [channel_grant] =
     (Some (use_once 10 channel_grant), [use_once 10 channel_grant])"
  by code_simp

lemma sample_applied_on_grant:
  "isl (fst (io_bind (registry_apply (small_env c) channel_proposal ''o'')
     (\<lambda>result. io_on_error (compensate (rs_rollback result))
        (io_bind (insert_approval (grant_approval (small_env c) channel_action channel_proposal (use_once 10 channel_grant))) (\<lambda>_.
         io_bind (conclude (small_env c) channel_proposal ''s'' ''o'' result message)
           (\<lambda>outcome. io_return (outcome, rs_rollback result)))))
     (small_state [use_once 10 channel_grant]\<lparr>ss_trail := trail\<rparr>))) = False"
  by code_simp

lemma sample_grant_acceptance:
  obtains out s' where "acceptAgentProposalIfGranted (small_env True) ''p'' channel_action (small_state [channel_grant]) =
     (Inr (Some out), s')"
proof -
  let ?s = "small_state [use_once 10 channel_grant]"
  have access: "tb_access (ss_db ?s) = owned_space" by (simp add: small_state_def small_tables_def)
  obtain trail where gate: "enforceApplyPolicy (small_env True) channel_proposal ''o'' ?s = (Inr (), ?s\<lparr>ss_trail := trail\<rparr>)"
    using sample_gate [OF access] by blast
  have user: "ag_granted_by_user_id (use_once 10 channel_grant) = ''o''" by (simp add: channel_grant_def)
  have p: "prop_id channel_proposal = ''p''" "prop_space_id channel_proposal = ''s''" by (simp_all add: channel_proposal_def)
  obtain out rb s' where applied: "apply_on_grant (small_env True) channel_action channel_proposal (use_once 10 channel_grant) ?s =
      (Inr (out, rb), s')"
    using resolved_fst [OF sample_applied_on_grant [of True "''accepted proposal is not visible after grant apply''" trail]]
    by (auto simp: apply_on_grant_def Let_def user gate p simp del: use_once_simps)
  have consumed: "consume_grant (small_env True) (grant_use_of channel_action channel_proposal ''a'') (small_state [channel_grant]) =
      (Inr (Some (use_once 10 channel_grant)), ?s)"
    by (simp add: consume_grant_def small_env_def sample_consumed small_state_def small_tables_def)
  have grantable: "grantable_proposal channel_action channel_proposal" by code_simp
  have "accept_on_grant (small_env True) channel_action channel_proposal ''a'' (small_state [channel_grant]) =
      (Inr (Some (out, rb)), s')"
    by (simp add: accept_on_grant_def p sample_unbundled grantable consumed applied)
  moreover have "getProposalForUpdate ''p'' (ss_db (small_state [channel_grant])) = Some channel_proposal"
    by (simp add: getProposalForUpdate_def small_state_def small_tables_def p)
  moreover have "prop_status channel_proposal = ''pending''" "\<not> prop_preview channel_proposal"
    "prop_created_by_agent_id channel_proposal = Some ''a''"
    by (simp_all add: channel_proposal_def)
  moreover have "pe_commits (small_env True) t" for t by (simp add: small_env_def)
  ultimately have "acceptAgentProposalIfGranted (small_env True) ''p'' channel_action (small_state [channel_grant]) =
      (Inr (Some out), s')"
    by (simp add: acceptAgentProposalIfGranted_def commit_def)
  then show ?thesis by (rule that)
qed

lemma sample_governed: "governed_appliers (pe_registry (small_env c))"
  unfolding small_env_def by (simp add: server_appliers.governed_appliers_axioms)

lemma sample_accounts: "accounts_ok (ss_db (small_state []))"
  by (simp add: small_state_def small_tables_def accounts_ok_def grant_table_ok_def active_only_def
      grant_approvals_def)

lemma sample_start:
  "tb_grants (ss_db (small_state [])) = []" "tb_approvals (ss_db (small_state [])) = []"
  "distinct (map prop_id (tb_proposals (ss_db (small_state []))))"
  by (simp_all add: small_state_def small_tables_def)

lemma updated_none: "(\<And>x. \<not> P (f x)) \<Longrightarrow> x \<in> set (sql_update P f xs) \<Longrightarrow> \<not> P x"
  unfolding in_sql_update by (metis (full_types))

text \<open>An update that keeps its condition: the rows it chose, and the others.\<close>

lemma updated_rows:
  assumes "x \<in> set (sql_update P f xs)" and "\<And>r. P (f r) \<longleftrightarrow> P r"
  shows "if P x then \<exists>r \<in> set xs. x = f r else x \<in> set xs"
  using assms unfolding in_sql_update by (metis (full_types))

lemma backfill_keeps:
  "tb_proposals (releaseRejectedSourceBackfillPlan p now t) = tb_proposals t"
  "so_channels (tb_sources (releaseRejectedSourceBackfillPlan p now t)) = so_channels (tb_sources t)"
  by (auto simp: releaseRejectedSourceBackfillPlan_def split: option.splits)

lemma draft_released:
  assumes "prop_proposal_type p = ''source_channel_activation''"
    and "payloadString (get (payload_of p) ''source_channel_id'') = Some channel"
  shows "(\<forall>q \<in> set (tb_proposals (reject_tables now i sp u p t)). \<not> depends_on p q) \<and>
    (\<forall>c \<in> set (so_channels (tb_sources (reject_tables now i sp u p t))). \<not> paused_channel channel (prop_space_id p) c)"
proof -
  let ?draft = "releaseRejectedSourceChannelDraft p now"
  have rows: "tb_proposals (?draft t) = sql_update (depends_on p)
      (\<lambda>q. q\<lparr>prop_status := ''superseded'', prop_updated_at := now\<rparr>) (tb_proposals t)"
    "so_channels (tb_sources (?draft t)) = sql_update (paused_channel channel (prop_space_id p))
      (\<lambda>c. c\<lparr>sc_status := ''archived'', sc_updated_at := now\<rparr>) (so_channels (tb_sources t))" for t :: "'a tables"
    using assms by (simp_all add: releaseRejectedSourceChannelDraft_def archive_channel_def Let_def paused_channel_def [abs_def])
  show ?thesis
    unfolding reject_tables_def backfill_keeps rows
    by (intro conjI ballI; erule updated_none [rotated]) (simp_all add: depends_on_def paused_channel_def)
qed

lemma latest_standing:
  "latest_approval i u grant t = Some a \<Longrightarrow> standing_approval i u grant a \<and> a \<in> set (tb_approvals t)"
proof -
  let ?sorted = "sort_by (\<lambda>a b. pa_created_at b - pa_created_at a) (filter (standing_approval i u grant) (tb_approvals t))"
  assume "latest_approval i u grant t = Some a"
  then have "a \<in> set ?sorted" unfolding latest_approval_def by (cases ?sorted) (simp_all del: set_sort_by)
  then show ?thesis by simp
qed

lemma grant_not_refused:
  assumes "grant_refusal p g u grant now = None"
  shows "mg_granting_user_id g = u" and "mg_status g \<notin> {''revoked'', ''expired'', ''failed''}"
    and "mg_target_space_id g = prop_space_id p" and "source_run_of p = Some (mg_target_run_id g)"
    and "\<forall>t. mg_egress_review_expires_at g = Some t \<longrightarrow> now < t"
    and "get (payload_of p) ''raw_private_memory_included'' \<noteq> JBool True"
  using assms unfolding grant_refusal_def Let_def by (simp_all split: if_splits option.splits)

section \<open>Properties\<close>

text \<open>
  C26: a decision that does not decide changes nothing. Whenever an acceptance, an acceptance on a grant or a
  rejection answers with an error or without a result, at whatever step it stopped and also when the
  commit itself fails, every table is as it was and whatever the applier did outside of the database has
  been undone; a grant it had consumed is unused again.
\<close>

theorem failed_decisions_change_nothing:
  assumes "governed_appliers (pe_registry env)"
  shows "(\<forall>r s'. accept env i sp u opts s = (r, s') \<longrightarrow> (\<exists>out. r = Inr (Some out)) \<or>
            ss_db s' = ss_db s \<and> ss_outside s' = ss_outside s) \<and>
         (\<forall>r s'. acceptAgentProposalIfGranted env i a s = (r, s') \<longrightarrow> (\<exists>out. r = Inr (Some out)) \<or>
            ss_db s' = ss_db s \<and> ss_outside s' = ss_outside s) \<and>
         (\<forall>r s'. reject env i sp u s = (r, s') \<longrightarrow> (\<exists>out. r = Inr (Some out)) \<or>
            ss_db s' = ss_db s \<and> ss_outside s' = ss_outside s)"
proof (intro conjI allI impI)
  fix r s' assume "accept env i sp u opts s = (r, s')"
  then show "(\<exists>out. r = Inr (Some out)) \<or> ss_db s' = ss_db s \<and> ss_outside s' = ss_outside s"
    by (rule governed_appliers.accept_step [OF assms refl]) simp_all
next
  fix r s' assume "acceptAgentProposalIfGranted env i a s = (r, s')"
  then show "(\<exists>out. r = Inr (Some out)) \<or> ss_db s' = ss_db s \<and> ss_outside s' = ss_outside s"
    by (rule governed_appliers.grant_step [OF assms refl]) simp_all
next
  fix r s' assume "reject env i sp u s = (r, s')"
  then show "(\<exists>out. r = Inr (Some out)) \<or> ss_db s' = ss_db s \<and> ss_outside s' = ss_outside s"
    by (rule reject_step) simp_all
qed

theorem failed_decisions_change_nothing_witness:
  "\<exists>e s'. accept (small_env False) ''p'' ''s'' ''o'' no_options (small_state []) = (Inl e, s') \<and>
     ss_db s' = small_tables []"
proof -
  obtain r s' where run: "accept (small_env False) ''p'' ''s'' ''o'' no_options (small_state []) = (r, s')" by fastforce
  then obtain e where "r = Inl e" using sample_lost_commit by auto
  then show ?thesis
    using failed_decisions_change_nothing [OF sample_governed, of False "''p''" "''s''" "''o''" no_options "small_state []" channel_action] run
    by (auto simp: small_state_def)
qed

text \<open>
  C27: who can have a proposal accepted. An acceptance that succeeds was of a pending proposal of the space
  that is not a preview and that the user may read; no active bundle owns it unless the bundle's
  coordinator asks, an incomplete patch was confirmed, and the policy gate was open to this very user: no
  forged proof of approval in the payload, a registered type, and a role that satisfies the required
  approver and the risk. The row answered is the one stored, decided.
\<close>

theorem acceptance_authorised:
  assumes "governed_appliers (pe_registry env)" and "accept env i sp u opts s = (Inr (Some out), s')"
  shows "\<exists>p. getProposalForUpdate i (ss_db s) = Some p \<and> prop_status p = ''pending'' \<and> \<not> prop_preview p \<and>
    prop_space_id p = sp \<and> contentDecisionFromDb (tb_access (ss_db s)) sp u ''proposal'' i \<noteq> AccessDeny \<and>
    (op_allow_bundle_member opts \<or> active_bundle_of i (ss_db s) = None) \<and>
    \<not> unconfirmed_patch p (op_confirm_incomplete opts) \<and> gate_open env p u (ss_db s) \<and>
    ao_proposal out \<in> set (tb_proposals (ss_db s')) \<and> prop_id (ao_proposal out) = i \<and> decided (ao_proposal out)"
proof (rule governed_appliers.accept_step [OF assms(1) refl assms(2)], goal_cases)
  case (2 p out')
  have p: "getProposalForUpdate i (ss_db s) = Some p \<and> prop_status p = ''pending'' \<and> \<not> prop_preview p \<and>
      prop_space_id p = sp \<and> contentDecisionFromDb (tb_access (ss_db s)) sp u ''proposal'' (prop_id p) \<noteq> AccessDeny"
    using 2(2) by (auto simp: acceptable_def split: option.splits if_splits)
  moreover have "prop_id p = i" using find_pending p by blast
  moreover have "ao_proposal out' \<in> set (tb_proposals (ss_db s')) \<and> prop_id (ao_proposal out') = prop_id p \<and>
      decided (ao_proposal out')"
    using applied_decided [of env p u] 2(5) p by blast
  ultimately show ?case using 2 by (auto simp: applied_proposal_def)
qed simp

theorem acceptance_authorised_witness:
  "gate_open (small_env True) channel_proposal ''o'' (small_tables [])"
proof -
  obtain out s' where "accept (small_env True) ''p'' ''s'' ''o'' no_options (small_state []) = (Inr (Some out), s')"
    by (rule sample_acceptance)
  from acceptance_authorised [OF sample_governed this] show ?thesis
    by (auto simp: small_state_def small_tables_def getProposalForUpdate_def channel_proposal_def)
qed

lemma applied_tables:
  assumes "applied_proposal env p sp u (add_approval new) t t' out"
  shows "tb_grants t' = tb_grants t" and "tb_approvals t' = tb_approvals t @ [new]"
  using assms by (auto simp: applied_proposal_def keeps_decisions_def markProposalFinal_def add_approval_def)

text \<open>
  C28: what an acceptance on a grant rests on. It decided a pending proposal of an agent, of the action's
  type and project, outside of bundles; the grant is the most specific usable one that covers the use, the
  oldest of those; the gate was open to the user who gave it, at the time of the use; and the grants and
  approvals afterwards differ by exactly one use of it and one approval that names it.
\<close>

theorem granted_acceptance_sound:
  assumes "governed_appliers (pe_registry env)" and "acceptAgentProposalIfGranted env i a s = (Inr (Some out), s')"
  shows "\<exists>p agent g. getProposalForUpdate i (ss_db s) = Some p \<and> prop_status p = ''pending'' \<and> \<not> prop_preview p \<and>
    prop_created_by_agent_id p = Some agent \<and> active_bundle_of i (ss_db s) = None \<and> grantable_proposal a p \<and>
    best_grant (pe_locked env) (grant_use_of a p agent) (pe_now env) (tb_grants (ss_db s)) g \<and>
    gate_open env p (ag_granted_by_user_id g) (ss_db s) \<and>
    tb_grants (ss_db s') = sql_update (\<lambda>h. ag_id h = ag_id g) (use_once (pe_now env)) (tb_grants (ss_db s)) \<and>
    tb_approvals (ss_db s') = tb_approvals (ss_db s) @ [grant_approval env a p g] \<and>
    prop_id (ao_proposal out) = i \<and> decided (ao_proposal out)"
proof (rule governed_appliers.grant_step [OF assms(1) refl assms(2)], goal_cases)
  case (2 p agent g out')
  have "prop_id p = i" using find_pending [OF 2(2)] by blast
  moreover have "prop_id (ao_proposal out') = prop_id p \<and> decided (ao_proposal out')"
    using applied_decided [OF 2(9)] by blast
  moreover have "gate_open env p (ag_granted_by_user_id g) (ss_db s)"
    using 2(9) by (simp add: applied_proposal_def gate_open_def)
  moreover have "tb_grants (ss_db s') = sql_update (\<lambda>h. ag_id h = ag_id g) (use_once (pe_now env)) (tb_grants (ss_db s))"
    "tb_approvals (ss_db s') = tb_approvals (ss_db s) @ [grant_approval env a p g]"
    using applied_tables [OF 2(9)] by simp_all
  ultimately show ?case using 2 by auto
qed simp

theorem granted_acceptance_sound_witness:
  "gate_open (small_env True) channel_proposal ''o'' (small_tables [channel_grant]) \<and>
   best_grant {} (grant_use_of channel_action channel_proposal ''a'') 10 [channel_grant] channel_grant"
proof -
  obtain out s' where "acceptAgentProposalIfGranted (small_env True) ''p'' channel_action (small_state [channel_grant]) =
      (Inr (Some out), s')"
    by (rule sample_grant_acceptance)
  from granted_acceptance_sound [OF sample_governed this] obtain p agent g
    where p: "getProposalForUpdate ''p'' (small_tables [channel_grant]) = Some p" "prop_created_by_agent_id p = Some agent"
      and g: "best_grant {} (grant_use_of channel_action p agent) 10 [channel_grant] g"
        "gate_open (small_env True) p (ag_granted_by_user_id g) (small_tables [channel_grant])"
    by (auto simp: small_state_def small_tables_def small_env_def)
  have "p = channel_proposal" using p(1) by (simp add: getProposalForUpdate_def small_tables_def split: if_splits)
  moreover from this have "agent = ''a''" using p(2) by (simp add: channel_proposal_def)
  moreover have "g = channel_grant" using g(1) by (simp add: best_grant_def)
  moreover have "ag_granted_by_user_id channel_grant = ''o''" by (simp add: channel_grant_def)
  ultimately show ?thesis using g by simp
qed

text \<open>
  C29: grants are used as often as they applied a proposal, and never more often than they may be. After
  any history of decisions and grants from a database without grants and approvals, the count of a grant
  is the number of decided proposals that have an approval naming it, and its limit bounds that number.
\<close>

lemma counted_uses:
  assumes ok: "accounts_ok t" and g: "g \<in> set (tb_grants t)"
  shows "ag_use_count g = card {prop_id p |p. p \<in> set (tb_proposals t) \<and> decided p \<and>
    (\<exists>a \<in> set (tb_approvals t). names_grant (ag_id g) a \<and> pa_proposal_id a = prop_id p)}"
proof -
  let ?named = "filter (names_grant (ag_id g)) (tb_approvals t)"
  have "?named = filter (names_grant (ag_id g)) (grant_approvals t)"
    unfolding grant_approvals_def filter_filter by (rule filter_cong) (auto simp: names_grant_def)
  then have "distinct (map pa_proposal_id ?named)"
    using distinct_map_filter_sub [OF accounts_okD(5) [OF ok]] by simp
  then have "length ?named = card (pa_proposal_id ` set ?named)"
    using distinct_card [of "map pa_proposal_id ?named"] by simp
  moreover have "pa_proposal_id ` set ?named = {prop_id p |p. p \<in> set (tb_proposals t) \<and> decided p \<and>
    (\<exists>a \<in> set (tb_approvals t). names_grant (ag_id g) a \<and> pa_proposal_id a = prop_id p)}"
    (is "?ids = ?decided")
  proof
    show "?ids \<subseteq> ?decided"
    proof
      fix i assume "i \<in> ?ids"
      then obtain a where a: "a \<in> set (tb_approvals t)" "names_grant (ag_id g) a" "i = pa_proposal_id a" by auto
      then have "a \<in> set (grant_approvals t)" by (auto simp: grant_approvals_def names_grant_def)
      then obtain p where "p \<in> set (tb_proposals t)" "decided p" "prop_id p = pa_proposal_id a"
        using accounts_okD(6) [OF ok] by blast
      then show "i \<in> ?decided" unfolding a(3) using a(1,2) by (intro CollectI exI [of _ p]) auto
    qed
  qed force
  ultimately show ?thesis using accounts_okD(3) [OF ok g] by simp
qed

theorem uses_are_applications:
  assumes "decision_steps s0 s" and "tb_grants (ss_db s0) = []" and "tb_approvals (ss_db s0) = []"
    and "distinct (map prop_id (tb_proposals (ss_db s0)))" and "g \<in> set (tb_grants (ss_db s))"
  shows "ag_use_count g = card {prop_id p |p. p \<in> set (tb_proposals (ss_db s)) \<and> decided p \<and>
      (\<exists>a \<in> set (tb_approvals (ss_db s)). names_grant (ag_id g) a \<and> pa_proposal_id a = prop_id p)} \<and>
    (\<forall>m. ag_max_uses g = Some m \<longrightarrow> ag_use_count g \<le> m)"
proof -
  have "accounts_ok (ss_db s0)"
    using assms(2-4) by (simp add: accounts_ok_def grant_table_ok_def active_only_def grant_approvals_def)
  then have ok: "accounts_ok (ss_db s)" using steps_ok [OF assms(1)] by blast
  have "use_count_check g" using accounts_okD(1) [OF ok] assms(5) by (auto simp: grant_table_ok_def list_all_iff)
  with counted_uses [OF ok assms(5)] show ?thesis by (auto simp: use_count_check_def)
qed

definition grant_sources :: grant_env where
  "grant_sources =
     \<lparr>gv_access = owned_space, gv_agents = [(''a'', ''s'')], gv_to_number = (\<lambda>_. JNaN),
      gv_parse_date = (\<lambda>_. False), gv_to_timestamp = (\<lambda>_. None)\<rparr>"

definition grant_body :: jsobj where
  "grant_body = [(''agent_id'', JStr ''a''), (''action_id'', JStr ''source.channel.propose_activation''), (''max_uses'', JNum 1)]"

lemma sample_request:
  "readGrantRequest grant_sources ''s'' ''o'' grant_body =
     Inr \<lparr>gq_agent_id = ''a'', gq_action_id = ''source.channel.propose_activation'', gq_project_id = None,
       gq_resource_kind = None, gq_resource_id = None, gq_max_uses = Some 1, gq_expires_at = None\<rparr>"
  by code_simp

lemma sample_created:
  "create_grant grant_sources ''s'' ''o'' grant_body ''g'' 1 [] = (Inr channel_grant, [channel_grant])"
  by (simp add: create_grant_def sample_request new_action_grant_def insert_grant_def max_int4_def active_scope_def
      expireStaleGrant_def sql_update_def channel_grant_def Let_def)

lemma sample_created_step: "decision_step (small_state []) (small_state [channel_grant])"
proof -
  have "decision_step (small_state [])
      (small_state []\<lparr>ss_db := (ss_db (small_state []))\<lparr>tb_grants := [channel_grant]\<rparr>\<rparr>)"
    by (rule decision_step.creating, simp add: small_state_def small_tables_def, rule sample_created)
      (simp add: small_state_def small_tables_def)
  then show ?thesis by (simp add: small_state_def small_tables_def)
qed

theorem uses_are_applications_witness:
  "\<exists>s g. decision_steps (small_state []) s \<and> g \<in> set (tb_grants (ss_db s)) \<and>
     card {prop_id p |p. p \<in> set (tb_proposals (ss_db s)) \<and> decided p \<and>
       (\<exists>a \<in> set (tb_approvals (ss_db s)). names_grant (ag_id g) a \<and> pa_proposal_id a = prop_id p)} = 1"
proof -
  obtain out s' where acc: "acceptAgentProposalIfGranted (small_env True) ''p'' channel_action (small_state [channel_grant]) =
      (Inr (Some out), s')"
    by (rule sample_grant_acceptance)
  have "decision_step (small_state [channel_grant]) s'"
    by (rule decision_step.granting [OF sample_governed acc])
  with sample_created_step have steps: "decision_steps (small_state []) s'" by simp
  have used: "tb_grants (ss_db s') = [use_once 10 channel_grant]"
  proof (rule governed_appliers.grant_step [OF sample_governed refl acc], goal_cases)
    case (2 p agent g out')
    then have "g = channel_grant" by (simp add: best_grant_def small_state_def small_tables_def)
    then show ?case
      using applied_tables(1) [OF 2(9)] by (simp add: small_env_def small_state_def small_tables_def sql_update_def)
  qed simp
  have "ag_use_count (use_once 10 channel_grant) = 1" by (simp add: channel_grant_def)
  moreover have "use_once 10 channel_grant \<in> set (tb_grants (ss_db s'))" by (simp add: used)
  ultimately show ?thesis
    using uses_are_applications [OF steps sample_start, of "use_once 10 channel_grant"] steps
    by (intro exI [of _ s'] exI [of _ "use_once 10 channel_grant"] conjI) simp_all
qed










text \<open>
  C31: what a rejection does. It was of a pending proposal of the space, which the user may read and either
  made or has the required approver's role for, outside of active bundles; the row is rejected and dated;
  the grants and approvals are as before; and when it proposed to activate a channel, no proposal that
  depends on it stays pending, and a channel it left paused is archived.
\<close>

theorem rejection_releases:
  assumes "reject env i sp u s = (Inr (Some out), s')"
  shows "\<exists>p. getProposalForUpdate i (ss_db s) = Some p \<and> prop_status p = ''pending'' \<and> prop_space_id p = sp \<and>
    contentDecisionFromDb (tb_access (ss_db s)) sp u ''proposal'' i \<noteq> AccessDeny \<and>
    canRejectProposalWithRole p u (getMembershipRole (tb_access (ss_db s)) u sp) \<and>
    active_bundle_of i (ss_db s) = None \<and>
    tb_grants (ss_db s') = tb_grants (ss_db s) \<and> tb_approvals (ss_db s') = tb_approvals (ss_db s) \<and>
    (\<forall>channel. prop_proposal_type p = ''source_channel_activation'' \<and>
        payloadString (get (payload_of p) ''source_channel_id'') = Some channel \<longrightarrow>
      (\<forall>q \<in> set (tb_proposals (ss_db s')). \<not> depends_on p q) \<and>
      (\<forall>c \<in> set (so_channels (tb_sources (ss_db s'))). \<not> paused_channel channel sp c))"
proof (rule reject_step [OF assms], goal_cases)
  case (2 p out')
  have p: "getProposalForUpdate i (ss_db s) = Some p \<and> prop_status p = ''pending'' \<and> prop_space_id p = sp \<and>
      contentDecisionFromDb (tb_access (ss_db s)) sp u ''proposal'' (prop_id p) \<noteq> AccessDeny \<and>
      canRejectProposalWithRole p u (getMembershipRole (tb_access (ss_db s)) u (prop_space_id p))"
    using 2(2) by (auto simp: rejectable_def split: option.splits if_splits)
  have id: "prop_id p = i" using find_pending p by blast
  have released: "(\<forall>q \<in> set (tb_proposals (ss_db s')). \<not> depends_on p q) \<and>
      (\<forall>c \<in> set (so_channels (tb_sources (ss_db s'))). \<not> paused_channel channel sp c)"
    if "prop_proposal_type p = ''source_channel_activation''"
      "payloadString (get (payload_of p) ''source_channel_id'') = Some channel" for channel
    using draft_released [OF that] p unfolding 2(5) by simp
  have "canRejectProposalWithRole p u (getMembershipRole (tb_access (ss_db s)) u sp)" using p by metis
  then show ?case using p id 2(3) released by (intro exI [of _ p]) (simp add: 2(5))
qed simp

lemma sample_rejected: "fst (reject (small_env True) ''p'' ''s'' ''o'' (small_state [])) = Inr (Some
   (rejected_row 10 ''o'' channel_proposal))"
  by code_simp

theorem rejection_releases_witness:
  "\<exists>s'. snd (reject (small_env True) ''p'' ''s'' ''o'' (small_state [])) = s' \<and> so_channels (tb_sources (ss_db s')) \<noteq> [] \<and>
     (\<forall>c \<in> set (so_channels (tb_sources (ss_db s'))). \<not> paused_channel ''c'' ''s'' c)"
proof -
  obtain s' where run: "reject (small_env True) ''p'' ''s'' ''o'' (small_state []) =
      (Inr (Some (rejected_row 10 ''o'' channel_proposal)), s')"
    using sample_rejected by (metis surjective_pairing)
  have channels: "so_channels (tb_sources (ss_db (snd (reject (small_env True) ''p'' ''s'' ''o'' (small_state []))))) \<noteq> []"
    by code_simp
  have "getProposalForUpdate ''p'' (ss_db (small_state [])) = Some channel_proposal"
    by (simp add: getProposalForUpdate_def small_state_def small_tables_def channel_proposal_def)
  moreover have "prop_proposal_type channel_proposal = ''source_channel_activation''"
    "payloadString (get (payload_of channel_proposal) ''source_channel_id'') = Some ''c''"
    by (simp add: channel_proposal_def, code_simp)
  ultimately show ?thesis using rejection_releases [OF run] channels run by (intro exI [of _ s']) auto
qed

text \<open>
  A channel is activated as it was reviewed. If the applier resolves, the channel it names was paused
  in the proposal's space on a paused connection that is not deleted, last changed in the second of the
  time the proposal was made for; afterwards that channel and the connection's row of the space are
  active, and every other channel and connection is as it was.
\<close>

theorem activation_of_reviewed_draft:
  assumes "applySourceChannelActivation env p user (t, w) = (Inr result, t', w')"
  shows "\<exists>channel expected c. read_activation p = Inr (channel, expected) \<and>
    c \<in> set (so_channels (tb_sources t)) \<and> paused_channel channel (prop_space_id p) c \<and>
    (\<exists>n \<in> set (so_connections (tb_sources t)). paused_connection (sc_source_connection_id c) n) \<and>
    se_parse_date env expected = Some (whole_seconds (sc_updated_at c)) \<and>
    (\<forall>x \<in> set (so_channels (tb_sources t')).
       if sc_id x = channel \<and> sc_space_id x = prop_space_id p then sc_status x = ''active'' \<and> sc_updated_at x = se_now env
       else x \<in> set (so_channels (tb_sources t))) \<and>
    (\<forall>x \<in> set (so_connections (tb_sources t')).
       if sn_id x = sc_source_connection_id c \<and> sn_space_id x = prop_space_id p
       then sn_status x = ''active'' \<and> sn_updated_at x = se_now env else x \<in> set (so_connections (tb_sources t))) \<and>
    t'\<lparr>tb_sources := tb_sources t\<rparr> = t \<and> w' = w"
  using assms
proof (cases rule: activation_cases)
  case (activated channel expected c result')
  have c: "c \<in> set (so_channels (tb_sources t))" "paused_channel channel (prop_space_id p) c"
    "list_ex (paused_connection (sc_source_connection_id c)) (so_connections (tb_sources t))"
    using activated(2) by (auto simp: draft_of_def find_Some_iff)
  have tables: "so_channels (tb_sources t') = sql_update (\<lambda>c. sc_id c = channel \<and> sc_space_id c = prop_space_id p)
      (\<lambda>c. c\<lparr>sc_status := ''active'', sc_updated_at := se_now env\<rparr>) (so_channels (tb_sources t))"
    "so_connections (tb_sources t') = sql_update
      (\<lambda>n. sn_id n = sc_source_connection_id c \<and> sn_space_id n = prop_space_id p)
      (\<lambda>n. n\<lparr>sn_status := ''active'', sn_updated_at := se_now env\<rparr>) (so_connections (tb_sources t))"
    "t'\<lparr>tb_sources := tb_sources t\<rparr> = t"
    by (simp_all add: activated(7) activate_channel_def)
  have channel_rows: "\<forall>x \<in> set (so_channels (tb_sources t')).
      if sc_id x = channel \<and> sc_space_id x = prop_space_id p then sc_status x = ''active'' \<and> sc_updated_at x = se_now env
      else x \<in> set (so_channels (tb_sources t))"
    using updated_rows [of _ "\<lambda>c. sc_id c = channel \<and> sc_space_id c = prop_space_id p"
        "\<lambda>c. c\<lparr>sc_status := ''active'', sc_updated_at := se_now env\<rparr>" "so_channels (tb_sources t)"]
    unfolding tables by fastforce
  have connection_rows: "\<forall>x \<in> set (so_connections (tb_sources t')).
      if sn_id x = sc_source_connection_id c \<and> sn_space_id x = prop_space_id p
      then sn_status x = ''active'' \<and> sn_updated_at x = se_now env else x \<in> set (so_connections (tb_sources t))"
    using updated_rows [of _ "\<lambda>n. sn_id n = sc_source_connection_id c \<and> sn_space_id n = prop_space_id p"
        "\<lambda>n. n\<lparr>sn_status := ''active'', sn_updated_at := se_now env\<rparr>" "so_connections (tb_sources t)"]
    unfolding tables by fastforce
  show ?thesis
    unfolding tables(3)
    using c activated(1,3,8) channel_rows connection_rows
    by (intro exI [of _ channel] exI [of _ expected] exI [of _ c] conjI) (simp_all add: list_ex_iff)
qed simp

theorem activation_of_reviewed_draft_witness:
  "\<exists>c t'. paused_channel ''c'' ''s'' c \<and> sc_status c = ''paused'' \<and>
     (\<forall>x \<in> set (so_channels (tb_sources (t' :: policy_tables tables))).
        if sc_id x = ''c'' \<and> sc_space_id x = ''s'' then sc_status x = ''active'' \<and> sc_updated_at x = 10
        else x \<in> set (so_channels (tb_sources (small_tables []))))"
proof -
  let ?f = "applySourceChannelActivation \<lparr>se_now = 10, se_parse_date = (\<lambda>_. Some 7000)\<rparr>
    (apply_proposal.truncate channel_proposal) ''o'' (small_tables [], ())"
  obtain result t' w' where run: "?f = (Inr result, t', w')"
  proof -
    have "isl (fst ?f) = False" by code_simp
    then show ?thesis using that by (cases ?f; cases "fst ?f") auto
  qed
  have read: "read_activation (apply_proposal.truncate channel_proposal) = Inr (''c'', ''d'')"
    "prop_space_id (apply_proposal.truncate channel_proposal) = ''s''" by code_simp+
  have "\<exists>c. paused_channel ''c'' ''s'' c \<and> (\<forall>x \<in> set (so_channels (tb_sources t')).
        if sc_id x = ''c'' \<and> sc_space_id x = ''s'' then sc_status x = ''active'' \<and> sc_updated_at x = 10
        else x \<in> set (so_channels (tb_sources (small_tables []))))"
    using activation_of_reviewed_draft [OF run] unfolding read by (elim exE conjE, intro exI conjI) simp_all
  then show ?thesis unfolding paused_channel_def by blast
qed

text \<open>
  C32: what leaves a personal memory is approved by the user who granted it, and only for the proposal the
  grant was given for. A resolved approval stands for a proposal of the space that the user may read and
  a grant they gave, neither revoked, expired nor failed, whose review time has not passed, for this
  space and the run the proposal came from, without raw private memory; it names the proposal, the user
  and the grant, and only approvals of that kind were added.
\<close>

theorem egress_approved_by_granting_user:
  assumes "approveEgressGrantingUser env i sp u input s = (Inr a, s')"
  shows "\<exists>p grant g. getProposalForUpdate i (ss_db s) = Some p \<and> prop_space_id p = sp \<and>
    contentDecisionFromDb (tb_access (ss_db s)) sp u ''proposal'' i \<noteq> AccessDeny \<and>
    or_else input (inferGrantId p (ss_db s)) = Some grant \<and> getGrant grant (ss_db s) = Some g \<and>
    mg_granting_user_id g = u \<and> mg_status g \<notin> {''revoked'', ''expired'', ''failed''} \<and>
    mg_target_space_id g = sp \<and> source_run_of p = Some (mg_target_run_id g) \<and>
    (\<forall>t. mg_egress_review_expires_at g = Some t \<longrightarrow> pe_now env < t) \<and>
    get (payload_of p) ''raw_private_memory_included'' \<noteq> JBool True \<and>
    standing_approval i u grant a \<and> a \<in> set (tb_approvals (ss_db s')) \<and>
    (ss_db s' = ss_db s \<or> ss_db s' = add_approval a (ss_db s))"
proof -
  obtain t where t: "approve_egress_tables env i sp u input (ss_db s) = Inr (a, t)" and s': "ss_db s' = t"
    using assms by (auto simp: approveEgressGrantingUser_def commit_def split: sum.splits if_splits)
  from t obtain p grant g where p: "getProposalForUpdate i (ss_db s) = Some p" "prop_space_id p = sp"
      "contentDecisionFromDb (tb_access (ss_db s)) sp u ''proposal'' (prop_id p) \<noteq> AccessDeny"
    and grant: "or_else input (inferGrantId p (ss_db s)) = Some grant" "getGrant grant (ss_db s) = Some g"
    and valid: "validateGrantApproval p g u grant (pe_now env) = Inr ()"
    and row: "latest_approval (prop_id p) u grant (ss_db s) = Some a \<and> t = ss_db s \<or>
      a = egress_approval env p u grant g \<and> t = add_approval a (ss_db s)"
    by (auto simp: approve_egress_tables_def bind_sum_def Let_def add_approval_def
        split: option.splits if_splits sum.splits)
  have id: "prop_id p = i" using find_pending [OF p(1)] by blast
  have ok: "grant_refusal p g u grant (pe_now env) = None"
    using valid by (auto simp: validateGrantApproval_def split: option.splits)
  from row have "standing_approval i u grant a \<and> a \<in> set (tb_approvals t) \<and> (t = ss_db s \<or> t = add_approval a (ss_db s))"
  proof
    assume "latest_approval (prop_id p) u grant (ss_db s) = Some a \<and> t = ss_db s"
    then show ?thesis using latest_standing [of i u grant "ss_db s" a] by (simp add: id)
  next
    assume "a = egress_approval env p u grant g \<and> t = add_approval a (ss_db s)"
    then show ?thesis by (simp add: standing_approval_def egress_approval_def add_approval_def id)
  qed
  with grant_not_refused [OF ok] p grant id s' show ?thesis by metis
qed

lemma sample_egress:
  "\<exists>a s'. approveEgressGrantingUser (small_env True) ''p'' ''s'' ''o'' None (small_state []) = (Inr a, s')"
proof -
  have "isl (fst (approveEgressGrantingUser (small_env True) ''p'' ''s'' ''o'' None (small_state []))) = False"
    by code_simp
  then show ?thesis by (rule resolved_fst)
qed

theorem egress_approved_by_granting_user_witness:
  "\<exists>grant g. getGrant grant (small_tables []) = Some g \<and> mg_granting_user_id g = ''o'' \<and>
     mg_target_space_id g = ''s'' \<and> source_run_of channel_proposal = Some (mg_target_run_id g)"
proof -
  obtain a s' where run: "approveEgressGrantingUser (small_env True) ''p'' ''s'' ''o'' None (small_state []) = (Inr a, s')"
    using sample_egress by blast
  have "getProposalForUpdate ''p'' (small_tables []) = Some channel_proposal"
    by (simp add: getProposalForUpdate_def small_tables_def channel_proposal_def)
  with egress_approved_by_granting_user [OF run] show ?thesis by (auto simp: small_state_def)
qed

end
