(* ===== verification/MemoryMonitoring.thy ===== *)
theory MemoryMonitoring
  imports StableSort SqlTable JsValue
begin

text \<open>
  The gate on accepted memory proposals, \<open>memory/sourceMonitoring.ts\<close>: the provenance a payload declares,
  and the verdict on it. \<open>String\<close> and \<open>Record<string, unknown>\<close> are those of \<open>JsValue\<close>.
\<close>

section \<open>Provenance entries\<close>

datatype accept_context = ExplicitUserAccept | InternalSeed | DirectApply

datatype monitoring_action = MonAllow | MonRequireReview | MonReject

record monitoring_outcome =
  mon_action :: monitoring_action
  mon_reason_code :: string
  mon_message :: string
  mon_details :: jsobj

record provenance_entry =
  prov_source_type :: string
  prov_source_id :: string
  prov_source_trust :: "string option"
  prov_evidence :: "jsobj option"

definition PROVENANCE_SOURCE_TYPES :: "string list" where
  "PROVENANCE_SOURCE_TYPES =
     [''activity'', ''proposal'', ''memory'', ''artifact'', ''run_step'', ''external_source'', ''user_confirmation'']"

definition SOURCE_TRUST_VALUES :: "string list" where
  "SOURCE_TRUST_VALUES =
     [''user_confirmed'', ''internal_system'', ''trusted_external'', ''untrusted_external'', ''agent_inferred'']"

definition TRUST_ALLOW_CORE :: "string list" where
  "TRUST_ALLOW_CORE = [''user_confirmed'', ''internal_system'', ''trusted_external'']"

definition asStrId :: "jsval \<Rightarrow> string option" where
  "asStrId v = (if nullish v then None
     else let s = trim (to_string v) in if length s > 0 then Some s else None)"

definition read_trust :: "jsval \<Rightarrow> string option" where
  "read_trust v = (if nullish v then None
     else let ts = trim (to_string v) in if ts \<in> set SOURCE_TRUST_VALUES then Some ts else None)"

definition normalizeOne :: "jsobj \<Rightarrow> provenance_entry option" where
  "normalizeOne raw =
     (case (asStrId (get raw ''source_type''), asStrId (get raw ''source_id'')) of
        (Some st, Some sid) \<Rightarrow>
          if st \<notin> set PROVENANCE_SOURCE_TYPES then None
          else Some \<lparr>prov_source_type = st, prov_source_id = sid,
            prov_source_trust = read_trust (get raw ''source_trust''),
            prov_evidence = asRecord (get raw ''evidence_json'')\<rparr>
      | _ \<Rightarrow> None)"

text \<open>
  The keys of an entry, as the loops that remove duplicates build them: with NUL between the parts of the
  entries of a payload, with a blank between those of the entries to store.
\<close>

definition entry_key :: "char \<Rightarrow> provenance_entry \<Rightarrow> string" where
  "entry_key sep e = prov_source_type e @ [sep] @ prov_source_id e @ [sep] @ or_value (prov_source_trust e) []"

definition provKey :: "provenance_entry \<Rightarrow> string" where
  "provKey = entry_key (CHR '' '')"

text \<open>The entries of the list, the activity, the run and the two memories a payload names.\<close>

definition listed_entries :: "jsobj \<Rightarrow> provenance_entry list" where
  "listed_entries p = (case get p ''provenance_entries'' of
     JArr items \<Rightarrow> List.map_filter (\<lambda>item. Option.bind (asRecord item) normalizeOne) items
   | _ \<Rightarrow> [])"

definition activity_entry :: "jsobj \<Rightarrow> provenance_entry option" where
  "activity_entry p = (case asStrId (get p ''source_activity_id'') of
     None \<Rightarrow> None
   | Some act \<Rightarrow> normalizeOne
       [(''source_type'', JStr ''activity''), (''source_id'', JStr act),
        (''source_trust'', get p ''activity_source_trust''),
        (''evidence_json'',
          if nullish (get p ''source_evidence'') then JNull
          else JObj [(''note'', JStr (to_string (get p ''source_evidence'')))])])"

definition run_entry :: "jsobj \<Rightarrow> provenance_entry option" where
  "run_entry p = (case asStrId (get p ''source_run_id'') of
     None \<Rightarrow> None
   | Some rid \<Rightarrow> normalizeOne
       [(''source_type'', JStr ''run_step''), (''source_id'', JStr rid),
        (''source_trust'', JStr ''internal_system''),
        (''evidence_json'', JObj [(''from_payload'', JStr ''source_run_id'')])])"

definition memory_entry :: "jsobj \<Rightarrow> string \<Rightarrow> provenance_entry option" where
  "memory_entry p k = (case asStrId (get p k) of
     None \<Rightarrow> None
   | Some mid \<Rightarrow> normalizeOne
       [(''source_type'', JStr ''memory''), (''source_id'', JStr mid),
        (''source_trust'', get p ''memory_source_trust'')])"

definition provenanceEntriesFromPayload :: "jsobj \<Rightarrow> provenance_entry list" where
  "provenanceEntriesFromPayload p =
     nub_by (entry_key (CHR 0x00)) []
       (listed_entries p @ List.map_filter (\<lambda>e. e)
          [activity_entry p, run_entry p, memory_entry p ''source_memory_id'', memory_entry p ''derived_from_memory_id''])"

section \<open>The verdict\<close>

definition trustSet :: "provenance_entry list \<Rightarrow> string list" where
  "trustSet es = nub (List.map_filter prov_source_trust es)"

definition sortedTrusts :: "string list \<Rightarrow> string list" where
  "sortedTrusts trusts = sort trusts"

definition isSubset :: "string list \<Rightarrow> string list \<Rightarrow> bool" where
  "isSubset xs ys = list_all (\<lambda>x. x \<in> set ys) xs"

definition intersects :: "string list \<Rightarrow> string list \<Rightarrow> bool" where
  "intersects xs ys = list_ex (\<lambda>x. x \<in> set ys) xs"

definition trusts_detail :: "string list \<Rightarrow> jsobj" where
  "trusts_detail trusts = [(''trusts'', JArr (map JStr (sortedTrusts trusts)))]"

definition is_episodic :: "jsobj \<Rightarrow> bool" where
  "is_episodic p \<longleftrightarrow>
     to_lower (to_string (coalesce (get p ''memory_type'') (JStr ''semantic''))) = ''episodic'' \<or>
     to_lower (to_string (coalesce (coalesce (get p ''target_layer'') (get p ''memory_layer'')) (JStr []))) = ''episodic''"

definition missing_provenance :: "bool \<Rightarrow> monitoring_outcome" where
  "missing_provenance semantic =
     \<lparr>mon_action = MonReject, mon_reason_code = ''missing_provenance'',
      mon_message = (if semantic then ''semantic memory proposals require provenance_entries''
        else ''episodic memory proposals require provenance_entries''), mon_details = []\<rparr>"

definition semantic_verdict :: "string list \<Rightarrow> monitoring_outcome" where
  "semantic_verdict trusts =
     (let hasCore = intersects trusts TRUST_ALLOW_CORE;
          onlyAgent = isSubset trusts [''agent_inferred''] \<and> length trusts > 0;
          hasUntrusted = ''untrusted_external'' \<in> set trusts;
          hasAgent = ''agent_inferred'' \<in> set trusts
      in if onlyAgent \<or> (hasAgent \<and> \<not> hasCore)
         then \<lparr>mon_action = MonReject, mon_reason_code = ''agent_inferred_only'',
           mon_message = ''agent_inferred cannot be the sole trusted basis for active semantic fact or policy'',
           mon_details = trusts_detail trusts\<rparr>
         else if \<not> hasCore
         then if hasUntrusted \<and> isSubset trusts [''untrusted_external'']
           then \<lparr>mon_action = MonRequireReview, mon_reason_code = ''untrusted_external_only'',
             mon_message = ''untrusted_external requires explicit approval before apply'',
             mon_details = trusts_detail trusts\<rparr>
           else \<lparr>mon_action = MonReject, mon_reason_code = ''no_trusted_provenance'',
             mon_message = ''semantic/policy proposals require user_confirmed, internal_system, or trusted_external evidence'',
             mon_details = trusts_detail trusts\<rparr>
         else \<lparr>mon_action = MonAllow, mon_reason_code = ''ok'', mon_message = ''trusted provenance present'',
           mon_details = trusts_detail trusts\<rparr>)"

definition episodic_verdict :: "string list \<Rightarrow> monitoring_outcome" where
  "episodic_verdict trusts =
     (let episodicOk = intersects trusts [''user_confirmed'', ''internal_system''];
          trustedExternal = ''trusted_external'' \<in> set trusts;
          onlyAgent = isSubset trusts [''agent_inferred''] \<and> length trusts > 0;
          hasUntrusted = ''untrusted_external'' \<in> set trusts;
          hasAgent = ''agent_inferred'' \<in> set trusts
      in if episodicOk \<or> trustedExternal
         then \<lparr>mon_action = MonAllow, mon_reason_code = ''ok_episodic'', mon_message = ''episodic provenance acceptable'',
           mon_details = []\<rparr>
         else if onlyAgent \<or> (hasAgent \<and> \<not> episodicOk \<and> \<not> trustedExternal)
         then \<lparr>mon_action = MonReject, mon_reason_code = ''agent_inferred_episodic'',
           mon_message = ''episodic memory requires user_confirmed or internal_system (or trusted_external)'',
           mon_details = trusts_detail trusts\<rparr>
         else if hasUntrusted \<and> \<not> episodicOk
         then \<lparr>mon_action = MonRequireReview, mon_reason_code = ''untrusted_external_episodic'',
           mon_message = ''untrusted_external episodic change requires explicit approval'',
           mon_details = trusts_detail trusts\<rparr>
         else \<lparr>mon_action = MonReject, mon_reason_code = ''episodic_weak'',
           mon_message = ''insufficient provenance for episodic memory'', mon_details = []\<rparr>)"

definition evaluateMemoryProposal :: "string \<Rightarrow> jsobj \<Rightarrow> accept_context \<Rightarrow> monitoring_outcome" where
  "evaluateMemoryProposal proposalType p acceptContext =
     (let entries = provenanceEntriesFromPayload p; trusts = trustSet entries; isSemantic = (\<not> is_episodic p)
      in if acceptContext = InternalSeed
         then \<lparr>mon_action = MonAllow, mon_reason_code = ''bypass'', mon_message = ''internal seed bypass'',
           mon_details = [(''entries'', JNum (of_nat (length entries)))]\<rparr>
         else if proposalType = ''memory_archive''
         then \<lparr>mon_action = MonAllow, mon_reason_code = ''archive_light'',
           mon_message = ''archive uses lighter monitoring'', mon_details = []\<rparr>
         else if length entries = 0 then missing_provenance isSemantic
         else if isSemantic \<or> proposalType = ''policy_change'' then semantic_verdict trusts
         else episodic_verdict trusts)"

definition action_text :: "monitoring_action \<Rightarrow> string" where
  "action_text a = (case a of MonAllow \<Rightarrow> ''allow'' | MonRequireReview \<Rightarrow> ''require_review'' | MonReject \<Rightarrow> ''reject'')"

definition monitoringSnapshot :: "monitoring_outcome \<Rightarrow> jsobj" where
  "monitoringSnapshot o1 =
     [(''action'', JStr (action_text (mon_action o1))), (''reason_code'', JStr (mon_reason_code o1)),
      (''message'', JStr (mon_message o1)), (''details'', JObj (mon_details o1))]"

section \<open>Trust of a list of entries\<close>

text \<open>\<open>memoryApplyProvenance.ts\<close>: the strongest trust declared, and lists of entries without duplicates.\<close>

definition SOURCE_TRUST_RANK :: "(string \<times> int) list" where
  "SOURCE_TRUST_RANK = [(''user_confirmed'', 50), (''trusted_external'', 40), (''internal_system'', 35),
     (''untrusted_external'', 20), (''agent_inferred'', 10)]"

definition stronger :: "provenance_entry \<Rightarrow> string option \<times> int \<Rightarrow> string option \<times> int" where
  "stronger e best = (case prov_source_trust e of
     None \<Rightarrow> best
   | Some t \<Rightarrow>
       if t \<notin> set SOURCE_TRUST_VALUES then best
       else let r = or_value (map_of SOURCE_TRUST_RANK t) 0 in if r > snd best then (Some t, r) else best)"

definition dominantSourceTrust :: "provenance_entry list \<Rightarrow> string option" where
  "dominantSourceTrust es = fst (fold stronger es (None, - 1))"

definition proposalProvenanceEntry :: "string \<Rightarrow> jsobj \<Rightarrow> provenance_entry" where
  "proposalProvenanceEntry i evidence =
     \<lparr>prov_source_type = ''proposal'', prov_source_id = i, prov_source_trust = Some ''internal_system'',
      prov_evidence = Some evidence\<rparr>"

definition mergeDistinctProvenanceEntries :: "provenance_entry list list \<Rightarrow> provenance_entry list" where
  "mergeDistinctProvenanceEntries ls = nub_by provKey [] (concat ls)"

section \<open>What the entries of a payload are\<close>

definition prov_entry_ok :: "provenance_entry \<Rightarrow> bool" where
  "prov_entry_ok e \<longleftrightarrow>
     prov_source_type e \<in> set PROVENANCE_SOURCE_TYPES \<and> prov_source_id e \<noteq> [] \<and>
     (case prov_source_trust e of None \<Rightarrow> True | Some t \<Rightarrow> t \<in> set SOURCE_TRUST_VALUES)"

lemma normalizeOne_ok: "normalizeOne raw = Some e \<Longrightarrow> prov_entry_ok e"
  by (auto simp: normalizeOne_def prov_entry_ok_def read_trust_def asStrId_def Let_def split: option.splits if_splits)

lemma payload_entries_ok:
  assumes "e \<in> set (provenanceEntriesFromPayload p)"
  shows "prov_entry_ok e"
proof -
  from assms nub_by_subset have "e \<in> set (listed_entries p @ List.map_filter (\<lambda>e. e)
      [activity_entry p, run_entry p, memory_entry p ''source_memory_id'', memory_entry p ''derived_from_memory_id''])"
    unfolding provenanceEntriesFromPayload_def by fast
  then consider "e \<in> set (listed_entries p)" | "activity_entry p = Some e" | "run_entry p = Some e"
    | "memory_entry p ''source_memory_id'' = Some e" | "memory_entry p ''derived_from_memory_id'' = Some e"
    by (auto simp: map_filter_def split: if_splits)
  then show ?thesis
  proof cases
    case 1
    then show ?thesis
      by (auto simp: listed_entries_def map_filter_def split: jsval.splits Option.bind_splits intro: normalizeOne_ok)
  qed (auto simp: activity_entry_def run_entry_def memory_entry_def split: option.splits intro: normalizeOne_ok)
qed

text \<open>No entry type and no trust has a separator, so the key determines type, id and trust.\<close>

definition separators :: "char set" where
  "separators = {CHR 0x00, CHR '' ''}"

lemma separator_free:
  "t \<in> set PROVENANCE_SOURCE_TYPES \<Longrightarrow> c \<in> separators \<Longrightarrow> c \<notin> set t"
  "t \<in> set SOURCE_TRUST_VALUES \<Longrightarrow> c \<in> separators \<Longrightarrow> c \<notin> set t \<and> t \<noteq> []"
  by (auto simp: PROVENANCE_SOURCE_TYPES_def SOURCE_TRUST_VALUES_def separators_def)

lemma append_separator_eq:
  assumes "c \<notin> set xs" and "c \<notin> set xs'" and "xs @ c # ys = xs' @ c # ys'"
  shows "xs = xs' \<and> ys = ys'"
proof -
  have "takeWhile (\<lambda>x. x \<noteq> c) (xs @ c # ys) = xs" and "takeWhile (\<lambda>x. x \<noteq> c) (xs' @ c # ys') = xs'"
    using assms(1,2) by (auto simp: takeWhile_append)
  with assms(3) show ?thesis by simp
qed

definition key_parts :: "char \<Rightarrow> provenance_entry \<Rightarrow> bool" where
  "key_parts c e \<longleftrightarrow> c \<notin> set (prov_source_type e) \<and>
     (case prov_source_trust e of None \<Rightarrow> True | Some t \<Rightarrow> c \<notin> set t \<and> t \<noteq> [])"

lemma entry_key_parts: "prov_entry_ok e \<Longrightarrow> c \<in> separators \<Longrightarrow> key_parts c e"
  using separator_free by (auto simp: prov_entry_ok_def key_parts_def split: option.splits)

lemma key_determines:
  assumes "key_parts c e" and "key_parts c f" and "entry_key c e = entry_key c f"
  shows "prov_source_type e = prov_source_type f \<and> prov_source_id e = prov_source_id f \<and>
    prov_source_trust e = prov_source_trust f"
proof -
  let ?te = "or_value (prov_source_trust e) []" and ?tf = "or_value (prov_source_trust f) []"
  have free: "c \<notin> set (or_value (prov_source_trust g) [])" if "key_parts c g" for g
    using that by (auto simp: key_parts_def or_value_def split: option.splits)
  have "c \<notin> set (prov_source_type e)" "c \<notin> set (prov_source_type f)"
    using assms(1,2) by (auto simp: key_parts_def)
  from append_separator_eq [OF this] assms(3)
  have types: "prov_source_type e = prov_source_type f"
    and rest: "prov_source_id e @ c # ?te = prov_source_id f @ c # ?tf"
    unfolding entry_key_def by simp_all
  have rev_parts: "rev (xs @ c # ys) = rev ys @ c # rev xs" for xs ys by simp
  from rest have "rev ?te @ c # rev (prov_source_id e) = rev ?tf @ c # rev (prov_source_id f)"
    unfolding rev_parts [symmetric] by (rule arg_cong)
  moreover have "c \<notin> set (rev ?te)" and "c \<notin> set (rev ?tf)"
    using free assms(1,2) by simp_all
  ultimately have "rev ?te = rev ?tf \<and> rev (prov_source_id e) = rev (prov_source_id f)"
    by (intro append_separator_eq)
  moreover have "prov_source_trust e = prov_source_trust f" if "?te = ?tf"
    using that assms(1,2) by (auto simp: key_parts_def or_value_def split: option.splits)
  ultimately show ?thesis using types by simp
qed

section \<open>Trust\<close>

definition trusts_of :: "provenance_entry list \<Rightarrow> string set" where
  "trusts_of es = {t. \<exists>e \<in> set es. prov_source_trust e = Some t}"

lemma set_trustSet [simp]: "set (trustSet es) = trusts_of es"
  by (force simp: trustSet_def trusts_of_def map_filter_def image_iff)

lemma isSubset_iff [simp]: "isSubset xs ys \<longleftrightarrow> set xs \<subseteq> set ys"
  by (auto simp: isSubset_def list_all_iff)

lemma intersects_iff [simp]: "intersects xs ys \<longleftrightarrow> set xs \<inter> set ys \<noteq> {}"
  by (auto simp: intersects_def list_ex_iff)

lemma trusts_among: "(\<forall>e \<in> set es. prov_entry_ok e) \<Longrightarrow> trusts_of es \<subseteq> set SOURCE_TRUST_VALUES"
  by (fastforce simp: trusts_of_def prov_entry_ok_def)

text \<open>The specification of the gate: one core trust opens it, untrusted sources alone need a review.\<close>

definition gate_action :: "provenance_entry list \<Rightarrow> monitoring_action" where
  "gate_action es =
     (if \<exists>t \<in> set TRUST_ALLOW_CORE. t \<in> trusts_of es then MonAllow
      else if trusts_of es = {''untrusted_external''} then MonRequireReview
      else MonReject)"

lemma length_set_pos: "length xs > 0 \<longleftrightarrow> set xs \<noteq> {}"
  by simp

lemma weak_trusts:
  assumes "\<forall>e \<in> set es. prov_entry_ok e" and "set TRUST_ALLOW_CORE \<inter> trusts_of es = {}"
  obtains "trusts_of es = {}" | "trusts_of es = {''untrusted_external''}" | "trusts_of es = {''agent_inferred''}"
    | "trusts_of es = {''untrusted_external'', ''agent_inferred''}"
proof -
  have "set SOURCE_TRUST_VALUES = set TRUST_ALLOW_CORE \<union> {''untrusted_external'', ''agent_inferred''}"
    by (simp add: SOURCE_TRUST_VALUES_def TRUST_ALLOW_CORE_def insert_commute)
  with trusts_among [OF assms(1)] assms(2) have "trusts_of es \<subseteq> {''untrusted_external'', ''agent_inferred''}" by blast
  then show thesis using that by blast
qed

lemma core_trust_iff: "(\<exists>t \<in> set TRUST_ALLOW_CORE. t \<in> trusts_of es) \<longleftrightarrow> set TRUST_ALLOW_CORE \<inter> trusts_of es \<noteq> {}"
  by blast

lemma closed_gate: "set TRUST_ALLOW_CORE \<inter> trusts_of es = {} \<Longrightarrow>
    gate_action es = (if trusts_of es = {''untrusted_external''} then MonRequireReview else MonReject)"
  by (simp only: gate_action_def core_trust_iff simp_thms if_False)

lemma open_gate: "set TRUST_ALLOW_CORE \<inter> trusts_of es \<noteq> {} \<Longrightarrow> gate_action es = MonAllow"
  by (simp only: gate_action_def core_trust_iff simp_thms if_True)

lemma core_parts: "set TRUST_ALLOW_CORE = set [''user_confirmed'', ''internal_system''] \<union> {''trusted_external''}"
  by (simp add: TRUST_ALLOW_CORE_def insert_commute)

lemma no_core_member: "x \<in> set TRUST_ALLOW_CORE \<Longrightarrow> x \<noteq> ''agent_inferred'' \<and> x \<noteq> ''untrusted_external''"
  by (auto simp: TRUST_ALLOW_CORE_def)

lemma semantic_action:
  assumes "\<forall>e \<in> set es. prov_entry_ok e"
  shows "mon_action (semantic_verdict (trustSet es)) = gate_action es"
proof (cases "set TRUST_ALLOW_CORE \<inter> trusts_of es = {}")
  case True
  then have none: "\<not> intersects (trustSet es) TRUST_ALLOW_CORE" by (simp add: Int_commute)
  from assms True show ?thesis
    by (cases rule: weak_trusts)
      (simp_all add: closed_gate [OF True] semantic_verdict_def Let_def length_set_pos none
        del: length_greater_0_conv intersects_iff set_empty)
next
  case False
  then have core: "intersects (trustSet es) TRUST_ALLOW_CORE" by (simp add: Int_commute)
  from False have "\<not> isSubset (trustSet es) [''agent_inferred'']" using no_core_member by auto
  with core open_gate [OF False] show ?thesis by (simp add: semantic_verdict_def Let_def del: isSubset_iff intersects_iff)
qed

lemma episodic_action:
  assumes "\<forall>e \<in> set es. prov_entry_ok e"
  shows "mon_action (episodic_verdict (trustSet es)) = gate_action es"
proof -
  have core: "intersects (trustSet es) [''user_confirmed'', ''internal_system''] \<or>
      ''trusted_external'' \<in> set (trustSet es) \<longleftrightarrow> set TRUST_ALLOW_CORE \<inter> trusts_of es \<noteq> {}"
    unfolding core_parts by auto
  show ?thesis
  proof (cases "set TRUST_ALLOW_CORE \<inter> trusts_of es = {}")
    case True
    with core have none: "\<not> intersects (trustSet es) [''user_confirmed'', ''internal_system'']"
      "''trusted_external'' \<notin> set (trustSet es)" by blast+
    from assms True show ?thesis
      by (cases rule: weak_trusts)
        (use none in \<open>simp_all add: closed_gate [OF True] episodic_verdict_def Let_def length_set_pos
          del: length_greater_0_conv intersects_iff\<close>)
  next
    case False
    with core open_gate [OF False] show ?thesis by (auto simp: episodic_verdict_def Let_def)
  qed
qed

lemma gate_action_Nil [simp]: "gate_action [] = MonReject"
  by (auto simp: gate_action_def trusts_of_def)

lemma evaluate_action:
  "mon_action (evaluateMemoryProposal ty p c) =
     (if c = InternalSeed \<or> ty = ''memory_archive'' then MonAllow
      else gate_action (provenanceEntriesFromPayload p))"
  using semantic_action episodic_action payload_entries_ok
  by (auto simp: evaluateMemoryProposal_def missing_provenance_def Let_def)

text \<open>The dominant trust is the declared one of the highest rank.\<close>

definition rank_of :: "string \<Rightarrow> int" where
  "rank_of t = or_value (map_of SOURCE_TRUST_RANK t) 0"

lemma stronger_fold:
  assumes "\<forall>e \<in> set es. prov_entry_ok e" and "case fst best of None \<Rightarrow> snd best = - 1 | Some b \<Rightarrow> snd best = rank_of b"
  shows "case fst (fold stronger es best) of
      None \<Rightarrow> fst best = None \<and> trusts_of es = {}
    | Some t \<Rightarrow> (t \<in> trusts_of es \<or> fst best = Some t) \<and> snd (fold stronger es best) = rank_of t \<and>
        snd best \<le> rank_of t \<and> (\<forall>u \<in> trusts_of es. rank_of u \<le> rank_of t)"
  using assms
proof (induction es arbitrary: best)
  case Nil
  then show ?case by (auto simp: trusts_of_def split: option.splits)
next
  case (Cons e es)
  have more: "trusts_of (e # es) = trusts_of es \<union> set_option (prov_source_trust e)"
    by (auto simp: trusts_of_def)
  have pos: "t \<in> set SOURCE_TRUST_VALUES \<Longrightarrow> rank_of t \<ge> 0" for t
    by (auto simp: rank_of_def or_value_def SOURCE_TRUST_RANK_def SOURCE_TRUST_VALUES_def)
  show ?case
  proof (cases "prov_source_trust e")
    case None
    then have "stronger e best = best" by (simp add: stronger_def)
    with Cons.IH [of best] Cons.prems None show ?thesis by (simp add: more split: option.splits)
  next
    case (Some u)
    with Cons.prems(1) have u: "u \<in> set SOURCE_TRUST_VALUES" by (simp add: prov_entry_ok_def)
    show ?thesis
    proof (cases "rank_of u > snd best")
      case True
      with u Some have step: "stronger e best = (Some u, rank_of u)"
        by (simp add: stronger_def rank_of_def)
      show ?thesis
        using Cons.IH [of "(Some u, rank_of u)"] Cons.prems(1) True Some
        by (auto simp: step more split: option.splits)
    next
      case False
      with u Some have step: "stronger e best = best"
        by (simp add: stronger_def rank_of_def)
      from False pos [OF u] Cons.prems(2) have "fst best \<noteq> None" by (auto split: option.splits)
      then show ?thesis
        using Cons.IH [of best] Cons.prems False Some by (auto simp: step more split: option.splits)
    qed
  qed
qed

lemma dominant_trust:
  assumes "\<forall>e \<in> set es. prov_entry_ok e"
  shows "case dominantSourceTrust es of None \<Rightarrow> trusts_of es = {}
    | Some t \<Rightarrow> t \<in> trusts_of es \<and> (\<forall>u \<in> trusts_of es. rank_of u \<le> rank_of t)"
  using stronger_fold [OF assms, of "(None, - 1)"]
  by (auto simp: dominantSourceTrust_def split: option.splits)

lemma core_rank: "t \<in> set SOURCE_TRUST_VALUES \<Longrightarrow> t \<in> set TRUST_ALLOW_CORE \<longleftrightarrow> 35 \<le> rank_of t"
  unfolding SOURCE_TRUST_VALUES_def
  by (simp add: TRUST_ALLOW_CORE_def rank_of_def SOURCE_TRUST_RANK_def, elim disjE) (simp_all add: or_value_def)

lemma core_values: "set TRUST_ALLOW_CORE \<subseteq> set SOURCE_TRUST_VALUES"
  by (simp add: TRUST_ALLOW_CORE_def SOURCE_TRUST_VALUES_def)

text \<open>An open gate: the dominant trust is a core one, or untrusted sources are all there is.\<close>

lemma gate_trust:
  assumes "gate_action (provenanceEntriesFromPayload p) = a" and "a \<noteq> MonReject"
  obtains t where "dominantSourceTrust (provenanceEntriesFromPayload p) = Some t"
    and "t \<in> set (if a = MonAllow then TRUST_ALLOW_CORE else [''untrusted_external''])"
proof -
  let ?es = "provenanceEntriesFromPayload p"
  have ok: "\<forall>e \<in> set ?es. prov_entry_ok e" using payload_entries_ok by blast
  from assms have some: "trusts_of ?es \<noteq> {}" by (auto simp: gate_action_def split: if_splits)
  with dominant_trust [OF ok] obtain t where dom: "dominantSourceTrust ?es = Some t" and t: "t \<in> trusts_of ?es"
    and best: "\<And>u. u \<in> trusts_of ?es \<Longrightarrow> rank_of u \<le> rank_of t" by (auto split: option.splits)
  from t trusts_among [OF ok] have val: "t \<in> set SOURCE_TRUST_VALUES" by blast
  show thesis
  proof (cases "\<exists>u \<in> set TRUST_ALLOW_CORE. u \<in> trusts_of ?es")
    case True
    then obtain u where u: "u \<in> set TRUST_ALLOW_CORE" "rank_of u \<le> rank_of t" using best by blast
    with core_rank core_values have "35 \<le> rank_of t" by (meson order_trans subsetD)
    with val have "t \<in> set TRUST_ALLOW_CORE" by (simp add: core_rank)
    with True assms(1) dom show ?thesis by (intro that) (simp_all add: gate_action_def)
  next
    case False
    with assms t have "t = ''untrusted_external''" "a = MonRequireReview"
      by (auto simp: gate_action_def split: if_splits)
    with dom show ?thesis by (intro that) simp_all
  qed
qed

text \<open>A payload that names a run has an entry of a core trust.\<close>

lemma nub_by_keeps:
  "x \<in> set xs \<Longrightarrow> k x \<notin> set seen \<Longrightarrow> \<exists>y \<in> set (nub_by k seen xs). k y = k x"
  using nub_by_keys [of k seen xs] by (metis DiffI image_eqI image_iff)

lemma trim_idem: "trim (trim s) = trim s"
proof -
  have "trim_left (trim s) = trim s"
  proof (cases "trim s")
    case Nil
    then show ?thesis by (simp add: trim_left_def)
  next
    case (Cons c cs)
    have "prefix (trim s) (trim_left s)"
      using suffix_dropWhile [of is_space "rev (trim_left s)"] by (simp add: trim_def trim_left_def suffix_to_prefix)
    with Cons have "trim_left s \<noteq> []" and "hd (trim_left s) = c" by (auto simp: prefix_def)
    then have "\<not> is_space c" using hd_dropWhile [of is_space s] by (auto simp: trim_left_def)
    with Cons show ?thesis by (simp add: trim_left_def)
  qed
  then show ?thesis by (simp add: trim_def trim_left_def)
qed

lemma asStrId_again: "asStrId v = Some i \<Longrightarrow> asStrId (JStr i) = Some i"
  by (auto simp: asStrId_def Let_def trim_idem split: if_splits)

lemma run_passes_gate:
  assumes "asStrId (get p ''source_run_id'') = Some i"
  shows "gate_action (provenanceEntriesFromPayload p) = MonAllow"
proof -
  let ?e = "\<lparr>prov_source_type = ''run_step'', prov_source_id = i, prov_source_trust = Some ''internal_system'',
    prov_evidence = Some [(''from_payload'', JStr ''source_run_id'')]\<rparr>"
  let ?all = "listed_entries p @ List.map_filter (\<lambda>e. e)
    [activity_entry p, run_entry p, memory_entry p ''source_memory_id'', memory_entry p ''derived_from_memory_id'']"
  have literals: "asStrId (JStr ''run_step'') = Some ''run_step''"
    "read_trust (JStr ''internal_system'') = Some ''internal_system''" by code_simp+
  have entry: "run_entry p = Some ?e"
    using assms asStrId_again [OF assms]
    by (simp add: run_entry_def normalizeOne_def literals PROVENANCE_SOURCE_TYPES_def)
  then have ok: "prov_entry_ok ?e" by (auto simp: run_entry_def assms intro: normalizeOne_ok)
  have "?e \<in> set ?all" by (auto simp: map_filter_def entry)
  from nub_by_keeps [OF this, of "entry_key (CHR 0x00)" "[]"]
  obtain y where y: "y \<in> set (provenanceEntriesFromPayload p)" and key: "entry_key (CHR 0x00) y = entry_key (CHR 0x00) ?e"
    by (auto simp: provenanceEntriesFromPayload_def)
  have "prov_source_trust y = Some ''internal_system''"
    using key_determines [OF entry_key_parts [OF payload_entries_ok [OF y]] entry_key_parts [OF ok] key]
    by (simp add: separators_def)
  with y have "''internal_system'' \<in> trusts_of (provenanceEntriesFromPayload p)" by (auto simp: trusts_of_def)
  then show ?thesis by (auto simp: gate_action_def TRUST_ALLOW_CORE_def)
qed

end
