(* ===== verification/EmbeddingJobs.thy ===== *)
theory EmbeddingJobs
  imports JobQueue
begin

text \<open>
  The reading statements of the job queue (\<open>jobs/repository.ts\<close>), and the job that embeds what was written
  to a space (\<open>retrieval/embedding/job.ts\<close>), which one of them is meant to keep from being queued twice.
\<close>

section \<open>Reading jobs\<close>

definition job_status_text :: "job_status \<Rightarrow> string" where
  "job_status_text s = (case s of
     Pending \<Rightarrow> ''pending'' | Claimed \<Rightarrow> ''claimed'' | Running \<Rightarrow> ''running''
   | Completed \<Rightarrow> ''completed'' | Failed \<Rightarrow> ''failed'' | Cancelled \<Rightarrow> ''cancelled'')"

text \<open>A clause is added for a filter that is given and not empty.\<close>

definition clause :: "string option \<Rightarrow> string option \<Rightarrow> bool" where
  "clause wanted value \<longleftrightarrow> truthy (opt_str wanted) \<longrightarrow> value = wanted"

record job_filter =
  jf_space_id :: string
  jf_user_id :: "string option"
  jf_status :: "string option"
  jf_job_type :: "string option"

definition job_selected :: "job_filter \<Rightarrow> job \<Rightarrow> bool" where
  "job_selected f j \<longleftrightarrow>
     jb_space_id j = jf_space_id f \<and> clause (jf_user_id f) (jb_user_id j) \<and>
     clause (jf_status f) (Some (job_status_text (jb_status j))) \<and>
     clause (jf_job_type f) (Some (jb_job_type j))"

definition listJobs :: "job_filter \<Rightarrow> nat \<Rightarrow> nat \<Rightarrow> queue \<Rightarrow> job list" where
  "listJobs f limit offset q =
     take limit (drop offset
       (sort_by (\<lambda>a b. jb_created_at b - jb_created_at a) (filter (job_selected f) (qu_jobs q))))"

definition countJobs :: "string \<Rightarrow> string option \<Rightarrow> string option \<Rightarrow> queue \<Rightarrow> nat" where
  "countJobs sp user status q =
     length (filter (job_selected \<lparr>jf_space_id = sp, jf_user_id = user, jf_status = status, jf_job_type = None\<rparr>)
       (qu_jobs q))"

definition getEvents :: "string \<Rightarrow> queue \<Rightarrow> job_event list" where
  "getEvents i q = sort_by (\<lambda>a b. ev_created_at a - ev_created_at b) (filter (\<lambda>e. ev_job_id e = i) (qu_events q))"

section \<open>The embedding job\<close>

definition RETRIEVAL_EMBEDDING_JOB :: string where
  "RETRIEVAL_EMBEDDING_JOB = ''retrieval_embedding_backfill''"

definition DEFAULT_EMBED_BATCH :: nat where
  "DEFAULT_EMBED_BATCH = 128"

record backfill_input =
  bf_space_id :: string
  bf_user_id :: "string option"
  bf_batch_limit :: "nat option"
  bf_priority :: "int option"
  bf_max_attempts :: "nat option"
  bf_trigger :: "string option"
  bf_proposal_id :: "string option"

definition backfill_job :: "backfill_input \<Rightarrow> enqueue_input" where
  "backfill_job input =
     \<lparr>ei_job_type = RETRIEVAL_EMBEDDING_JOB,
      ei_payload = JObj [(''space_id'', JStr (bf_space_id input)),
        (''batch_limit'', JNum (of_nat (or_value (bf_batch_limit input) DEFAULT_EMBED_BATCH))),
        (''trigger'', opt_str (bf_trigger input)), (''proposal_id'', opt_str (bf_proposal_id input))],
      ei_space_id = bf_space_id input, ei_user_id = bf_user_id input, ei_workspace_id = None, ei_agent_id = None,
      ei_priority = Some (or_value (bf_priority input) (- 10)),
      ei_max_attempts = Some (or_value (bf_max_attempts input) 3), ei_scheduled_at = None\<rparr>"

text \<open>The id of the job, whether one was reused, and the queue.\<close>

definition enqueueRetrievalEmbeddingBackfillWithQueue ::
  "patterns \<Rightarrow> string \<Rightarrow> backfill_input \<Rightarrow> int \<Rightarrow> queue \<Rightarrow> (string \<times> bool) \<times> queue" where
  "enqueueRetrievalEmbeddingBackfillWithQueue pats i input now q =
     (case listJobs \<lparr>jf_space_id = bf_space_id input, jf_user_id = None, jf_status = Some ''queued'',
             jf_job_type = Some RETRIEVAL_EMBEDDING_JOB\<rparr> 1 0 q of
        j # _ \<Rightarrow> ((jb_id j, True), q)
      | [] \<Rightarrow> ((i, False), enqueue pats i (backfill_job input) now q))"

section \<open>Facts\<close>

lemma set_listJobs: "j \<in> set (listJobs f limit offset q) \<Longrightarrow> j \<in> set (qu_jobs q) \<and> job_selected f j"
  unfolding listJobs_def by (drule in_set_takeD, drule in_set_dropD) (simp add: set_sort_by)

lemma list_count:
  "countJobs sp user status q =
     length (listJobs \<lparr>jf_space_id = sp, jf_user_id = user, jf_status = status, jf_job_type = None\<rparr>
       (length (qu_jobs q)) 0 q)"
proof -
  have "length (filter P xs) \<le> length xs" for P and xs :: "job list" by (rule length_filter_le)
  then show ?thesis by (simp add: countJobs_def listJobs_def min_absorb2)
qed

text \<open>No job has the status \<open>queued\<close>, so a waiting job of the space is never found and never reused.\<close>

lemma no_queued_job: "jf_status f = Some ''queued'' \<Longrightarrow> listJobs f limit offset q = []"
proof (rule ccontr)
  assume status: "jf_status f = Some ''queued''" and "listJobs f limit offset q \<noteq> []"
  then obtain j where "j \<in> set (listJobs f limit offset q)" by (cases "listJobs f limit offset q") auto
  from set_listJobs [OF this] status have "job_status_text (jb_status j) = ''queued''"
    by (simp add: job_selected_def clause_def)
  then show False by (cases "jb_status j") (simp_all add: job_status_text_def)
qed

lemma backfill_never_reused:
  "enqueueRetrievalEmbeddingBackfillWithQueue pats i input now q =
     ((i, False), enqueue pats i (backfill_job input) now q)"
  by (simp add: enqueueRetrievalEmbeddingBackfillWithQueue_def no_queued_job)

end
