(* ===== verification/MemoryApply.thy ===== *)
theory MemoryApply
  imports SourceActivation MemoryMonitoring EmbeddingJobs
begin

text \<open>
  Applying memory proposals: \<open>memory/memoryApplyRepository.ts\<close>, \<open>memory/memoryApplyProvenance.ts\<close> and the
  applier of \<open>proposals/applierRegistry.ts\<close> over them. The retrieval index is derived data, rewritten in a
  savepoint of its own, and not part of the model. Time stamps of memories are their ISO texts.
\<close>

section \<open>Tables\<close>

text \<open>The columns access control reads are those of the content rows of \<open>AccessSql\<close>.\<close>

record memory_row = content_row +
  mem_scope_type :: string
  mem_memory_type :: string
  mem_content :: string
  mem_created_at :: string
  mem_subject_user_id :: "string option"
  mem_last_confirmed_at :: "string option"
  mem_namespace :: "string option"
  mem_title :: "string option"
  mem_confidence :: rat
  mem_importance :: rat
  mem_source_id :: "string option"
  mem_created_by :: "string option"
  mem_approved_by :: "string option"
  mem_version :: nat
  mem_access_count :: nat
  mem_tags :: jsval
  mem_memory_layer :: "string option"
  mem_created_from_proposal_id :: "string option"
  mem_root_memory_id :: "string option"
  mem_supersedes_memory_id :: "string option"
  mem_source_trust :: "string option"
  mem_agent_id :: "string option"

record provenance_link =
  lk_id :: string
  lk_space_id :: string
  lk_target_type :: string
  lk_target_id :: string
  lk_entry :: provenance_entry
  lk_created_at :: string

record memory_relation =
  rel_id :: string
  rel_space_id :: string
  rel_source_type :: string
  rel_source_id :: string
  rel_target_type :: string
  rel_target_id :: string
  rel_relation_type :: string
  rel_created_from_proposal_id :: "string option"
  rel_created_at :: string

record memory_tables = policy_tables +
  mt_memories :: "memory_row list"
  mt_links :: "provenance_link list"
  mt_relations :: "memory_relation list"

text \<open>
  The ids and the time the code draws while it runs; \<open>mv_references\<close> are the foreign keys of a memory to
  tables that are not modelled (users, agents, proposals, spaces).
\<close>

record memory_env =
  mv_now :: int
  mv_now_text :: string
  mv_memory_id :: string
  mv_link_id :: "nat \<Rightarrow> string"
  mv_relation_id :: string
  mv_job_id :: "nat \<Rightarrow> string"
  mv_patterns :: patterns
  mv_references :: "memory_row \<Rightarrow> bool"

text \<open>Memories are content: both views of the table are written at once.\<close>

definition write_memories :: "memory_row list \<Rightarrow> memory_tables tables \<Rightarrow> memory_tables tables" where
  "write_memories ms t =
     t\<lparr>tb_rest := (tb_rest t)\<lparr>mt_memories := ms\<rparr>,
       tb_access := (tb_access t)\<lparr>db_content :=
         (db_content (tb_access t))(''memory_entries'' := map content_row.truncate ms)\<rparr>\<rparr>"

definition fits :: "nat \<Rightarrow> string option \<Rightarrow> bool" where
  "fits n s \<longleftrightarrow> (case s of None \<Rightarrow> True | Some x \<Rightarrow> length x \<le> n)"

definition refers :: "('r \<Rightarrow> bool) \<Rightarrow> 'r list \<Rightarrow> string option \<Rightarrow> bool" where
  "refers P rows key \<longleftrightarrow> (case key of None \<Rightarrow> True | Some _ \<Rightarrow> list_ex P rows)"

definition memory_checks :: "memory_row \<Rightarrow> bool" where
  "memory_checks r \<longleftrightarrow>
     (case mem_memory_layer r of None \<Rightarrow> True | Some l \<Rightarrow> l \<in> {''episodic'', ''semantic''}) \<and>
     (case cn_sensitivity_level r of None \<Rightarrow> False
      | Some s \<Rightarrow> s \<in> {''normal'', ''sensitive'', ''restricted'', ''highly_restricted''}) \<and>
     (case mem_source_trust r of None \<Rightarrow> True | Some t \<Rightarrow> t \<in> set SOURCE_TRUST_VALUES) \<and>
     cn_visibility r \<in> {''private'', ''space_shared'', ''selected_users''} \<and>
     cn_access_level r \<in> {''full'', ''summary''} \<and>
     (cn_visibility r = ''space_shared'' \<or> cn_owner_user_id r \<noteq> None) \<and>
     (cn_sensitivity_level r \<noteq> Some ''highly_restricted'' \<or> cn_visibility r = ''private'')"

definition memory_columns :: "memory_row \<Rightarrow> bool" where
  "memory_columns r \<longleftrightarrow>
     length (cn_id r) \<le> 36 \<and> length (mem_scope_type r) \<le> 32 \<and> length (mem_memory_type r) \<le> 32 \<and>
     fits 36 (mem_subject_user_id r) \<and> fits 36 (cn_owner_user_id r) \<and> fits 36 (cn_workspace_id r) \<and>
     fits 36 (mem_agent_id r) \<and> fits 255 (mem_namespace r) \<and> fits 512 (mem_title r) \<and>
     fits 64 (mem_created_by r) \<and> fits 64 (mem_approved_by r) \<and> fits 36 (cn_project_id r)"

definition memory_keys :: "access_db \<Rightarrow> memory_row list \<Rightarrow> memory_row \<Rightarrow> bool" where
  "memory_keys db rows r \<longleftrightarrow>
     list_all (\<lambda>m. cn_id m \<noteq> cn_id r) rows \<and>
     refers (\<lambda>p. Some (pj_id p) = cn_project_id r \<and> pj_space_id p = cn_space_id r) (db_projects db) (cn_project_id r) \<and>
     refers (\<lambda>w. Some (ws_id w) = cn_workspace_id r \<and> ws_space_id w = cn_space_id r) (db_workspaces db) (cn_workspace_id r) \<and>
     refers (\<lambda>m. Some (cn_id m) = mem_root_memory_id r) rows (mem_root_memory_id r) \<and>
     refers (\<lambda>m. Some (cn_id m) = mem_supersedes_memory_id r) rows (mem_supersedes_memory_id r)"

definition memory_row_ok :: "memory_env \<Rightarrow> memory_tables tables \<Rightarrow> memory_row \<Rightarrow> bool" where
  "memory_row_ok env t r \<longleftrightarrow>
     memory_checks r \<and> memory_columns r \<and> memory_keys (tb_access t) (mt_memories (tb_rest t)) r \<and> mv_references env r"

section \<open>Provenance and relations\<close>

definition TARGET_MEMORY :: string where
  "TARGET_MEMORY = ''memory''"

definition link_target :: "string \<Rightarrow> string \<Rightarrow> string \<Rightarrow> provenance_link \<Rightarrow> bool" where
  "link_target sp ty i l \<longleftrightarrow> lk_space_id l = sp \<and> lk_target_type l = ty \<and> lk_target_id l = i"

definition link_ok :: "provenance_link \<Rightarrow> bool" where
  "link_ok l \<longleftrightarrow>
     length (lk_id l) \<le> 36 \<and> length (lk_target_id l) \<le> 36 \<and> length (prov_source_id (lk_entry l)) \<le> 36 \<and>
     prov_source_type (lk_entry l) \<in> set (PROVENANCE_SOURCE_TYPES @
       [''source_item'', ''source_snapshot'', ''extracted_evidence'', ''run_event'']) \<and>
     (case prov_source_trust (lk_entry l) of None \<Rightarrow> True | Some t \<Rightarrow> t \<in> set SOURCE_TRUST_VALUES)"

definition new_links :: "memory_env \<Rightarrow> string \<Rightarrow> string \<Rightarrow> string \<Rightarrow> provenance_entry list \<Rightarrow> nat \<Rightarrow> provenance_link list" where
  "new_links env sp ty i entries n =
     map (\<lambda>(k, e). \<lparr>lk_id = mv_link_id env (n + k), lk_space_id = sp, lk_target_type = ty, lk_target_id = i,
        lk_entry = e, lk_created_at = mv_now_text env\<rparr>) (enumerate 0 entries)"

definition database_error :: "string \<Rightarrow> apply_error" where
  "database_error table = OtherApplyError (ErrorObject (''insert or update on table '' @ table))"

definition writeProvenanceLinks :: "memory_env \<Rightarrow> string \<Rightarrow> string \<Rightarrow> string \<Rightarrow> provenance_entry list \<Rightarrow>
    memory_tables tables \<Rightarrow> apply_error + memory_tables tables" where
  "writeProvenanceLinks env sp ty i entries t =
     (let links = mt_links (tb_rest t); more = new_links env sp ty i entries (length links)
      in if \<not> list_all link_ok more then Inl (database_error ''provenance_links'')
         else Inr (t\<lparr>tb_rest := (tb_rest t)\<lparr>mt_links := links @ more\<rparr>\<rparr>))"

definition provenance_of :: "string \<Rightarrow> string \<Rightarrow> memory_tables tables \<Rightarrow> provenance_entry list" where
  "provenance_of sp i t = map lk_entry (filter (link_target sp TARGET_MEMORY i) (mt_links (tb_rest t)))"

definition copyProvenanceToMemory :: "memory_env \<Rightarrow> string \<Rightarrow> string \<Rightarrow> string \<Rightarrow>
    memory_tables tables \<Rightarrow> apply_error + memory_tables tables" where
  "copyProvenanceToMemory env sp from_id to_id t =
     writeProvenanceLinks env sp TARGET_MEMORY to_id (provenance_of sp from_id t) t"

definition provenanceKeys :: "string \<Rightarrow> string \<Rightarrow> memory_tables tables \<Rightarrow> string list" where
  "provenanceKeys sp i t = map provKey (provenance_of sp i t)"

definition recordMemorySupersedesRelation :: "memory_env \<Rightarrow> string \<Rightarrow> string \<Rightarrow> string \<Rightarrow> string \<Rightarrow>
    memory_tables tables \<Rightarrow> memory_tables tables" where
  "recordMemorySupersedesRelation env sp new_id old_id proposal t =
     t\<lparr>tb_rest := (tb_rest t)\<lparr>mt_relations := mt_relations (tb_rest t) @
        [\<lparr>rel_id = mv_relation_id env, rel_space_id = sp, rel_source_type = TARGET_MEMORY, rel_source_id = new_id,
          rel_target_type = TARGET_MEMORY, rel_target_id = old_id, rel_relation_type = ''supersedes'',
          rel_created_from_proposal_id = Some proposal, rel_created_at = mv_now_text env\<rparr>]\<rparr>\<rparr>"

section \<open>Reading the payload\<close>

definition strOr :: "jsval \<Rightarrow> string option" where
  "strOr v = (case v of JStr s \<Rightarrow> if length s > 0 then Some s else None | _ \<Rightarrow> None)"

definition memoryLayer :: "jsobj \<Rightarrow> string option" where
  "memoryLayer p = map_option to_lower (or_else (strOr (get p ''target_layer'')) (strOr (get p ''memory_layer'')))"

definition GRANT_DERIVED_MARKERS :: "string list" where
  "GRANT_DERIVED_MARKERS =
     [''personal_context_derived'', ''egress_guard_required'', ''derived_from_personal_memory'',
      ''raw_private_memory_included'', ''personal_summary_persisted'', ''grant_id'', ''personal_memory_grant_ids'']"

definition MEMORY_APPLY_TYPES :: "string list" where
  "MEMORY_APPLY_TYPES = [''memory_create'', ''memory_update'', ''memory_archive'']"

definition OWNER_SCOPED_VISIBILITIES :: "string list" where
  "OWNER_SCOPED_VISIBILITIES = [''private'', ''selected_users'']"

definition assertNoEgressContext :: "apply_proposal \<Rightarrow> apply_error + unit" where
  "assertNoEgressContext p =
     (if prop_proposal_type p = ''egress_review''
      then Inl (MemoryApplyUnsupportedError ''egress_review apply is not implemented in the server authority yet'')
      else if list_ex (\<lambda>marker. truthy (get (payload_of p) marker)) GRANT_DERIVED_MARKERS
      then Inl (MemoryApplyUnsupportedError ''grant-derived memory proposals are not served by the server authority yet'')
      else Inr ())"

definition assertContentPolicyFields :: "string \<Rightarrow> string \<Rightarrow> string \<Rightarrow> apply_error + unit" where
  "assertContentPolicyFields visibility accessLevel sensitivity =
     (if \<not> isContentVisibility visibility then Inl (MemoryApplyError ''invalid memory visibility'')
      else if \<not> isContentAccessLevel accessLevel then Inl (MemoryApplyError ''invalid memory access level'')
      else if sensitivity = ''highly_restricted'' \<and> visibility \<noteq> ''private''
      then Inl (MemoryApplyError ''highly restricted memory must be private'')
      else Inr ())"

definition resolveOwner :: "string option \<Rightarrow> string \<Rightarrow> string \<Rightarrow> apply_error + string option" where
  "resolveOwner owner visibility acting =
     (let resolved = (if visibility \<in> set OWNER_SCOPED_VISIBILITIES \<and> owner = None then Some acting else owner)
      in if visibility = ''private'' \<and> resolved = None
         then Inl (MemoryApplyError ''owner_user_id is required for private visibility'')
         else Inr resolved)"

definition assertProjectInSpace :: "access_db \<Rightarrow> string \<Rightarrow> string option \<Rightarrow> bool" where
  "assertProjectInSpace db sp project \<longleftrightarrow>
     \<not> truthy (opt_str project) \<or>
     list_ex (\<lambda>p. Some (pj_id p) = project \<and> pj_space_id p = sp \<and> pj_deleted_at p = None) (db_projects db)"

definition resolveProjectId :: "access_db \<Rightarrow> apply_proposal \<Rightarrow> string option \<Rightarrow> apply_error + string option" where
  "resolveProjectId db p fallback =
     (let project = or_else (or_else (prop_project_id p) (strOr (get (payload_of p) ''project_id''))) fallback
      in if assertProjectInSpace db (prop_space_id p) project then Inr project
         else Inl (MemoryApplyError ''Project not found''))"

section \<open>Rows\<close>

record new_memory_fields =
  nm_scope :: string
  nm_memory_type :: string
  nm_content :: string
  nm_visibility :: string
  nm_access_level :: string
  nm_sensitivity :: string
  nm_namespace :: string
  nm_title :: string
  nm_owner_user_id :: "string option"
  nm_subject_user_id :: "string option"
  nm_workspace_id :: "string option"
  nm_project_id :: "string option"
  nm_agent_id :: "string option"
  nm_memory_layer :: "string option"
  nm_source_trust :: "string option"
  nm_root_memory_id :: "string option"
  nm_supersedes_memory_id :: "string option"
  nm_created_by :: string
  nm_approved_by :: string

definition new_memory :: "memory_env \<Rightarrow> apply_proposal \<Rightarrow> new_memory_fields \<Rightarrow> memory_row" where
  "new_memory env p f =
     \<lparr>cn_id = mv_memory_id env, cn_space_id = prop_space_id p, cn_owner_user_id = nm_owner_user_id f,
      cn_visibility = nm_visibility f, cn_access_level = nm_access_level f, cn_workspace_id = nm_workspace_id f,
      cn_project_id = nm_project_id f, cn_status = ''active'', cn_deleted_at = None,
      cn_sensitivity_level = Some (nm_sensitivity f), cn_updated_at = mv_now_text env,
      mem_scope_type = nm_scope f, mem_memory_type = nm_memory_type f, mem_content = nm_content f,
      mem_created_at = mv_now_text env, mem_subject_user_id = nm_subject_user_id f, mem_last_confirmed_at = None,
      mem_namespace = Some (nm_namespace f), mem_title = Some (nm_title f), mem_confidence = 1,
      mem_importance = 1 / 2, mem_source_id = None, mem_created_by = Some (nm_created_by f),
      mem_approved_by = Some (nm_approved_by f), mem_version = 1, mem_access_count = 0, mem_tags = JNull,
      mem_memory_layer = nm_memory_layer f, mem_created_from_proposal_id = Some (prop_id p),
      mem_root_memory_id = nm_root_memory_id f, mem_supersedes_memory_id = nm_supersedes_memory_id f,
      mem_source_trust = nm_source_trust f, mem_agent_id = nm_agent_id f\<rparr>"

definition insertMemory :: "memory_env \<Rightarrow> apply_proposal \<Rightarrow> new_memory_fields \<Rightarrow> memory_tables tables \<Rightarrow>
    apply_error + memory_row \<times> memory_tables tables" where
  "insertMemory env p f t =
     (let r = new_memory env p f
      in if \<not> memory_row_ok env t r then Inl (database_error ''memory_entries'')
         else Inr (r, write_memories (mt_memories (tb_rest t) @ [r]) t))"

definition live_memory :: "string \<Rightarrow> string \<Rightarrow> memory_row \<Rightarrow> bool" where
  "live_memory i sp m \<longleftrightarrow> cn_id m = i \<and> cn_space_id m = sp \<and> cn_deleted_at m = None"

definition getActive :: "string \<Rightarrow> string \<Rightarrow> memory_tables tables \<Rightarrow> memory_row option" where
  "getActive i sp t = List.find (live_memory i sp) (mt_memories (tb_rest t))"

definition set_status :: "string \<Rightarrow> string \<Rightarrow> memory_row \<Rightarrow> memory_row" where
  "set_status status now m = m\<lparr>cn_status := status, cn_updated_at := now\<rparr>"

definition markStatus :: "memory_env \<Rightarrow> string \<Rightarrow> string \<Rightarrow> string \<Rightarrow> memory_tables tables \<Rightarrow>
    memory_row option \<times> memory_tables tables" where
  "markStatus env i sp status t =
     (let ms = mt_memories (tb_rest t)
      in (case sql_returning (live_memory i sp) (set_status status (mv_now_text env)) ms of
            [] \<Rightarrow> None | m # _ \<Rightarrow> Some m,
          write_memories (sql_update (live_memory i sp) (set_status status (mv_now_text env)) ms) t))"

end
