(* ===== verification/MemoryProposals.thy ===== *)
theory MemoryProposals
  imports MemoryApply
begin

text \<open>
  The three kinds of memory proposals, \<open>applyOnly\<close> over them (\<open>memory/memoryApplyRepository.ts\<close>), and the
  applier \<open>applyMemoryProposal\<close> of \<open>proposals/applierRegistry.ts\<close>, which also marks the digests of the
  scopes a memory was in as dirty and enqueues their refresh. A transaction that fails is rolled back by its
  caller, so an operation that throws has no tables as its result.
\<close>

section \<open>Digest targets\<close>

record digest_target =
  dt_scope_type :: string
  dt_workspace_id :: "string option"
  dt_agent_id :: "string option"

definition digestTargetForMemory :: "memory_row \<Rightarrow> digest_target" where
  "digestTargetForMemory m =
     \<lparr>dt_scope_type = mem_scope_type m, dt_workspace_id = cn_workspace_id m, dt_agent_id = mem_agent_id m\<rparr>"

definition target_key :: "digest_target \<Rightarrow> string" where
  "target_key d = dt_scope_type d @ '':'' @ or_value (dt_workspace_id d) [] @ '':'' @ or_value (dt_agent_id d) []"

definition distinctDigestTargets :: "digest_target list \<Rightarrow> digest_target list" where
  "distinctDigestTargets targets = nub_by target_key [] targets"

section \<open>The three operations\<close>

record memory_result =
  ar_memory :: memory_row
  ar_superseded :: "string option"
  ar_targets :: "digest_target list"

type_synonym memory_outcome = "apply_error + memory_result \<times> memory_tables tables"

definition proposal_evidence :: "apply_proposal \<Rightarrow> provenance_entry" where
  "proposal_evidence p =
     proposalProvenanceEntry (prop_id p) [(''proposal_type'', JStr (prop_proposal_type p))]"

text \<open>What a payload asks for, or else what the memory has now.\<close>

definition wanted_visibility :: "jsobj \<Rightarrow> string \<Rightarrow> string" where
  "wanted_visibility payload now_has =
     to_lower (or_value (or_else (strOr (get payload ''target_visibility'')) (strOr (get payload ''visibility''))) now_has)"

definition wanted_level :: "jsobj \<Rightarrow> string \<Rightarrow> string" where
  "wanted_level payload now_has =
     to_lower (or_value (or_else (strOr (get payload ''target_access_level'')) (strOr (get payload ''access_level''))) now_has)"

definition wanted_sensitivity :: "jsobj \<Rightarrow> string option \<Rightarrow> string" where
  "wanted_sensitivity payload now_has =
     to_lower (or_value (or_else (strOr (get payload ''sensitivity_level'')) now_has) ''normal'')"

definition create_fields :: "apply_proposal \<Rightarrow> string \<Rightarrow> string \<Rightarrow> string \<Rightarrow> string \<Rightarrow> string option \<Rightarrow> string option \<Rightarrow> new_memory_fields" where
  "create_fields p user vis level sens owner project =
     (let payload = payload_of p
      in \<lparr>nm_scope = or_value (or_else (strOr (get payload ''target_scope'')) (strOr (get payload ''scope_type''))) ''user'',
          nm_memory_type = or_value (strOr (get payload ''memory_type'')) ''semantic'',
          nm_content = or_value (or_else (strOr (get payload ''proposed_content'')) (strOr (get payload ''content''))) [],
          nm_visibility = vis, nm_access_level = level, nm_sensitivity = sens,
          nm_namespace = or_value (or_else (strOr (get payload ''target_namespace'')) (strOr (get payload ''namespace''))) ''user.default'',
          nm_title = or_value (prop_title p) [], nm_owner_user_id = owner,
          nm_subject_user_id = strOr (get payload ''subject_user_id''), nm_workspace_id = prop_workspace_id p,
          nm_project_id = project, nm_agent_id = strOr (get payload ''agent_id''), nm_memory_layer = memoryLayer payload,
          nm_source_trust = dominantSourceTrust (provenanceEntriesFromPayload payload),
          nm_root_memory_id = None, nm_supersedes_memory_id = None,
          nm_created_by = or_value (prop_created_by_user_id p) user, nm_approved_by = user\<rparr>)"

definition applyCreate :: "memory_env \<Rightarrow> apply_proposal \<Rightarrow> string \<Rightarrow> memory_tables tables \<Rightarrow> memory_outcome" where
  "applyCreate env p user t =
     (let payload = payload_of p;
          vis = wanted_visibility payload ''private'';
          level = wanted_level payload ''full'';
          sens = wanted_sensitivity payload None;
          acting = or_value (prop_created_by_user_id p) user;
          entries = provenanceEntriesFromPayload payload
      in bind_sum (assertContentPolicyFields vis level sens) (\<lambda>_.
         bind_sum (resolveOwner (strOr (get payload ''owner_user_id'')) vis acting) (\<lambda>owner.
         bind_sum (resolveProjectId (tb_access t) p None) (\<lambda>project.
         bind_sum (insertMemory env p (create_fields p user vis level sens owner project) t) (\<lambda>(m, t1).
         bind_sum (writeProvenanceLinks env (prop_space_id p) TARGET_MEMORY (cn_id m)
             (entries @ [proposal_evidence p]) t1) (\<lambda>t2.
         Inr (\<lparr>ar_memory = m, ar_superseded = None, ar_targets = [digestTargetForMemory m]\<rparr>, t2)))))))"

definition update_fields :: "apply_proposal \<Rightarrow> string \<Rightarrow> memory_row \<Rightarrow> string \<Rightarrow> string \<Rightarrow> string \<Rightarrow> string option \<Rightarrow> string option \<Rightarrow> new_memory_fields" where
  "update_fields p user old vis level sens owner project =
     (let payload = payload_of p
      in \<lparr>nm_scope = or_value (strOr (get payload ''target_scope'')) (mem_scope_type old),
          nm_memory_type = or_value (strOr (get payload ''memory_type'')) (mem_memory_type old),
          nm_content = or_value (or_else (strOr (get payload ''proposed_content'')) (strOr (get payload ''content''))) (mem_content old),
          nm_visibility = vis, nm_access_level = level, nm_sensitivity = sens,
          nm_namespace = or_value (or_else (strOr (get payload ''target_namespace'')) (mem_namespace old)) ''user.default'',
          nm_title = or_value (or_else (or_else (strOr (get payload ''proposed_title'')) (strOr (get payload ''title''))) (mem_title old)) [],
          nm_owner_user_id = owner,
          nm_subject_user_id = or_else (strOr (get payload ''subject_user_id'')) (mem_subject_user_id old),
          nm_workspace_id = or_else (prop_workspace_id p) (cn_workspace_id old), nm_project_id = project,
          nm_agent_id = or_else (strOr (get payload ''agent_id'')) (mem_agent_id old),
          nm_memory_layer = or_else (memoryLayer payload) (mem_memory_layer old),
          nm_source_trust = or_else (dominantSourceTrust (provenanceEntriesFromPayload payload)) (mem_source_trust old),
          nm_root_memory_id = or_else (mem_root_memory_id old) (Some (cn_id old)),
          nm_supersedes_memory_id = Some (cn_id old),
          nm_created_by = or_value (prop_created_by_user_id p) user, nm_approved_by = user\<rparr>)"

definition missing_target :: "string \<Rightarrow> apply_error" where
  "missing_target ty = MemoryApplyError (ty @ '' proposal is missing target_memory_id in payload'')"

definition target_gone :: "string \<Rightarrow> string \<Rightarrow> apply_error" where
  "target_gone i sp = MemoryApplyError (''target memory '' @ quoted i @ '' not found or not active in space '' @ quoted sp)"

definition read_target :: "string \<Rightarrow> apply_proposal \<Rightarrow> memory_tables tables \<Rightarrow> apply_error + memory_row" where
  "read_target ty p t = (case strOr (get (payload_of p) ''target_memory_id'') of
     None \<Rightarrow> Inl (missing_target ty)
   | Some i \<Rightarrow> (case getActive i (prop_space_id p) t of
       None \<Rightarrow> Inl (target_gone i (prop_space_id p)) | Some m \<Rightarrow> Inr m))"

text \<open>The provenance of the new version: what is not there yet of the payload's, then the proposal.\<close>

definition entries_to_add :: "string list \<Rightarrow> apply_proposal \<Rightarrow> provenance_entry list" where
  "entries_to_add existing p =
     nub_by provKey existing (provenanceEntriesFromPayload (payload_of p) @
       [proposalProvenanceEntry (prop_id p) [(''proposal_type'', JStr ''memory_update'')]])"

definition version_provenance :: "memory_env \<Rightarrow> apply_proposal \<Rightarrow> memory_row \<Rightarrow> memory_row \<Rightarrow> memory_tables tables \<Rightarrow>
    apply_error + memory_tables tables" where
  "version_provenance env p old m t =
     bind_sum (copyProvenanceToMemory env (prop_space_id p) (cn_id old) (cn_id m) t) (\<lambda>t1.
     let toAdd = entries_to_add (provenanceKeys (prop_space_id p) (cn_id m) t1) p
     in if length toAdd > 0 then writeProvenanceLinks env (prop_space_id p) TARGET_MEMORY (cn_id m) toAdd t1
        else Inr t1)"

definition applyUpdate :: "memory_env \<Rightarrow> apply_proposal \<Rightarrow> string \<Rightarrow> memory_tables tables \<Rightarrow> memory_outcome" where
  "applyUpdate env p user t =
     bind_sum (read_target ''memory_update'' p t) (\<lambda>old.
     let payload = payload_of p;
         vis = wanted_visibility payload (cn_visibility old);
         sens = wanted_sensitivity payload (cn_sensitivity_level old);
         level = wanted_level payload (cn_access_level old)
     in bind_sum (assertContentPolicyFields vis level sens) (\<lambda>_.
        bind_sum (resolveOwner (or_else (strOr (get payload ''owner_user_id'')) (cn_owner_user_id old)) vis user) (\<lambda>owner.
        bind_sum (resolveProjectId (tb_access t) p (cn_project_id old)) (\<lambda>project.
        bind_sum (insertMemory env p (update_fields p user old vis level sens owner project) t) (\<lambda>(m, t1).
        bind_sum (version_provenance env p old m (snd (markStatus env (cn_id old) (prop_space_id p) ''superseded'' t1))) (\<lambda>t2.
        Inr (\<lparr>ar_memory = m, ar_superseded = Some (cn_id old),
              ar_targets = distinctDigestTargets [digestTargetForMemory old, digestTargetForMemory m]\<rparr>,
             recordMemorySupersedesRelation env (prop_space_id p) (cn_id m) (cn_id old) (prop_id p) t2)))))))"

definition archive_entries :: "apply_proposal \<Rightarrow> provenance_entry list" where
  "archive_entries p = mergeDistinctProvenanceEntries
     [provenanceEntriesFromPayload (payload_of p),
      [proposalProvenanceEntry (prop_id p)
        [(''action'', JStr ''memory_archive''), (''proposal_type'', JStr ''memory_archive'')]]]"

definition applyArchive :: "memory_env \<Rightarrow> apply_proposal \<Rightarrow> memory_tables tables \<Rightarrow> memory_outcome" where
  "applyArchive env p t =
     bind_sum (read_target ''memory_archive'' p t) (\<lambda>m.
     let (archived, t1) = markStatus env (cn_id m) (prop_space_id p) ''archived'' t; entries = archive_entries p
     in bind_sum (if length entries > 0 then writeProvenanceLinks env (prop_space_id p) TARGET_MEMORY (cn_id m) entries t1
                  else Inr t1) (\<lambda>t2.
        Inr (\<lparr>ar_memory = or_value archived m, ar_superseded = None, ar_targets = [digestTargetForMemory m]\<rparr>, t2)))"

section \<open>Applying one\<close>

definition applyByType :: "memory_env \<Rightarrow> apply_proposal \<Rightarrow> string \<Rightarrow> memory_tables tables \<Rightarrow> memory_outcome" where
  "applyByType env p user t =
     (if prop_proposal_type p = ''memory_create'' then applyCreate env p user t
      else if prop_proposal_type p = ''memory_update'' then applyUpdate env p user t
      else if prop_proposal_type p = ''memory_archive'' then applyArchive env p t
      else Inl (MemoryApplyError (''unsupported proposal type: '' @ prop_proposal_type p)))"

definition monitored_payload :: "monitoring_outcome \<Rightarrow> jsobj \<Rightarrow> jsobj" where
  "monitored_payload checked payload =
     (if mon_action checked = MonRequireReview
      then put ''source_monitoring_result''
        (JObj (put ''explicit_approval_context'' (JStr ''explicit_user_accept'') (monitoringSnapshot checked))) payload
      else payload)"

definition applyOnly :: "memory_env \<Rightarrow> apply_proposal \<Rightarrow> string \<Rightarrow> memory_tables tables \<Rightarrow>
    apply_error + (memory_result \<times> jsobj) \<times> memory_tables tables" where
  "applyOnly env p user t =
     (if prop_proposal_type p \<notin> set MEMORY_APPLY_TYPES
      then Inl (MemoryApplyError (''unsupported proposal type: '' @ prop_proposal_type p))
      else bind_sum (assertNoEgressContext p) (\<lambda>_.
        let checked = evaluateMemoryProposal (prop_proposal_type p) (payload_of p) ExplicitUserAccept;
            payload = monitored_payload checked (payload_of p)
        in if mon_action checked = MonReject then Inl (MemoryApplyError (mon_message checked))
           else bind_sum (applyByType env (p\<lparr>prop_payload_json := Some payload\<rparr>) user t) (\<lambda>(result, t1).
             Inr ((result, put ''resulting_memory_id'' (JStr (cn_id (ar_memory result))) payload), t1))))"

section \<open>Digests\<close>

definition mark_scope_dirty :: "string \<Rightarrow> string \<Rightarrow> string \<Rightarrow> jsval \<Rightarrow> int \<Rightarrow> digest_row list \<Rightarrow> digest_row list" where
  "mark_scope_dirty scope sp i reason now =
     sql_update (\<lambda>d. dg_space_id d = sp \<and> dg_scope_type d = scope \<and> dg_scope_id d = Some i \<and>
                   dg_digest_type d = scope \<and> dg_status d \<in> {''active'', ''dirty''})
       (\<lambda>d. d\<lparr>dg_status := ''dirty'', dg_dirty_since := or_first (dg_dirty_since d) now,
              dg_dirty_count := dg_dirty_count d + 1, dg_dirty_reason_json := reason, dg_updated_at := now\<rparr>)"

definition markWorkspaceBundleDirty :: "string \<Rightarrow> string \<Rightarrow> jsval \<Rightarrow> int \<Rightarrow> digest_row list \<Rightarrow> digest_row list" where
  "markWorkspaceBundleDirty = mark_scope_dirty ''workspace''"

definition markAgentBundleDirty :: "string \<Rightarrow> string \<Rightarrow> jsval \<Rightarrow> int \<Rightarrow> digest_row list \<Rightarrow> digest_row list" where
  "markAgentBundleDirty = mark_scope_dirty ''agent''"

definition scope_refresh_job :: "string \<Rightarrow> string \<Rightarrow> string \<Rightarrow> string \<Rightarrow> enqueue_input" where
  "scope_refresh_job sp user scope i =
     \<lparr>ei_job_type = ''context_digest_refresh'',
      ei_payload = JObj [(''space_id'', JStr sp), (''digest_type'', JStr scope), (''scope_id'', JStr i)],
      ei_space_id = sp, ei_user_id = Some user, ei_workspace_id = None, ei_agent_id = None,
      ei_priority = None, ei_max_attempts = None, ei_scheduled_at = None\<rparr>"

text \<open>The scope of a target that has a digest.\<close>

definition target_scope :: "digest_target \<Rightarrow> (string \<times> string) option" where
  "target_scope d =
     (if dt_scope_type d = ''workspace'' \<and> truthy (opt_str (dt_workspace_id d))
      then Some (''workspace'', or_value (dt_workspace_id d) [])
      else if dt_scope_type d = ''agent'' \<and> truthy (opt_str (dt_agent_id d))
      then Some (''agent'', or_value (dt_agent_id d) [])
      else None)"

definition refresh_scope :: "memory_env \<Rightarrow> string \<Rightarrow> string \<Rightarrow> jsval \<Rightarrow> string \<times> string \<Rightarrow>
    'x policy_tables_scheme \<Rightarrow> 'x policy_tables_scheme" where
  "refresh_scope env sp user reason si t =
     (case si of (scope, i) \<Rightarrow>
        t\<lparr>pt_digests := (if scope = ''workspace'' then markWorkspaceBundleDirty sp i reason (mv_now env) (pt_digests t)
                        else markAgentBundleDirty sp i reason (mv_now env) (pt_digests t)),
          pt_queue := enqueue (mv_patterns env) (mv_job_id env (length (qu_jobs (pt_queue t))))
            (scope_refresh_job sp user scope i) (mv_now env) (pt_queue t)\<rparr>)"

fun markAndEnqueueMemoryDigestRefreshes :: "memory_env \<Rightarrow> string \<Rightarrow> string \<Rightarrow> jsval \<Rightarrow> string list \<Rightarrow> digest_target list \<Rightarrow>
    'x policy_tables_scheme \<Rightarrow> 'x policy_tables_scheme" where
  "markAndEnqueueMemoryDigestRefreshes env sp user reason seen [] t = t"
| "markAndEnqueueMemoryDigestRefreshes env sp user reason seen (d # ds) t =
     (case target_scope d of
        None \<Rightarrow> markAndEnqueueMemoryDigestRefreshes env sp user reason seen ds t
      | Some (scope, i) \<Rightarrow>
          let k = scope @ '':'' @ i
          in if k \<in> set seen then markAndEnqueueMemoryDigestRefreshes env sp user reason seen ds t
             else markAndEnqueueMemoryDigestRefreshes env sp user reason (k # seen) ds
               (refresh_scope env sp user reason (scope, i) t))"

definition enqueueMemoryRetrievalEmbeddingBackfill :: "memory_env \<Rightarrow> apply_proposal \<Rightarrow> string \<Rightarrow>
    'x policy_tables_scheme \<Rightarrow> 'x policy_tables_scheme" where
  "enqueueMemoryRetrievalEmbeddingBackfill env p user t =
     t\<lparr>pt_queue := snd (enqueueRetrievalEmbeddingBackfillWithQueue (mv_patterns env)
         (mv_job_id env (length (qu_jobs (pt_queue t))))
         \<lparr>bf_space_id = prop_space_id p, bf_user_id = Some user, bf_batch_limit = None, bf_priority = None,
          bf_max_attempts = None, bf_trigger = Some ''memory_proposal_apply'', bf_proposal_id = Some (prop_id p)\<rparr>
         (mv_now env) (pt_queue t))\<rparr>"

section \<open>The result\<close>

definition auth_fields :: "memory_row \<Rightarrow> memory_fields" where
  "auth_fields m =
     \<lparr>mf_space_id = cn_space_id m, mf_deleted_at = opt_str (cn_deleted_at m),
      mf_sensitivity_level = cn_sensitivity_level m, mf_visibility = Some (cn_visibility m),
      mf_access_level = Some (cn_access_level m), mf_effective_access_level = None,
      mf_owner_user_id = cn_owner_user_id m, mf_scope_type = Some (mem_scope_type m),
      mf_workspace_id = cn_workspace_id m, mf_content_access_grants = None\<rparr>"

definition serializeMemoryRow :: "memory_row \<Rightarrow> string \<Rightarrow> jsobj" where
  "serializeMemoryRow m viewer =
     [(''id'', JStr (cn_id m)), (''space_id'', JStr (cn_space_id m)),
      (''subject_user_id'', opt_str (mem_subject_user_id m)), (''owner_user_id'', opt_str (cn_owner_user_id m)),
      (''workspace_id'', opt_str (cn_workspace_id m)), (''scope'', JStr (mem_scope_type m)),
      (''namespace'', opt_str (mem_namespace m)), (''type'', JStr (mem_memory_type m)),
      (''title'', opt_str (mem_title m)),
      (''content'', if shouldRedactMemoryContent (auth_fields m) viewer then JNull else JStr (mem_content m)),
      (''status'', JStr (cn_status m)), (''visibility'', JStr (cn_visibility m)),
      (''access_level'', JStr (cn_access_level m)),
      (''sensitivity_level'', JStr (or_value (cn_sensitivity_level m) ''normal'')),
      (''last_confirmed_at'', opt_str (mem_last_confirmed_at m)), (''confidence'', JNum (mem_confidence m)),
      (''importance'', JNum (mem_importance m)), (''created_by'', opt_str (mem_created_by m)),
      (''created_at'', JStr (mem_created_at m)), (''updated_at'', JStr (cn_updated_at m)),
      (''deleted_at'', opt_str (cn_deleted_at m)), (''version'', JNum (of_nat (mem_version m))),
      (''tags'', case mem_tags m of JArr xs \<Rightarrow> JArr xs | _ \<Rightarrow> JNull),
      (''memory_layer'', opt_str (mem_memory_layer m)), (''source_trust'', opt_str (mem_source_trust m)),
      (''created_from_proposal_id'', opt_str (mem_created_from_proposal_id m)),
      (''root_memory_id'', opt_str (mem_root_memory_id m)),
      (''supersedes_memory_id'', opt_str (mem_supersedes_memory_id m)), (''project_id'', opt_str (cn_project_id m))]"

definition dirty_reason :: "apply_proposal \<Rightarrow> string \<Rightarrow> jsval" where
  "dirty_reason p i = JObj [(''triggered_by'', JStr ''memory_apply''), (''proposal_id'', JStr (prop_id p)),
     (''memory_id'', JStr i), (''proposal_type'', JStr (prop_proposal_type p))]"

definition refresh_derived :: "memory_env \<Rightarrow> apply_proposal \<Rightarrow> string \<Rightarrow> memory_result \<Rightarrow>
    memory_tables tables \<Rightarrow> memory_tables tables" where
  "refresh_derived env p user result t =
     (let rest = markAndEnqueueMemoryDigestRefreshes env (prop_space_id p) user
            (dirty_reason p (cn_id (ar_memory result))) [] (ar_targets result) (tb_rest t)
      in t\<lparr>tb_rest := (if prop_proposal_type p \<noteq> ''memory_archive''
             then enqueueMemoryRetrievalEmbeddingBackfill env p user rest else rest)\<rparr>)"

definition applyMemoryProposal :: "memory_env \<Rightarrow> (memory_tables, 'w) applier" where
  "applyMemoryProposal env p user s =
     (case s of (t, w) \<Rightarrow>
        case applyOnly env p user t of
          Inl e \<Rightarrow> (Inl e, t, w)
        | Inr ((result, finalPayload), t1) \<Rightarrow>
            let t2 = refresh_derived env p user result t1
            in case List.find (\<lambda>m. cn_id m = cn_id (ar_memory result)) (mt_memories (tb_rest t2)) of
                 None \<Rightarrow> (Inl (OtherApplyError (ErrorObject ''applied memory row not found after applyOnly'')), t, w)
               | Some m \<Rightarrow>
                   (Inr \<lparr>rs_result_type = ''memory_entry'',
                         rs_result = JObj [(''memory'', JObj (serializeMemoryRow m user))],
                         rs_rollback = None, rs_payload_patch = Some finalPayload, rs_final_status = None\<rparr>, t2, w))"

section \<open>The registry\<close>

definition memory_registry :: "memory_env \<Rightarrow> (memory_tables, 'w) applier_registry" where
  "memory_registry env = map (\<lambda>ty. (ty, applyMemoryProposal env)) [''memory_create'', ''memory_update'', ''memory_archive'']"

definition server_registry :: "memory_env \<Rightarrow> policy_env \<Rightarrow> source_env \<Rightarrow> (memory_tables, 'w) applier_registry" where
  "server_registry menv penv senv = memory_registry menv @ applier_registry penv senv"

end
