(* ===== verification/MemoryChanges.thy ===== *)
theory MemoryChanges
  imports MemoryProposals
begin

text \<open>
  What applying a memory proposal does to the tables: the rows, links and relations it leaves, for each of
  the three kinds.
\<close>

section \<open>The tables of memories\<close>

definition memory_change :: "memory_row list \<Rightarrow> provenance_link list \<Rightarrow> memory_relation list \<Rightarrow>
    memory_tables tables \<Rightarrow> memory_tables tables" where
  "memory_change ms links rels t = (write_memories ms t)\<lparr>tb_rest :=
     (tb_rest t)\<lparr>mt_memories := ms, mt_links := links, mt_relations := rels\<rparr>\<rparr>"

lemma memory_change_simps [simp]:
  "mt_memories (tb_rest (memory_change ms links rels t)) = ms"
  "mt_links (tb_rest (memory_change ms links rels t)) = links"
  "mt_relations (tb_rest (memory_change ms links rels t)) = rels"
  "pt_digests (tb_rest (memory_change ms links rels t)) = pt_digests (tb_rest t)"
  "pt_queue (tb_rest (memory_change ms links rels t)) = pt_queue (tb_rest t)"
  "pt_policies (tb_rest (memory_change ms links rels t)) = pt_policies (tb_rest t)"
  "tb_access (memory_change ms links rels t) = (tb_access t)\<lparr>db_content :=
     (db_content (tb_access t))(''memory_entries'' := map content_row.truncate ms)\<rparr>"
  "tb_proposals (memory_change ms links rels t) = tb_proposals t"
  "tb_approvals (memory_change ms links rels t) = tb_approvals t"
  "tb_grants (memory_change ms links rels t) = tb_grants t"
  by (simp_all add: memory_change_def write_memories_def)

lemma memory_change_again [simp]:
  "memory_change ms' links' rels' (memory_change ms links rels t) = memory_change ms' links' rels' t"
  by (simp add: memory_change_def write_memories_def)

lemma write_memories_change:
  "write_memories ms t = memory_change ms (mt_links (tb_rest t)) (mt_relations (tb_rest t)) t"
  by (simp add: memory_change_def write_memories_def)

lemma relation_change:
  "db_content (tb_access t) ''memory_entries'' = map content_row.truncate (mt_memories (tb_rest t)) \<Longrightarrow>
     t\<lparr>tb_rest := (tb_rest t)\<lparr>mt_relations := rels\<rparr>\<rparr> =
       memory_change (mt_memories (tb_rest t)) (mt_links (tb_rest t)) rels t"
  by (simp add: memory_change_def write_memories_def fun_upd_idem)

lemma change_links:
  "(memory_change ms links rels t)\<lparr>tb_rest := (tb_rest (memory_change ms links rels t))\<lparr>mt_links := links'\<rparr>\<rparr> =
     memory_change ms links' rels t"
  by (simp add: memory_change_def write_memories_def)

lemma change_relations:
  "(memory_change ms links rels t)\<lparr>tb_rest := (tb_rest (memory_change ms links rels t))\<lparr>mt_relations := rels'\<rparr>\<rparr> =
     memory_change ms links rels' t"
  by (simp add: memory_change_def write_memories_def)

section \<open>Links\<close>

lemma new_links_entries [simp]: "map lk_entry (new_links env sp ty i es n) = es"
  by (rule nth_equalityI) (simp_all add: new_links_def nth_enumerate_eq)

lemma length_new_links [simp]: "length (new_links env sp ty i es n) = length es"
  by (simp add: new_links_def)

lemma new_links_target: "l \<in> set (new_links env sp ty i es n) \<Longrightarrow> link_target sp ty i l"
  by (auto simp: new_links_def link_target_def)

lemma new_links_append:
  "new_links env sp ty i (es @ es') n = new_links env sp ty i es n @ new_links env sp ty i es' (n + length es)"
proof -
  have "map (\<lambda>(k, e). f (n + k) e) (enumerate m es') = map (\<lambda>(k, e). f (n + m + k) e) (enumerate 0 es')" for m and f :: "nat \<Rightarrow> provenance_entry \<Rightarrow> provenance_link"
    by (rule nth_equalityI) (simp_all add: nth_enumerate_eq add.assoc)
  from this [of "\<lambda>k e. \<lparr>lk_id = mv_link_id env k, lk_space_id = sp, lk_target_type = ty, lk_target_id = i,
        lk_entry = e, lk_created_at = mv_now_text env\<rparr>"]
  show ?thesis by (simp add: new_links_def enumerate_append_eq)
qed

lemma write_links_change:
  assumes "writeProvenanceLinks env sp ty i es (memory_change ms links rels t) = Inr t'"
  shows "t' = memory_change ms (links @ new_links env sp ty i es (length links)) rels t \<and>
    list_all link_ok (new_links env sp ty i es (length links))"
  using assms change_links by (auto simp: writeProvenanceLinks_def Let_def split: if_splits)

section \<open>The three kinds\<close>

lemma insert_memory_cases:
  assumes "insertMemory env p f t = Inr (m, t')"
  shows "m = new_memory env p f \<and> memory_row_ok env t m \<and>
    t' = memory_change (mt_memories (tb_rest t) @ [m]) (mt_links (tb_rest t)) (mt_relations (tb_rest t)) t"
  using assms by (auto simp: insertMemory_def Let_def write_memories_change split: if_splits)

text \<open>The fields a payload may ask for, checked.\<close>

definition fields_ok :: "access_db \<Rightarrow> apply_proposal \<Rightarrow> string option \<Rightarrow> string \<Rightarrow> string \<Rightarrow> string \<Rightarrow> string option \<Rightarrow>
    string \<Rightarrow> string option \<Rightarrow> string option \<Rightarrow> bool" where
  "fields_ok db p fallback vis level sens owner acting wanted project \<longleftrightarrow>
     assertContentPolicyFields vis level sens = Inr () \<and> resolveOwner wanted vis acting = Inr owner \<and>
     resolveProjectId db p fallback = Inr project"

lemma create_change:
  assumes "applyCreate env p u t = Inr (res, t')"
  obtains vis level sens owner project m where
    "vis = wanted_visibility (payload_of p) ''private''" and "level = wanted_level (payload_of p) ''full''"
    and "sens = wanted_sensitivity (payload_of p) None"
    and "fields_ok (tb_access t) p None vis level sens owner (or_value (prop_created_by_user_id p) u)
      (strOr (get (payload_of p) ''owner_user_id'')) project"
    and "m = new_memory env p (create_fields p u vis level sens owner project)"
    and "memory_row_ok env t m"
    and "list_all link_ok (new_links env (prop_space_id p) TARGET_MEMORY (cn_id m)
      (provenanceEntriesFromPayload (payload_of p) @ [proposal_evidence p]) (length (mt_links (tb_rest t))))"
    and "res = \<lparr>ar_memory = m, ar_superseded = None, ar_targets = [digestTargetForMemory m]\<rparr>"
    and "t' = memory_change (mt_memories (tb_rest t) @ [m])
      (mt_links (tb_rest t) @ new_links env (prop_space_id p) TARGET_MEMORY (cn_id m)
        (provenanceEntriesFromPayload (payload_of p) @ [proposal_evidence p]) (length (mt_links (tb_rest t))))
      (mt_relations (tb_rest t)) t"
proof -
  from assms obtain owner project m t1 where
    fields: "fields_ok (tb_access t) p None (wanted_visibility (payload_of p) ''private'') (wanted_level (payload_of p) ''full'')
      (wanted_sensitivity (payload_of p) None) owner (or_value (prop_created_by_user_id p) u)
      (strOr (get (payload_of p) ''owner_user_id'')) project"
    and ins: "insertMemory env p (create_fields p u (wanted_visibility (payload_of p) ''private'')
      (wanted_level (payload_of p) ''full'') (wanted_sensitivity (payload_of p) None) owner project) t = Inr (m, t1)"
    and links: "writeProvenanceLinks env (prop_space_id p) TARGET_MEMORY (cn_id m)
      (provenanceEntriesFromPayload (payload_of p) @ [proposal_evidence p]) t1 = Inr t'"
    and res: "res = \<lparr>ar_memory = m, ar_superseded = None, ar_targets = [digestTargetForMemory m]\<rparr>"
    by (auto simp: applyCreate_def Let_def bind_sum_Inr_iff fields_ok_def)
  note ins' = insert_memory_cases [OF ins]
  with links have "writeProvenanceLinks env (prop_space_id p) TARGET_MEMORY (cn_id m)
      (provenanceEntriesFromPayload (payload_of p) @ [proposal_evidence p])
      (memory_change (mt_memories (tb_rest t) @ [m]) (mt_links (tb_rest t)) (mt_relations (tb_rest t)) t) = Inr t'" by simp
  from write_links_change [OF this] fields ins' res show thesis by (intro that) auto
qed

text \<open>The links an update adds to the copied ones.\<close>

definition version_entries :: "apply_proposal \<Rightarrow> string \<Rightarrow> string \<Rightarrow> string \<Rightarrow> provenance_link list \<Rightarrow> provenance_entry list" where
  "version_entries p sp old_id i links =
     (let copied = map lk_entry (filter (link_target sp TARGET_MEMORY old_id) links)
      in copied @ entries_to_add (map provKey (map lk_entry (filter (link_target sp TARGET_MEMORY i) links) @ copied)) p)"

lemma version_change:
  assumes "version_provenance env p old m (memory_change ms links rels t) = Inr t'"
  shows "t' = memory_change ms (links @ new_links env (prop_space_id p) TARGET_MEMORY (cn_id m)
      (version_entries p (prop_space_id p) (cn_id old) (cn_id m) links) (length links)) rels t \<and>
    list_all link_ok (new_links env (prop_space_id p) TARGET_MEMORY (cn_id m)
      (version_entries p (prop_space_id p) (cn_id old) (cn_id m) links) (length links))"
proof -
  let ?sp = "prop_space_id p" and ?copied = "map lk_entry (filter (link_target (prop_space_id p) TARGET_MEMORY (cn_id old)) links)"
  let ?l1 = "new_links env ?sp TARGET_MEMORY (cn_id m) ?copied (length links)"
  from assms obtain t1 where copy: "writeProvenanceLinks env ?sp TARGET_MEMORY (cn_id m) ?copied (memory_change ms links rels t) = Inr t1"
    and rest: "(let toAdd = entries_to_add (provenanceKeys ?sp (cn_id m) t1) p
      in if length toAdd > 0 then writeProvenanceLinks env ?sp TARGET_MEMORY (cn_id m) toAdd t1 else Inr t1) = Inr t'"
    by (auto simp: version_provenance_def bind_sum_Inr_iff copyProvenanceToMemory_def provenance_of_def)
  from write_links_change [OF copy] have t1: "t1 = memory_change ms (links @ ?l1) rels t" and ok1: "list_all link_ok ?l1" by auto
  have "filter (link_target ?sp TARGET_MEMORY (cn_id m)) ?l1 = ?l1"
    using new_links_target by (fastforce intro: filter_True)
  then have keys: "provenanceKeys ?sp (cn_id m) t1 =
      map provKey (map lk_entry (filter (link_target ?sp TARGET_MEMORY (cn_id m)) links) @ ?copied)"
    by (simp add: provenanceKeys_def provenance_of_def t1)
  let ?add = "entries_to_add (map provKey (map lk_entry (filter (link_target ?sp TARGET_MEMORY (cn_id m)) links) @ ?copied)) p"
  have all: "version_entries p ?sp (cn_id old) (cn_id m) links = ?copied @ ?add" by (simp add: version_entries_def Let_def)
  show ?thesis
  proof (cases "?add = []")
    case True
    with rest keys t1 ok1 show ?thesis unfolding all by (auto simp: Let_def)
  next
    case False
    with rest have "writeProvenanceLinks env ?sp TARGET_MEMORY (cn_id m) ?add (memory_change ms (links @ ?l1) rels t) = Inr t'"
      by (simp add: Let_def keys flip: t1)
    from write_links_change [OF this] ok1 show ?thesis unfolding all by (simp add: new_links_append)
  qed
qed

lemma target_cases:
  assumes "read_target ty p t = Inr old"
  shows "strOr (get (payload_of p) ''target_memory_id'') = Some (cn_id old) \<and> old \<in> set (mt_memories (tb_rest t)) \<and>
    cn_space_id old = prop_space_id p \<and> cn_deleted_at old = None"
  using assms find_Some_in [of "live_memory (cn_id old) (prop_space_id p)"]
  by (auto simp: read_target_def getActive_def live_memory_def split: option.splits dest: find_Some_in)

lemma update_change:
  assumes "applyUpdate env p u t = Inr (res, t')"
  obtains old vis level sens owner project m where
    "read_target ''memory_update'' p t = Inr old"
    and "vis = wanted_visibility (payload_of p) (cn_visibility old)" and "level = wanted_level (payload_of p) (cn_access_level old)"
    and "sens = wanted_sensitivity (payload_of p) (cn_sensitivity_level old)"
    and "fields_ok (tb_access t) p (cn_project_id old) vis level sens owner u
      (or_else (strOr (get (payload_of p) ''owner_user_id'')) (cn_owner_user_id old)) project"
    and "m = new_memory env p (update_fields p u old vis level sens owner project)"
    and "memory_row_ok env t m"
    and "list_all link_ok (new_links env (prop_space_id p) TARGET_MEMORY (cn_id m)
      (version_entries p (prop_space_id p) (cn_id old) (cn_id m) (mt_links (tb_rest t))) (length (mt_links (tb_rest t))))"
    and "res = \<lparr>ar_memory = m, ar_superseded = Some (cn_id old),
      ar_targets = distinctDigestTargets [digestTargetForMemory old, digestTargetForMemory m]\<rparr>"
    and "t' = recordMemorySupersedesRelation env (prop_space_id p) (cn_id m) (cn_id old) (prop_id p)
      (memory_change (sql_update (live_memory (cn_id old) (prop_space_id p)) (set_status ''superseded'' (mv_now_text env))
        (mt_memories (tb_rest t) @ [m]))
      (mt_links (tb_rest t) @ new_links env (prop_space_id p) TARGET_MEMORY (cn_id m)
        (version_entries p (prop_space_id p) (cn_id old) (cn_id m) (mt_links (tb_rest t))) (length (mt_links (tb_rest t))))
      (mt_relations (tb_rest t)) t)"
proof -
  from assms obtain old owner project m t1 t2 where
    old: "read_target ''memory_update'' p t = Inr old"
    and fields: "fields_ok (tb_access t) p (cn_project_id old) (wanted_visibility (payload_of p) (cn_visibility old))
      (wanted_level (payload_of p) (cn_access_level old)) (wanted_sensitivity (payload_of p) (cn_sensitivity_level old)) owner u
      (or_else (strOr (get (payload_of p) ''owner_user_id'')) (cn_owner_user_id old)) project"
    and ins: "insertMemory env p (update_fields p u old (wanted_visibility (payload_of p) (cn_visibility old))
      (wanted_level (payload_of p) (cn_access_level old)) (wanted_sensitivity (payload_of p) (cn_sensitivity_level old)) owner project) t = Inr (m, t1)"
    and links: "version_provenance env p old m (snd (markStatus env (cn_id old) (prop_space_id p) ''superseded'' t1)) = Inr t2"
    and res: "res = \<lparr>ar_memory = m, ar_superseded = Some (cn_id old),
      ar_targets = distinctDigestTargets [digestTargetForMemory old, digestTargetForMemory m]\<rparr>"
    and t': "t' = recordMemorySupersedesRelation env (prop_space_id p) (cn_id m) (cn_id old) (prop_id p) t2"
    by (auto simp: applyUpdate_def Let_def bind_sum_Inr_iff fields_ok_def)
  note ins' = insert_memory_cases [OF ins]
  then have "snd (markStatus env (cn_id old) (prop_space_id p) ''superseded'' t1) =
      memory_change (sql_update (live_memory (cn_id old) (prop_space_id p)) (set_status ''superseded'' (mv_now_text env))
        (mt_memories (tb_rest t) @ [m])) (mt_links (tb_rest t)) (mt_relations (tb_rest t)) t"
    by (simp add: markStatus_def Let_def write_memories_change)
  with links have "version_provenance env p old m (memory_change (sql_update (live_memory (cn_id old) (prop_space_id p))
      (set_status ''superseded'' (mv_now_text env)) (mt_memories (tb_rest t) @ [m])) (mt_links (tb_rest t)) (mt_relations (tb_rest t)) t) = Inr t2"
    by simp
  from version_change [OF this] old fields ins' res t' show thesis by (intro that) auto
qed

lemma archive_change:
  assumes "applyArchive env p t = Inr (res, t')"
  obtains old where "read_target ''memory_archive'' p t = Inr old"
    and "list_all link_ok (new_links env (prop_space_id p) TARGET_MEMORY (cn_id old) (archive_entries p) (length (mt_links (tb_rest t))))"
    and "cn_id (ar_memory res) = cn_id old" and "ar_superseded res = None" and "ar_targets res = [digestTargetForMemory old]"
    and "t' = memory_change (sql_update (live_memory (cn_id old) (prop_space_id p)) (set_status ''archived'' (mv_now_text env))
        (mt_memories (tb_rest t)))
      (mt_links (tb_rest t) @ new_links env (prop_space_id p) TARGET_MEMORY (cn_id old) (archive_entries p) (length (mt_links (tb_rest t))))
      (mt_relations (tb_rest t)) t"
proof -
  let ?ms = "\<lambda>i. sql_update (live_memory i (prop_space_id p)) (set_status ''archived'' (mv_now_text env)) (mt_memories (tb_rest t))"
  have some: "length (archive_entries p) > 0"
  proof -
    have "\<exists>y \<in> set (archive_entries p). provKey y = provKey (proposalProvenanceEntry (prop_id p)
        [(''action'', JStr ''memory_archive''), (''proposal_type'', JStr ''memory_archive'')])"
      unfolding archive_entries_def mergeDistinctProvenanceEntries_def by (rule nub_by_keeps) simp_all
    then show ?thesis by auto
  qed
  from assms some obtain old t1 where old: "read_target ''memory_archive'' p t = Inr old"
    and links: "writeProvenanceLinks env (prop_space_id p) TARGET_MEMORY (cn_id old) (archive_entries p)
      (memory_change (?ms (cn_id old)) (mt_links (tb_rest t)) (mt_relations (tb_rest t)) t) = Inr t'"
    and res: "res = \<lparr>ar_memory = or_value (fst (markStatus env (cn_id old) (prop_space_id p) ''archived'' t)) old,
      ar_superseded = None, ar_targets = [digestTargetForMemory old]\<rparr>"
    by (auto simp: applyArchive_def Let_def bind_sum_Inr_iff markStatus_def write_memories_change split: prod.splits if_splits)
  have "cn_id (or_value (fst (markStatus env (cn_id old) (prop_space_id p) ''archived'' t)) old) = cn_id old"
    by (auto simp: markStatus_def Let_def or_value_def sql_returning_def set_status_def live_memory_def
        split: option.splits list.splits dest: filter_eq_ConsD)
  with write_links_change [OF links] old res show thesis by (intro that) auto
qed

end
