(* ===== verification/ProposalInvariants.thy ===== *)
theory ProposalInvariants
  imports SourceActivation
begin

text \<open>
  Invariants of the tables the appliers write, over any history of decisions: a predicate that every applier
  and the bookkeeping of a decision keep is kept by the decisions themselves.
\<close>

section \<open>Invariants of asynchronous functions\<close>

definition io_keeps :: "('s \<Rightarrow> bool) \<Rightarrow> ('e, 's, 'a) async \<Rightarrow> bool" where
  "io_keeps P m \<longleftrightarrow> (\<forall>s r s'. P s \<longrightarrow> m s = (r, s') \<longrightarrow> P s')"

named_theorems io_keeps_intros

lemma io_keepsI [intro?]: "(\<And>s r s'. P s \<Longrightarrow> m s = (r, s') \<Longrightarrow> P s') \<Longrightarrow> io_keeps P m"
  by (simp add: io_keeps_def)

lemma io_keepsD: "io_keeps P m \<Longrightarrow> P s \<Longrightarrow> m s = (r, s') \<Longrightarrow> P s'"
  by (simp add: io_keeps_def)

lemma keeps_return [io_keeps_intros]: "io_keeps P (io_return x)"
  by (rule io_keepsI) simp

lemma keeps_throw [io_keeps_intros]: "io_keeps P (io_throw e)"
  by (rule io_keepsI) simp

lemma keeps_bind [io_keeps_intros]: "io_keeps P m \<Longrightarrow> (\<And>x. io_keeps P (f x)) \<Longrightarrow> io_keeps P (io_bind m f)"
proof (rule io_keepsI)
  fix s r s'
  assume m: "io_keeps P m" and f: "\<And>x. io_keeps P (f x)" and "P s" and "io_bind m f s = (r, s')"
  from this(4) show "P s'"
    by (cases rule: io_bind_cases) (use m f \<open>P s\<close> in \<open>blast dest: io_keepsD\<close>)+
qed

lemma keeps_on_error [io_keeps_intros]: "io_keeps P m \<Longrightarrow> (\<And>s. P s \<Longrightarrow> P (h s)) \<Longrightarrow> io_keeps P (io_on_error h m)"
proof (rule io_keepsI)
  fix s r s'
  assume m: "io_keeps P m" and h: "\<And>s. P s \<Longrightarrow> P (h s)" and "P s" and "io_on_error h m s = (r, s')"
  from this(4) show "P s'"
    by (cases rule: io_on_error_cases) (use m h \<open>P s\<close> in \<open>blast dest: io_keepsD\<close>)+
qed

lemma keeps_update [io_keeps_intros]:
  "(\<And>t. Q t \<Longrightarrow> Q (f t)) \<Longrightarrow> io_keeps (\<lambda>s. Q (ss_db s)) (io_update f)"
  by (rule io_keepsI) (auto simp: io_update_def)

lemma keeps_case_option [io_keeps_intros]:
  "(x = None \<Longrightarrow> io_keeps P m) \<Longrightarrow> (\<And>y. x = Some y \<Longrightarrow> io_keeps P (f y)) \<Longrightarrow>
     io_keeps P (case x of None \<Rightarrow> m | Some y \<Rightarrow> f y)"
  by (cases x) simp_all

lemma keeps_if [io_keeps_intros]:
  "(b \<Longrightarrow> io_keeps P m) \<Longrightarrow> (\<not> b \<Longrightarrow> io_keeps P m') \<Longrightarrow> io_keeps P (if b then m else m')"
  by simp

text \<open>The steps that only read the tables.\<close>

lemma keeps_bundle [io_keeps_intros]: "io_keeps P (assertBundleMemberMayBeDecided i allow)"
  by (rule io_keepsI) (drule bundle_step, simp)

lemma keeps_patch [io_keeps_intros]: "io_keeps P (assertIncompleteCodePatchConfirmation p confirmed)"
  by (rule io_keepsI) (drule patch_step, simp)

lemma keeps_policy [io_keeps_intros]: "io_keeps (\<lambda>s. Q (ss_db s)) (enforceApplyPolicy env p u)"
  by (rule io_keepsI) (drule enforce_policy_step, simp)

lemma keeps_read [io_keeps_intros]: "io_keeps P (read_decided sp u i message)"
  by (rule io_keepsI) (auto simp: read_decided_def split: option.splits)

lemma commit_keeps: "P before \<Longrightarrow> P (ss_db s) \<Longrightarrow> commit env rb before x s = (r, s') \<Longrightarrow> P (ss_db s')"
  by (auto simp: commit_def split: if_splits)

section \<open>Invariants of the tables\<close>

locale table_invariant =
  fixes reg :: "('d, 'w) applier_registry" and P :: "'d tables \<Rightarrow> bool"
  assumes applier_keeps: "map_of reg ty = Some f \<Longrightarrow> P t \<Longrightarrow> f p u (t, w) = (r, t', w') \<Longrightarrow> P t'"
    and decisions_keep: "P t \<Longrightarrow> P (t\<lparr>tb_proposals := ps\<rparr>)" "P t \<Longrightarrow> P (t\<lparr>tb_grants := gs\<rparr>)"
      "P t \<Longrightarrow> P (t\<lparr>tb_approvals := as\<rparr>)" "P t \<Longrightarrow> P (t\<lparr>tb_sources := so\<rparr>)"
begin

lemma keeps_apply: "pe_registry env = reg \<Longrightarrow> io_keeps (\<lambda>s. P (ss_db s)) (registry_apply env p u)"
proof (rule io_keepsI)
  fix s r s'
  assume "pe_registry env = reg" and "P (ss_db s)" and "registry_apply env p u s = (r, s')"
  from this(3) show "P (ss_db s')"
  proof (cases rule: registry_apply_cases)
    case (applied f t w)
    then show ?thesis using applier_keeps \<open>P (ss_db s)\<close> \<open>pe_registry env = reg\<close> by simp
  qed (use \<open>P (ss_db s)\<close> in simp)
qed

lemma keeps_conclude: "io_keeps (\<lambda>s. P (ss_db s)) (conclude env p sp u result message)"
  unfolding conclude_def by (intro io_keeps_intros) (simp add: markProposalFinal_def decisions_keep)

lemma keeps_insert_approval: "io_keeps (\<lambda>s. P (ss_db s)) (insert_approval new)"
  by (rule io_keepsI) (auto simp: insert_approval_def decisions_keep split: if_splits)

lemma keeps_consume: "io_keeps (\<lambda>s. P (ss_db s)) (consume_grant env a)"
  by (rule io_keepsI) (auto simp: consume_grant_def decisions_keep split: prod.splits)

lemma keeps_compensate: "P (ss_db s) \<Longrightarrow> P (ss_db (compensate rb s))"
  by simp

lemmas keeps_steps = io_keeps_intros keeps_apply keeps_conclude keeps_insert_approval keeps_consume keeps_compensate

lemma keeps_accept_pending:
  "pe_registry env = reg \<Longrightarrow> io_keeps (\<lambda>s. P (ss_db s)) (accept_pending env sp u opts (io_return ()) p)"
  unfolding accept_pending_def by (intro keeps_steps)

lemma accept_keeps:
  assumes "pe_registry env = reg" and "P (ss_db s)" and "accept env i sp u opts s = (r, s')"
  shows "P (ss_db s')"
proof (cases "acceptable sp u i (ss_db s)")
  case None
  with assms show ?thesis by (auto simp: accept_def acceptInTransaction_def intro: commit_keeps [of P])
next
  case (Some p)
  obtain q s1 where run: "accept_pending env sp u opts (io_return ()) p s = (q, s1)" by fastforce
  from io_keepsD [OF keeps_accept_pending [OF assms(1)] assms(2) run] have "P (ss_db s1)" .
  with assms(2,3) run show ?thesis
    by (auto simp: accept_def acceptInTransaction_def Some io_lift_def io_bind_def io_return_def
        split: sum.splits prod.splits intro: commit_keeps [of P])
qed

lemma keeps_on_grant:
  "pe_registry env = reg \<Longrightarrow> io_keeps (\<lambda>s. P (ss_db s)) (accept_on_grant env a p agent)"
  unfolding accept_on_grant_def apply_on_grant_def Let_def by (intro keeps_steps)

lemma grant_keeps:
  assumes "pe_registry env = reg" and "P (ss_db s)" and "acceptAgentProposalIfGranted env i a s = (r, s')"
  shows "P (ss_db s')"
proof -
  have run: "P (ss_db s1)" if "accept_on_grant env a p agent s = (q, s1)" for p agent q s1
    using io_keepsD [OF keeps_on_grant [OF assms(1)] assms(2) that] .
  have committed: "P (ss_db s')"
    if "accept_on_grant env a p agent s = (q, s1)" and "commit env rb (ss_db s) x s1 = (r, s')" for p agent q s1 rb x
    using commit_keeps [of P, OF assms(2) run [OF that(1)] that(2)] .
  show ?thesis
    using assms(2,3)
    by (auto simp: acceptAgentProposalIfGranted_def split: option.splits if_splits prod.splits sum.splits
        intro: committed)
qed

lemma reject_tables_keep: "P t \<Longrightarrow> P (reject_tables now i sp u p t)"
  unfolding reject_tables_def releaseRejectedSourceBackfillPlan_def releaseRejectedSourceChannelDraft_def
    releaseRejectedSourceRecipeVersion_def releaseRejectedCustomSourceHandlerVersion_def
  by (auto split: option.splits intro!: decisions_keep)

lemma reject_keeps:
  assumes "P (ss_db s)" and "reject env i sp u s = (r, s')"
  shows "P (ss_db s')"
proof -
  have "io_keeps (\<lambda>s. P (ss_db s)) (\<lambda>s. rejectTransaction env i sp u (io_return ()) False s)"
  proof (rule io_keepsI)
    fix s1 q s2
    assume P: "P (ss_db s1)" and run: "rejectTransaction env i sp u (io_return ()) False s1 = (q, s2)"
    show "P (ss_db s2)"
    proof (cases "rejectable sp u i (ss_db s1)")
      case None
      with P run show ?thesis by (simp add: rejectTransaction_def)
    next
      case (Some p)
      have "io_keeps (\<lambda>s. P (ss_db s)) (io_bind (assertBundleMemberMayBeDecided (prop_id p) False) (\<lambda>_.
          io_bind (io_update (reject_tables (pe_now env) i sp u p)) (\<lambda>_. io_bind (io_return ()) (\<lambda>_.
          io_bind (read_decided sp u i ''rejected proposal is not visible after reject'') (\<lambda>out.
          io_return (Some out))))))"
        by (intro io_keeps_intros reject_tables_keep)
      from io_keepsD [OF this P] run show ?thesis by (simp add: rejectTransaction_def Some)
    qed
  qed
  from io_keepsD [OF this assms(1)] assms show ?thesis
    by (auto simp: reject_def split: prod.splits sum.splits intro: commit_keeps [of P])
qed

lemma egress_keeps:
  assumes "P (ss_db s)" and "approveEgressGrantingUser env i sp u grantId s = (r, s')"
  shows "P (ss_db s')"
  using assms(2) by (cases rule: egress_tables) (use assms(1) in \<open>simp_all add: add_approval_def decisions_keep\<close>)

end

end
