(* ===== verification/MemoryInvariants.thy ===== *)
theory MemoryInvariants
  imports MemoryChanges ProposalInvariants
begin

text \<open>
  The invariant of memories, their provenance and their lineage, and what stays of a memory for ever; both
  over any history of decisions on proposals, of changes of who may read a memory, and of other work.
\<close>

section \<open>The applier\<close>

lemma apply_only_cases:
  assumes "applyOnly env p u t = Inr ((res, payload), t1)"
  obtains q where "q = p\<lparr>prop_payload_json := Some (monitored_payload
      (evaluateMemoryProposal (prop_proposal_type p) (payload_of p) ExplicitUserAccept) (payload_of p))\<rparr>"
    and "applyByType env q u t = Inr (res, t1)" and "prop_proposal_type p \<in> set MEMORY_APPLY_TYPES"
    and "\<not> list_ex (\<lambda>marker. truthy (get (payload_of p) marker)) GRANT_DERIVED_MARKERS"
    and "mon_action (evaluateMemoryProposal (prop_proposal_type p) (payload_of p) ExplicitUserAccept) \<noteq> MonReject"
    and "payload = put ''resulting_memory_id'' (JStr (cn_id (ar_memory res))) (payload_of q)"
  using assms
  by (auto simp: applyOnly_def bind_sum_Inr_iff assertNoEgressContext_def Let_def payload_of_def split: if_splits)

lemma applier_cases:
  assumes "applyMemoryProposal env p u (t, w) = (r, t', w')"
  obtains (refused) e where "r = Inl e" and "t' = t" and "w' = w"
    | (applied) result res payload t1 m where "r = Inr result" and "applyOnly env p u t = Inr ((res, payload), t1)"
      and "t' = refresh_derived env p u res t1" and "w' = w" and "rs_rollback result = None"
      and "rs_final_status result = None" and "rs_payload_patch result = Some payload"
      and "rs_result result = JObj [(''memory'', JObj (serializeMemoryRow m u))]"
      and "List.find (\<lambda>m. cn_id m = cn_id (ar_memory res)) (mt_memories (tb_rest t')) = Some m"
proof (cases "applyOnly env p u t")
  case (Inl e)
  with assms show ?thesis by (intro refused) (auto simp: applyMemoryProposal_def)
next
  case (Inr out)
  obtain res payload t1 where out: "out = ((res, payload), t1)" by (metis prod.exhaust)
  show ?thesis
  proof (cases "List.find (\<lambda>m. cn_id m = cn_id (ar_memory res)) (mt_memories (tb_rest (refresh_derived env p u res t1)))")
    case None
    with assms Inr out show ?thesis by (intro refused) (auto simp: applyMemoryProposal_def Let_def)
  next
    case (Some m)
    with assms Inr out show ?thesis by (intro applied) (auto simp: applyMemoryProposal_def Let_def)
  qed
qed

text \<open>What is derived from memories does not touch them.\<close>

lemma refresh_scope_keeps [simp]:
  fixes t :: memory_tables
  shows "mt_memories (refresh_scope env sp u reason si t) = mt_memories t"
    and "mt_links (refresh_scope env sp u reason si t) = mt_links t"
    and "mt_relations (refresh_scope env sp u reason si t) = mt_relations t"
  by (simp_all add: refresh_scope_def split: prod.split)

lemma refreshes_keep [simp]:
  fixes t :: memory_tables
  shows "mt_memories (markAndEnqueueMemoryDigestRefreshes env sp u reason seen ds t) = mt_memories t"
    and "mt_links (markAndEnqueueMemoryDigestRefreshes env sp u reason seen ds t) = mt_links t"
    and "mt_relations (markAndEnqueueMemoryDigestRefreshes env sp u reason seen ds t) = mt_relations t"
  by (induction ds arbitrary: seen t) (auto simp: Let_def split: option.split prod.split)

lemma refresh_derived_keeps [simp]:
  "mt_memories (tb_rest (refresh_derived env p u res t)) = mt_memories (tb_rest t)"
  "mt_links (tb_rest (refresh_derived env p u res t)) = mt_links (tb_rest t)"
  "mt_relations (tb_rest (refresh_derived env p u res t)) = mt_relations (tb_rest t)"
  "tb_access (refresh_derived env p u res t) = tb_access t"
  "tb_proposals (refresh_derived env p u res t) = tb_proposals t"
  "tb_approvals (refresh_derived env p u res t) = tb_approvals t"
  "tb_grants (refresh_derived env p u res t) = tb_grants t"
  by (simp_all add: refresh_derived_def Let_def enqueueMemoryRetrievalEmbeddingBackfill_def)

text \<open>The three kinds, as one rule over the tables of memories.\<close>

lemma update_tables:
  assumes "applyUpdate env p u t = Inr (res, t')"
  obtains old m f rel where "read_target ''memory_update'' p t = Inr old" and "m = new_memory env p f"
    and "memory_row_ok env t m" and "nm_root_memory_id f = or_else (mem_root_memory_id old) (Some (cn_id old))"
    and "nm_supersedes_memory_id f = Some (cn_id old)"
    and "list_all link_ok (new_links env (prop_space_id p) TARGET_MEMORY (cn_id m)
      (version_entries p (prop_space_id p) (cn_id old) (cn_id m) (mt_links (tb_rest t))) (length (mt_links (tb_rest t))))"
    and "rel = \<lparr>rel_id = mv_relation_id env, rel_space_id = prop_space_id p, rel_source_type = TARGET_MEMORY,
      rel_source_id = cn_id m, rel_target_type = TARGET_MEMORY, rel_target_id = cn_id old,
      rel_relation_type = ''supersedes'', rel_created_from_proposal_id = Some (prop_id p), rel_created_at = mv_now_text env\<rparr>"
    and "t' = memory_change
      (sql_update (live_memory (cn_id old) (prop_space_id p)) (set_status ''superseded'' (mv_now_text env)) (mt_memories (tb_rest t)) @ [m])
      (mt_links (tb_rest t) @ new_links env (prop_space_id p) TARGET_MEMORY (cn_id m)
        (version_entries p (prop_space_id p) (cn_id old) (cn_id m) (mt_links (tb_rest t))) (length (mt_links (tb_rest t))))
      (mt_relations (tb_rest t) @ [rel]) t"
  using assms
proof (cases rule: update_change)
  case (1 old vis level sens owner project m)
  note new = 1
  have "cn_id old \<noteq> cn_id m"
    using target_cases [OF new(1)] new(7) by (auto simp: memory_row_ok_def memory_keys_def list_all_iff)
  then have "sql_update (live_memory (cn_id old) (prop_space_id p)) (set_status ''superseded'' (mv_now_text env)) (mt_memories (tb_rest t) @ [m]) =
      sql_update (live_memory (cn_id old) (prop_space_id p)) (set_status ''superseded'' (mv_now_text env)) (mt_memories (tb_rest t)) @ [m]"
    by (simp add: sql_update_def live_memory_def)
  with new(10) have t': "t' = recordMemorySupersedesRelation env (prop_space_id p) (cn_id m) (cn_id old) (prop_id p) (memory_change
      (sql_update (live_memory (cn_id old) (prop_space_id p)) (set_status ''superseded'' (mv_now_text env)) (mt_memories (tb_rest t)) @ [m])
      (mt_links (tb_rest t) @ new_links env (prop_space_id p) TARGET_MEMORY (cn_id m)
        (version_entries p (prop_space_id p) (cn_id old) (cn_id m) (mt_links (tb_rest t))) (length (mt_links (tb_rest t))))
      (mt_relations (tb_rest t)) t)" by (simp only:)
  show ?thesis
  proof (rule that [OF new(1,6,7) _ _ new(8) refl])
    show "nm_root_memory_id (update_fields p u old vis level sens owner project) = or_else (mem_root_memory_id old) (Some (cn_id old))"
      "nm_supersedes_memory_id (update_fields p u old vis level sens owner project) = Some (cn_id old)"
      by (simp_all add: update_fields_def Let_def)
  qed (simp only: t' recordMemorySupersedesRelation_def change_relations memory_change_simps)
qed

section \<open>The invariant\<close>

text \<open>Every stored key part is free of the separator, so a key determines its parts for stored entries too.\<close>

definition evidenced :: "provenance_link list \<Rightarrow> memory_row \<Rightarrow> bool" where
  "evidenced links m \<longleftrightarrow> (case mem_created_from_proposal_id m of None \<Rightarrow> True
   | Some i \<Rightarrow> \<exists>l \<in> set links. link_target (cn_space_id m) TARGET_MEMORY (cn_id m) l \<and>
       prov_source_type (lk_entry l) = ''proposal'' \<and> prov_source_id (lk_entry l) = i \<and>
       prov_source_trust (lk_entry l) = Some ''internal_system'')"

definition root_of :: "memory_row \<Rightarrow> string" where
  "root_of m = or_value (mem_root_memory_id m) (cn_id m)"

definition supersedes :: "memory_row \<Rightarrow> string \<Rightarrow> memory_relation \<Rightarrow> bool" where
  "supersedes m i r \<longleftrightarrow> rel_space_id r = cn_space_id m \<and> rel_source_type r = TARGET_MEMORY \<and> rel_source_id r = cn_id m \<and>
     rel_target_type r = TARGET_MEMORY \<and> rel_target_id r = i \<and> rel_relation_type r = ''supersedes''"

definition descends :: "memory_row list \<Rightarrow> memory_relation list \<Rightarrow> memory_row \<Rightarrow> bool" where
  "descends ms rels m \<longleftrightarrow> (case mem_supersedes_memory_id m of None \<Rightarrow> True
   | Some i \<Rightarrow> (\<exists>old \<in> set ms. cn_id old = i \<and> cn_space_id old = cn_space_id m \<and> cn_status old \<noteq> ''active'' \<and>
       root_of m = root_of old) \<and> (\<exists>r \<in> set rels. supersedes m i r))"

text \<open>The root of a memory is in its space, and is its own root.\<close>

definition rooted :: "memory_row list \<Rightarrow> memory_row \<Rightarrow> bool" where
  "rooted ms m \<longleftrightarrow> (\<exists>r \<in> set ms. cn_id r = root_of m \<and> cn_space_id r = cn_space_id m \<and> root_of r = cn_id r)"

definition rows_ok :: "memory_row list \<Rightarrow> provenance_link list \<Rightarrow> memory_relation list \<Rightarrow> bool" where
  "rows_ok ms links rels \<longleftrightarrow>
     distinct (map cn_id ms) \<and> list_all link_ok links \<and>
     (\<forall>m \<in> set ms. memory_checks m \<and> evidenced links m \<and> descends ms rels m \<and> rooted ms m)"

definition memory_ok :: "memory_tables tables \<Rightarrow> bool" where
  "memory_ok t \<longleftrightarrow>
     rows_ok (mt_memories (tb_rest t)) (mt_links (tb_rest t)) (mt_relations (tb_rest t)) \<and>
     db_content (tb_access t) ''memory_entries'' = map content_row.truncate (mt_memories (tb_rest t))"

lemma memory_ok_change [simp]: "memory_ok (memory_change ms links rels t) \<longleftrightarrow> rows_ok ms links rels"
  by (simp add: memory_ok_def)

lemma memory_ok_refresh [simp]: "memory_ok (refresh_derived env p u res t) \<longleftrightarrow> memory_ok t"
  by (simp add: memory_ok_def)

lemma add_row:
  assumes "rows_ok ms links rels" and "cn_id m \<notin> cn_id ` set ms" and "memory_checks m" and "list_all link_ok extra"
    and "evidenced (links @ extra) m" and "descends (ms @ [m]) (rels @ rels') m" and "rooted (ms @ [m]) m"
  shows "rows_ok (ms @ [m]) (links @ extra) (rels @ rels')"
proof -
  have "evidenced (links @ extra) x" if "evidenced links x" for x
    using that by (auto simp: evidenced_def split: option.splits)
  moreover have "descends (ms @ [m]) (rels @ rels') x" if "descends ms rels x" for x
    using that by (auto simp: descends_def split: option.splits)
  moreover have "rooted (ms @ [m]) x" if "rooted ms x" for x
    using that by (auto simp: rooted_def)
  ultimately show ?thesis using assms by (auto simp: rows_ok_def)
qed

lemma add_links: "rows_ok ms links rels \<Longrightarrow> list_all link_ok extra \<Longrightarrow> rows_ok ms (links @ extra) rels"
  by (fastforce simp: rows_ok_def evidenced_def split: option.splits)

lemma set_status_simps [simp]:
  "cn_id (set_status st now m) = cn_id m" "cn_space_id (set_status st now m) = cn_space_id m"
  "cn_status (set_status st now m) = st" "root_of (set_status st now m) = root_of m"
  "mem_root_memory_id (set_status st now m) = mem_root_memory_id m"
  "mem_supersedes_memory_id (set_status st now m) = mem_supersedes_memory_id m"
  "mem_created_from_proposal_id (set_status st now m) = mem_created_from_proposal_id m"
  "memory_checks (set_status st now m) = memory_checks m"
  by (simp_all add: set_status_def root_of_def memory_checks_def)

text \<open>An update of rows that keeps what identifies them.\<close>

definition same_memory :: "memory_row \<Rightarrow> memory_row \<Rightarrow> bool" where
  "same_memory m m' \<longleftrightarrow>
     cn_id m' = cn_id m \<and> cn_space_id m' = cn_space_id m \<and> root_of m' = root_of m \<and>
     mem_supersedes_memory_id m' = mem_supersedes_memory_id m \<and>
     mem_created_from_proposal_id m' = mem_created_from_proposal_id m \<and>
     (cn_status m \<noteq> ''active'' \<longrightarrow> cn_status m' \<noteq> ''active'')"

lemma update_rows:
  assumes ok: "rows_ok ms links rels" and same: "\<And>m. same_memory m (f m)"
    and checks: "list_all memory_checks (sql_update P f ms)"
  shows "rows_ok (sql_update P f ms) links rels"
proof -
  let ?f = "\<lambda>m. if P m then f m else m"
  have same_f: "same_memory m (?f m)" for m using same by (simp add: same_memory_def)
  have "descends (map ?f ms) rels (?f m)" if m: "descends ms rels m" for m
  proof (cases "mem_supersedes_memory_id m")
    case None
    with same_f [of m] show ?thesis by (simp add: descends_def same_memory_def)
  next
    case (Some i)
    with m obtain old where old: "old \<in> set ms" "cn_id old = i" "cn_space_id old = cn_space_id m"
      "cn_status old \<noteq> ''active''" "root_of m = root_of old" and rel: "\<exists>r \<in> set rels. supersedes m i r"
      by (auto simp: descends_def)
    from old(1) have "?f old \<in> set (map ?f ms)" by simp
    moreover have "supersedes (?f m) i = supersedes m i"
      using same_f [of m] by (auto simp: supersedes_def same_memory_def fun_eq_iff)
    ultimately show ?thesis
      using old rel Some same_f [of m] same_f [of old]
      unfolding descends_def same_memory_def by (intro option.case_eq_if [THEN iffD2]) (auto simp del: set_map)
  qed
  moreover have "evidenced links (?f m) = evidenced links m" for m
    using same_f [of m] unfolding evidenced_def same_memory_def by presburger
  moreover have "rooted (map ?f ms) (?f m)" if m: "rooted ms m" for m
  proof -
    from m obtain r where r: "r \<in> set ms" "cn_id r = root_of m" "cn_space_id r = cn_space_id m" "root_of r = cn_id r"
      by (auto simp: rooted_def)
    from r(1) have "?f r \<in> set (map ?f ms)" by simp
    then show ?thesis
      unfolding rooted_def using r same_f [of m] same_f [of r] unfolding same_memory_def by (intro bexI [of _ "?f r"]) simp_all
  qed
  ultimately have rows: "evidenced links (?f m) \<and> descends (map ?f ms) rels (?f m) \<and> rooted (map ?f ms) (?f m)"
    if "m \<in> set ms" for m
    using that ok by (simp add: rows_ok_def)
  have ids: "map cn_id (map ?f ms) = map cn_id ms" using same by (simp add: same_memory_def)
  have "distinct (map cn_id (map ?f ms))" unfolding ids using ok by (simp only: rows_ok_def)
  moreover have "list_all link_ok links" using ok by (simp only: rows_ok_def)
  moreover have "\<forall>x \<in> set (map ?f ms). evidenced links x \<and> descends (map ?f ms) rels x \<and> rooted (map ?f ms) x"
    unfolding set_map ball_simps using rows by blast
  ultimately show ?thesis
    using checks unfolding rows_ok_def sql_update_def list_all_iff by blast
qed

lemma mark_rows:
  assumes ok: "rows_ok ms links rels" and st: "st \<noteq> ''active''"
  shows "rows_ok (sql_update P (set_status st now) ms) links rels"
proof (rule update_rows [OF ok])
  show "same_memory m (set_status st now m)" for m using st by (simp add: same_memory_def)
  show "list_all memory_checks (sql_update P (set_status st now) ms)"
    using ok by (auto simp: rows_ok_def list_all_iff in_sql_update)
qed

lemma fresh_row: "memory_row_ok env t m \<Longrightarrow> cn_id m \<notin> cn_id ` set (mt_memories (tb_rest t)) \<and> memory_checks m"
  by (auto simp: memory_row_ok_def memory_keys_def list_all_iff)

lemma new_memory_simps [simp]:
  "cn_id (new_memory env p f) = mv_memory_id env" "cn_space_id (new_memory env p f) = prop_space_id p"
  "cn_status (new_memory env p f) = ''active''" "cn_deleted_at (new_memory env p f) = None"
  "mem_created_from_proposal_id (new_memory env p f) = Some (prop_id p)"
  "mem_supersedes_memory_id (new_memory env p f) = nm_supersedes_memory_id f"
  "root_of (new_memory env p f) = or_value (nm_root_memory_id f) (mv_memory_id env)"
  by (simp_all add: new_memory_def root_of_def)

lemma links_have: "e \<in> set es \<Longrightarrow> \<exists>l \<in> set (new_links env sp ty i es n). lk_entry l = e \<and> link_target sp ty i l"
proof -
  assume "e \<in> set es"
  then have "e \<in> lk_entry ` set (new_links env sp ty i es n)" by (metis list.set_map new_links_entries)
  then show ?thesis using new_links_target by blast
qed

lemma create_ok:
  assumes "memory_ok t" and "applyCreate env p u t = Inr (res, t')"
  shows "memory_ok t'"
  using assms(2)
proof (cases rule: create_change)
  case (1 vis level sens owner project m)
  have "evidenced (mt_links (tb_rest t) @ new_links env (prop_space_id p) TARGET_MEMORY (cn_id m)
      (provenanceEntriesFromPayload (payload_of p) @ [proposal_evidence p]) (length (mt_links (tb_rest t)))) m"
    using links_have [of "proposal_evidence p" "provenanceEntriesFromPayload (payload_of p) @ [proposal_evidence p]"
        env "prop_space_id p" TARGET_MEMORY "cn_id m" "length (mt_links (tb_rest t))"]
    by (fastforce simp: evidenced_def 1(5) proposal_evidence_def proposalProvenanceEntry_def)
  moreover have "descends (mt_memories (tb_rest t) @ [m]) (mt_relations (tb_rest t) @ []) m"
    by (simp add: descends_def 1(5) create_fields_def Let_def)
  moreover have "rooted (mt_memories (tb_rest t) @ [m]) m"
    by (simp add: rooted_def 1(5) create_fields_def Let_def or_value_def)
  ultimately show ?thesis
    using add_row [of "mt_memories (tb_rest t)" _ "mt_relations (tb_rest t)" m _ "[]"] assms(1) fresh_row [OF 1(6)] 1(7)
    by (simp add: 1(9) memory_ok_def)
qed

lemma link_parts: "link_ok l \<Longrightarrow> key_parts (CHR '' '') (lk_entry l)"
  using separator_free(2) [of _ "CHR '' ''"]
  by (auto simp: link_ok_def key_parts_def PROVENANCE_SOURCE_TYPES_def separators_def split: option.splits)

lemma version_evidence:
  assumes "list_all link_ok links" and "list_all link_ok (new_links env sp TARGET_MEMORY i (version_entries p sp old_id i links) n)"
  shows "\<exists>l \<in> set (links @ new_links env sp TARGET_MEMORY i (version_entries p sp old_id i links) n).
    link_target sp TARGET_MEMORY i l \<and> prov_source_type (lk_entry l) = ''proposal'' \<and>
    prov_source_id (lk_entry l) = prop_id p \<and> prov_source_trust (lk_entry l) = Some ''internal_system''"
proof -
  let ?e = "proposalProvenanceEntry (prop_id p) [(''proposal_type'', JStr ''memory_update'')]"
  let ?copied = "map lk_entry (filter (link_target sp TARGET_MEMORY old_id) links)"
  let ?seen = "map provKey (map lk_entry (filter (link_target sp TARGET_MEMORY i) links) @ ?copied)"
  let ?all = "links @ new_links env sp TARGET_MEMORY i (version_entries p sp old_id i links) n"
  have "provKey ?e \<in> provKey ` set (provenanceEntriesFromPayload (payload_of p) @ [?e])" by simp
  then have "provKey ?e \<in> set ?seen \<or> provKey ?e \<in> provKey ` set (entries_to_add ?seen p)"
    unfolding entries_to_add_def nub_by_keys by blast
  then have "provKey ?e \<in> provKey ` lk_entry ` {l \<in> set links. link_target sp TARGET_MEMORY i l} \<or>
      provKey ?e \<in> provKey ` set (version_entries p sp old_id i links)"
    by (auto simp: version_entries_def Let_def)
  then obtain l where l: "l \<in> set ?all" "link_target sp TARGET_MEMORY i l" and key: "provKey (lk_entry l) = provKey ?e"
  proof (elim disjE)
    assume "provKey ?e \<in> provKey ` lk_entry ` {l \<in> set links. link_target sp TARGET_MEMORY i l}"
    then obtain l where "l \<in> set links" "link_target sp TARGET_MEMORY i l" "provKey (lk_entry l) = provKey ?e"
      by (auto simp del: One_nat_def)
    then show thesis by (intro that [of l]) simp_all
  next
    assume "provKey ?e \<in> provKey ` set (version_entries p sp old_id i links)"
    then obtain e where "e \<in> set (version_entries p sp old_id i links)" "provKey e = provKey ?e" by auto
    with links_have [of e _ env sp TARGET_MEMORY i n] show thesis using that by fastforce
  qed
  from l(1) assms have "link_ok l" by (auto simp: list_all_iff)
  from link_parts [OF this] key have "prov_source_type (lk_entry l) = prov_source_type ?e \<and>
      prov_source_id (lk_entry l) = prov_source_id ?e \<and> prov_source_trust (lk_entry l) = prov_source_trust ?e"
    unfolding provKey_def by (intro key_determines) (simp_all add: proposalProvenanceEntry_def key_parts_def)
  with l show ?thesis by (intro bexI [of _ l]) (simp_all add: proposalProvenanceEntry_def)
qed

lemma update_ok:
  assumes "memory_ok t" and "applyUpdate env p u t = Inr (res, t')"
  shows "memory_ok t'"
  using assms(2)
proof (cases rule: update_tables)
  case (1 old m f rel)
  let ?ms = "sql_update (live_memory (cn_id old) (prop_space_id p)) (set_status ''superseded'' (mv_now_text env)) (mt_memories (tb_rest t))"
  let ?links = "mt_links (tb_rest t)" and ?rels = "mt_relations (tb_rest t)"
  let ?new = "new_links env (prop_space_id p) TARGET_MEMORY (cn_id m)
    (version_entries p (prop_space_id p) (cn_id old) (cn_id m) ?links) (length ?links)"
  note target = target_cases [OF 1(1)]
  have ok: "rows_ok ?ms ?links ?rels" using assms(1) mark_rows by (simp add: memory_ok_def)
  have "evidenced (?links @ ?new) m"
    using version_evidence [of ?links env "prop_space_id p" "cn_id m" p "cn_id old" "length ?links"] ok 1(6)
    by (simp add: evidenced_def 1(2) rows_ok_def)
  moreover have "descends (?ms @ [m]) (?rels @ [rel]) m"
  proof -
    let ?old = "set_status ''superseded'' (mv_now_text env) old"
    have "?old \<in> set ?ms" using target by (force simp: in_sql_update live_memory_def)
    moreover have "root_of m = root_of ?old" 
    proof -
      have "root_of old = or_value (mem_root_memory_id old) (cn_id old)" by (simp add: root_of_def)
      then show ?thesis by (cases "mem_root_memory_id old") (simp_all add: 1(2) 1(4) or_value_def)
    qed
    moreover have "supersedes m (cn_id old) rel" by (simp add: supersedes_def 1(2) 1(7))
    ultimately show ?thesis
      using target by (auto simp: descends_def 1(2) 1(5) intro!: bexI [of _ ?old])
  qed
  moreover have "rooted (?ms @ [m]) m"
  proof -
    have old: "old \<in> set (mt_memories (tb_rest t))" "cn_space_id old = prop_space_id p"
      using target by (simp_all add: live_memory_def)
    have "set_status ''superseded'' (mv_now_text env) old \<in> set ?ms"
      using target by (force simp: in_sql_update live_memory_def)
    then have "rooted ?ms (set_status ''superseded'' (mv_now_text env) old)" using ok by (simp add: rows_ok_def)
    then obtain r where "r \<in> set ?ms" "cn_id r = root_of old" "cn_space_id r = cn_space_id old" "root_of r = cn_id r"
      by (auto simp: rooted_def)
    moreover have "root_of m = root_of old"
      using root_of_def [of old] by (cases "mem_root_memory_id old") (simp_all add: 1(2) 1(4) or_value_def)
    ultimately show ?thesis unfolding rooted_def using old(2) by (intro bexI [of _ r]) (simp_all add: 1(2))
  qed
  moreover have "cn_id m \<notin> cn_id ` set ?ms"
  proof -
    have "map cn_id ?ms = map cn_id (mt_memories (tb_rest t))" by (rule map_sql_update) simp
    then have "cn_id ` set ?ms = cn_id ` set (mt_memories (tb_rest t))" by (metis list.set_map)
    with fresh_row [OF 1(3)] show ?thesis by simp
  qed
  ultimately show ?thesis
    using add_row [OF ok, of m ?new "[rel]"] fresh_row [OF 1(3)] 1(6) by (simp add: 1(8))
qed

lemma archive_ok:
  assumes "memory_ok t" and "applyArchive env p t = Inr (res, t')"
  shows "memory_ok t'"
  using assms(2)
proof (cases rule: archive_change)
  case (1 old)
  with assms(1) mark_rows [of _ "mt_links (tb_rest t)"] show ?thesis by (simp add: memory_ok_def add_links)
qed

lemma memory_applier_ok:
  assumes "memory_ok t" and "applyMemoryProposal env p u (t, w) = (r, t', w')"
  shows "memory_ok t'"
  using assms(2)
proof (cases rule: applier_cases)
  case (applied result res payload t1 m)
  from applied(2) obtain q where "applyByType env q u t = Inr (res, t1)" by (rule apply_only_cases)
  then consider "applyCreate env q u t = Inr (res, t1)" | "applyUpdate env q u t = Inr (res, t1)"
    | "applyArchive env q t = Inr (res, t1)" by (auto simp: applyByType_def split: if_splits)
  then have "memory_ok t1" using assms(1) create_ok update_ok archive_ok by cases blast+
  with applied show ?thesis by simp
qed (use assms in simp)

section \<open>What stays of a memory\<close>

text \<open>
  A row keeps all but its status, its readers, its time stamp and the count of its reads; it does not become active
  again, and the count does not go down.
\<close>

definition memory_follows :: "memory_row \<Rightarrow> memory_row \<Rightarrow> bool" where
  "memory_follows m m' \<longleftrightarrow>
     m' = m\<lparr>cn_status := cn_status m', cn_visibility := cn_visibility m', cn_access_level := cn_access_level m',
        cn_updated_at := cn_updated_at m', mem_access_count := mem_access_count m'\<rparr> \<and>
     (cn_status m' = cn_status m \<or> cn_status m' \<in> {''superseded'', ''archived''}) \<and>
     mem_access_count m \<le> mem_access_count m'"

definition memory_grows :: "memory_tables tables \<Rightarrow> memory_tables tables \<Rightarrow> bool" where
  "memory_grows t t' \<longleftrightarrow>
     (\<exists>ms fresh. mt_memories (tb_rest t') = ms @ fresh \<and> list_all2 memory_follows (mt_memories (tb_rest t)) ms) \<and>
     (\<exists>links. mt_links (tb_rest t') = mt_links (tb_rest t) @ links) \<and>
     (\<exists>rels. mt_relations (tb_rest t') = mt_relations (tb_rest t) @ rels)"

lemma follows_refl [simp]: "memory_follows m m"
  by (simp add: memory_follows_def)

lemma follows_rows [simp]: "list_all2 memory_follows ms ms"
  by (simp add: list_all2_refl)

lemma followsI:
  assumes "m' = m\<lparr>cn_status := st, cn_visibility := vis, cn_access_level := level, cn_updated_at := now, mem_access_count := n\<rparr>"
    and "st = cn_status m \<or> st \<in> {''superseded'', ''archived''}" and "mem_access_count m \<le> n"
  shows "memory_follows m m'"
  unfolding memory_follows_def assms(1) using assms(2,3) by simp

lemma follows_trans:
  assumes "memory_follows m m'" and "memory_follows m' m''"
  shows "memory_follows m m''"
proof -
  let ?set = "\<lambda>m x. m\<lparr>cn_status := cn_status x, cn_visibility := cn_visibility x, cn_access_level := cn_access_level x,
      cn_updated_at := cn_updated_at x, mem_access_count := mem_access_count x\<rparr>"
  from assms have m': "m' = ?set m m'" and m'': "m'' = ?set m' m''"
    and st: "cn_status m' = cn_status m \<or> cn_status m' \<in> {''superseded'', ''archived''}"
      "cn_status m'' = cn_status m' \<or> cn_status m'' \<in> {''superseded'', ''archived''}"
    and n: "mem_access_count m \<le> mem_access_count m'" "mem_access_count m' \<le> mem_access_count m''"
    unfolding memory_follows_def by blast+
  have "m'' = ?set (?set m m') m''" using m'' unfolding m' [symmetric] .
  then have "m'' = ?set m m''" by simp
  moreover have "cn_status m'' = cn_status m \<or> cn_status m'' \<in> {''superseded'', ''archived''}"
    using st by (elim disjE) simp_all
  moreover have "mem_access_count m \<le> mem_access_count m''" using n by (rule order.trans)
  ultimately show ?thesis unfolding memory_follows_def by (intro conjI)
qed

lemma growsI:
  assumes "mt_memories (tb_rest t') = ms @ fresh" and "list_all2 memory_follows (mt_memories (tb_rest t)) ms"
    and "mt_links (tb_rest t') = mt_links (tb_rest t) @ links" and "mt_relations (tb_rest t') = mt_relations (tb_rest t) @ rels"
  shows "memory_grows t t'"
  using assms unfolding memory_grows_def by blast

lemma grows_same: "mt_memories (tb_rest t') = mt_memories (tb_rest t) \<Longrightarrow> mt_links (tb_rest t') = mt_links (tb_rest t) \<Longrightarrow>
    mt_relations (tb_rest t') = mt_relations (tb_rest t) \<Longrightarrow> memory_grows t t'"
  by (rule growsI [of _ "mt_memories (tb_rest t)" "[]" _ "[]" "[]"]) simp_all

lemma grows_trans: "memory_grows t t' \<Longrightarrow> memory_grows t' t'' \<Longrightarrow> memory_grows t t''"
proof -
  assume "memory_grows t t'" and "memory_grows t' t''"
  then obtain ms fresh links rels ms' fresh' links' rels' where
    1: "mt_memories (tb_rest t') = ms @ fresh" "list_all2 memory_follows (mt_memories (tb_rest t)) ms"
      "mt_links (tb_rest t') = mt_links (tb_rest t) @ links" "mt_relations (tb_rest t') = mt_relations (tb_rest t) @ rels"
    and 2: "mt_memories (tb_rest t'') = ms' @ fresh'" "list_all2 memory_follows (ms @ fresh) ms'"
      "mt_links (tb_rest t'') = mt_links (tb_rest t') @ links'" "mt_relations (tb_rest t'') = mt_relations (tb_rest t') @ rels'"
    by (auto simp: memory_grows_def)
  from 2(2) obtain ms1 ms2 where ms': "ms' = ms1 @ ms2" and "list_all2 memory_follows ms ms1"
    by (auto simp: list_all2_append1)
  with 1(2) have "list_all2 memory_follows (mt_memories (tb_rest t)) ms1"
    using list_all2_trans [of memory_follows memory_follows memory_follows] follows_trans by blast
  with 1 2 ms' show "memory_grows t t''" by (intro growsI [of _ ms1 "ms2 @ fresh'" _ "links @ links'" "rels @ rels'"]) simp_all
qed

lemma follows_update:
  assumes "\<And>m. P m \<Longrightarrow> memory_follows m (f m)"
  shows "list_all2 memory_follows ms (sql_update P f ms)"
  using assms by (induction ms) (simp_all add: sql_update_def)

lemma follows_status:
  assumes "st \<in> {''superseded'', ''archived''}"
  shows "memory_follows m (set_status st now m)"
  by (rule followsI [where st = st and vis = "cn_visibility m" and level = "cn_access_level m" and now = now
        and n = "mem_access_count m"])
    (use assms in \<open>auto simp: set_status_def\<close>)

lemma change_grows:
  assumes "list_all2 memory_follows (mt_memories (tb_rest t)) ms"
  shows "memory_grows t (memory_change (ms @ fresh) (mt_links (tb_rest t) @ links) (mt_relations (tb_rest t) @ rels) t)"
  using assms by (intro growsI [of _ ms fresh _ links rels]) simp_all

lemma applied_grows:
  assumes "applyByType env p u t = Inr (res, t')"
  shows "memory_grows t t'"
proof -
  have marked: "list_all2 memory_follows ms (sql_update P (set_status st now) ms)"
    if "st \<in> {''superseded'', ''archived''}" for P st now ms
    using that by (intro follows_update follows_status)
  from assms consider "applyCreate env p u t = Inr (res, t')" | "applyUpdate env p u t = Inr (res, t')"
    | "applyArchive env p t = Inr (res, t')" by (auto simp: applyByType_def split: if_splits)
  then show ?thesis
  proof cases
    case 1
    then show ?thesis
      by (cases rule: create_change) (use change_grows [OF follows_rows, of t _ _ "[]"] in simp)
  next
    case 2
    then show ?thesis
      by (cases rule: update_tables) (use change_grows [OF marked] in simp)
  next
    case 3
    then show ?thesis
      by (cases rule: archive_change) (use change_grows [OF marked, of "''archived''" t _ _ "[]" _ "[]"] in simp)
  qed
qed

lemma memory_applier_grows:
  assumes "applyMemoryProposal env p u (t, w) = (r, t', w')"
  shows "memory_grows t t'"
  using assms
proof (cases rule: applier_cases)
  case (applied result res payload t1 m)
  from applied(2) obtain q where "applyByType env q u t = Inr (res, t1)" by (rule apply_only_cases)
  from applied_grows [OF this] have "memory_grows t t1" .
  moreover have "memory_grows t1 t'" using applied(3) by (intro grows_same) simp_all
  ultimately show ?thesis by (rule grows_trans)
qed (simp add: grows_same)

section \<open>The registry\<close>

lemma memory_governed: "governed_appliers (memory_registry env :: (memory_tables, 'w) applier_registry)"
proof (rule governed_appliers.intro, goal_cases)
  case (1 ty f p u t w r t' w')
  then have "applyMemoryProposal env p u (t, w) = (r, t', w')" by (auto simp: memory_registry_def split: if_splits)
  then show ?case
  proof (cases rule: applier_cases)
    case (applied result res payload t1 m)
    from applied(2) obtain q where q: "applyByType env q u t = Inr (res, t1)" by (rule apply_only_cases)
    then consider "applyCreate env q u t = Inr (res, t1)" | "applyUpdate env q u t = Inr (res, t1)"
      | "applyArchive env q t = Inr (res, t1)" by (auto simp: applyByType_def split: if_splits)
    then have "tb_grants t1 = tb_grants t \<and> tb_approvals t1 = tb_approvals t \<and> tb_proposals t1 = tb_proposals t"
    proof cases
      case 1
      then show ?thesis by (cases rule: create_change) simp
    next
      case 2
      then show ?thesis by (cases rule: update_tables) simp
    next
      case 3
      then show ?thesis by (cases rule: archive_change) simp
    qed
    with applied(3) show ?thesis by (simp add: keeps_decisions_def)
  qed simp
next
  case (2 ty f p u t w result t' w')
  then have "applyMemoryProposal env p u (t, w) = (Inr result, t', w')" by (auto simp: memory_registry_def split: if_splits)
  then show ?case by (cases rule: applier_cases) (simp_all add: undone_def)
next
  case (3 ty f p u t w e t' w')
  then have "applyMemoryProposal env p u (t, w) = (Inl e, t', w')" by (auto simp: memory_registry_def split: if_splits)
  then show ?case by (cases rule: applier_cases) simp_all
next
  case (4 ty f p u t w result t' w')
  then have "applyMemoryProposal env p u (t, w) = (Inr result, t', w')" by (auto simp: memory_registry_def split: if_splits)
  then show ?case by (cases rule: applier_cases) simp_all
qed

interpretation memory_appliers: governed_appliers "server_registry menv penv senv" for menv penv senv
  unfolding server_registry_def
  by (rule governed_add [OF memory_governed server_appliers.governed_appliers_axioms])

lemma server_applier_cases:
  assumes "map_of (server_registry menv penv senv) ty = Some f"
  obtains (memory) "f = applyMemoryProposal menv" | (policy) "f = applyPolicyChangeProposal penv"
    | (source) "f = applySourceChannelActivation senv"
  using assms
  by (auto simp: server_registry_def memory_registry_def applier_registry_def policy_registry_def map_add_def
      split: option.splits if_splits)

text \<open>The other appliers leave the tables of memories alone.\<close>

definition memory_view :: "memory_tables tables \<Rightarrow> memory_row list \<times> provenance_link list \<times> memory_relation list \<times> content_row list" where
  "memory_view t = (mt_memories (tb_rest t), mt_links (tb_rest t), mt_relations (tb_rest t), db_content (tb_access t) ''memory_entries'')"

lemma view_ok: "memory_view t' = memory_view t \<Longrightarrow> memory_ok t' \<longleftrightarrow> memory_ok t"
  by (simp add: memory_view_def memory_ok_def)

lemma view_grows: "memory_view t' = memory_view t \<Longrightarrow> memory_grows t t'"
  by (simp add: memory_view_def grows_same)

lemma policy_view:
  fixes t :: "memory_tables tables"
  shows "applyPolicyChangeProposal env p u (t, w) = (r, t', w') \<Longrightarrow> memory_view t' = memory_view t"
  by (auto simp: applyPolicyChangeProposal_def apply_policy_change_def memory_view_def Let_def split: option.splits if_splits)

lemma source_view:
  fixes t :: "memory_tables tables"
  assumes "applySourceChannelActivation env p u (t, w) = (r, t', w')"
  shows "memory_view t' = memory_view t"
  using assms by (cases rule: activation_cases) (simp_all add: memory_view_def)

end
