(* ===== verification/MemoryWriters.thy ===== *)
theory MemoryWriters
  imports MemoryInvariants
begin

text \<open>
  The other statements on memories: the rules every space is seeded with (\<open>spaceSeeds.ts\<close>), the copy of a published
  memory into another space (\<open>publicationRegistry.ts\<close>), the four that count reads, and the links of provenance to
  other things. Logs of reads, and the columns that only they and publications write (last reads, event times), are
  not modelled.
\<close>

section \<open>Rows without a proposal\<close>

text \<open>
  The rows below name no workspace, agent, project or predecessor, and no root but themselves, so of the foreign
  keys those to spaces and users are left: \<open>refs\<close>.
\<close>

definition stored_row :: "(memory_row \<Rightarrow> bool) \<Rightarrow> memory_row list \<Rightarrow> memory_row \<Rightarrow> bool" where
  "stored_row refs ms r \<longleftrightarrow> memory_checks r \<and> memory_columns r \<and> list_all (\<lambda>m. cn_id m \<noteq> cn_id r) ms \<and> refs r"

definition store_memory :: "(memory_row \<Rightarrow> bool) \<Rightarrow> memory_row \<Rightarrow> memory_tables tables \<Rightarrow> apply_error + memory_tables tables" where
  "store_memory refs r t =
     (if \<not> stored_row refs (mt_memories (tb_rest t)) r then Inl (database_error ''memory_entries'')
      else Inr (write_memories (mt_memories (tb_rest t) @ [r]) t))"

section \<open>Seeds\<close>

record memory_seed =
  seed_title :: string
  seed_namespace :: string
  seed_importance :: rat
  seed_content :: string

fun text_lines :: "string list \<Rightarrow> string" where
  "text_lines [] = []"
| "text_lines [l] = l"
| "text_lines (l # ls) = l @ CHR 0x0A # text_lines ls"

definition SYSTEM_MEMORY_SEEDS :: "memory_seed list" where
  "SYSTEM_MEMORY_SEEDS =
    [\<lparr>seed_title = ''Memory Policy'', seed_namespace = ''system.memory_policy'', seed_importance = 1, seed_content = text_lines
       [''Core memory rules:'',
        ''1. Agents may NOT write to long-term memory directly.'',
        ''2. All long-term memory writes must go through the proposal -> approval workflow.'',
        ''3. Proposals must include a rationale.'',
        ''4. Users must explicitly accept or reject each proposal.'',
        ''5. Rejected proposals are never promoted to active memory.'',
        ''6. Memory scopes: system > space > user > workspace > capability > agent.'',
        ''7. Private memories are visible only to their owner.'',
        ''8. Workspace and project scopes are checked independently from visibility.'',
        ''9. space_shared memories are visible to eligible members in the same space.'',
        ''10. selected_users memory is visible only to its owner and explicit grantees.'',
        ''11. Memory never crosses space boundaries.'']\<rparr>,
     \<lparr>seed_title = ''Context Policy'', seed_namespace = ''system.context_policy'', seed_importance = 1, seed_content = text_lines
       [''Context builder rules:'',
        ''1. Context must be scoped - never dump all memories.'',
        ''2. Sort by importance, confidence, then recency.'',
        ''3. Respect space, user, and workspace boundaries.'',
        ''4. Episodic memories are capped separately from semantic/preference.'',
        ''5. System policy is always included.'',
        ''6. Context packages are read-only snapshots - agents cannot modify them.'',
        ''7. space_id and user_id are always required to build context.'']\<rparr>,
     \<lparr>seed_title = ''Capability Policy'', seed_namespace = ''system.capability_policy'', seed_importance = 9 / 10, seed_content = text_lines
       [''Capability rules:'',
        ''1. Capabilities are code-defined and version-controlled.'',
        ''2. Each capability declares its memory access (read/write scopes and types).'',
        ''3. Capability writes always require proposals unless scope is 'agent'.'',
        ''4. Capabilities may not access memories outside their declared access.'',
        ''5. New capabilities must be registered before they can be executed.'',
        ''6. Disabled capabilities cannot be run.'']\<rparr>]"

definition seed_row :: "string \<Rightarrow> string \<Rightarrow> string \<Rightarrow> memory_seed \<Rightarrow> memory_row" where
  "seed_row i now sp seed =
     \<lparr>cn_id = i, cn_space_id = sp, cn_owner_user_id = None, cn_visibility = ''space_shared'', cn_access_level = ''full'',
      cn_workspace_id = None, cn_project_id = None, cn_status = ''active'', cn_deleted_at = None,
      cn_sensitivity_level = Some ''normal'', cn_updated_at = now, mem_scope_type = ''system'',
      mem_memory_type = ''semantic'', mem_content = seed_content seed, mem_created_at = now, mem_subject_user_id = None,
      mem_last_confirmed_at = None, mem_namespace = Some (seed_namespace seed), mem_title = Some (seed_title seed),
      mem_confidence = 1, mem_importance = seed_importance seed, mem_source_id = None,
      mem_created_by = Some ''system_seed'', mem_approved_by = None, mem_version = 1, mem_access_count = 0,
      mem_tags = JNull, mem_memory_layer = None, mem_created_from_proposal_id = None, mem_root_memory_id = None,
      mem_supersedes_memory_id = None, mem_source_trust = None, mem_agent_id = None\<rparr>"

definition seeded :: "string \<Rightarrow> string \<Rightarrow> memory_row \<Rightarrow> bool" where
  "seeded sp namespace m \<longleftrightarrow>
     cn_space_id m = sp \<and> mem_namespace m = Some namespace \<and> mem_scope_type m = ''system'' \<and> cn_deleted_at m = None"

fun seed_each :: "(memory_row \<Rightarrow> bool) \<Rightarrow> string \<Rightarrow> string \<Rightarrow> (string \<times> memory_seed) list \<Rightarrow> memory_tables tables \<Rightarrow>
    apply_error + memory_tables tables" where
  "seed_each refs now sp [] t = Inr t"
| "seed_each refs now sp ((i, seed) # seeds) t =
     (if list_ex (seeded sp (seed_namespace seed)) (mt_memories (tb_rest t)) then seed_each refs now sp seeds t
      else bind_sum (store_memory refs (seed_row i now sp seed) t) (seed_each refs now sp seeds))"

text \<open>\<open>ids\<close> are the random ids drawn for the seeds, one each whether it is used or not.\<close>

definition seedSystemMemories :: "(memory_row \<Rightarrow> bool) \<Rightarrow> (nat \<Rightarrow> string) \<Rightarrow> string \<Rightarrow> string \<Rightarrow> memory_tables tables \<Rightarrow>
    apply_error + memory_tables tables" where
  "seedSystemMemories refs ids now sp =
     seed_each refs now sp (zip (map ids [0..<length SYSTEM_MEMORY_SEEDS]) SYSTEM_MEMORY_SEEDS)"

section \<open>Publications\<close>

record memory_snapshot =
  ms_memory_type :: string
  ms_content :: string
  ms_title :: "string option"
  ms_namespace :: "string option"
  ms_confidence :: rat
  ms_importance :: rat
  ms_tags :: jsval
  ms_memory_layer :: "string option"
  ms_source_trust :: "string option"

definition published_memory :: "string \<Rightarrow> string \<Rightarrow> memory_row \<Rightarrow> bool" where
  "published_memory sp i m \<longleftrightarrow> live_memory i sp m \<and> cn_status m = ''active''"

definition serializeMemory :: "memory_tables tables \<Rightarrow> string \<Rightarrow> string \<Rightarrow> http_error + (string \<times> memory_snapshot)" where
  "serializeMemory t sp i =
     (case List.find (published_memory sp i) (mt_memories (tb_rest t)) of
        None \<Rightarrow> Inl (HttpError 404 ''Content not found'')
      | Some m \<Rightarrow>
          if mem_scope_type m \<noteq> ''user'' \<or> cn_sensitivity_level m \<noteq> Some ''normal''
          then Inl (HttpError 422 ''Only normal-sensitivity user memories can be published'')
          else Inr (or_value (mem_title m) ''Memory'',
            \<lparr>ms_memory_type = mem_memory_type m, ms_content = mem_content m, ms_title = mem_title m,
             ms_namespace = mem_namespace m, ms_confidence = mem_confidence m, ms_importance = mem_importance m,
             ms_tags = mem_tags m, ms_memory_layer = mem_memory_layer m, ms_source_trust = mem_source_trust m\<rparr>))"

definition imported_row :: "string \<Rightarrow> string \<Rightarrow> string \<Rightarrow> string \<Rightarrow> memory_snapshot \<Rightarrow> memory_row" where
  "imported_row i now targetSpaceId ownerUserId p =
     \<lparr>cn_id = i, cn_space_id = targetSpaceId, cn_owner_user_id = Some ownerUserId, cn_visibility = ''private'',
      cn_access_level = ''full'', cn_workspace_id = None, cn_project_id = None, cn_status = ''active'',
      cn_deleted_at = None, cn_sensitivity_level = Some ''normal'', cn_updated_at = now, mem_scope_type = ''user'',
      mem_memory_type = ms_memory_type p, mem_content = ms_content p, mem_created_at = now,
      mem_subject_user_id = Some ownerUserId, mem_last_confirmed_at = None, mem_namespace = ms_namespace p,
      mem_title = ms_title p, mem_confidence = ms_confidence p, mem_importance = ms_importance p, mem_source_id = None,
      mem_created_by = Some ''publication_import'', mem_approved_by = Some ownerUserId, mem_version = 1,
      mem_access_count = 0, mem_tags = ms_tags p, mem_memory_layer = ms_memory_layer p,
      mem_created_from_proposal_id = None, mem_root_memory_id = Some i, mem_supersedes_memory_id = None,
      mem_source_trust = ms_source_trust p, mem_agent_id = None\<rparr>"

definition importMemorySnapshot :: "(memory_row \<Rightarrow> bool) \<Rightarrow> string \<Rightarrow> string \<Rightarrow> string \<Rightarrow> string \<Rightarrow> memory_snapshot \<Rightarrow>
    memory_tables tables \<Rightarrow> apply_error + memory_tables tables" where
  "importMemorySnapshot refs i now targetSpaceId ownerUserId snapshot =
     store_memory refs (imported_row i now targetSpaceId ownerUserId snapshot)"

section \<open>Reads\<close>

definition count_read :: "memory_row \<Rightarrow> memory_row" where
  "count_read m = m\<lparr>mem_access_count := mem_access_count m + 1\<rparr>"

definition count_reads :: "string \<Rightarrow> string list \<Rightarrow> memory_tables tables \<Rightarrow> memory_tables tables" where
  "count_reads sp ids t =
     write_memories (sql_update (\<lambda>m. cn_space_id m = sp \<and> cn_id m \<in> set ids) count_read (mt_memories (tb_rest t))) t"

definition recordReads :: "string list \<Rightarrow> string \<Rightarrow> memory_tables tables \<Rightarrow> memory_tables tables" where
  "recordReads memoryIds sp t = (if memoryIds = [] then t else count_reads sp memoryIds t)"

definition recordContextMemoryAccess :: "memory_row list \<Rightarrow> string \<Rightarrow> memory_tables tables \<Rightarrow> memory_tables tables" where
  "recordContextMemoryAccess memories sp t = (if memories = [] then t else count_reads sp (map cn_id memories) t)"

definition recordContextDigestMemoryAccess :: "string list \<Rightarrow> string \<Rightarrow> memory_tables tables \<Rightarrow> memory_tables tables" where
  "recordContextDigestMemoryAccess ids sp t =
     (let memoryIds = remdups (filter (\<lambda>i. i \<noteq> []) ids)
      in if memoryIds = [] then t else count_reads sp memoryIds t)"

text \<open>The items of a snapshot: a type, and an id where it has one.\<close>

definition recordChatMemoryAccess :: "(string \<times> string option) list \<Rightarrow> string \<Rightarrow> memory_tables tables \<Rightarrow> memory_tables tables" where
  "recordChatMemoryAccess items sp t =
     (let memoryIds = remdups [i. (ty, Some i) \<leftarrow> items, ty = ''memory'' \<and> i \<noteq> []]
      in if memoryIds = [] then t else count_reads sp memoryIds t)"

section \<open>What they keep\<close>

lemma write_memories_simps [simp]:
  "mt_memories (tb_rest (write_memories ms t)) = ms"
  "mt_links (tb_rest (write_memories ms t)) = mt_links (tb_rest t)"
  "mt_relations (tb_rest (write_memories ms t)) = mt_relations (tb_rest t)"
  "db_content (tb_access (write_memories ms t)) ''memory_entries'' = map content_row.truncate ms"
  by (simp_all add: write_memories_def)

lemma write_ok: "memory_ok (write_memories ms t) \<longleftrightarrow> rows_ok ms (mt_links (tb_rest t)) (mt_relations (tb_rest t))"
  by (simp add: memory_ok_def)

lemma write_grows:
  assumes "list_all2 memory_follows (mt_memories (tb_rest t)) ms"
  shows "memory_grows t (write_memories (ms @ fresh) t)"
  by (rule growsI [of _ ms fresh _ "[]" "[]"]) (use assms in simp_all)

text \<open>A row that comes from no proposal, supersedes nothing and is its own root.\<close>

definition first_version :: "memory_row \<Rightarrow> bool" where
  "first_version r \<longleftrightarrow> mem_created_from_proposal_id r = None \<and> mem_supersedes_memory_id r = None \<and> root_of r = cn_id r"

lemma stored_keeps:
  assumes "store_memory refs r t = Inr t'" and "first_version r"
  shows "(memory_ok t \<longrightarrow> memory_ok t') \<and> memory_grows t t'"
proof -
  from assms(1) have r: "stored_row refs (mt_memories (tb_rest t)) r"
    and t': "t' = write_memories (mt_memories (tb_rest t) @ [r]) t"
    by (auto simp: store_memory_def split: if_splits)
  have fresh: "cn_id r \<notin> cn_id ` set (mt_memories (tb_rest t))" and checks: "memory_checks r"
    using r by (auto simp: stored_row_def list_all_iff)
  have parts: "evidenced (mt_links (tb_rest t) @ []) r" "descends (mt_memories (tb_rest t) @ [r]) (mt_relations (tb_rest t) @ []) r"
    "rooted (mt_memories (tb_rest t) @ [r]) r"
    using assms(2) by (simp_all add: first_version_def evidenced_def descends_def rooted_def)
  have "memory_ok t'" if "memory_ok t"
    using add_row [of "mt_memories (tb_rest t)" "mt_links (tb_rest t)" "mt_relations (tb_rest t)" r "[]" "[]"] that fresh checks parts
    by (simp add: t' write_ok memory_ok_def)
  then show ?thesis by (simp add: t' write_grows)
qed

lemma seed_first: "first_version (seed_row i now sp seed)"
  by (simp add: first_version_def seed_row_def root_of_def or_value_def)

lemma imported_first: "first_version (imported_row i now sp u p)"
  by (simp add: first_version_def imported_row_def root_of_def or_value_def)

lemma seeds_keep:
  "seed_each refs now sp seeds t = Inr t' \<Longrightarrow> (memory_ok t \<longrightarrow> memory_ok t') \<and> memory_grows t t'"
proof (induction refs now sp seeds t rule: seed_each.induct)
  case (1 refs now sp t)
  then show ?case by (simp add: grows_same)
next
  case (2 refs now sp i seed seeds t)
  show ?case
  proof (cases "list_ex (seeded sp (seed_namespace seed)) (mt_memories (tb_rest t))")
    case True
    with 2 show ?thesis by simp
  next
    case False
    with 2(3) obtain t1 where t1: "store_memory refs (seed_row i now sp seed) t = Inr t1"
      and rest: "seed_each refs now sp seeds t1 = Inr t'" by (auto simp: bind_sum_Inr_iff)
    from 2(2) [OF False rest] stored_keeps [OF t1 seed_first] show ?thesis using grows_trans by blast
  qed
qed

lemma imported_keeps:
  assumes "importMemorySnapshot refs i now sp u snapshot t = Inr t'"
  shows "(memory_ok t \<longrightarrow> memory_ok t') \<and> memory_grows t t'"
  using assms stored_keeps [OF _ imported_first] unfolding importMemorySnapshot_def by blast

lemma counted_keeps: "(memory_ok t \<longrightarrow> memory_ok (count_reads sp ids t)) \<and> memory_grows t (count_reads sp ids t)"
proof -
  let ?P = "\<lambda>m. cn_space_id m = sp \<and> cn_id m \<in> set ids"
  have same: "same_memory m (count_read m)" for m by (simp add: same_memory_def count_read_def root_of_def)
  have checks: "memory_checks (count_read m) = memory_checks m" for m by (simp add: memory_checks_def count_read_def)
  have "memory_ok (count_reads sp ids t)" if "memory_ok t"
  proof -
    have ok: "rows_ok (mt_memories (tb_rest t)) (mt_links (tb_rest t)) (mt_relations (tb_rest t))"
      using that by (simp add: memory_ok_def)
    then have "list_all memory_checks (sql_update ?P count_read (mt_memories (tb_rest t)))"
      by (auto simp: rows_ok_def list_all_iff in_sql_update checks)
    from update_rows [OF ok same this] show ?thesis by (simp add: count_reads_def write_ok)
  qed
  moreover have "memory_follows m (count_read m)" for m
    by (rule followsI [where st = "cn_status m" and vis = "cn_visibility m" and level = "cn_access_level m"
          and now = "cn_updated_at m" and n = "mem_access_count m + 1"]) (simp_all add: count_read_def)
  then have "memory_grows t (count_reads sp ids t)"
    using write_grows [OF follows_update [of ?P count_read], of t "[]"] by (simp add: count_reads_def)
  ultimately show ?thesis by blast
qed

lemma reads_keep:
  "(memory_ok t \<longrightarrow> memory_ok (recordReads ids sp t)) \<and> memory_grows t (recordReads ids sp t)"
  "(memory_ok t \<longrightarrow> memory_ok (recordContextMemoryAccess ms sp t)) \<and> memory_grows t (recordContextMemoryAccess ms sp t)"
  "(memory_ok t \<longrightarrow> memory_ok (recordContextDigestMemoryAccess ids sp t)) \<and>
     memory_grows t (recordContextDigestMemoryAccess ids sp t)"
  "(memory_ok t \<longrightarrow> memory_ok (recordChatMemoryAccess items sp t)) \<and> memory_grows t (recordChatMemoryAccess items sp t)"
  by (simp_all add: recordReads_def recordContextMemoryAccess_def recordContextDigestMemoryAccess_def
      recordChatMemoryAccess_def Let_def counted_keeps grows_same)

lemma linked_keeps:
  assumes "writeProvenanceLinks env sp ty i entries t = Inr t'"
  shows "(memory_ok t \<longrightarrow> memory_ok t') \<and> memory_grows t t'"
proof -
  let ?more = "new_links env sp ty i entries (length (mt_links (tb_rest t)))"
  from assms have ok: "list_all link_ok ?more"
    and t': "t' = t\<lparr>tb_rest := (tb_rest t)\<lparr>mt_links := mt_links (tb_rest t) @ ?more\<rparr>\<rparr>"
    by (auto simp: writeProvenanceLinks_def Let_def split: if_splits)
  have "memory_grows t t'" unfolding t' by (rule growsI [of _ "mt_memories (tb_rest t)" "[]" _ ?more "[]"]) simp_all
  then show ?thesis using ok add_links by (simp add: t' memory_ok_def)
qed

end
