(* ===== verification/MemoryHistory.thy ===== *)
theory MemoryHistory
  imports MemoryWriters AccessService
begin

text \<open>
  Histories of memories: acceptances, acceptances on grants, rejections and egress approvals, changes of who
  may read a memory, seeds of a new space, imports of published memories, counted reads, links of provenance to other
  things, and work on other tables.
\<close>

section \<open>Decisions\<close>

lemma server_applier_ok:
  assumes "map_of (server_registry menv penv senv) ty = Some f" and "f p u (t, w) = (r, t', w')"
  shows "(memory_ok t \<longrightarrow> memory_ok t') \<and> memory_grows t t'"
  using assms(1)
proof (cases rule: server_applier_cases)
  case memory
  with assms(2) show ?thesis
    using memory_applier_ok [of t menv p u w r t' w'] memory_applier_grows [of menv p u t w r t' w'] by simp
next
  case policy
  with assms(2) have "memory_view t' = memory_view t" by (intro policy_view) simp
  then show ?thesis using view_ok view_grows by blast
next
  case source
  with assms(2) have "memory_view t' = memory_view t" by (intro source_view) simp
  then show ?thesis using view_ok view_grows by blast
qed

lemma view_fields [simp]:
  "memory_view (t\<lparr>tb_proposals := ps\<rparr>) = memory_view t" "memory_view (t\<lparr>tb_grants := gs\<rparr>) = memory_view t"
  "memory_view (t\<lparr>tb_approvals := as\<rparr>) = memory_view t" "memory_view (t\<lparr>tb_sources := so\<rparr>) = memory_view t"
  by (simp_all add: memory_view_def)

lemma ok_fields [simp]:
  "memory_ok (t\<lparr>tb_proposals := ps\<rparr>) = memory_ok t" "memory_ok (t\<lparr>tb_grants := gs\<rparr>) = memory_ok t"
  "memory_ok (t\<lparr>tb_approvals := as\<rparr>) = memory_ok t" "memory_ok (t\<lparr>tb_sources := so\<rparr>) = memory_ok t"
  by (simp_all add: memory_ok_def)

lemma grows_fields [simp]:
  "memory_grows t0 (t\<lparr>tb_proposals := ps\<rparr>) = memory_grows t0 t" "memory_grows t0 (t\<lparr>tb_grants := gs\<rparr>) = memory_grows t0 t"
  "memory_grows t0 (t\<lparr>tb_approvals := as\<rparr>) = memory_grows t0 t" "memory_grows t0 (t\<lparr>tb_sources := so\<rparr>) = memory_grows t0 t"
  by (simp_all add: memory_grows_def)

interpretation kept_memories: table_invariant "server_registry menv penv senv" memory_ok for menv penv senv
proof (unfold_locales, goal_cases)
  case (1 ty f t p u w r t' w')
  with server_applier_ok [OF 1(1,3)] show ?case by simp
qed simp_all

interpretation grown_memories: table_invariant "server_registry menv penv senv" "memory_grows t0" for menv penv senv t0
proof (unfold_locales, goal_cases)
  case (1 ty f t p u w r t' w')
  with server_applier_ok [OF 1(1,3)] grows_trans [OF 1(2)] show ?case by simp
qed simp_all

section \<open>Sharing\<close>

definition share_memory :: "access_update \<Rightarrow> string \<Rightarrow> memory_row \<Rightarrow> memory_row" where
  "share_memory update now m =
     m\<lparr>cn_visibility := au_visibility update, cn_access_level := au_access_level update, cn_updated_at := now\<rparr>"

definition share_memories :: "string \<Rightarrow> string \<Rightarrow> string \<Rightarrow> access_update \<Rightarrow> string \<Rightarrow> memory_row list \<Rightarrow> memory_row list" where
  "share_memories sp ty rid update now ms =
     (if ty = ''memory'' then sql_update (\<lambda>m. cn_space_id m = sp \<and> cn_id m = rid) (share_memory update now) ms else ms)"

lemma truncate_simps [simp]:
  "cn_id (content_row.truncate m) = cn_id m" "cn_space_id (content_row.truncate m) = cn_space_id m"
  by (simp_all add: content_row.defs)

lemma shared_content:
  assumes "updatePolicy db sp u ty rid update now = Inr (out, db')"
    and "db_content db ''memory_entries'' = map content_row.truncate ms"
  shows "db_content db' ''memory_entries'' = map content_row.truncate (share_memories sp ty rid update now ms)"
proof -
  from assms(1) obtain def gs where d: "contentResourceDefinition ty = Some def"
    and db': "db' = write_policy def sp u ty rid update gs now db" by (rule updatePolicy_InrD) blast
  have memory: "map_option cd_tableName (contentResourceDefinition ''memory'') = Some ''memory_entries''" by code_simp
  have table: "cd_tableName def = ''memory_entries'' \<longleftrightarrow> ty = ''memory''"

  proof -
    from memory obtain def' where m: "contentResourceDefinition ''memory'' = Some def'" "cd_tableName def' = ''memory_entries''"
      by (cases "contentResourceDefinition ''memory''") simp_all
    show ?thesis
    proof
      assume "cd_tableName def = ''memory_entries''"
      with m(2) show "ty = ''memory''" by (intro same_table_same_type [OF d m(1)]) simp
    next
      assume "ty = ''memory''"
      with d m show "cd_tableName def = ''memory_entries''" by simp
    qed
  qed
  have row: "content_row.truncate (share_memory update now m) = update_row update now (content_row.truncate m)" for m
    by (simp add: share_memory_def update_row_def content_row.defs)
  have rows: "sql_update (\<lambda>r. cn_space_id r = sp \<and> cn_id r = rid) (update_row update now) (map content_row.truncate ms) =
      map content_row.truncate (sql_update (\<lambda>m. cn_space_id m = sp \<and> cn_id m = rid) (share_memory update now) ms)"
    by (auto simp: sql_update_def row truncate_simps)
  show ?thesis
  proof (cases "ty = ''memory''")
    case True
    with table assms(2) rows show ?thesis by (simp add: db' write_policy_rows share_memories_def)
  next
    case False
    with table have "cd_tableName def \<noteq> ''memory_entries''" by blast
    with False assms(2) show ?thesis by (simp add: db' write_policy_rows share_memories_def)
  qed
qed

lemma shared_ok:
  assumes "rows_ok ms links rels" and "list_all memory_checks (share_memories sp ty rid update now ms)"
  shows "rows_ok (share_memories sp ty rid update now ms) links rels"
proof (cases "ty = ''memory''")
  case True
  have "same_memory m (share_memory update now m)" for m
    by (simp add: same_memory_def share_memory_def root_of_def)
  with True assms show ?thesis by (simp add: share_memories_def update_rows)
qed (use assms in \<open>simp add: share_memories_def\<close>)

lemma shared_follows: "list_all2 memory_follows ms (share_memories sp ty rid update now ms)"
proof -
  have "memory_follows m (share_memory update now m)" for m
    by (rule followsI [where st = "cn_status m" and vis = "au_visibility update" and level = "au_access_level update"
          and now = now and n = "mem_access_count m"])
      (simp_all add: share_memory_def)
  then show ?thesis by (simp add: share_memories_def follows_update)
qed

section \<open>Histories\<close>

text \<open>
  These are all the statements of the program on memories, links of provenance and relations of memories; work
  elsewhere leaves the three tables, and what access control reads of memories, alone, and is otherwise free. The check
  constraints of the table hold for the rows an update of a content policy writes.
\<close>

inductive memory_step :: "(memory_tables, 'w) apply_state \<Rightarrow> (memory_tables, 'w) apply_state \<Rightarrow> bool" where
  accepting: "pe_registry env = server_registry menv penv senv \<Longrightarrow> accept env i sp u opts s = (r, s') \<Longrightarrow> memory_step s s'"
| granting: "pe_registry env = server_registry menv penv senv \<Longrightarrow> acceptAgentProposalIfGranted env i a s = (r, s') \<Longrightarrow>
    memory_step s s'"
| rejecting: "reject env i sp u s = (r, s') \<Longrightarrow> memory_step s s'"
| approving: "approveEgressGrantingUser env i sp u grantId s = (r, s') \<Longrightarrow> memory_step s s'"
| sharing: "updatePolicy (tb_access (ss_db s)) sp u ty rid update now = Inr (out, db') \<Longrightarrow>
    ms = share_memories sp ty rid update now (mt_memories (tb_rest (ss_db s))) \<Longrightarrow> list_all memory_checks ms \<Longrightarrow>
    memory_step s (s\<lparr>ss_db := (ss_db s)\<lparr>tb_access := db', tb_rest := (tb_rest (ss_db s))\<lparr>mt_memories := ms\<rparr>\<rparr>\<rparr>)"
| seeding: "seedSystemMemories refs ids now sp (ss_db s) = Inr t \<Longrightarrow> memory_step s (s\<lparr>ss_db := t\<rparr>)"
| importing: "importMemorySnapshot refs i now sp u snapshot (ss_db s) = Inr t \<Longrightarrow> memory_step s (s\<lparr>ss_db := t\<rparr>)"
| reading: "t \<in> {recordReads ids sp (ss_db s), recordContextMemoryAccess ms sp (ss_db s),
      recordContextDigestMemoryAccess ids sp (ss_db s), recordChatMemoryAccess items sp (ss_db s)} \<Longrightarrow>
    memory_step s (s\<lparr>ss_db := t\<rparr>)"
| linking: "writeProvenanceLinks menv sp ty i entries (ss_db s) = Inr t \<Longrightarrow> memory_step s (s\<lparr>ss_db := t\<rparr>)"
| elsewhere: "memory_view t = memory_view (ss_db s) \<Longrightarrow> ss_db s' = t \<Longrightarrow> memory_step s s'"

abbreviation memory_steps :: "(memory_tables, 'w) apply_state \<Rightarrow> (memory_tables, 'w) apply_state \<Rightarrow> bool" where
  "memory_steps \<equiv> memory_step\<^sup>*\<^sup>*"

lemma memory_step_ok:
  assumes "memory_step s s'" and "memory_ok (ss_db s)"
  shows "memory_ok (ss_db s')"
  using assms
proof cases
  case (accepting env menv penv senv i sp u opts r)
  from kept_memories.accept_keeps [OF this(1) assms(2) this(2)] show ?thesis .
next
  case (granting env menv penv senv i a r)
  from kept_memories.grant_keeps [OF this(1) assms(2) this(2)] show ?thesis .
next
  case (rejecting env i sp u r)
  from kept_memories.reject_keeps [OF assms(2) this] show ?thesis .
next
  case (approving env i sp u grantId r)
  from kept_memories.egress_keeps [OF assms(2) this] show ?thesis .
next
  case (sharing sp u ty rid update now out db' ms)
  with assms(2) shared_content [OF sharing(2)] shared_ok show ?thesis by (simp add: memory_ok_def)
next
  case (seeding refs ids now sp t)
  with assms(2) seeds_keep show ?thesis by (auto simp: seedSystemMemories_def)
next
  case (importing refs i now sp u snapshot t)
  with assms(2) imported_keeps show ?thesis by auto
next
  case (reading t ids sp ms items)
  have "memory_ok t" using reading(2) assms(2) reads_keep by blast
  with reading(1) show ?thesis by simp
next
  case (linking menv sp ty i entries t)
  with assms(2) linked_keeps show ?thesis by auto
next
  case (elsewhere t)
  with assms(2) view_ok show ?thesis by blast
qed

lemma step_grows:
  assumes "memory_step s s'"
  shows "memory_grows (ss_db s) (ss_db s')"
proof -
  have start: "memory_grows (ss_db s) (ss_db s)" by (simp add: grows_same)
  from assms show ?thesis
  proof cases
    case (accepting env menv penv senv i sp u opts r)
    from grown_memories.accept_keeps [OF this(1) start this(2)] show ?thesis .
  next
    case (granting env menv penv senv i a r)
    from grown_memories.grant_keeps [OF this(1) start this(2)] show ?thesis .
  next
    case (rejecting env i sp u r)
    from grown_memories.reject_keeps [OF start this] show ?thesis .
  next
    case (approving env i sp u grantId r)
    from grown_memories.egress_keeps [OF start this] show ?thesis .
  next
    case (sharing sp u ty rid update now out db' ms)
    then show ?thesis
      by (intro growsI [of _ ms "[]" _ "[]" "[]"]) (simp_all add: shared_follows)
  next
    case (seeding refs ids now sp t)
    with seeds_keep show ?thesis by (auto simp: seedSystemMemories_def)
  next
    case (importing refs i now sp u snapshot t)
    with imported_keeps show ?thesis by auto
  next
    case (reading t ids sp ms items)
    have "memory_grows (ss_db s) t" using reading(2) reads_keep by blast
    with reading(1) show ?thesis by simp
  next
    case (linking menv sp ty i entries t)
    with linked_keeps show ?thesis by auto
  next
    case (elsewhere t)
    then show ?thesis using view_grows by blast
  qed
qed

lemma memory_steps_ok: "memory_steps s s' \<Longrightarrow> memory_ok (ss_db s) \<Longrightarrow> memory_ok (ss_db s')"
  by (induction rule: rtranclp_induct) (auto intro: memory_step_ok)

lemma steps_grow: "memory_steps s s' \<Longrightarrow> memory_grows (ss_db s) (ss_db s')"
  by (induction rule: rtranclp_induct) (auto simp: grows_same intro: grows_trans step_grows)

end
