(* ===== verification/MemoryProperties.thy ===== *)
theory MemoryProperties
  imports MemoryHistory
begin

text \<open>
  The properties of memory proposals: the gate, what an accepted proposal leaves behind, who can read it, and
  what a history of them keeps.
\<close>

section \<open>A space with one memory\<close>

definition first_memory :: memory_row where
  "first_memory =
     \<lparr>cn_id = ''m'', cn_space_id = ''s'', cn_owner_user_id = Some ''o'', cn_visibility = ''private'',
      cn_access_level = ''full'', cn_workspace_id = Some ''w'', cn_project_id = None, cn_status = ''active'',
      cn_deleted_at = None, cn_sensitivity_level = Some ''normal'', cn_updated_at = ''t0'',
      mem_scope_type = ''workspace'', mem_memory_type = ''semantic'', mem_content = ''old'', mem_created_at = ''t0'',
      mem_subject_user_id = None, mem_last_confirmed_at = None, mem_namespace = None, mem_title = None,
      mem_confidence = 1, mem_importance = 1, mem_source_id = None, mem_created_by = None, mem_approved_by = None,
      mem_version = 1, mem_access_count = 0, mem_tags = JNull, mem_memory_layer = None,
      mem_created_from_proposal_id = None, mem_root_memory_id = None, mem_supersedes_memory_id = None,
      mem_source_trust = Some ''user_confirmed'', mem_agent_id = None\<rparr>"

definition memory_space :: access_db where
  "memory_space =
     \<lparr>db_spaces = [\<lparr>sp_id = ''s'', sp_type = ''team'', sp_oversight_mode = ''none''\<rparr>],
      db_memberships = [\<lparr>mb_space_id = ''s'', mb_user_id = ''o'', mb_role = ''owner'', mb_status = ''active''\<rparr>],
      db_projects = [], db_project_members = [], db_workspaces = [\<lparr>ws_id = ''w'', ws_space_id = ''s''\<rparr>],
      db_project_workspaces = [], db_grants = [],
      db_content = (\<lambda>tab. if tab = ''memory_entries'' then [content_row.truncate first_memory] else [])\<rparr>"

definition memory_state :: "memory_tables tables" where
  "memory_state =
     \<lparr>tb_access = memory_space, tb_proposals = [], tb_approvals = [], tb_grants = [], tb_memory_grants = [],
      tb_runs = [], tb_bundles = [], tb_bundle_members = [],
      tb_sources = \<lparr>so_channels = [], so_connections = [], so_backfill_plans = [], so_handler_versions = [],
        so_recipe_versions = []\<rparr>,
      tb_rest = \<lparr>pt_policies = [],
        pt_digests = [\<lparr>dg_space_id = ''s'', dg_scope_type = ''workspace'', dg_scope_id = Some ''w'',
          dg_digest_type = ''workspace'', dg_status = ''active'', dg_dirty_since = None, dg_dirty_count = 0,
          dg_dirty_reason_json = JNull, dg_updated_at = 1\<rparr>],
        pt_queue = \<lparr>qu_jobs = [], qu_runs = [], qu_locks = [], qu_events = []\<rparr>,
        mt_memories = [first_memory],
        mt_links = [\<lparr>lk_id = ''l'', lk_space_id = ''s'', lk_target_type = ''memory'', lk_target_id = ''m'',
          lk_entry = \<lparr>prov_source_type = ''activity'', prov_source_id = ''x'',
            prov_source_trust = Some ''user_confirmed'', prov_evidence = None\<rparr>, lk_created_at = ''t0''\<rparr>],
        mt_relations = []\<rparr>\<rparr>"

definition sample_memory_env :: "string \<Rightarrow> memory_env" where
  "sample_memory_env i =
     \<lparr>mv_now = 10, mv_now_text = ''t1'', mv_memory_id = i, mv_link_id = (\<lambda>n. dec_of_nat n), mv_relation_id = ''r'',
      mv_job_id = (\<lambda>n. dec_of_nat n), mv_patterns = id, mv_references = (\<lambda>_. True)\<rparr>"

definition memory_proposal :: "string \<Rightarrow> jsobj \<Rightarrow> apply_proposal" where
  "memory_proposal ty payload =
     \<lparr>prop_id = ''p'', prop_space_id = ''s'', prop_proposal_type = ty, prop_title = Some ''title'',
      prop_payload_json = Some payload, prop_workspace_id = Some ''w'', prop_visibility = None,
      prop_created_by_user_id = Some ''o'', prop_created_by_run_id = None, prop_project_id = None\<rparr>"

definition told_by :: "string \<Rightarrow> jsval" where
  "told_by trust = JArr [JObj [(''source_type'', JStr ''activity''), (''source_id'', JStr ''a''), (''source_trust'', JStr trust)]]"

definition update_proposal :: apply_proposal where
  "update_proposal = memory_proposal ''memory_update''
     [(''target_memory_id'', JStr ''m''), (''content'', JStr ''new''), (''provenance_entries'', told_by ''untrusted_external'')]"

definition create_proposal :: apply_proposal where
  "create_proposal = memory_proposal ''memory_create''
     [(''target_scope'', JStr ''workspace''), (''content'', JStr ''new''), (''provenance_entries'', told_by ''user_confirmed'')]"

lemma sample_memory_update: "isl (fst (applyMemoryProposal (sample_memory_env ''n'') update_proposal ''o'' (memory_state, ()))) = False"
  by code_simp

lemma sample_create: "isl (fst (applyMemoryProposal (sample_memory_env ''n'') create_proposal ''o'' (memory_state, ()))) = False"
  by code_simp

lemma ran: "isl (fst x) = False \<Longrightarrow> \<exists>r t w. x = (Inr r, t, w)"
  by (cases x; cases "fst x") auto

section \<open>The gate\<close>

text \<open>
  C34: the gate on memory proposals decides by one rule. Internal seeds and archivals pass; otherwise the
  entries of the payload must not be empty and are allowed exactly if one of them is confirmed by a user, the
  system or a trusted external source, are left to review if all that declare a trust are untrusted external
  ones, and are rejected in every other case, whether the memory is semantic or episodic.
\<close>

theorem monitoring_gate_exact:
  "mon_action (evaluateMemoryProposal ty p c) =
     (if c = InternalSeed \<or> ty = ''memory_archive'' then MonAllow
      else gate_action (provenanceEntriesFromPayload p))"
  by (rule evaluate_action)

section \<open>Trust of what is applied\<close>

lemma applied_kind:
  assumes "applyByType env q u t = Inr (res, t')"
  obtains (create) "prop_proposal_type q = ''memory_create''" and "applyCreate env q u t = Inr (res, t')"
    | (update) "prop_proposal_type q = ''memory_update''" and "applyUpdate env q u t = Inr (res, t')"
    | (archive) "prop_proposal_type q = ''memory_archive''" and "applyArchive env q t = Inr (res, t')"
  using assms by (auto simp: applyByType_def split: if_splits)

text \<open>The recorded verdict is no part of what is read from a payload.\<close>

lemma recorded_get: "k \<noteq> ''source_monitoring_result'' \<Longrightarrow> get (monitored_payload o1 payload) k = get payload k"
  by (simp add: monitored_payload_def)

lemma recorded_entries: "provenanceEntriesFromPayload (monitored_payload o1 payload) = provenanceEntriesFromPayload payload"
proof -
  let ?p = "monitored_payload o1 payload"
  have "listed_entries ?p = listed_entries payload" by (simp add: listed_entries_def recorded_get)
  moreover have "activity_entry ?p = activity_entry payload" by (simp add: activity_entry_def recorded_get split: option.split)
  moreover have "run_entry ?p = run_entry payload" by (simp add: run_entry_def recorded_get split: option.split)
  moreover have "memory_entry ?p k = memory_entry payload k" if "k \<noteq> ''source_monitoring_result''" for k
    using that by (simp add: memory_entry_def recorded_get split: option.split)
  ultimately show ?thesis by (simp add: provenanceEntriesFromPayload_def)
qed

lemma payload_of_set [simp]: "payload_of (p\<lparr>prop_payload_json := Some payload\<rparr>) = payload"
  by (simp add: payload_of_def)

definition reviewed :: "jsobj \<Rightarrow> bool" where
  "reviewed patch \<longleftrightarrow> (\<exists>record. get patch ''source_monitoring_result'' = JObj record \<and>
     get record ''action'' = JStr ''require_review'' \<and>
     get record ''explicit_approval_context'' = JStr ''explicit_user_accept'')"

lemma recorded_review:
  "mon_action o1 = MonRequireReview \<Longrightarrow> reviewed (put ''resulting_memory_id'' i (monitored_payload o1 payload))"
  by (simp add: reviewed_def monitored_payload_def monitoringSnapshot_def action_text_def)

lemma new_memory_trust: "mem_source_trust (new_memory env p f) = nm_source_trust f"
  by (simp add: new_memory_def)

text \<open>The row a creation or an update appends.\<close>

definition appended :: "memory_env \<Rightarrow> memory_tables tables \<Rightarrow> string option \<Rightarrow> bool" where
  "appended env t trust \<longleftrightarrow> (\<exists>ms m. mt_memories (tb_rest t) = ms @ [m] \<and> cn_id m = mv_memory_id env \<and>
     cn_status m = ''active'' \<and> mem_source_trust m = trust)"

lemma create_appends:
  assumes "applyCreate env q u t = Inr (res, t1)" and "dominantSourceTrust (provenanceEntriesFromPayload (payload_of q)) = Some tr"
  shows "appended env t1 (Some tr)"
  using assms(1)
proof (cases rule: create_change)
  case (1 vis level sens owner project m)
  then have "mem_source_trust m = Some tr" by (simp add: new_memory_trust create_fields_def Let_def assms(2))
  with 1 show ?thesis unfolding appended_def by (intro exI [of _ "mt_memories (tb_rest t)"] exI [of _ m]) simp
qed

lemma update_appends:
  assumes "applyUpdate env q u t = Inr (res, t1)" and "dominantSourceTrust (provenanceEntriesFromPayload (payload_of q)) = Some tr"
  shows "appended env t1 (Some tr)"
  using assms(1)
proof (cases rule: update_change)
  case (1 old vis level sens owner project m)
  then have trust: "mem_source_trust m = Some tr" by (simp add: new_memory_trust update_fields_def Let_def assms(2))
  have "cn_id old \<noteq> cn_id m"
    using target_cases [OF 1(1)] fresh_row [OF 1(7)] by (metis imageI)
  then have "\<not> live_memory (cn_id old) (prop_space_id q) m" by (simp add: live_memory_def)
  with 1(10) have "mt_memories (tb_rest t1) =
      sql_update (live_memory (cn_id old) (prop_space_id q)) (set_status ''superseded'' (mv_now_text env)) (mt_memories (tb_rest t)) @ [m]"
    by (simp add: sql_update_def recordMemorySupersedesRelation_def)
  with trust 1(6) show ?thesis unfolding appended_def by auto
qed

text \<open>
  C35: a proposal that creates or updates a memory is applied only if the memory gets a trusted source, or an
  untrusted external one with the verdict and the explicit acceptance recorded in the payload of the proposal.
  The new row is the last one, has the fresh id and is active.
\<close>

theorem accepted_memory_trusted:
  assumes applied: "applyMemoryProposal env p u (t, w) = (Inr result, t', w')"
    and kind: "prop_proposal_type p \<noteq> ''memory_archive''"
  shows "\<exists>m ms patch tr. mt_memories (tb_rest t') = ms @ [m] \<and> cn_id m = mv_memory_id env \<and> cn_status m = ''active'' \<and>
    mem_source_trust m = Some tr \<and> rs_payload_patch result = Some patch \<and>
    (tr \<in> set TRUST_ALLOW_CORE \<or> tr = ''untrusted_external'' \<and> reviewed patch)"
  using applied
proof (cases rule: applier_cases)
  case a: (applied res0 res payload t1 m0)
  let ?v = "evaluateMemoryProposal (prop_proposal_type p) (payload_of p) ExplicitUserAccept"
  let ?entries = "provenanceEntriesFromPayload (payload_of p)"
  from a(2) obtain q where q: "q = p\<lparr>prop_payload_json := Some (monitored_payload ?v (payload_of p))\<rparr>"
    and run: "applyByType env q u t = Inr (res, t1)" and gate: "mon_action ?v \<noteq> MonReject"
    and payload: "payload = put ''resulting_memory_id'' (JStr (cn_id (ar_memory res))) (payload_of q)"
    by (rule apply_only_cases)
  have action: "gate_action ?entries = mon_action ?v" using kind by (simp add: evaluate_action)
  obtain tr where dom: "dominantSourceTrust ?entries = Some tr"
    and tr: "tr \<in> set (if mon_action ?v = MonAllow then TRUST_ALLOW_CORE else [''untrusted_external''])"
    using gate_trust [OF action gate] .
  have entries: "provenanceEntriesFromPayload (payload_of q) = ?entries" by (simp add: q recorded_entries)
  have review: "reviewed payload" if "mon_action ?v \<noteq> MonAllow"
    using that gate by (cases "mon_action ?v") (simp_all add: payload q recorded_review)
  from run have "appended env t1 (Some tr)"
  proof (cases rule: applied_kind)
    case create
    show ?thesis by (rule create_appends [OF create(2)]) (simp only: entries dom)
  next
    case update
    show ?thesis by (rule update_appends [OF update(2)]) (simp only: entries dom)
  next
    case archive
    with kind q show ?thesis by simp
  qed
  then obtain m ms where m: "mt_memories (tb_rest t1) = ms @ [m]" "cn_id m = mv_memory_id env"
    "cn_status m = ''active''" "mem_source_trust m = Some tr" unfolding appended_def by blast
  have "tr \<in> set TRUST_ALLOW_CORE \<or> tr = ''untrusted_external'' \<and> reviewed payload"
    using tr review by (cases "mon_action ?v = MonAllow") simp_all
  with m a show ?thesis by (intro exI [of _ m] exI [of _ ms] exI [of _ payload] exI [of _ tr]) simp
qed simp

theorem accepted_memory_trusted_witness:
  "\<exists>result t'. applyMemoryProposal (sample_memory_env ''n'') update_proposal ''o'' (memory_state, ()) = (Inr result, t', ()) \<and>
    (\<exists>m ms patch tr. mt_memories (tb_rest t') = ms @ [m] \<and> cn_id m = ''n'' \<and> cn_status m = ''active'' \<and>
      mem_source_trust m = Some tr \<and> rs_payload_patch result = Some patch \<and>
      (tr \<in> set TRUST_ALLOW_CORE \<or> tr = ''untrusted_external'' \<and> reviewed patch))"
proof -
  from ran [OF sample_memory_update] obtain result t' where
    r: "applyMemoryProposal (sample_memory_env ''n'') update_proposal ''o'' (memory_state, ()) = (Inr result, t', ())" by auto
  have "prop_proposal_type update_proposal \<noteq> ''memory_archive''" by code_simp
  from accepted_memory_trusted [OF r this] r show ?thesis by (simp add: sample_memory_env_def)
qed

section \<open>Versions\<close>

lemma version_keys:
  "provKey ` set (map lk_entry (filter (link_target sp TARGET_MEMORY old_id) links)) \<union> provKey ` set (provenanceEntriesFromPayload (payload_of p))
    \<subseteq> provKey ` set (map lk_entry (filter (link_target sp TARGET_MEMORY i)
        (links @ new_links env sp TARGET_MEMORY i (version_entries p sp old_id i links) n)))"
proof -
  let ?copied = "map lk_entry (filter (link_target sp TARGET_MEMORY old_id) links)"
  let ?own = "map lk_entry (filter (link_target sp TARGET_MEMORY i) links)"
  let ?new = "new_links env sp TARGET_MEMORY i (version_entries p sp old_id i links) n"
  let ?seen = "map provKey (?own @ ?copied)"
  have "filter (link_target sp TARGET_MEMORY i) ?new = ?new" using new_links_target by (fastforce intro: filter_True)
  then have all: "set (map lk_entry (filter (link_target sp TARGET_MEMORY i) (links @ ?new))) =
      set ?own \<union> set (version_entries p sp old_id i links)" by (metis filter_append map_append new_links_entries set_append)
  have added: "provKey ` set (entries_to_add ?seen p) = provKey ` set (provenanceEntriesFromPayload (payload_of p) @
      [proposalProvenanceEntry (prop_id p) [(''proposal_type'', JStr ''memory_update'')]]) - set ?seen"
    unfolding entries_to_add_def by (rule nub_by_keys)
  have version: "set (version_entries p sp old_id i links) = set ?copied \<union> set (entries_to_add ?seen p)"
    by (simp add: version_entries_def Let_def)
  have seen: "set ?seen = provKey ` set ?own \<union> provKey ` set ?copied" by (simp only: set_map set_append image_Un)
  show ?thesis unfolding all version image_Un added seen by auto
qed

text \<open>
  C36: an applied update makes a new version. Its target is a row of the space with the id the payload names;
  the target becomes superseded and no other row changes; one active row with a fresh id is added, of the same
  root, pointing to the target, with the content of the payload or else the old one; the provenance of the new
  row has everything the target had and everything the payload declares; and the supersedes relation is there.
\<close>

theorem memory_update_versions:
  assumes applied: "applyMemoryProposal env p u (t, w) = (Inr result, t', w')"
    and kind: "prop_proposal_type p = ''memory_update''"
  shows "\<exists>old m. old \<in> set (mt_memories (tb_rest t)) \<and> cn_space_id old = prop_space_id p \<and>
    strOr (get (payload_of p) ''target_memory_id'') = Some (cn_id old) \<and>
    mt_memories (tb_rest t') = sql_update (live_memory (cn_id old) (prop_space_id p))
      (set_status ''superseded'' (mv_now_text env)) (mt_memories (tb_rest t)) @ [m] \<and>
    cn_id m \<notin> cn_id ` set (mt_memories (tb_rest t)) \<and> cn_space_id m = prop_space_id p \<and> cn_status m = ''active'' \<and>
    mem_supersedes_memory_id m = Some (cn_id old) \<and> root_of m = root_of old \<and>
    mem_content m = or_value (or_else (strOr (get (payload_of p) ''proposed_content'')) (strOr (get (payload_of p) ''content'')))
      (mem_content old) \<and>
    provKey ` set (provenance_of (prop_space_id p) (cn_id old) t) \<union> provKey ` set (provenanceEntriesFromPayload (payload_of p))
      \<subseteq> provKey ` set (provenance_of (prop_space_id p) (cn_id m) t') \<and>
    (\<exists>r \<in> set (mt_relations (tb_rest t')). supersedes m (cn_id old) r)"
  using applied
proof (cases rule: applier_cases)
  case a: (applied res0 res payload t1 m0)
  let ?v = "evaluateMemoryProposal (prop_proposal_type p) (payload_of p) ExplicitUserAccept"
  from a(2) obtain q where q: "q = p\<lparr>prop_payload_json := Some (monitored_payload ?v (payload_of p))\<rparr>"
    and run: "applyByType env q u t = Inr (res, t1)" by (rule apply_only_cases)
  have space: "prop_space_id q = prop_space_id p" and payload: "payload_of q = monitored_payload ?v (payload_of p)"
    and id: "prop_id q = prop_id p" by (simp_all add: q)
  from run kind q have "applyUpdate env q u t = Inr (res, t1)" by (cases rule: applied_kind) simp_all
  then show ?thesis
  proof (cases rule: update_change)
    case (1 old vis level sens owner project m)
    let ?links = "mt_links (tb_rest t)"
    let ?new = "new_links env (prop_space_id p) TARGET_MEMORY (cn_id m)
      (version_entries q (prop_space_id p) (cn_id old) (cn_id m) ?links) (length ?links)"
    let ?rel = "\<lparr>rel_id = mv_relation_id env, rel_space_id = prop_space_id p, rel_source_type = TARGET_MEMORY,
      rel_source_id = cn_id m, rel_target_type = TARGET_MEMORY, rel_target_id = cn_id old,
      rel_relation_type = ''supersedes'', rel_created_from_proposal_id = Some (prop_id p), rel_created_at = mv_now_text env\<rparr>"
    note target = target_cases [OF 1(1)] and fresh = fresh_row [OF 1(7)]
    have "cn_id old \<noteq> cn_id m" using target fresh by (metis imageI)
    then have unmarked: "\<not> live_memory (cn_id old) (prop_space_id p) m" by (simp add: live_memory_def)
    have mems: "mt_memories (tb_rest t') = sql_update (live_memory (cn_id old) (prop_space_id p))
        (set_status ''superseded'' (mv_now_text env)) (mt_memories (tb_rest t)) @ [m]"
      using unmarked by (simp add: a(3) 1(10) recordMemorySupersedesRelation_def sql_update_def space)
    have links: "mt_links (tb_rest t') = ?links @ ?new"
      by (simp add: a(3) 1(10) recordMemorySupersedesRelation_def space)
    have rels: "?rel \<in> set (mt_relations (tb_rest t'))"
      by (simp add: a(3) 1(10) recordMemorySupersedesRelation_def space id)
    have kept: "provKey ` set (provenance_of (prop_space_id p) (cn_id old) t) \<union> provKey ` set (provenanceEntriesFromPayload (payload_of p))
        \<subseteq> provKey ` set (provenance_of (prop_space_id p) (cn_id m) t')"
      unfolding provenance_of_def links
      by (rule version_keys [where p = q, unfolded payload recorded_entries])
    show ?thesis
      using target fresh mems kept rels space
      by (intro exI [of _ old] exI [of _ m] conjI bexI [OF _ rels])
        (simp_all add: 1(6) update_fields_def Let_def payload recorded_get new_memory_def root_of_def or_value_def supersedes_def split: option.split)
  qed
qed simp

theorem memory_update_versions_witness:
  "\<exists>result t' m. applyMemoryProposal (sample_memory_env ''n'') update_proposal ''o'' (memory_state, ()) = (Inr result, t', ()) \<and>
    mt_memories (tb_rest t') = [set_status ''superseded'' ''t1'' first_memory, m] \<and> mem_supersedes_memory_id m = Some ''m'' \<and>
    root_of m = ''m'' \<and> mem_content m = ''new''"
proof -
  from ran [OF sample_memory_update] obtain result t' where
    r: "applyMemoryProposal (sample_memory_env ''n'') update_proposal ''o'' (memory_state, ()) = (Inr result, t', ())" by auto
  have kind: "prop_proposal_type update_proposal = ''memory_update''" by code_simp
  have texts: "strOr (get (payload_of update_proposal) ''proposed_content'') = None"
    "strOr (get (payload_of update_proposal) ''content'') = Some ''new''" by code_simp+
  have rows: "mt_memories (tb_rest memory_state) = [first_memory]" and env: "mv_now_text (sample_memory_env ''n'') = ''t1''"
    by (simp_all add: memory_state_def sample_memory_env_def)
  have space: "prop_space_id update_proposal = ''s''" by code_simp
  from memory_update_versions [OF r kind] obtain old m where old: "old = first_memory" and m:
    "mt_memories (tb_rest t') = sql_update (live_memory (cn_id old) ''s'') (set_status ''superseded'' ''t1'') [first_memory] @ [m]"
    "mem_supersedes_memory_id m = Some (cn_id old)" "root_of m = root_of old" "mem_content m = ''new''"
    unfolding rows texts env space or_value_def by auto
  have "live_memory ''m'' ''s'' first_memory" "root_of first_memory = ''m''" "cn_id first_memory = ''m''" by code_simp+
  with r m old show ?thesis by (simp add: sql_update_def)
qed

text \<open>Two updates of one version: the target of the second is superseded already, and both new rows are active.\<close>

definition twice_updated :: "memory_row list" where
  "twice_updated = (case applyMemoryProposal (sample_memory_env ''n'') update_proposal ''o'' (memory_state, ()) of
     (_, t, _) \<Rightarrow> (case applyMemoryProposal (sample_memory_env ''n2'') update_proposal ''o'' (t, ()) of
       (_, t', _) \<Rightarrow> mt_memories (tb_rest t')))"

lemma stale_update_branches:
  "map (\<lambda>m. (cn_id m, cn_status m, root_of m, mem_supersedes_memory_id m, mem_version m)) twice_updated =
     [(''m'', ''superseded'', ''m'', None, 1), (''n'', ''active'', ''m'', Some ''m'', 1), (''n2'', ''active'', ''m'', Some ''m'', 1)]"
  by code_simp

section \<open>Readers\<close>

lemma memory_definition:
  obtains def where "contentResourceDefinition ''memory'' = Some def" and "cd_tableName def = ''memory_entries''"
proof -
  have "map_option cd_tableName (contentResourceDefinition ''memory'') = Some ''memory_entries''" by code_simp
  then show thesis using that by auto
qed

lemma private_denied:
  assumes "db_content db ''memory_entries'' = map content_row.truncate (ms @ [m])" and "cn_id m \<notin> cn_id ` set ms"
    and "cn_visibility m = ''private''" and "cn_owner_user_id m = Some owner" and "v \<noteq> owner"
    and "\<not> contentOversightEligibleSql db (cn_space_id m) v"
  shows "contentDecisionFromDb db sp v ''memory'' (cn_id m) = AccessDeny"
proof -
  obtain def where d: "contentResourceDefinition ''memory'' = Some def" "cd_tableName def = ''memory_entries''"
    by (rule memory_definition)
  have "\<not> contentAccessSql db def True v (content_row.truncate m)"
    using assms(3-6) by (simp add: contentAccessSql_def content_row.defs)
  moreover have "\<forall>x \<in> set ms. cn_id x \<noteq> cn_id m" using assms(2) by (metis imageI)
  ultimately have "filter (\<lambda>row. cn_space_id row = sp \<and> cn_id row = cn_id m \<and> active_sql (cd_activePredicate def) row \<and>
      contentAccessSql db def True v row) (map content_row.truncate (ms @ [m])) = []"
    by (auto simp: filter_empty_conv)
  then show ?thesis unfolding contentDecisionFromDb_def d(1) option.case d(2) assms(1) by simp
qed

lemma lower_private: "to_lower ''private'' = ''private''"
  by code_simp

text \<open>
  C37: a memory created by a proposal that says nothing of visibility is private to the owner named, or else to the
  proposal's author, or else to the user who accepts it, and the SQL of content access denies it to every other
  user who has no oversight of the space.
\<close>

theorem created_memory_private:
  assumes applied: "applyMemoryProposal env p u (t, w) = (Inr result, t', w')"
    and kind: "prop_proposal_type p = ''memory_create''"
    and silent: "strOr (get (payload_of p) ''target_visibility'') = None" "strOr (get (payload_of p) ''visibility'') = None"
  shows "\<exists>ms m owner. mt_memories (tb_rest t') = ms @ [m] \<and> cn_id m = mv_memory_id env \<and> cn_visibility m = ''private'' \<and>
    owner = or_value (or_else (strOr (get (payload_of p) ''owner_user_id'')) (prop_created_by_user_id p)) u \<and>
    cn_owner_user_id m = Some owner \<and>
    (\<forall>v. v \<noteq> owner \<and> \<not> contentOversightEligibleSql (tb_access t') (prop_space_id p) v \<longrightarrow>
      contentDecisionFromDb (tb_access t') (prop_space_id p) v ''memory'' (cn_id m) = AccessDeny)"
  using applied
proof (cases rule: applier_cases)
  case a: (applied res0 res payload t1 m0)
  let ?v = "evaluateMemoryProposal (prop_proposal_type p) (payload_of p) ExplicitUserAccept"
  from a(2) obtain q where q: "q = p\<lparr>prop_payload_json := Some (monitored_payload ?v (payload_of p))\<rparr>"
    and run: "applyByType env q u t = Inr (res, t1)" by (rule apply_only_cases)
  have payload: "payload_of q = monitored_payload ?v (payload_of p)" by (simp add: q)
  let ?owner = "or_value (or_else (strOr (get (payload_of p) ''owner_user_id'')) (prop_created_by_user_id p)) u"
  from run kind q have "applyCreate env q u t = Inr (res, t1)" by (cases rule: applied_kind) simp_all
  then show ?thesis
  proof (cases rule: create_change)
    case (1 vis level sens owner project m)
    have vis: "vis = ''private''"
      using silent by (simp add: 1(1) wanted_visibility_def payload recorded_get or_value_def lower_private)
    have owner: "owner = Some ?owner"
      using 1(4) by (auto simp: fields_ok_def resolveOwner_def Let_def vis OWNER_SCOPED_VISIBILITIES_def payload recorded_get q
          or_else_def or_value_def split: if_splits option.splits)
    have m: "cn_visibility m = ''private''" "cn_owner_user_id m = Some ?owner" "cn_space_id m = prop_space_id p" "cn_id m = mv_memory_id env"
      by (simp_all add: 1(5) create_fields_def Let_def new_memory_def vis owner q)
    have view: "db_content (tb_access t') ''memory_entries'' = map content_row.truncate (mt_memories (tb_rest t) @ [m])"
      "mt_memories (tb_rest t') = mt_memories (tb_rest t) @ [m]"
      by (simp_all add: a(3) 1(9))
    have "contentDecisionFromDb (tb_access t') (prop_space_id p) v ''memory'' (cn_id m) = AccessDeny"
      if "v \<noteq> ?owner" and "\<not> contentOversightEligibleSql (tb_access t') (prop_space_id p) v" for v
      using private_denied [OF view(1) _ m(1,2) that(1)] that(2) fresh_row [OF 1(6)] m(3) by simp
    with m view(2) show ?thesis by blast
  qed
qed simp

theorem created_memory_private_witness:
  "\<exists>result t'. applyMemoryProposal (sample_memory_env ''n'') create_proposal ''o'' (memory_state, ()) = (Inr result, t', ()) \<and>
    (\<exists>ms m. mt_memories (tb_rest t') = ms @ [m] \<and> cn_visibility m = ''private'' \<and> cn_owner_user_id m = Some ''o'' \<and>
      contentDecisionFromDb (tb_access t') ''s'' ''v'' ''memory'' ''n'' = AccessDeny)"
proof -
  from ran [OF sample_create] obtain result t' where
    r: "applyMemoryProposal (sample_memory_env ''n'') create_proposal ''o'' (memory_state, ()) = (Inr result, t', ())" by auto
  have kind: "prop_proposal_type create_proposal = ''memory_create''"
    and silent: "strOr (get (payload_of create_proposal) ''target_visibility'') = None"
      "strOr (get (payload_of create_proposal) ''visibility'') = None"
    and owner: "or_value (or_else (strOr (get (payload_of create_proposal) ''owner_user_id'')) (prop_created_by_user_id create_proposal)) ''o'' = ''o''"
    and space: "prop_space_id create_proposal = ''s''" by code_simp+
  have members: "db_memberships (tb_access t') = db_memberships memory_space"
  proof -
    from r show ?thesis
    proof (cases rule: applier_cases)
      case (applied res0 res payload t1 m0)
      from applied(2) obtain q where q: "applyByType (sample_memory_env ''n'') q ''o'' memory_state = Inr (res, t1)"
        and "q = create_proposal\<lparr>prop_payload_json := Some (monitored_payload
          (evaluateMemoryProposal (prop_proposal_type create_proposal) (payload_of create_proposal) ExplicitUserAccept) (payload_of create_proposal))\<rparr>"
        by (rule apply_only_cases)
      then have "applyCreate (sample_memory_env ''n'') q ''o'' memory_state = Inr (res, t1)"
        by (cases rule: applied_kind) (simp_all add: kind)
      then show ?thesis by (cases rule: create_change) (simp add: applied(3) memory_state_def)
    qed simp
  qed
  have "\<not> contentOversightEligibleSql (tb_access t') ''s'' ''v''"
    by (simp add: contentOversightEligibleSql_def active_overseer_sql_def members memory_space_def active_member_def)
  with created_memory_private [OF r kind silent, unfolded owner space] r show ?thesis
    by (fastforce simp: sample_memory_env_def)
qed

end
