(* ===== verification/MemoryDigests.thy ===== *)
theory MemoryDigests
  imports MemoryHistory
begin

text \<open>
  Digests after a memory proposal: the scope of every memory it changed has no digest left that claims to be
  current, and a job to rebuild it is queued.
\<close>

section \<open>Refreshed scopes\<close>

definition current_digest :: "string \<Rightarrow> string \<times> string \<Rightarrow> digest_row \<Rightarrow> bool" where
  "current_digest sp si d \<longleftrightarrow> dg_space_id d = sp \<and> dg_scope_type d = fst si \<and> dg_scope_id d = Some (snd si) \<and>
     dg_digest_type d = fst si \<and> dg_status d = ''active''"

definition rebuilds :: "patterns \<Rightarrow> string \<Rightarrow> string \<times> string \<Rightarrow> job \<Rightarrow> bool" where
  "rebuilds pats sp si j \<longleftrightarrow> jb_job_type j = ''context_digest_refresh'' \<and> jb_space_id j = sp \<and> jb_status j = Pending \<and>
     jb_payload j = sanitizeEvidenceJson pats
       (JObj [(''space_id'', JStr sp), (''digest_type'', JStr (fst si)), (''scope_id'', JStr (snd si))])"

text \<open>Over the jobs added to those of \<open>q\<close>.\<close>

definition refreshing :: "patterns \<Rightarrow> queue \<Rightarrow> string \<Rightarrow> string \<times> string \<Rightarrow> 'x policy_tables_scheme \<Rightarrow> bool" where
  "refreshing pats q sp si t \<longleftrightarrow> (\<forall>d \<in> set (pt_digests t). \<not> current_digest sp si d) \<and>
     (\<exists>js. qu_jobs (pt_queue t) = qu_jobs q @ js \<and> list_ex (rebuilds pats sp si) js)"

definition later :: "queue \<Rightarrow> 'x policy_tables_scheme \<Rightarrow> bool" where
  "later q t \<longleftrightarrow> (\<exists>js. qu_jobs (pt_queue t) = qu_jobs q @ js)"

lemma target_scope_kind: "target_scope d = Some si \<Longrightarrow> fst si \<in> {''workspace'', ''agent''}"
  by (auto simp: target_scope_def split: if_splits)

lemma scope_key_eq:
  assumes "target_scope d = Some (scope, i)" and "target_scope e = Some (scope', i')" and "scope @ '':'' @ i = scope' @ '':'' @ i'"
  shows "(scope, i) = (scope', i')"
  using assms target_scope_kind [OF assms(1)] target_scope_kind [OF assms(2)] by auto

lemma marked_current:
  "d \<in> set (mark_scope_dirty scope sp i reason now ds) \<Longrightarrow> \<not> current_digest sp (scope, i) d"
  unfolding mark_scope_dirty_def sql_update_def set_map
  by (erule imageE) (simp add: current_digest_def split: if_splits)

lemma marked_keeps:
  "d \<in> set (mark_scope_dirty scope sp i reason now ds) \<Longrightarrow> \<forall>d \<in> set ds. \<not> current_digest sp' si d \<Longrightarrow>
     \<not> current_digest sp' si d"
  unfolding mark_scope_dirty_def sql_update_def set_map
  by (erule imageE) (simp add: current_digest_def split: if_splits)

lemma refresh_scope_refreshes:
  assumes "fst si \<in> {''workspace'', ''agent''}" and "later q t"
  shows "refreshing (mv_patterns env) q sp si (refresh_scope env sp u reason si t)"
proof -
  obtain scope i where si: "si = (scope, i)" by (cases si)
  let ?t = "refresh_scope env sp u reason si t"
  have "pt_digests ?t = mark_scope_dirty scope sp i reason (mv_now env) (pt_digests t)"
    using assms(1) by (auto simp: refresh_scope_def si markWorkspaceBundleDirty_def markAgentBundleDirty_def)
  then have "\<forall>d \<in> set (pt_digests ?t). \<not> current_digest sp si d" using marked_current by (simp add: si)
  moreover have "\<exists>js. qu_jobs (pt_queue ?t) = qu_jobs q @ js \<and> list_ex (rebuilds (mv_patterns env) sp si) js"
    using assms(2) by (auto simp: later_def refresh_scope_def si enqueue_def rebuilds_def scope_refresh_job_def)
  ultimately show ?thesis by (simp add: refreshing_def)
qed

lemma refresh_scope_later: "later q t \<Longrightarrow> later q (refresh_scope env sp u reason si t)"
  by (auto simp: later_def refresh_scope_def enqueue_def split: prod.split)

lemma refresh_scope_monotone:
  assumes "refreshing pats q sp si t"
  shows "refreshing pats q sp si (refresh_scope env sp' u reason si' t)"
proof -
  obtain scope i where si': "si' = (scope, i)" by (cases si')
  have "\<forall>d \<in> set (pt_digests (refresh_scope env sp' u reason si' t)). \<not> current_digest sp si d"
    using assms marked_keeps [of _ _ sp' i reason "mv_now env" "pt_digests t" sp si]
    by (cases "scope = ''workspace''")
      (simp_all add: refreshing_def refresh_scope_def si' markWorkspaceBundleDirty_def markAgentBundleDirty_def)
  moreover have "\<exists>js. qu_jobs (pt_queue (refresh_scope env sp' u reason si' t)) = qu_jobs q @ js \<and> list_ex (rebuilds pats sp si) js"
    using assms by (auto simp: refreshing_def refresh_scope_def si' enqueue_def)
  ultimately show ?thesis by (simp add: refreshing_def)
qed

lemma refreshes_monotone:
  "refreshing pats q sp si t \<Longrightarrow> refreshing pats q sp si (markAndEnqueueMemoryDigestRefreshes env sp' u reason seen ds t)"
  by (induction ds arbitrary: seen t) (auto simp: Let_def refresh_scope_monotone split: option.split)

lemma refreshes_targets:
  assumes "d \<in> set ds" and "target_scope d = Some (scope, i)" and "scope @ '':'' @ i \<notin> set seen" and "later q t"
  shows "refreshing (mv_patterns env) q sp (scope, i) (markAndEnqueueMemoryDigestRefreshes env sp u reason seen ds t)"
  using assms
proof (induction ds arbitrary: seen t)
  case (Cons e ds)
  show ?case
  proof (cases "target_scope e")
    case None
    with Cons show ?thesis by auto
  next
    case (Some si')
    obtain scope' i' where si': "si' = (scope', i')" by (cases si')
    let ?k = "scope' @ '':'' @ i'"
    consider (seen) "?k \<in> set seen" | (same) "?k \<notin> set seen" "scope @ '':'' @ i = ?k"
      | (other) "?k \<notin> set seen" "scope @ '':'' @ i \<noteq> ?k" by blast
    then show ?thesis
    proof cases
      case seen
      with Cons.prems Some si' have "d \<in> set ds" by auto
      with Cons.IH [OF _ Cons.prems(2-4)] Some si' seen show ?thesis by (simp add: Let_def)
    next
      case same
      have eq: "(scope, i) = (scope', i')" by (rule scope_key_eq [OF Cons.prems(2) Some [unfolded si'] same(2)])
      have "fst (scope, i) \<in> {''workspace'', ''agent''}" by (rule target_scope_kind [OF Cons.prems(2)])
      from refresh_scope_refreshes [OF this Cons.prems(4)] same eq Some si' show ?thesis
        by (simp add: Let_def refreshes_monotone)
    next
      case other
      have "d \<noteq> e" using other Cons.prems(2) Some si' by auto
      with Cons.prems(1) have "d \<in> set ds" by simp
      moreover have "scope @ '':'' @ i \<notin> set (?k # seen)" using other(2) Cons.prems(3) by simp
      ultimately show ?thesis using Cons.IH [OF _ Cons.prems(2)] Cons.prems(4) other(1) Some si'
        by (simp add: Let_def refresh_scope_later)
    qed
  qed
qed simp

lemma backfill_monotone:
  "refreshing pats q sp si t \<Longrightarrow> refreshing pats q sp si (enqueueMemoryRetrievalEmbeddingBackfill env p u t)"
  by (auto simp: refreshing_def enqueueMemoryRetrievalEmbeddingBackfill_def backfill_never_reused enqueue_def)

lemma derived_targets:
  assumes "d \<in> set (ar_targets res)" and "target_scope d = Some (scope, i)" and "pt_queue (tb_rest t) = q"
  shows "refreshing (mv_patterns env) q (prop_space_id p) (scope, i) (tb_rest (refresh_derived env p u res t))"
proof -
  have "later q (tb_rest t)" by (simp add: later_def assms(3))
  from refreshes_targets [OF assms(1,2) _ this] show ?thesis
    by (simp add: refresh_derived_def Let_def backfill_monotone)
qed

section \<open>The targets of a change\<close>

text \<open>Ids and the names of scopes hold no separator of the keys of targets.\<close>

definition plain_target :: "memory_row \<Rightarrow> bool" where
  "plain_target m \<longleftrightarrow> CHR '':'' \<notin> set (mem_scope_type m) \<and> CHR '':'' \<notin> set (or_value (cn_workspace_id m) [])"

lemma split_key:
  "(xs :: string) @ '':'' @ ys = xs' @ '':'' @ ys' \<Longrightarrow> CHR '':'' \<notin> set xs \<Longrightarrow> CHR '':'' \<notin> set xs' \<Longrightarrow> xs = xs' \<and> ys = ys'"
proof (induction xs arbitrary: xs')
  case Nil
  then show ?case by (cases xs') auto
next
  case (Cons x xs)
  then show ?case by (cases xs') auto
qed

lemma key_scope:
  assumes "target_key (digestTargetForMemory m) = target_key (digestTargetForMemory m')" and "plain_target m" and "plain_target m'"
  shows "target_scope (digestTargetForMemory m) = target_scope (digestTargetForMemory m')"
proof -
  let ?w = "\<lambda>m. or_value (cn_workspace_id m) []" and ?a = "\<lambda>m. or_value (mem_agent_id m) []"
  have filled: "truthy (opt_str x) = (or_value x [] \<noteq> [])" for x by (cases x) (simp_all add: or_value_def)
  from assms have "mem_scope_type m = mem_scope_type m' \<and> ?w m @ '':'' @ ?a m = ?w m' @ '':'' @ ?a m'"
    unfolding target_key_def digestTargetForMemory_def plain_target_def digest_target.simps by (intro split_key) simp_all
  moreover from this assms have "?w m = ?w m' \<and> ?a m = ?a m'"
    unfolding plain_target_def by (intro split_key) simp_all
  ultimately show ?thesis unfolding target_scope_def digestTargetForMemory_def digest_target.simps filled by simp
qed

lemma distinct_targets:
  assumes "d \<in> set ds" and "list_all (\<lambda>e. target_key d = target_key e \<longrightarrow> target_scope e = target_scope d) ds"
  shows "\<exists>e \<in> set (distinctDigestTargets ds). target_scope e = target_scope d"
proof -
  have "target_key d \<in> target_key ` set (distinctDigestTargets ds)"
    using assms(1) by (simp add: distinctDigestTargets_def nub_by_keys)
  then obtain e where e: "e \<in> set (distinctDigestTargets ds)" "target_key d = target_key e" by blast
  moreover from e(1) nub_by_subset have "e \<in> set ds" unfolding distinctDigestTargets_def by fast
  ultimately show ?thesis using assms(2) by (auto simp: list_all_iff)
qed

lemma status_target [simp]: "digestTargetForMemory (set_status st now m) = digestTargetForMemory m"
  by (simp add: digestTargetForMemory_def set_status_def)

lemma status_plain [simp]: "plain_target (set_status st now m) = plain_target m"
  by (simp add: plain_target_def set_status_def)

text \<open>A row that is not in the list it was updated from.\<close>

lemma changed_row:
  assumes "m \<in> set (sql_update (live_memory (cn_id old) sp) (set_status st now) ms)" and "m \<notin> set ms"
    and "old \<in> set ms" and "distinct (map cn_id ms)"
  shows "m = set_status st now old"
proof -
  from assms(1,2) obtain x where x: "x \<in> set ms" "live_memory (cn_id old) sp x" "m = set_status st now x"
    by (auto simp: sql_update_def split: if_splits)
  then have "cn_id x = cn_id old" by (simp add: live_memory_def)
  with x assms(3,4) show ?thesis by (metis distinct_map inj_onD)
qed

lemma applied_targets:
  assumes run: "applyByType env q u t = Inr (res, t1)" and ok: "distinct (map cn_id (mt_memories (tb_rest t)))"
    and m: "m \<in> set (mt_memories (tb_rest t1))" "m \<notin> set (mt_memories (tb_rest t))"
    and plain: "list_all plain_target (mt_memories (tb_rest t1))"
  shows "pt_queue (tb_rest t1) = pt_queue (tb_rest t) \<and>
    (\<exists>d \<in> set (ar_targets res). target_scope d = target_scope (digestTargetForMemory m))"
proof -
  from run consider (create) "applyCreate env q u t = Inr (res, t1)" | (update) "applyUpdate env q u t = Inr (res, t1)"
    | (archive) "applyArchive env q t = Inr (res, t1)" by (auto simp: applyByType_def split: if_splits)
  then show ?thesis
  proof cases
    case create
    then show ?thesis
    proof (cases rule: create_change)
      case (1 vis level sens owner project x)
      with m have "m = x" by auto
      then show ?thesis by (simp add: 1(8,9))
    qed
  next
    case update
    then show ?thesis
    proof (cases rule: update_change)
      case (1 old vis level sens owner project x)
      note target = target_cases [OF 1(1)]
      let ?upd = "sql_update (live_memory (cn_id old) (prop_space_id q)) (set_status ''superseded'' (mv_now_text env))"
      have mems: "mt_memories (tb_rest t1) = ?upd (mt_memories (tb_rest t) @ [x])"
        by (simp add: 1(10) recordMemorySupersedesRelation_def)
      have x: "\<not> live_memory (cn_id old) (prop_space_id q) x"
        using target fresh_row [OF 1(7)] by (metis imageI live_memory_def)
      then have mems': "mt_memories (tb_rest t1) = ?upd (mt_memories (tb_rest t)) @ [x]" by (simp add: mems sql_update_def)
      have d: "digestTargetForMemory m \<in> set [digestTargetForMemory old, digestTargetForMemory x]"
      proof (cases "m = x")
        case False
        with m mems' have "m \<in> set (?upd (mt_memories (tb_rest t)))" by simp
        from changed_row [OF this m(2) _ ok] target show ?thesis by simp
      qed simp
      have "old \<in> set (mt_memories (tb_rest t)) \<Longrightarrow> plain_target old"
      proof -
        assume "old \<in> set (mt_memories (tb_rest t))"
        then have "old \<in> set (?upd (mt_memories (tb_rest t))) \<or> set_status ''superseded'' (mv_now_text env) old \<in> set (?upd (mt_memories (tb_rest t)))"
          by (auto simp: sql_update_def)
        with plain mems' show ?thesis by (auto simp: list_all_iff)
      qed
      with target plain mems' m(1) have "plain_target old" "plain_target x" "plain_target m" by (auto simp: list_all_iff)
      then have "list_all (\<lambda>e. target_key (digestTargetForMemory m) = target_key e \<longrightarrow> target_scope e = target_scope (digestTargetForMemory m))
          [digestTargetForMemory old, digestTargetForMemory x]"
        by (auto dest: key_scope)
      from distinct_targets [OF d this] show ?thesis
        by (simp add: 1(9) 1(10) recordMemorySupersedesRelation_def)
    qed
  next
    case archive
    then show ?thesis
    proof (cases rule: archive_change)
      case (1 old)
      note target = target_cases [OF 1(1)]
      have "m = set_status ''archived'' (mv_now_text env) old"
        using changed_row [OF _ m(2) _ ok] m(1) target by (simp add: 1(6))
      then show ?thesis by (simp add: 1(5,6))
    qed
  qed
qed

end
