(* ===== verification/MemoryGuarantees.thy ===== *)
theory MemoryGuarantees
  imports MemoryProperties MemoryDigests
begin

text \<open>
  What a history of memory proposals keeps, the digests an applied one leaves to be rebuilt, and what is not
  held by the gate. The witnesses run a history on the space with one memory: its owner shares the memory, reads it,
  and then accepts an update of it.
\<close>

section \<open>A history\<close>

definition pending_memory_update :: proposal_row where
  "pending_memory_update =
     \<lparr>prop_id = ''p'', prop_space_id = ''s'', prop_proposal_type = ''memory_update'', prop_title = Some ''title'',
      prop_payload_json = Some [(''target_memory_id'', JStr ''m''), (''content'', JStr ''new''),
        (''provenance_entries'', told_by ''user_confirmed'')],
      prop_workspace_id = Some ''w'', prop_visibility = Some ''space_shared'', prop_created_by_user_id = Some ''o'',
      prop_created_by_run_id = None, prop_project_id = None, prop_status = ''pending'',
      prop_risk_level = Some ''medium'', prop_preview = False, prop_created_by_agent_id = None,
      prop_required_approver_role = Some ''owner'', prop_reviewed_at = None, prop_reviewed_by = None,
      prop_updated_at = 1\<rparr>"

definition pending_content :: content_row where
  "pending_content =
     \<lparr>cn_id = ''p'', cn_space_id = ''s'', cn_owner_user_id = Some ''o'', cn_visibility = ''space_shared'',
      cn_access_level = ''full'', cn_workspace_id = None, cn_project_id = None, cn_status = ''pending'',
      cn_deleted_at = None, cn_sensitivity_level = None, cn_updated_at = ''1''\<rparr>"

definition pending_state :: "(memory_tables, unit) apply_state" where
  "pending_state =
     \<lparr>ss_db = memory_state\<lparr>tb_access := memory_space\<lparr>db_content := (\<lambda>tab.
          if tab = ''memory_entries'' then [content_row.truncate first_memory]
          else if tab = ''proposals'' then [pending_content] else [])\<rparr>,
        tb_proposals := [pending_memory_update]\<rparr>, ss_trail = [], ss_outside = ()\<rparr>"

definition memory_apply_env :: "(memory_tables, unit) apply_env" where
  "memory_apply_env =
     \<lparr>pe_databaseUrl = Some ''db'', pe_audit_db = (\<lambda>_ _. Some ''d''), pe_now_text = ''now'', pe_now = 10,
      pe_registry = server_registry (sample_memory_env ''n'')
        \<lparr>pv_now = 10, pv_policy_id = ''y'', pv_job_id = ''j'', pv_patterns = id\<rparr>
        \<lparr>se_now = 10, se_parse_date = (\<lambda>_. Some 7000)\<rparr>,
      pe_valid_payload = (\<lambda>_ _. True), pe_commits = (\<lambda>_. True), pe_approval_id = ''x'', pe_locked = {}\<rparr>"

definition with_all :: access_update where
  "with_all = \<lparr>au_visibility = ''space_shared'', au_access_level = ''full'', au_grants = []\<rparr>"

definition shared_update :: "http_error + (policy_out \<times> access_db)" where
  "shared_update = updatePolicy (tb_access (ss_db pending_state)) ''s'' ''o'' ''memory'' ''m'' with_all ''t2''"

definition shared_state :: "(memory_tables, unit) apply_state" where
  "shared_state = pending_state\<lparr>ss_db := (ss_db pending_state)\<lparr>
     tb_access := (case shared_update of Inl _ \<Rightarrow> memory_space | Inr (_, db) \<Rightarrow> db),
     tb_rest := (tb_rest (ss_db pending_state))\<lparr>mt_memories :=
       share_memories ''s'' ''memory'' ''m'' with_all ''t2'' (mt_memories (tb_rest (ss_db pending_state)))\<rparr>\<rparr>\<rparr>"

definition read_state :: "(memory_tables, unit) apply_state" where
  "read_state = shared_state\<lparr>ss_db := recordReads [''m''] ''s'' (ss_db shared_state)\<rparr>"

definition accepted_state :: "(memory_tables, unit) apply_state" where
  "accepted_state = snd (accept memory_apply_env ''p'' ''s'' ''o''
     \<lparr>op_confirm_incomplete = False, op_allow_bundle_member = False\<rparr> read_state)"

lemma shared_step: "memory_step pending_state shared_state"
proof -
  have "isl shared_update = False" by code_simp
  then have "Inr (projr shared_update) = shared_update" by (intro sum.collapse(2)) simp
  then obtain out db where upd: "shared_update = Inr (out, db)" by (metis prod.exhaust)
  have checks: "list_all memory_checks (share_memories ''s'' ''memory'' ''m'' with_all ''t2'' (mt_memories (tb_rest (ss_db pending_state))))"
    by code_simp
  from memory_step.sharing [OF upd [unfolded shared_update_def] refl checks] show ?thesis
    by (simp add: shared_state_def upd)
qed

lemma read_step: "memory_step shared_state read_state"
  unfolding read_state_def by (rule memory_step.reading [of _ "[''m'']" "''s''"]) simp

lemma accepted_step: "memory_step read_state accepted_state"
  by (rule memory_step.accepting [of memory_apply_env "sample_memory_env ''n''" _ _ "''p''" "''s''" "''o''"])
    (simp add: memory_apply_env_def, simp add: accepted_state_def prod_eq_iff)

lemma sample_history: "memory_steps pending_state accepted_state"
  using shared_step read_step accepted_step by (meson converse_rtranclp_into_rtranclp r_into_rtranclp)

lemma sample_memories:
  "map (\<lambda>m. (cn_id m, cn_status m, cn_visibility m, mem_access_count m)) (mt_memories (tb_rest (ss_db accepted_state))) =
     [(''m'', ''superseded'', ''space_shared'', 1), (''n'', ''active'', ''space_shared'', 0)]"
  by code_simp

lemma sample_ok: "memory_ok (ss_db pending_state)"
  by code_simp

section \<open>What a history keeps\<close>

text \<open>
  C38: over any history of acceptances, acceptances on grants, rejections, egress approvals, changes of access, seeds,
  imports of publications, reads, links of provenance and work on other tables, the tables of memories stay
  consistent: ids are unique; every row meets the checks of its table; a memory made by a proposal has a link of
  provenance to it; the root of a memory is the id of a memory of the same space that is its own root; a memory that
  supersedes another is in its space and has its root, the other is no longer active, and the relation is recorded; and
  access control reads these rows.
\<close>

theorem memory_invariant:
  assumes "memory_steps s s'" and "memory_ok (ss_db s)"
  shows "memory_ok (ss_db s')"
  using assms by (rule memory_steps_ok)

theorem memory_invariant_witness:
  "memory_ok (ss_db accepted_state) \<and> length (mt_memories (tb_rest (ss_db accepted_state))) = 2"
  using memory_invariant [OF sample_history sample_ok] arg_cong [OF sample_memories, of length] by simp



section \<open>Digests\<close>

text \<open>
  C40: after an applied memory proposal, let a row be new or changed, in a scope that has digests, a workspace or an
  agent. Then no digest of that scope counts as current any more, and among the jobs the proposal added there is one
  to rebuild it. Names of scopes and ids of workspaces hold no colon.
\<close>

theorem digests_refreshed:
  assumes applied: "applyMemoryProposal env p u (t, w) = (Inr result, t', w')"
    and ids: "distinct (map cn_id (mt_memories (tb_rest t)))" and plain: "list_all plain_target (mt_memories (tb_rest t'))"
    and changed: "m \<in> set (mt_memories (tb_rest t'))" "m \<notin> set (mt_memories (tb_rest t))"
    and scope: "target_scope (digestTargetForMemory m) = Some si"
  shows "(\<forall>d \<in> set (pt_digests (tb_rest t')). \<not> current_digest (prop_space_id p) si d) \<and>
    (\<exists>js. qu_jobs (pt_queue (tb_rest t')) = qu_jobs (pt_queue (tb_rest t)) @ js \<and>
      list_ex (rebuilds (mv_patterns env) (prop_space_id p) si) js)"
  using applied
proof (cases rule: applier_cases)
  case a: (applied res0 res payload t1 m0)
  from a(2) obtain q where run: "applyByType env q u t = Inr (res, t1)" by (rule apply_only_cases)
  have rows: "mt_memories (tb_rest t') = mt_memories (tb_rest t1)" by (simp add: a(3))
  obtain scope i where si: "si = (scope, i)" by (cases si)
  from applied_targets [OF run ids changed(1) [unfolded rows] changed(2) plain [unfolded rows]] obtain d where
    queue: "pt_queue (tb_rest t1) = pt_queue (tb_rest t)" and d: "d \<in> set (ar_targets res)" "target_scope d = Some (scope, i)"
    unfolding scope si by blast
  from derived_targets [OF d queue] show ?thesis by (simp add: a(3) si refreshing_def)
qed simp

theorem digests_refreshed_witness:
  "\<exists>result t'. applyMemoryProposal (sample_memory_env ''n'') create_proposal ''o'' (memory_state, ()) = (Inr result, t', ()) \<and>
    (\<forall>d \<in> set (pt_digests (tb_rest t')). \<not> current_digest ''s'' (''workspace'', ''w'') d) \<and>
    (\<exists>js. qu_jobs (pt_queue (tb_rest t')) = js \<and> list_ex (rebuilds id ''s'' (''workspace'', ''w'')) js)"
proof -
  from ran [OF sample_create] obtain result t' where
    r: "applyMemoryProposal (sample_memory_env ''n'') create_proposal ''o'' (memory_state, ()) = (Inr result, t', ())" by auto
  let ?t' = "fst (snd (applyMemoryProposal (sample_memory_env ''n'') create_proposal ''o'' (memory_state, ())))"
  let ?m = "last (mt_memories (tb_rest ?t'))"
  have ids: "distinct (map cn_id (mt_memories (tb_rest memory_state)))" by code_simp
  have plain: "list_all plain_target (mt_memories (tb_rest ?t'))" by code_simp
  have "mt_memories (tb_rest ?t') \<noteq> []" by code_simp
  then have m: "?m \<in> set (mt_memories (tb_rest ?t'))" by simp
  have "cn_id ?m \<notin> set (map cn_id (mt_memories (tb_rest memory_state)))" by code_simp
  then have new: "?m \<notin> set (mt_memories (tb_rest memory_state))" by auto
  have scope: "target_scope (digestTargetForMemory ?m) = Some (''workspace'', ''w'')" by code_simp
  have space: "prop_space_id create_proposal = ''s''" "mv_patterns (sample_memory_env ''n'') = id"
    and jobs: "qu_jobs (pt_queue (tb_rest memory_state)) = []"
    by (simp_all add: create_proposal_def memory_proposal_def sample_memory_env_def memory_state_def)
  from digests_refreshed [OF r ids _ _ new] plain m scope r show ?thesis unfolding space jobs by simp
qed

section \<open>What the gate does not hold\<close>

text \<open>A policy change backed by nothing but an agent's inference: the gate would reject it, and it is applied.\<close>

definition inferred_policy :: jsobj where
  "inferred_policy = [(''name'', JStr ''n''), (''domain'', JStr ''d''), (''provenance_entries'', told_by ''agent_inferred'')]"

lemma policy_change_ungated:
  "mon_action (evaluateMemoryProposal ''policy_change'' inferred_policy ExplicitUserAccept) = MonReject \<and>
   isl (fst (applyPolicyChangeProposal \<lparr>pv_now = 10, pv_policy_id = ''y'', pv_job_id = ''j'', pv_patterns = id\<rparr>
     (memory_proposal ''policy_change'' inferred_policy) ''o'' (memory_state, ()))) = False"
  by code_simp

text \<open>
  A space is seeded with the rule that memory never crosses the boundaries of spaces; a published memory becomes an
  active memory of the space that imports it.
\<close>

lemma published_memory_crosses_spaces:
  "let t = write_memories [first_memory\<lparr>mem_scope_type := ''user''\<rparr>] memory_state
   in case serializeMemory t ''s'' ''m'' of
        Inl _ \<Rightarrow> False
      | Inr (title, snapshot) \<Rightarrow>
          (case importMemorySnapshot (\<lambda>_. True) ''n'' ''now'' ''other'' ''v'' snapshot t of
             Inl _ \<Rightarrow> False
           | Inr t' \<Rightarrow> map (\<lambda>m. (cn_space_id m, cn_status m, mem_content m)) (mt_memories (tb_rest t')) =
               [(''s'', ''active'', ''old''), (''other'', ''active'', ''old'')])"
  by code_simp

end
