(* ===== verification/Spec2Isabelle.thy ===== *)
theory Spec2Isabelle
  imports FinPadding JobInvariants JobWorker PlanApproval ScheduleProofs RunProperties AgentTools ProposalProperties
    MemoryGuarantees
begin

text \<open>
  A model of the decision-making core of agent-space, a server on which people and language-model agents
  share spaces. What an agent does is a \<^emph>\<open>run\<close>; what it may do is asked of the \<^emph>\<open>policy\<close> module; what it
  wants changed durably is a \<^emph>\<open>proposal\<close> that a person decides, or a grant given in advance decides; what
  is to be done later is a row of the \<^emph>\<open>job queue\<close>; what a reader sees is filtered by \<^emph>\<open>content access\<close>;
  larger work is a \<^emph>\<open>plan\<close>, and the finance plugin keeps a Beancount \<^emph>\<open>ledger\<close>. Paths below are relative
  to \<open>src/server/src/modules\<close> unless they start with \<open>packages\<close> or \<open>plugins\<close>.

  How the parts interact. A tool call of an agent goes through the system action gateway, which asks the
  policy engine and writes the answer to the audit table before the executor runs; a proposal action
  stores a proposal; deciding it asks the policy gate for the deciding user's role and runs the applier of
  its type in one transaction; appliers write their own tables and enqueue jobs; a job worker claims jobs
  and runs handlers; the handler of an agent run routes the run to a runtime and ends it; the supervisor
  then retries it or holds it for a review, within the caps of the run's contract.

  \<^bold>\<open>Foundations.\<close>
  \<^item> \<open>Prelude\<close>: strings, decimal numerals, first-match search, error sums, the collections of facts.
  \<^item> \<open>JsValue\<close>: the JSON values behind \<open>unknown\<close> and their coercions; \<open>StableSort\<close>: \<open>Array.prototype.sort\<close>
    and the contract of a comparator (locale \<open>comparator\<close>, interpreted for every order that is used);
    \<open>SqlTable\<close>: \<open>UPDATE\<close>, \<open>RETURNING\<close> and upserts on lists of rows; \<open>AsyncIo\<close>: asynchronous functions as
    state transformers with errors; \<open>Calendar\<close>: the Gregorian calendar of \<open>Date\<close>.

  \<^bold>\<open>Policy\<close> (\<open>policy/\<close>, \<open>packages/protocol/src/policy.ts\<close>). \<open>PolicyTypes\<close> has the values, \<open>PolicyRegistry\<close>
  the action registry entry by entry, \<open>PolicyRules\<close> the rules and hard invariants of \<open>decisionCore.ts\<close>,
  \<open>PolicyEngine\<close> what they grant, as an abstract specification and the proof that the engine refines it,
  \<open>PolicySanitizer\<close> the metadata sanitizer with its bounds, \<open>PolicyGateway\<close> the guard contexts and the
  proposal gate with its approval matrix, \<open>PolicyService\<close> enforcement and the audit row it must write
  first (locale \<open>audit_sink\<close>).

  \<^bold>\<open>System actions and tools.\<close> \<open>SystemActions\<close> is \<open>packages/protocol/src/systemActions.ts\<close> and the dispatcher
  \<open>systemActions/gateway.ts\<close>; \<open>AgentTools\<close> is \<open>systemActions/agentToolGateway.ts\<close>, with the proof that no
  proposal action takes effect without an audited decision that allows it.

  \<^bold>\<open>Proposals.\<close> \<open>ApprovalGrants\<close> is \<open>policy/actionApprovalGrantService.ts\<close> with the invariant of its table;
  \<open>ProposalTables\<close> and \<open>ProposalApply\<close> are the rows and the operations of \<open>proposals/applyService.ts\<close> and
  of the registry of appliers; \<open>ProposalDecisions\<close> states the contract of an applier (locale
  \<open>governed_appliers\<close>) and every operation's outcome on every branch under it; \<open>ProposalHistory\<close> is the step
  relation over all statements on proposals, approvals and grants (decisions, new proposals, and the changes of who
  reads a proposal, which no decision stops), with the invariant that relates uses, approvals and decided proposals;
  \<open>PolicyChange\<close> and \<open>SourceActivation\<close> are appliers that meet the contract; \<open>ProposalProperties\<close> has the
  properties.

  \<^bold>\<open>Memories\<close> (\<open>memory/\<close>, \<open>proposals/applierRegistry.ts\<close>, \<open>context/digestService.ts\<close>). \<open>MemoryMonitoring\<close> is
  the gate on what a proposal declares as its sources, with the one rule it comes to; \<open>MemoryApply\<close> the tables
  of memories, provenance and relations with their constraints, and the statements on them; \<open>MemoryProposals\<close>
  the creation, update and archival of a memory, the digests they make dirty and the jobs they enqueue (the
  backfill of embeddings is \<open>EmbeddingJobs\<close>), which makes three more appliers; \<open>MemoryChanges\<close> what each leaves
  in the tables. \<open>ProposalInvariants\<close> shows once what every decision on a proposal keeps, given that the
  appliers keep it (locale \<open>table_invariant\<close>); \<open>MemoryInvariants\<close> and \<open>MemoryHistory\<close> interpret it with the
  consistency and the growth of the tables of memories, over histories in which access changes as well, and in which
  the other writers of memories act (\<open>MemoryWriters\<close>: the seeds of \<open>spaces/spaceSeeds.ts\<close>, the imports of
  \<open>publications/publicationRegistry.ts\<close>, and the reads that four repositories count);
  \<open>MemoryDigests\<close>, \<open>MemoryProperties\<close> and \<open>MemoryGuarantees\<close> have the digests and the properties.

  \<^bold>\<open>Jobs\<close> (\<open>jobs/\<close>). \<open>JobQueue\<close> is the repository, one definition per statement, with \<open>SKIP LOCKED\<close> as the
  set of locked ids; \<open>JobInvariants\<close> the lifecycle of a row, the table invariant, the numbering of grants
  and recovery, under every interleaving of statements; \<open>JobWorker\<close> the registry, the worker and its
  alerts, for arbitrary handlers. \<open>EvidenceRedaction\<close> is what both redact.

  \<^bold>\<open>Runs\<close> (\<open>runs/\<close>, \<open>routing/\<close>, \<open>runtimeAdapters/specs.ts\<close>). \<open>RunBudget\<close> merges the carriers of a contract,
  \<open>AdapterSpecs\<close> and \<open>Router\<close> choose a runtime, \<open>RouteRuns\<close> reads the candidates and records the route,
  \<open>RunTables\<close>, \<open>RunLifecycle\<close>, \<open>RunCreate\<close> and \<open>RunSupervisor\<close> are the rows and operations, \<open>RunWriters\<close>
  the writers of runs outside the repository (coordinators of plans and workflow executions, daily reports) and the
  system runs, \<open>RunHistory\<close> the step relation over all of them and the queue's own updates, \<open>RunProperties\<close> its
  properties.

  \<^bold>\<open>Access\<close> (\<open>access/\<close>, \<open>memory/memoryReadAuth.ts\<close>). \<open>AccessPolicy\<close> is the rule in TypeScript with its
  abstract specification, \<open>AccessSql\<close> the second copy of the rule that \<open>contentAccessSql.ts\<close> writes in SQL
  and the proof that the copies agree, \<open>AccessService\<close> the updates and what they leave unchanged.

  \<^bold>\<open>Plans and schedules.\<close> \<open>PlanGraph\<close> is the workflow refinement (\<open>packages/protocol/src/workflows.ts\<close>) and
  the materialisation of \<open>plans/graph.ts\<close>, \<open>PlanWalk\<close> the correctness of its two walks, \<open>PlanApproval\<close> when
  a plan starts without a review; \<open>Schedule\<close> is \<open>automations/schedule.ts\<close> and \<open>ScheduleProofs\<close> that the
  next instant is the earliest one.

  \<^bold>\<open>Ledger\<close> (\<open>plugins/official/finance_ledger/server/src\<close>). \<open>FinDecimal\<close>, \<open>FinPosition\<close>, \<open>FinEntries\<close>,
  \<open>FinTransaction\<close> and \<open>FinLedger\<close> follow \<open>domain/\<close> and \<open>beancount/\<close>: exact decimals and their printing,
  positions and inventories, the order of entries, weighing and interpolation, validation and padding;
  \<open>FinPadding\<close> shows what padding achieves in the sorted ledger it returns.

  \<^bold>\<open>Correspondence.\<close> A definition carries the name of the function it translates, in its spelling where the
  name is free. Records are the rows and interfaces, errors are values of sum types, every operation takes
  and returns its state, and tables are lists in insertion order. Operations that suspend between
  statements are sequences of steps in the histories, so other operations may come between them. Each history has a
  step for every statement of the program on its tables; a last step stands for all other work, which leaves these
  tables as they are and is not restricted otherwise.

  \<^bold>\<open>Bounds and fuel.\<close> The walks over a plan graph recurse to the depth \<open>walk_bound\<close>, which exceeds the number
  of nodes, and \<open>PlanWalk\<close> proves that it is never reached; the search of a schedule is bounded by the
  code's own \<open>MAX_SEARCH_MINUTES\<close>; decimals are bounded by the code's own scale limit; the sanitizer's
  budgets are the code's. No other recursion has fuel: it is structural or has a measure.

  \<^bold>\<open>Parameters\<close> stand for what is not in the repository or is not determined by it: the answer of the
  database to an audit insert and to \<open>COMMIT\<close>; ids and clock readings; the rows other transactions hold
  locked; the collation and the substitutions of regular expressions; the schema library's check of a
  payload; the foreign keys of a memory into tables that are not modelled; the time zone table; \<open>Number(s)\<close> and \<open>Date.parse\<close> on texts; the rounding of doubles; executors,
  handlers and appliers that are not modelled, as arbitrary functions. No hypothesis is made on them other
  than those in the statements.

  \<^bold>\<open>Not modelled\<close>: the web client; HTTP routes and the mapping of rows to JSON; the repositories that only
  assemble SQL; adapters, tools and workspaces, which start processes; model providers, retrieval and
  embedding; source connectors and parsers of third-party formats; research orchestration and evolution,
  which depend on the output of language models; the rollback of an applied code patch, which runs git; the
  index of retrieval, which an applied memory rebuilds in a savepoint of its own, and the locks on digests; a rollback
  of outside effects that fails itself (its error is swallowed and the effects stay);
  authentication, backups and notifications. They are I/O around external systems, and the decisions taken
  inside them go through the parts modelled here.

  \<^bold>\<open>What modelling showed.\<close> A wait for dependencies consumes an attempt of a run (\<open>RunProperties\<close>); one
  permitted proposal action makes all of them callable (\<open>AgentTools\<close>); a later routing hint can weaken an
  earlier one and no stored local runtime serves high-risk work (\<open>Router\<close>, \<open>RouteRuns\<close>); a guard context
  can replace the action it is about (\<open>PolicyGateway\<close>); the draft of a source channel is compared without
  its milliseconds (\<open>SourceActivation\<close>); a superseded memory can be updated again, which leaves two active
  versions of it (\<open>MemoryProperties\<close>); a waiting backfill of embeddings is never reused (\<open>EmbeddingJobs\<close>);
  the gate on sources is not asked about policies, and a published memory does cross to another space
  (\<open>MemoryGuarantees\<close>); the run of a daily report that was cancelled becomes succeeded (\<open>RunProperties\<close>); and a pad
  that the next assertion does not need can break it later (\<open>FinPadding\<close>).
\<close>

end
